(* ===== verification/Prelude.thy ===== *)
theory Prelude
  imports Complex_Main "HOL-Library.Char_ord" "HOL-Library.List_Lexorder"
begin

text \<open>
  Shared vocabulary of the development: the Python string operations the code uses, ceiling
  division of token counts, the decimal rendering of integers, and the row tables that stand
  for the database.  A Python string is a \<^typ>\<open>string\<close> whose characters are the code points below
  256; the predicates below give Python's answers on that range.
\<close>

named_theorems pystr_simps "equations of the Python string operations"
named_theorems table_simps "equations of the row tables"
named_theorems table_intros "membership and frame facts of the row tables"

type_synonym microseconds = int
type_synonym identity = int

section \<open>Python strings\<close>

definition py_space :: "char \<Rightarrow> bool" where
  "py_space c \<longleftrightarrow> (let n = (of_char c :: nat) in
     (9 \<le> n \<and> n \<le> 13) \<or> (28 \<le> n \<and> n \<le> 32) \<or> n = 133 \<or> n = 160)"

definition py_lower_char :: "char \<Rightarrow> char" where
  "py_lower_char c = (let n = (of_char c :: nat) in
     if (65 \<le> n \<and> n \<le> 90) \<or> (192 \<le> n \<and> n \<le> 222 \<and> n \<noteq> 215) then char_of (n + 32) else c)"

definition py_digit :: "char \<Rightarrow> bool" where
  "py_digit c \<longleftrightarrow> (let n = (of_char c :: nat) in
     (48 \<le> n \<and> n \<le> 57) \<or> n = 178 \<or> n = 179 \<or> n = 185)"

definition py_upper_letter :: "char \<Rightarrow> bool" where
  "py_upper_letter c \<longleftrightarrow> (let n = (of_char c :: nat) in
     (65 \<le> n \<and> n \<le> 90) \<or> (192 \<le> n \<and> n \<le> 222 \<and> n \<noteq> 215))"

definition py_alnum :: "char \<Rightarrow> bool" where
  "py_alnum c \<longleftrightarrow> (let n = (of_char c :: nat) in
     (48 \<le> n \<and> n \<le> 57) \<or> (65 \<le> n \<and> n \<le> 90) \<or> (97 \<le> n \<and> n \<le> 122)
     \<or> n = 170 \<or> n = 178 \<or> n = 179 \<or> n = 181 \<or> n = 185 \<or> n = 186 \<or> (188 \<le> n \<and> n \<le> 190)
     \<or> (192 \<le> n \<and> n \<noteq> 215 \<and> n \<noteq> 247))"

definition py_lstrip :: "string \<Rightarrow> string" where
  "py_lstrip s = dropWhile py_space s"

definition py_rstrip :: "string \<Rightarrow> string" where
  "py_rstrip s = rev (dropWhile py_space (rev s))"

definition py_strip :: "string \<Rightarrow> string" where
  "py_strip s = py_rstrip (py_lstrip s)"

definition py_lower :: "string \<Rightarrow> string" where
  "py_lower s = map py_lower_char s"

definition py_norm :: "string \<Rightarrow> string" where
  "py_norm s = py_lower (py_strip s)"

fun py_split :: "char \<Rightarrow> string \<Rightarrow> string list" where
  "py_split sep [] = [[]]"
| "py_split sep (c # cs) =
     (if c = sep then [] # py_split sep cs
      else (case py_split sep cs of [] \<Rightarrow> [[c]] | w # ws \<Rightarrow> (c # w) # ws))"

fun py_join :: "string \<Rightarrow> string list \<Rightarrow> string" where
  "py_join sep [] = []"
| "py_join sep [w] = w"
| "py_join sep (w # v # ws) = w @ sep @ py_join sep (v # ws)"

text \<open>\<open>value or None\<close> on strings: the empty string is falsy.\<close>

definition py_or_none :: "string \<Rightarrow> string option" where
  "py_or_none s = (if s = [] then None else Some s)"

definition py_or_empty :: "string option \<Rightarrow> string" where
  "py_or_empty s = (case s of None \<Rightarrow> [] | Some t \<Rightarrow> t)"

lemma length_dropWhile_rev_le: "length (dropWhile P s) \<le> length s"
  by (induction s) auto

lemma length_rstrip_le [pystr_simps]: "length (py_rstrip s) \<le> length s"
  using length_dropWhile_rev_le [of py_space "rev s"] by (simp add: py_rstrip_def)

lemma length_strip_le [pystr_simps]: "length (py_strip s) \<le> length s"
  using length_rstrip_le [of "py_lstrip s"] length_dropWhile_rev_le [of py_space s]
  by (simp add: py_strip_def py_lstrip_def)

lemma rstrip_Nil [simp]: "py_rstrip [] = []"
  by (simp add: py_rstrip_def)

lemma strip_Nil [simp]: "py_strip [] = []"
  by (simp add: py_strip_def py_lstrip_def)

lemma lower_Nil [simp]: "py_lower [] = []"
  by (simp add: py_lower_def)

lemma norm_Nil [simp]: "py_norm [] = []"
  by (simp add: py_norm_def)

lemma length_lower [pystr_simps, simp]: "length (py_lower s) = length s"
  by (simp add: py_lower_def)

lemma rstrip_snoc [pystr_simps]:
  "py_rstrip (s @ [c]) = (if py_space c then py_rstrip s else s @ [c])"
  by (simp add: py_rstrip_def)

lemma rstrip_idem [simp]: "py_rstrip (py_rstrip s) = py_rstrip s"
  by (induction s rule: rev_induct) (auto simp: rstrip_snoc)

lemma rstrip_cases: "\<exists>t. s = py_rstrip s @ t \<and> (\<forall>c \<in> set t. py_space c)"
proof -
  have "rev s = takeWhile py_space (rev s) @ dropWhile py_space (rev s)" by simp
  then have "s = rev (dropWhile py_space (rev s)) @ rev (takeWhile py_space (rev s))"
    by (metis rev_append rev_rev_ident)
  then show ?thesis
    by (intro exI [of _ "rev (takeWhile py_space (rev s))"])
      (auto simp: py_rstrip_def dest: set_takeWhileD)
qed

lemma lstrip_rstrip: "py_lstrip (py_rstrip (py_lstrip s)) = py_rstrip (py_lstrip s)"
proof (cases "py_lstrip s")
  case Nil
  then have "py_rstrip (py_lstrip s) = []" by simp
  then show ?thesis by (simp add: py_lstrip_def)
next
  case (Cons c cs)
  then have c: "\<not> py_space c"
    by (metis py_lstrip_def hd_dropWhile list.distinct(1) list.sel(1))
  obtain t where t: "c # cs = py_rstrip (c # cs) @ t" "\<forall>x \<in> set t. py_space x"
    using rstrip_cases [of "c # cs"] by blast
  show ?thesis
  proof (cases "py_rstrip (c # cs)")
    case Nil
    with t c show ?thesis by (metis append_Nil list.set_intros(1))
  next
    case (Cons d ds)
    with t(1) have "d = c" by simp
    with Cons c \<open>py_lstrip s = c # cs\<close> show ?thesis by (simp add: py_lstrip_def)
  qed
qed

lemma strip_idem [simp]: "py_strip (py_strip s) = py_strip s"
  by (simp add: py_strip_def lstrip_rstrip)

lemma lower_char_space [simp]: "py_space (py_lower_char c) = py_space c"
  by (auto simp: py_space_def py_lower_char_def Let_def)

lemma lower_char_idem [simp]: "py_lower_char (py_lower_char c) = py_lower_char c"
  by (auto simp: py_lower_char_def Let_def)

lemma dropWhile_map_lower:
  "dropWhile py_space (map py_lower_char s) = map py_lower_char (dropWhile py_space s)"
  by (induction s) auto

lemma strip_lower: "py_strip (py_lower s) = py_lower (py_strip s)"
  by (simp add: py_strip_def py_lstrip_def py_rstrip_def py_lower_def dropWhile_map_lower
      rev_map)

lemma lower_idem [simp]: "py_lower (py_lower s) = py_lower s"
  by (simp add: py_lower_def comp_def)

lemma norm_idem [simp]: "py_norm (py_norm s) = py_norm s"
  by (simp add: py_norm_def strip_lower)

lemma strip_norm [simp]: "py_strip (py_norm s) = py_norm s"
  by (simp add: py_norm_def strip_lower)

section \<open>Decimal rendering of integers\<close>

text \<open>\<open>str(n)\<close> and \<open>int(s)\<close> on the decimal rendering of an integer.\<close>

fun nat_digits :: "nat \<Rightarrow> nat list" where
  "nat_digits n = (if n < 10 then [n] else nat_digits (n div 10) @ [n mod 10])"

declare nat_digits.simps [simp del]

definition str_nat :: "nat \<Rightarrow> string" where
  "str_nat n = map (\<lambda>d. char_of (48 + d)) (nat_digits n)"

definition str_int :: "int \<Rightarrow> string" where
  "str_int i = (if i < 0 then CHR ''-'' # str_nat (nat (- i)) else str_nat (nat i))"

definition nat_str :: "string \<Rightarrow> nat" where
  "nat_str s = foldl (\<lambda>n c. 10 * n + (of_char c - 48)) 0 s"

definition int_str :: "string \<Rightarrow> int" where
  "int_str s = (case s of c # cs \<Rightarrow> (if c = CHR ''-'' then - int (nat_str cs) else int (nat_str s))
                | [] \<Rightarrow> 0)"

lemma nat_digits_small: "d \<in> set (nat_digits n) \<Longrightarrow> d < 10"
  by (induction n arbitrary: d rule: nat_digits.induct)
    (subst (asm) (2) nat_digits.simps, auto split: if_splits)

lemma nat_digits_nonempty [simp]: "nat_digits n \<noteq> []"
  by (subst nat_digits.simps) simp

lemma nat_str_snoc: "nat_str (s @ [c]) = 10 * nat_str s + (of_char c - 48)"
  by (simp add: nat_str_def)

lemma nat_str_str_nat [simp]: "nat_str (str_nat n) = n"
proof (induction n rule: nat_digits.induct)
  case (1 n)
  show ?case
  proof (cases "n < 10")
    case True
    then show ?thesis by (simp add: str_nat_def nat_str_def nat_digits.simps [of n])
  next
    case False
    then have "str_nat n = str_nat (n div 10) @ [char_of (48 + n mod 10)]"
      by (simp add: str_nat_def nat_digits.simps [of n])
    moreover have "of_char (char_of (48 + n mod 10) :: char) = (48 + n mod 10 :: nat)"
    proof -
      have "48 + n mod 10 < (256::nat)" using mod_less_divisor [of 10 n] by linarith
      then show ?thesis by simp
    qed
    ultimately show ?thesis using False 1 by (simp add: nat_str_snoc)
  qed
qed

lemma str_nat_no_minus: "str_nat n \<noteq> [] \<and> hd (str_nat n) \<noteq> CHR ''-''"
proof -
  have "hd (nat_digits n) < 10" by (rule nat_digits_small [of _ n]) simp
  then have "of_char (char_of (48 + hd (nat_digits n)) :: char) \<noteq> (45 :: nat)" by simp
  moreover have "(of_char (CHR ''-'') :: nat) = 45" by simp
  ultimately have "(char_of (48 + hd (nat_digits n)) :: char) \<noteq> CHR ''-''" by metis
  then show ?thesis by (simp add: str_nat_def hd_map)
qed

lemma int_str_str_int [simp]: "int_str (str_int i) = i"
  using str_nat_no_minus [of "nat i"] nat_str_str_nat [of "nat i"]
  by (cases "str_nat (nat i)") (auto simp: str_int_def int_str_def)

lemma str_int_nonempty [simp]: "str_int i \<noteq> []"
  using str_nat_no_minus by (simp add: str_int_def)

section \<open>Ceiling division\<close>

definition ceil_div :: "int \<Rightarrow> int \<Rightarrow> int" where
  "ceil_div n k = (n + k - 1) div k"

lemma ceil_div_le: "0 < k \<Longrightarrow> n \<le> b * k \<Longrightarrow> ceil_div n k \<le> b"
proof -
  assume k: "0 < k" and n: "n \<le> b * k"
  have "(n + k - 1) div k \<le> (b * k + (k - 1)) div k"
    by (rule zdiv_mono1) (use n k in auto)
  also have "\<dots> = b" using k by (simp add: div_pos_pos_trivial)
  finally show ?thesis by (simp add: ceil_div_def)
qed

lemma ceil_div_ge: "0 < k \<Longrightarrow> n \<le> ceil_div n k * k"
proof -
  assume k: "0 < k"
  have "(n + k - 1) mod k < k" using k by simp
  moreover have "(n + k - 1) div k * k + (n + k - 1) mod k = n + k - 1"
    by (simp add: mult_div_mod_eq)
  ultimately show ?thesis unfolding ceil_div_def by linarith
qed

lemma ceil_div_nonneg: "0 < k \<Longrightarrow> 0 \<le> n \<Longrightarrow> 0 \<le> ceil_div n k"
  by (simp add: ceil_div_def pos_imp_zdiv_nonneg_iff)

lemma ceil_div_mono: "0 < k \<Longrightarrow> m \<le> n \<Longrightarrow> ceil_div m k \<le> ceil_div n k"
  by (simp add: ceil_div_def zdiv_mono1)

lemma ceil_div_0 [simp]: "0 < k \<Longrightarrow> ceil_div 0 k = 0"
  by (simp add: ceil_div_def div_pos_pos_trivial)

section \<open>Row tables\<close>

text \<open>
  A database table is the list of its rows in insertion order.  \<open>select ... where P\<close> with
  \<open>scalars().first()\<close> or \<open>scalar_one_or_none()\<close> on a unique key is \<^const>\<open>find\<close>, an update
  replaces the rows that satisfy its predicate.
\<close>

definition update_where :: "('r \<Rightarrow> bool) \<Rightarrow> ('r \<Rightarrow> 'r) \<Rightarrow> 'r list \<Rightarrow> 'r list" where
  "update_where P f rows = map (\<lambda>r. if P r then f r else r) rows"

definition get_by :: "('r \<Rightarrow> 'k) \<Rightarrow> 'k \<Rightarrow> 'r list \<Rightarrow> 'r option" where
  "get_by key k rows = find (\<lambda>r. key r = k) rows"

definition set_by :: "('r \<Rightarrow> 'k) \<Rightarrow> 'k \<Rightarrow> ('r \<Rightarrow> 'r) \<Rightarrow> 'r list \<Rightarrow> 'r list" where
  "set_by key k f rows = update_where (\<lambda>r. key r = k) f rows"

lemma find_SomeD: "find P xs = Some x \<Longrightarrow> x \<in> set xs \<and> P x"
  by (induction xs) (auto split: if_splits)

lemma find_append [table_simps]:
  "find P (xs @ ys) = (case find P xs of Some x \<Rightarrow> Some x | None \<Rightarrow> find P ys)"
  by (induction xs) auto

lemma find_map_stable:
  "(\<And>r. r \<in> set rows \<Longrightarrow> Q (g r) = Q r) \<Longrightarrow> find Q (map g rows) = map_option g (find Q rows)"
  by (induction rows) auto

lemma set_update_where: "r \<in> set (update_where P f rows) \<Longrightarrow>
    (r \<in> set rows \<and> \<not> P r) \<or> (\<exists>r0 \<in> set rows. P r0 \<and> r = f r0)"
  by (auto simp: update_where_def)

lemma length_update_where [table_simps, simp]: "length (update_where P f rows) = length rows"
  by (simp add: update_where_def)

lemma map_update_where [table_simps]:
  "(\<And>r. P r \<Longrightarrow> h (f r) = h r) \<Longrightarrow> map h (update_where P f rows) = map h rows"
  by (simp add: update_where_def)

lemma get_by_set_by_same [table_simps]:
  "(\<And>r. key (f r) = key r) \<Longrightarrow> get_by key k (set_by key k f rows) = map_option f (get_by key k rows)"
  by (induction rows) (auto simp: get_by_def set_by_def update_where_def)

lemma get_by_set_by_other [table_simps]:
  "(\<And>r. key (f r) = key r) \<Longrightarrow> k' \<noteq> k \<Longrightarrow> get_by key k' (set_by key k f rows) = get_by key k' rows"
  by (induction rows) (auto simp: get_by_def set_by_def update_where_def)

lemma get_by_SomeD: "get_by key k rows = Some r \<Longrightarrow> r \<in> set rows \<and> key r = k"
  unfolding get_by_def by (rule find_SomeD)

lemma get_by_distinct:
  "distinct (map key rows) \<Longrightarrow> r \<in> set rows \<Longrightarrow> get_by key (key r) rows = Some r"
  by (induction rows) (auto simp: get_by_def)

lemma set_by_keys [table_simps]:
  "(\<And>r. key (f r) = key r) \<Longrightarrow> map key (set_by key k f rows) = map key rows"
  by (simp add: set_by_def map_update_where)

text \<open>
  The contract of a keyed table: what a row lookup returns after a keyed update whose function
  keeps the key.  The clients' frame facts (any sequence of updates at other keys leaves a row
  as it was) are proved once from the contract.
\<close>

locale keyed_table =
  fixes fetch :: "'k \<Rightarrow> 's \<Rightarrow> 'r option"
    and modify :: "'k \<Rightarrow> ('r \<Rightarrow> 'r) \<Rightarrow> 's \<Rightarrow> 's"
    and keeps :: "('r \<Rightarrow> 'r) \<Rightarrow> bool"
  assumes fetch_modify_same: "keeps f \<Longrightarrow> fetch k (modify k f s) = map_option f (fetch k s)"
    and fetch_modify_other: "keeps f \<Longrightarrow> k' \<noteq> k \<Longrightarrow> fetch k' (modify k f s) = fetch k' s"
begin

lemma fetch_modify:
  "keeps f \<Longrightarrow> fetch k' (modify k f s) = (if k' = k then map_option f (fetch k s) else fetch k' s)"
  by (simp add: fetch_modify_same fetch_modify_other)

lemma fold_frame:
  assumes "\<forall>(k, f) \<in> set us. keeps f \<and> k \<noteq> k'"
  shows "fetch k' (fold (\<lambda>(k, f). modify k f) us s) = fetch k' s"
  using assms by (induction us arbitrary: s) (auto simp: fetch_modify_other)

lemma modify_twice:
  assumes "keeps f" and "keeps g"
  shows "fetch k (modify k g (modify k f s)) = map_option g (map_option f (fetch k s))"
  using assms by (simp add: fetch_modify_same)

end

definition keeps_key :: "('r \<Rightarrow> 'k) \<Rightarrow> ('r \<Rightarrow> 'r) \<Rightarrow> bool" where
  "keeps_key key f \<longleftrightarrow> (\<forall>r. key (f r) = key r)"

interpretation rows: keyed_table "get_by key" "set_by key" "keeps_key key" for key
  by unfold_locales (simp_all add: keeps_key_def table_simps)

section \<open>JSON values\<close>

datatype json =
    JNull | JBool bool | JInt int | JFloat rat | JStr string | JList "json list"
  | JObj "(string \<times> json) list"

section \<open>Machines that end once\<close>

text \<open>
  The contract of an operation that moves something into a terminal state: it only succeeds in a
  state that is not closed, its success closes the state, and in a closed state it changes nothing.
  However many callers race for the end, and in whatever order their calls are serialized, at most
  one of them wins, and what the winner left behind stays.
\<close>

fun run_results :: "('c \<Rightarrow> 's \<Rightarrow> 'r \<times> 's) \<Rightarrow> 'c list \<Rightarrow> 's \<Rightarrow> 'r list \<times> 's" where
  "run_results exec [] s = ([], s)"
| "run_results exec (c # cs) s =
     (case exec c s of (r, s') \<Rightarrow> (case run_results exec cs s' of (rs, t) \<Rightarrow> (r # rs, t)))"

locale terminal_machine =
  fixes exec :: "'c \<Rightarrow> 's \<Rightarrow> 'r \<times> 's"
    and wins :: "'r \<Rightarrow> bool"
    and closed :: "'s \<Rightarrow> bool"
  assumes win_closes: "exec c s = (r, s') \<Longrightarrow> wins r \<Longrightarrow> \<not> closed s \<and> closed s'"
    and closed_stays: "closed s \<Longrightarrow> snd (exec c s) = s"
begin

lemma closed_run:
  "closed s \<Longrightarrow> snd (run_results exec cs s) = s \<and> filter wins (fst (run_results exec cs s)) = []"
proof (induction cs)
  case (Cons c cs)
  have "snd (exec c s) = s" using Cons.prems by (rule closed_stays)
  moreover have "\<not> wins (fst (exec c s))" using win_closes [of c s] Cons.prems by (metis prod.collapse)
  ultimately show ?case using Cons by (auto split: prod.splits)
qed simp

lemma at_most_one_win: "length (filter wins (fst (run_results exec cs s))) \<le> 1"
proof (induction cs arbitrary: s)
  case (Cons c cs)
  obtain r s' where e: "exec c s = (r, s')" by fastforce
  show ?case
  proof (cases "wins r")
    case True
    then have "closed s'" using win_closes [OF e] by simp
    then show ?thesis using closed_run [of s' cs] e by (auto split: prod.splits)
  next
    case False
    then show ?thesis using Cons [of s'] e by (auto split: prod.splits)
  qed
qed simp

lemma winner_stays:
  assumes "exec c s = (r, s')" and "wins r"
  shows "snd (run_results exec (c # cs) s) = s'"
  using closed_run [of s' cs] win_closes [OF assms] assms(1) by (auto split: prod.splits)

end

end
