(* ===== verification/Capabilities.thy ===== *)
theory Capabilities
  imports Prelude
begin

text \<open>
  The capability contract of \<^verbatim>\<open>domains/governance/capabilities.py\<close>: the capability enumeration,
  principals, tenant-bound grants, the static role and bot-scope grants, the role decision and
  the derivation of an execution's least privilege.  The constructors of
  \<^verbatim>\<open>authority_error\<close> are the exceptions of the source.
\<close>

section \<open>Data\<close>

datatype capability =
    ORGANIZATION_READ | ORGANIZATION_UPDATE
  | MEMBER_INVITE | MEMBER_REMOVE | MEMBER_MANAGE
  | BOT_READ | BOT_CREATE | BOT_UPDATE | BOT_DELETE
  | DOCUMENT_READ | DOCUMENT_UPLOAD | DOCUMENT_DELETE
  | CONVERSATION_READ | CONVERSATION_CREATE | CONVERSATION_DELETE
  | MEMORY_READ | MEMORY_WRITE | MEMORY_DELETE
  | USAGE_READ | SECRET_MANAGE | PROVIDER_EXECUTE
  | TOOL_EXECUTE_STANDARD | TOOL_EXECUTE_ELEVATED

definition all_capabilities :: "capability list" where
  "all_capabilities =
    [ORGANIZATION_READ, ORGANIZATION_UPDATE, MEMBER_INVITE, MEMBER_REMOVE, MEMBER_MANAGE,
     BOT_READ, BOT_CREATE, BOT_UPDATE, BOT_DELETE, DOCUMENT_READ, DOCUMENT_UPLOAD,
     DOCUMENT_DELETE, CONVERSATION_READ, CONVERSATION_CREATE, CONVERSATION_DELETE,
     MEMORY_READ, MEMORY_WRITE, MEMORY_DELETE, USAGE_READ, SECRET_MANAGE, PROVIDER_EXECUTE,
     TOOL_EXECUTE_STANDARD, TOOL_EXECUTE_ELEVATED]"

lemma all_capabilities_complete [simp]: "c \<in> set all_capabilities"
  by (cases c) (simp_all add: all_capabilities_def)

instantiation capability :: enum
begin

definition enum_capability :: "capability list" where
  "enum_capability = all_capabilities"

definition enum_all_capability :: "(capability \<Rightarrow> bool) \<Rightarrow> bool" where
  "enum_all_capability P \<longleftrightarrow> list_all P all_capabilities"

definition enum_ex_capability :: "(capability \<Rightarrow> bool) \<Rightarrow> bool" where
  "enum_ex_capability P \<longleftrightarrow> list_ex P all_capabilities"

instance
  by standard
    (auto simp: enum_capability_def enum_all_capability_def enum_ex_capability_def
      list_all_iff list_ex_iff, auto simp: all_capabilities_def)

end

fun capability_value :: "capability \<Rightarrow> string" where
  "capability_value ORGANIZATION_READ = ''organization:read''"
| "capability_value ORGANIZATION_UPDATE = ''organization:update''"
| "capability_value MEMBER_INVITE = ''member:invite''"
| "capability_value MEMBER_REMOVE = ''member:remove''"
| "capability_value MEMBER_MANAGE = ''member:manage''"
| "capability_value BOT_READ = ''bot:read''"
| "capability_value BOT_CREATE = ''bot:create''"
| "capability_value BOT_UPDATE = ''bot:update''"
| "capability_value BOT_DELETE = ''bot:delete''"
| "capability_value DOCUMENT_READ = ''document:read''"
| "capability_value DOCUMENT_UPLOAD = ''document:upload''"
| "capability_value DOCUMENT_DELETE = ''document:delete''"
| "capability_value CONVERSATION_READ = ''conversation:read''"
| "capability_value CONVERSATION_CREATE = ''conversation:create''"
| "capability_value CONVERSATION_DELETE = ''conversation:delete''"
| "capability_value MEMORY_READ = ''memory:read''"
| "capability_value MEMORY_WRITE = ''memory:write''"
| "capability_value MEMORY_DELETE = ''memory:delete''"
| "capability_value USAGE_READ = ''usage:read''"
| "capability_value SECRET_MANAGE = ''secret:manage''"
| "capability_value PROVIDER_EXECUTE = ''provider:execute''"
| "capability_value TOOL_EXECUTE_STANDARD = ''tool:execute:standard''"
| "capability_value TOOL_EXECUTE_ELEVATED = ''tool:execute:elevated''"

datatype principal_type = USER | ORGANIZATION | BOT | EXECUTION

record principal =
  p_kind :: principal_type
  p_identifier :: string
  p_organization_id :: identity

datatype authority_error = ValueError | PermissionError

definition mk_principal :: "principal_type \<Rightarrow> string \<Rightarrow> identity \<Rightarrow> authority_error + principal" where
  "mk_principal kind identifier org =
     (if identifier = [] \<or> org \<le> 0 then Inl ValueError
      else Inr \<lparr>p_kind = kind, p_identifier = identifier, p_organization_id = org\<rparr>)"

record capability_set =
  cs_principal :: principal
  cs_capabilities :: "capability set"

definition capability_set_allows :: "capability_set \<Rightarrow> capability \<Rightarrow> identity \<Rightarrow> bool" where
  "capability_set_allows g c org \<longleftrightarrow>
     org = p_organization_id (cs_principal g) \<and> c \<in> cs_capabilities g"

text \<open>A \<open>Capability | str\<close> argument, and the decision that reports it.\<close>

datatype capability_arg = Known capability | Named string

record capability_decision =
  cd_allowed :: bool
  cd_capability :: capability_arg
  cd_reason :: string

section \<open>Static grants\<close>

definition owner_grants :: "capability set" where
  "owner_grants = set all_capabilities"

definition admin_grants :: "capability set" where
  "admin_grants = owner_grants - {ORGANIZATION_UPDATE, MEMBER_MANAGE, SECRET_MANAGE}"

definition member_grants :: "capability set" where
  "member_grants = {BOT_READ, DOCUMENT_READ, DOCUMENT_UPLOAD, CONVERSATION_READ,
     CONVERSATION_CREATE, CONVERSATION_DELETE, MEMORY_READ, MEMORY_WRITE, MEMORY_DELETE,
     USAGE_READ, PROVIDER_EXECUTE, TOOL_EXECUTE_STANDARD}"

definition viewer_grants :: "capability set" where
  "viewer_grants = {BOT_READ, DOCUMENT_READ, CONVERSATION_READ, MEMORY_READ}"

definition role_capabilities :: "string \<Rightarrow> capability set option" where
  "role_capabilities = map_of
     [(''owner'', owner_grants), (''admin'', admin_grants),
      (''member'', member_grants), (''viewer'', viewer_grants)]"

definition bot_scope_capabilities :: "string \<Rightarrow> capability set option" where
  "bot_scope_capabilities = map_of
     [(''restricted'', {PROVIDER_EXECUTE}),
      (''standard'', {PROVIDER_EXECUTE, TOOL_EXECUTE_STANDARD}),
      (''elevated'', {PROVIDER_EXECUTE, TOOL_EXECUTE_STANDARD, TOOL_EXECUTE_ELEVATED})]"

section \<open>Decisions\<close>

definition capability_of_value :: "string \<Rightarrow> capability option" where
  "capability_of_value s = find (\<lambda>c. capability_value c = s) all_capabilities"

fun coerce_capability :: "capability_arg \<Rightarrow> capability option" where
  "coerce_capability (Known c) = Some c"
| "coerce_capability (Named s) = capability_of_value s"

fun capability_arg_str :: "capability_arg \<Rightarrow> string" where
  "capability_arg_str (Known c) = capability_value c"
| "capability_arg_str (Named s) = s"

definition decide_role_capability ::
    "string \<Rightarrow> capability_arg \<Rightarrow> identity \<Rightarrow> identity \<Rightarrow> capability_decision" where
  "decide_role_capability role capability principal_org resource_org =
     (case coerce_capability capability of
        None \<Rightarrow> \<lparr>cd_allowed = False, cd_capability = Named (capability_arg_str capability),
                 cd_reason = ''unknown_capability''\<rparr>
      | Some parsed \<Rightarrow>
          (if principal_org \<noteq> resource_org
           then \<lparr>cd_allowed = False, cd_capability = Known parsed, cd_reason = ''tenant_mismatch''\<rparr>
           else (case role_capabilities (py_norm role) of
                   None \<Rightarrow> \<lparr>cd_allowed = False, cd_capability = Known parsed,
                            cd_reason = ''unknown_role''\<rparr>
                 | Some grants \<Rightarrow>
                     (if parsed \<notin> grants
                      then \<lparr>cd_allowed = False, cd_capability = Known parsed,
                            cd_reason = ''capability_not_granted''\<rparr>
                      else \<lparr>cd_allowed = True, cd_capability = Known parsed,
                            cd_reason = ''granted''\<rparr>))))"

definition derive_execution_capabilities ::
    "capability_set \<Rightarrow> principal \<Rightarrow> string \<Rightarrow> capability set \<Rightarrow> string
     \<Rightarrow> authority_error + capability_set" where
  "derive_execution_capabilities user_grant bot_principal bot_scope requested execution_id =
     (if p_kind (cs_principal user_grant) \<noteq> USER then Inl ValueError
      else if p_kind bot_principal \<noteq> BOT then Inl ValueError
      else if p_organization_id (cs_principal user_grant) \<noteq> p_organization_id bot_principal
        then Inl PermissionError
      else
        let bot_grants = (case bot_scope_capabilities (py_norm bot_scope) of
                            None \<Rightarrow> {} | Some g \<Rightarrow> g);
            effective = requested \<inter> cs_capabilities user_grant \<inter> bot_grants
        in (case mk_principal EXECUTION execution_id (p_organization_id bot_principal) of
              Inl e \<Rightarrow> Inl e
            | Inr ex \<Rightarrow> Inr \<lparr>cs_principal = ex, cs_capabilities = effective\<rparr>))"

section \<open>Lemmas\<close>

lemma capability_value_inj: "capability_value c = capability_value d \<Longrightarrow> c = d"
  by (cases c; cases d) simp_all

lemma capability_of_value_value [simp]: "capability_of_value (capability_value c) = Some c"
  by (cases c) (simp_all add: capability_of_value_def all_capabilities_def)

lemma capability_of_value_SomeD: "capability_of_value s = Some c \<Longrightarrow> capability_value c = s"
  unfolding capability_of_value_def by (drule find_SomeD) simp

lemma member_grants_admin: "member_grants \<subseteq> admin_grants"
  by (auto simp: member_grants_def admin_grants_def owner_grants_def)

lemma viewer_grants_member: "viewer_grants \<subseteq> member_grants"
  by (auto simp: viewer_grants_def member_grants_def)

lemma admin_grants_owner: "admin_grants \<subseteq> owner_grants"
  by (auto simp: admin_grants_def)

lemma role_capabilities_cases:
  "role_capabilities r = Some g \<Longrightarrow>
     (r = ''owner'' \<and> g = owner_grants) \<or> (r = ''admin'' \<and> g = admin_grants)
     \<or> (r = ''member'' \<and> g = member_grants) \<or> (r = ''viewer'' \<and> g = viewer_grants)"
  by (auto simp: role_capabilities_def split: if_splits)

lemma decide_allowed_iff:
  "cd_allowed (decide_role_capability role cap porg rorg) \<longleftrightarrow>
     porg = rorg \<and> (\<exists>c g. coerce_capability cap = Some c
        \<and> role_capabilities (py_norm role) = Some g \<and> c \<in> g)"
  by (auto simp: decide_role_capability_def split: option.splits)

lemma decide_allowed_capability:
  "cd_allowed (decide_role_capability role cap porg rorg) \<Longrightarrow>
     \<exists>c. coerce_capability cap = Some c
       \<and> cd_capability (decide_role_capability role cap porg rorg) = Known c
       \<and> cd_reason (decide_role_capability role cap porg rorg) = ''granted''"
  by (auto simp: decide_role_capability_def split: option.splits if_splits)

lemma derive_InrD:
  assumes "derive_execution_capabilities ug bp scope req ex = Inr g"
  shows "cs_capabilities g \<subseteq> req" and "cs_capabilities g \<subseteq> cs_capabilities ug"
    and "cs_capabilities g \<subseteq> (case bot_scope_capabilities (py_norm scope) of None \<Rightarrow> {} | Some b \<Rightarrow> b)"
    and "p_kind (cs_principal g) = EXECUTION"
    and "p_organization_id (cs_principal g) = p_organization_id (cs_principal ug)"
    and "p_organization_id (cs_principal g) = p_organization_id bp"
    and "0 < p_organization_id (cs_principal g)"
  using assms
  by (auto simp: derive_execution_capabilities_def mk_principal_def Let_def
      split: if_splits sum.splits)

lemma norm_role_names:
  "py_norm ''viewer'' = ''viewer''" "py_norm ''member'' = ''member''"
  "py_norm ''admin'' = ''admin''" "py_norm ''owner'' = ''owner''"
  by code_simp+

lemma role_capabilities_names:
  "role_capabilities ''owner'' = Some owner_grants"
  "role_capabilities ''admin'' = Some admin_grants"
  "role_capabilities ''member'' = Some member_grants"
  "role_capabilities ''viewer'' = Some viewer_grants"
  by (simp_all add: role_capabilities_def)

lemma role_decision_mono:
  assumes "py_norm r = r" and "py_norm r' = r'"
    and "role_capabilities r = Some g" and "role_capabilities r' = Some g'" and "g \<subseteq> g'"
    and "cd_allowed (decide_role_capability r cap porg rorg)"
  shows "cd_allowed (decide_role_capability r' cap porg rorg)"
  using assms by (auto simp: decide_allowed_iff)

lemma role_grants_decision:
  "py_norm r = r \<Longrightarrow> role_capabilities r = Some g \<Longrightarrow>
     cd_allowed (decide_role_capability r (Known c) org org) \<longleftrightarrow> c \<in> g"
  by (simp add: decide_allowed_iff)

lemma admin_owner_gap:
  "{c. \<not> cd_allowed (decide_role_capability ''admin'' (Known c) org org)
       \<and> cd_allowed (decide_role_capability ''owner'' (Known c) org org)}
     = {ORGANIZATION_UPDATE, MEMBER_MANAGE, SECRET_MANAGE}"
  by (simp only: role_grants_decision [OF norm_role_names(3) role_capabilities_names(2)]
      role_grants_decision [OF norm_role_names(4) role_capabilities_names(1)])
    (auto simp: admin_grants_def owner_grants_def)

section \<open>Properties\<close>

text \<open>Roles are ordered by authority: whatever a viewer may do a member may do, whatever a
  member may do an admin may do, and whatever an admin may do an owner may do, for every
  capability and pair of organizations; updating the organization, managing members and managing
  secrets stay with the owner.\<close>

theorem role_authority_monotone:
  "(cd_allowed (decide_role_capability ''viewer'' cap porg rorg)
      \<le> cd_allowed (decide_role_capability ''member'' cap porg rorg)) \<and>
   (cd_allowed (decide_role_capability ''member'' cap porg rorg)
      \<le> cd_allowed (decide_role_capability ''admin'' cap porg rorg)) \<and>
   (cd_allowed (decide_role_capability ''admin'' cap porg rorg)
      \<le> cd_allowed (decide_role_capability ''owner'' cap porg rorg)) \<and>
   {c. \<not> cd_allowed (decide_role_capability ''admin'' (Known c) porg porg)
       \<and> cd_allowed (decide_role_capability ''owner'' (Known c) porg porg)}
     = {ORGANIZATION_UPDATE, MEMBER_MANAGE, SECRET_MANAGE}"
  using role_decision_mono [OF norm_role_names(1,2) role_capabilities_names(4,3) viewer_grants_member]
    role_decision_mono [OF norm_role_names(2,3) role_capabilities_names(3,2) member_grants_admin]
    role_decision_mono [OF norm_role_names(3,4) role_capabilities_names(2,1) admin_grants_owner]
  unfolding le_bool_def admin_owner_gap by blast

text \<open>An execution grant is least privilege: it carries only requested capabilities held by
  both the user and the bot's scope, it is bound to the one tenant they share, it is an execution
  principal, and a bot outside the elevated scope never hands elevated tool use to it.\<close>

theorem execution_grant_least_privilege:
  assumes "derive_execution_capabilities user_grant bot_principal bot_scope requested ex = Inr g"
  shows "cs_capabilities g \<subseteq> requested \<inter> cs_capabilities user_grant
    \<and> p_kind (cs_principal g) = EXECUTION
    \<and> p_organization_id (cs_principal g) = p_organization_id (cs_principal user_grant)
    \<and> p_organization_id (cs_principal g) = p_organization_id bot_principal
    \<and> (TOOL_EXECUTE_ELEVATED \<in> cs_capabilities g \<longrightarrow> py_norm bot_scope = ''elevated'')
    \<and> (\<forall>c org. capability_set_allows g c org \<longrightarrow> org = p_organization_id (cs_principal user_grant))"
proof -
  note d = derive_InrD [OF assms]
  have "py_norm bot_scope = ''elevated''" if "TOOL_EXECUTE_ELEVATED \<in> cs_capabilities g"
    using d(3) that by (auto simp: bot_scope_capabilities_def split: if_splits)
  then show ?thesis
    using d(1,2,4,5,6) by (auto simp: capability_set_allows_def)
qed

theorem execution_grant_least_privilege_witness:
  "\<exists>g. derive_execution_capabilities
          \<lparr>cs_principal = \<lparr>p_kind = USER, p_identifier = ''7'', p_organization_id = 3\<rparr>,
           cs_capabilities = member_grants\<rparr>
          \<lparr>p_kind = BOT, p_identifier = ''9'', p_organization_id = 3\<rparr>
          '' Standard '' {PROVIDER_EXECUTE, TOOL_EXECUTE_ELEVATED} ''ex'' = Inr g
        \<and> cs_capabilities g \<subseteq> {PROVIDER_EXECUTE, TOOL_EXECUTE_ELEVATED} \<inter> member_grants
        \<and> PROVIDER_EXECUTE \<in> cs_capabilities g"
proof -
  let ?ug = "\<lparr>cs_principal = \<lparr>p_kind = USER, p_identifier = ''7'', p_organization_id = 3\<rparr>,
           cs_capabilities = member_grants\<rparr>"
  let ?bp = "\<lparr>p_kind = BOT, p_identifier = ''9'', p_organization_id = (3::int)\<rparr>"
  have norm: "py_norm '' Standard '' = ''standard''" by code_simp
  obtain g where g: "derive_execution_capabilities ?ug ?bp '' Standard ''
      {PROVIDER_EXECUTE, TOOL_EXECUTE_ELEVATED} ''ex'' = Inr g"
    by (simp add: derive_execution_capabilities_def mk_principal_def)
  moreover have "PROVIDER_EXECUTE \<in> cs_capabilities g"
    using g by (auto simp: derive_execution_capabilities_def mk_principal_def norm
        bot_scope_capabilities_def member_grants_def)
  ultimately show ?thesis
    using execution_grant_least_privilege [OF g] by auto
qed

end
