(* ===== verification/Identity.thy ===== *)
theory Identity
  imports Capabilities
begin

text \<open>
  Identities, organizations and the authorization boundary: the tables of
  \<^verbatim>\<open>domains/identity/models.py\<close> and \<^verbatim>\<open>domains/organizations/models.py\<close> with their unique and
  foreign keys, registration, login and the request dependencies of \<^verbatim>\<open>api/v1/auth.py\<close>, the
  endpoints of \<^verbatim>\<open>api/v1/organizations.py\<close>, and \<^verbatim>\<open>AuthorizationBoundary.authorize\<close> of
  \<^verbatim>\<open>application/authorization.py\<close>.  Password hashing (passlib) and the JWT codec (PyJWT) are
  third-party: they are the parameters \<open>hash\<close>, \<open>verify\<close> and \<open>decode\<close>.
\<close>

section \<open>Dynamic values, errors and tables\<close>

datatype pyval = PNone | PBool bool | PInt int | PStr string

datatype api_error = HTTPException int string | ServerError string

text \<open>\<open>isinstance(v, int)\<close> holds of booleans too; \<open>type(v) is int\<close> does not.\<close>

fun isinstance_int :: "pyval \<Rightarrow> int option" where
  "isinstance_int (PInt i) = Some i"
| "isinstance_int (PBool b) = Some (if b then 1 else 0)"
| "isinstance_int _ = None"

fun type_is_int :: "pyval \<Rightarrow> int option" where
  "type_is_int (PInt i) = Some i"
| "type_is_int _ = None"

fun py_str :: "pyval \<Rightarrow> string" where
  "py_str PNone = ''None''"
| "py_str (PBool b) = (if b then ''True'' else ''False'')"
| "py_str (PInt i) = str_int i"
| "py_str (PStr s) = s"

record user =
  u_id :: identity
  u_email :: string
  u_name :: "string option"
  u_username :: "string option"
  u_password_hash :: "string option"
  u_role :: string
  u_is_enabled :: bool
  u_token_version :: int

record organization =
  o_id :: identity
  o_name :: string
  o_slug :: "string option"

record member =
  m_id :: identity
  m_organization_id :: identity
  m_user_id :: identity
  m_role :: string

record identity_db =
  users :: "user list"
  organizations :: "organization list"
  members :: "member list"
  next_id :: identity

definition insert_user :: "identity_db \<Rightarrow> user \<Rightarrow> api_error + user \<times> identity_db" where
  "insert_user db u =
     (let u' = u\<lparr>u_id := next_id db\<rparr> in
      if \<exists>v \<in> set (users db). u_email v = u_email u
           \<or> (u_username u \<noteq> None \<and> u_username v = u_username u)
      then Inl (ServerError ''IntegrityError'')
      else Inr (u', db\<lparr>users := users db @ [u'], next_id := next_id db + 1\<rparr>))"

definition insert_organization ::
    "identity_db \<Rightarrow> string \<Rightarrow> string option \<Rightarrow> api_error + organization \<times> identity_db" where
  "insert_organization db name slug =
     (let new = \<lparr>o_id = next_id db, o_name = name, o_slug = slug\<rparr> in
      if \<exists>x \<in> set (organizations db). o_name x = name \<or> (slug \<noteq> None \<and> o_slug x = slug)
      then Inl (ServerError ''IntegrityError'')
      else Inr (new, db\<lparr>organizations := organizations db @ [new], next_id := next_id db + 1\<rparr>))"

definition insert_member ::
    "identity_db \<Rightarrow> identity \<Rightarrow> identity \<Rightarrow> string \<Rightarrow> api_error + member \<times> identity_db" where
  "insert_member db org uid role =
     (let new = \<lparr>m_id = next_id db, m_organization_id = org, m_user_id = uid, m_role = role\<rparr> in
      if (\<exists>m \<in> set (members db). m_user_id m = uid \<and> m_organization_id m = org)
         \<or> org \<notin> o_id ` set (organizations db) \<or> uid \<notin> u_id ` set (users db)
      then Inl (ServerError ''IntegrityError'')
      else Inr (new, db\<lparr>members := members db @ [new], next_id := next_id db + 1\<rparr>))"

definition find_membership :: "identity_db \<Rightarrow> identity \<Rightarrow> identity \<Rightarrow> member option" where
  "find_membership db uid org =
     find (\<lambda>m. m_user_id m = uid \<and> m_organization_id m = org) (members db)"

section \<open>Authorization boundary\<close>

record auth_context =
  ac_user :: principal
  ac_organization :: principal
  ac_role :: string
  ac_decision :: capability_decision

datatype authorization_error =
    AuthorizationDenied string capability_arg
  | AuthorizationValueError

definition ac_organization_id :: "auth_context \<Rightarrow> identity" where
  "ac_organization_id ac = p_organization_id (ac_organization ac)"

definition ac_user_id :: "auth_context \<Rightarrow> identity" where
  "ac_user_id ac = int_str (p_identifier (ac_user ac))"

definition authorize ::
    "identity_db \<Rightarrow> pyval \<Rightarrow> pyval \<Rightarrow> capability_arg \<Rightarrow> identity option
     \<Rightarrow> authorization_error + auth_context" where
  "authorize db user_id organization_id capability resource_organization_id =
     (case isinstance_int user_id of
        None \<Rightarrow> Inl (AuthorizationDenied ''invalid_identity'' capability)
      | Some uid \<Rightarrow> if uid \<le> 0 then Inl (AuthorizationDenied ''invalid_identity'' capability) else
     (case isinstance_int organization_id of
        None \<Rightarrow> Inl (AuthorizationDenied ''invalid_tenant'' capability)
      | Some org \<Rightarrow> if org \<le> 0 then Inl (AuthorizationDenied ''invalid_tenant'' capability) else
     (case find_membership db uid org of
        None \<Rightarrow> Inl (AuthorizationDenied ''membership_not_found'' capability)
      | Some membership \<Rightarrow>
          let resource_org = (case resource_organization_id of None \<Rightarrow> org | Some r \<Rightarrow> r);
              decision = decide_role_capability (m_role membership) capability org resource_org
          in if \<not> cd_allowed decision
             then Inl (AuthorizationDenied (cd_reason decision) (cd_capability decision))
             else (case mk_principal USER (py_str user_id) org of
                     Inl _ \<Rightarrow> Inl AuthorizationValueError
                   | Inr u \<Rightarrow> (case mk_principal ORGANIZATION (py_str organization_id) org of
                       Inl _ \<Rightarrow> Inl AuthorizationValueError
                     | Inr ou \<Rightarrow> Inr \<lparr>ac_user = u, ac_organization = ou,
                                      ac_role = py_norm (m_role membership),
                                      ac_decision = decision\<rparr>)))))"

section \<open>Request dependencies\<close>

type_synonym claims = "string \<Rightarrow> pyval option"

definition claim :: "claims \<Rightarrow> string \<Rightarrow> pyval" where
  "claim p k = (case p k of None \<Rightarrow> PNone | Some v \<Rightarrow> v)"

record user_context =
  uc_email :: string
  uc_user_id :: identity
  uc_role :: pyval
  uc_organization_id :: identity
  uc_jti :: string
  uc_token_version :: int
  uc_authorization :: "auth_context option"

fun nonempty_str :: "pyval \<Rightarrow> string option" where
  "nonempty_str (PStr s) = (if s = [] then None else Some s)"
| "nonempty_str _ = None"

definition positive_int :: "pyval \<Rightarrow> int option" where
  "positive_int v = (case type_is_int v of None \<Rightarrow> None | Some i \<Rightarrow> if i \<le> 0 then None else Some i)"

definition credentials_exception :: api_error where
  "credentials_exception = HTTPException 401 ''Could not validate credentials''"

definition get_current_user :: "('t \<Rightarrow> claims option) \<Rightarrow> 't \<Rightarrow> api_error + user_context" where
  "get_current_user decode token =
     (case decode token of
        None \<Rightarrow> Inl credentials_exception
      | Some payload \<Rightarrow>
          (case (nonempty_str (claim payload ''sub''), positive_int (claim payload ''user_id''),
                 positive_int (claim payload ''organization_id''),
                 positive_int (claim payload ''token_version''),
                 nonempty_str (claim payload ''jti'')) of
             (Some email, Some uid, Some org, Some version, Some jti) \<Rightarrow>
               Inr \<lparr>uc_email = email, uc_user_id = uid,
                    uc_role = (case payload ''role'' of None \<Rightarrow> PStr ''member'' | Some r \<Rightarrow> r),
                    uc_organization_id = org, uc_jti = jti, uc_token_version = version,
                    uc_authorization = None\<rparr>
           | _ \<Rightarrow> Inl credentials_exception))"

definition get_current_active_organization ::
    "identity_db \<Rightarrow> user_context \<Rightarrow> api_error + identity" where
  "get_current_active_organization db ctx =
     (if uc_organization_id ctx = 0 \<or> uc_user_id ctx = 0
      then Inl (HTTPException 403 ''Invalid organization context'')
      else (case find_membership db (uc_user_id ctx) (uc_organization_id ctx) of
        None \<Rightarrow> Inl (HTTPException 403 ''User is not a member of this organization'')
      | Some _ \<Rightarrow>
          (case get_by u_id (uc_user_id ctx) (users db) of
             None \<Rightarrow> Inl (HTTPException 401 ''Identity is inactive'')
           | Some u \<Rightarrow>
               (if \<not> u_is_enabled u then Inl (HTTPException 401 ''Identity is inactive'')
                else if uc_token_version ctx \<noteq> u_token_version u
                  then Inl (HTTPException 401 ''Token has been revoked'')
                else Inr (uc_organization_id ctx)))))"

definition require_permission ::
    "identity_db \<Rightarrow> string \<Rightarrow> user_context \<Rightarrow> api_error + user_context" where
  "require_permission db permission ctx =
     (if uc_user_id ctx = 0 \<or> uc_organization_id ctx = 0
      then Inl (HTTPException 403 ''Invalid organization context'')
      else (case authorize db (PInt (uc_user_id ctx)) (PInt (uc_organization_id ctx))
                   (Named permission) (Some (uc_organization_id ctx)) of
        Inl (AuthorizationDenied _ _) \<Rightarrow>
          Inl (HTTPException 403 (''Permission denied: missing required permission ''
            @ [CHR 0x27] @ permission @ [CHR 0x27]))
      | Inl AuthorizationValueError \<Rightarrow> Inl (ServerError ''ValueError'')
      | Inr ac \<Rightarrow> Inr (ctx\<lparr>uc_role := PStr (ac_role ac), uc_authorization := Some ac\<rparr>)))"

section \<open>Registration, login, tokens\<close>

definition organization_name_for :: "string \<Rightarrow> string" where
  "organization_name_for email = takeWhile (\<lambda>c. c \<noteq> CHR ''@'') email @ [CHR 0x27] @ ''s Organization''"

definition slug_for :: "string \<Rightarrow> string" where
  "slug_for name = map (\<lambda>c. if c = CHR '' '' then CHR ''-'' else c) (py_lower name)"

definition register_user ::
    "bool \<Rightarrow> (string \<Rightarrow> string) \<Rightarrow> identity_db \<Rightarrow> string \<Rightarrow> string \<Rightarrow> string option
     \<Rightarrow> api_error + user \<times> identity_db" where
  "register_user allow_public_register hash db email password full_name =
     (if \<not> allow_public_register
      then Inl (HTTPException 403 ''Public registration is disabled.'')
      else if \<exists>u \<in> set (users db). u_email u = email
      then Inl (HTTPException 400 ''Email already registered'')
      else (case insert_user db \<lparr>u_id = 0, u_email = email, u_name = full_name,
                  u_username = Some email, u_password_hash = Some (hash password),
                  u_role = ''member'', u_is_enabled = True, u_token_version = 1\<rparr> of
        Inl e \<Rightarrow> Inl e
      | Inr (u, db1) \<Rightarrow>
          (case insert_organization db1 (organization_name_for email)
                  (Some (slug_for (organization_name_for email))) of
             Inl e \<Rightarrow> Inl e
           | Inr (og, db2) \<Rightarrow>
               (case insert_member db2 (o_id og) (u_id u) ''owner'' of
                  Inl e \<Rightarrow> Inl e
                | Inr (_, db3) \<Rightarrow> Inr (u, db3)))))"

definition verify_password :: "(string \<Rightarrow> string \<Rightarrow> bool option) \<Rightarrow> string \<Rightarrow> string \<Rightarrow> bool" where
  "verify_password verify plain hashed = (case verify plain hashed of None \<Rightarrow> False | Some b \<Rightarrow> b)"

definition create_access_token ::
    "string \<Rightarrow> string \<Rightarrow> int \<Rightarrow> microseconds \<Rightarrow> string \<Rightarrow> claims \<Rightarrow> claims" where
  "create_access_token issuer audience expire_minutes now jti data =
     data(''exp'' \<mapsto> PInt (now + expire_minutes * 60 * 1000000), ''iat'' \<mapsto> PInt now,
          ''jti'' \<mapsto> PStr jti, ''iss'' \<mapsto> PStr issuer, ''aud'' \<mapsto> PStr audience,
          ''token_version'' \<mapsto> (case data ''token_version'' of None \<Rightarrow> PInt 1 | Some v \<Rightarrow> v))"

definition login_claims :: "user \<Rightarrow> member \<Rightarrow> claims" where
  "login_claims u m = map_of
     [(''sub'', PStr (u_email u)), (''user_id'', PInt (u_id u)), (''role'', PStr (m_role m)),
      (''organization_id'', PInt (m_organization_id m)), (''token_version'', PInt (u_token_version u))]"

definition login ::
    "(string \<Rightarrow> string \<Rightarrow> bool option) \<Rightarrow> string \<Rightarrow> (claims \<Rightarrow> claims) \<Rightarrow> identity_db \<Rightarrow> string \<Rightarrow> string
     \<Rightarrow> api_error + claims" where
  "login verify dummy_hash make_token db username password =
     (let found = find (\<lambda>u. u_email u = username \<or> u_username u = Some username) (users db);
          usable = (case found of None \<Rightarrow> None
                    | Some u \<Rightarrow> (case u_password_hash u of None \<Rightarrow> None
                        | Some h \<Rightarrow> if u_is_enabled u \<and> h \<noteq> [] then Some (u, h) else None));
          candidate_hash = (case usable of None \<Rightarrow> dummy_hash | Some (_, h) \<Rightarrow> h);
          password_valid = verify_password verify password candidate_hash
      in (case usable of
            None \<Rightarrow> Inl (HTTPException 401 ''Incorrect email or password'')
          | Some (u, _) \<Rightarrow>
              if \<not> password_valid then Inl (HTTPException 401 ''Incorrect email or password'')
              else (case find (\<lambda>m. m_user_id m = u_id u) (members db) of
                      None \<Rightarrow> Inl (HTTPException 403 ''User has no organization membership'')
                    | Some m \<Rightarrow> Inr (make_token (login_claims u m)))))"

section \<open>Organization endpoints\<close>

definition create_organization ::
    "identity_db \<Rightarrow> user_context \<Rightarrow> string \<Rightarrow> string \<Rightarrow> api_error + organization \<times> identity_db" where
  "create_organization db ctx name slug =
     (case insert_organization db name (Some slug) of
        Inl e \<Rightarrow> Inl e
      | Inr (og, db1) \<Rightarrow>
          (case insert_member db1 (o_id og) (uc_user_id ctx) ''owner'' of
             Inl e \<Rightarrow> Inl e
           | Inr (_, db2) \<Rightarrow> Inr (og, db2)))"

definition list_organizations :: "identity_db \<Rightarrow> user_context \<Rightarrow> organization list" where
  "list_organizations db ctx =
     concat (map (\<lambda>og. map (\<lambda>_. og)
        (filter (\<lambda>m. m_organization_id m = o_id og \<and> m_user_id m = uc_user_id ctx) (members db)))
        (organizations db))"

section \<open>Invariant of the tables\<close>

text \<open>The keys of the schema: unique identities, e-mails, user names, organization names, slugs and
  memberships, and memberships that refer to existing rows.\<close>

definition identity_wf :: "identity_db \<Rightarrow> bool" where
  "identity_wf db \<longleftrightarrow>
     distinct (map u_id (users db)) \<and> distinct (map u_email (users db))
     \<and> distinct (map o_id (organizations db)) \<and> distinct (map o_name (organizations db))
     \<and> distinct (map (\<lambda>m. (m_user_id m, m_organization_id m)) (members db))
     \<and> (\<forall>u \<in> set (users db). 0 < u_id u \<and> u_id u < next_id db \<and> u_email u \<noteq> []
            \<and> 0 < u_token_version u)
     \<and> (\<forall>x \<in> set (organizations db). 0 < o_id x \<and> o_id x < next_id db)
     \<and> (\<forall>m \<in> set (members db). m_user_id m \<in> u_id ` set (users db)
            \<and> m_organization_id m \<in> o_id ` set (organizations db))
     \<and> 0 < next_id db"

lemma insert_user_wf:
  assumes "insert_user db u = Inr (u', db')" and "identity_wf db"
    and "u_email u \<noteq> []" and "0 < u_token_version u"
  shows "identity_wf db'"
  using assms by (fastforce simp: insert_user_def identity_wf_def Let_def split: if_splits)

lemma insert_organization_wf:
  assumes "insert_organization db n s = Inr (og, db')" and "identity_wf db"
  shows "identity_wf db'"
  using assms by (fastforce simp: insert_organization_def identity_wf_def Let_def split: if_splits)

lemma insert_member_wf:
  assumes "insert_member db g uid r = Inr (m, db')" and "identity_wf db"
  shows "identity_wf db'"
  using assms by (fastforce simp: insert_member_def identity_wf_def Let_def split: if_splits)

lemma find_membershipD:
  "find_membership db uid org = Some m \<Longrightarrow>
     m \<in> set (members db) \<and> m_user_id m = uid \<and> m_organization_id m = org"
  unfolding find_membership_def by (drule find_SomeD) simp

lemma find_membershipI:
  "m \<in> set (members db) \<Longrightarrow> m_user_id m = uid \<Longrightarrow> m_organization_id m = org \<Longrightarrow>
     find_membership db uid org \<noteq> None"
  by (auto simp: find_membership_def find_None_iff)

lemma positive_int_PInt [simp]: "positive_int (PInt i) = (if i \<le> 0 then None else Some i)"
  by (simp add: positive_int_def)

lemma positive_int_SomeD: "positive_int v = Some i \<Longrightarrow> v = PInt i \<and> 0 < i"
  by (cases v) (auto simp: positive_int_def split: if_splits)

lemma get_current_user_InrD:
  "get_current_user decode t = Inr ctx \<Longrightarrow>
     0 < uc_user_id ctx \<and> 0 < uc_organization_id ctx \<and> 0 < uc_token_version ctx
     \<and> uc_authorization ctx = None"
  by (auto simp: get_current_user_def dest!: positive_int_SomeD
      split: option.splits prod.splits)

lemma authorize_InrD:
  assumes "authorize db (PInt uid) (PInt g) cap (Some g) = Inr ac"
  shows "0 < uid \<and> 0 < g
     \<and> (\<exists>m. find_membership db uid g = Some m \<and> cd_allowed (decide_role_capability (m_role m) cap g g)
            \<and> ac_role ac = py_norm (m_role m))
     \<and> p_organization_id (ac_user ac) = g \<and> p_organization_id (ac_organization ac) = g
     \<and> p_kind (ac_user ac) = USER \<and> p_identifier (ac_user ac) = str_int uid"
  using assms
  by (auto simp: authorize_def Let_def mk_principal_def split: option.splits if_splits sum.splits)

lemma require_permission_InrD:
  assumes "require_permission db perm ctx = Inr ctx'"
  obtains ac where "authorize db (PInt (uc_user_id ctx)) (PInt (uc_organization_id ctx))
       (Named perm) (Some (uc_organization_id ctx)) = Inr ac"
    and "ctx' = ctx\<lparr>uc_role := PStr (ac_role ac), uc_authorization := Some ac\<rparr>"
  using assms
  by (auto simp: require_permission_def split: if_splits sum.splits authorization_error.splits)

lemma active_organization_InrD:
  assumes "get_current_active_organization db ctx = Inr org"
  obtains m u where "org = uc_organization_id ctx"
    and "find_membership db (uc_user_id ctx) org = Some m"
    and "get_by u_id (uc_user_id ctx) (users db) = Some u" and "u_is_enabled u"
    and "u_token_version u = uc_token_version ctx"
  using assms
  by (auto simp: get_current_active_organization_def split: if_splits option.splits)

section \<open>Properties\<close>

text \<open>Registration and organization creation keep the schema's keys: identities, e-mails,
  organization names and memberships stay unique and every membership refers to an existing user
  and organization; a registered user owns the new organization.\<close>

theorem accounts_keep_schema:
  assumes "identity_wf db" and "email \<noteq> []"
  shows "(\<forall>u db'. register_user allow hash db email pw full = Inr (u, db') \<longrightarrow>
            identity_wf db' \<and> (\<exists>m \<in> set (members db'). m_user_id m = u_id u \<and> m_role m = ''owner''))
       \<and> (\<forall>og db'. create_organization db ctx name slug = Inr (og, db') \<longrightarrow>
            identity_wf db' \<and> (\<exists>m \<in> set (members db'). m_user_id m = uc_user_id ctx
               \<and> m_organization_id m = o_id og \<and> m_role m = ''owner''))"
proof -
  have reg: "identity_wf db' \<and> (\<exists>m \<in> set (members db'). m_user_id m = u_id u \<and> m_role m = ''owner'')"
    if r: "register_user allow hash db email pw full = Inr (u, db')" for u db'
  proof -
    obtain u0 db1 og db2 m where
      "insert_user db u0 = Inr (u, db1)" "u_email u0 = email" "0 < u_token_version u0"
      "insert_organization db1 (organization_name_for email)
         (Some (slug_for (organization_name_for email))) = Inr (og, db2)"
      and m: "insert_member db2 (o_id og) (u_id u) ''owner'' = Inr (m, db')"
      using r by (auto simp: register_user_def split: if_splits sum.splits prod.splits)
    then have "identity_wf db'"
      using insert_user_wf insert_organization_wf insert_member_wf assms by metis
    moreover have "m \<in> set (members db')" "m_user_id m = u_id u" "m_role m = ''owner''"
      using m by (auto simp: insert_member_def Let_def split: if_splits)
    ultimately show ?thesis by blast
  qed
  have cre: "identity_wf db' \<and> (\<exists>m \<in> set (members db'). m_user_id m = uc_user_id ctx
               \<and> m_organization_id m = o_id og \<and> m_role m = ''owner'')"
    if r: "create_organization db ctx name slug = Inr (og, db')" for og db'
  proof -
    obtain db1 m where i: "insert_organization db name (Some slug) = Inr (og, db1)"
      and m: "insert_member db1 (o_id og) (uc_user_id ctx) ''owner'' = Inr (m, db')"
      using r by (auto simp: create_organization_def split: sum.splits prod.splits)
    have "identity_wf db'"
      using insert_member_wf [OF m insert_organization_wf [OF i assms(1)]] .
    moreover have "m \<in> set (members db')" "m_user_id m = uc_user_id ctx"
      "m_organization_id m = o_id og" "m_role m = ''owner''"
      using m by (auto simp: insert_member_def Let_def split: if_splits)
    ultimately show ?thesis by blast
  qed
  from reg cre show ?thesis by blast
qed

definition sample_db :: identity_db where
  "sample_db = \<lparr>users = [\<lparr>u_id = 1, u_email = ''ada'', u_name = None, u_username = Some ''ada'',
       u_password_hash = Some ''h'', u_role = ''member'', u_is_enabled = False, u_token_version = 2\<rparr>],
     organizations = [\<lparr>o_id = 2, o_name = ''Acme'', o_slug = None\<rparr>],
     members = [\<lparr>m_id = 3, m_organization_id = 2, m_user_id = 1, m_role = ''Admin''\<rparr>],
     next_id = 4\<rparr>"

definition sample_context :: user_context where
  "sample_context = \<lparr>uc_email = ''ada'', uc_user_id = 1, uc_role = PStr ''member'',
     uc_organization_id = 2, uc_jti = ''j'', uc_token_version = 1, uc_authorization = None\<rparr>"

lemma sample_db_wf: "identity_wf sample_db"
  by (simp add: identity_wf_def sample_db_def)

theorem accounts_keep_schema_witness:
  "\<exists>u db'. register_user True (\<lambda>p. p) sample_db ''bo'' ''pw'' None = Inr (u, db') \<and> identity_wf db'"
proof -
  have h: "identity_wf sample_db" "''bo'' \<noteq> []" by (simp_all add: sample_db_wf)
  obtain u db' where "register_user True (\<lambda>p. p) sample_db ''bo'' ''pw'' None = Inr (u, db')"
    by (simp add: register_user_def insert_user_def insert_organization_def insert_member_def
        sample_db_def Let_def organization_name_for_def)
  then show ?thesis using accounts_keep_schema [OF h] by blast
qed

text \<open>C15: A request that passes token decoding, the permission dependency and the organization
  dependency comes from an enabled user whose token version is current, who is a member of the
  organization the endpoint acts for, and whose current membership role grants the permission;
  the role the token carries plays no part.\<close>

theorem endpoint_access_sound:
  assumes "get_current_user decode token = Inr ctx"
    and "require_permission db permission ctx = Inr ctx'"
    and "get_current_active_organization db ctx = Inr org"
  shows "\<exists>m u c. m \<in> set (members db) \<and> m_user_id m = uc_user_id ctx \<and> m_organization_id m = org
     \<and> u \<in> set (users db) \<and> u_id u = uc_user_id ctx \<and> u_is_enabled u
     \<and> u_token_version u = uc_token_version ctx
     \<and> capability_of_value permission = Some c
     \<and> c \<in> the (role_capabilities (py_norm (m_role m)))
     \<and> uc_role ctx' = PStr (py_norm (m_role m))
     \<and> (\<exists>ac. uc_authorization ctx' = Some ac \<and> ac_organization_id ac = org
            \<and> ac_user_id ac = uc_user_id ctx)"
proof -
  obtain ac where ac: "authorize db (PInt (uc_user_id ctx)) (PInt (uc_organization_id ctx))
       (Named permission) (Some (uc_organization_id ctx)) = Inr ac"
    and ctx': "ctx' = ctx\<lparr>uc_role := PStr (ac_role ac), uc_authorization := Some ac\<rparr>"
    using assms(2) by (rule require_permission_InrD)
  obtain m where m: "find_membership db (uc_user_id ctx) (uc_organization_id ctx) = Some m"
    and dec: "cd_allowed (decide_role_capability (m_role m) (Named permission)
        (uc_organization_id ctx) (uc_organization_id ctx))"
    and role: "ac_role ac = py_norm (m_role m)"
    and org: "p_organization_id (ac_organization ac) = uc_organization_id ctx"
    and ident: "p_identifier (ac_user ac) = str_int (uc_user_id ctx)"
    using authorize_InrD [OF ac] by blast
  obtain u where u: "org = uc_organization_id ctx"
    "get_by u_id (uc_user_id ctx) (users db) = Some u" "u_is_enabled u"
    "u_token_version u = uc_token_version ctx"
    using assms(3) by (rule active_organization_InrD)
  obtain c where "capability_of_value permission = Some c"
    "c \<in> the (role_capabilities (py_norm (m_role m)))"
    using dec by (auto simp: decide_allowed_iff)
  then show ?thesis
    using find_membershipD [OF m] get_by_SomeD [OF u(2)] u role org ident ctx'
    by (auto simp: ac_organization_id_def ac_user_id_def)
qed

theorem endpoint_access_sound_witness:
  "\<exists>m. m \<in> set (members (sample_db\<lparr>users := [(hd (users sample_db))\<lparr>u_is_enabled := True,
          u_token_version := 1\<rparr>]\<rparr>)) \<and> py_norm (m_role m) = ''admin''"
proof -
  let ?db = "sample_db\<lparr>users := [(hd (users sample_db))\<lparr>u_is_enabled := True, u_token_version := 1\<rparr>]\<rparr>"
  let ?p = "map_of [(''sub'', PStr ''ada''), (''user_id'', PInt 1), (''organization_id'', PInt 2),
      (''token_version'', PInt 1), (''jti'', PStr ''j''), (''role'', PStr ''owner'')]"
  let ?ctx = "sample_context\<lparr>uc_role := PStr ''owner''\<rparr>"
  have norm: "py_norm ''Admin'' = ''admin''" by code_simp
  have cap: "capability_of_value ''bot:create'' = Some BOT_CREATE" by code_simp
  have a: "get_current_user (\<lambda>_. Some ?p) () = Inr ?ctx"
    by (simp add: get_current_user_def claim_def sample_context_def)
  obtain ctx' where b: "require_permission ?db ''bot:create'' ?ctx = Inr ctx'"
    and role: "uc_role ctx' = PStr ''admin''"
    by (simp add: require_permission_def authorize_def find_membership_def sample_db_def
        sample_context_def decide_role_capability_def cap norm role_capabilities_def
        admin_grants_def owner_grants_def mk_principal_def Let_def)
  have c: "get_current_active_organization ?db ?ctx = Inr 2"
    by (simp add: get_current_active_organization_def find_membership_def sample_db_def
        sample_context_def get_by_def)
  show ?thesis using endpoint_access_sound [OF a b c] role by auto
qed

text \<open>A token issued by login is accepted afterwards: when the codec returns the claims that
  were encoded, the token's context names the logged-in user and the first membership, the user is
  enabled, and the organization dependency accepts it on the same tables.\<close>

theorem login_token_accepted:
  assumes wf: "identity_wf db"
    and login: "login verify dummy (create_access_token iss aud mins now jti) db name pw = Inr cl"
    and codec: "decode token = Some cl"
    and jti: "jti \<noteq> []"
  shows "\<exists>ctx org u. get_current_user decode token = Inr ctx
     \<and> get_current_active_organization db ctx = Inr org
     \<and> u \<in> set (users db) \<and> uc_user_id ctx = u_id u \<and> u_is_enabled u
     \<and> (u_email u = name \<or> u_username u = Some name)
     \<and> (\<exists>h. u_password_hash u = Some h \<and> verify pw h = Some True)"
proof -
  obtain u h m where u: "find (\<lambda>u. u_email u = name \<or> u_username u = Some name) (users db) = Some u"
    and h: "u_password_hash u = Some h" "u_is_enabled u" "verify_password verify pw h"
    and m: "find (\<lambda>m. m_user_id m = u_id u) (members db) = Some m"
    and cl: "cl = create_access_token iss aud mins now jti (login_claims u m)"
    using login by (auto simp: login_def Let_def split: option.splits if_splits)
  note um = find_SomeD [OF u] find_SomeD [OF m]
  have pos: "0 < u_id u" "0 < u_token_version u" "u_email u \<noteq> []" "0 < m_organization_id m"
    using wf um by (auto simp: identity_wf_def)
  let ?ctx = "\<lparr>uc_email = u_email u, uc_user_id = u_id u, uc_role = PStr (m_role m),
      uc_organization_id = m_organization_id m, uc_jti = jti,
      uc_token_version = u_token_version u, uc_authorization = None\<rparr>"
  have a: "get_current_user decode token = Inr ?ctx"
    using pos jti by (simp add: get_current_user_def codec cl create_access_token_def
        login_claims_def claim_def)
  obtain m' where "find_membership db (u_id u) (m_organization_id m) = Some m'"
    using find_membershipI [of m db "u_id u" "m_organization_id m"] um by blast
  moreover have "get_by u_id (u_id u) (users db) = Some u"
    using get_by_distinct [of u_id "users db" u] wf um by (simp add: identity_wf_def)
  ultimately have b: "get_current_active_organization db ?ctx = Inr (m_organization_id m)"
    using pos h by (simp add: get_current_active_organization_def)
  have "verify pw h = Some True"
    using h(3) by (auto simp: verify_password_def split: option.splits)
  with a b um h show ?thesis by (intro exI [of _ ?ctx]) auto
qed

theorem login_token_accepted_witness:
  "\<exists>ctx org. get_current_user (\<lambda>_. Some (create_access_token ''i'' ''a'' 60 0 ''j''
        (login_claims (hd (users sample_db)\<lparr>u_is_enabled := True\<rparr>) (hd (members sample_db))))) () = Inr ctx
     \<and> get_current_active_organization
         (sample_db\<lparr>users := [hd (users sample_db)\<lparr>u_is_enabled := True\<rparr>]\<rparr>) ctx = Inr org"
proof -
  let ?u = "hd (users sample_db)\<lparr>u_is_enabled := True\<rparr>"
  let ?db = "sample_db\<lparr>users := [?u]\<rparr>"
  let ?v = "\<lambda>p h. Some (p = h)"
  let ?mk = "create_access_token ''i'' ''a'' 60 0 ''j''"
  have wf: "identity_wf ?db" by (simp add: identity_wf_def sample_db_def)
  have l: "login ?v ''d'' ?mk ?db ''ada'' ''h'' = Inr (?mk (login_claims ?u (hd (members sample_db))))"
    by (simp add: login_def sample_db_def verify_password_def Let_def)
  show ?thesis
    using login_token_accepted [OF wf l, where decode = "\<lambda>_. Some (?mk (login_claims ?u (hd (members sample_db))))"
        and token = "()"] by auto
qed

text \<open>Bumping a user's token version revokes every token issued before: whatever the token's
  claims, the organization dependency answers 401, as it does for a disabled user.\<close>

theorem stale_token_revoked:
  assumes "identity_wf db" and "u \<in> set (users db)" and "uc_user_id ctx = u_id u"
    and "uc_token_version ctx < u_token_version u \<or> \<not> u_is_enabled u"
    and "find_membership db (u_id u) (uc_organization_id ctx) \<noteq> None"
    and "uc_organization_id ctx \<noteq> 0"
  shows "get_current_active_organization db ctx =
           Inl (HTTPException 401 (if u_is_enabled u then ''Token has been revoked''
                                   else ''Identity is inactive''))"
proof -
  have "get_by u_id (u_id u) (users db) = Some u" "0 < u_id u"
    using get_by_distinct [of u_id "users db" u] assms by (auto simp: identity_wf_def)
  then show ?thesis
    using assms by (auto simp: get_current_active_organization_def split: option.splits)
qed

theorem stale_token_revoked_witness:
  "get_current_active_organization sample_db sample_context
     = Inl (HTTPException 401 ''Identity is inactive'')"
proof -
  let ?u = "hd (users sample_db)"
  have "get_current_active_organization sample_db sample_context =
           Inl (HTTPException 401 (if u_is_enabled ?u then ''Token has been revoked''
                                   else ''Identity is inactive''))"
    by (rule stale_token_revoked [OF sample_db_wf])
      (simp_all add: sample_db_def sample_context_def find_membership_def)
  then show ?thesis by (simp add: sample_db_def)
qed

text \<open>The organization-creation endpoint does not take the organization dependency, so
  revocation does not reach it: a disabled user, or one whose token was revoked, still creates an
  organization under any fresh name and becomes its owner, although every organization-scoped
  endpoint refuses the same context.\<close>

theorem create_organization_ignores_revocation:
  assumes "identity_wf db" and "u \<in> set (users db)" and "uc_user_id ctx = u_id u"
    and "uc_token_version ctx \<noteq> u_token_version u \<or> \<not> u_is_enabled u"
    and "\<forall>x \<in> set (organizations db). o_name x \<noteq> name \<and> o_slug x \<noteq> Some slug"
  shows "(\<exists>og db'. create_organization db ctx name slug = Inr (og, db')
            \<and> find_membership db' (u_id u) (o_id og) \<noteq> None)
       \<and> (\<forall>org. get_current_active_organization db ctx \<noteq> Inr org)"
proof -
  have u: "get_by u_id (u_id u) (users db) = Some u"
    using get_by_distinct [of u_id "users db" u] assms by (auto simp: identity_wf_def)
  have no: "\<forall>org. get_current_active_organization db ctx \<noteq> Inr org"
    using assms u by (auto elim!: active_organization_InrD)
  have fresh: "\<forall>m \<in> set (members db). m_organization_id m \<noteq> next_id db"
    using assms(1) by (fastforce simp: identity_wf_def)
  let ?og = "\<lparr>o_id = next_id db, o_name = name, o_slug = Some slug\<rparr>"
  let ?m = "\<lparr>m_id = next_id db + 1, m_organization_id = next_id db, m_user_id = u_id u,
      m_role = ''owner''\<rparr>"
  let ?db = "db\<lparr>organizations := organizations db @ [?og], members := members db @ [?m],
      next_id := next_id db + 2\<rparr>"
  have c: "create_organization db ctx name slug = Inr (?og, ?db)"
    using assms fresh
    by (auto simp: create_organization_def insert_organization_def insert_member_def Let_def)
  have "find_membership ?db (u_id u) (o_id ?og) \<noteq> None"
    by (rule find_membershipI [of ?m]) simp_all
  with c have ex: "\<exists>og db'. create_organization db ctx name slug = Inr (og, db')
      \<and> find_membership db' (u_id u) (o_id og) \<noteq> None"
    by blast
  from no ex show ?thesis by blast
qed

theorem create_organization_ignores_revocation_witness:
  "(\<exists>og db'. create_organization sample_db sample_context ''New'' ''new'' = Inr (og, db'))
     \<and> get_current_active_organization sample_db sample_context \<noteq> Inr 2"
proof -
  have "(\<exists>og db'. create_organization sample_db sample_context ''New'' ''new'' = Inr (og, db')
            \<and> find_membership db' (u_id (hd (users sample_db))) (o_id og) \<noteq> None)
       \<and> (\<forall>org. get_current_active_organization sample_db sample_context \<noteq> Inr org)"
    by (rule create_organization_ignores_revocation [OF sample_db_wf])
      (simp_all add: sample_db_def sample_context_def)
  then show ?thesis by blast
qed

text \<open>Registration derives the organization's name from the part of the e-mail before the at
  sign, and organization names are unique: a second person with the same local part at another
  domain cannot register, whatever else they enter.\<close>

theorem registration_local_part_collision:
  assumes "identity_wf db" and "register_user True hash db email pw full = Inr (u, db')"
    and "takeWhile (\<lambda>c. c \<noteq> CHR ''@'') email' = takeWhile (\<lambda>c. c \<noteq> CHR ''@'') email"
    and "\<forall>v \<in> set (users db'). u_email v \<noteq> email' \<and> u_username v \<noteq> Some email'"
  shows "register_user True hash db' email' pw' full' = Inl (ServerError ''IntegrityError'')"
proof -
  have name: "organization_name_for email' = organization_name_for email"
    using assms(3) by (simp add: organization_name_for_def)
  have "\<exists>x \<in> set (organizations db'). o_name x = organization_name_for email"
    using assms(2)
    by (auto simp: register_user_def insert_user_def insert_organization_def insert_member_def Let_def
        split: if_splits sum.splits prod.splits)
  then show ?thesis
    using assms(4) name by (auto simp: register_user_def insert_user_def insert_organization_def Let_def)
qed

theorem registration_local_part_collision_witness:
  "\<exists>u db'. register_user True (\<lambda>p. p) sample_db ''bo@a'' ''pw'' None = Inr (u, db')
     \<and> register_user True (\<lambda>p. p) db' ''bo@b'' ''pw'' None = Inl (ServerError ''IntegrityError'')"
proof -
  obtain u db' where r: "register_user True (\<lambda>p. p) sample_db ''bo@a'' ''pw'' None = Inr (u, db')"
    and us: "map u_email (users db') = [''ada'', ''bo@a'']"
    "map u_username (users db') = [Some ''ada'', Some ''bo@a'']"
    by (simp add: register_user_def insert_user_def insert_organization_def insert_member_def
        sample_db_def Let_def organization_name_for_def)
  have "\<forall>v \<in> set (users db'). u_email v \<noteq> ''bo@b'' \<and> u_username v \<noteq> Some ''bo@b''"
    using us by (auto simp: map_eq_Cons_conv)
  then show ?thesis
    using registration_local_part_collision [OF sample_db_wf r, of "''bo@b''"] r by auto
qed

end
