(* ===== verification/Schema.thy ===== *)
theory Schema
  imports Prelude
begin

text \<open>
  The durable rows of a chat exchange, as the ORM models declare them: idempotency records
  (\<^verbatim>\<open>domains/idempotency/models.py\<close>), executions and messages
  (\<^verbatim>\<open>domains/conversations/models.py\<close>), usage records (\<^verbatim>\<open>domains/usage/models.py\<close>) and
  governance decisions (\<^verbatim>\<open>domains/governance/models.py\<close>); the failure policy of
  \<^verbatim>\<open>application/chat_recovery.py\<close>; and the database state with the uniqueness constraints
  the tables declare.  A status column holds one of the strings the code writes, here the
  constructors of \<open>status\<close>; a timestamp is a number of microseconds.  One counter supplies
  the fresh primary keys of every table.
\<close>

datatype status = Processing | Prepared | Pending | Streaming | Completed | Failed | Cancelled

datatype failure_code =
    PROVIDER_TIMEOUT | PROVIDER_FAILURE | DATABASE_FAILURE | IDEMPOTENCY_LOST | BUDGET_REJECTED
  | IDEMPOTENCY_CONFLICT | CLIENT_CANCELLED | PROCESS_CRASH | RETRY_EXHAUSTED | CONTEXT_REJECTED

record failure_policy_entry =
  fp_response_status :: int
  fp_retryable :: bool

fun failure_policy :: "failure_code \<Rightarrow> failure_policy_entry" where
  "failure_policy PROVIDER_TIMEOUT = \<lparr>fp_response_status = 504, fp_retryable = True\<rparr>"
| "failure_policy PROVIDER_FAILURE = \<lparr>fp_response_status = 502, fp_retryable = True\<rparr>"
| "failure_policy DATABASE_FAILURE = \<lparr>fp_response_status = 503, fp_retryable = True\<rparr>"
| "failure_policy IDEMPOTENCY_LOST = \<lparr>fp_response_status = 409, fp_retryable = True\<rparr>"
| "failure_policy BUDGET_REJECTED = \<lparr>fp_response_status = 429, fp_retryable = False\<rparr>"
| "failure_policy IDEMPOTENCY_CONFLICT = \<lparr>fp_response_status = 409, fp_retryable = False\<rparr>"
| "failure_policy CLIENT_CANCELLED = \<lparr>fp_response_status = 499, fp_retryable = True\<rparr>"
| "failure_policy PROCESS_CRASH = \<lparr>fp_response_status = 500, fp_retryable = True\<rparr>"
| "failure_policy RETRY_EXHAUSTED = \<lparr>fp_response_status = 409, fp_retryable = False\<rparr>"
| "failure_policy CONTEXT_REJECTED = \<lparr>fp_response_status = 422, fp_retryable = False\<rparr>"

lemma failure_policy_not_success:
  "\<not> (200 \<le> fp_response_status (failure_policy c) \<and> fp_response_status (failure_policy c) < 300)"
  by (cases c) simp_all

record idempotency_record =
  ir_id :: identity
  ir_organization_id :: identity
  ir_user_id :: identity
  ir_key :: string
  ir_request_hash :: string
  ir_status :: status
  ir_response_status :: "int option"
  ir_response_reference :: "string option"
  ir_created_at :: microseconds
  ir_expires_at :: "microseconds option"
  ir_lease_until :: "microseconds option"
  ir_lease_token :: "string option"

record message =
  ms_id :: identity
  ms_conversation_id :: identity
  ms_organization_id :: identity
  ms_execution_id :: "string option"
  ms_role :: string
  ms_content :: string
  ms_bot_id :: "identity option"
  ms_status :: status
  ms_ai_marked :: bool
  ms_created_at :: microseconds

record chat_execution =
  ce_id :: identity
  ce_execution_id :: string
  ce_request_id :: string
  ce_conversation_id :: identity
  ce_organization_id :: identity
  ce_user_id :: identity
  ce_bot_id :: identity
  ce_bot_organization_id :: identity
  ce_idempotency_record_id :: "identity option"
  ce_user_message_id :: "identity option"
  ce_assistant_message_id :: "identity option"
  ce_provider :: string
  ce_model :: string
  ce_status :: status
  ce_attempt_count :: int
  ce_max_attempts :: int
  ce_last_failure_code :: "failure_code option"
  ce_failure_retryable :: bool
  ce_partial_response :: bool
  ce_recovered_at :: "microseconds option"
  ce_governance_audit_required :: bool
  ce_completed_at :: "microseconds option"

record provider_usage_record =
  pu_request_id :: string
  pu_execution_id :: string
  pu_chat_execution_id :: identity
  pu_user_id :: identity
  pu_organization_id :: identity
  pu_provider :: string
  pu_model :: string
  pu_operation :: string
  pu_attempt :: int
  pu_usage_source :: string
  pu_pricing_revision :: "string option"
  pu_input_tokens :: int
  pu_output_tokens :: int
  pu_total_tokens :: int
  pu_estimated_cost :: rat
  pu_actual_cost :: "rat option"
  pu_verification :: bool

record governance_decision =
  gd_decision_id :: string
  gd_request_id :: string
  gd_request_hash :: string
  gd_organization_id :: identity
  gd_user_id :: identity
  gd_role :: string
  gd_policy :: string
  gd_policy_version :: string
  gd_capability :: string
  gd_allowed :: bool
  gd_reason :: string
  gd_resource_type :: string
  gd_resource_id :: string
  gd_resource_organization_id :: identity
  gd_provider :: "string option"
  gd_model :: "string option"
  gd_permit_fingerprint :: "string option"
  gd_execution_id :: "string option"
  gd_result_status :: "string option"
  gd_response_status :: "int option"
  gd_failure_code :: "failure_code option"
  gd_decided_at :: microseconds
  gd_finalized_at :: "microseconds option"

record chat_db =
  idem_rows :: "idempotency_record list"
  executions :: "chat_execution list"
  messages :: "message list"
  usage_rows :: "provider_usage_record list"
  decisions :: "governance_decision list"
  next_row :: identity

definition empty_chat_db :: chat_db where
  "empty_chat_db = \<lparr>idem_rows = [], executions = [], messages = [], usage_rows = [],
     decisions = [], next_row = 1\<rparr>"

text \<open>The unique key of an idempotency record.\<close>

definition idem_key :: "idempotency_record \<Rightarrow> identity \<times> identity \<times> string" where
  "idem_key r = (ir_organization_id r, ir_user_id r, ir_key r)"

lemma idem_key_update [simp]:
  "idem_key (r\<lparr>ir_status := s\<rparr>) = idem_key r"
  "idem_key (r\<lparr>ir_response_status := a\<rparr>) = idem_key r"
  "idem_key (r\<lparr>ir_response_reference := b\<rparr>) = idem_key r"
  "idem_key (r\<lparr>ir_expires_at := c\<rparr>) = idem_key r"
  "idem_key (r\<lparr>ir_lease_until := d\<rparr>) = idem_key r"
  "idem_key (r\<lparr>ir_lease_token := e\<rparr>) = idem_key r"
  by (simp_all add: idem_key_def)

text \<open>Deleting idempotency records: \<open>ON DELETE SET NULL\<close> clears the executions' references.\<close>

definition delete_idem_rows :: "(idempotency_record \<Rightarrow> bool) \<Rightarrow> chat_db \<Rightarrow> chat_db" where
  "delete_idem_rows P db =
     (let gone = map ir_id (filter P (idem_rows db)) in
      db\<lparr>idem_rows := filter (\<lambda>r. \<not> P r) (idem_rows db),
         executions := map (\<lambda>e. case ce_idempotency_record_id e of
             Some i \<Rightarrow> if i \<in> set gone then e\<lparr>ce_idempotency_record_id := None\<rparr> else e
           | None \<Rightarrow> e) (executions db)\<rparr>)"

text \<open>
  What an operation finds when it talks to the database: the clock, and which of its queries, its
  flush and its commit raise.
\<close>

record db_env =
  env_now :: microseconds
  env_query_fails :: "nat \<Rightarrow> bool"
  env_flush_fails :: bool
  env_commit_fails :: bool

definition calm :: "microseconds \<Rightarrow> db_env" where
  "calm now = \<lparr>env_now = now, env_query_fails = (\<lambda>_. False), env_flush_fails = False,
     env_commit_fails = False\<rparr>"

end
