(* ===== verification/Conversations.thy ===== *)
theory Conversations
  imports Identity Schema
begin

text \<open>
  Conversations: the aggregate and its lifecycle (\<^verbatim>\<open>domains/conversations/state.py\<close>), its mapping to
  the ORM row (\<^verbatim>\<open>application/conversation_state.py\<close>), the row's versioned update
  (\<^verbatim>\<open>domains/conversations/models.py\<close>, \<^verbatim>\<open>version_id_col\<close>) and the endpoints of
  \<^verbatim>\<open>api/v1/conversations.py\<close>.  An endpoint that loads a row and later commits is modelled by its
  two database steps, so that other transactions may come in between.
\<close>

section \<open>The aggregate\<close>

datatype lifecycle = Active | Archived

fun lifecycle_value :: "lifecycle \<Rightarrow> string" where
  "lifecycle_value Active = ''active''"
| "lifecycle_value Archived = ''archived''"

datatype state_error = ConversationStateError string | StateValueError string

definition title_checked :: "pyval \<Rightarrow> state_error + string" where
  "title_checked value = (case value of
     PStr s \<Rightarrow> (let normalized = py_strip s in
       if normalized = [] \<or> 255 < length normalized then Inl (ConversationStateError ''invalid_title'')
       else Inr normalized)
   | _ \<Rightarrow> Inl (ConversationStateError ''invalid_title''))"

record conversation_aggregate =
  ag_id :: "identity option"
  ag_organization_id :: identity
  ag_owner_user_id :: identity
  ag_title :: string
  ag_lifecycle :: lifecycle
  ag_version :: int
  ag_created_at :: microseconds
  ag_updated_at :: microseconds
  ag_archived_at :: "microseconds option"

text \<open>\<^verbatim>\<open>__post_init__\<close>: run by the constructor and by \<^verbatim>\<open>dataclasses.replace\<close>.\<close>

definition aggregate_checked :: "conversation_aggregate \<Rightarrow> state_error + conversation_aggregate" where
  "aggregate_checked a =
     (if (case ag_id a of None \<Rightarrow> False | Some i \<Rightarrow> i \<le> 0) then Inl (ConversationStateError ''invalid_identity'')
      else if ag_organization_id a \<le> 0 \<or> ag_owner_user_id a \<le> 0 then Inl (ConversationStateError ''invalid_scope'')
      else if ag_version a \<le> 0 then Inl (ConversationStateError ''invalid_version'')
      else (case title_checked (PStr (ag_title a)) of Inl e \<Rightarrow> Inl e
        | Inr t \<Rightarrow>
            if ag_lifecycle a = Active \<and> ag_archived_at a \<noteq> None
              then Inl (ConversationStateError ''active_conversation_has_archive_time'')
            else if ag_lifecycle a = Archived \<and> ag_archived_at a = None
              then Inl (ConversationStateError ''archived_conversation_missing_archive_time'')
            else Inr (a\<lparr>ag_title := t\<rparr>)))"

definition create_aggregate ::
    "identity \<Rightarrow> identity \<Rightarrow> pyval \<Rightarrow> microseconds \<Rightarrow> state_error + conversation_aggregate" where
  "create_aggregate org uid title now = (case title of
     PStr t \<Rightarrow> aggregate_checked \<lparr>ag_id = None, ag_organization_id = org, ag_owner_user_id = uid, ag_title = t,
         ag_lifecycle = Active, ag_version = 1, ag_created_at = now, ag_updated_at = now, ag_archived_at = None\<rparr>
   | _ \<Rightarrow> (if org \<le> 0 \<or> uid \<le> 0 then Inl (ConversationStateError ''invalid_scope'')
           else Inl (ConversationStateError ''invalid_title'')))"

definition assert_scope :: "identity \<Rightarrow> identity \<Rightarrow> conversation_aggregate \<Rightarrow> state_error + unit" where
  "assert_scope org uid a = (if org \<noteq> ag_organization_id a \<or> uid \<noteq> ag_owner_user_id a
     then Inl (ConversationStateError ''scope_mismatch'') else Inr ())"

definition assert_accepts_execution :: "conversation_aggregate \<Rightarrow> state_error + unit" where
  "assert_accepts_execution a = (if ag_lifecycle a \<noteq> Active
     then Inl (ConversationStateError ''conversation_archived'') else Inr ())"

definition transition :: "conversation_aggregate \<Rightarrow> conversation_aggregate \<Rightarrow> state_error + conversation_aggregate" where
  "transition a changed = aggregate_checked (changed\<lparr>ag_version := ag_version a + 1\<rparr>)"

definition rename :: "pyval \<Rightarrow> microseconds \<Rightarrow> conversation_aggregate \<Rightarrow> state_error + conversation_aggregate" where
  "rename title now a = (case assert_accepts_execution a of Inl e \<Rightarrow> Inl e
     | Inr _ \<Rightarrow> (case title_checked title of Inl e \<Rightarrow> Inl e
         | Inr t \<Rightarrow> transition a (a\<lparr>ag_title := t, ag_updated_at := now\<rparr>)))"

definition archive :: "microseconds \<Rightarrow> conversation_aggregate \<Rightarrow> state_error + conversation_aggregate" where
  "archive now a = (if ag_lifecycle a = Archived then Inr a
     else transition a (a\<lparr>ag_lifecycle := Archived, ag_archived_at := Some now, ag_updated_at := now\<rparr>))"

definition reopen :: "microseconds \<Rightarrow> conversation_aggregate \<Rightarrow> state_error + conversation_aggregate" where
  "reopen now a = (if ag_lifecycle a = Active then Inr a
     else transition a (a\<lparr>ag_lifecycle := Active, ag_archived_at := None, ag_updated_at := now\<rparr>))"

section \<open>Rows\<close>

record conversation =
  cv_id :: "identity option"
  cv_user_id :: identity
  cv_organization_id :: identity
  cv_title :: string
  cv_lifecycle :: string
  cv_version :: int
  cv_archived_at :: "microseconds option"
  cv_created_at :: microseconds
  cv_updated_at :: microseconds

definition lifecycle_of :: "string \<Rightarrow> lifecycle option" where
  "lifecycle_of s = (if s = ''active'' then Some Active else if s = ''archived'' then Some Archived else None)"

definition hydrate_conversation :: "conversation \<Rightarrow> state_error + conversation_aggregate" where
  "hydrate_conversation row = (case lifecycle_of (cv_lifecycle row) of
     None \<Rightarrow> Inl (StateValueError ''not a valid ConversationLifecycle'')
   | Some l \<Rightarrow> aggregate_checked \<lparr>ag_id = cv_id row, ag_organization_id = cv_organization_id row,
       ag_owner_user_id = cv_user_id row, ag_title = cv_title row, ag_lifecycle = l, ag_version = cv_version row,
       ag_created_at = cv_created_at row, ag_updated_at = cv_updated_at row, ag_archived_at = cv_archived_at row\<rparr>)"

definition new_conversation :: "conversation_aggregate \<Rightarrow> state_error + conversation" where
  "new_conversation a = (if ag_id a \<noteq> None then Inl (StateValueError ''new conversation aggregate already has an identity'')
     else Inr \<lparr>cv_id = None, cv_user_id = ag_owner_user_id a, cv_organization_id = ag_organization_id a,
       cv_title = ag_title a, cv_lifecycle = lifecycle_value (ag_lifecycle a), cv_version = ag_version a,
       cv_archived_at = ag_archived_at a, cv_created_at = ag_created_at a, cv_updated_at = ag_updated_at a\<rparr>)"

definition apply_conversation :: "conversation \<Rightarrow> conversation_aggregate \<Rightarrow> state_error + conversation" where
  "apply_conversation row a =
     (if cv_id row \<noteq> ag_id a then Inl (StateValueError ''conversation identity mismatch'')
      else if cv_organization_id row \<noteq> ag_organization_id a \<or> cv_user_id row \<noteq> ag_owner_user_id a
        then Inl (StateValueError ''conversation scope mismatch'')
      else Inr (row\<lparr>cv_title := ag_title a, cv_lifecycle := lifecycle_value (ag_lifecycle a),
          cv_version := ag_version a, cv_updated_at := ag_updated_at a, cv_archived_at := ag_archived_at a\<rparr>))"

text \<open>The table: its rows and the memberships its foreign key refers to.\<close>

record conversation_db =
  cd_rows :: "conversation list"
  cd_members :: "(identity \<times> identity) list"
  cd_next :: identity

definition conversation_constraints :: "conversation \<Rightarrow> bool" where
  "conversation_constraints r \<longleftrightarrow> cv_lifecycle r \<in> {''active'', ''archived''} \<and> 0 < cv_version r
     \<and> (cv_lifecycle r = ''active'' \<longleftrightarrow> cv_archived_at r = None)"

definition insert_conversation :: "conversation \<Rightarrow> conversation_db \<Rightarrow> (api_error + conversation) \<times> conversation_db" where
  "insert_conversation r db =
     (if (cv_user_id r, cv_organization_id r) \<notin> set (cd_members db) \<or> \<not> conversation_constraints r
        then (Inl (ServerError ''IntegrityError''), db)
      else (let stored = r\<lparr>cv_id := Some (cd_next db)\<rparr>
            in (Inr stored, db\<lparr>cd_rows := cd_rows db @ [stored], cd_next := cd_next db + 1\<rparr>)))"

text \<open>
  The flush of a loaded row: nothing is sent when no attribute changed; otherwise the UPDATE sets the
  changed columns where id and version are still the loaded ones (\<^verbatim>\<open>updated_at\<close> has an
  \<^verbatim>\<open>onupdate\<close>) and a row count of zero is a \<^verbatim>\<open>StaleDataError\<close>.
\<close>

datatype flush_result = Unchanged | Updated | StaleData | CheckFailed

definition merged_row :: "microseconds \<Rightarrow> conversation \<Rightarrow> conversation \<Rightarrow> conversation \<Rightarrow> conversation" where
  "merged_row now loaded row stored = stored\<lparr>
     cv_title := (if cv_title row \<noteq> cv_title loaded then cv_title row else cv_title stored),
     cv_lifecycle := (if cv_lifecycle row \<noteq> cv_lifecycle loaded then cv_lifecycle row else cv_lifecycle stored),
     cv_version := (if cv_version row \<noteq> cv_version loaded then cv_version row else cv_version stored),
     cv_archived_at := (if cv_archived_at row \<noteq> cv_archived_at loaded then cv_archived_at row else cv_archived_at stored),
     cv_updated_at := (if cv_updated_at row \<noteq> cv_updated_at loaded then cv_updated_at row else now)\<rparr>"

definition flush_conversation ::
    "microseconds \<Rightarrow> conversation \<Rightarrow> conversation \<Rightarrow> conversation_db \<Rightarrow> flush_result \<times> conversation_db" where
  "flush_conversation now loaded row db =
     (if row = loaded then (Unchanged, db)
      else (case get_by cv_id (cv_id loaded) (cd_rows db) of
          None \<Rightarrow> (StaleData, db)
        | Some stored \<Rightarrow>
            if cv_version stored \<noteq> cv_version loaded then (StaleData, db)
            else if \<not> conversation_constraints (merged_row now loaded row stored) then (CheckFailed, db)
            else (Updated, db\<lparr>cd_rows := set_by cv_id (cv_id loaded) (merged_row now loaded row) (cd_rows db)\<rparr>)))"

section \<open>Endpoints\<close>

definition create_conversation ::
    "identity \<Rightarrow> identity \<Rightarrow> string \<Rightarrow> microseconds \<Rightarrow> conversation_db \<Rightarrow> (api_error + conversation) \<times> conversation_db" where
  "create_conversation uid org title now db = (case create_aggregate org uid (PStr title) now of
     Inl (ConversationStateError _) \<Rightarrow> (Inl (HTTPException 422 ''Invalid conversation state.''), db)
   | Inl (StateValueError e) \<Rightarrow> (Inl (ServerError e), db)
   | Inr a \<Rightarrow> (case new_conversation a of Inl _ \<Rightarrow> (Inl (ServerError ''ValueError''), db)
       | Inr row \<Rightarrow> insert_conversation row db))"

definition load_conversation :: "identity \<Rightarrow> identity \<Rightarrow> identity \<Rightarrow> conversation_db \<Rightarrow> api_error + conversation" where
  "load_conversation cid uid org db =
     (case find (\<lambda>r. cv_id r = Some cid \<and> cv_organization_id r = org \<and> cv_user_id r = uid) (cd_rows db) of
        None \<Rightarrow> Inl (HTTPException 404 ''Conversation not found'') | Some r \<Rightarrow> Inr r)"

definition list_conversations :: "identity \<Rightarrow> identity \<Rightarrow> nat \<Rightarrow> nat \<Rightarrow> conversation_db \<Rightarrow> conversation list" where
  "list_conversations uid org count offset db = take count (drop offset
     (sort_key (\<lambda>r. - cv_updated_at r) (filter (\<lambda>r. cv_organization_id r = org \<and> cv_user_id r = uid) (cd_rows db))))"

definition get_conversation_messages ::
    "identity \<Rightarrow> identity \<Rightarrow> identity \<Rightarrow> nat \<Rightarrow> nat \<Rightarrow> conversation_db \<Rightarrow> message list \<Rightarrow> api_error + message list" where
  "get_conversation_messages cid uid org count offset db msgs = (case load_conversation cid uid org db of
     Inl e \<Rightarrow> Inl e
   | Inr _ \<Rightarrow> Inr (take count (drop offset (sort_key ms_created_at (filter (\<lambda>m. ms_conversation_id m = cid) msgs)))))"

text \<open>What the code does to a loaded row before it commits: a transition of the hydrated aggregate.\<close>

datatype conversation_change = Rename pyval | ArchiveIt | ReopenIt

fun changed_aggregate :: "conversation_change \<Rightarrow> microseconds \<Rightarrow> conversation_aggregate \<Rightarrow> state_error + conversation_aggregate" where
  "changed_aggregate (Rename t) now a = rename t now a"
| "changed_aggregate ArchiveIt now a = archive now a"
| "changed_aggregate ReopenIt now a = reopen now a"

definition changed_row :: "conversation_change \<Rightarrow> microseconds \<Rightarrow> conversation \<Rightarrow> state_error + conversation" where
  "changed_row c now loaded = (case hydrate_conversation loaded of Inl e \<Rightarrow> Inl e
     | Inr a \<Rightarrow> (case changed_aggregate c now a of Inl e \<Rightarrow> Inl e | Inr a' \<Rightarrow> apply_conversation loaded a'))"

definition commit_change ::
    "conversation_change \<Rightarrow> microseconds \<Rightarrow> conversation \<Rightarrow> conversation_db \<Rightarrow> (state_error + flush_result) \<times> conversation_db" where
  "commit_change c now loaded db = (case changed_row c now loaded of
     Inl e \<Rightarrow> (Inl e, db)
   | Inr row \<Rightarrow> (case flush_conversation now loaded row db of (f, db') \<Rightarrow> (Inr f, db')))"

text \<open>\<^verbatim>\<open>delete_conversation\<close>: \<open>db0\<close> is the state its select sees, \<open>db\<close> the one its commit meets.\<close>

definition delete_conversation ::
    "identity \<Rightarrow> identity \<Rightarrow> identity \<Rightarrow> microseconds \<Rightarrow> conversation_db \<Rightarrow> conversation_db
     \<Rightarrow> (api_error + unit) \<times> conversation_db" where
  "delete_conversation cid uid org now db0 db = (case load_conversation cid uid org db0 of
     Inl e \<Rightarrow> (Inl e, db)
   | Inr loaded \<Rightarrow> (case hydrate_conversation loaded of
       Inl _ \<Rightarrow> (Inl (ServerError ''ConversationStateError''), db)
     | Inr a \<Rightarrow> (case assert_scope org uid a of
         Inl _ \<Rightarrow> (Inl (ServerError ''ConversationStateError''), db)
       | Inr _ \<Rightarrow> (case commit_change ArchiveIt now loaded db of
           (Inl _, db') \<Rightarrow> (Inl (ServerError ''ValueError''), db')
         | (Inr StaleData, db') \<Rightarrow> (Inl (HTTPException 409 ''Conversation state changed concurrently.''), db')
         | (Inr CheckFailed, db') \<Rightarrow> (Inl (ServerError ''IntegrityError''), db')
         | (Inr _, db') \<Rightarrow> (Inr (), db')))))"

section \<open>Transitions\<close>

lemma title_checked_Inr:
  "title_checked (PStr s) = Inr t \<Longrightarrow> t = py_strip s \<and> t \<noteq> [] \<and> length t \<le> 255 \<and> py_strip t = t"
  by (auto simp: title_checked_def Let_def split: if_splits)

definition aggregate_ok :: "conversation_aggregate \<Rightarrow> bool" where
  "aggregate_ok a \<longleftrightarrow> (\<forall>i. ag_id a = Some i \<longrightarrow> 0 < i) \<and> 0 < ag_organization_id a \<and> 0 < ag_owner_user_id a
     \<and> 0 < ag_version a \<and> py_strip (ag_title a) = ag_title a \<and> ag_title a \<noteq> [] \<and> length (ag_title a) \<le> 255
     \<and> (ag_lifecycle a = Active \<longleftrightarrow> ag_archived_at a = None)"

lemma aggregate_checked_ok: "aggregate_ok a \<Longrightarrow> aggregate_checked a = Inr a"
  by (auto simp: aggregate_checked_def aggregate_ok_def title_checked_def Let_def split: option.splits)

lemma aggregate_checked_Inr:
  "aggregate_checked a = Inr b \<Longrightarrow> aggregate_ok b \<and> b = a\<lparr>ag_title := py_strip (ag_title a)\<rparr>"
  by (auto simp: aggregate_checked_def aggregate_ok_def dest!: title_checked_Inr
      split: if_splits sum.splits option.splits) (metis lifecycle.exhaust)+

definition row_ok :: "conversation \<Rightarrow> bool" where
  "row_ok r \<longleftrightarrow> (\<exists>i. cv_id r = Some i \<and> 0 < i) \<and> conversation_constraints r \<and> 0 < cv_organization_id r
     \<and> 0 < cv_user_id r \<and> py_strip (cv_title r) = cv_title r \<and> cv_title r \<noteq> [] \<and> length (cv_title r) \<le> 255"

definition aggregate_of :: "conversation \<Rightarrow> conversation_aggregate" where
  "aggregate_of r = \<lparr>ag_id = cv_id r, ag_organization_id = cv_organization_id r,
     ag_owner_user_id = cv_user_id r, ag_title = cv_title r,
     ag_lifecycle = (if cv_lifecycle r = ''active'' then Active else Archived), ag_version = cv_version r,
     ag_created_at = cv_created_at r, ag_updated_at = cv_updated_at r, ag_archived_at = cv_archived_at r\<rparr>"

definition row_of :: "conversation_aggregate \<Rightarrow> conversation" where
  "row_of a = \<lparr>cv_id = ag_id a, cv_user_id = ag_owner_user_id a, cv_organization_id = ag_organization_id a,
     cv_title = ag_title a, cv_lifecycle = lifecycle_value (ag_lifecycle a), cv_version = ag_version a,
     cv_archived_at = ag_archived_at a, cv_created_at = ag_created_at a, cv_updated_at = ag_updated_at a\<rparr>"

lemma hydrate_ok: "row_ok r \<Longrightarrow> hydrate_conversation r = Inr (aggregate_of r) \<and> aggregate_ok (aggregate_of r)"
proof -
  assume ok: "row_ok r"
  have a: "aggregate_ok (aggregate_of r)"
    using ok by (auto simp: row_ok_def aggregate_ok_def aggregate_of_def conversation_constraints_def)
  have l: "lifecycle_of (cv_lifecycle r) = Some (ag_lifecycle (aggregate_of r))"
    using ok by (auto simp: row_ok_def lifecycle_of_def aggregate_of_def conversation_constraints_def)
  show ?thesis
    using a aggregate_checked_ok [OF a] l by (simp add: hydrate_conversation_def aggregate_of_def)
qed

lemma row_of_aggregate_of: "row_ok r \<Longrightarrow> row_of (aggregate_of r) = r"
  by (cases r) (auto simp: row_of_def aggregate_of_def row_ok_def conversation_constraints_def)

lemma row_of_ok: "aggregate_ok a \<Longrightarrow> ag_id a \<noteq> None \<Longrightarrow> row_ok (row_of a)"
  by (cases "ag_lifecycle a") (auto simp: row_ok_def row_of_def aggregate_ok_def conversation_constraints_def)

text \<open>A transition keeps the identity, bumps the version by one and stamps the time, or does nothing.\<close>

lemma transition_Inr:
  assumes "transition a b = Inr a'" and "ag_id b = ag_id a" and "ag_organization_id b = ag_organization_id a"
    and "ag_owner_user_id b = ag_owner_user_id a" and "ag_created_at b = ag_created_at a"
  shows "aggregate_ok a' \<and> ag_version a' = ag_version a + 1 \<and> ag_id a' = ag_id a
    \<and> ag_organization_id a' = ag_organization_id a \<and> ag_owner_user_id a' = ag_owner_user_id a
    \<and> ag_created_at a' = ag_created_at a \<and> ag_updated_at a' = ag_updated_at b \<and> ag_lifecycle a' = ag_lifecycle b"
  using aggregate_checked_Inr [OF assms(1) [unfolded transition_def]] assms(2-5) by auto

lemma changed_aggregate_Inr:
  assumes "changed_aggregate c now a = Inr a'" and "a' \<noteq> a"
  shows "aggregate_ok a' \<and> ag_version a' = ag_version a + 1 \<and> ag_id a' = ag_id a
    \<and> ag_organization_id a' = ag_organization_id a \<and> ag_owner_user_id a' = ag_owner_user_id a
    \<and> ag_created_at a' = ag_created_at a \<and> ag_updated_at a' = now"
proof (cases c)
  case (Rename t)
  then obtain s where "transition a (a\<lparr>ag_title := s, ag_updated_at := now\<rparr>) = Inr a'"
    using assms(1) by (auto simp: rename_def split: sum.splits)
  from transition_Inr [OF this] show ?thesis by simp
next
  case ArchiveIt
  then have "transition a (a\<lparr>ag_lifecycle := Archived, ag_archived_at := Some now, ag_updated_at := now\<rparr>) = Inr a'"
    using assms by (auto simp: archive_def split: if_splits)
  from transition_Inr [OF this] show ?thesis by simp
next
  case ReopenIt
  then have "transition a (a\<lparr>ag_lifecycle := Active, ag_archived_at := None, ag_updated_at := now\<rparr>) = Inr a'"
    using assms by (auto simp: reopen_def split: if_splits)
  from transition_Inr [OF this] show ?thesis by simp
qed

lemma apply_conversation_row:
  "ag_id a = cv_id r \<Longrightarrow> ag_organization_id a = cv_organization_id r \<Longrightarrow> ag_owner_user_id a = cv_user_id r
   \<Longrightarrow> ag_created_at a = cv_created_at r \<Longrightarrow> apply_conversation r a = Inr (row_of a)"
  by (cases r) (simp add: apply_conversation_def row_of_def)

lemma changed_row_Inr:
  assumes "changed_row c now l = Inr r" and "row_ok l"
  shows "r = l \<or> row_ok r \<and> cv_id r = cv_id l \<and> cv_user_id r = cv_user_id l
      \<and> cv_organization_id r = cv_organization_id l \<and> cv_created_at r = cv_created_at l
      \<and> cv_version r = cv_version l + 1 \<and> cv_updated_at r = now"
proof -
  note h = hydrate_ok [OF assms(2)]
  obtain a' where a': "changed_aggregate c now (aggregate_of l) = Inr a'" "apply_conversation l a' = Inr r"
    using assms(1) h by (auto simp: changed_row_def split: sum.splits)
  show ?thesis
  proof (cases "a' = aggregate_of l")
    case True
    then have "apply_conversation l a' = Inr (row_of a')"
      by (intro apply_conversation_row) (simp_all add: aggregate_of_def)
    then show ?thesis using a'(2) True row_of_aggregate_of [OF assms(2)] by simp
  next
    case False
    note ch = changed_aggregate_Inr [OF a'(1) False]
    have "apply_conversation l a' = Inr (row_of a')"
      by (rule apply_conversation_row) (use ch in \<open>simp_all add: aggregate_of_def\<close>)
    then have r: "r = row_of a'" using a'(2) by simp
    have "ag_id a' \<noteq> None" using ch assms(2) by (auto simp: aggregate_of_def row_ok_def)
    then have "row_ok r" using ch r row_of_ok by simp
    then show ?thesis using ch r by (simp add: row_of_def aggregate_of_def)
  qed
qed

text \<open>The update of a row that is still the loaded one writes exactly the changed row.\<close>

lemma merged_row_same:
  assumes "changed_row c now l = Inr r" and "row_ok l" and "r \<noteq> l"
  shows "merged_row now l r l = r"
  using changed_row_Inr [OF assms(1,2)] assms(3) by (cases l, cases r) (auto simp: merged_row_def)

lemma commit_change_Updated:
  assumes "commit_change c now l db = (Inr Updated, db')" and "row_ok l"
  obtains r stored where "changed_row c now l = Inr r" and "r \<noteq> l" and "cv_version r = cv_version l + 1"
    and "get_by cv_id (cv_id l) (cd_rows db) = Some stored" and "cv_version stored = cv_version l"
    and "db' = db\<lparr>cd_rows := set_by cv_id (cv_id l) (merged_row now l r) (cd_rows db)\<rparr>" and "row_ok r"
proof -
  obtain r where r: "changed_row c now l = Inr r" "flush_conversation now l r db = (Updated, db')"
    using assms(1) by (auto simp: commit_change_def split: sum.splits prod.splits)
  have ne: "r \<noteq> l" using r(2) by (auto simp: flush_conversation_def)
  then have "cv_version r = cv_version l + 1" "row_ok r" using changed_row_Inr [OF r(1) assms(2)] by simp_all
  moreover obtain stored where "get_by cv_id (cv_id l) (cd_rows db) = Some stored" "cv_version stored = cv_version l"
    "db' = db\<lparr>cd_rows := set_by cv_id (cv_id l) (merged_row now l r) (cd_rows db)\<rparr>"
    using r(2) ne by (auto simp: flush_conversation_def split: option.splits if_splits)
  ultimately show thesis using r(1) ne that by blast
qed

lemma commit_change_keeps:
  "commit_change c now l db = (x, db') \<Longrightarrow> x \<noteq> Inr Updated \<Longrightarrow> db' = db"
  by (auto simp: commit_change_def flush_conversation_def split: sum.splits prod.splits option.splits if_splits)

section \<open>Versioned rows\<close>

text \<open>
  The contract of optimistic locking: a commit prepared from a version of its row only succeeds while
  the row still has that version, and then leaves a later one; nothing else moves a version.  So of
  all commits prepared from one version (or an older one) at most the first one succeeds.
\<close>

locale versioned_rows =
  fixes commit :: "'w \<Rightarrow> 's \<Rightarrow> 'r \<times> 's"
    and wins :: "'r \<Rightarrow> bool"
    and sound :: "'w \<Rightarrow> bool"
    and key :: "'w \<Rightarrow> 'k"
    and base :: "'w \<Rightarrow> int"
    and current :: "'k \<Rightarrow> 's \<Rightarrow> int"
  assumes win: "sound w \<Longrightarrow> commit w s = (r, s') \<Longrightarrow> wins r
      \<Longrightarrow> current (key w) s = base w \<and> base w < current (key w) s'"
    and frame: "sound w \<Longrightarrow> commit w s = (r, s') \<Longrightarrow> k \<noteq> key w \<or> \<not> wins r \<Longrightarrow> current k s' = current k s"
begin

lemma current_mono:
  "list_all sound ws \<Longrightarrow> current k s \<le> current k (snd (run_results commit ws s))"
proof (induction ws arbitrary: s)
  case (Cons w ws)
  obtain r s' where c: "commit w s = (r, s')" by fastforce
  have "current k s \<le> current k s'"
    using win [OF _ c] frame [OF _ c, of k] Cons.prems by (cases "k = key w \<and> wins r") auto
  moreover have "current k s' \<le> current k (snd (run_results commit ws s'))"
    using Cons.IH [of s'] Cons.prems by simp
  ultimately show ?case using c by (auto split: prod.splits)
qed simp

lemma stale_after_win:
  assumes "sound w" and "commit w s = (r, s')" and "wins r" and "list_all sound ws"
    and "sound v" and "key v = key w" and "base v \<le> base w"
  shows "\<not> wins (fst (commit v (snd (run_results commit ws s'))))"
proof
  assume "wins (fst (commit v (snd (run_results commit ws s'))))"
  then have "current (key v) (snd (run_results commit ws s')) = base v"
    using win [OF assms(5)] by (metis prod.collapse)
  moreover have "base w < current (key w) s'" using win [OF assms(1,2,3)] by simp
  moreover have "current (key w) s' \<le> current (key w) (snd (run_results commit ws s'))"
    by (rule current_mono [OF assms(4)])
  ultimately show False using assms(6,7) by simp
qed

end

type_synonym conversation_write = "conversation_change \<times> microseconds \<times> conversation"

fun commit_write :: "conversation_write \<Rightarrow> conversation_db \<Rightarrow> (state_error + flush_result) \<times> conversation_db" where
  "commit_write (c, now, l) db = commit_change c now l db"

definition write_loaded :: "conversation_write \<Rightarrow> conversation" where
  "write_loaded w = snd (snd w)"

definition stored_version :: "identity option \<Rightarrow> conversation_db \<Rightarrow> int" where
  "stored_version k db = (case get_by cv_id k (cd_rows db) of None \<Rightarrow> 0 | Some r \<Rightarrow> cv_version r)"

lemma merged_row_id: "cv_id (merged_row now l r x) = cv_id x"
  by (simp add: merged_row_def)

lemma stored_version_set:
  "stored_version k (db\<lparr>cd_rows := set_by cv_id k' (merged_row now l r) (cd_rows db)\<rparr>)
    = (case get_by cv_id k (cd_rows db) of None \<Rightarrow> 0
       | Some x \<Rightarrow> cv_version (if k = k' then merged_row now l r x else x))"
  by (cases "k = k'") (auto simp: stored_version_def get_by_set_by_same get_by_set_by_other merged_row_id split: option.splits)

interpretation versioned: versioned_rows commit_write "\<lambda>r. r = Inr Updated" "\<lambda>w. row_ok (write_loaded w)"
  "\<lambda>w. cv_id (write_loaded w)" "\<lambda>w. cv_version (write_loaded w)" stored_version
proof
  fix w :: conversation_write and s s' r
  assume ok: "row_ok (write_loaded w)" and run: "commit_write w s = (r, s')" and "r = Inr Updated"
  obtain c now l where w: "w = (c, now, l)" using prod_cases3 by blast
  from run ok w \<open>r = Inr Updated\<close> have "commit_change c now l s = (Inr Updated, s')" "row_ok l"
    by (simp_all add: write_loaded_def)
  then obtain x stored where x: "cv_version x = cv_version l + 1"
    "get_by cv_id (cv_id l) (cd_rows s) = Some stored" "cv_version stored = cv_version l"
    "s' = s\<lparr>cd_rows := set_by cv_id (cv_id l) (merged_row now l x) (cd_rows s)\<rparr>"
    by (rule commit_change_Updated)
  have "stored_version (cv_id l) s' = cv_version l + 1"
    using x(1,2) unfolding x(4) stored_version_set by (simp add: merged_row_def)
  then show "stored_version (cv_id (write_loaded w)) s = cv_version (write_loaded w)
      \<and> cv_version (write_loaded w) < stored_version (cv_id (write_loaded w)) s'"
    using x(2,3) w by (simp add: write_loaded_def stored_version_def)
next
  fix w :: conversation_write and s s' r k
  assume ok: "row_ok (write_loaded w)" and run: "commit_write w s = (r, s')"
    and other: "k \<noteq> cv_id (write_loaded w) \<or> r \<noteq> Inr Updated"
  obtain c now l where w: "w = (c, now, l)" using prod_cases3 by blast
  show "stored_version k s' = stored_version k s"
  proof (cases "r = Inr Updated")
    case True
    with run ok w have "commit_change c now l s = (Inr Updated, s')" "row_ok l" by (simp_all add: write_loaded_def)
    then obtain x where x: "s' = s\<lparr>cd_rows := set_by cv_id (cv_id l) (merged_row now l x) (cd_rows s)\<rparr>"
      by (rule commit_change_Updated)
    show ?thesis using other True w unfolding x stored_version_set
      by (auto simp: write_loaded_def stored_version_def split: option.splits)
  next
    case False
    then have "s' = s" using commit_change_keeps run w by simp
    then show ?thesis by simp
  qed
qed

section \<open>Runs of concurrent transactions\<close>

text \<open>
  The table together with the rows that transactions have loaded so far.  A conversation is created,
  a row is loaded, or any change of any row loaded earlier is committed.
\<close>

definition conversations_wf :: "conversation_db \<Rightarrow> bool" where
  "conversations_wf db \<longleftrightarrow> distinct (map cv_id (cd_rows db)) \<and> 0 < cd_next db
     \<and> (\<forall>r \<in> set (cd_rows db). row_ok r \<and> the (cv_id r) < cd_next db)"

inductive conversation_run :: "conversation_db \<Rightarrow> conversation list \<Rightarrow> bool" where
  start: "0 < n \<Longrightarrow> conversation_run \<lparr>cd_rows = [], cd_members = ms, cd_next = n\<rparr> []"
| create: "conversation_run db ls \<Longrightarrow> conversation_run (snd (create_conversation uid org title now db)) ls"
| load: "conversation_run db ls \<Longrightarrow> load_conversation cid uid org db = Inr r \<Longrightarrow> conversation_run db (r # ls)"
| commit: "conversation_run db ls \<Longrightarrow> l \<in> set ls \<Longrightarrow> conversation_run (snd (commit_change c now l db)) ls"

lemma create_conversation_shape:
  assumes "create_conversation uid org title now db = (x, db')"
  shows "db' = db \<or> (\<exists>r. x = Inr r \<and> db' = db\<lparr>cd_rows := cd_rows db @ [r], cd_next := cd_next db + 1\<rparr>
      \<and> cv_id r = Some (cd_next db) \<and> (0 < cd_next db \<longrightarrow> row_ok r)
      \<and> cv_user_id r = uid \<and> cv_organization_id r = org \<and> cv_lifecycle r = ''active'' \<and> cv_version r = 1
      \<and> cv_title r = py_strip title)"
proof (cases "create_aggregate org uid (PStr title) now")
  case (Inl e)
  then show ?thesis using assms by (cases e) (simp_all add: create_conversation_def)
next
  case (Inr a)
  then have a: "aggregate_ok a" "ag_id a = None" "ag_owner_user_id a = uid" "ag_organization_id a = org"
    "ag_lifecycle a = Active" "ag_version a = 1" "ag_title a = py_strip title"
    by (auto simp: create_aggregate_def dest!: aggregate_checked_Inr)
  let ?r = "(row_of a)\<lparr>cv_id := Some (cd_next db)\<rparr>"
  have "new_conversation a = Inr (row_of a)" using a(2) by (simp add: new_conversation_def row_of_def)
  then have "(x, db') = insert_conversation (row_of a) db" using Inr assms by (simp add: create_conversation_def)
  moreover have "0 < cd_next db \<longrightarrow> row_ok ?r"
    using a by (auto simp: row_ok_def row_of_def aggregate_ok_def conversation_constraints_def)
  ultimately consider "db' = db"
    | "x = Inr ?r" "db' = db\<lparr>cd_rows := cd_rows db @ [?r], cd_next := cd_next db + 1\<rparr>" "0 < cd_next db \<longrightarrow> row_ok ?r"
    by (auto simp: insert_conversation_def Let_def split: if_splits)
  then show ?thesis
  proof cases
    case 2
    then show ?thesis using a by (intro disjI2 exI [of _ ?r]) (simp add: row_of_def)
  qed simp
qed

lemma get_by_set_by_same_at:
  "key y = k \<Longrightarrow> get_by key k rows = Some x \<Longrightarrow> get_by key k (set_by key k (\<lambda>_. y) rows) = Some y"
  by (induction rows) (auto simp: get_by_def set_by_def update_where_def split: if_splits)

lemma get_by_set_by_other_at:
  "key y = k \<Longrightarrow> k' \<noteq> k \<Longrightarrow> get_by key k' (set_by key k (\<lambda>_. y) rows) = get_by key k' rows"
  by (induction rows) (auto simp: get_by_def set_by_def update_where_def)

text \<open>Versions only grow, and a loaded row whose version is still the stored one is the stored row.\<close>

definition loaded_sound :: "conversation_db \<Rightarrow> conversation \<Rightarrow> bool" where
  "loaded_sound db l \<longleftrightarrow> row_ok l \<and> (\<exists>r. get_by cv_id (cv_id l) (cd_rows db) = Some r
     \<and> cv_version l \<le> cv_version r \<and> (cv_version r = cv_version l \<longrightarrow> r = l)
     \<and> cv_user_id r = cv_user_id l \<and> cv_organization_id r = cv_organization_id l)"

lemma commit_loaded:
  assumes "conversations_wf db" and "loaded_sound db l" and "commit_change c now l db = (Inr Updated, db')"
  obtains r where "changed_row c now l = Inr r" and "get_by cv_id (cv_id l) (cd_rows db) = Some l"
    and "db' = db\<lparr>cd_rows := set_by cv_id (cv_id l) (\<lambda>_. r) (cd_rows db)\<rparr>" and "row_ok r"
    and "cv_version r = cv_version l + 1" and "cv_id r = cv_id l" and "cv_user_id r = cv_user_id l"
    and "cv_organization_id r = cv_organization_id l"
proof -
  have ok: "row_ok l" using assms(2) by (simp add: loaded_sound_def)
  obtain r stored where r: "changed_row c now l = Inr r" "r \<noteq> l" "cv_version r = cv_version l + 1"
    "get_by cv_id (cv_id l) (cd_rows db) = Some stored" "cv_version stored = cv_version l"
    "db' = db\<lparr>cd_rows := set_by cv_id (cv_id l) (merged_row now l r) (cd_rows db)\<rparr>" "row_ok r"
    by (rule commit_change_Updated [OF assms(3) ok])
  have l: "stored = l" using r(4,5) assms(2) by (auto simp: loaded_sound_def)
  have "\<And>x. x \<in> set (cd_rows db) \<Longrightarrow> cv_id x = cv_id l \<Longrightarrow> x = l"
    using get_by_distinct [of cv_id "cd_rows db"] assms(1) r(4) l by (fastforce simp: conversations_wf_def)
  then have "set_by cv_id (cv_id l) (merged_row now l r) (cd_rows db) = set_by cv_id (cv_id l) (\<lambda>_. r) (cd_rows db)"
    using merged_row_same [OF r(1) ok r(2)] by (auto simp: set_by_def update_where_def)
  then show thesis using that r l changed_row_Inr [OF r(1) ok] by auto
qed

lemma create_keeps:
  assumes "conversations_wf db" and "create_conversation uid org title now db = (x, db')"
  shows "conversations_wf db' \<and> (\<forall>l. loaded_sound db l \<longrightarrow> loaded_sound db' l)"
  using create_conversation_shape [OF assms(2)]
proof
  assume "\<exists>r. x = Inr r \<and> db' = db\<lparr>cd_rows := cd_rows db @ [r], cd_next := cd_next db + 1\<rparr>
      \<and> cv_id r = Some (cd_next db) \<and> (0 < cd_next db \<longrightarrow> row_ok r)
      \<and> cv_user_id r = uid \<and> cv_organization_id r = org \<and> cv_lifecycle r = ''active'' \<and> cv_version r = 1
      \<and> cv_title r = py_strip title"
  then obtain r where r: "db' = db\<lparr>cd_rows := cd_rows db @ [r], cd_next := cd_next db + 1\<rparr>"
    "cv_id r = Some (cd_next db)" "row_ok r"
    using assms(1) by (auto simp: conversations_wf_def)
  have fresh: "\<forall>y \<in> set (cd_rows db). cv_id y \<noteq> Some (cd_next db)"
    using assms(1) by (fastforce simp: conversations_wf_def)
  have "conversations_wf db'"
    using assms(1) fresh r by (fastforce simp: conversations_wf_def)
  moreover have "loaded_sound db' l" if "loaded_sound db l" for l
  proof -
    from that obtain y where y: "get_by cv_id (cv_id l) (cd_rows db) = Some y" by (auto simp: loaded_sound_def)
    then have "get_by cv_id (cv_id l) (cd_rows db') = Some y"
      unfolding r(1) by (simp add: get_by_def find_append)
    then show ?thesis using that y by (auto simp: loaded_sound_def)
  qed
  ultimately show ?thesis by blast
qed (use assms(1) in simp)

lemma load_conversation_Inr:
  "load_conversation cid uid org db = Inr r \<Longrightarrow> r \<in> set (cd_rows db) \<and> cv_id r = Some cid
     \<and> cv_user_id r = uid \<and> cv_organization_id r = org"
  by (auto simp: load_conversation_def dest!: find_SomeD split: option.splits)

lemma load_sound:
  assumes "conversations_wf db" and "r \<in> set (cd_rows db)"
  shows "loaded_sound db r"
proof -
  have "get_by cv_id (cv_id r) (cd_rows db) = Some r"
    using assms by (auto simp: conversations_wf_def intro: get_by_distinct)
  then show ?thesis using assms by (simp add: loaded_sound_def conversations_wf_def)
qed

lemma commit_keeps:
  assumes "conversations_wf db" and "loaded_sound db l" and "commit_change c now l db = (x, db')"
  shows "conversations_wf db' \<and> (\<forall>l'. loaded_sound db l' \<longrightarrow> loaded_sound db' l')"
proof (cases "x = Inr Updated")
  case False
  then show ?thesis using commit_change_keeps [OF assms(3)] assms(1) by simp
next
  case True
  obtain r where r: "get_by cv_id (cv_id l) (cd_rows db) = Some l"
    "db' = db\<lparr>cd_rows := set_by cv_id (cv_id l) (\<lambda>_. r) (cd_rows db)\<rparr>" "row_ok r"
    "cv_version r = cv_version l + 1" "cv_id r = cv_id l" "cv_user_id r = cv_user_id l"
    "cv_organization_id r = cv_organization_id l"
    using commit_loaded [OF assms(1,2)] assms(3) True by metis
  have keys: "map cv_id (set_by cv_id (cv_id l) (\<lambda>_. r) (cd_rows db)) = map cv_id (cd_rows db)"
    using r(5) by (auto simp: set_by_def update_where_def)
  have mem: "y \<in> set (cd_rows db') \<Longrightarrow> y \<in> set (cd_rows db) \<or> y = r" for y
    using r(2) by (auto simp: set_by_def update_where_def)
  have lm: "l \<in> set (cd_rows db)" using get_by_SomeD [OF r(1)] by simp
  have "the (cv_id r) < cd_next db" using assms(1) lm r(5) by (simp add: conversations_wf_def)
  then have "conversations_wf db'"
    using assms(1) r(2,3) mem keys by (auto simp: conversations_wf_def)
  moreover have "loaded_sound db' l'" if l': "loaded_sound db l'" for l'
  proof (cases "cv_id l' = cv_id l")
    case True
    have "get_by cv_id (cv_id l) (cd_rows db') = Some r"
      using get_by_set_by_same_at [where key = cv_id, OF r(5) r(1)] r(2) by simp
    then show ?thesis using l' r True by (auto simp: loaded_sound_def)
  next
    case False
    have "get_by cv_id (cv_id l') (cd_rows db') = get_by cv_id (cv_id l') (cd_rows db)"
      using get_by_set_by_other_at [where key = cv_id, OF r(5) False] r(2) by simp
    then show ?thesis using l' by (simp add: loaded_sound_def)
  qed
  ultimately show ?thesis by blast
qed

lemma conversation_run_sound:
  "conversation_run db ls \<Longrightarrow> conversations_wf db \<and> (\<forall>l \<in> set ls. loaded_sound db l)"
proof (induction rule: conversation_run.induct)
  case (start n ms)
  then show ?case by (simp add: conversations_wf_def)
next
  case (create db ls uid org title now)
  then show ?case using create_keeps [of db uid org title now] by (metis prod.collapse)
next
  case (load db ls cid uid org r)
  then show ?case using load_sound load_conversation_Inr by fastforce
next
  case (commit db ls l c now)
  then show ?case using commit_keeps [of db l c now] by (metis prod.collapse)
qed

text \<open>C22: Concurrent transactions on conversations behave as if each were atomic.  In every state reached
  by creating conversations and committing transitions of rows loaded at any earlier time, a commit
  either leaves the table untouched or finds the very row it loaded still stored, and replaces that row
  alone by the complete result of its transition, one version later; from then on every commit prepared
  from that version or an older one, after whatever further commits, is refused without effect.\<close>

theorem conversation_commits_serialize:
  assumes "conversation_run db ls" and "l \<in> set ls" and "commit_change c now l db = (x, db')"
  shows "db' = db \<and> x \<noteq> Inr Updated
    \<or> x = Inr Updated \<and> (\<exists>r. changed_row c now l = Inr r \<and> get_by cv_id (cv_id l) (cd_rows db) = Some l
        \<and> db' = db\<lparr>cd_rows := set_by cv_id (cv_id l) (\<lambda>_. r) (cd_rows db)\<rparr>
        \<and> cv_version r = cv_version l + 1 \<and> hydrate_conversation r \<in> range Inr)
      \<and> (\<forall>ws c' now' v. set (map write_loaded ws) \<subseteq> set ls \<and> v \<in> set ls \<and> cv_id v = cv_id l
            \<and> cv_version v \<le> cv_version l
          \<longrightarrow> fst (commit_change c' now' v (snd (run_results commit_write ws db'))) \<noteq> Inr Updated)"
proof (cases "x = Inr Updated")
  case False
  then show ?thesis using commit_change_keeps [OF assms(3)] by simp
next
  case True
  note sound = conversation_run_sound [OF assms(1)]
  have l: "loaded_sound db l" and wf: "conversations_wf db" using sound assms(2) by auto
  have run: "commit_change c now l db = (Inr Updated, db')" using assms(3) True by simp
  have shape: "\<exists>r. changed_row c now l = Inr r \<and> get_by cv_id (cv_id l) (cd_rows db) = Some l
        \<and> db' = db\<lparr>cd_rows := set_by cv_id (cv_id l) (\<lambda>_. r) (cd_rows db)\<rparr>
        \<and> cv_version r = cv_version l + 1 \<and> hydrate_conversation r \<in> range Inr"
    using commit_loaded [OF wf l run] hydrate_ok by (metis rangeI)
  have ok: "row_ok v" if "v \<in> set ls" for v using sound that by (simp add: loaded_sound_def)
  have "fst (commit_change c' now' v (snd (run_results commit_write ws db'))) \<noteq> Inr Updated"
    if "set (map write_loaded ws) \<subseteq> set ls" "v \<in> set ls" "cv_id v = cv_id l" "cv_version v \<le> cv_version l" for ws c' now' v
    using versioned.stale_after_win [of "(c, now, l)" db "Inr Updated" db' ws "(c', now', v)"] that run ok assms(2)
    by (auto simp: write_loaded_def list_all_iff)
  then show ?thesis using shape True by blast
qed

definition sample_conversations :: conversation_db where
  "sample_conversations = \<lparr>cd_rows = [], cd_members = [(7, 3)], cd_next = 1\<rparr>"

definition sample_conversation :: conversation where
  "sample_conversation = \<lparr>cv_id = Some 1, cv_user_id = 7, cv_organization_id = 3, cv_title = ''Plan'',
     cv_lifecycle = ''active'', cv_version = 1, cv_archived_at = None, cv_created_at = 5, cv_updated_at = 5\<rparr>"

lemma sample_created:
  "create_conversation 7 3 ''Plan'' 5 sample_conversations
    = (Inr sample_conversation, \<lparr>cd_rows = [sample_conversation], cd_members = [(7, 3)], cd_next = 2\<rparr>)"
  by (simp add: create_conversation_def create_aggregate_def aggregate_checked_def title_checked_def Let_def
      new_conversation_def insert_conversation_def conversation_constraints_def sample_conversations_def
      sample_conversation_def py_strip_def py_lstrip_def py_rstrip_def py_space_def)

lemma sample_run:
  "conversation_run \<lparr>cd_rows = [sample_conversation], cd_members = [(7, 3)], cd_next = 2\<rparr> [sample_conversation]"
proof -
  have "conversation_run sample_conversations []"
    unfolding sample_conversations_def by (rule conversation_run.start) simp
  from conversation_run.create [OF this, of 7 3 "''Plan''" 5]
  have "conversation_run \<lparr>cd_rows = [sample_conversation], cd_members = [(7, 3)], cd_next = 2\<rparr> []"
    by (simp add: sample_created)
  from conversation_run.load [OF this, of 1 7 3 sample_conversation]
  show ?thesis by (simp add: load_conversation_def sample_conversation_def)
qed

lemma sample_commit:
  "\<exists>db'. commit_change ArchiveIt 9 sample_conversation
      \<lparr>cd_rows = [sample_conversation], cd_members = [(7, 3)], cd_next = 2\<rparr> = (Inr Updated, db')"
  by (simp add: commit_change_def changed_row_def hydrate_conversation_def aggregate_checked_def title_checked_def
      Let_def archive_def transition_def apply_conversation_def flush_conversation_def merged_row_def
      conversation_constraints_def sample_conversation_def lifecycle_of_def get_by_def
      py_strip_def py_lstrip_def py_rstrip_def py_space_def)

theorem conversation_commits_serialize_witness:
  "\<exists>db'. commit_change ArchiveIt 9 sample_conversation
      \<lparr>cd_rows = [sample_conversation], cd_members = [(7, 3)], cd_next = 2\<rparr> = (Inr Updated, db')
    \<and> fst (commit_change (Rename (PStr ''Other'')) 10 sample_conversation db') \<noteq> Inr Updated"
proof -
  obtain db' where run: "commit_change ArchiveIt 9 sample_conversation
      \<lparr>cd_rows = [sample_conversation], cd_members = [(7, 3)], cd_next = 2\<rparr> = (Inr Updated, db')"
    using sample_commit by blast
  have "\<forall>ws c' now' v. set (map write_loaded ws) \<subseteq> set [sample_conversation] \<and> v \<in> set [sample_conversation]
      \<and> cv_id v = cv_id sample_conversation \<and> cv_version v \<le> cv_version sample_conversation
      \<longrightarrow> fst (commit_change c' now' v (snd (run_results commit_write ws db'))) \<noteq> Inr Updated"
    using conversation_commits_serialize [OF sample_run _ run] by auto
  from this [rule_format, of "[]" sample_conversation "Rename (PStr ''Other'')" 10]
  show ?thesis using run by auto
qed

text \<open>What archiving does to a well-formed row.\<close>

lemma archive_row:
  assumes "row_ok l"
  obtains r where "changed_row ArchiveIt now l = Inr r" and "cv_lifecycle r = ''archived''" and "cv_title r = cv_title l"
    and "row_ok r" and "cv_id r = cv_id l" and "cv_user_id r = cv_user_id l" and "cv_organization_id r = cv_organization_id l"
proof (cases "cv_lifecycle l = ''archived''")
  case True
  have "changed_row ArchiveIt now l = Inr l"
    using hydrate_ok [OF assms] row_of_aggregate_of [OF assms] apply_conversation_row [of "aggregate_of l" l] True
    by (simp add: changed_row_def archive_def aggregate_of_def)
  then show thesis using that [of l] True assms by blast
next
  case False
  let ?a = "aggregate_of l"
  let ?b = "?a\<lparr>ag_lifecycle := Archived, ag_archived_at := Some now, ag_updated_at := now, ag_version := ag_version ?a + 1\<rparr>"
  have b: "aggregate_ok ?b" using hydrate_ok [OF assms] by (auto simp: aggregate_ok_def)
  have "ag_lifecycle ?a = Active"
    using False assms by (auto simp: aggregate_of_def row_ok_def conversation_constraints_def)
  then have "archive now ?a = Inr ?b" using aggregate_checked_ok [OF b] by (simp add: archive_def transition_def)
  moreover have "apply_conversation l ?b = Inr (row_of ?b)"
    by (rule apply_conversation_row) (simp_all add: aggregate_of_def)
  ultimately have "changed_row ArchiveIt now l = Inr (row_of ?b)"
    using hydrate_ok [OF assms] by (simp add: changed_row_def)
  moreover have "row_ok (row_of ?b)" using b assms by (intro row_of_ok) (auto simp: aggregate_of_def row_ok_def)
  ultimately show thesis using that [of "row_of ?b"] by (simp add: row_of_def aggregate_of_def)
qed

lemma find_keyed:
  "distinct (map key rows) \<Longrightarrow> find (\<lambda>r. key r = k \<and> P r) rows =
     (case get_by key k rows of None \<Rightarrow> None | Some r \<Rightarrow> if P r then Some r else None)"
proof (induction rows)
  case (Cons a rows)
  from Cons.prems have "key a \<notin> key ` set rows" by simp
  then have "key a = k \<Longrightarrow> find (\<lambda>r. key r = k \<and> P r) rows = None" by (auto simp: find_None_iff image_iff)
  then show ?case using Cons by (auto simp: get_by_def)
qed (simp add: get_by_def)

lemma load_row:
  "conversations_wf db \<Longrightarrow> load_conversation cid uid org db =
     (case get_by cv_id (Some cid) (cd_rows db) of
        None \<Rightarrow> Inl (HTTPException 404 ''Conversation not found'')
      | Some r \<Rightarrow> if cv_organization_id r = org \<and> cv_user_id r = uid then Inr r
          else Inl (HTTPException 404 ''Conversation not found''))"
  using find_keyed [of cv_id "cd_rows db" "Some cid" "\<lambda>r. cv_organization_id r = org \<and> cv_user_id r = uid"]
  by (cases "get_by cv_id (Some cid) (cd_rows db)") (auto simp: load_conversation_def conversations_wf_def)

lemma flush_fresh:
  assumes "conversations_wf db" and "get_by cv_id (cv_id l) (cd_rows db) = Some l" and "row_ok l"
    and "changed_row c now l = Inr r"
  shows "flush_conversation now l r db = (if r = l then (Unchanged, db)
      else (Updated, db\<lparr>cd_rows := set_by cv_id (cv_id l) (\<lambda>_. r) (cd_rows db)\<rparr>))"
proof (cases "r = l")
  case False
  have "conversation_constraints r" using changed_row_Inr [OF assms(4,3)] False by (simp add: row_ok_def)
  then have "\<exists>db'. commit_change c now l db = (Inr Updated, db')"
    using assms(2,4) merged_row_same [OF assms(4,3) False] False
    by (simp add: commit_change_def flush_conversation_def)
  then obtain db' where run: "commit_change c now l db = (Inr Updated, db')" by blast
  have "loaded_sound db l" using load_sound [OF assms(1)] get_by_SomeD [OF assms(2)] by simp
  from commit_loaded [OF assms(1) this run] assms(4)
  have "db' = db\<lparr>cd_rows := set_by cv_id (cv_id l) (\<lambda>_. r) (cd_rows db)\<rparr>" by auto
  then show ?thesis using run assms(4) False by (simp add: commit_change_def split: prod.splits)
qed (simp add: flush_conversation_def)

text \<open>Deleting a conversation archives it.  On every reachable table an undisturbed delete by the
  owner, in the owning organization, succeeds and leaves the conversation with its title under the same
  id, archived, so that it accepts no further execution; every other conversation stays as it was and
  deleting again succeeds without any change.  For everybody else it is a 404 without effect.\<close>

theorem delete_archives_own_conversation:
  assumes "conversation_run db ls" and "delete_conversation cid uid org now db db = (x, db')"
  shows "case get_by cv_id (Some cid) (cd_rows db) of
      None \<Rightarrow> x = Inl (HTTPException 404 ''Conversation not found'') \<and> db' = db
    | Some l \<Rightarrow> if cv_organization_id l \<noteq> org \<or> cv_user_id l \<noteq> uid
        then x = Inl (HTTPException 404 ''Conversation not found'') \<and> db' = db
        else x = Inr () \<and> (\<exists>r a. get_by cv_id (Some cid) (cd_rows db') = Some r \<and> cv_title r = cv_title l
            \<and> hydrate_conversation r = Inr a
            \<and> assert_accepts_execution a = Inl (ConversationStateError ''conversation_archived''))
          \<and> (\<forall>k. k \<noteq> Some cid \<longrightarrow> get_by cv_id k (cd_rows db') = get_by cv_id k (cd_rows db))
          \<and> delete_conversation cid uid org later db' db' = (Inr (), db')"
proof -
  have wf: "conversations_wf db" using conversation_run_sound [OF assms(1)] by blast
  note ld = load_row [OF wf, of cid uid org]
  show ?thesis
  proof (cases "load_conversation cid uid org db")
    case (Inl e)
    then show ?thesis using ld assms(2) by (auto simp: delete_conversation_def split: option.splits if_splits)
  next
    case (Inr l)
    then have l: "get_by cv_id (Some cid) (cd_rows db) = Some l" "cv_organization_id l = org" "cv_user_id l = uid"
      using ld by (auto split: option.splits if_splits)
    have id: "cv_id l = Some cid" "row_ok l" using get_by_SomeD [OF l(1)] wf by (simp_all add: conversations_wf_def)
    obtain r where r: "changed_row ArchiveIt now l = Inr r" "cv_lifecycle r = ''archived''" "cv_title r = cv_title l"
      "row_ok r" "cv_id r = cv_id l" "cv_user_id r = cv_user_id l" "cv_organization_id r = cv_organization_id l"
      by (rule archive_row [OF id(2)])
    have fl: "flush_conversation now l r db = (if r = l then (Unchanged, db)
        else (Updated, db\<lparr>cd_rows := set_by cv_id (Some cid) (\<lambda>_. r) (cd_rows db)\<rparr>))"
      using flush_fresh [OF wf _ id(2) r(1)] l(1) id(1) by simp
    have own: "assert_scope org uid (aggregate_of l) = Inr ()" using l by (simp add: assert_scope_def aggregate_of_def)
    have res: "x = Inr ()" "db' = (if r = l then db else db\<lparr>cd_rows := set_by cv_id (Some cid) (\<lambda>_. r) (cd_rows db)\<rparr>)"
      using assms(2) Inr hydrate_ok [OF id(2)] own fl r(1)
      by (auto simp: delete_conversation_def commit_change_def split: if_splits)
    have got: "get_by cv_id (Some cid) (cd_rows db') = Some r"
      using res(2) l(1) get_by_set_by_same_at [where key = cv_id and k = "Some cid" and y = r, OF _ l(1)] r(5) id(1) by auto
    have frame: "k \<noteq> Some cid \<longrightarrow> get_by cv_id k (cd_rows db') = get_by cv_id k (cd_rows db)" for k
      using res(2) get_by_set_by_other_at [where key = cv_id and k = "Some cid" and y = r] r(5) id(1) by auto
    have arch: "assert_accepts_execution (aggregate_of r) = Inl (ConversationStateError ''conversation_archived'')"
      using r(2) by (simp add: assert_accepts_execution_def aggregate_of_def)
    have wf': "conversations_wf db'"
      using conversation_run_sound [OF conversation_run.commit [OF conversation_run.load [OF assms(1) Inr], of l ArchiveIt now]]
        res(2) fl r(1) by (auto simp: commit_change_def)
    have l2: "load_conversation cid uid org db' = Inr r"
      using load_row [OF wf', of cid uid org] got r(6,7) l(2,3) by simp
    have "archive later (aggregate_of r) = Inr (aggregate_of r)" using r(2) by (simp add: archive_def aggregate_of_def)
    then have "changed_row ArchiveIt later r = Inr r"
      using hydrate_ok [OF r(4)] row_of_aggregate_of [OF r(4)] apply_conversation_row [of "aggregate_of r" r]
      by (simp add: changed_row_def aggregate_of_def)
    then have again: "delete_conversation cid uid org later db' db' = (Inr (), db')"
      using l2 hydrate_ok [OF r(4)] r(6,7) l(2,3)
      by (simp add: delete_conversation_def commit_change_def flush_conversation_def assert_scope_def aggregate_of_def)
    show ?thesis using l res(1) got r(3) hydrate_ok [OF r(4)] arch frame again by auto
  qed
qed

theorem delete_archives_own_conversation_witness:
  "let db = \<lparr>cd_rows = [sample_conversation], cd_members = [(7, 3)], cd_next = 2\<rparr>
   in fst (delete_conversation 1 7 3 9 db db) = Inr ()
      \<and> fst (delete_conversation 1 8 3 9 db db) = Inl (HTTPException 404 ''Conversation not found'')"
proof -
  let ?db = "\<lparr>cd_rows = [sample_conversation], cd_members = [(7, 3)], cd_next = 2\<rparr>"
  have row: "get_by cv_id (Some 1) (cd_rows ?db) = Some sample_conversation"
    by (simp add: get_by_def sample_conversation_def)
  have "fst (delete_conversation 1 7 3 9 ?db ?db) = Inr ()"
    using delete_archives_own_conversation [OF sample_run, of 1 7 3 9] row
    by (simp add: sample_conversation_def prod_eq_iff)
  moreover have "fst (delete_conversation 1 8 3 9 ?db ?db) = Inl (HTTPException 404 ''Conversation not found'')"
    using delete_archives_own_conversation [OF sample_run, of 1 8 3 9] row
    by (simp add: sample_conversation_def prod_eq_iff)
  ultimately show ?thesis by (simp add: Let_def)
qed

end
