(* ===== verification/ProviderPolicy.thy ===== *)
theory ProviderPolicy
  imports Identity
begin

text \<open>
  Provider governance: the provider and model allow-list (\<^verbatim>\<open>application/providers/policy.py\<close>), the
  bot row and its visibility (\<^verbatim>\<open>domains/agents/models.py\<close>), the execution permit
  (\<^verbatim>\<open>application/provider_execution_policy.py\<close>), secret resolution (\<^verbatim>\<open>core/secrets.py\<close>), the
  factory and the governed wrapper around an adapter (\<^verbatim>\<open>providers/factory.py\<close>,
  \<^verbatim>\<open>providers/governed.py\<close>), and the bot selection helpers of \<^verbatim>\<open>api/v1/chat.py\<close>.  The process
  environment is the parameter \<open>env\<close>; the concrete HTTP adapters are named, not modelled, here.
\<close>

type_synonym environ = "string \<Rightarrow> string option"

section \<open>Provider and model allow-list\<close>

text \<open>\<open>str.upper\<close> on the ASCII names it is applied to.\<close>

definition py_upper :: "string \<Rightarrow> string" where
  "py_upper s = map (\<lambda>c. let n = (of_char c :: nat) in
     if 97 \<le> n \<and> n \<le> 122 then char_of (n - 32) else c) s"

definition default_provider_models :: "string \<Rightarrow> string list option" where
  "default_provider_models = map_of
     [(''openai'', [''gpt-4o'', ''gpt-4o-mini'', ''gpt-4.1'', ''gpt-4.1-mini'']),
      (''anthropic'', [''claude-3-5-sonnet-20241022'', ''claude-3-5-haiku-20241022'']),
      (''google'', [''gemini-1.5-pro'', ''gemini-1.5-flash''])]"

definition provider_aliases :: "string \<Rightarrow> string option" where
  "provider_aliases = map_of [(''claude'', ''anthropic''), (''gemini'', ''google'')]"

definition configured_models :: "environ \<Rightarrow> string \<Rightarrow> string list" where
  "configured_models env provider =
     (case env (''EIRAOS_ALLOWED_MODELS_'' @ py_upper provider) of
        None \<Rightarrow> (case default_provider_models provider of None \<Rightarrow> [] | Some ms \<Rightarrow> ms)
      | Some raw \<Rightarrow> filter (\<lambda>w. w \<noteq> []) (map py_strip (py_split (CHR '','') raw)))"

definition normalize_provider :: "string \<Rightarrow> api_error + string" where
  "normalize_provider provider =
     (let normalized = py_norm provider;
          resolved = (case provider_aliases normalized of None \<Rightarrow> normalized | Some p \<Rightarrow> p)
      in if default_provider_models resolved = None
         then Inl (HTTPException 403 ''AI provider is not allowed.'') else Inr resolved)"

definition authorize_provider_model :: "environ \<Rightarrow> string \<Rightarrow> string \<Rightarrow> api_error + string \<times> string" where
  "authorize_provider_model env provider model =
     (case normalize_provider provider of
        Inl e \<Rightarrow> Inl e
      | Inr p \<Rightarrow>
          (let m = py_strip model in
           if m = [] \<or> m \<notin> set (configured_models env p)
           then Inl (HTTPException 403 ''AI model is not allowed for this provider.'')
           else Inr (p, m)))"

lemma normalize_provider_InrD:
  "normalize_provider p = Inr q \<Longrightarrow> q \<in> {''openai'', ''anthropic'', ''google''}"
  by (auto simp: normalize_provider_def Let_def default_provider_models_def split: if_splits)

lemma normalize_provider_fixed:
  "q \<in> {''openai'', ''anthropic'', ''google''} \<Longrightarrow> normalize_provider q = Inr q"
proof -
  have "py_norm ''openai'' = ''openai''" "py_norm ''anthropic'' = ''anthropic''"
    "py_norm ''google'' = ''google''" by code_simp+
  moreover assume "q \<in> {''openai'', ''anthropic'', ''google''}"
  ultimately show ?thesis
    by (auto simp: normalize_provider_def provider_aliases_def default_provider_models_def)
qed

lemma normalize_provider_idem: "normalize_provider p = Inr q \<Longrightarrow> normalize_provider q = Inr q"
  by (blast dest: normalize_provider_InrD intro: normalize_provider_fixed)

lemma authorize_provider_model_InrD:
  "authorize_provider_model env p m = Inr (q, m') \<Longrightarrow>
     normalize_provider p = Inr q \<and> m' = py_strip m \<and> m' \<noteq> [] \<and> m' \<in> set (configured_models env q)"
  by (auto simp: authorize_provider_model_def Let_def split: sum.splits if_splits)

lemma authorize_provider_model_idem:
  "authorize_provider_model env p m = Inr (q, m') \<Longrightarrow> authorize_provider_model env q m' = Inr (q, m')"
  by (frule authorize_provider_model_InrD)
    (auto simp: authorize_provider_model_def dest: normalize_provider_idem)

section \<open>Bots\<close>

record bot =
  b_id :: "identity option"
  b_organization_id :: "identity option"
  b_provider :: string
  b_model :: string
  b_system_prompt :: "string option"
  b_visibility_column :: "string option"
  b_knowledge_visibility :: string
  b_credential_scope :: "string option"
  b_tool_scope :: "string option"
  b_secret_reference :: "string option"
  b_is_public :: bool

definition bot_visibility :: "bot \<Rightarrow> string" where
  "bot_visibility b =
     (if b_is_public b then ''public''
      else (case b_visibility_column b of None \<Rightarrow> ''private''
            | Some v \<Rightarrow> if v = [] then ''private'' else v))"

definition bot_scope_norm :: "string option \<Rightarrow> string" where
  "bot_scope_norm s = py_norm (py_or_empty s)"

section \<open>Execution permits\<close>

datatype policy_error =
    ProviderPolicyDenied string
  | PolicyPermissionError
  | PolicyValueError

record permit =
  pm_user_id :: identity
  pm_organization_id :: identity
  pm_bot_id :: identity
  pm_bot_organization_id :: identity
  pm_provider :: string
  pm_model :: string
  pm_bot_tool_scope :: string
  pm_bot_visibility :: string
  pm_credential_scope :: string

definition assert_matches :: "environ \<Rightarrow> permit \<Rightarrow> bot \<Rightarrow> identity \<Rightarrow> policy_error + unit" where
  "assert_matches env pm b caller_org =
     (case authorize_provider_model env (b_provider b) (b_model b) of
        Inl _ \<Rightarrow> Inl (ProviderPolicyDenied ''provider_model_denied'')
      | Inr (actual_provider, actual_model) \<Rightarrow>
          if (caller_org, b_id b, b_organization_id b, actual_provider, actual_model,
              bot_scope_norm (b_tool_scope b), bot_visibility b,
              bot_scope_norm (b_credential_scope b))
             \<noteq> (pm_organization_id pm, Some (pm_bot_id pm), Some (pm_bot_organization_id pm),
                pm_provider pm, pm_model pm, pm_bot_tool_scope pm, pm_bot_visibility pm,
                pm_credential_scope pm)
          then Inl (ProviderPolicyDenied ''permit_scope_mismatch'') else Inr ())"

definition derive_for_bot ::
    "capability_set \<Rightarrow> identity \<Rightarrow> identity \<Rightarrow> string \<Rightarrow> identity
     \<Rightarrow> authority_error + capability_set" where
  "derive_for_bot user_grant bot_id org tool_scope caller_org =
     (case mk_principal BOT (str_int bot_id) org of
        Inl e \<Rightarrow> Inl e
      | Inr bp \<Rightarrow> derive_execution_capabilities user_grant bp tool_scope {PROVIDER_EXECUTE}
          (''provider-preflight:'' @ str_int caller_org @ '':'' @ str_int bot_id))"

definition authorize_provider_execution ::
    "environ \<Rightarrow> auth_context \<Rightarrow> bot \<Rightarrow> identity \<Rightarrow> policy_error + permit" where
  "authorize_provider_execution env auth b caller_org =
     (case b_id b of
        None \<Rightarrow> Inl (ProviderPolicyDenied ''invalid_bot_identity'')
      | Some bot_id \<Rightarrow> if bot_id \<le> 0 then Inl (ProviderPolicyDenied ''invalid_bot_identity'') else
     (case b_organization_id b of
        None \<Rightarrow> Inl (ProviderPolicyDenied ''invalid_bot_tenant'')
      | Some bot_org \<Rightarrow> if bot_org \<le> 0 then Inl (ProviderPolicyDenied ''invalid_bot_tenant'') else
      if ac_organization_id auth \<noteq> caller_org
        then Inl (ProviderPolicyDenied ''authorization_tenant_mismatch'')
      else if bot_org \<noteq> caller_org \<and> bot_visibility b \<noteq> ''public''
        then Inl (ProviderPolicyDenied ''bot_not_accessible'')
      else let credential_scope = bot_scope_norm (b_credential_scope b) in
      if credential_scope \<notin> {''organization'', ''platform''}
        then Inl (ProviderPolicyDenied ''credential_scope_denied'')
      else if bot_org \<noteq> caller_org \<and> credential_scope \<noteq> ''platform''
        then Inl (ProviderPolicyDenied ''cross_tenant_credential_denied'')
      else let role_grants = (case role_capabilities (ac_role auth) of None \<Rightarrow> {} | Some g \<Rightarrow> g);
               user_grant = \<lparr>cs_principal = ac_user auth, cs_capabilities = role_grants\<rparr>;
               tool_scope = bot_scope_norm (b_tool_scope b);
               granted = (case derive_for_bot user_grant bot_id bot_org tool_scope caller_org of
                   Inr g \<Rightarrow> Inr g
                 | Inl _ \<Rightarrow>
                     if bot_org \<noteq> caller_org \<and> bot_visibility b = ''public''
                     then (case derive_for_bot user_grant bot_id caller_org tool_scope caller_org of
                             Inr g \<Rightarrow> Inr g
                           | Inl ValueError \<Rightarrow> Inl PolicyValueError
                           | Inl PermissionError \<Rightarrow> Inl PolicyPermissionError)
                     else Inl (ProviderPolicyDenied ''execution_scope_denied''))
      in (case granted of
            Inl e \<Rightarrow> Inl e
          | Inr g \<Rightarrow>
              if PROVIDER_EXECUTE \<notin> cs_capabilities g
              then Inl (ProviderPolicyDenied ''provider_capability_denied'')
              else (case authorize_provider_model env (b_provider b) (b_model b) of
                      Inl _ \<Rightarrow> Inl (ProviderPolicyDenied ''provider_model_denied'')
                    | Inr (provider, model) \<Rightarrow>
                        Inr \<lparr>pm_user_id = ac_user_id auth, pm_organization_id = caller_org,
                             pm_bot_id = bot_id, pm_bot_organization_id = bot_org,
                             pm_provider = provider, pm_model = model,
                             pm_bot_tool_scope = tool_scope,
                             pm_bot_visibility = bot_visibility b,
                             pm_credential_scope = credential_scope\<rparr>))))"

section \<open>Secrets\<close>

definition secret_reference_ok :: "string \<Rightarrow> bool" where
  "secret_reference_ok s \<longleftrightarrow> 1 \<le> length s \<and> length s \<le> 100 \<and>
     (\<forall>c \<in> set s. let n = (of_char c :: nat) in (48 \<le> n \<and> n \<le> 57) \<or> (65 \<le> n \<and> n \<le> 90)
        \<or> (97 \<le> n \<and> n \<le> 122) \<or> n = 95 \<or> n = 45)"

definition truthy_env :: "environ \<Rightarrow> string \<Rightarrow> string option" where
  "truthy_env env k = (case env k of None \<Rightarrow> None | Some v \<Rightarrow> py_or_none v)"

definition resolve_secret ::
    "environ \<Rightarrow> identity option \<Rightarrow> string option \<Rightarrow> string option \<Rightarrow> string option
     \<Rightarrow> identity option \<Rightarrow> api_error + string" where
  "resolve_secret env bot_owner_org_id secret_reference platform_api_key credential_scope caller_org_id =
     (let scope = bot_scope_norm credential_scope;
          missing = Inl (HTTPException 500 ''AI provider secret is not configured for this bot.'')
      in if scope \<notin> {''organization'', ''platform''}
           then Inl (HTTPException 403 ''Unsupported credential scope.'')
         else if scope = ''organization'' \<and> (bot_owner_org_id = None \<or> caller_org_id = None)
           then Inl (HTTPException 403 ''Organization credential requires verified tenant context.'')
         else if scope = ''organization'' \<and> caller_org_id \<noteq> bot_owner_org_id
           then Inl (HTTPException 403 (''This bot'' @ [CHR 0x27] @ ''s credentials are not available cross-tenant.''))
         else (case secret_reference of
           Some ref \<Rightarrow>
             if \<not> secret_reference_ok ref then Inl (HTTPException 400 ''Invalid secret reference.'')
             else (case truthy_env env (''EIRAOS_PROVIDER_'' @ py_upper ref) of
                     Some v \<Rightarrow> Inr v
                   | None \<Rightarrow>
                       (case (if scope = ''platform'' then truthy_env env ''EIRAOS_PROVIDER_API_KEY'' else None) of
                          Some v \<Rightarrow> Inr v
                        | None \<Rightarrow> missing))
         | None \<Rightarrow>
             (case (if scope = ''platform'' then Option.bind platform_api_key py_or_none else None) of
                Some k \<Rightarrow> Inr k
              | None \<Rightarrow>
                  if scope = ''platform''
                  then (case truthy_env env ''OPENAI_API_KEY'' of
                          Some v \<Rightarrow> Inr v
                        | None \<Rightarrow> (case truthy_env env ''EIRAOS_PROVIDER_API_KEY'' of
                            Some v \<Rightarrow> Inr v | None \<Rightarrow> missing))
                  else missing)))"

section \<open>Factory and governed provider\<close>

datatype adapter = OpenAIProviderAdapter | AnthropicProviderAdapter | GeminiProviderAdapter

record governed_provider =
  gp_adapter :: adapter
  gp_api_key :: string
  gp_provider_name :: string

definition get_provider :: "string \<Rightarrow> string \<Rightarrow> api_error + governed_provider" where
  "get_provider provider_name api_key =
     (let name = py_lower provider_name in
      if name = ''openai''
        then Inr \<lparr>gp_adapter = OpenAIProviderAdapter, gp_api_key = api_key, gp_provider_name = name\<rparr>
      else if name \<in> {''anthropic'', ''claude''}
        then Inr \<lparr>gp_adapter = AnthropicProviderAdapter, gp_api_key = api_key,
                  gp_provider_name = ''anthropic''\<rparr>
      else if name \<in> {''google'', ''gemini''}
        then Inr \<lparr>gp_adapter = GeminiProviderAdapter, gp_api_key = api_key,
                  gp_provider_name = ''google''\<rparr>
      else Inl (ServerError ''ValueError''))"

text \<open>The guard every governed call passes before the adapter is reached, and the adapter call
  itself: \<open>upstream\<close> is what the adapter does with the authorized model.\<close>

definition governed_call ::
    "environ \<Rightarrow> (adapter \<Rightarrow> string \<Rightarrow> string \<Rightarrow> api_error + 'r) \<Rightarrow> governed_provider \<Rightarrow> string
     \<Rightarrow> api_error + 'r" where
  "governed_call env upstream gp model =
     (case authorize_provider_model env (gp_provider_name gp) model of
        Inl e \<Rightarrow> Inl e
      | Inr (provider_name, authorized_model) \<Rightarrow>
          if provider_name \<noteq> gp_provider_name gp
          then Inl (ServerError ''Provider policy normalization mismatch'')
          else upstream (gp_adapter gp) (gp_api_key gp) authorized_model)"

fun model_catalog :: "adapter \<Rightarrow> string list" where
  "model_catalog OpenAIProviderAdapter = [''gpt-4o'', ''gpt-4o-mini'', ''gpt-4.1'', ''gpt-4.1-mini'']"
| "model_catalog AnthropicProviderAdapter = [''claude-3-5-sonnet-20241022'', ''claude-3-5-haiku-20241022'']"
| "model_catalog GeminiProviderAdapter = [''gemini-1.5-pro'', ''gemini-1.5-flash'']"

definition governed_models :: "environ \<Rightarrow> governed_provider \<Rightarrow> string list" where
  "governed_models env gp =
     concat (map (\<lambda>m. case authorize_provider_model env (gp_provider_name gp) m of
                        Inl _ \<Rightarrow> []
                      | Inr (p, m') \<Rightarrow> if p = gp_provider_name gp then [m'] else [])
        (model_catalog (gp_adapter gp)))"

section \<open>Bot selection of the chat endpoint\<close>

definition bot_accessible :: "bot \<Rightarrow> identity \<Rightarrow> bool" where
  "bot_accessible b org \<longleftrightarrow> b_organization_id b = Some org \<or> bot_visibility b = ''public''"

definition verifier_bot_accessible :: "bot \<Rightarrow> identity \<Rightarrow> bool" where
  "verifier_bot_accessible b org \<longleftrightarrow> b_organization_id b = Some org"

text \<open>The candidates in ascending identity order; a policy denial skips the candidate, any other
  exception leaves the loop.\<close>

fun first_verifier ::
    "environ \<Rightarrow> auth_context \<Rightarrow> identity \<Rightarrow> bot list \<Rightarrow> policy_error + (bot \<times> permit) option" where
  "first_verifier env auth org [] = Inr None"
| "first_verifier env auth org (c # cs) =
     (if \<not> verifier_bot_accessible c org \<or> b_provider c = [] \<or> b_model c = []
      then first_verifier env auth org cs
      else (case authorize_provider_execution env auth c org of
              Inr pm \<Rightarrow> Inr (Some (c, pm))
            | Inl (ProviderPolicyDenied _) \<Rightarrow> first_verifier env auth org cs
            | Inl e \<Rightarrow> Inl e))"

definition bot_key :: "bot \<Rightarrow> identity" where
  "bot_key b = (case b_id b of None \<Rightarrow> 0 | Some i \<Rightarrow> i)"

definition find_verifier_bot ::
    "environ \<Rightarrow> bot list \<Rightarrow> bot \<Rightarrow> identity \<Rightarrow> auth_context \<Rightarrow> policy_error + bot \<times> permit" where
  "find_verifier_bot env bots primary org auth =
     (case first_verifier env auth org
             (sort_key bot_key (filter (\<lambda>b. b_id b \<noteq> b_id primary) bots)) of
        Inl e \<Rightarrow> Inl e
      | Inr (Some r) \<Rightarrow> Inr r
      | Inr None \<Rightarrow>
          if \<not> verifier_bot_accessible primary org
          then Inl (ProviderPolicyDenied ''verifier_tenant_mismatch'')
          else (case authorize_provider_execution env auth primary org of
                  Inl e \<Rightarrow> Inl e | Inr pm \<Rightarrow> Inr (primary, pm)))"

datatype provider_error = PolicyError policy_error | ApiError api_error

definition provider_for_bot ::
    "environ \<Rightarrow> bot \<Rightarrow> identity \<Rightarrow> permit \<Rightarrow> provider_error + governed_provider" where
  "provider_for_bot env b org pm =
     (case assert_matches env pm b org of
        Inl e \<Rightarrow> Inl (PolicyError e)
      | Inr _ \<Rightarrow>
          (case resolve_secret env (b_organization_id b) (b_secret_reference b) None
                  (Some (case b_credential_scope b of None \<Rightarrow> ''organization''
                         | Some s \<Rightarrow> if s = [] then ''organization'' else s)) (Some org) of
             Inl e \<Rightarrow> Inl (ApiError e)
           | Inr api_key \<Rightarrow>
               (case get_provider (b_provider b) api_key of
                  Inl e \<Rightarrow> Inl (ApiError e) | Inr gp \<Rightarrow> Inr gp)))"

section \<open>Lemmas\<close>

lemma authorize_execution_InrD:
  assumes "authorize_provider_execution env auth b org = Inr pm"
  shows "b_id b = Some (pm_bot_id pm) \<and> 0 < pm_bot_id pm
     \<and> b_organization_id b = Some (pm_bot_organization_id pm) \<and> 0 < pm_bot_organization_id pm
     \<and> ac_organization_id auth = org \<and> pm_organization_id pm = org
     \<and> pm_user_id pm = ac_user_id auth
     \<and> (pm_bot_organization_id pm = org \<or> bot_visibility b = ''public'')
     \<and> (pm_bot_organization_id pm = org \<or> pm_credential_scope pm = ''platform'')
     \<and> pm_credential_scope pm = bot_scope_norm (b_credential_scope b)
     \<and> pm_credential_scope pm \<in> {''organization'', ''platform''}
     \<and> pm_bot_tool_scope pm = bot_scope_norm (b_tool_scope b)
     \<and> pm_bot_visibility pm = bot_visibility b
     \<and> authorize_provider_model env (b_provider b) (b_model b) = Inr (pm_provider pm, pm_model pm)"
  using assms
  by (auto simp: authorize_provider_execution_def Let_def split: option.splits if_splits sum.splits
      authority_error.splits)

lemma derive_for_bot_InrD:
  "derive_for_bot ug i o' s c = Inr g \<Longrightarrow>
     cs_capabilities g \<subseteq> cs_capabilities ug \<and> p_organization_id (cs_principal ug) = o'
     \<and> p_kind (cs_principal ug) = USER
     \<and> cs_capabilities g \<subseteq> (case bot_scope_capabilities (py_norm s) of None \<Rightarrow> {} | Some b \<Rightarrow> b)"
  by (auto simp: derive_for_bot_def mk_principal_def derive_execution_capabilities_def Let_def
      split: sum.splits if_splits)

lemma authorize_execution_grants:
  assumes "authorize_provider_execution env auth b org = Inr pm"
  shows "\<exists>g s. role_capabilities (ac_role auth) = Some g \<and> PROVIDER_EXECUTE \<in> g
     \<and> bot_scope_capabilities (py_norm (bot_scope_norm (b_tool_scope b))) = Some s
     \<and> PROVIDER_EXECUTE \<in> s
     \<and> p_organization_id (ac_user auth) \<in> {org, pm_bot_organization_id pm}"
  using assms
  by (auto simp: authorize_provider_execution_def Let_def dest!: derive_for_bot_InrD
      split: option.splits if_splits sum.splits authority_error.splits)

lemma derive_for_bot_no_value_error:
  "p_kind (cs_principal ug) = USER \<Longrightarrow> 0 < o' \<Longrightarrow> derive_for_bot ug i o' s c \<noteq> Inl ValueError"
  by (auto simp: derive_for_bot_def mk_principal_def derive_execution_capabilities_def Let_def
      split: sum.splits if_splits)

lemma derive_for_bot_same_tenant:
  "p_kind (cs_principal ug) = USER \<Longrightarrow> 0 < o' \<Longrightarrow> p_organization_id (cs_principal ug) = o' \<Longrightarrow>
     \<exists>g. derive_for_bot ug i o' s c = Inr g"
  by (auto simp: derive_for_bot_def mk_principal_def derive_execution_capabilities_def Let_def
      split: sum.splits if_splits)

lemma first_verifier_SomeD:
  "first_verifier env auth org cs = Inr (Some (b, pm)) \<Longrightarrow>
     b \<in> set cs \<and> b_organization_id b = Some org
     \<and> authorize_provider_execution env auth b org = Inr pm"
  by (induction cs)
    (auto simp: verifier_bot_accessible_def split: if_splits sum.splits policy_error.splits)

lemma governed_models_allowed:
  "m \<in> set (governed_models env gp) \<Longrightarrow> m \<in> set (configured_models env (gp_provider_name gp))
     \<and> m \<in> py_strip ` set (model_catalog (gp_adapter gp))"
  by (auto simp: governed_models_def dest: authorize_provider_model_InrD
      dest!: authorize_provider_model_InrD [OF sym] split: sum.splits if_splits)

section \<open>Properties\<close>

definition sample_auth :: auth_context where
  "sample_auth = \<lparr>ac_user = \<lparr>p_kind = USER, p_identifier = ''7'', p_organization_id = 2\<rparr>,
     ac_organization = \<lparr>p_kind = ORGANIZATION, p_identifier = ''2'', p_organization_id = 2\<rparr>,
     ac_role = ''member'',
     ac_decision = \<lparr>cd_allowed = True, cd_capability = Known CONVERSATION_CREATE, cd_reason = ''granted''\<rparr>\<rparr>"

definition sample_bot :: bot where
  "sample_bot = \<lparr>b_id = Some 5, b_organization_id = Some 2, b_provider = '' OpenAI'', b_model = ''gpt-4o '',
     b_system_prompt = None, b_visibility_column = Some ''organization'',
     b_knowledge_visibility = ''organization'', b_credential_scope = Some ''Organization'',
     b_tool_scope = Some ''standard'', b_secret_reference = Some ''k1'', b_is_public = False\<rparr>"

definition sample_permit :: permit where
  "sample_permit = \<lparr>pm_user_id = 7, pm_organization_id = 2, pm_bot_id = 5, pm_bot_organization_id = 2,
     pm_provider = ''openai'', pm_model = ''gpt-4o'', pm_bot_tool_scope = ''standard'',
     pm_bot_visibility = ''organization'', pm_credential_scope = ''organization''\<rparr>"

lemma sample_permit_issued:
  "authorize_provider_execution (\<lambda>_. None) sample_auth sample_bot 2 = Inr sample_permit"
  by code_simp



text \<open>A permit is bound to its bot and tenant: it matches another bot row or another caller
  tenant only when identity, owner, normalized provider and model, tool scope, visibility and
  credential scope are all the ones it was issued for.\<close>

theorem permit_binds_bot:
  assumes "authorize_provider_execution env auth b org = Inr pm"
  shows "assert_matches env pm b' org' = Inr () \<longleftrightarrow>
     org' = org \<and> b_id b' = b_id b \<and> b_organization_id b' = b_organization_id b
     \<and> authorize_provider_model env (b_provider b') (b_model b')
       = authorize_provider_model env (b_provider b) (b_model b)
     \<and> bot_scope_norm (b_tool_scope b') = bot_scope_norm (b_tool_scope b)
     \<and> bot_visibility b' = bot_visibility b
     \<and> bot_scope_norm (b_credential_scope b') = bot_scope_norm (b_credential_scope b)"
  using authorize_execution_InrD [OF assms]
  by (auto simp: assert_matches_def split: sum.splits if_splits)

theorem permit_binds_bot_witness:
  "assert_matches (\<lambda>_. None) sample_permit (sample_bot\<lparr>b_is_public := True\<rparr>) 2 \<noteq> Inr ()"
  using permit_binds_bot [OF sample_permit_issued, of "sample_bot\<lparr>b_is_public := True\<rparr>" 2]
  by (simp add: bot_visibility_def sample_bot_def)

text \<open>For a context made by the authorization boundary the policy gate never leaks a raw
  exception: every rejection is a policy denial with a reason, also on the path that rebinds a
  public bot's execution principal to the caller's tenant.\<close>

theorem policy_gate_denials_classified:
  assumes "authorize db (PInt uid) (PInt g) cap (Some g) = Inr auth"
    and "authorize_provider_execution env auth b org = Inl e"
  shows "\<exists>reason. e = ProviderPolicyDenied reason"
proof -
  note a = authorize_InrD [OF assms(1)]
  have k: "p_kind (ac_user auth) = USER" "p_organization_id (ac_user auth) = g"
    "ac_organization_id auth = g" "0 < g"
    using a by (simp_all add: ac_organization_id_def)
  have "\<exists>r. derive_for_bot \<lparr>cs_principal = ac_user auth, cs_capabilities = G\<rparr> i g s c = Inr r" for G i s c
    using k by (intro derive_for_bot_same_tenant) simp_all
  then have "derive_for_bot \<lparr>cs_principal = ac_user auth, cs_capabilities = G\<rparr> i g s c \<noteq> Inl x" for G i s c x
    by (metis sum.distinct(1))
  then show ?thesis
    using assms(2) k
    by (auto simp: authorize_provider_execution_def Let_def
        split: option.splits if_splits sum.splits authority_error.splits)
qed

theorem policy_gate_denials_classified_witness:
  "\<exists>auth. authorize (sample_db) (PInt 1) (PInt 2) (Known BOT_READ) (Some 2) = Inr auth
     \<and> (\<exists>reason. authorize_provider_execution (\<lambda>_. None) auth (sample_bot\<lparr>b_id := None\<rparr>) 2
          = Inl (ProviderPolicyDenied reason))"
proof -
  have norm: "py_norm ''Admin'' = ''admin''" by code_simp
  obtain auth where a: "authorize sample_db (PInt 1) (PInt 2) (Known BOT_READ) (Some 2) = Inr auth"
    by (simp add: authorize_def find_membership_def sample_db_def decide_role_capability_def norm
        role_capabilities_def admin_grants_def owner_grants_def mk_principal_def Let_def)
  have "authorize_provider_execution (\<lambda>_. None) auth (sample_bot\<lparr>b_id := None\<rparr>) 2
          = Inl (ProviderPolicyDenied ''invalid_bot_identity'')"
    by (simp add: authorize_provider_execution_def)
  with a policy_gate_denials_classified [OF a this] show ?thesis by blast
qed

text \<open>C14: Credentials stay inside their tenant: when a permitted bot is turned into a provider under
  the organization credential scope, the bot belongs to the caller's organization and the key is the
  value of the environment entry its own secret reference names; a bot of another tenant is served
  with a platform credential only.\<close>

theorem provider_credentials_isolated:
  assumes "authorize_provider_execution env auth b org = Inr pm"
    and "provider_for_bot env b org pm = Inr gp"
  shows "(bot_scope_norm (b_credential_scope b) = ''organization'' \<longrightarrow>
            b_organization_id b = Some org
            \<and> (\<exists>ref. b_secret_reference b = Some ref
                 \<and> env (''EIRAOS_PROVIDER_'' @ py_upper ref) = Some (gp_api_key gp)))
       \<and> (b_organization_id b \<noteq> Some org \<longrightarrow>
            bot_scope_norm (b_credential_scope b) = ''platform'' \<and> bot_visibility b = ''public'')"
proof -
  note f = authorize_execution_InrD [OF assms(1)]
  have key: "resolve_secret env (b_organization_id b) (b_secret_reference b) None
      (Some (case b_credential_scope b of None \<Rightarrow> ''organization''
             | Some s \<Rightarrow> if s = [] then ''organization'' else s)) (Some org) = Inr (gp_api_key gp)"
    using assms(2)
    by (auto simp: provider_for_bot_def get_provider_def Let_def split: sum.splits if_splits)
  have "bot_scope_norm (b_credential_scope b) \<noteq> []" using f by auto
  then have "b_credential_scope b \<noteq> None \<and> b_credential_scope b \<noteq> Some []"
    by (cases "b_credential_scope b") (auto simp: bot_scope_norm_def py_or_empty_def)
  then have sc: "bot_scope_norm (Some (case b_credential_scope b of None \<Rightarrow> ''organization''
             | Some s \<Rightarrow> if s = [] then ''organization'' else s)) = bot_scope_norm (b_credential_scope b)"
    by (auto split: option.splits)
  have "b_organization_id b = Some org \<and> (\<exists>ref. b_secret_reference b = Some ref
                 \<and> env (''EIRAOS_PROVIDER_'' @ py_upper ref) = Some (gp_api_key gp))"
    if "bot_scope_norm (b_credential_scope b) = ''organization''"
    using key that
    by (auto simp: resolve_secret_def sc Let_def truthy_env_def py_or_none_def
        split: option.splits if_splits)
  then show ?thesis using f by auto
qed

theorem provider_credentials_isolated_witness:
  "\<exists>gp. provider_for_bot (\<lambda>k. if k = ''EIRAOS_PROVIDER_K1'' then Some ''sk'' else None)
          (sample_bot\<lparr>b_provider := ''OpenAI''\<rparr>) 2 sample_permit = Inr gp
        \<and> gp_api_key gp = ''sk''"
proof -
  let ?env = "\<lambda>k. if k = ''EIRAOS_PROVIDER_K1'' then Some ''sk'' else None"
  let ?b = "sample_bot\<lparr>b_provider := ''OpenAI''\<rparr>"
  have a: "authorize_provider_execution ?env sample_auth ?b 2 = Inr sample_permit" by code_simp
  have b: "provider_for_bot ?env ?b 2 sample_permit
      = Inr \<lparr>gp_adapter = OpenAIProviderAdapter, gp_api_key = ''sk'', gp_provider_name = ''openai''\<rparr>"
    by code_simp
  have "bot_scope_norm (b_credential_scope ?b) = ''organization''" by code_simp
  with provider_credentials_isolated [OF a b] b show ?thesis by simp
qed

text \<open>The automatic verifier is always a bot of the caller's own organization with a permit that
  matches it, whatever public bots other tenants offer.\<close>

theorem verifier_stays_in_tenant:
  assumes "find_verifier_bot env bots primary org auth = Inr (v, pm)"
  shows "b_organization_id v = Some org \<and> (v \<in> set bots \<or> v = primary)
     \<and> pm_bot_organization_id pm = org \<and> assert_matches env pm v org = Inr ()"
proof -
  have v: "b_organization_id v = Some org \<and> (v \<in> set bots \<or> v = primary)
      \<and> authorize_provider_execution env auth v org = Inr pm"
    using assms
    by (auto simp: find_verifier_bot_def verifier_bot_accessible_def dest!: first_verifier_SomeD
        split: sum.splits option.splits if_splits)
  then show ?thesis
    using authorize_execution_InrD [of env auth v org pm] by (auto simp: assert_matches_def)
qed

theorem verifier_stays_in_tenant_witness:
  "\<exists>v pm. find_verifier_bot (\<lambda>_. None) [sample_bot\<lparr>b_id := Some 6, b_is_public := True,
        b_organization_id := Some 9\<rparr>] sample_bot 2 sample_auth = Inr (v, pm)
     \<and> b_organization_id v = Some 2"
proof -
  have f: "find_verifier_bot (\<lambda>_. None) [sample_bot\<lparr>b_id := Some 6, b_is_public := True,
        b_organization_id := Some 9\<rparr>] sample_bot 2 sample_auth = Inr (sample_bot, sample_permit)"
    by code_simp
  from verifier_stays_in_tenant [OF this] f show ?thesis by blast
qed

text \<open>The governed wrapper never forwards a model outside the allow-list of its provider: what a
  call returns depends only on the adapter's behaviour on allow-listed models, and the models it
  advertises are catalogue models on that list.\<close>

theorem governed_provider_fails_closed:
  assumes "\<And>a k m. m \<in> set (configured_models env (gp_provider_name gp)) \<Longrightarrow> up a k m = up' a k m"
  shows "governed_call env up gp model = governed_call env up' gp model
     \<and> set (governed_models env gp)
         \<subseteq> set (configured_models env (gp_provider_name gp)) \<inter> py_strip ` set (model_catalog (gp_adapter gp))"
  using assms governed_models_allowed
  by (auto simp: governed_call_def dest!: authorize_provider_model_InrD split: sum.splits if_splits)

theorem governed_provider_fails_closed_witness:
  "governed_call (\<lambda>_. None) (\<lambda>a k m. Inr m)
      \<lparr>gp_adapter = OpenAIProviderAdapter, gp_api_key = ''k'', gp_provider_name = ''openai''\<rparr> ''gpt-5''
   = governed_call (\<lambda>_. None) (\<lambda>a k m. if m = ''gpt-5'' then Inl (ServerError ''x'') else Inr m)
      \<lparr>gp_adapter = OpenAIProviderAdapter, gp_api_key = ''k'', gp_provider_name = ''openai''\<rparr> ''gpt-5''"
proof -
  have "''gpt-5'' \<notin> set (configured_models (\<lambda>_. None) ''openai'')" by code_simp
  then show ?thesis
    by (intro conjunct1 [OF governed_provider_fails_closed]) auto
qed

end
