(* ===== verification/CostAccounting.thy ===== *)
theory CostAccounting
  imports ProviderPolicy
begin

text \<open>
  Execution cost accounting: the model catalog and its discovery
  (\<^verbatim>\<open>providers/capability_discovery.py\<close>), the pre-execution estimator
  (\<^verbatim>\<open>domains/usage/cost_estimator.py\<close>) and the accountant (\<^verbatim>\<open>application/cost_accounting.py\<close>).  A
  \<^verbatim>\<open>Decimal\<close> is a rational; the products the accountant forms stay within the 28 digits of the
  default decimal context for token counts below ten to the eighteenth.
\<close>

section \<open>The catalog\<close>

record provider_capabilities =
  pc_streaming :: bool
  pc_vision :: bool
  pc_tools :: bool
  pc_structured_output :: bool
  pc_reasoning :: bool
  pc_embeddings :: bool

record token_pricing =
  input_per_million :: rat
  output_per_million :: rat

record provider_model_metadata =
  mm_provider :: string
  mm_model :: string
  mm_capabilities :: provider_capabilities
  mm_native_capabilities :: provider_capabilities
  mm_context_window_tokens :: int
  mm_pricing :: token_pricing

definition CATALOG_REVISION :: string where "CATALOG_REVISION = ''2026-08-25''"

definition unit_tokens :: int where "unit_tokens = 1000000"

definition native_caps :: "bool \<Rightarrow> bool \<Rightarrow> bool \<Rightarrow> provider_capabilities" where
  "native_caps vision tools structured =
     \<lparr>pc_streaming = True, pc_vision = vision, pc_tools = tools, pc_structured_output = structured,
      pc_reasoning = False, pc_embeddings = False\<rparr>"

definition streaming_only :: "bool \<Rightarrow> provider_capabilities" where
  "streaming_only s = \<lparr>pc_streaming = s, pc_vision = False, pc_tools = False,
     pc_structured_output = False, pc_reasoning = False, pc_embeddings = False\<rparr>"

definition catalog_entry ::
    "string \<Rightarrow> string \<Rightarrow> int \<Rightarrow> rat \<Rightarrow> rat \<Rightarrow> provider_capabilities
     \<Rightarrow> (string \<times> string) \<times> provider_model_metadata" where
  "catalog_entry provider model context input_price output_price native =
     ((provider, model),
      \<lparr>mm_provider = provider, mm_model = model, mm_capabilities = streaming_only False,
       mm_native_capabilities = native, mm_context_window_tokens = context,
       mm_pricing = \<lparr>input_per_million = input_price, output_per_million = output_price\<rparr>\<rparr>)"

definition model_capability_entries :: "((string \<times> string) \<times> provider_model_metadata) list" where
  "model_capability_entries =
     [catalog_entry ''openai'' ''gpt-4o'' 128000 (5/2) 10 (native_caps True True True),
      catalog_entry ''openai'' ''gpt-4o-mini'' 128000 (3/20) (3/5) (native_caps True True True),
      catalog_entry ''openai'' ''gpt-4.1'' 1047576 2 8 (native_caps True True True),
      catalog_entry ''openai'' ''gpt-4.1-mini'' 1047576 (2/5) (8/5) (native_caps True True True),
      catalog_entry ''anthropic'' ''claude-3-5-sonnet-20241022'' 200000 3 15 (native_caps True True False),
      catalog_entry ''anthropic'' ''claude-3-5-haiku-20241022'' 200000 (4/5) 4 (native_caps True True False),
      catalog_entry ''google'' ''gemini-1.5-pro'' 2000000 (5/4) 5 (native_caps True True True),
      catalog_entry ''google'' ''gemini-1.5-flash'' 1000000 (3/40) (3/10) (native_caps True True True)]"

definition model_capability_catalog :: "string \<times> string \<Rightarrow> provider_model_metadata option" where
  "model_capability_catalog = map_of model_capability_entries"

definition implemented_capabilities ::
    "provider_capabilities \<Rightarrow> provider_capabilities \<Rightarrow> provider_capabilities" where
  "implemented_capabilities native adapter =
     \<lparr>pc_streaming = (pc_streaming native \<and> pc_streaming adapter),
      pc_vision = (pc_vision native \<and> pc_vision adapter),
      pc_tools = (pc_tools native \<and> pc_tools adapter),
      pc_structured_output = (pc_structured_output native \<and> pc_structured_output adapter),
      pc_reasoning = (pc_reasoning native \<and> pc_reasoning adapter),
      pc_embeddings = (pc_embeddings native \<and> pc_embeddings adapter)\<rparr>"

fun adapter_capabilities :: "adapter \<Rightarrow> provider_capabilities" where
  "adapter_capabilities OpenAIProviderAdapter = streaming_only True"
| "adapter_capabilities AnthropicProviderAdapter = streaming_only True"
| "adapter_capabilities GeminiProviderAdapter = streaming_only True"

definition discover ::
    "environ \<Rightarrow> string \<Rightarrow> string \<Rightarrow> api_error + provider_model_metadata list" where
  "discover env provider api_key =
     (case normalize_provider provider of
        Inl e \<Rightarrow> Inl e
      | Inr p \<Rightarrow>
          (case get_provider p api_key of
             Inl e \<Rightarrow> Inl e
           | Inr gp \<Rightarrow>
               Inr (concat (map (\<lambda>m. case model_capability_catalog (p, m) of
                        None \<Rightarrow> []
                      | Some md \<Rightarrow> [md\<lparr>mm_capabilities := implemented_capabilities
                           (mm_native_capabilities md) (adapter_capabilities (gp_adapter gp))\<rparr>])
                  (governed_models env gp)))))"

section \<open>The estimator\<close>

record cost_estimate =
  primary_tokens :: int
  verifier_tokens :: int

definition estimate_total_tokens :: "cost_estimate \<Rightarrow> int" where
  "estimate_total_tokens e = primary_tokens e + verifier_tokens e"

definition estimate_cost :: "int \<Rightarrow> int \<Rightarrow> string \<Rightarrow> bool \<Rightarrow> cost_estimate" where
  "estimate_cost input_chars_per_token output_tokens prompt verify =
     (let primary = ceil_div (int (length prompt)) input_chars_per_token + output_tokens
      in \<lparr>primary_tokens = primary, verifier_tokens = (if verify then primary else 0)\<rparr>)"

section \<open>The accountant\<close>

record chat_message =
  cm_role :: string
  cm_content :: string

record execution_cost =
  ec_provider :: string
  ec_model :: string
  ec_operation :: string
  ec_input_tokens :: int
  ec_output_tokens :: int
  ec_total_tokens :: int
  ec_cost :: rat
  ec_usage_source :: string
  ec_pricing_revision :: string

datatype accounting_error = CostAccountingUnavailable string | AccountingValueError string

definition execution_cost_checked :: "execution_cost \<Rightarrow> accounting_error + execution_cost" where
  "execution_cost_checked c =
     (if ec_provider c = [] \<or> ec_model c = [] \<or> ec_pricing_revision c = []
        then Inl (AccountingValueError ''accounting identity cannot be empty'')
      else if ec_operation c \<notin> {''primary'', ''verification''}
        then Inl (AccountingValueError ''unsupported provider accounting operation'')
      else if min (ec_input_tokens c) (min (ec_output_tokens c) (ec_total_tokens c)) < 0
        then Inl (AccountingValueError ''token counts cannot be negative'')
      else if ec_total_tokens c \<noteq> ec_input_tokens c + ec_output_tokens c
        then Inl (AccountingValueError ''total tokens must equal input plus output'')
      else if ec_cost c < 0 \<or> ec_usage_source c \<notin> {''estimated'', ''provider_reported''}
        then Inl (AccountingValueError ''invalid execution cost metadata'')
      else Inr c)"

text \<open>\<^verbatim>\<open>Decimal.quantize\<close> to ten places, halves away from zero.\<close>

definition quantize_cost :: "rat \<Rightarrow> rat" where
  "quantize_cost x =
     (if x < 0 then - of_int \<lfloor>- x * 10 ^ 10 + 1 / 2\<rfloor> / 10 ^ 10
      else of_int \<lfloor>x * 10 ^ 10 + 1 / 2\<rfloor> / 10 ^ 10)"

definition priced :: "token_pricing \<Rightarrow> int \<Rightarrow> int \<Rightarrow> rat" where
  "priced p input_tokens output_tokens =
     (of_int input_tokens * input_per_million p + of_int output_tokens * output_per_million p)
       / of_int unit_tokens"

definition price_lookup :: "string \<Rightarrow> string \<Rightarrow> accounting_error + string \<times> provider_model_metadata" where
  "price_lookup provider model =
     (case normalize_provider provider of
        Inl _ \<Rightarrow> Inl (CostAccountingUnavailable ''provider pricing metadata is unavailable'')
      | Inr p \<Rightarrow>
          (case model_capability_catalog (p, model) of
             None \<Rightarrow> Inl (CostAccountingUnavailable ''model pricing metadata is unavailable'')
           | Some md \<Rightarrow> Inr (p, md)))"

definition account_reported ::
    "string \<Rightarrow> string \<Rightarrow> string \<Rightarrow> int \<Rightarrow> int \<Rightarrow> accounting_error + execution_cost" where
  "account_reported provider model operation input_tokens output_tokens =
     (case price_lookup provider model of
        Inl e \<Rightarrow> Inl e
      | Inr (p, md) \<Rightarrow>
          execution_cost_checked
            \<lparr>ec_provider = p, ec_model = model, ec_operation = operation,
             ec_input_tokens = input_tokens, ec_output_tokens = output_tokens,
             ec_total_tokens = input_tokens + output_tokens,
             ec_cost = quantize_cost (priced (mm_pricing md) input_tokens output_tokens),
             ec_usage_source = ''provider_reported'', ec_pricing_revision = CATALOG_REVISION\<rparr>)"

definition message_chars :: "string option \<Rightarrow> chat_message list \<Rightarrow> int" where
  "message_chars system_prompt ms =
     int (length (py_or_empty system_prompt)) + (\<Sum>m \<leftarrow> ms. int (length (cm_content m)))"

definition account ::
    "int \<Rightarrow> string \<Rightarrow> string \<Rightarrow> string \<Rightarrow> chat_message list \<Rightarrow> string \<Rightarrow> string option
     \<Rightarrow> accounting_error + execution_cost" where
  "account chars_per_token provider model operation ms output system_prompt =
     (case price_lookup provider model of
        Inl e \<Rightarrow> Inl e
      | Inr (p, md) \<Rightarrow>
          (let input_tokens = ceil_div (message_chars system_prompt ms) chars_per_token;
               output_tokens = ceil_div (int (length output)) chars_per_token
           in execution_cost_checked
                \<lparr>ec_provider = p, ec_model = model, ec_operation = operation,
                 ec_input_tokens = input_tokens, ec_output_tokens = output_tokens,
                 ec_total_tokens = input_tokens + output_tokens,
                 ec_cost = quantize_cost (priced (mm_pricing md) input_tokens output_tokens),
                 ec_usage_source = ''estimated'', ec_pricing_revision = CATALOG_REVISION\<rparr>))"

section \<open>Lemmas\<close>

lemma quantize_exact:
  assumes "0 \<le> x" and "x * 10 ^ 10 = of_int k"
  shows "quantize_cost x = x"
proof -
  have "\<lfloor>of_int k + 1 / 2 :: rat\<rfloor> = k" by (simp add: floor_unique)
  with assms show ?thesis by (simp add: quantize_cost_def field_simps)
qed

text \<open>Every catalog price is a whole number of thousandths, so a price never needs rounding.\<close>

definition price_in_mills :: "token_pricing \<Rightarrow> bool" where
  "price_in_mills p \<longleftrightarrow> 0 \<le> input_per_million p \<and> 0 \<le> output_per_million p
     \<and> of_int \<lfloor>1000 * input_per_million p\<rfloor> = 1000 * input_per_million p
     \<and> of_int \<lfloor>1000 * output_per_million p\<rfloor> = 1000 * output_per_million p"

lemma catalog_entries_wf:
  "\<forall>((p, m), md) \<in> set model_capability_entries.
     p = mm_provider md \<and> m = mm_model md \<and> m \<noteq> [] \<and> 0 < mm_context_window_tokens md
     \<and> price_in_mills (mm_pricing md)"
  by (simp add: model_capability_entries_def catalog_entry_def price_in_mills_def floor_eq_iff)

lemma catalog_SomeD:
  "model_capability_catalog (p, m) = Some md \<Longrightarrow>
     mm_provider md = p \<and> mm_model md = m \<and> m \<noteq> [] \<and> 0 < mm_context_window_tokens md
     \<and> price_in_mills (mm_pricing md)"
  using catalog_entries_wf by (fastforce simp: model_capability_catalog_def dest: map_of_SomeD)

lemma priced_exact:
  assumes "price_in_mills p" and "0 \<le> i" and "0 \<le> j"
  shows "quantize_cost (priced p i j) = priced p i j \<and> 0 \<le> priced p i j"
proof -
  obtain a b where ab: "1000 * input_per_million p = of_int a" "1000 * output_per_million p = of_int b"
    using assms(1) unfolding price_in_mills_def by metis
  have mills: "(a * b + c * d) * 10000 = 10 * (a * (1000 * b) + c * (1000 * d))" for a b c d :: rat
    by (simp add: distrib_left distrib_right)
  have ten: "(x / 1000000) * 10 ^ 10 = x * 10000" for x :: rat by simp
  have "priced p i j * 10 ^ 10
      = (of_int i * input_per_million p + of_int j * output_per_million p) * 10000"
    unfolding priced_def unit_tokens_def of_int_numeral by (rule ten)
  also have "\<dots> = 10 * (of_int i * (1000 * input_per_million p) + of_int j * (1000 * output_per_million p))"
    by (rule mills)
  also have "\<dots> = of_int (10 * (i * a + j * b))" by (simp add: ab)
  finally have k: "priced p i j * 10 ^ 10 = of_int (10 * (i * a + j * b))" .
  have nn: "0 \<le> priced p i j"
    using assms by (simp add: priced_def unit_tokens_def price_in_mills_def)
  show ?thesis using quantize_exact [OF nn k] nn by simp
qed

lemma price_lookup_InrD:
  "price_lookup provider model = Inr (p, md) \<Longrightarrow>
     normalize_provider provider = Inr p \<and> model_capability_catalog (p, model) = Some md"
  by (auto simp: price_lookup_def split: sum.splits option.splits)

lemma price_lookup_facts:
  "price_lookup provider model = Inr (p, md) \<Longrightarrow>
     p \<noteq> [] \<and> model \<noteq> [] \<and> price_in_mills (mm_pricing md)"
  by (auto dest!: price_lookup_InrD normalize_provider_InrD catalog_SomeD)

lemma message_chars_nonneg: "0 \<le> message_chars sp ms"
  unfolding message_chars_def by (intro add_nonneg_nonneg sum_list_nonneg) auto

lemma message_chars_append:
  "message_chars sp (ms @ ns) = message_chars sp ms + (\<Sum>m \<leftarrow> ns. int (length (cm_content m)))"
  by (simp add: message_chars_def)

lemma checked_InrI:
  "ec_provider c \<noteq> [] \<Longrightarrow> ec_model c \<noteq> [] \<Longrightarrow> ec_pricing_revision c \<noteq> [] \<Longrightarrow>
   ec_operation c \<in> {''primary'', ''verification''} \<Longrightarrow> 0 \<le> ec_input_tokens c \<Longrightarrow>
   0 \<le> ec_output_tokens c \<Longrightarrow> ec_total_tokens c = ec_input_tokens c + ec_output_tokens c \<Longrightarrow>
   0 \<le> ec_cost c \<Longrightarrow> ec_usage_source c \<in> {''estimated'', ''provider_reported''} \<Longrightarrow>
   execution_cost_checked c = Inr c"
  by (auto simp: execution_cost_checked_def)

lemma checked_InrD: "execution_cost_checked c = Inr c' \<Longrightarrow> c' = c"
  by (auto simp: execution_cost_checked_def split: if_splits)

lemma account_InrD:
  assumes "account cpt provider model operation ms output sp = Inr c" and "0 < cpt"
  shows "\<exists>p md. price_lookup provider model = Inr (p, md) \<and> ec_provider c = p \<and> ec_model c = model
     \<and> ec_input_tokens c = ceil_div (message_chars sp ms) cpt
     \<and> ec_output_tokens c = ceil_div (int (length output)) cpt
     \<and> ec_total_tokens c = ec_input_tokens c + ec_output_tokens c
     \<and> ec_cost c = priced (mm_pricing md) (ec_input_tokens c) (ec_output_tokens c)"
proof -
  from assms(1) obtain p md where l: "price_lookup provider model = Inr (p, md)"
    by (auto simp: account_def split: sum.splits)
  note f = price_lookup_facts [OF l]
  have "quantize_cost (priced (mm_pricing md) (ceil_div (message_chars sp ms) cpt)
            (ceil_div (int (length output)) cpt))
        = priced (mm_pricing md) (ceil_div (message_chars sp ms) cpt)
            (ceil_div (int (length output)) cpt)"
    using priced_exact f ceil_div_nonneg [OF assms(2)] message_chars_nonneg by simp
  with assms(1) l show ?thesis
    by (auto simp: account_def Let_def dest!: checked_InrD)
qed

section \<open>Properties\<close>

text \<open>Accounting a priced model never fails on a governed operation, and the recorded cost is the
  exact product of the ceiling token counts and the catalog prices: the ten-place rounding loses
  nothing, the total is the sum, and a longer conversation or a longer answer never costs less.\<close>

theorem estimated_cost_exact_and_monotone:
  assumes "0 < cpt" and "price_lookup provider model = Inr (p, md)"
    and "operation \<in> {''primary'', ''verification''}"
  shows "\<exists>c c'. account cpt provider model operation ms output sp = Inr c
     \<and> account cpt provider model operation (ms @ ns) (output @ extra) sp = Inr c'
     \<and> ec_cost c * of_int unit_tokens
         = of_int (ec_input_tokens c) * input_per_million (mm_pricing md)
           + of_int (ec_output_tokens c) * output_per_million (mm_pricing md)
     \<and> ec_total_tokens c = ec_input_tokens c + ec_output_tokens c
     \<and> int (length output) \<le> ec_output_tokens c * cpt
     \<and> 0 \<le> ec_cost c \<and> ec_cost c \<le> ec_cost c' \<and> ec_total_tokens c \<le> ec_total_tokens c'"
proof -
  note f = price_lookup_facts [OF assms(2)]
  have ok: "\<exists>c. account cpt provider model operation xs out sp = Inr c" for xs out
  proof -
    let ?i = "ceil_div (message_chars sp xs) cpt" and ?o = "ceil_div (int (length out)) cpt"
    have "0 \<le> ?i" "0 \<le> ?o"
      using ceil_div_nonneg [OF assms(1)] message_chars_nonneg by simp_all
    moreover have "0 \<le> quantize_cost (priced (mm_pricing md) ?i ?o)"
      using priced_exact [of "mm_pricing md" ?i ?o] calculation f by simp
    ultimately show ?thesis
      unfolding account_def assms(2) Let_def using f assms(3)
      by (simp add: checked_InrI CATALOG_REVISION_def)
  qed
  obtain c where c: "account cpt provider model operation ms output sp = Inr c" using ok by blast
  obtain c' where c': "account cpt provider model operation (ms @ ns) (output @ extra) sp = Inr c'"
    using ok by blast
  note d = account_InrD [OF c assms(1)] and d' = account_InrD [OF c' assms(1)]
  have i: "ec_input_tokens c \<le> ec_input_tokens c'"
  proof -
    have "0 \<le> (\<Sum>m \<leftarrow> ns. int (length (cm_content m)))" by (rule sum_list_nonneg) auto
    then have "ceil_div (message_chars sp ms) cpt \<le> ceil_div (message_chars sp (ms @ ns)) cpt"
      by (intro ceil_div_mono [OF assms(1)]) (simp add: message_chars_append)
    then show ?thesis using d d' by auto
  qed
  have o: "ec_output_tokens c \<le> ec_output_tokens c'"
    using d d' ceil_div_mono [OF assms(1), of "int (length output)" "int (length (output @ extra))"]
    by auto
  have nn: "0 \<le> ec_input_tokens c" "0 \<le> ec_output_tokens c"
    using d ceil_div_nonneg [OF assms(1)] message_chars_nonneg by auto
  have pr: "0 \<le> input_per_million (mm_pricing md)" "0 \<le> output_per_million (mm_pricing md)"
    using f by (auto simp: price_in_mills_def)
  have cost: "ec_cost c = priced (mm_pricing md) (ec_input_tokens c) (ec_output_tokens c)"
    "ec_cost c' = priced (mm_pricing md) (ec_input_tokens c') (ec_output_tokens c')"
    using d d' assms(2) by auto
  have "ec_cost c \<le> ec_cost c'"
    unfolding cost priced_def unit_tokens_def using i o pr
    by (intro divide_right_mono add_mono mult_right_mono) auto
  moreover have "0 \<le> ec_cost c" using priced_exact nn f cost by simp
  moreover have "int (length output) \<le> ec_output_tokens c * cpt"
    using d ceil_div_ge [OF assms(1)] by auto
  moreover have "ec_total_tokens c \<le> ec_total_tokens c'" using d d' i o by auto
  ultimately show ?thesis using c c' d cost(1) by (auto simp: priced_def unit_tokens_def)
qed

theorem estimated_cost_exact_and_monotone_witness:
  "\<exists>c c'. account 4 ''google'' ''gemini-1.5-flash'' ''primary'' [] ''hello'' (Some ''be brief'') = Inr c
     \<and> account 4 ''google'' ''gemini-1.5-flash'' ''primary''
         ([] @ [\<lparr>cm_role = ''user'', cm_content = ''hi''\<rparr>]) (''hello'' @ '' you'') (Some ''be brief'') = Inr c'
     \<and> ec_cost c * of_int unit_tokens
         = of_int (ec_input_tokens c) * input_per_million \<lparr>input_per_million = 3/40, output_per_million = 3/10\<rparr>
           + of_int (ec_output_tokens c) * output_per_million \<lparr>input_per_million = 3/40, output_per_million = 3/10\<rparr>
     \<and> ec_total_tokens c = ec_input_tokens c + ec_output_tokens c
     \<and> int (length ''hello'') \<le> ec_output_tokens c * 4
     \<and> 0 \<le> ec_cost c \<and> ec_cost c \<le> ec_cost c' \<and> ec_total_tokens c \<le> ec_total_tokens c'"
proof -
  have look: "price_lookup ''google'' ''gemini-1.5-flash''
      = Inr (''google'', snd (catalog_entry ''google'' ''gemini-1.5-flash'' 1000000 (3/40) (3/10)
                        (native_caps True True True)))"
    by (simp add: price_lookup_def normalize_provider_fixed model_capability_catalog_def
        model_capability_entries_def catalog_entry_def)
  show ?thesis
    using estimated_cost_exact_and_monotone [OF _ look, of 4 "''primary''" "[]" "''hello''" "Some ''be brief''"
        "[\<lparr>cm_role = ''user'', cm_content = ''hi''\<rparr>]" "'' you''"]
    by (simp add: catalog_entry_def)
qed

text \<open>Discovery is sound: for whatever allow-list the operator configures, every model it lists is a
  catalog model of the requested provider that the allow-list authorizes, and the capabilities shown
  never exceed what both the model and the adapter implement, so today no listed model offers vision,
  tools or structured output.\<close>

theorem discovery_sound:
  assumes "discover env provider key = Inr mds" and "md \<in> set mds"
  shows "normalize_provider provider = Inr (mm_provider md)
    \<and> authorize_provider_model env provider (mm_model md) = Inr (mm_provider md, mm_model md)
    \<and> pc_streaming (mm_capabilities md) \<and> \<not> pc_vision (mm_capabilities md)
    \<and> \<not> pc_tools (mm_capabilities md) \<and> \<not> pc_structured_output (mm_capabilities md)"
proof -
  obtain p gp where pg: "normalize_provider provider = Inr p" "get_provider p key = Inr gp"
    using assms(1) by (auto simp: discover_def split: sum.splits)
  obtain m where m: "m \<in> set (governed_models env gp)"
    "md \<in> set (case model_capability_catalog (p, m) of
        None \<Rightarrow> []
      | Some md \<Rightarrow> [md\<lparr>mm_capabilities := implemented_capabilities
           (mm_native_capabilities md) (adapter_capabilities (gp_adapter gp))\<rparr>])"
    using assms unfolding discover_def by (auto simp only: sum.case pg sum.inject set_concat set_map image_iff Union_iff)
  then obtain md0 where "model_capability_catalog (p, m) = Some md0"
    and md: "md = md0\<lparr>mm_capabilities := implemented_capabilities
                 (mm_native_capabilities md0) (adapter_capabilities (gp_adapter gp))\<rparr>"
    by (cases "model_capability_catalog (p, m)") auto
  note p = pg m(1) this(1)
  have id0: "mm_provider md0 = p" "mm_model md0 = m" using catalog_SomeD [OF p(4)] by auto
  have q: "p \<in> {''openai'', ''anthropic'', ''google''}" by (rule normalize_provider_InrD [OF p(1)])
  have low: "py_lower ''openai'' = ''openai''" "py_lower ''anthropic'' = ''anthropic''"
    "py_lower ''google'' = ''google''" by code_simp+
  have name: "gp_provider_name gp = p"
    using p(2) q low by (auto simp: get_provider_def Let_def split: if_splits)
  obtain m0 where "authorize_provider_model env p m0 = Inr (p, m)"
    using p(3) name by (auto simp: governed_models_def split: sum.splits if_splits)
  then have "authorize_provider_model env p m = Inr (p, m)"
    by (rule authorize_provider_model_idem)
  then have auth: "authorize_provider_model env provider m = Inr (p, m)"
    using p(1) normalize_provider_fixed [OF q] by (simp add: authorize_provider_model_def)
  have nat: "pc_streaming (mm_native_capabilities md0)"
    using p(4) by (auto simp: model_capability_catalog_def model_capability_entries_def
        catalog_entry_def native_caps_def split: if_splits)
  show ?thesis using p(1) auth id0 nat unfolding md
    by (cases "gp_adapter gp") (auto simp: implemented_capabilities_def streaming_only_def)
qed

definition sample_listing :: "provider_model_metadata list" where
  "sample_listing = (case discover (\<lambda>_. None) '' Gemini'' ''key'' of Inr mds \<Rightarrow> mds | Inl _ \<Rightarrow> [])"

theorem discovery_sound_witness:
  "length sample_listing = 2
    \<and> normalize_provider '' Gemini'' = Inr (mm_provider (hd sample_listing))
    \<and> authorize_provider_model (\<lambda>_. None) '' Gemini'' (mm_model (hd sample_listing))
        = Inr (mm_provider (hd sample_listing), mm_model (hd sample_listing))
    \<and> pc_streaming (mm_capabilities (hd sample_listing))
    \<and> \<not> pc_vision (mm_capabilities (hd sample_listing))
    \<and> \<not> pc_tools (mm_capabilities (hd sample_listing))
    \<and> \<not> pc_structured_output (mm_capabilities (hd sample_listing))"
proof -
  have two: "length sample_listing = 2" by code_simp
  have "discover (\<lambda>_. None) '' Gemini'' ''key'' = Inr sample_listing" by code_simp
  moreover have "hd sample_listing \<in> set sample_listing"
    using two by (intro hd_in_set) auto
  ultimately show ?thesis using two discovery_sound by blast
qed

end
