(* ===== verification/ContextConstruction.thy ===== *)
theory ContextConstruction
  imports Schema CostAccounting "HOL-Library.Product_Lexorder"
begin

text \<open>
  Construction of the model context (\<^verbatim>\<open>application/context_construction.py\<close>) and its use by the chat
  endpoint (\<^verbatim>\<open>_build_messages\<close> of \<^verbatim>\<open>api/v1/chat.py\<close>).  A history item is a row or mapping with the
  four fields the builder reads; a text field holds a string or nothing.  \<open>sha\<close> is the hex digest of
  the compacted text.
\<close>

section \<open>Policy, items, results\<close>

datatype context_error = ContextBudgetExceeded string | ContextValueError string

record context_policy =
  cp_context_window_tokens :: int
  cp_reserved_output_tokens :: int
  cp_max_history_tokens :: int
  cp_max_history_messages :: int
  cp_max_source_messages :: int
  cp_max_compaction_tokens :: int
  cp_chars_per_token :: int

definition context_policy_checked :: "context_policy \<Rightarrow> context_error + context_policy" where
  "context_policy_checked p =
     (if cp_context_window_tokens p \<le> 0 \<or> cp_chars_per_token p \<le> 0
        then Inl (ContextValueError ''context window and token ratio must be positive'')
      else if min (min (cp_reserved_output_tokens p) (cp_max_history_tokens p))
                  (min (cp_max_history_messages p) (cp_max_compaction_tokens p)) < 0
        then Inl (ContextValueError ''context policy limits cannot be negative'')
      else if cp_max_source_messages p < cp_max_history_messages p
        then Inl (ContextValueError ''source window cannot be smaller than the raw history window'')
      else if cp_max_source_messages p \<le> 0
        then Inl (ContextValueError ''source window must be positive'')
      else if cp_context_window_tokens p \<le> cp_reserved_output_tokens p
        then Inl (ContextValueError ''output reservation must leave an input window'')
      else Inr p)"

record context_item =
  ci_id :: "int option"
  ci_role :: string
  ci_content :: "string option"
  ci_status :: string

record eligible_item =
  el_id :: "int option"
  el_role :: string
  el_content :: string
  el_tokens :: int

record compaction_artifact =
  ca_content :: string
  ca_source_ids :: "int list"
  ca_source_digest :: string
  ca_estimated_tokens :: int

record constructed_context =
  cc_messages :: "chat_message list"
  cc_system_prompt :: "string option"
  cc_estimated_input_tokens :: int
  cc_history_tokens :: int
  cc_input_budget_tokens :: int
  cc_selected_history_ids :: "int list"
  cc_truncated_history_count :: nat
  cc_compaction_source_ids :: "int list"
  cc_compaction_digest :: "string option"

definition optional_content :: "string option \<Rightarrow> string option" where
  "optional_content v = (case v of None \<Rightarrow> None | Some s \<Rightarrow> py_or_none (py_strip s))"

definition required_content :: "string \<Rightarrow> context_error + string" where
  "required_content s = (if py_strip s = []
     then Inl (ContextBudgetExceeded ''current prompt cannot be empty'') else Inr (py_strip s))"

definition policy_tokens :: "context_policy \<Rightarrow> string \<Rightarrow> int" where
  "policy_tokens p s = ceil_div (int (length s)) (cp_chars_per_token p)"

section \<open>Compaction\<close>

definition newline :: string where "newline = [CHR 0x0A]"

definition compaction_prefix :: string where
  "compaction_prefix = ''<conversation_compaction untrusted='' @ [CHR 0x22] @ ''true''
     @ [CHR 0x22] @ ''>'' @ newline"

definition compaction_suffix :: string where
  "compaction_suffix = newline @ ''</conversation_compaction>''"

definition truncation_marker :: string where
  "truncation_marker = newline @ ''[older context truncated]''"

definition canonical_line :: "context_item \<Rightarrow> string option" where
  "canonical_line it = (case optional_content (ci_content it) of
     None \<Rightarrow> None
   | Some c \<Rightarrow> if ci_role it \<in> {''user'', ''assistant''}
               then Some (''['' @ ci_role it @ ''] '' @ c) else None)"

definition canonical_lines :: "context_item list \<Rightarrow> string list" where
  "canonical_lines its = concat (map (\<lambda>it. case canonical_line it of None \<Rightarrow> [] | Some l \<Rightarrow> [l]) its)"

definition compaction_ids :: "context_item list \<Rightarrow> int list" where
  "compaction_ids its = concat (map (\<lambda>it. case (canonical_line it, ci_id it) of
     (Some _, Some i) \<Rightarrow> [i] | _ \<Rightarrow> []) its)"

definition truncate_payload :: "int \<Rightarrow> string \<Rightarrow> string option" where
  "truncate_payload capacity payload =
     (if int (length payload) \<le> capacity then Some payload
      else if capacity \<le> int (length truncation_marker) then None
      else Some (py_rstrip (take (nat (capacity - int (length truncation_marker))) payload)
                 @ truncation_marker))"

definition compaction_header :: "string \<Rightarrow> string" where
  "compaction_header digest = compaction_prefix @ ''source_sha256='' @ digest @ newline"

definition compact ::
    "(string \<Rightarrow> string) \<Rightarrow> context_item list \<Rightarrow> int \<Rightarrow> int \<Rightarrow> compaction_artifact option" where
  "compact sha history token_budget chars_per_token =
     (if history = [] \<or> token_budget \<le> 0 \<or> chars_per_token \<le> 0 then None
      else if canonical_lines history = [] then None
      else
        (let payload = py_join newline (canonical_lines history);
             digest = sha payload;
             header = compaction_header digest;
             payload_capacity = token_budget * chars_per_token - int (length header)
                                - int (length compaction_suffix)
         in if payload_capacity \<le> 0 then None
            else (case truncate_payload payload_capacity payload of
              None \<Rightarrow> None
            | Some body \<Rightarrow>
                (let content = header @ body @ compaction_suffix in
                 Some \<lparr>ca_content = content, ca_source_ids = compaction_ids history,
                       ca_source_digest = digest,
                       ca_estimated_tokens = ceil_div (int (length content)) chars_per_token\<rparr>))))"

section \<open>Selection and construction\<close>

definition eligible_of :: "context_policy \<Rightarrow> context_item \<Rightarrow> eligible_item option" where
  "eligible_of p it = (case optional_content (ci_content it) of
     None \<Rightarrow> None
   | Some c \<Rightarrow> if ci_role it \<in> {''user'', ''assistant''} \<and> ci_status it = ''completed''
               then Some \<lparr>el_id = ci_id it, el_role = ci_role it, el_content = c,
                          el_tokens = policy_tokens p c\<rparr> else None)"

text \<open>The builder keeps the original item beside the extracted fields; the compactor reads it again.\<close>

definition eligible_items ::
    "context_policy \<Rightarrow> context_item list \<Rightarrow> (context_item \<times> eligible_item) list" where
  "eligible_items p history = concat (map (\<lambda>it. case eligible_of p it of None \<Rightarrow> [] | Some e \<Rightarrow> [(it, e)])
     (take (nat (cp_max_source_messages p)) history))"

fun select_items ::
    "int \<Rightarrow> int \<Rightarrow> (context_item \<times> eligible_item) list \<Rightarrow> (context_item \<times> eligible_item) list \<times> int" where
  "select_items budget used [] = ([], used)"
| "select_items budget used (x # xs) =
     (if used + el_tokens (snd x) > budget then ([], used)
      else (case select_items budget (used + el_tokens (snd x)) xs of (ys, u) \<Rightarrow> (x # ys, u)))"

definition select_history ::
    "context_policy \<Rightarrow> (context_item \<times> eligible_item) list \<Rightarrow> int
     \<Rightarrow> (context_item \<times> eligible_item) list \<times> int" where
  "select_history p eligible budget =
     select_items budget 0 (take (nat (cp_max_history_messages p)) eligible)"

fun drop_leading_assistants ::
    "(context_item \<times> eligible_item) list \<Rightarrow> int \<Rightarrow> (context_item \<times> eligible_item) list \<times> int" where
  "drop_leading_assistants [] used = ([], used)"
| "drop_leading_assistants (x # xs) used =
     (if el_role (snd x) = ''assistant'' then drop_leading_assistants xs (used - el_tokens (snd x))
      else (x # xs, used))"

text \<open>The history part: what is selected, its tokens, and the compaction artifact.\<close>

definition choose_history ::
    "(string \<Rightarrow> string) \<Rightarrow> context_policy \<Rightarrow> (context_item \<times> eligible_item) list \<Rightarrow> int
     \<Rightarrow> (context_item \<times> eligible_item) list \<times> int \<times> compaction_artifact option" where
  "choose_history sha p eligible history_budget =
     (case select_history p eligible history_budget of
        (selected, used) \<Rightarrow>
          if length selected < length eligible \<and> cp_max_compaction_tokens p \<noteq> 0
          then (case select_history p eligible (max 0 (history_budget - cp_max_compaction_tokens p)) of
                  (selected', used') \<Rightarrow>
                    (case compact sha (map fst (rev (drop (length selected') eligible)))
                            (min (cp_max_compaction_tokens p) (history_budget - used'))
                            (cp_chars_per_token p) of
                       None \<Rightarrow> (selected, used, None)
                     | Some art \<Rightarrow> (selected', used', Some art)))
          else (selected, used, None))"

definition user_message :: "string \<Rightarrow> chat_message" where
  "user_message s = \<lparr>cm_role = ''user'', cm_content = s\<rparr>"

definition history_message :: "context_item \<times> eligible_item \<Rightarrow> chat_message" where
  "history_message x = \<lparr>cm_role = el_role (snd x), cm_content = el_content (snd x)\<rparr>"

definition artifact_tokens :: "compaction_artifact option \<Rightarrow> int" where
  "artifact_tokens a = (case a of None \<Rightarrow> 0 | Some art \<Rightarrow> ca_estimated_tokens art)"

definition artifact_messages :: "compaction_artifact option \<Rightarrow> chat_message list" where
  "artifact_messages a = (case a of None \<Rightarrow> [] | Some art \<Rightarrow> [user_message (ca_content art)])"

definition build_context ::
    "(string \<Rightarrow> string) \<Rightarrow> context_policy \<Rightarrow> context_item list \<Rightarrow> string \<Rightarrow> string option
     \<Rightarrow> context_error + constructed_context" where
  "build_context sha p history current_prompt system_prompt =
     (case required_content current_prompt of
        Inl e \<Rightarrow> Inl e
      | Inr prompt \<Rightarrow>
          (let system = optional_content system_prompt;
               input_budget = cp_context_window_tokens p - cp_reserved_output_tokens p;
               mandatory = policy_tokens p prompt + policy_tokens p (py_or_empty system)
           in if mandatory > input_budget
              then Inl (ContextBudgetExceeded ''mandatory context exceeds the model input window'')
              else
                (let history_budget = min (cp_max_history_tokens p) (input_budget - mandatory);
                     eligible = eligible_items p history
                 in (case choose_history sha p eligible history_budget of
                   (selected, used, artifact) \<Rightarrow>
                     (case drop_leading_assistants (rev selected) used of
                       (chosen, used') \<Rightarrow>
                         Inr \<lparr>cc_messages = artifact_messages artifact @ map history_message chosen
                                             @ [user_message prompt],
                              cc_system_prompt = system,
                              cc_estimated_input_tokens = mandatory + used' + artifact_tokens artifact,
                              cc_history_tokens = used' + artifact_tokens artifact,
                              cc_input_budget_tokens = input_budget,
                              cc_selected_history_ids =
                                concat (map (\<lambda>x. case el_id (snd x) of None \<Rightarrow> [] | Some i \<Rightarrow> [i]) chosen),
                              cc_truncated_history_count = length eligible - length chosen,
                              cc_compaction_source_ids =
                                (case artifact of None \<Rightarrow> [] | Some a \<Rightarrow> ca_source_ids a),
                              cc_compaction_digest =
                                (case artifact of None \<Rightarrow> None | Some a \<Rightarrow> Some (ca_source_digest a))\<rparr>)))))"

section \<open>The chat endpoint's context\<close>

definition context_item_of :: "message \<Rightarrow> context_item" where
  "context_item_of m = \<lparr>ci_id = Some (ms_id m), ci_role = ms_role m, ci_content = Some (ms_content m),
     ci_status = (if ms_status m = Completed then ''completed'' else [])\<rparr>"

definition recent_messages :: "message list \<Rightarrow> identity \<Rightarrow> int \<Rightarrow> message list" where
  "recent_messages rows conversation_id limit =
     take (nat limit) (rev (sort_key (\<lambda>m. (ms_created_at m, ms_id m))
       (filter (\<lambda>m. ms_conversation_id m = conversation_id \<and> ms_status m = Completed) rows)))"

definition chat_chars_per_token :: int where "chat_chars_per_token = 4"

definition chat_context_policy :: "string \<Rightarrow> string option \<Rightarrow> int \<Rightarrow> int \<Rightarrow> context_policy" where
  "chat_context_policy current_prompt system_prompt max_history history_token_budget =
     (let mandatory_tokens = ceil_div (int (length current_prompt)
            + int (length (py_or_empty system_prompt))) chat_chars_per_token
      in \<lparr>cp_context_window_tokens = max 1001 (history_token_budget + mandatory_tokens + 1000),
          cp_reserved_output_tokens = 1000, cp_max_history_tokens = max history_token_budget 0,
          cp_max_history_messages = max_history, cp_max_source_messages = 200,
          cp_max_compaction_tokens = 0, cp_chars_per_token = chat_chars_per_token\<rparr>)"

definition build_messages ::
    "(string \<Rightarrow> string) \<Rightarrow> message list \<Rightarrow> identity \<Rightarrow> string \<Rightarrow> string option \<Rightarrow> int \<Rightarrow> int
     \<Rightarrow> context_error + chat_message list" where
  "build_messages sha rows conversation_id current_prompt system_prompt max_history budget =
     (case context_policy_checked (chat_context_policy current_prompt system_prompt max_history budget) of
        Inl e \<Rightarrow> Inl e
      | Inr p \<Rightarrow>
          (case build_context sha p
                  (map context_item_of (recent_messages rows conversation_id max_history))
                  current_prompt system_prompt of
             Inl e \<Rightarrow> Inl e | Inr ctx \<Rightarrow> Inr (cc_messages ctx)))"

section \<open>Lemmas\<close>

definition item_tokens :: "(context_item \<times> eligible_item) list \<Rightarrow> int" where
  "item_tokens xs = (\<Sum>x \<leftarrow> xs. el_tokens (snd x))"

lemma item_tokens_simps [simp]:
  "item_tokens [] = 0" "item_tokens (x # xs) = el_tokens (snd x) + item_tokens xs"
  "item_tokens (xs @ ys) = item_tokens xs + item_tokens ys" "item_tokens (rev xs) = item_tokens xs"
  by (simp_all add: item_tokens_def rev_map [symmetric])

lemma policy_checkedD:
  "context_policy_checked p = Inr q \<Longrightarrow> q = p \<and> 0 < cp_chars_per_token p \<and> 0 \<le> cp_max_history_tokens p
     \<and> 0 \<le> cp_max_history_messages p \<and> 0 \<le> cp_max_compaction_tokens p"
  by (auto simp: context_policy_checked_def split: if_splits)

lemma policy_tokens_nonneg: "0 < cp_chars_per_token p \<Longrightarrow> 0 \<le> policy_tokens p s"
  by (simp add: policy_tokens_def ceil_div_nonneg)

lemma eligible_items_tokens:
  "x \<in> set (eligible_items p history) \<Longrightarrow> el_tokens (snd x) = policy_tokens p (el_content (snd x))
     \<and> el_role (snd x) \<in> {''user'', ''assistant''} \<and> eligible_of p (fst x) = Some (snd x)"
  by (auto simp: eligible_items_def eligible_of_def split: option.splits if_splits)

lemma select_items_result:
  assumes "select_items budget used xs = (ys, u)"
  shows "(\<exists>n. ys = take n xs) \<and> u = used + item_tokens ys \<and> (used \<le> budget \<longrightarrow> u \<le> budget)"
  using assms
proof (induction budget used xs arbitrary: ys u rule: select_items.induct)
  case (2 budget used x xs)
  show ?case
  proof (cases "used + el_tokens (snd x) > budget")
    case True
    with "2.prems" show ?thesis by (auto intro: exI [of _ 0])
  next
    case False
    obtain zs v where z: "select_items budget (used + el_tokens (snd x)) xs = (zs, v)" by fastforce
    from "2.IH" [OF False z] obtain n where "zs = take n xs" "v = used + el_tokens (snd x) + item_tokens zs"
      "v \<le> budget" using False by auto
    moreover have "ys = x # zs" "u = v" using "2.prems" False z by auto
    ultimately show ?thesis by (auto intro: exI [of _ "Suc n"])
  qed
qed auto

lemma select_history_result:
  assumes "select_history p eligible budget = (ys, u)" and "0 \<le> budget"
  shows "(\<exists>n. ys = take n eligible \<and> length ys \<le> nat (cp_max_history_messages p)) \<and> u = item_tokens ys
    \<and> u \<le> budget"
proof -
  from select_items_result [OF assms(1) [unfolded select_history_def]] assms(2)
  obtain n where n: "ys = take n (take (nat (cp_max_history_messages p)) eligible)"
    "u = item_tokens ys" "u \<le> budget" by auto
  then have "ys = take (min n (nat (cp_max_history_messages p))) eligible" by (simp add: min.commute)
  then show ?thesis using n by auto
qed

lemma truncate_payload_length:
  "truncate_payload capacity payload = Some body \<Longrightarrow> int (length body) \<le> capacity"
proof -
  assume t: "truncate_payload capacity payload = Some body"
  let ?n = "nat (capacity - int (length truncation_marker))"
  have "length (py_rstrip (take ?n payload)) \<le> ?n"
    by (rule order.trans [OF length_rstrip_le]) simp
  with t show ?thesis by (auto simp: truncate_payload_def split: if_splits)
qed

lemma compact_bounded:
  assumes "compact sha history budget cpt = Some art"
  shows "ca_estimated_tokens art = ceil_div (int (length (ca_content art))) cpt
    \<and> ca_estimated_tokens art \<le> budget \<and> 0 < cpt \<and> ca_source_ids art = compaction_ids history"
proof -
  let ?payload = "py_join newline (canonical_lines history)"
  let ?header = "compaction_header (sha ?payload)"
  obtain body where b: "truncate_payload (budget * cpt - int (length ?header)
      - int (length compaction_suffix)) ?payload = Some body"
    and art: "ca_content art = ?header @ body @ compaction_suffix"
      "ca_estimated_tokens art = ceil_div (int (length (ca_content art))) cpt"
      "ca_source_ids art = compaction_ids history" and cpt: "0 < cpt"
    using assms by (auto simp: compact_def Let_def split: if_splits option.splits)
  have "int (length (ca_content art)) \<le> budget * cpt"
    using truncate_payload_length [OF b] art(1) by simp
  then show ?thesis using art(2,3) cpt ceil_div_le [OF cpt] by metis
qed

lemma choose_history_result:
  assumes "choose_history sha p eligible hb = (selected, used, artifact)"
    and "context_policy_checked p = Inr q" and "0 \<le> hb"
  shows "(\<exists>n. selected = take n eligible) \<and> length selected \<le> nat (cp_max_history_messages p)
    \<and> used = item_tokens selected \<and> used + artifact_tokens artifact \<le> hb
    \<and> (\<forall>art. artifact = Some art \<longrightarrow>
         ca_estimated_tokens art = policy_tokens p (ca_content art)
         \<and> ca_source_ids art = compaction_ids (map fst (rev (drop (length selected) eligible))))"
proof -
  obtain s u where su: "select_history p eligible hb = (s, u)" by fastforce
  note first = select_history_result [OF su assms(3)]
  let ?raw = "max 0 (hb - cp_max_compaction_tokens p)"
  obtain s' u' where su': "select_history p eligible ?raw = (s', u')" by fastforce
  note second = select_history_result [OF su' max.cobounded1]
  show ?thesis
  proof (cases artifact)
    case None
    then have "selected = s" "used = u"
      using assms(1) su su' by (auto simp: choose_history_def split: if_splits option.splits)
    then show ?thesis using first None by (auto simp: artifact_tokens_def)
  next
    case (Some art)
    then have eq: "selected = s'" "used = u'" and
      c: "compact sha (map fst (rev (drop (length s') eligible)))
            (min (cp_max_compaction_tokens p) (hb - u')) (cp_chars_per_token p) = Some art"
      using assms(1) su su' by (auto simp: choose_history_def split: if_splits option.splits)
    show ?thesis using second compact_bounded [OF c] eq Some
      by (auto simp: artifact_tokens_def policy_tokens_def)
  qed
qed

lemma drop_leading_result:
  assumes "drop_leading_assistants xs used = (ys, u)"
  shows "(\<exists>k. ys = drop k xs) \<and> used - u = item_tokens xs - item_tokens ys
    \<and> (ys \<noteq> [] \<longrightarrow> el_role (snd (hd ys)) \<noteq> ''assistant'') \<and> set ys \<subseteq> set xs"
  using assms
proof (induction xs used arbitrary: ys u rule: drop_leading_assistants.induct)
  case (2 x xs used)
  show ?case
  proof (cases "el_role (snd x) = ''assistant''")
    case True
    with "2.prems" have "drop_leading_assistants xs (used - el_tokens (snd x)) = (ys, u)" by simp
    from "2.IH" [OF True this] obtain k where "ys = drop k xs"
      "used - el_tokens (snd x) - u = item_tokens xs - item_tokens ys"
      "ys \<noteq> [] \<longrightarrow> el_role (snd (hd ys)) \<noteq> ''assistant''" "set ys \<subseteq> set xs" by blast
    then show ?thesis by (auto intro: exI [of _ "Suc k"])
  next
    case False
    with "2.prems" show ?thesis by (auto intro: exI [of _ 0])
  qed
qed auto

lemma item_tokens_nonneg:
  assumes "\<forall>x \<in> set xs. 0 \<le> el_tokens (snd x)"
  shows "0 \<le> item_tokens xs"
  using assms by (induction xs) auto

lemma item_tokens_drop_le:
  assumes "\<forall>x \<in> set xs. 0 \<le> el_tokens (snd x)"
  shows "item_tokens (drop k xs) \<le> item_tokens xs"
  using assms
proof (induction xs arbitrary: k)
  case (Cons x xs)
  then show ?case
    using item_tokens_nonneg [of xs] by (cases k) (fastforce intro: order.trans)+
qed simp

definition message_tokens :: "context_policy \<Rightarrow> chat_message list \<Rightarrow> int" where
  "message_tokens p ms = (\<Sum>m \<leftarrow> ms. policy_tokens p (cm_content m))"

lemma message_tokens_simps [simp]:
  "message_tokens p [] = 0"
  "message_tokens p (m # ms) = policy_tokens p (cm_content m) + message_tokens p ms"
  "message_tokens p (ms @ ns) = message_tokens p ms + message_tokens p ns"
  by (simp_all add: message_tokens_def)

lemma message_tokens_history:
  assumes "\<forall>x \<in> set xs. el_tokens (snd x) = policy_tokens p (el_content (snd x))"
  shows "message_tokens p (map history_message xs) = item_tokens xs"
  using assms by (induction xs) (auto simp: history_message_def)

text \<open>The anatomy of a successful construction.\<close>

lemma build_context_InrD:
  assumes "build_context sha p history prompt system = Inr ctx" and "context_policy_checked p = Inr q"
  obtains n k artifact where
    "cc_messages ctx = artifact_messages artifact
       @ map history_message (drop k (rev (take n (eligible_items p history))))
       @ [user_message (py_strip prompt)]"
    "cc_system_prompt ctx = optional_content system"
    "cc_estimated_input_tokens ctx = policy_tokens p (py_strip prompt)
       + policy_tokens p (py_or_empty (optional_content system))
       + item_tokens (drop k (rev (take n (eligible_items p history)))) + artifact_tokens artifact"
    "cc_estimated_input_tokens ctx \<le> cp_context_window_tokens p - cp_reserved_output_tokens p"
    "cc_history_tokens ctx \<le> cp_max_history_tokens p"
    "n \<le> nat (cp_max_history_messages p)" "n \<le> length (eligible_items p history)"
    "drop k (rev (take n (eligible_items p history))) \<noteq> [] \<longrightarrow>
       el_role (snd (hd (drop k (rev (take n (eligible_items p history)))))) = ''user''"
    "\<forall>art. artifact = Some art \<longrightarrow> ca_estimated_tokens art = policy_tokens p (ca_content art)
       \<and> ca_source_ids art = compaction_ids (map fst (rev (drop n (eligible_items p history))))"
    "cc_compaction_source_ids ctx = (case artifact of None \<Rightarrow> [] | Some a \<Rightarrow> ca_source_ids a)"
proof -
  let ?E = "eligible_items p history"
  let ?b = "cp_context_window_tokens p - cp_reserved_output_tokens p"
  let ?m = "policy_tokens p (py_strip prompt) + policy_tokens p (py_or_empty (optional_content system))"
  let ?hb = "min (cp_max_history_tokens p) (?b - ?m)"
  note pol = policy_checkedD [OF assms(2)]
  have prompt: "required_content prompt = Inr (py_strip prompt)"
    using assms(1) by (auto simp: build_context_def required_content_def split: if_splits)
  have fits: "?m \<le> ?b" using assms(1) prompt by (auto simp: build_context_def Let_def split: if_splits)
  then have hb: "0 \<le> ?hb" using pol by simp
  obtain s u a where c: "choose_history sha p ?E ?hb = (s, u, a)" by (metis prod_cases3)
  obtain ys u' where d: "drop_leading_assistants (rev s) u = (ys, u')" by fastforce
  note ch = choose_history_result [OF c assms(2) hb]
  note dl = drop_leading_result [OF d]
  obtain n0 where n0: "s = take n0 ?E" using ch by blast
  define n where "n = length s"
  have n: "s = take n ?E" "n \<le> nat (cp_max_history_messages p)" "n \<le> length ?E"
    using n0 ch by (auto simp: n_def min_def)
  obtain k where k: "ys = drop k (rev (take n ?E))" using dl n(1) by blast
  have u': "u' = item_tokens ys" using dl ch by simp
  have nn: "\<forall>x \<in> set s. 0 \<le> el_tokens (snd x)"
    using eligible_items_tokens policy_tokens_nonneg pol n(1) by (metis in_set_takeD)
  have le: "u' \<le> u" using item_tokens_drop_le [of "rev s" k] nn ch k u' n(1) by simp
  have ctx: "ctx = \<lparr>cc_messages = artifact_messages a @ map history_message ys @ [user_message (py_strip prompt)],
      cc_system_prompt = optional_content system,
      cc_estimated_input_tokens = ?m + u' + artifact_tokens a,
      cc_history_tokens = u' + artifact_tokens a, cc_input_budget_tokens = ?b,
      cc_selected_history_ids = concat (map (\<lambda>x. case el_id (snd x) of None \<Rightarrow> [] | Some i \<Rightarrow> [i]) ys),
      cc_truncated_history_count = length ?E - length ys,
      cc_compaction_source_ids = (case a of None \<Rightarrow> [] | Some x \<Rightarrow> ca_source_ids x),
      cc_compaction_digest = (case a of None \<Rightarrow> None | Some x \<Rightarrow> Some (ca_source_digest x))\<rparr>"
    using assms(1) fits by (simp add: build_context_def prompt Let_def c d)
  have first: "ys \<noteq> [] \<longrightarrow> el_role (snd (hd ys)) = ''user''"
  proof
    assume ne: "ys \<noteq> []"
    then have "hd ys \<in> set ?E" using dl n(1) by (metis hd_in_set in_set_takeD set_rev subsetD)
    then show "el_role (snd (hd ys)) = ''user''" using eligible_items_tokens dl ne by blast
  qed
  have est: "cc_estimated_input_tokens ctx = ?m + item_tokens ys + artifact_tokens a"
    "cc_history_tokens ctx = item_tokens ys + artifact_tokens a"
    by (simp_all add: ctx u')
  have used: "item_tokens ys + artifact_tokens a \<le> ?hb" using ch le u' by linarith
  have msgs: "cc_messages ctx = artifact_messages a @ map history_message ys @ [user_message (py_strip prompt)]"
    "cc_system_prompt ctx = optional_content system"
    "cc_compaction_source_ids ctx = (case a of None \<Rightarrow> [] | Some x \<Rightarrow> ca_source_ids x)"
    by (simp_all add: ctx)
  have art: "\<forall>art. a = Some art \<longrightarrow> ca_estimated_tokens art = policy_tokens p (ca_content art)
       \<and> ca_source_ids art = compaction_ids (map fst (rev (drop n ?E)))"
    using ch n_def by blast
  have bounds: "cc_estimated_input_tokens ctx \<le> ?b" "cc_history_tokens ctx \<le> cp_max_history_tokens p"
    using est used by linarith+
  show ?thesis
    by (rule that [OF msgs(1) [unfolded k] msgs(2) est(1) [unfolded k] bounds n(2,3)
          first [unfolded k] art msgs(3)])
qed

section \<open>Properties\<close>

lemma artifact_message_tokens:
  assumes "\<forall>art. a = Some art \<longrightarrow> ca_estimated_tokens art = policy_tokens p (ca_content art) \<and> Q art"
  shows "message_tokens p (artifact_messages a) = artifact_tokens a"
  using assms by (cases a) (auto simp: artifact_messages_def artifact_tokens_def user_message_def)

lemma eligible_message_tokens:
  "message_tokens p (map history_message (drop k (rev (take n (eligible_items p history)))))
     = item_tokens (drop k (rev (take n (eligible_items p history))))"
proof (rule message_tokens_history, rule ballI)
  fix x assume "x \<in> set (drop k (rev (take n (eligible_items p history))))"
  then have "x \<in> set (eligible_items p history)" by (auto dest!: in_set_dropD in_set_takeD)
  then show "el_tokens (snd x) = policy_tokens p (el_content (snd x))" by (simp add: eligible_items_tokens)
qed

text \<open>C19: The constructed context never exceeds the model's input window.  The estimate it reports is
  exactly the sum of the tokens of the messages it sends and of the system prompt, that sum is within
  the window less the output reservation, the history part is within its own budget, and the last
  message is the trimmed prompt.\<close>

theorem context_within_window:
  assumes "build_context sha p history prompt system = Inr ctx" and "context_policy_checked p = Inr p"
  shows "message_tokens p (cc_messages ctx) + policy_tokens p (py_or_empty (cc_system_prompt ctx))
      = cc_estimated_input_tokens ctx
    \<and> cc_estimated_input_tokens ctx + cp_reserved_output_tokens p \<le> cp_context_window_tokens p
    \<and> cc_history_tokens ctx \<le> cp_max_history_tokens p
    \<and> last (cc_messages ctx) = user_message (py_strip prompt)"
  using assms
proof (rule build_context_InrD)
  fix n k artifact
  let ?h = "drop k (rev (take n (eligible_items p history)))"
  assume m: "cc_messages ctx = artifact_messages artifact @ map history_message ?h @ [user_message (py_strip prompt)]"
    and s: "cc_system_prompt ctx = optional_content system"
    and e: "cc_estimated_input_tokens ctx = policy_tokens p (py_strip prompt)
       + policy_tokens p (py_or_empty (optional_content system)) + item_tokens ?h + artifact_tokens artifact"
    and b: "cc_estimated_input_tokens ctx \<le> cp_context_window_tokens p - cp_reserved_output_tokens p"
      "cc_history_tokens ctx \<le> cp_max_history_tokens p"
    and a: "\<forall>art. artifact = Some art \<longrightarrow> ca_estimated_tokens art = policy_tokens p (ca_content art)
       \<and> ca_source_ids art = compaction_ids (map fst (rev (drop n (eligible_items p history))))"
  have "message_tokens p (cc_messages ctx)
      = artifact_tokens artifact + item_tokens ?h + policy_tokens p (py_strip prompt)"
    by (simp add: m eligible_message_tokens artifact_message_tokens [OF a] user_message_def)
  then show ?thesis using e b s by (simp add: m)
qed

definition sample_policy :: context_policy where
  "sample_policy = \<lparr>cp_context_window_tokens = 20, cp_reserved_output_tokens = 5,
     cp_max_history_tokens = 8, cp_max_history_messages = 4, cp_max_source_messages = 6,
     cp_max_compaction_tokens = 0, cp_chars_per_token = 4\<rparr>"

definition sample_history :: "context_item list" where
  "sample_history =
     [\<lparr>ci_id = Some 3, ci_role = ''assistant'', ci_content = Some ''fine'', ci_status = ''completed''\<rparr>,
      \<lparr>ci_id = Some 2, ci_role = ''user'', ci_content = Some '' how '', ci_status = ''completed''\<rparr>,
      \<lparr>ci_id = Some 1, ci_role = ''assistant'', ci_content = Some ''hello'', ci_status = ''failed''\<rparr>]"

definition sample_context_built :: constructed_context where
  "sample_context_built = (case build_context (\<lambda>s. s) sample_policy sample_history '' hi '' None of
     Inr c \<Rightarrow> c | Inl _ \<Rightarrow> undefined)"

lemma sample_policy_ok: "context_policy_checked sample_policy = Inr sample_policy"
  by (simp add: context_policy_checked_def sample_policy_def)

lemma sample_build:
  "build_context (\<lambda>s. s) sample_policy sample_history '' hi '' None = Inr sample_context_built"
proof -
  have "case build_context (\<lambda>s. s) sample_policy sample_history '' hi '' None of Inr _ \<Rightarrow> True | Inl _ \<Rightarrow> False"
    by code_simp
  then show ?thesis by (auto simp: sample_context_built_def split: sum.splits)
qed

theorem context_within_window_witness:
  "message_tokens sample_policy (cc_messages sample_context_built)
        + policy_tokens sample_policy (py_or_empty (cc_system_prompt sample_context_built))
      = cc_estimated_input_tokens sample_context_built
    \<and> cc_estimated_input_tokens sample_context_built + cp_reserved_output_tokens sample_policy
        \<le> cp_context_window_tokens sample_policy
    \<and> cc_history_tokens sample_context_built \<le> cp_max_history_tokens sample_policy
    \<and> last (cc_messages sample_context_built) = user_message (py_strip '' hi '')"
  by (rule context_within_window [OF sample_build sample_policy_ok])

text \<open>The history is the most recent usable part of the conversation, in chronological order: the
  messages between the optional compaction extract and the prompt are the newest \<open>n\<close> usable items read
  backwards, less a leading run of assistant turns, so every message list starts with the user; when
  there is an extract, its sources are exactly the usable items older than those \<open>n\<close>.\<close>

theorem context_is_recent_suffix:
  assumes "build_context sha p history prompt system = Inr ctx" and "context_policy_checked p = Inr p"
  shows "\<exists>n k artifact. n \<le> nat (cp_max_history_messages p)
    \<and> cc_messages ctx = artifact_messages artifact
        @ map history_message (drop k (rev (take n (eligible_items p history))))
        @ [user_message (py_strip prompt)]
    \<and> cm_role (hd (cc_messages ctx)) = ''user''
    \<and> cc_compaction_source_ids ctx
        = (if artifact = None then []
           else compaction_ids (map fst (rev (drop n (eligible_items p history)))))"
  using assms
proof (rule build_context_InrD)
  fix n k artifact
  let ?h = "drop k (rev (take n (eligible_items p history)))"
  assume m: "cc_messages ctx = artifact_messages artifact @ map history_message ?h @ [user_message (py_strip prompt)]"
    and n: "n \<le> nat (cp_max_history_messages p)"
    and f: "?h \<noteq> [] \<longrightarrow> el_role (snd (hd ?h)) = ''user''"
    and a: "\<forall>art. artifact = Some art \<longrightarrow> ca_estimated_tokens art = policy_tokens p (ca_content art)
       \<and> ca_source_ids art = compaction_ids (map fst (rev (drop n (eligible_items p history))))"
    and c: "cc_compaction_source_ids ctx = (case artifact of None \<Rightarrow> [] | Some a \<Rightarrow> ca_source_ids a)"
  have "cm_role (hd (cc_messages ctx)) = ''user''"
  proof (cases artifact)
    case None
    then show ?thesis using f
      by (cases ?h) (auto simp: m artifact_messages_def user_message_def history_message_def)
  qed (simp add: m artifact_messages_def user_message_def)
  then show ?thesis using m n a c
    by (intro exI [of _ n] exI [of _ k] exI [of _ artifact]) (auto split: option.splits)
qed

theorem context_is_recent_suffix_witness:
  "\<exists>n k artifact. n \<le> nat (cp_max_history_messages sample_policy)
    \<and> cc_messages sample_context_built = artifact_messages artifact
        @ map history_message (drop k (rev (take n (eligible_items sample_policy sample_history))))
        @ [user_message (py_strip '' hi '')]
    \<and> cm_role (hd (cc_messages sample_context_built)) = ''user''
    \<and> cc_compaction_source_ids sample_context_built
        = (if artifact = None then []
           else compaction_ids (map fst (rev (drop n (eligible_items sample_policy sample_history)))))"
  by (rule context_is_recent_suffix [OF sample_build sample_policy_ok])

lemma py_join_append:
  "xs \<noteq> [] \<Longrightarrow> ys \<noteq> [] \<Longrightarrow> py_join sep (xs @ ys) = py_join sep xs @ sep @ py_join sep ys"
proof (induction sep xs rule: py_join.induct)
  case (2 sep w)
  then show ?case by (cases ys) auto
qed auto

text \<open>When the compaction payload does not fit, what is kept is its oldest part: once the older
  lines alone exceed the capacity, the newer lines after them have no influence on the extract, which
  is nevertheless marked as having its older context cut.\<close>

theorem truncation_discards_newer_lines:
  assumes "capacity < int (length (py_join newline older))"
  shows "truncate_payload capacity (py_join newline (older @ newer))
    = truncate_payload capacity (py_join newline older)"
proof (cases "older = [] \<or> newer = []")
  case True
  then show ?thesis using assms by (auto simp: truncate_payload_def)
next
  case False
  then have j: "py_join newline (older @ newer) = py_join newline older @ newline @ py_join newline newer"
    by (simp add: py_join_append)
  have "nat (capacity - int (length truncation_marker)) \<le> length (py_join newline older)"
    using assms by linarith
  then show ?thesis using assms unfolding j by (simp add: truncate_payload_def)
qed

theorem truncation_discards_newer_lines_witness:
  "truncate_payload 30 (py_join newline ([''[user] the oldest line of all the history''] @ [''[user] newer'']))
    = truncate_payload 30 (py_join newline [''[user] the oldest line of all the history''])"
  by (rule truncation_discards_newer_lines) simp

lemma ceil_div_add_le:
  assumes "0 < k" and "0 \<le> a" and "0 \<le> b"
  shows "ceil_div a k + ceil_div b k \<le> ceil_div (a + b) k + 1"
proof -
  have low: "ceil_div x k * k \<le> x + k - 1" for x
  proof -
    have "(x + k - 1) div k * k + (x + k - 1) mod k = x + k - 1" by (rule div_mult_mod_eq)
    then show ?thesis unfolding ceil_div_def using pos_mod_sign [OF assms(1), of "x + k - 1"] by linarith
  qed
  have "ceil_div a k * k \<le> a + k - 1" "ceil_div b k * k \<le> b + k - 1" by (rule low)+
  moreover have "a + b \<le> ceil_div (a + b) k * k" by (rule ceil_div_ge [OF assms(1)])
  ultimately have "(ceil_div a k + ceil_div b k) * k < (ceil_div (a + b) k + 2) * k"
    by (simp add: distrib_right)
  then show ?thesis using assms(1) by (simp add: mult_less_cancel_right)
qed

lemma length_strip_int: "int (length (py_strip s)) \<le> int (length s)"
  using length_strip_le by simp

lemma length_optional_content: "int (length (py_or_empty (optional_content v))) \<le> int (length (py_or_empty v))"
  using length_strip_int by (auto simp: optional_content_def py_or_empty_def py_or_none_def split: option.split)

text \<open>The chat endpoint always gets a context: with a history budget of at least one token, any prompt
  that is not blank, any system prompt and any stored conversation lead to a message list, never to a
  budget error, because the window it asks for is computed from the mandatory text.\<close>

theorem chat_context_always_fits:
  assumes "1 \<le> budget" and "0 \<le> max_history" and "max_history \<le> 200" and "py_strip prompt \<noteq> []"
  shows "\<exists>ms. build_messages sha rows conversation prompt system max_history budget = Inr ms
    \<and> ms \<noteq> [] \<and> last ms = user_message (py_strip prompt) \<and> hd ms \<in> {m. cm_role m = ''user''}"
proof -
  let ?p = "chat_context_policy prompt system max_history budget"
  let ?items = "map context_item_of (recent_messages rows conversation max_history)"
  let ?sys = "py_or_empty (optional_content system)"
  have four: "cp_chars_per_token ?p = 4" "cp_reserved_output_tokens ?p = 1000"
    by (simp_all add: chat_context_policy_def Let_def chat_chars_per_token_def)
  let ?ab = "int (length prompt) + int (length (py_or_empty system))"
  have win: "budget + ceil_div ?ab 4 \<le> cp_context_window_tokens ?p - 1000"
    by (simp add: chat_context_policy_def Let_def chat_chars_per_token_def)
  have ok: "context_policy_checked ?p = Inr ?p"
    using assms by (simp add: context_policy_checked_def chat_context_policy_def Let_def
        chat_chars_per_token_def)
  have "ceil_div (int (length (py_strip prompt))) 4 + ceil_div (int (length ?sys)) 4
      \<le> ceil_div (int (length (py_strip prompt)) + int (length ?sys)) 4 + 1"
    by (rule ceil_div_add_le) simp_all
  also have "\<dots> \<le> ceil_div ?ab 4 + 1"
    using ceil_div_mono [of 4 "int (length (py_strip prompt)) + int (length ?sys)" ?ab]
      length_strip_int [of prompt] length_optional_content [of system] by simp
  finally have fits: "policy_tokens ?p (py_strip prompt) + policy_tokens ?p ?sys
      \<le> cp_context_window_tokens ?p - cp_reserved_output_tokens ?p"
    using win assms(1) by (simp add: policy_tokens_def four)
  have "\<exists>ctx. build_context sha ?p ?items prompt system = Inr ctx"
    using fits assms(4) by (simp add: build_context_def required_content_def Let_def not_less split: prod.split)
  then obtain ctx where ctx: "build_context sha ?p ?items prompt system = Inr ctx" ..
  have "last (cc_messages ctx) = user_message (py_strip prompt) \<and> cc_messages ctx \<noteq> []
      \<and> cm_role (hd (cc_messages ctx)) = ''user''"
    using ctx ok
  proof (rule build_context_InrD)
    fix n k artifact
    let ?h = "drop k (rev (take n (eligible_items ?p ?items)))"
    assume m: "cc_messages ctx = artifact_messages artifact @ map history_message ?h
        @ [user_message (py_strip prompt)]"
      and f: "?h \<noteq> [] \<longrightarrow> el_role (snd (hd ?h)) = ''user''"
    show ?thesis
    proof (cases artifact)
      case None
      then show ?thesis using f
        by (cases ?h) (auto simp: m artifact_messages_def user_message_def history_message_def)
    qed (simp add: m artifact_messages_def user_message_def)
  qed
  then show ?thesis using ctx ok by (simp add: build_messages_def)
qed

theorem chat_context_always_fits_witness:
  "\<exists>ms. build_messages (\<lambda>s. s) [] 5 '' hi'' (Some ''be brief'') 40 8000 = Inr ms
    \<and> ms \<noteq> [] \<and> last ms = user_message (py_strip '' hi'') \<and> hd ms \<in> {m. cm_role m = ''user''}"
  by (rule chat_context_always_fits) (simp_all add: py_strip_def py_lstrip_def py_rstrip_def py_space_def)

end
