(* ===== verification/AgentLoop.thy ===== *)
theory AgentLoop
  imports Prelude
begin

text \<open>
  The bounded agent loop (\<^verbatim>\<open>application/agent_loop.py\<close>) with its execution budget
  (\<^verbatim>\<open>application/execution_budget.py\<close>) and the rows of its audit trail
  (\<^verbatim>\<open>application/agent_audit.py\<close>).  What is outside the program is the environment of a run: the
  readings of the clock, the commits of the audit trail that fail, and how each call of the planner,
  the policy and the executor ends.  A run leaves a trace of the audit rows it made durable and of the
  executor calls it started, in order.
\<close>

section \<open>Values\<close>

record loop_step =
  ls_ident :: nat
  ls_tool :: string
  ls_capability :: string
  ls_arguments :: json

text \<open>How an awaited call ends: with a value, an exception, the deadline, or the cancellation of the
  task.\<close>

datatype 'a call = Returns 'a | Raises | TimesOut | Cancels

record decision =
  dn_allowed :: bool
  dn_reason_code :: string

record budget_decision =
  bd_allowed :: bool
  bd_reason_code :: string
  bd_remaining_executions :: int

record agent_run_limits =
  al_max_depth :: int
  al_timeout_seconds :: rat
  al_tool_timeout_seconds :: rat

definition agent_run_limits_ok :: "agent_run_limits \<Rightarrow> bool" where
  "agent_run_limits_ok l \<longleftrightarrow> 1 \<le> al_max_depth l \<and> 0 < al_timeout_seconds l
     \<and> 0 < al_tool_timeout_seconds l \<and> al_tool_timeout_seconds l \<le> al_timeout_seconds l"

record termination_context =
  tc_completed_depth :: nat
  tc_max_depth :: int
  tc_timeout_seconds :: rat
  tc_deadline_offset :: rat

record loop_outcome =
  lo_status :: string
  lo_observation :: json
  lo_reason_code :: "string option"
  lo_steps :: nat
  lo_termination_context :: "termination_context option"

datatype event_type =
    RUN_STARTED | PLANNER_DECISION | AUTHORIZATION_DECISION | BUDGET_DECISION | TOOL_SELECTED
  | TOOL_EXECUTION_STARTED | TOOL_EXECUTION_COMPLETED | TOOL_EXECUTION_FAILED
  | OBSERVATION_RECEIVED | RUN_TERMINATED

section \<open>Rendering for the audit trail\<close>

definition reason_code :: "string \<Rightarrow> string" where
  "reason_code r = (if r \<noteq> [] \<and> length r \<le> 64
       \<and> list_all (\<lambda>c. py_upper_letter c \<or> py_digit c \<or> c = CHR ''_'') r
     then r else ''UNSAFE_REASON_CODE'')"

definition audit_identifier :: "(string \<Rightarrow> string) \<Rightarrow> string \<Rightarrow> string \<Rightarrow> string" where
  "audit_identifier sha rendered kind = (if rendered \<noteq> [] \<and> length rendered \<le> 128
       \<and> list_all (\<lambda>c. py_alnum c \<or> c \<in> set ''_.:-'') rendered
     then rendered else kind @ '':sha256:'' @ take 16 (sha rendered))"

definition machine_char :: "char \<Rightarrow> bool" where
  "machine_char c \<longleftrightarrow> (let n = (of_char c :: nat) in
     (48 \<le> n \<and> n \<le> 57) \<or> (65 \<le> n \<and> n \<le> 90) \<or> (97 \<le> n \<and> n \<le> 122) \<or> c \<in> set ''_.:-'')"

definition machine_value :: "string \<Rightarrow> string \<Rightarrow> string" where
  "machine_value rendered fallback = (if rendered \<noteq> [] \<and> length rendered \<le> 128
       \<and> list_all machine_char rendered
     then rendered else fallback @ '':invalid'')"

section \<open>The audit trail\<close>

record audit_row =
  ar_sequence :: nat
  ar_event_type :: event_type
  ar_outcome :: "string option"
  ar_reason_code :: "string option"
  ar_depth :: "nat option"
  ar_subject :: "string list"

datatype trace_item = Row audit_row | Call loop_step

record audit_entry =
  en_event_type :: event_type
  en_outcome :: "string option"
  en_reason_code :: "string option"
  en_depth :: "nat option"
  en_subject :: "string list"

definition machine_option :: "string \<Rightarrow> string option \<Rightarrow> string option" where
  "machine_option fallback v = (case v of None \<Rightarrow> None
     | Some s \<Rightarrow> if s = [] then None else Some (machine_value s fallback))"

definition audit_row_of :: "nat \<Rightarrow> audit_entry \<Rightarrow> audit_row" where
  "audit_row_of sequence en = \<lparr>ar_sequence = sequence, ar_event_type = en_event_type en,
     ar_outcome = machine_option ''outcome'' (en_outcome en),
     ar_reason_code = machine_option ''reason'' (en_reason_code en),
     ar_depth = en_depth en, ar_subject = en_subject en\<rparr>"

section \<open>The budget\<close>

record execution_budget =
  eb_remaining :: int
  eb_deadline :: rat
  eb_clock :: "nat \<Rightarrow> rat"
  eb_reads :: nat

definition new_execution_budget :: "int \<Rightarrow> rat \<Rightarrow> (nat \<Rightarrow> rat) \<Rightarrow> execution_budget option" where
  "new_execution_budget max_executions timeout_seconds clock =
     (if max_executions < 0 \<or> timeout_seconds \<le> 0 then None
      else Some \<lparr>eb_remaining = max_executions, eb_deadline = clock 0 + timeout_seconds,
                 eb_clock = clock, eb_reads = 1\<rparr>)"

definition consume :: "execution_budget \<Rightarrow> budget_decision \<times> execution_budget" where
  "consume b =
     (let now = eb_clock b (eb_reads b); b1 = b\<lparr>eb_reads := eb_reads b + 1\<rparr> in
      if eb_deadline b \<le> now
      then (\<lparr>bd_allowed = False, bd_reason_code = ''TIME_BUDGET_EXHAUSTED'',
             bd_remaining_executions = eb_remaining b\<rparr>, b1)
      else if eb_remaining b \<le> 0
      then (\<lparr>bd_allowed = False, bd_reason_code = ''EXECUTION_BUDGET_EXHAUSTED'',
             bd_remaining_executions = 0\<rparr>, b1)
      else (\<lparr>bd_allowed = True, bd_reason_code = ''BUDGET_GRANTED'',
             bd_remaining_executions = eb_remaining b - 1\<rparr>,
            b1\<lparr>eb_remaining := eb_remaining b - 1\<rparr>))"

section \<open>The asynchronous loop\<close>

record ('b, 'p) run_env =
  re_clock :: "nat \<Rightarrow> rat"
  re_commit_fails :: "nat \<Rightarrow> bool"
  re_sha :: "string \<Rightarrow> string"
  re_fingerprint :: "json \<Rightarrow> string"
  re_planner :: "nat \<Rightarrow> json \<Rightarrow> loop_step option call"
  re_authorize :: "nat \<Rightarrow> loop_step \<Rightarrow> 'p \<Rightarrow> decision call \<times> 'p"
  re_consume :: "'b \<Rightarrow> budget_decision \<times> 'b"
  re_execute :: "nat \<Rightarrow> loop_step \<Rightarrow> 'p \<Rightarrow> json call \<times> 'p"
  re_execute_is_async :: bool

record ('b, 'p) run_state =
  rs_reads :: nat
  rs_commits :: nat
  rs_sequence :: nat
  rs_trace :: "trace_item list"
  rs_budget :: 'b
  rs_policy :: 'p

datatype run_result = Outcome loop_outcome | AuditUnavailable | RunCancelled

type_synonym ('b, 'p) run = "run_result \<times> ('b, 'p) run_state"

definition tick :: "('b, 'p) run_env \<Rightarrow> ('b, 'p) run_state \<Rightarrow> rat \<times> ('b, 'p) run_state" where
  "tick env st = (re_clock env (rs_reads st), st\<lparr>rs_reads := rs_reads st + 1\<rparr>)"

text \<open>\<^verbatim>\<open>audit.record\<close>: one commit; when it fails the exception leaves the run, and the sequence number
  is not used up.\<close>

definition audit_then ::
    "('b, 'p) run_env \<Rightarrow> audit_entry \<Rightarrow> ('b, 'p) run_state \<Rightarrow> (('b, 'p) run_state \<Rightarrow> ('b, 'p) run)
     \<Rightarrow> ('b, 'p) run" where
  "audit_then env en st k =
     (if re_commit_fails env (rs_commits st)
      then (AuditUnavailable, st\<lparr>rs_commits := rs_commits st + 1\<rparr>)
      else k (st\<lparr>rs_commits := rs_commits st + 1, rs_sequence := rs_sequence st + 1,
                 rs_trace := rs_trace st @ [Row (audit_row_of (rs_sequence st + 1) en)]\<rparr>))"

definition entry ::
    "event_type \<Rightarrow> string option \<Rightarrow> string option \<Rightarrow> nat option \<Rightarrow> string list \<Rightarrow> audit_entry" where
  "entry t outcome reason depth subject = \<lparr>en_event_type = t, en_outcome = outcome,
     en_reason_code = reason, en_depth = depth, en_subject = subject\<rparr>"

definition finish ::
    "('b, 'p) run_env \<Rightarrow> loop_outcome \<Rightarrow> ('b, 'p) run_state \<Rightarrow> ('b, 'p) run" where
  "finish env out st =
     audit_then env (entry RUN_TERMINATED (Some (lo_status out)) (lo_reason_code out)
         (map_option tc_completed_depth (lo_termination_context out)) []) st
       (\<lambda>st. (Outcome out, st))"

definition terminal ::
    "agent_run_limits \<Rightarrow> string \<Rightarrow> string option \<Rightarrow> nat \<Rightarrow> json \<Rightarrow> loop_outcome" where
  "terminal limits st reason depth observation =
     \<lparr>lo_status = st, lo_observation = observation, lo_reason_code = reason, lo_steps = depth,
      lo_termination_context = Some \<lparr>tc_completed_depth = depth, tc_max_depth = al_max_depth limits,
        tc_timeout_seconds = al_timeout_seconds limits,
        tc_deadline_offset = al_timeout_seconds limits\<rparr>\<rparr>"

text \<open>\<^verbatim>\<open>_invoke_within_deadline\<close>: a call is only made while time remains.\<close>

definition invoke_planner ::
    "('b, 'p) run_env \<Rightarrow> rat \<Rightarrow> nat \<Rightarrow> json \<Rightarrow> ('b, 'p) run_state
     \<Rightarrow> loop_step option call \<times> ('b, 'p) run_state" where
  "invoke_planner env deadline depth observation st =
     (case tick env st of (now, st1) \<Rightarrow>
        (if deadline - now \<le> 0 then TimesOut else re_planner env depth observation, st1))"

definition invoke_authorize ::
    "('b, 'p) run_env \<Rightarrow> rat \<Rightarrow> nat \<Rightarrow> loop_step \<Rightarrow> ('b, 'p) run_state
     \<Rightarrow> decision call \<times> ('b, 'p) run_state" where
  "invoke_authorize env deadline depth step st =
     (case tick env st of (now, st1) \<Rightarrow>
        if deadline - now \<le> 0 then (TimesOut, st1)
        else (case re_authorize env depth step (rs_policy st1) of
                (c, p) \<Rightarrow> (c, st1\<lparr>rs_policy := p\<rparr>)))"

definition start_call ::
    "('b, 'p) run_env \<Rightarrow> nat \<Rightarrow> loop_step \<Rightarrow> ('b, 'p) run_state \<Rightarrow> json call \<times> ('b, 'p) run_state" where
  "start_call env depth step st =
     (case re_execute env depth step (rs_policy st) of
        (c, p) \<Rightarrow> (c, st\<lparr>rs_policy := p, rs_trace := rs_trace st @ [Call step]\<rparr>))"

abbreviation run_deadline_exceeded :: "string option" where
  "run_deadline_exceeded \<equiv> Some ''RUN_DEADLINE_EXCEEDED''"

text \<open>The executor call and what follows it, up to the next round \<open>next_round\<close>.\<close>

definition run_tool ::
    "('b, 'p) run_env \<Rightarrow> agent_run_limits \<Rightarrow> rat \<Rightarrow> nat \<Rightarrow> loop_step \<Rightarrow> json
     \<Rightarrow> (json \<Rightarrow> ('b, 'p) run_state \<Rightarrow> ('b, 'p) run) \<Rightarrow> ('b, 'p) run_state \<Rightarrow> ('b, 'p) run" where
  "run_tool env limits deadline depth step observation next_round st =
     (let tool = audit_identifier (re_sha env) (ls_tool step) ''tool'';
          failed = (\<lambda>outcome reason. entry TOOL_EXECUTION_FAILED (Some outcome) (Some reason) (Some depth) [tool])
      in audit_then env (entry TOOL_EXECUTION_STARTED None None (Some depth) [tool]) st (\<lambda>st.
        (case start_call env depth step st of (result, st) \<Rightarrow>
          (case result of
             TimesOut \<Rightarrow>
               (case tick env st of (now, st) \<Rightarrow>
                 (let reason = (if deadline \<le> now then ''RUN_DEADLINE_EXCEEDED'' else ''TOOL_TIMEOUT'') in
                  audit_then env (failed ''timeout'' reason) st
                    (finish env (terminal limits ''TIMEOUT'' (Some reason) depth observation))))
           | Cancels \<Rightarrow>
               audit_then env (failed ''cancelled'' ''RUN_CANCELLED'') st (\<lambda>st.
                 (case finish env (terminal limits ''CANCELLED'' (Some ''RUN_CANCELLED'') depth observation) st of
                    (Outcome _, st) \<Rightarrow> (RunCancelled, st)
                  | other \<Rightarrow> other))
           | Raises \<Rightarrow>
               audit_then env (failed ''failed'' ''TOOL_FAILED'') st
                 (finish env (terminal limits ''FAILED'' (Some ''TOOL_FAILED'') depth observation))
           | Returns new \<Rightarrow>
               audit_then env (entry TOOL_EXECUTION_COMPLETED (Some ''completed'') None (Some depth) [tool]) st
                 (\<lambda>st. audit_then env (entry OBSERVATION_RECEIVED None None (Some (Suc depth))
                     [re_fingerprint env new]) st (next_round new))))))"

definition run_budgeted ::
    "('b, 'p) run_env \<Rightarrow> agent_run_limits \<Rightarrow> rat \<Rightarrow> nat \<Rightarrow> loop_step \<Rightarrow> json
     \<Rightarrow> (json \<Rightarrow> ('b, 'p) run_state \<Rightarrow> ('b, 'p) run) \<Rightarrow> ('b, 'p) run_state \<Rightarrow> ('b, 'p) run" where
  "run_budgeted env limits deadline depth step observation next_round st =
     (case re_consume env (rs_budget st) of (bd, budget) \<Rightarrow>
        (let reason = reason_code (bd_reason_code bd) in
         audit_then env (entry BUDGET_DECISION (Some (if bd_allowed bd then ''allowed'' else ''denied''))
             (Some reason) (Some depth) [str_int (bd_remaining_executions bd)]) (st\<lparr>rs_budget := budget\<rparr>)
           (\<lambda>st.
             if \<not> bd_allowed bd
             then finish env (terminal limits
                    (if reason = ''TIME_BUDGET_EXHAUSTED'' then ''TIMEOUT'' else ''BUDGET_EXHAUSTED'')
                    (Some reason) depth observation) st
             else (case tick env st of (now, st) \<Rightarrow>
               if deadline - now \<le> 0
               then finish env (terminal limits ''TIMEOUT'' run_deadline_exceeded depth JNull) st
               else run_tool env limits deadline depth step observation next_round st))))"

definition run_authorized ::
    "('b, 'p) run_env \<Rightarrow> agent_run_limits \<Rightarrow> rat \<Rightarrow> nat \<Rightarrow> loop_step \<Rightarrow> json
     \<Rightarrow> (json \<Rightarrow> ('b, 'p) run_state \<Rightarrow> ('b, 'p) run) \<Rightarrow> ('b, 'p) run_state \<Rightarrow> ('b, 'p) run" where
  "run_authorized env limits deadline depth step observation next_round st =
     (case invoke_authorize env deadline depth step st of (result, st) \<Rightarrow>
        (case result of
           TimesOut \<Rightarrow>
             audit_then env (entry AUTHORIZATION_DECISION (Some ''timeout'') run_deadline_exceeded (Some depth) []) st
               (finish env (terminal limits ''TIMEOUT'' run_deadline_exceeded depth JNull))
         | Raises \<Rightarrow>
             audit_then env (entry AUTHORIZATION_DECISION (Some ''failed'') (Some ''AUTHORIZATION_FAILED'') (Some depth) []) st
               (finish env (terminal limits ''FAILED'' (Some ''AUTHORIZATION_FAILED'') depth JNull))
         | Cancels \<Rightarrow> (RunCancelled, st)
         | Returns dn \<Rightarrow>
             (let reason = reason_code (dn_reason_code dn) in
              audit_then env (entry AUTHORIZATION_DECISION
                  (Some (if dn_allowed dn then ''allowed'' else ''denied'')) (Some reason) (Some depth) []) st
                (\<lambda>st. if \<not> dn_allowed dn
                      then finish env (terminal limits ''DENIED'' (Some reason) depth observation) st
                      else run_budgeted env limits deadline depth step observation next_round st))))"

definition run_round ::
    "('b, 'p) run_env \<Rightarrow> agent_run_limits \<Rightarrow> rat \<Rightarrow> nat \<Rightarrow> json
     \<Rightarrow> (json \<Rightarrow> ('b, 'p) run_state \<Rightarrow> ('b, 'p) run) \<Rightarrow> ('b, 'p) run_state \<Rightarrow> ('b, 'p) run" where
  "run_round env limits deadline depth observation next_round st =
     (case tick env st of (now, st) \<Rightarrow>
        if deadline \<le> now
        then finish env (terminal limits ''TIMEOUT'' run_deadline_exceeded depth JNull) st
        else (case invoke_planner env deadline depth observation st of (result, st) \<Rightarrow>
          (case result of
             TimesOut \<Rightarrow>
               audit_then env (entry PLANNER_DECISION (Some ''timeout'') run_deadline_exceeded (Some depth) []) st
                 (finish env (terminal limits ''TIMEOUT'' run_deadline_exceeded depth JNull))
           | Raises \<Rightarrow>
               audit_then env (entry PLANNER_DECISION (Some ''failed'') (Some ''PLANNER_FAILED'') (Some depth) []) st
                 (finish env (terminal limits ''FAILED'' (Some ''PLANNER_FAILED'') depth JNull))
           | Cancels \<Rightarrow> (RunCancelled, st)
           | Returns None \<Rightarrow>
               audit_then env (entry PLANNER_DECISION (Some ''complete'') None (Some depth) []) st
                 (finish env (terminal limits ''COMPLETE'' None depth observation))
           | Returns (Some step) \<Rightarrow>
               audit_then env (entry PLANNER_DECISION (Some ''selected'') None (Some depth) []) st
                 (\<lambda>st. audit_then env (entry TOOL_SELECTED None None (Some depth)
                     [audit_identifier (re_sha env) (ls_tool step) ''tool'',
                      audit_identifier (re_sha env) (ls_capability step) ''capability'']) st
                   (run_authorized env limits deadline depth step observation next_round)))))"

text \<open>The \<open>while\<close> loop: \<open>left\<close> rounds remain, that is, \<open>max_depth - depth\<close>.\<close>

fun run_rounds ::
    "('b, 'p) run_env \<Rightarrow> agent_run_limits \<Rightarrow> rat \<Rightarrow> nat \<Rightarrow> nat \<Rightarrow> json \<Rightarrow> ('b, 'p) run_state
     \<Rightarrow> ('b, 'p) run" where
  "run_rounds env limits deadline 0 depth observation st =
     finish env (terminal limits ''DEPTH_LIMIT_REACHED'' (Some ''MAX_DEPTH_REACHED'') depth observation) st"
| "run_rounds env limits deadline (Suc left) depth observation st =
     run_round env limits deadline depth observation
       (\<lambda>new st. run_rounds env limits deadline left (Suc depth) new st) st"

definition run_agent_loop_async ::
    "('b, 'p) run_env \<Rightarrow> agent_run_limits \<Rightarrow> ('b, 'p) run_state \<Rightarrow> ('b, 'p) run" where
  "run_agent_loop_async env limits st =
     (case tick env st of (started, st) \<Rightarrow>
        (let deadline = started + al_timeout_seconds limits in
         audit_then env (entry RUN_STARTED None None None []) st (\<lambda>st.
           if \<not> re_execute_is_async env
           then finish env (terminal limits ''DENIED'' (Some ''NON_CANCELLABLE_EXECUTOR'') 0 JNull) st
           else run_rounds env limits deadline (nat (al_max_depth limits)) 0 JNull st)))"

section \<open>The synchronous loop\<close>

definition plain_outcome :: "string \<Rightarrow> json \<Rightarrow> string option \<Rightarrow> nat \<Rightarrow> loop_outcome" where
  "plain_outcome st observation reason steps = \<lparr>lo_status = st, lo_observation = observation,
     lo_reason_code = reason, lo_steps = steps, lo_termination_context = None\<rparr>"

fun sync_rounds ::
    "(json \<Rightarrow> loop_step option) \<Rightarrow> (loop_step \<Rightarrow> decision) \<Rightarrow> ('b \<Rightarrow> budget_decision \<times> 'b)
     \<Rightarrow> (loop_step \<Rightarrow> json) \<Rightarrow> nat \<Rightarrow> nat \<Rightarrow> json \<Rightarrow> 'b \<Rightarrow> loop_step list
     \<Rightarrow> loop_outcome \<times> 'b \<times> loop_step list" where
  "sync_rounds planner authorize budget execute 0 n observation b called =
     (plain_outcome ''STEP_LIMIT_REACHED'' observation (Some ''MAX_STEPS_REACHED'') n, b, called)"
| "sync_rounds planner authorize budget execute (Suc left) n observation b called =
     (case planner observation of
        None \<Rightarrow> (plain_outcome ''COMPLETE'' observation None n, b, called)
      | Some step \<Rightarrow>
          (let dn = authorize step in
           if \<not> dn_allowed dn
           then (plain_outcome ''DENIED'' observation (Some (dn_reason_code dn)) (Suc n), b, called)
           else (case budget b of (bd, b') \<Rightarrow>
             if \<not> bd_allowed bd
             then (plain_outcome ''BUDGET_EXHAUSTED'' observation (Some (bd_reason_code bd)) (Suc n), b', called)
             else sync_rounds planner authorize budget execute left (Suc n) (execute step) b'
                    (called @ [step]))))"

definition run_agent_loop ::
    "(json \<Rightarrow> loop_step option) \<Rightarrow> (loop_step \<Rightarrow> decision) \<Rightarrow> ('b \<Rightarrow> budget_decision \<times> 'b)
     \<Rightarrow> (loop_step \<Rightarrow> json) \<Rightarrow> int \<Rightarrow> 'b \<Rightarrow> loop_outcome \<times> 'b \<times> loop_step list" where
  "run_agent_loop planner authorize budget execute max_steps b =
     (if max_steps < 1 then (plain_outcome ''DENIED'' JNull (Some ''INVALID_MAX_STEPS'') 0, b, [])
      else sync_rounds planner authorize budget execute (nat max_steps) 0 JNull b [])"

section \<open>Traces\<close>

fun rows_of :: "trace_item list \<Rightarrow> audit_row list" where
  "rows_of [] = []"
| "rows_of (Row r # t) = r # rows_of t"
| "rows_of (Call s # t) = rows_of t"

fun calls_of :: "trace_item list \<Rightarrow> loop_step list" where
  "calls_of [] = []"
| "calls_of (Row r # t) = calls_of t"
| "calls_of (Call s # t) = s # calls_of t"

lemma rows_of_append [simp]: "rows_of (t @ u) = rows_of t @ rows_of u"
  by (induction t rule: rows_of.induct) simp_all

lemma calls_of_append [simp]: "calls_of (t @ u) = calls_of t @ calls_of u"
  by (induction t rule: calls_of.induct) simp_all

definition is_row :: "event_type \<Rightarrow> string option \<Rightarrow> nat \<Rightarrow> trace_item \<Rightarrow> bool" where
  "is_row t out d it \<longleftrightarrow> (\<exists>r. it = Row r \<and> ar_event_type r = t \<and> ar_outcome r = out \<and> ar_depth r = Some d)"

text \<open>The evidence that must be durable right before a call is started.\<close>

definition cleared :: "trace_item list \<Rightarrow> bool" where
  "cleared tr \<longleftrightarrow> (\<exists>pre a b c e d. tr = pre @ [a, b, c, e]
     \<and> is_row PLANNER_DECISION (Some ''selected'') d a \<and> is_row TOOL_SELECTED None d b
     \<and> is_row AUTHORIZATION_DECISION (Some ''allowed'') d c \<and> is_row BUDGET_DECISION (Some ''allowed'') d e)"

definition launched :: "trace_item list \<Rightarrow> bool" where
  "launched tr \<longleftrightarrow> (\<exists>pre a d. tr = pre @ [a] \<and> cleared pre \<and> is_row TOOL_EXECUTION_STARTED None d a)"

definition covered :: "trace_item list \<Rightarrow> bool" where
  "covered tr \<longleftrightarrow> (\<forall>pre s post. tr = pre @ Call s # post \<longrightarrow> launched pre)"

lemma covered_Nil [simp]: "covered []"
  by (simp add: covered_def)

lemma covered_row [simp]: "covered (tr @ [Row r]) = covered tr"
proof -
  have "tr @ [Row r] = pre @ Call s # post \<longleftrightarrow> (\<exists>post'. post = post' @ [Row r] \<and> tr = pre @ Call s # post')"
    for pre s post by (cases post rule: rev_cases) auto
  then show ?thesis by (auto simp: covered_def)
qed

lemma covered_call [simp]: "covered (tr @ [Call s]) \<longleftrightarrow> covered tr \<and> launched tr"
proof -
  have "tr @ [Call s] = pre @ Call u # post
      \<longleftrightarrow> (post = [] \<and> pre = tr \<and> u = s) \<or> (\<exists>post'. post = post' @ [Call s] \<and> tr = pre @ Call u # post')"
    for pre u post by (cases post rule: rev_cases) auto
  then show ?thesis by (auto simp: covered_def)
qed

definition trace_inv :: "('b, 'p) run_state \<Rightarrow> bool" where
  "trace_inv st \<longleftrightarrow> covered (rs_trace st)
     \<and> map ar_sequence (rows_of (rs_trace st)) = [1..<Suc (rs_sequence st)]"

abbreviation ncalls :: "('b, 'p) run_state \<Rightarrow> nat" where
  "ncalls st \<equiv> length (calls_of (rs_trace st))"

definition terminated_by :: "loop_outcome \<Rightarrow> trace_item list \<Rightarrow> bool" where
  "terminated_by out tr \<longleftrightarrow> (\<exists>pre r. tr = pre @ [Row r] \<and> ar_event_type r = RUN_TERMINATED
     \<and> ar_outcome r = machine_option ''outcome'' (Some (lo_status out))
     \<and> ar_reason_code r = machine_option ''reason'' (lo_reason_code out))"

section \<open>An invariant rule for runs\<close>

text \<open>
  What a property of runs has to show: \<open>idle c b p\<close> holds between rounds, with \<open>c\<close> calls started, the
  budget \<open>b\<close> and the policy state \<open>p\<close>; \<open>paid\<close> holds between a granted budget decision and the call.
\<close>

locale loop_invariant =
  fixes env :: "('b, 'p) run_env"
    and idle :: "nat \<Rightarrow> 'b \<Rightarrow> 'p \<Rightarrow> bool"
    and paid :: "nat \<Rightarrow> 'b \<Rightarrow> 'p \<Rightarrow> bool"
  assumes authorize_keeps: "idle c b p \<Longrightarrow> re_authorize env d step p = (r, p') \<Longrightarrow> idle c b p'"
    and granted: "idle c b p \<Longrightarrow> re_consume env b = (bd, b') \<Longrightarrow> bd_allowed bd \<Longrightarrow> paid c b' p"
    and denied: "idle c b p \<Longrightarrow> re_consume env b = (bd, b') \<Longrightarrow> \<not> bd_allowed bd \<Longrightarrow> idle c b' p"
    and call_keeps: "paid c b p \<Longrightarrow> re_execute env d step p = (x, p') \<Longrightarrow> idle (Suc c) b p'"
    and paid_idle: "paid c b p \<Longrightarrow> idle c b p"
begin

definition holds :: "(nat \<Rightarrow> 'b \<Rightarrow> 'p \<Rightarrow> bool) \<Rightarrow> nat \<Rightarrow> ('b, 'p) run_state \<Rightarrow> bool" where
  "holds J n st \<longleftrightarrow> trace_inv st \<and> ncalls st \<le> n \<and> J (ncalls st) (rs_budget st) (rs_policy st)"

definition ends :: "nat \<Rightarrow> ('b, 'p) run \<Rightarrow> bool" where
  "ends n m \<longleftrightarrow> holds idle n (snd m) \<and> (\<forall>out. fst m = Outcome out \<longrightarrow> terminated_by out (rs_trace (snd m)))"

lemma holds_tick: "tick env st = (now, st') \<Longrightarrow> holds J n st' = holds J n st \<and> rs_trace st' = rs_trace st"
  by (auto simp: tick_def holds_def trace_inv_def)

lemma holds_weaken: "holds paid n st \<Longrightarrow> holds idle n st"
  by (simp add: holds_def paid_idle)

lemma holds_mono: "holds J n st \<Longrightarrow> n \<le> m \<Longrightarrow> holds J m st"
  by (simp add: holds_def)

lemma ends_audit_then:
  assumes "holds J n st" and "J = idle \<or> J = paid" and "n \<le> m"
    and "\<And>st'. holds J n st' \<Longrightarrow> rs_trace st' = rs_trace st @ [Row (audit_row_of (rs_sequence st + 1) en)]
           \<Longrightarrow> ends m (k st')"
  shows "ends m (audit_then env en st k)"
proof (cases "re_commit_fails env (rs_commits st)")
  case True
  have "holds idle m st" using assms(1-3) holds_weaken holds_mono by blast
  with True show ?thesis by (simp add: audit_then_def ends_def holds_def trace_inv_def)
next
  case False
  let ?st = "st\<lparr>rs_commits := rs_commits st + 1, rs_sequence := rs_sequence st + 1,
                 rs_trace := rs_trace st @ [Row (audit_row_of (rs_sequence st + 1) en)]\<rparr>"
  have "holds J n ?st" using assms(1) by (simp add: holds_def trace_inv_def audit_row_of_def)
  then have "ends m (k ?st)" by (rule assms(4)) simp
  with False show ?thesis by (simp add: audit_then_def)
qed

lemma ends_finish:
  assumes "holds idle n st"
  shows "ends n (finish env out st)"
  unfolding finish_def
  by (rule ends_audit_then [OF assms disjI1 [OF refl] order.refl])
    (auto simp: ends_def terminated_by_def audit_row_of_def entry_def)

lemmas ends_audit_idle = ends_audit_then [OF _ disjI1 [OF refl]]
lemmas ends_audit_paid = ends_audit_then [OF _ disjI2 [OF refl]]

lemma ends_run_tool:
  assumes "holds paid n st" and "cleared (rs_trace st)"
    and next_ok: "\<And>new st'. holds idle (Suc n) st' \<Longrightarrow> ends m (next_round new st')" and "Suc n \<le> m"
  shows "ends m (run_tool env limits deadline depth step observation next_round st)"
  unfolding run_tool_def Let_def
proof (rule ends_audit_paid [OF assms(1)])
  show "n \<le> m" using assms(4) by simp
next
  fix st1
  assume st1: "holds paid n st1"
    and tr: "rs_trace st1 = rs_trace st @ [Row (audit_row_of (rs_sequence st + 1)
      (entry TOOL_EXECUTION_STARTED None None (Some depth) [audit_identifier (re_sha env) (ls_tool step) ''tool'']))]"
  have launched: "launched (rs_trace st1)"
    unfolding launched_def tr using assms(2)
    by (intro exI [of _ "rs_trace st"]) (auto simp: is_row_def audit_row_of_def entry_def machine_option_def)
  obtain r st2 where call: "start_call env depth step st1 = (r, st2)" by fastforce
  have st2: "holds idle (Suc n) st2"
    using call launched st1 call_keeps
    by (auto simp: start_call_def holds_def trace_inv_def split: prod.splits)
  then have st2m: "holds idle m st2" using assms(4) by (auto intro: holds_mono)
  show "ends m (case start_call env depth step st1 of (result, st) \<Rightarrow> (case result of
      Returns new \<Rightarrow> audit_then env (entry TOOL_EXECUTION_COMPLETED (Some ''completed'') None (Some depth)
            [audit_identifier (re_sha env) (ls_tool step) ''tool'']) st
          (\<lambda>st. audit_then env (entry OBSERVATION_RECEIVED None None (Some (Suc depth)) [re_fingerprint env new])
                 st (next_round new))
    | Raises \<Rightarrow> audit_then env (entry TOOL_EXECUTION_FAILED (Some ''failed'') (Some ''TOOL_FAILED'') (Some depth)
            [audit_identifier (re_sha env) (ls_tool step) ''tool'']) st
          (finish env (terminal limits ''FAILED'' (Some ''TOOL_FAILED'') depth observation))
    | TimesOut \<Rightarrow> (case tick env st of (now, st) \<Rightarrow>
          audit_then env (entry TOOL_EXECUTION_FAILED (Some ''timeout'')
              (Some (if deadline \<le> now then ''RUN_DEADLINE_EXCEEDED'' else ''TOOL_TIMEOUT'')) (Some depth)
              [audit_identifier (re_sha env) (ls_tool step) ''tool'']) st
            (finish env (terminal limits ''TIMEOUT''
              (Some (if deadline \<le> now then ''RUN_DEADLINE_EXCEEDED'' else ''TOOL_TIMEOUT'')) depth observation)))
    | Cancels \<Rightarrow> audit_then env (entry TOOL_EXECUTION_FAILED (Some ''cancelled'') (Some ''RUN_CANCELLED'') (Some depth)
            [audit_identifier (re_sha env) (ls_tool step) ''tool'']) st
          (\<lambda>st. case finish env (terminal limits ''CANCELLED'' (Some ''RUN_CANCELLED'') depth observation) st of
               (Outcome _, st) \<Rightarrow> (RunCancelled, st) | other \<Rightarrow> other)))"
    (is "ends m ?run")
  proof (cases r)
    case (Returns new)
    have "ends m (audit_then env (entry TOOL_EXECUTION_COMPLETED (Some ''completed'') None (Some depth)
            [audit_identifier (re_sha env) (ls_tool step) ''tool'']) st2
          (\<lambda>st. audit_then env (entry OBSERVATION_RECEIVED None None (Some (Suc depth)) [re_fingerprint env new])
                 st (next_round new)))"
      using assms(4) by (intro ends_audit_idle [OF st2] ends_audit_idle next_ok) auto
    then show ?thesis by (simp add: call Returns)
  next
    case Raises
    then show ?thesis by (simp add: call) (intro ends_audit_idle [OF st2m order.refl] ends_finish)
  next
    case TimesOut
    obtain now st3 where t: "tick env st2 = (now, st3)" by fastforce
    then have "holds idle m st3" using st2m holds_tick by blast
    then show ?thesis by (simp add: call TimesOut t) (intro conjI impI ends_audit_idle [OF _ order.refl] ends_finish; assumption)
  next
    case Cancels
    have "ends m (audit_then env (entry TOOL_EXECUTION_FAILED (Some ''cancelled'') (Some ''RUN_CANCELLED'') (Some depth)
            [audit_identifier (re_sha env) (ls_tool step) ''tool'']) st2
          (\<lambda>st. case finish env (terminal limits ''CANCELLED'' (Some ''RUN_CANCELLED'') depth observation) st of
               (Outcome _, st) \<Rightarrow> (RunCancelled, st) | other \<Rightarrow> other))"
    proof (rule ends_audit_idle [OF st2m order.refl])
      fix st4 assume "holds idle m st4"
      then have "ends m (finish env (terminal limits ''CANCELLED'' (Some ''RUN_CANCELLED'') depth observation) st4)"
        by (rule ends_finish)
      then show "ends m (case finish env (terminal limits ''CANCELLED'' (Some ''RUN_CANCELLED'') depth observation) st4 of
               (Outcome _, st) \<Rightarrow> (RunCancelled, st) | other \<Rightarrow> other)"
        by (auto simp: ends_def split: prod.splits run_result.splits)
    qed
    then show ?thesis by (simp add: call Cancels)
  qed
qed

definition selected :: "trace_item list \<Rightarrow> nat \<Rightarrow> bool" where
  "selected tr d \<longleftrightarrow> (\<exists>pre a b. tr = pre @ [a, b]
     \<and> is_row PLANNER_DECISION (Some ''selected'') d a \<and> is_row TOOL_SELECTED None d b)"

definition allowed :: "trace_item list \<Rightarrow> nat \<Rightarrow> bool" where
  "allowed tr d \<longleftrightarrow> (\<exists>pre c. tr = pre @ [c] \<and> selected pre d
     \<and> is_row AUTHORIZATION_DECISION (Some ''allowed'') d c)"

lemma is_row_entry:
  "is_row t (machine_option ''outcome'' out) d (Row (audit_row_of n (entry t out reason (Some d) subject)))"
  by (simp add: is_row_def audit_row_of_def entry_def)

lemma machine_words:
  "machine_option ''outcome'' (Some ''selected'') = Some ''selected''"
  "machine_option ''outcome'' (Some ''allowed'') = Some ''allowed''"
  "machine_option ''outcome'' None = None"
  by (simp_all add: machine_option_def machine_value_def machine_char_def Let_def)

lemma cleared_granted:
  assumes "allowed tr d"
  shows "cleared (tr @ [Row (audit_row_of n (entry BUDGET_DECISION (Some ''allowed'') reason (Some d) subject))])"
proof -
  obtain pre a b c where "tr = pre @ [a, b] @ [c]" "is_row PLANNER_DECISION (Some ''selected'') d a"
    "is_row TOOL_SELECTED None d b" "is_row AUTHORIZATION_DECISION (Some ''allowed'') d c"
    using assms by (auto simp: allowed_def selected_def)
  moreover let ?x = "Row (audit_row_of n (entry BUDGET_DECISION (Some ''allowed'') reason (Some d) subject))"
  have "is_row BUDGET_DECISION (Some ''allowed'') d ?x"
    using is_row_entry [of BUDGET_DECISION "Some ''allowed''" d n reason subject]
    unfolding machine_words .
  moreover have "tr @ [?x] = pre @ [a, b, c, ?x]" using calculation(1) by simp
  ultimately show ?thesis unfolding cleared_def by blast
qed

lemma ends_run_budgeted:
  assumes "holds idle n st" and "allowed (rs_trace st) depth"
    and next_ok: "\<And>new st'. holds idle (Suc n) st' \<Longrightarrow> ends m (next_round new st')" and "Suc n \<le> m"
  shows "ends m (run_budgeted env limits deadline depth step observation next_round st)"
proof -
  obtain bd b' where c: "re_consume env (rs_budget st) = (bd, b')" by fastforce
  let ?st = "st\<lparr>rs_budget := b'\<rparr>"
  have nm: "n \<le> m" using assms(4) by simp
  show ?thesis
  proof (cases "bd_allowed bd")
    case False
    then have "holds idle n ?st" using assms(1) denied [OF _ c] by (auto simp: holds_def trace_inv_def)
    then have "ends m (audit_then env (entry BUDGET_DECISION (Some ''denied'')
        (Some (reason_code (bd_reason_code bd))) (Some depth) [str_int (bd_remaining_executions bd)]) ?st
        (finish env (terminal limits (if reason_code (bd_reason_code bd) = ''TIME_BUDGET_EXHAUSTED''
            then ''TIMEOUT'' else ''BUDGET_EXHAUSTED'')
          (Some (reason_code (bd_reason_code bd))) depth observation)))"
      by (rule ends_audit_idle [OF _ nm]) (intro ends_finish holds_mono [OF _ nm])
    then show ?thesis using False by (simp add: run_budgeted_def c Let_def)
  next
    case True
    then have paid: "holds paid n ?st" using assms(1) granted [OF _ c] by (auto simp: holds_def trace_inv_def)
    have "ends m (audit_then env (entry BUDGET_DECISION (Some ''allowed'')
        (Some (reason_code (bd_reason_code bd))) (Some depth) [str_int (bd_remaining_executions bd)]) ?st
        (\<lambda>st. case tick env st of (now, st) \<Rightarrow>
           if deadline - now \<le> 0
           then finish env (terminal limits ''TIMEOUT'' run_deadline_exceeded depth JNull) st
           else run_tool env limits deadline depth step observation next_round st))"
    proof (rule ends_audit_paid [OF paid nm])
      fix st1 assume st1: "holds paid n st1" and tr: "rs_trace st1 = rs_trace ?st @ [Row (audit_row_of
          (rs_sequence ?st + 1) (entry BUDGET_DECISION (Some ''allowed'')
          (Some (reason_code (bd_reason_code bd))) (Some depth) [str_int (bd_remaining_executions bd)]))]"
      obtain now st2 where t: "tick env st1 = (now, st2)" by fastforce
      have st2: "holds paid n st2" "rs_trace st2 = rs_trace st1" using holds_tick [OF t] st1 by auto
      have cl: "cleared (rs_trace st2)"
        using cleared_granted [OF assms(2)] by (simp add: st2(2) tr)
      show "ends m (case tick env st1 of (now, st) \<Rightarrow>
           if deadline - now \<le> 0
           then finish env (terminal limits ''TIMEOUT'' run_deadline_exceeded depth JNull) st
           else run_tool env limits deadline depth step observation next_round st)"
        using ends_finish [OF holds_mono [OF holds_weaken [OF st2(1)] nm]]
          ends_run_tool [OF st2(1) cl next_ok assms(4)]
        by (simp add: t)
    qed
    then show ?thesis using True by (simp add: run_budgeted_def c Let_def)
  qed
qed

lemma ends_run_authorized:
  assumes "holds idle n st" and "selected (rs_trace st) depth"
    and next_ok: "\<And>new st'. holds idle (Suc n) st' \<Longrightarrow> ends m (next_round new st')" and "Suc n \<le> m"
  shows "ends m (run_authorized env limits deadline depth step observation next_round st)"
proof -
  have nm: "n \<le> m" using assms(4) by simp
  obtain r st1 where i: "invoke_authorize env deadline depth step st = (r, st1)" by fastforce
  have st1: "holds idle n st1" "rs_trace st1 = rs_trace st"
    using i assms(1) authorize_keeps
    by (auto simp: invoke_authorize_def tick_def holds_def trace_inv_def split: if_splits prod.splits)
  have fin: "ends m (audit_then env en st1 (finish env out))" for en out
    by (rule ends_audit_idle [OF st1(1) nm]) (intro ends_finish holds_mono [OF _ nm])
  show ?thesis
  proof (cases r)
    case (Returns dn)
    show ?thesis
    proof (cases "dn_allowed dn")
      case False
      then show ?thesis using fin by (simp add: run_authorized_def i Returns Let_def)
    next
      case True
      have "ends m (audit_then env (entry AUTHORIZATION_DECISION (Some ''allowed'')
          (Some (reason_code (dn_reason_code dn))) (Some depth) []) st1
          (run_budgeted env limits deadline depth step observation next_round))"
      proof (rule ends_audit_idle [OF st1(1) nm])
        fix st2 assume st2: "holds idle n st2" and tr: "rs_trace st2 = rs_trace st1 @ [Row (audit_row_of
            (rs_sequence st1 + 1) (entry AUTHORIZATION_DECISION (Some ''allowed'')
            (Some (reason_code (dn_reason_code dn))) (Some depth) []))]"
        have "allowed (rs_trace st2) depth"
          using assms(2) is_row_entry [of AUTHORIZATION_DECISION "Some ''allowed''" depth] st1(2)
          by (auto simp: allowed_def tr machine_words)
        from ends_run_budgeted [OF st2 this next_ok assms(4)]
        show "ends m (run_budgeted env limits deadline depth step observation next_round st2)" .
      qed
      with True show ?thesis by (simp add: run_authorized_def i Returns Let_def)
    qed
  next
    case Raises
    then show ?thesis using fin by (simp add: run_authorized_def i)
  next
    case TimesOut
    then show ?thesis using fin by (simp add: run_authorized_def i)
  next
    case Cancels
    then show ?thesis using holds_mono [OF st1(1) nm] by (simp add: run_authorized_def i ends_def)
  qed
qed

lemma ends_run_round:
  assumes "holds idle n st"
    and next_ok: "\<And>new st'. holds idle (Suc n) st' \<Longrightarrow> ends m (next_round new st')" and "Suc n \<le> m"
  shows "ends m (run_round env limits deadline depth observation next_round st)"
proof -
  have nm: "n \<le> m" using assms(3) by simp
  obtain now st0 where t: "tick env st = (now, st0)" by fastforce
  have st0: "holds idle n st0" using holds_tick [OF t] assms(1) by blast
  obtain r st1 where i: "invoke_planner env deadline depth observation st0 = (r, st1)" by fastforce
  have st1: "holds idle n st1"
    using i st0 by (auto simp: invoke_planner_def tick_def holds_def trace_inv_def)
  have fin: "ends m (audit_then env en st1 (finish env out))" for en out
    by (rule ends_audit_idle [OF st1 nm]) (intro ends_finish holds_mono [OF _ nm])
  have early: "ends m (finish env out st0)" for out
    by (intro ends_finish holds_mono [OF st0 nm])
  show ?thesis
  proof (cases r)
    case (Returns choice)
    show ?thesis
    proof (cases choice)
      case None
      then show ?thesis using fin early by (simp add: run_round_def t i Returns)
    next
      case (Some step)
      let ?sel = "entry PLANNER_DECISION (Some ''selected'') None (Some depth) []"
      let ?tool = "entry TOOL_SELECTED None None (Some depth)
          [audit_identifier (re_sha env) (ls_tool step) ''tool'',
           audit_identifier (re_sha env) (ls_capability step) ''capability'']"
      have "ends m (audit_then env ?sel st1 (\<lambda>st. audit_then env ?tool st
              (run_authorized env limits deadline depth step observation next_round)))"
      proof (rule ends_audit_idle [OF st1 nm])
        fix st2 assume st2: "holds idle n st2"
          and tr2: "rs_trace st2 = rs_trace st1 @ [Row (audit_row_of (rs_sequence st1 + 1) ?sel)]"
        show "ends m (audit_then env ?tool st2
              (run_authorized env limits deadline depth step observation next_round))"
        proof (rule ends_audit_idle [OF st2 nm])
          fix st3 assume st3: "holds idle n st3"
            and tr3: "rs_trace st3 = rs_trace st2 @ [Row (audit_row_of (rs_sequence st2 + 1) ?tool)]"
          have "selected (rs_trace st3) depth"
            using is_row_entry [of PLANNER_DECISION "Some ''selected''" depth "rs_sequence st1 + 1" None "[]"]
              is_row_entry [of TOOL_SELECTED None depth]
            unfolding selected_def tr3 tr2 machine_words
            by (intro exI [of _ "rs_trace st1"]) auto
          from ends_run_authorized [OF st3 this next_ok assms(3)]
          show "ends m (run_authorized env limits deadline depth step observation next_round st3)" .
        qed
      qed
      then show ?thesis using early by (simp add: run_round_def t i Returns Some)
    qed
  next
    case Raises
    then show ?thesis using fin early by (simp add: run_round_def t i)
  next
    case TimesOut
    then show ?thesis using fin early by (simp add: run_round_def t i)
  next
    case Cancels
    then show ?thesis using early holds_mono [OF st1 nm] by (simp add: run_round_def t i ends_def)
  qed
qed

lemma ends_run_rounds:
  "holds idle n st \<Longrightarrow> ends (n + left) (run_rounds env limits deadline left depth observation st)"
proof (induction left arbitrary: n depth observation st)
  case 0
  then show ?case by (simp add: ends_finish)
next
  case (Suc left)
  have "ends (n + Suc left) (run_round env limits deadline depth observation
      (\<lambda>new st. run_rounds env limits deadline left (Suc depth) new st) st)"
  proof (rule ends_run_round [OF Suc.prems])
    show "ends (n + Suc left) (run_rounds env limits deadline left (Suc depth) new st')"
      if "holds idle (Suc n) st'" for new st' using Suc.IH [OF that] by simp
  qed simp
  then show ?case by simp
qed

text \<open>The rule itself: a run that starts with an empty trace.\<close>

lemma run_invariant:
  assumes "rs_trace st = []" and "rs_sequence st = 0" and "idle 0 (rs_budget st) (rs_policy st)"
  shows "ends (nat (al_max_depth limits)) (run_agent_loop_async env limits st)"
proof -
  have h: "holds idle 0 st" using assms by (simp add: holds_def trace_inv_def)
  obtain now st1 where t: "tick env st = (now, st1)" by fastforce
  then have st1: "holds idle 0 st1" using h holds_tick by blast
  show ?thesis
    unfolding run_agent_loop_async_def t Let_def prod.case
  proof (rule ends_audit_idle [OF st1])
    fix st2 assume st2: "holds idle 0 st2"
    show "ends (nat (al_max_depth limits)) (if \<not> re_execute_is_async env
        then finish env (terminal limits ''DENIED'' (Some ''NON_CANCELLABLE_EXECUTOR'') 0 JNull) st2
        else run_rounds env limits (now + al_timeout_seconds limits) (nat (al_max_depth limits)) 0 JNull st2)"
      using ends_finish [OF holds_mono [OF st2]] ends_run_rounds [OF st2] by auto
  qed simp
qed

end

text \<open>The contract of a budget: a granted execution is paid from what remains, a refusal costs nothing.\<close>

locale budget_contract =
  fixes spend :: "'b \<Rightarrow> budget_decision \<times> 'b"
    and remaining :: "'b \<Rightarrow> int"
  assumes spend_granted: "spend b = (bd, b') \<Longrightarrow> bd_allowed bd \<Longrightarrow> 0 < remaining b \<and> remaining b' = remaining b - 1"
    and spend_denied: "spend b = (bd, b') \<Longrightarrow> \<not> bd_allowed bd \<Longrightarrow> remaining b' = remaining b"
begin

definition affordable :: "int \<Rightarrow> int \<Rightarrow> nat \<Rightarrow> 'b \<Rightarrow> 'p \<Rightarrow> bool" where
  "affordable extra cap c b p \<longleftrightarrow> int c + extra + remaining b \<le> cap \<and> (0 \<le> cap \<longrightarrow> 0 \<le> remaining b)"

end

sublocale budget_contract \<subseteq> metered: loop_invariant "env\<lparr>re_consume := spend\<rparr>"
    "affordable 0 cap" "affordable 1 cap" for env cap
  by unfold_locales (auto simp: affordable_def dest: spend_granted spend_denied)

interpretation execution: budget_contract consume eb_remaining
  by unfold_locales (auto simp: consume_def Let_def split: if_splits)

interpretation any_run: loop_invariant env "\<lambda>_ _ _. True" "\<lambda>_ _ _. True" for env
  by unfold_locales auto

lemma sync_rounds_governed:
  assumes "sync_rounds planner authorize consume execute left n observation b called = (out, b', called')"
  shows "\<exists>new. called' = called @ new \<and> (\<forall>s \<in> set new. dn_allowed (authorize s))
    \<and> length new \<le> left \<and> int (length new) + eb_remaining b' = eb_remaining b"
  using assms
proof (induction left arbitrary: n observation b called)
  case (Suc left)
  show ?case
  proof (cases "planner observation")
    case (Some step)
    obtain bd b1 where c: "consume b = (bd, b1)" by fastforce
    show ?thesis
    proof (cases "dn_allowed (authorize step) \<and> bd_allowed bd")
      case True
      then have rest: "sync_rounds planner authorize consume execute left (Suc n) (execute step) b1 (called @ [step])
          = (out, b', called')" using Suc.prems Some c by (simp add: Let_def)
      from Suc.IH [OF rest] obtain new where "called' = (called @ [step]) @ new"
        "\<forall>s \<in> set new. dn_allowed (authorize s)" "length new \<le> left"
        "int (length new) + eb_remaining b' = eb_remaining b1" by blast
      moreover have "eb_remaining b1 = eb_remaining b - 1" using execution.spend_granted [OF c] True by simp
      ultimately show ?thesis using True by (intro exI [of _ "step # new"]) auto
    next
      case False
      have "dn_allowed (authorize step) \<Longrightarrow> eb_remaining b1 = eb_remaining b"
        using execution.spend_denied [OF c] False by simp
      then show ?thesis using Suc.prems Some c False
        by (intro exI [of _ "[]"]) (auto simp: Let_def split: if_splits)
    qed
  qed (use Suc.prems in simp)
qed simp

section \<open>Properties\<close>

definition fresh_run :: "'b \<Rightarrow> 'p \<Rightarrow> ('b, 'p) run_state" where
  "fresh_run b p = \<lparr>rs_reads = 0, rs_commits = 0, rs_sequence = 0, rs_trace = [], rs_budget = b, rs_policy = p\<rparr>"

text \<open>C16: A run is bounded.  Whatever the planner, the policy, the executor, the clock and the audit store
  do, a run starts at most \<open>max_depth\<close> executor calls, and never more than its budget grants: the calls
  started and what remains of the budget never exceed what it held at the start.\<close>

theorem agent_run_bounded:
  assumes "0 \<le> eb_remaining b"
  shows "(case run_agent_loop_async (env\<lparr>re_consume := consume\<rparr>) limits (fresh_run b p) of (r, st) \<Rightarrow>
    length (calls_of (rs_trace st)) \<le> nat (al_max_depth limits)
    \<and> int (length (calls_of (rs_trace st))) + eb_remaining (rs_budget st) \<le> eb_remaining b
    \<and> 0 \<le> eb_remaining (rs_budget st))"
proof -
  let ?run = "run_agent_loop_async (env\<lparr>re_consume := consume\<rparr>) limits (fresh_run b p)"
  have "execution.metered.ends (eb_remaining b) (nat (al_max_depth limits)) ?run"
    by (rule execution.metered.run_invariant)
      (simp_all add: fresh_run_def execution.affordable_def assms)
  then show ?thesis
    using assms
    by (auto simp: execution.metered.ends_def execution.metered.holds_def execution.affordable_def
        split: prod.split)
qed

text \<open>C17: Every executor call is authorized and evidenced first.  In the trace of any run, right before a
  call stand the durable audit rows of the same depth that say the planner selected the tool, the
  policy allowed it, the budget granted it and the execution started; the rows of the run are numbered
  from one without a gap; and an outcome is only returned with the row that records this very
  termination as the last one.  A call whose evidence could not be stored is never made.\<close>

theorem agent_calls_evidenced:
  assumes "run_agent_loop_async env limits (fresh_run b p) = (r, st)"
  shows "(rs_trace st = pre @ Call s # post \<longrightarrow> launched pre)
    \<and> map ar_sequence (rows_of (rs_trace st)) = [1..<Suc (rs_sequence st)]
    \<and> (r = Outcome out \<longrightarrow> terminated_by out (rs_trace st))"
proof -
  have "any_run.ends (nat (al_max_depth limits)) (run_agent_loop_async env limits (fresh_run b p))"
    by (rule any_run.run_invariant) (simp_all add: fresh_run_def)
  then show ?thesis
    using assms by (auto simp: any_run.ends_def any_run.holds_def trace_inv_def covered_def)
qed

definition sample_step :: loop_step where
  "sample_step = \<lparr>ls_ident = 0, ls_tool = ''search'', ls_capability = ''web.read'', ls_arguments = JObj []\<rparr>"

definition sample_budget :: execution_budget where
  "sample_budget = \<lparr>eb_remaining = 3, eb_deadline = 100, eb_clock = (\<lambda>n. of_nat n), eb_reads = 1\<rparr>"

definition sample_env :: "(execution_budget, unit) run_env" where
  "sample_env = \<lparr>re_clock = (\<lambda>n. of_nat n), re_commit_fails = (\<lambda>_. False), re_sha = (\<lambda>s. s),
     re_fingerprint = (\<lambda>_. ''f''),
     re_planner = (\<lambda>d _. Returns (if d = 0 then Some sample_step else None)),
     re_authorize = (\<lambda>_ _ p. (Returns \<lparr>dn_allowed = True, dn_reason_code = ''AUTHORIZED''\<rparr>, p)),
     re_consume = consume, re_execute = (\<lambda>_ _ p. (Returns (JInt 1), p)), re_execute_is_async = True\<rparr>"

definition sample_limits :: agent_run_limits where
  "sample_limits = \<lparr>al_max_depth = 2, al_timeout_seconds = 60, al_tool_timeout_seconds = 10\<rparr>"

definition sample_agent_run :: "(execution_budget, unit) run" where
  "sample_agent_run = run_agent_loop_async sample_env sample_limits (fresh_run sample_budget ())"

theorem agent_run_bounded_witness:
  "case run_agent_loop_async (sample_env\<lparr>re_consume := consume\<rparr>) sample_limits (fresh_run sample_budget ()) of
    (r, st) \<Rightarrow>
    length (calls_of (rs_trace st)) \<le> nat (al_max_depth sample_limits)
    \<and> int (length (calls_of (rs_trace st))) + eb_remaining (rs_budget st) \<le> eb_remaining sample_budget
    \<and> 0 \<le> eb_remaining (rs_budget st)"
  by (rule agent_run_bounded) (simp add: sample_budget_def)

lemma sample_run_calls:
  "map ar_event_type (rows_of (rs_trace (snd sample_agent_run)))
     = [RUN_STARTED, PLANNER_DECISION, TOOL_SELECTED, AUTHORIZATION_DECISION, BUDGET_DECISION,
        TOOL_EXECUTION_STARTED, TOOL_EXECUTION_COMPLETED, OBSERVATION_RECEIVED, PLANNER_DECISION,
        RUN_TERMINATED]
   \<and> calls_of (rs_trace (snd sample_agent_run)) = [sample_step]"
  by code_simp

theorem agent_calls_evidenced_witness:
  "(\<exists>pre post. rs_trace (snd sample_agent_run) = pre @ Call sample_step # post \<and> launched pre)
   \<and> map ar_sequence (rows_of (rs_trace (snd sample_agent_run))) = [1..<Suc (rs_sequence (snd sample_agent_run))]"
proof -
  have run: "run_agent_loop_async sample_env sample_limits (fresh_run sample_budget ())
      = (fst sample_agent_run, snd sample_agent_run)" by (simp add: sample_agent_run_def)
  have split: "calls_of t = [x] \<Longrightarrow> \<exists>pre post. t = pre @ Call x # post" for t x
  proof (induction t rule: calls_of.induct)
    case (2 r t)
    then obtain pre post where "t = pre @ Call x # post" by auto
    then have "Row r # t = (Row r # pre) @ Call x # post" by simp
    then show ?case by blast
  next
    case (3 s t)
    then have "Call s # t = [] @ Call x # t" by simp
    then show ?case by blast
  qed simp
  obtain pre post where t: "rs_trace (snd sample_agent_run) = pre @ Call sample_step # post"
    using split sample_run_calls by blast
  show ?thesis
    using agent_calls_evidenced [OF run, of pre sample_step post] t by blast
qed

end
