(* ===== verification/AgentRuntime.thy ===== *)
theory AgentRuntime
  imports AgentLoop
begin

text \<open>
  The governed agent runtime (\<^verbatim>\<open>application/agent_runtime.py\<close>) on top of the loop: the tool registry
  (\<^verbatim>\<open>application/tool_registry.py\<close>), the authorization of a capability
  (\<^verbatim>\<open>application/tool_authorization.py\<close>), the schema check of arguments and results, and the identity
  and payload redaction of the audit trail (\<^verbatim>\<open>application/agent_audit.py\<close>).  An executor is outside
  the program: a function that says how its call ends.
\<close>

section \<open>Tools and their registry\<close>

datatype tool_error =
    ToolValueError string | DuplicateToolError string | ToolNotFoundError string | ToolBindingError string

record tool =
  tl_name :: string
  tl_version :: string
  tl_description :: string
  tl_input_schema :: json
  tl_output_schema :: json
  tl_capabilities :: "string list"

definition capability_wellformed :: "string \<Rightarrow> bool" where
  "capability_wellformed c \<longleftrightarrow> c \<noteq> [] \<and> c = py_strip c \<and> [] \<notin> set (py_split (CHR ''.'') c)
     \<and> \<not> list_ex py_space c"

definition normalize_capabilities :: "string list \<Rightarrow> tool_error + string list" where
  "normalize_capabilities cs =
     (case find (\<lambda>c. \<not> capability_wellformed c) cs of
        Some c \<Rightarrow>
          Inl (ToolValueError
            (if c = [] \<or> c \<noteq> py_strip c then ''capability must not contain whitespace''
             else if [] \<in> set (py_split (CHR ''.'') c)
               then ''capability must contain non-empty dot-separated segments''
             else ''capability must not contain whitespace''))
      | None \<Rightarrow> Inr (sort (remdups cs)))"

definition mk_tool :: "tool \<Rightarrow> tool_error + tool" where
  "mk_tool t =
     (if py_strip (tl_name t) = [] then Inl (ToolValueError ''tool name must not be empty'')
      else if py_strip (tl_version t) = [] then Inl (ToolValueError ''tool version must not be empty'')
      else if py_strip (tl_description t) = []
        then Inl (ToolValueError ''tool description must not be empty'')
      else if \<not> list_all (\<lambda>c. py_alnum c \<or> c \<in> set ''_.-'') (py_strip (tl_name t))
        then Inl (ToolValueError ''tool name must be a stable machine identifier'')
      else (case normalize_capabilities (tl_capabilities t) of
        Inl e \<Rightarrow> Inl e
      | Inr cs \<Rightarrow> Inr (t\<lparr>tl_name := py_strip (tl_name t), tl_version := py_strip (tl_version t),
                        tl_description := py_strip (tl_description t), tl_capabilities := cs\<rparr>)))"

type_synonym tool_registry = "(string \<times> tool) list"

definition register :: "tool \<Rightarrow> tool_registry \<Rightarrow> tool_error + tool_registry" where
  "register t reg = (if map_of reg (tl_name t) \<noteq> None
     then Inl (DuplicateToolError (''tool already registered: '' @ tl_name t))
     else Inr (reg @ [(tl_name t, t)]))"

definition get_tool :: "tool_registry \<Rightarrow> string \<Rightarrow> tool_error + tool" where
  "get_tool reg name = (case map_of reg name of
     None \<Rightarrow> Inl (ToolNotFoundError (''tool not found: '' @ name)) | Some t \<Rightarrow> Inr t)"

definition list_tools :: "tool_registry \<Rightarrow> tool list" where
  "list_tools reg = map (\<lambda>n. the (map_of reg n)) (sort (map fst reg))"

section \<open>Authorization of one capability\<close>

definition authorize_tool :: "string \<Rightarrow> tool \<Rightarrow> string \<Rightarrow> string list \<Rightarrow> decision" where
  "authorize_tool actor t capability allowed_capabilities =
     (if actor = [] \<or> capability = [] then \<lparr>dn_allowed = False, dn_reason_code = ''INVALID_REQUEST''\<rparr>
      else if capability \<notin> set (tl_capabilities t)
        then \<lparr>dn_allowed = False, dn_reason_code = ''CAPABILITY_NOT_DECLARED''\<rparr>
      else if capability \<notin> set allowed_capabilities
        then \<lparr>dn_allowed = False, dn_reason_code = ''CAPABILITY_NOT_AUTHORIZED''\<rparr>
      else \<lparr>dn_allowed = True, dn_reason_code = ''AUTHORIZED''\<rparr>)"

section \<open>Schema check\<close>

text \<open>\<open>schema.get(key)\<close>, iteration, and which values can be looked up in a dictionary.\<close>

definition json_get :: "(string \<times> json) list \<Rightarrow> string \<Rightarrow> json" where
  "json_get fs k = (case map_of fs k of None \<Rightarrow> JNull | Some v \<Rightarrow> v)"

fun json_hashable :: "json \<Rightarrow> bool" where
  "json_hashable (JObj _) = False"
| "json_hashable (JList xs) = list_all json_hashable xs"
| "json_hashable _ = True"

fun json_falsy :: "json \<Rightarrow> bool" where
  "json_falsy JNull = True"
| "json_falsy (JBool b) = (\<not> b)"
| "json_falsy (JInt i) = (i = 0)"
| "json_falsy (JFloat r) = (r = 0)"
| "json_falsy (JStr s) = (s = [])"
| "json_falsy (JList xs) = (xs = [])"
| "json_falsy (JObj fs) = (fs = [])"

fun json_iter :: "json \<Rightarrow> json list option" where
  "json_iter (JList xs) = Some xs"
| "json_iter (JStr s) = Some (map (\<lambda>c. JStr [c]) s)"
| "json_iter (JObj fs) = Some (map (\<lambda>(k, _). JStr k) fs)"
| "json_iter _ = None"

fun has_type :: "json \<Rightarrow> json \<Rightarrow> bool" where
  "has_type v (JStr t) =
     (if t = ''object'' then (case v of JObj _ \<Rightarrow> True | _ \<Rightarrow> False)
      else if t = ''array'' then (case v of JList _ \<Rightarrow> True | _ \<Rightarrow> False)
      else if t = ''string'' then (case v of JStr _ \<Rightarrow> True | _ \<Rightarrow> False)
      else if t = ''integer'' then (case v of JInt _ \<Rightarrow> True | _ \<Rightarrow> False)
      else if t = ''number'' then (case v of JInt _ \<Rightarrow> True | JFloat _ \<Rightarrow> True | _ \<Rightarrow> False)
      else if t = ''boolean'' then (case v of JBool _ \<Rightarrow> True | _ \<Rightarrow> False)
      else if t = ''null'' then v = JNull
      else True)"
| "has_type v t = json_hashable t"

definition required_present :: "(string \<times> json) list \<Rightarrow> json \<Rightarrow> bool" where
  "required_present vs req = (case json_iter req of None \<Rightarrow> False
     | Some ks \<Rightarrow> list_all (\<lambda>k. case k of JStr s \<Rightarrow> map_of vs s \<noteq> None | _ \<Rightarrow> False) ks)"

lemma size_map_of: "map_of fs k = Some v \<Longrightarrow> size v < size (JObj fs)"
  by (induction fs) (auto split: if_splits)

lemma size_mem_obj: "(k, v) \<in> set fs \<Longrightarrow> size v < size (JObj fs)"
  by (induction fs) auto

lemma list_all_cong2 [fundef_cong]:
  "xs = ys \<Longrightarrow> (\<And>x. x \<in> set ys \<Longrightarrow> f x = g x) \<Longrightarrow> list_all f xs = list_all g ys"
  by (rule list.pred_cong)

text \<open>Whether \<^verbatim>\<open>_validate_schema\<close> returns; every way it raises ends the tool call the same way.\<close>

function schema_ok :: "json \<Rightarrow> json \<Rightarrow> bool" where
  "schema_ok v schema =
     (if json_falsy schema then True else
      (case schema of
         JObj fs \<Rightarrow>
           has_type v (json_get fs ''type'')
           \<and> (json_get fs ''type'' = JStr ''object'' \<longrightarrow>
                (case v of JObj vs \<Rightarrow>
                   required_present vs (case map_of fs ''required'' of None \<Rightarrow> JList [] | Some r \<Rightarrow> r)
                   \<and> (case map_of fs ''properties'' of
                        None \<Rightarrow> json_get fs ''additionalProperties'' = JBool False \<longrightarrow> vs = []
                      | Some (JObj ps) \<Rightarrow>
                          (json_get fs ''additionalProperties'' = JBool False \<longrightarrow>
                             list_all (\<lambda>(k, _). map_of ps k \<noteq> None) vs)
                          \<and> list_all (\<lambda>p. case map_of vs (fst p) of None \<Rightarrow> True
                                          | Some w \<Rightarrow> schema_ok w (snd p)) ps
                      | Some _ \<Rightarrow> False)
                 | _ \<Rightarrow> False))
           \<and> (json_get fs ''type'' = JStr ''array'' \<longrightarrow>
                (case v of JList xs \<Rightarrow>
                   (case map_of fs ''items'' of None \<Rightarrow> True
                    | Some s \<Rightarrow> list_all (\<lambda>x. schema_ok x s) xs)
                 | _ \<Rightarrow> False))
       | _ \<Rightarrow> False))"
  by pat_completeness auto
termination
  by (relation "measure (\<lambda>(v, s). size s)")
    (auto dest!: size_map_of size_mem_obj intro: less_trans)

declare schema_ok.simps [simp del]

section \<open>The governed runtime\<close>

record agent_authority =
  aa_actor :: string
  aa_organization_id :: int
  aa_resource_organization_id :: int
  aa_allowed_capabilities :: "string list"

definition agent_authority_ok :: "agent_authority \<Rightarrow> bool" where
  "agent_authority_ok a \<longleftrightarrow> aa_actor a \<noteq> [] \<and> 0 < aa_organization_id a
     \<and> 0 < aa_resource_organization_id a \<and> [] \<notin> set (aa_allowed_capabilities a)"

record tool_execution_context =
  tx_actor :: string
  tx_organization_id :: int
  tx_capability :: string

record executor =
  ex_is_async :: bool
  ex_run :: "json \<Rightarrow> tool_execution_context \<Rightarrow> json call"

record governed_runtime =
  gr_tools :: "(string \<times> tool) list"
  gr_executors :: "(string \<times> executor) list"

definition mk_runtime :: "tool_registry \<Rightarrow> (string \<times> executor) list \<Rightarrow> tool_error + governed_runtime" where
  "mk_runtime reg executors =
     (case find (\<lambda>(n, x). map_of reg n = None \<or> \<not> ex_is_async x
                   \<or> (\<exists>t. map_of reg n = Some t \<and> tl_name t \<noteq> n)) executors of
        Some (n, x) \<Rightarrow>
          Inl (ToolBindingError (if map_of reg n = None then ''executor has no registered tool: '' @ n
                 else if \<not> ex_is_async x then ''tool executor must be async: '' @ n
                 else ''tool binding identity mismatch''))
      | None \<Rightarrow>
          (let tools = map (\<lambda>t. (tl_name t, t)) (list_tools reg) in
           if set (map fst tools) \<noteq> set (map fst executors)
           then Inl (ToolBindingError ''every registered tool requires exactly one executor'')
           else Inr \<lparr>gr_tools = tools, gr_executors = executors\<rparr>))"

text \<open>What one run of the runtime keeps: the permits by the identity of their step, and, for the record,
  the executor invocations it made.\<close>

record invocation =
  iv_tool :: tool
  iv_arguments :: json
  iv_context :: tool_execution_context

record governed_state =
  gs_permits :: "nat \<Rightarrow> (tool \<times> string) option"
  gs_invocations :: "invocation list"

definition tenant_mismatch :: decision where
  "tenant_mismatch = \<lparr>dn_allowed = False, dn_reason_code = ''TENANT_MISMATCH''\<rparr>"

definition unknown_tool :: decision where
  "unknown_tool = \<lparr>dn_allowed = False, dn_reason_code = ''UNKNOWN_TOOL''\<rparr>"

definition policy ::
    "governed_runtime \<Rightarrow> agent_authority \<Rightarrow> loop_step \<Rightarrow> governed_state \<Rightarrow> decision call \<times> governed_state" where
  "policy rt auth step st =
     (if aa_organization_id auth \<noteq> aa_resource_organization_id auth then (Returns tenant_mismatch, st)
      else (case map_of (gr_tools rt) (ls_tool step) of
        None \<Rightarrow> (Returns unknown_tool, st)
      | Some t \<Rightarrow>
          (let dn = authorize_tool (aa_actor auth) t (ls_capability step) (aa_allowed_capabilities auth) in
           (Returns dn, if dn_allowed dn
              then st\<lparr>gs_permits := (gs_permits st)(ls_ident step \<mapsto> (t, ls_capability step))\<rparr> else st))))"

definition dispatch ::
    "governed_runtime \<Rightarrow> agent_authority \<Rightarrow> loop_step \<Rightarrow> governed_state \<Rightarrow> json call \<times> governed_state" where
  "dispatch rt auth step st =
     (case gs_permits st (ls_ident step) of
        None \<Rightarrow> (Raises, st)
      | Some (t, capability) \<Rightarrow>
          (let st1 = st\<lparr>gs_permits := (gs_permits st)(ls_ident step := None)\<rparr>;
               context = \<lparr>tx_actor = aa_actor auth, tx_organization_id = aa_organization_id auth,
                          tx_capability = capability\<rparr>
           in if \<not> schema_ok (ls_arguments step) (tl_input_schema t) then (Raises, st1)
              else (case map_of (gr_executors rt) (tl_name t) of
                None \<Rightarrow> (Raises, st1)
              | Some x \<Rightarrow>
                  (let st2 = st1\<lparr>gs_invocations := gs_invocations st1
                         @ [\<lparr>iv_tool = t, iv_arguments = ls_arguments step, iv_context = context\<rparr>]\<rparr>
                   in case ex_run x (ls_arguments step) context of
                        Returns result \<Rightarrow>
                          (if schema_ok result (tl_output_schema t) then Returns result else Raises, st2)
                      | other \<Rightarrow> (other, st2)))))"

definition governed_env ::
    "governed_runtime \<Rightarrow> agent_authority \<Rightarrow> ('b, governed_state) run_env \<Rightarrow> ('b, governed_state) run_env" where
  "governed_env rt auth env = env\<lparr>re_authorize := (\<lambda>_. policy rt auth), re_execute := (\<lambda>_. dispatch rt auth),
     re_execute_is_async := True\<rparr>"

definition governed_run ::
    "governed_runtime \<Rightarrow> agent_authority \<Rightarrow> ('b, governed_state) run_env \<Rightarrow> agent_run_limits \<Rightarrow> 'b
     \<Rightarrow> ('b, governed_state) run" where
  "governed_run rt auth env limits budget =
     run_agent_loop_async (governed_env rt auth env) limits
       (fresh_run budget \<lparr>gs_permits = (\<lambda>_. None), gs_invocations = []\<rparr>)"

section \<open>The audit trail's redaction\<close>

definition audit_identity_ok :: "string \<Rightarrow> int \<Rightarrow> int \<Rightarrow> string \<Rightarrow> bool" where
  "audit_identity_ok run_id org user actor \<longleftrightarrow>
     run_id \<noteq> [] \<and> length run_id \<le> 64 \<and> 0 < org \<and> 0 < user \<and> actor \<noteq> []"

definition sensitive_keys :: "string list" where
  "sensitive_keys = [''authorization'', ''authorization_header'', ''token'', ''secret'', ''password'',
     ''api_key'', ''credential'', ''arguments'', ''result'', ''observation'']"

fun has_substring :: "string \<Rightarrow> string \<Rightarrow> bool" where
  "has_substring p [] = (p = [])"
| "has_substring p (c # cs) = (take (length p) (c # cs) = p \<or> has_substring p cs)"

definition sensitive_key :: "string \<Rightarrow> bool" where
  "sensitive_key k \<longleftrightarrow> py_lower k \<in> set sensitive_keys
     \<or> list_ex (\<lambda>m. has_substring m (py_lower k)) [''secret'', ''password'', ''token'', ''credential'', ''api_key'']"

text \<open>\<^verbatim>\<open>_sanitize\<close>; keys that agree on their first 128 characters stay apart here.\<close>

function sanitize :: "string \<Rightarrow> nat \<Rightarrow> json \<Rightarrow> json" where
  "sanitize key depth v =
     (if sensitive_key key then JStr ''[REDACTED]''
      else if 6 \<le> depth then JStr ''[TRUNCATED]''
      else (case v of
         JObj fs \<Rightarrow> JObj (map (\<lambda>(k, w). (take 128 k, sanitize k (Suc depth) w)) (take 100 fs))
       | JList xs \<Rightarrow> JList (map (\<lambda>w. sanitize [] (Suc depth) w) (take 100 xs))
       | JStr s \<Rightarrow> JStr (take 256 s)
       | other \<Rightarrow> other))"
  by pat_completeness auto
termination
  by (relation "measure (\<lambda>(key, depth, v). 6 - depth)") auto

declare sanitize.simps [simp del]

section \<open>Lemmas\<close>

definition invocation_ok :: "governed_runtime \<Rightarrow> agent_authority \<Rightarrow> invocation \<Rightarrow> bool" where
  "invocation_ok rt auth iv \<longleftrightarrow>
     map_of (gr_tools rt) (tl_name (iv_tool iv)) = Some (iv_tool iv)
     \<and> tx_capability (iv_context iv) \<in> set (tl_capabilities (iv_tool iv))
     \<and> tx_capability (iv_context iv) \<in> set (aa_allowed_capabilities auth)
     \<and> tx_actor (iv_context iv) = aa_actor auth \<and> tx_organization_id (iv_context iv) = aa_organization_id auth
     \<and> aa_organization_id auth = aa_resource_organization_id auth
     \<and> schema_ok (iv_arguments iv) (tl_input_schema (iv_tool iv))"

definition permit_ok :: "governed_runtime \<Rightarrow> agent_authority \<Rightarrow> tool \<times> string \<Rightarrow> bool" where
  "permit_ok rt auth tc \<longleftrightarrow>
     map_of (gr_tools rt) (tl_name (fst tc)) = Some (fst tc) \<and> snd tc \<in> set (tl_capabilities (fst tc))
     \<and> snd tc \<in> set (aa_allowed_capabilities auth)
     \<and> aa_organization_id auth = aa_resource_organization_id auth"

definition governed_ok ::
    "governed_runtime \<Rightarrow> agent_authority \<Rightarrow> nat \<Rightarrow> 'b \<Rightarrow> governed_state \<Rightarrow> bool" where
  "governed_ok rt auth c b st \<longleftrightarrow> (\<forall>k tc. gs_permits st k = Some tc \<longrightarrow> permit_ok rt auth tc)
     \<and> (\<forall>iv \<in> set (gs_invocations st). invocation_ok rt auth iv) \<and> length (gs_invocations st) \<le> c"

text \<open>A runtime is bound when every tool is stored under its own name.\<close>

definition runtime_bound :: "governed_runtime \<Rightarrow> bool" where
  "runtime_bound rt \<longleftrightarrow> (\<forall>(n, t) \<in> set (gr_tools rt). n = tl_name t)"

lemma mk_runtime_bound: "mk_runtime reg xs = Inr rt \<Longrightarrow> runtime_bound rt"
  by (auto simp: mk_runtime_def runtime_bound_def Let_def split: option.splits if_splits)

lemma authorize_tool_allowedD:
  "dn_allowed (authorize_tool actor t cap caps) \<Longrightarrow>
     actor \<noteq> [] \<and> cap \<in> set (tl_capabilities t) \<and> cap \<in> set caps"
  by (auto simp: authorize_tool_def split: if_splits)

lemma policy_keeps:
  assumes "runtime_bound rt" and "governed_ok rt auth c b st" and "policy rt auth step st = (r, st')"
  shows "governed_ok rt auth c b st'"
proof -
  have bound: "map_of (gr_tools rt) (tl_name t) = Some t" if "map_of (gr_tools rt) n = Some t" for n t
    using that assms(1) by (auto simp: runtime_bound_def dest!: map_of_SomeD [of "gr_tools rt" n t]
        split: prod.splits) (metis (mono_tags, lifting) case_prodD map_of_SomeD that)
  show ?thesis
    using assms(2,3) bound
    by (auto simp: policy_def governed_ok_def permit_ok_def Let_def dest: authorize_tool_allowedD
        split: if_splits option.splits)
qed

lemma dispatch_keeps:
  assumes "governed_ok rt auth c b st" and "dispatch rt auth step st = (r, st')"
  shows "governed_ok rt auth (Suc c) b st'"
proof (cases "gs_permits st (ls_ident step)")
  case None
  then show ?thesis using assms by (auto simp: dispatch_def governed_ok_def)
next
  case (Some tc)
  obtain t cap where tc: "tc = (t, cap)" by fastforce
  have "permit_ok rt auth (t, cap)" using assms(1) Some tc by (auto simp: governed_ok_def)
  then show ?thesis using assms Some tc
    by (auto simp: dispatch_def governed_ok_def permit_ok_def invocation_ok_def Let_def
        split: if_splits option.splits call.splits)
qed

interpretation governed: loop_invariant "governed_env rt auth env"
    "\<lambda>c b p. runtime_bound rt \<longrightarrow> governed_ok rt auth c b p"
    "\<lambda>c b p. runtime_bound rt \<longrightarrow> governed_ok rt auth c b p" for rt auth env
  by unfold_locales
    (auto simp: governed_env_def dest: policy_keeps dispatch_keeps, auto simp: governed_ok_def)

section \<open>Properties\<close>

text \<open>C18: Governed execution.  In every run of a runtime whose tools and executors were bound, whatever the
  planner asks for, each executor invocation is for a registered tool, under a capability that the tool
  declares and the authority holds, in the authority's own tenant and never across tenants, with
  arguments that satisfy the tool's input schema; and each loop call makes at most one invocation,
  because a permit is used up by its dispatch.\<close>

theorem governed_invocations_authorized:
  assumes "mk_runtime reg executors = Inr rt" and "governed_run rt auth env limits budget = (r, st)"
    and "iv \<in> set (gs_invocations (rs_policy st))"
  shows "map_of (gr_tools rt) (tl_name (iv_tool iv)) = Some (iv_tool iv)
    \<and> tx_capability (iv_context iv) \<in> set (tl_capabilities (iv_tool iv)) \<inter> set (aa_allowed_capabilities auth)
    \<and> tx_organization_id (iv_context iv) = aa_organization_id auth
    \<and> aa_organization_id auth = aa_resource_organization_id auth
    \<and> schema_ok (iv_arguments iv) (tl_input_schema (iv_tool iv))
    \<and> length (gs_invocations (rs_policy st)) \<le> length (calls_of (rs_trace st))"
proof -
  have "governed.ends rt auth (nat (al_max_depth limits)) (governed_run rt auth env limits budget)"
    unfolding governed_run_def
    by (rule governed.run_invariant) (simp_all add: fresh_run_def governed_ok_def)
  then have "runtime_bound rt \<longrightarrow>
      governed_ok rt auth (length (calls_of (rs_trace st))) (rs_budget st) (rs_policy st)"
    unfolding governed.ends_def governed.holds_def assms(2) by simp
  then have "governed_ok rt auth (length (calls_of (rs_trace st))) (rs_budget st) (rs_policy st)"
    using mk_runtime_bound [OF assms(1)] by blast
  then show ?thesis using assms(3) by (auto simp: governed_ok_def invocation_ok_def)
qed

definition sample_tool :: tool where
  "sample_tool = \<lparr>tl_name = ''search'', tl_version = ''1'', tl_description = ''web search'',
     tl_input_schema = JObj [(''type'', JStr ''object''), (''required'', JList [JStr ''q''])],
     tl_output_schema = JObj [(''type'', JStr ''integer'')], tl_capabilities = [''web.read'']\<rparr>"

definition sample_executor :: executor where
  "sample_executor = \<lparr>ex_is_async = True, ex_run = (\<lambda>_ _. Returns (JInt 4))\<rparr>"

definition sample_runtime :: governed_runtime where
  "sample_runtime = \<lparr>gr_tools = [(''search'', sample_tool)], gr_executors = [(''search'', sample_executor)]\<rparr>"

definition sample_authority :: agent_authority where
  "sample_authority = \<lparr>aa_actor = ''ada'', aa_organization_id = 7, aa_resource_organization_id = 7,
     aa_allowed_capabilities = [''web.read'']\<rparr>"

definition sample_governed_env :: "(execution_budget, governed_state) run_env" where
  "sample_governed_env = \<lparr>re_clock = (\<lambda>n. of_nat n), re_commit_fails = (\<lambda>_. False), re_sha = (\<lambda>s. s),
     re_fingerprint = (\<lambda>_. ''f''),
     re_planner = (\<lambda>d _. Returns (if d = 0
       then Some (sample_step\<lparr>ls_arguments := JObj [(''q'', JStr ''isabelle'')]\<rparr>) else None)),
     re_authorize = (\<lambda>_ _ p. (Raises, p)), re_consume = consume, re_execute = (\<lambda>_ _ p. (Raises, p)),
     re_execute_is_async = True\<rparr>"

definition sample_governed_run :: "(execution_budget, governed_state) run" where
  "sample_governed_run = governed_run sample_runtime sample_authority sample_governed_env sample_limits sample_budget"

definition sample_invocation :: invocation where
  "sample_invocation = \<lparr>iv_tool = sample_tool, iv_arguments = JObj [(''q'', JStr ''isabelle'')],
     iv_context = \<lparr>tx_actor = ''ada'', tx_organization_id = 7, tx_capability = ''web.read''\<rparr>\<rparr>"

lemma sample_governed_invocation: "gs_invocations (rs_policy (snd sample_governed_run)) = [sample_invocation]"
  by code_simp

lemma sample_runtime_built:
  "mk_runtime [(''search'', sample_tool)] [(''search'', sample_executor)] = Inr sample_runtime"
  by (simp add: mk_runtime_def sample_tool_def sample_executor_def sample_runtime_def list_tools_def)

theorem governed_invocations_authorized_witness:
  "map_of (gr_tools sample_runtime) (tl_name (iv_tool sample_invocation)) = Some (iv_tool sample_invocation)
    \<and> tx_capability (iv_context sample_invocation)
        \<in> set (tl_capabilities (iv_tool sample_invocation)) \<inter> set (aa_allowed_capabilities sample_authority)
    \<and> tx_organization_id (iv_context sample_invocation) = aa_organization_id sample_authority
    \<and> aa_organization_id sample_authority = aa_resource_organization_id sample_authority
    \<and> schema_ok (iv_arguments sample_invocation) (tl_input_schema (iv_tool sample_invocation))
    \<and> length (gs_invocations (rs_policy (snd sample_governed_run)))
        \<le> length (calls_of (rs_trace (snd sample_governed_run)))"
  by (rule governed_invocations_authorized [OF sample_runtime_built, where r = "fst sample_governed_run"
        and env = sample_governed_env and limits = sample_limits and budget = sample_budget])
    (simp_all add: sample_governed_run_def [symmetric] sample_governed_invocation)

text \<open>Payloads that differ at most below sensitive keys.\<close>

fun agree_but_secrets :: "nat \<Rightarrow> json \<Rightarrow> json \<Rightarrow> bool" where
  "agree_but_secrets 0 v w = (v = w)"
| "agree_but_secrets (Suc n) (JObj fs) (JObj gs) =
     list_all2 (\<lambda>f g. fst f = fst g \<and> (sensitive_key (fst f) \<or> agree_but_secrets n (snd f) (snd g))) fs gs"
| "agree_but_secrets (Suc n) (JList xs) (JList ys) = list_all2 (agree_but_secrets n) xs ys"
| "agree_but_secrets (Suc n) v w = (v = w)"

lemma list_all2_map_eq:
  "list_all2 P xs ys \<Longrightarrow> (\<And>x y. P x y \<Longrightarrow> h x = h y) \<Longrightarrow> map h xs = map h ys"
  by (induction rule: list_all2_induct) auto

lemma sanitize_sensitive: "sensitive_key key \<Longrightarrow> sanitize key depth v = JStr ''[REDACTED]''"
  by (simp add: sanitize.simps [of key])

text \<open>Redaction.  Whatever an audit payload nests under a key that names a secret, a credential, a
  token, a password or an API key, or under one of the fixed sensitive keys, is stored as the redaction
  mark: two payloads that differ only in such values leave the same audit text.\<close>

theorem audit_hides_secrets:
  assumes "agree_but_secrets n v w"
  shows "sanitize key depth v = sanitize key depth w"
  using assms
proof (induction n arbitrary: v w key depth)
  case (Suc n)
  consider (obj) fs gs where "v = JObj fs" "w = JObj gs" | (arr) xs ys where "v = JList xs" "w = JList ys"
    | (same) "v = w"
    using Suc.prems by (cases v; cases w) auto
  then show ?case
  proof cases
    case obj
    let ?h = "\<lambda>(k, w). (take 128 k, sanitize k (Suc depth) w)"
    have "list_all2 (\<lambda>f g. fst f = fst g \<and> (sensitive_key (fst f) \<or> agree_but_secrets n (snd f) (snd g)))
        (take 100 fs) (take 100 gs)"
      using Suc.prems obj by (simp add: list_all2_takeI)
    then have "map ?h (take 100 fs) = map ?h (take 100 gs)"
      by (rule list_all2_map_eq) (auto simp: sanitize_sensitive dest: Suc.IH)
    then show ?thesis
      using obj by (simp add: sanitize.simps [of key depth "JObj fs"] sanitize.simps [of key depth "JObj gs"])
  next
    case arr
    have "list_all2 (agree_but_secrets n) (take 100 xs) (take 100 ys)"
      using Suc.prems arr by (simp add: list_all2_takeI)
    then have "map (sanitize [] (Suc depth)) (take 100 xs) = map (sanitize [] (Suc depth)) (take 100 ys)"
      by (rule list_all2_map_eq) (rule Suc.IH)
    then show ?thesis
      using arr by (simp add: sanitize.simps [of key depth "JList xs"] sanitize.simps [of key depth "JList ys"])
  qed simp
qed simp

theorem audit_hides_secrets_witness:
  "sanitize [] 0 (JObj [(''depth'', JInt 1), (''API_Key'', JStr ''k1'')])
     = sanitize [] 0 (JObj [(''depth'', JInt 1), (''API_Key'', JStr ''k2'')])"
proof (rule audit_hides_secrets)
  have "sensitive_key ''API_Key''" by code_simp
  then show "agree_but_secrets (Suc (Suc 0)) (JObj [(''depth'', JInt 1), (''API_Key'', JStr ''k1'')])
      (JObj [(''depth'', JInt 1), (''API_Key'', JStr ''k2'')])" by simp
qed

end
