(* ===== verification/Idempotency.thy ===== *)
theory Idempotency
  imports Schema Identity
begin

text \<open>
  The lease-fenced idempotency ledger of \<^verbatim>\<open>core/idempotency.py\<close>.  Each database statement is
  atomic; between the insert that met a conflict and the locking select another session may
  change the tables, which \<open>iw_interfere\<close> supplies.  Timestamps are UTC microseconds, so
  \<^verbatim>\<open>_as_utc\<close> is the identity.  \<open>sha\<close> is the SHA-256 hex digest of the body.
\<close>

definition seconds :: "int \<Rightarrow> microseconds" where
  "seconds n = n * 1000000"

definition DEFAULT_TTL_SECONDS :: int where "DEFAULT_TTL_SECONDS = 24 * 60 * 60"

definition LEASE_SECONDS :: int where "LEASE_SECONDS = 120"

record idempotency_outcome =
  io_status :: status
  io_lease_token :: "string option"
  io_record_id :: "identity option"
  io_is_recovery :: bool

record idem_request =
  rq_cached_body :: "string option"
  rq_organization_id :: "identity option"
  rq_user_id :: "identity option"
  rq_idempotency_header :: "string option"

record idem_world =
  iw_now :: "nat \<Rightarrow> microseconds"
  iw_token :: "nat \<Rightarrow> string"
  iw_interfere :: "nat \<Rightarrow> chat_db \<Rightarrow> chat_db"

definition body_digest :: "(string \<Rightarrow> string) \<Rightarrow> idem_request \<Rightarrow> string" where
  "body_digest sha rq = (case rq_cached_body rq of None \<Rightarrow> [] | Some raw \<Rightarrow> sha raw)"

definition resolve_context :: "idem_request \<Rightarrow> api_error + identity \<times> identity" where
  "resolve_context rq =
     (case (rq_organization_id rq, rq_user_id rq) of
        (Some org, Some uid) \<Rightarrow> Inr (org, uid)
      | _ \<Rightarrow> Inl (HTTPException 401 ''Idempotency requires an authenticated tenant context.''))"

definition resolve_idempotency_key :: "idem_request \<Rightarrow> string option \<Rightarrow> api_error + string option" where
  "resolve_idempotency_key rq body_key =
     (let header_key = py_or_none (py_strip (py_or_empty (rq_idempotency_header rq)));
          body = py_or_none (py_strip (py_or_empty body_key))
      in if header_key \<noteq> None \<and> body \<noteq> None \<and> header_key \<noteq> body
         then Inl (HTTPException 400 ''Idempotency-Key header and body field mismatch.'')
         else Inr (case header_key of None \<Rightarrow> body | Some k \<Rightarrow> Some k))"

definition in_progress :: api_error where
  "in_progress = HTTPException 409 ''A request with this idempotency key is already in progress.''"

definition payload_mismatch :: api_error where
  "payload_mismatch = HTTPException 409 ''Idempotency key was reused with a different payload.''"

text \<open>The row the first insert writes, and the two updates that hand an existing row to a new owner.\<close>

definition new_idem_row ::
    "identity \<Rightarrow> identity \<Rightarrow> identity \<Rightarrow> string \<Rightarrow> string \<Rightarrow> microseconds \<Rightarrow> string \<Rightarrow> idempotency_record" where
  "new_idem_row i org uid key digest now token =
     \<lparr>ir_id = i, ir_organization_id = org, ir_user_id = uid, ir_key = key, ir_request_hash = digest,
      ir_status = Processing, ir_response_status = None, ir_response_reference = None,
      ir_created_at = now, ir_expires_at = Some (now + seconds DEFAULT_TTL_SECONDS),
      ir_lease_until = Some (now + seconds LEASE_SECONDS), ir_lease_token = Some token\<rparr>"

definition retake_failed :: "microseconds \<Rightarrow> string \<Rightarrow> idempotency_record \<Rightarrow> idempotency_record" where
  "retake_failed now token r = r\<lparr>ir_status := Processing, ir_response_status := None,
     ir_response_reference := None, ir_lease_until := Some (now + seconds LEASE_SECONDS),
     ir_expires_at := Some (now + seconds DEFAULT_TTL_SECONDS), ir_lease_token := Some token\<rparr>"

definition retake_expired :: "microseconds \<Rightarrow> string \<Rightarrow> idempotency_record \<Rightarrow> idempotency_record" where
  "retake_expired now token r = r\<lparr>ir_lease_until := Some (now + seconds LEASE_SECONDS),
     ir_lease_token := Some token, ir_status := Processing\<rparr>"

definition expired_before :: "microseconds option \<Rightarrow> microseconds \<Rightarrow> bool" where
  "expired_before t now \<longleftrightarrow> (case t of None \<Rightarrow> False | Some x \<Rightarrow> x < now)"

definition update_idem ::
    "identity \<times> identity \<times> string \<Rightarrow> (idempotency_record \<Rightarrow> idempotency_record) \<Rightarrow> chat_db \<Rightarrow> chat_db" where
  "update_idem k f db = db\<lparr>idem_rows := set_by idem_key k f (idem_rows db)\<rparr>"

definition owned :: "string \<Rightarrow> identity \<Rightarrow> bool \<Rightarrow> idempotency_outcome" where
  "owned token i recovery = \<lparr>io_status = Processing, io_lease_token = Some token,
     io_record_id = Some i, io_is_recovery = recovery\<rparr>"

function begin_idempotency ::
    "(string \<Rightarrow> string) \<Rightarrow> idem_world \<Rightarrow> nat \<Rightarrow> idem_request \<Rightarrow> string \<Rightarrow> chat_db
     \<Rightarrow> (api_error + idempotency_outcome) \<times> chat_db" where
  "begin_idempotency sha w n rq key db =
     (case resolve_context rq of
        Inl e \<Rightarrow> (Inl e, db)
      | Inr (org, uid) \<Rightarrow>
          let digest = body_digest sha rq; now = iw_now w n; token = iw_token w n;
              k = (org, uid, key)
          in if get_by idem_key k (idem_rows db) = None
             then (Inr (owned token (next_row db) False),
                   db\<lparr>idem_rows := idem_rows db @ [new_idem_row (next_row db) org uid key digest now token],
                      next_row := next_row db + 1\<rparr>)
             else let db1 = iw_interfere w n db in
               (case get_by idem_key k (idem_rows db1) of
                  None \<Rightarrow>
                    if 2 \<le> n
                    then (Inl (HTTPException 503 ''Idempotency reservation failed after retries.''), db1)
                    else begin_idempotency sha w (Suc n) rq key db1
                | Some existing \<Rightarrow>
                    if ir_status existing = Completed \<and> expired_before (ir_expires_at existing) now
                    then (let db2 = delete_idem_rows (\<lambda>r. idem_key r = k) db1 in
                          if 2 \<le> n
                          then (Inl (HTTPException 503 ''Idempotency renewal failed after retries.''), db2)
                          else begin_idempotency sha w (Suc n) rq key db2)
                    else if ir_request_hash existing \<noteq> digest then (Inl payload_mismatch, db1)
                    else if ir_status existing = Completed
                         \<and> ir_response_reference existing \<notin> {None, Some []}
                    then (Inr \<lparr>io_status = Completed, io_lease_token = None,
                               io_record_id = Some (ir_id existing), io_is_recovery = False\<rparr>, db1)
                    else if ir_status existing = Failed
                    then (Inr (owned token (ir_id existing) True),
                          update_idem k (retake_failed now token) db1)
                    else if expired_before (ir_lease_until existing) now
                    then (Inr (owned token (ir_id existing) True),
                          update_idem k (retake_expired now token) db1)
                    else (Inl in_progress, db1)))"
  by pat_completeness auto
termination
  by (relation "measure (\<lambda>(sha, w, n, rq, key, db). 2 - n)") auto

declare begin_idempotency.simps [simp del]

text \<open>\<open>begin\<close> with nothing running in between, at one clock reading and one fresh token.\<close>

definition alone :: "microseconds \<Rightarrow> string \<Rightarrow> idem_world" where
  "alone now token = \<lparr>iw_now = (\<lambda>_. now), iw_token = (\<lambda>_. token), iw_interfere = (\<lambda>_ db. db)\<rparr>"

definition renew_idempotency_lease ::
    "microseconds \<Rightarrow> idem_request \<Rightarrow> string \<Rightarrow> string \<Rightarrow> chat_db \<Rightarrow> (api_error + bool) \<times> chat_db" where
  "renew_idempotency_lease now rq key lease_token db =
     (case resolve_context rq of
        Inl e \<Rightarrow> (Inl e, db)
      | Inr (org, uid) \<Rightarrow>
          let mine = (\<lambda>r. idem_key r = (org, uid, key) \<and> ir_status r = Processing
                          \<and> ir_lease_token r = Some lease_token)
          in (Inr (length (filter mine (idem_rows db)) = 1),
              db\<lparr>idem_rows := update_where mine
                   (\<lambda>r. r\<lparr>ir_lease_until := Some (now + seconds LEASE_SECONDS)\<rparr>) (idem_rows db)\<rparr>))"

definition settle_idem ::
    "int \<Rightarrow> string \<Rightarrow> idempotency_record \<Rightarrow> idempotency_record" where
  "settle_idem response_status response_reference r =
     r\<lparr>ir_status := (if 200 \<le> response_status \<and> response_status < 300 then Completed else Failed),
       ir_response_status := Some response_status,
       ir_response_reference := Some response_reference, ir_lease_until := None\<rparr>"

definition complete_idempotency ::
    "microseconds \<Rightarrow> idem_request \<Rightarrow> string \<Rightarrow> int \<Rightarrow> string \<Rightarrow> string option \<Rightarrow> chat_db
     \<Rightarrow> (api_error + bool) \<times> chat_db" where
  "complete_idempotency now rq key response_status response_reference lease_token db =
     (case resolve_context rq of
        Inl e \<Rightarrow> (Inl e, db)
      | Inr (org, uid) \<Rightarrow>
          (case get_by idem_key (org, uid, key) (idem_rows db) of
             None \<Rightarrow> (Inr False, db)
           | Some existing \<Rightarrow>
               if lease_token \<noteq> None
                  \<and> (ir_lease_token existing \<notin> {None, lease_token}
                     \<or> expired_before (ir_lease_until existing) now)
               then (Inr False, db)
               else (Inr True, update_idem (org, uid, key)
                       (settle_idem response_status response_reference) db)))"

definition read_cached_response ::
    "idem_request \<Rightarrow> string \<Rightarrow> chat_db \<Rightarrow> api_error + string option" where
  "read_cached_response rq key db =
     (case resolve_context rq of
        Inl e \<Rightarrow> Inl e
      | Inr (org, uid) \<Rightarrow>
          (case find (\<lambda>r. idem_key r = (org, uid, key) \<and> ir_status r = Completed) (idem_rows db) of
             None \<Rightarrow> Inr None
           | Some r \<Rightarrow> Inr (ir_response_reference r)))"

definition cleanup_expired_records :: "microseconds \<Rightarrow> int \<Rightarrow> chat_db \<Rightarrow> int \<times> chat_db" where
  "cleanup_expired_records now limit db =
     (let gone = (\<lambda>r. expired_before (ir_expires_at r) now \<and> ir_status r \<in> {Completed, Failed})
      in (int (length (filter gone (idem_rows db))), delete_idem_rows gone db))"

section \<open>Well-formedness and lookups\<close>

text \<open>The uniqueness constraints of the table, and ids drawn from the sequence.\<close>

definition idem_wf :: "chat_db \<Rightarrow> bool" where
  "idem_wf db \<longleftrightarrow> distinct (map idem_key (idem_rows db)) \<and> distinct (map ir_id (idem_rows db))
     \<and> (\<forall>r \<in> set (idem_rows db). ir_id r < next_row db)"

lemma retake_key [simp]:
  "idem_key (retake_failed now token r) = idem_key r"
  "idem_key (retake_expired now token r) = idem_key r"
  "idem_key (settle_idem s ref r) = idem_key r"
  "idem_key (new_idem_row i org uid key digest now token) = (org, uid, key)"
  by (simp_all add: retake_failed_def retake_expired_def settle_idem_def new_idem_row_def
      idem_key_def)

lemma retake_id [simp]:
  "ir_id (retake_failed now token r) = ir_id r"
  "ir_id (retake_expired now token r) = ir_id r"
  "ir_id (settle_idem s ref r) = ir_id r"
  "ir_id (new_idem_row i org uid key digest now token) = i"
  by (simp_all add: retake_failed_def retake_expired_def settle_idem_def new_idem_row_def)

lemma new_idem_row_fields [simp]:
  "ir_status (new_idem_row i org uid key digest now token) = Processing"
  "ir_request_hash (new_idem_row i org uid key digest now token) = digest"
  "ir_lease_token (new_idem_row i org uid key digest now token) = Some token"
  "ir_lease_until (new_idem_row i org uid key digest now token) = Some (now + seconds LEASE_SECONDS)"
  by (simp_all add: new_idem_row_def)

lemma idem_rows_delete [table_simps]:
  "idem_rows (delete_idem_rows P db) = filter (\<lambda>r. \<not> P r) (idem_rows db)"
  by (simp add: delete_idem_rows_def Let_def)

lemma next_row_delete [simp]: "next_row (delete_idem_rows P db) = next_row db"
  by (simp add: delete_idem_rows_def Let_def)

lemma get_by_filter_None: "get_by key k (filter (\<lambda>r. key r \<noteq> k) rows) = None"
  by (auto simp: get_by_def find_None_iff)

lemma get_by_filter_other:
  "k' \<noteq> k \<Longrightarrow> get_by key k' (filter (\<lambda>r. key r \<noteq> k) rows) = get_by key k' rows"
  by (induction rows) (auto simp: get_by_def)

lemma get_by_None_key: "get_by key k rows = None \<longleftrightarrow> k \<notin> key ` set rows"
  by (auto simp: get_by_def find_None_iff)

lemma get_by_append_fresh [table_simps]:
  "get_by key k rows = None \<Longrightarrow> get_by key k (rows @ [x]) = (if key x = k then Some x else None)"
  by (auto simp: get_by_def find_append)

lemma get_by_append_other:
  "key x \<noteq> k \<Longrightarrow> get_by key k (rows @ [x]) = get_by key k rows"
  by (auto simp: get_by_def find_append split: option.splits)

lemma get_by_set_idem [table_simps]:
  "(\<And>r. idem_key (f r) = idem_key r) \<Longrightarrow>
     get_by idem_key k (idem_rows (update_idem k' f db)) =
       (if k = k' then map_option f (get_by idem_key k (idem_rows db))
        else get_by idem_key k (idem_rows db))"
  by (simp add: update_idem_def rows.fetch_modify keeps_key_def)

lemma idem_wf_update:
  assumes "idem_wf db" and "\<And>r. idem_key (f r) = idem_key r" and "\<And>r. ir_id (f r) = ir_id r"
  shows "idem_wf (update_idem k f db)"
  using assms unfolding idem_wf_def update_idem_def
  by (auto simp: set_by_def map_update_where dest!: set_update_where)

lemma idem_wf_delete: "idem_wf db \<Longrightarrow> idem_wf (delete_idem_rows P db)"
  by (auto simp: idem_wf_def idem_rows_delete distinct_map inj_on_def)

lemma idem_wf_insert:
  assumes "idem_wf db" and "get_by idem_key (org, uid, key) (idem_rows db) = None"
  shows "idem_wf (db\<lparr>idem_rows := idem_rows db @ [new_idem_row (next_row db) org uid key digest now token],
                    next_row := next_row db + 1\<rparr>)"
  using assms by (auto simp: idem_wf_def get_by_None_key image_iff dest: bspec)

section \<open>Facts of the reservation\<close>

lemma begin_durable:
  assumes "begin_idempotency sha w n rq key db = (Inr out, db')" and "io_status out = Processing"
    and "resolve_context rq = Inr (org, uid)"
  shows "\<exists>r m. get_by idem_key (org, uid, key) (idem_rows db') = Some r \<and> ir_status r = Processing
           \<and> io_record_id out = Some (ir_id r) \<and> ir_request_hash r = body_digest sha rq
           \<and> ir_lease_token r = Some (iw_token w m) \<and> io_lease_token out = Some (iw_token w m)
           \<and> ir_lease_until r = Some (iw_now w m + seconds LEASE_SECONDS)"
  using assms
proof (induction "2 - n" arbitrary: n db rule: less_induct)
  case less
  let ?k = "(org, uid, key)" and ?db1 = "iw_interfere w n db"
  have again: "?case" if "\<not> 2 \<le> n" "begin_idempotency sha w (Suc n) rq key x = (Inr out, db')" for x
    by (rule less.hyps [of "Suc n", OF _ that(2) less.prems(2,3)]) (use that(1) in linarith)
  note step = less.prems(1) [unfolded begin_idempotency.simps [of sha w n]]
  show ?case
  proof (cases "get_by idem_key ?k (idem_rows db)")
    case None
    with step less.prems(2,3) show ?thesis
      by (auto simp: Let_def get_by_append_fresh owned_def)
  next
    case taken: (Some r0)
    show ?thesis
    proof (cases "get_by idem_key ?k (idem_rows ?db1)")
      case None
      with step taken less.prems(3) have "\<not> 2 \<le> n"
        and "begin_idempotency sha w (Suc n) rq key ?db1 = (Inr out, db')"
        by (simp_all add: Let_def split: if_splits)
      then show ?thesis by (rule again)
    next
      case (Some r)
      show ?thesis
      proof (cases "ir_status r = Completed \<and> expired_before (ir_expires_at r) (iw_now w n)")
        case True
        with step taken Some less.prems(3) have "\<not> 2 \<le> n"
          and "begin_idempotency sha w (Suc n) rq key (delete_idem_rows (\<lambda>r. idem_key r = ?k) ?db1)
                 = (Inr out, db')"
          by (simp_all add: Let_def split: if_splits)
        then show ?thesis by (rule again)
      next
        case False
        with step taken Some less.prems(2,3) show ?thesis
          by (auto simp: Let_def owned_def get_by_set_idem retake_failed_def retake_expired_def
              split: if_splits)
      qed
    qed
  qed
qed

lemma begin_alone_live:
  assumes "resolve_context rq = Inr (org, uid)"
    and "get_by idem_key (org, uid, key) (idem_rows db) = Some r" and "ir_status r = Processing"
    and "\<not> expired_before (ir_lease_until r) now"
  shows "begin_idempotency sha (alone now token) n rq key db =
           (Inl (if ir_request_hash r = body_digest sha rq then in_progress else payload_mismatch), db)"
  using assms by (simp add: begin_idempotency.simps alone_def Let_def)

lemma begin_alone_expired:
  assumes "resolve_context rq = Inr (org, uid)"
    and "get_by idem_key (org, uid, key) (idem_rows db) = Some r" and "ir_status r = Processing"
    and "ir_lease_until r = Some l" and "l < now" and "ir_request_hash r = body_digest sha rq"
  shows "begin_idempotency sha (alone now token) n rq key db =
           (Inr (owned token (ir_id r) True), update_idem (org, uid, key) (retake_expired now token) db)"
  using assms by (simp add: begin_idempotency.simps alone_def Let_def expired_before_def)

lemma begin_alone_completed:
  assumes "resolve_context rq = Inr (org, uid)"
    and "get_by idem_key (org, uid, key) (idem_rows db) = Some r" and "ir_status r = Completed"
    and "\<not> expired_before (ir_expires_at r) now" and "ir_response_reference r = Some ref" and "ref \<noteq> []"
  shows "begin_idempotency sha (alone now token) n rq key db =
           (if ir_request_hash r = body_digest sha rq
            then Inr \<lparr>io_status = Completed, io_lease_token = None, io_record_id = Some (ir_id r),
                      io_is_recovery = False\<rparr>
            else Inl payload_mismatch, db)"
  using assms by (simp add: begin_idempotency.simps alone_def Let_def)

lemma idem_wf_begin:
  assumes "idem_wf db" and "\<And>i d. idem_wf d \<Longrightarrow> idem_wf (iw_interfere w i d)"
  shows "idem_wf (snd (begin_idempotency sha w n rq key db))"
  using assms
proof (induction "2 - n" arbitrary: n db rule: less_induct)
  case less
  note wf1 = less.prems(2) [OF less.prems(1), of n]
  have again: "idem_wf (snd (begin_idempotency sha w (Suc n) rq key x))" if "\<not> 2 \<le> n" "idem_wf x" for x
    by (rule less.hyps [of "Suc n", OF _ that(2) less.prems(2)]) (use that(1) in linarith)
  show ?case
    unfolding begin_idempotency.simps [of sha w n]
    using less.prems(1) wf1
    by (auto simp: Let_def intro!: again idem_wf_insert idem_wf_update idem_wf_delete
        split: sum.splits option.splits)
qed

lemma next_row_begin:
  assumes "\<And>i d. next_row d \<le> next_row (iw_interfere w i d)"
  shows "next_row db \<le> next_row (snd (begin_idempotency sha w n rq key db))"
  using assms
proof (induction "2 - n" arbitrary: n db rule: less_induct)
  case less
  note le1 = less.prems [of db n]
  have again: "next_row x \<le> next_row (snd (begin_idempotency sha w (Suc n) rq key x))"
    if "\<not> 2 \<le> n" for x
    by (rule less.hyps [of "Suc n", OF _ less.prems]) (use that in linarith)
  show ?case
    unfolding begin_idempotency.simps [of sha w n]
    using le1 by (auto simp: Let_def update_idem_def split: sum.splits option.splits
        intro: order.trans [OF le1] order.trans [OF le1 again]
          order.trans [OF le1 order.trans [OF _ again]])
qed

lemma idem_wf_lookup:
  assumes "idem_wf db" and "get_by idem_key k (idem_rows db) = Some r" and "r' \<in> set (idem_rows db)"
    and "idem_key r' = k"
  shows "r' = r"
  using assms get_by_distinct [of idem_key "idem_rows db" r'] by (auto simp: idem_wf_def)

lemma renew_fenced:
  assumes "idem_wf db" and "resolve_context rq = Inr (org, uid)"
    and "get_by idem_key (org, uid, key) (idem_rows db) = Some r" and "ir_lease_token r \<noteq> Some token"
  shows "renew_idempotency_lease now rq key token db = (Inr False, db)"
proof -
  let ?mine = "\<lambda>r. idem_key r = (org, uid, key) \<and> ir_status r = Processing \<and> ir_lease_token r = Some token"
  have none: "\<forall>x \<in> set (idem_rows db). \<not> ?mine x"
    using idem_wf_lookup [OF assms(1,3)] assms(4) by auto
  then have "filter ?mine (idem_rows db) = []" by (simp add: filter_empty_conv)
  moreover from none have "update_where ?mine f (idem_rows db) = idem_rows db" for f
    by (auto simp: update_where_def intro!: map_idI)
  ultimately show ?thesis using assms(2) by (simp add: renew_idempotency_lease_def Let_def)
qed

lemma idem_wf_renew:
  assumes "idem_wf db"
  shows "idem_wf (snd (renew_idempotency_lease now rq key token db))"
  using assms by (auto simp: renew_idempotency_lease_def Let_def idem_wf_def map_update_where
      split: sum.splits dest!: set_update_where)

lemma idem_wf_complete:
  "idem_wf db \<Longrightarrow> idem_wf (snd (complete_idempotency now rq key s ref token db))"
  by (auto simp: complete_idempotency_def intro!: idem_wf_update split: sum.splits option.splits)

lemma idem_wf_cleanup: "idem_wf db \<Longrightarrow> idem_wf (snd (cleanup_expired_records now limit db))"
  by (simp add: cleanup_expired_records_def Let_def idem_wf_delete)

section \<open>Runs of the ledger\<close>

text \<open>
  Any sequence of ledger calls, from any tenants, with any clock; a call to \<open>begin\<close> may be
  interleaved with other calls, that is, its interference is itself a run.
\<close>

inductive ledger_run :: "(string \<Rightarrow> string) \<Rightarrow> chat_db \<Rightarrow> chat_db \<Rightarrow> bool" for sha where
  lr_start: "ledger_run sha db db"
| lr_begin: "ledger_run sha db d \<Longrightarrow> (\<And>i x. ledger_run sha x (iw_interfere w i x))
    \<Longrightarrow> ledger_run sha db (snd (begin_idempotency sha w 0 rq key d))"
| lr_renew: "ledger_run sha db d \<Longrightarrow> ledger_run sha db (snd (renew_idempotency_lease now rq key token d))"
| lr_complete: "ledger_run sha db d
    \<Longrightarrow> ledger_run sha db (snd (complete_idempotency now rq key s ref lease_token d))"
| lr_cleanup: "ledger_run sha db d \<Longrightarrow> ledger_run sha db (snd (cleanup_expired_records now limit d))"

lemma ledger_run_wf: "ledger_run sha db db' \<Longrightarrow> idem_wf db \<Longrightarrow> idem_wf db'"
  by (induction rule: ledger_run.induct)
    (auto intro: idem_wf_begin idem_wf_renew idem_wf_complete idem_wf_cleanup)

lemma ledger_run_next_row: "ledger_run sha db db' \<Longrightarrow> next_row db \<le> next_row db'"
proof (induction rule: ledger_run.induct)
  case (lr_begin db d w rq key)
  show ?case by (rule order.trans [OF lr_begin(3) next_row_begin]) (use lr_begin(4) in blast)
qed (auto simp: renew_idempotency_lease_def complete_idempotency_def cleanup_expired_records_def
    Let_def update_idem_def split: sum.splits option.splits)

section \<open>Properties\<close>

definition sample_rq :: idem_request where
  "sample_rq = \<lparr>rq_cached_body = Some ''hello'', rq_organization_id = Some 7, rq_user_id = Some 3,
     rq_idempotency_header = Some '' k1 ''\<rparr>"

definition sample_run :: "idem_world \<Rightarrow> chat_db \<Rightarrow> (api_error + idempotency_outcome) \<times> chat_db" where
  "sample_run w db = begin_idempotency (\<lambda>s. s) w 0 sample_rq ''k1'' db"

definition sample_ledger :: chat_db where
  "sample_ledger = snd (sample_run (alone 0 ''t1'') empty_chat_db)"

lemma sample_ledger_eq:
  "sample_ledger = empty_chat_db\<lparr>idem_rows := [new_idem_row 1 7 3 ''k1'' ''hello'' 0 ''t1''], next_row := 2\<rparr>"
  by (simp add: sample_ledger_def sample_run_def begin_idempotency.simps resolve_context_def
      sample_rq_def empty_chat_db_def get_by_def alone_def body_digest_def Let_def)

text \<open>C10: Mutual exclusion.  Once a reservation has been granted (whatever other sessions did
  while it was being made), any other request of the same tenant with the same key is refused with
  409 until the lease of the first has run out, and it leaves the database unchanged.\<close>

theorem reservation_excludes_others:
  assumes "begin_idempotency sha w 0 rq key db = (Inr out, db1)" and "io_status out = Processing"
    and "\<forall>m. t0 \<le> iw_now w m" and "resolve_context rq = Inr (org, uid)"
    and "resolve_context rq' = Inr (org, uid)" and "t \<le> t0 + seconds LEASE_SECONDS"
  shows "snd (begin_idempotency sha' (alone t token) 0 rq' key db1) = db1
    \<and> fst (begin_idempotency sha' (alone t token) 0 rq' key db1) \<in> {Inl in_progress, Inl payload_mismatch}"
proof -
  obtain r m where r: "get_by idem_key (org, uid, key) (idem_rows db1) = Some r"
    "ir_status r = Processing" "ir_lease_until r = Some (iw_now w m + seconds LEASE_SECONDS)"
    using begin_durable [OF assms(1,2,4)] by blast
  have "\<not> expired_before (ir_lease_until r) t"
    using r(3) assms(6) spec [OF assms(3), of m] by (simp add: expired_before_def)
  from begin_alone_live [OF assms(5) r(1,2) this] show ?thesis by simp
qed

theorem reservation_excludes_others_witness:
  "snd (sample_run (alone 5 ''t2'') sample_ledger) = sample_ledger
   \<and> fst (sample_run (alone 5 ''t2'') sample_ledger) \<in> {Inl in_progress, Inl payload_mismatch}"
  unfolding sample_run_def
  by (rule reservation_excludes_others [where sha = "\<lambda>s. s" and w = "alone 0 ''t1''" and rq = sample_rq
        and db = empty_chat_db and out = "owned ''t1'' 1 False" and ?t0.0 = 0 and org = 7 and uid = 3])
    (simp_all add: sample_ledger_eq begin_idempotency.simps resolve_context_def sample_rq_def
      empty_chat_db_def get_by_def alone_def body_digest_def Let_def owned_def seconds_def
      LEASE_SECONDS_def)

text \<open>C11: Fencing.  When a retry of the same payload takes an expired lease over, the record keeps
  its identity, the previous holder can neither extend the lease nor record a result any more (both
  calls answer False and change nothing), and the new holder can, until its own lease runs out.\<close>

theorem takeover_fences_previous_holder:
  assumes "idem_wf db" and "begin_idempotency sha (alone t0 tok0) 0 rq key db = (Inr out, db1)"
    and "io_status out = Processing" and "resolve_context rq = Inr (org, uid)"
    and "t0 + seconds LEASE_SECONDS < t1" and "tok1 \<noteq> tok0"
  shows "\<exists>i db2. io_record_id out = Some i
    \<and> begin_idempotency sha (alone t1 tok1) 0 rq key db1 = (Inr (owned tok1 i True), db2)
    \<and> renew_idempotency_lease t rq key tok0 db2 = (Inr False, db2)
    \<and> complete_idempotency t rq key st ref (Some tok0) db2 = (Inr False, db2)
    \<and> (fst (complete_idempotency t rq key st ref (Some tok1) db2) = Inr True
         \<longleftrightarrow> t \<le> t1 + seconds LEASE_SECONDS)"
proof -
  let ?k = "(org, uid, key)"
  have wf1: "idem_wf db1"
    using idem_wf_begin [OF assms(1), of "alone t0 tok0" sha 0 rq key] assms(2) by (simp add: alone_def)
  obtain r where r: "get_by idem_key ?k (idem_rows db1) = Some r" "ir_status r = Processing"
    "io_record_id out = Some (ir_id r)" "ir_request_hash r = body_digest sha rq"
    "ir_lease_until r = Some (t0 + seconds LEASE_SECONDS)"
    using begin_durable [OF assms(2,3,4)] by (auto simp: alone_def)
  let ?db2 = "update_idem ?k (retake_expired t1 tok1) db1"
  have b: "begin_idempotency sha (alone t1 tok1) 0 rq key db1 = (Inr (owned tok1 (ir_id r) True), ?db2)"
    by (rule begin_alone_expired [OF assms(4) r(1,2,5) assms(5) r(4)])
  have r2: "get_by idem_key ?k (idem_rows ?db2) = Some (retake_expired t1 tok1 r)"
    using r(1) by (simp add: get_by_set_idem)
  have wf2: "idem_wf ?db2" by (rule idem_wf_update [OF wf1]) simp_all
  have "renew_idempotency_lease t rq key tok0 ?db2 = (Inr False, ?db2)"
    by (rule renew_fenced [OF wf2 assms(4) r2]) (simp add: retake_expired_def assms(6))
  then show ?thesis using b r(3) r2 assms(4,6)
    by (intro exI [of _ "ir_id r"] exI [of _ ?db2])
      (auto simp: complete_idempotency_def retake_expired_def expired_before_def)
qed

theorem takeover_fences_previous_holder_witness:
  "\<exists>i db2. io_record_id (owned ''t1'' 1 False) = Some i
    \<and> begin_idempotency (\<lambda>s. s) (alone 120000001 ''t2'') 0 sample_rq ''k1'' sample_ledger
        = (Inr (owned ''t2'' i True), db2)
    \<and> renew_idempotency_lease 120000002 sample_rq ''k1'' ''t1'' db2 = (Inr False, db2)
    \<and> complete_idempotency 120000002 sample_rq ''k1'' 200 ''done'' (Some ''t1'') db2 = (Inr False, db2)
    \<and> (fst (complete_idempotency 120000002 sample_rq ''k1'' 200 ''done'' (Some ''t2'') db2) = Inr True
         \<longleftrightarrow> (120000002::int) \<le> 120000001 + seconds LEASE_SECONDS)"
  by (rule takeover_fences_previous_holder [where db = empty_chat_db and ?t0.0 = 0 and org = 7 and uid = 3])
    (simp_all add: sample_ledger_eq begin_idempotency.simps resolve_context_def sample_rq_def
      empty_chat_db_def get_by_def alone_def body_digest_def Let_def owned_def seconds_def
      LEASE_SECONDS_def idem_wf_def)

text \<open>Replay.  After the holder has recorded a successful result with a reference, every retry
  of the same payload before the record expires is answered from the record, which hands back that
  reference, a retry with another payload is refused with 409, and neither changes the database.\<close>

theorem completed_request_replays:
  assumes "begin_idempotency sha w 0 rq key db = (Inr out, db1)" and "io_status out = Processing"
    and "resolve_context rq = Inr (org, uid)" and "io_lease_token out = Some tok"
    and "complete_idempotency t1 rq key st ref (Some tok) db1 = (Inr True, db2)"
    and "200 \<le> st" and "st < 300" and "ref \<noteq> []" and "resolve_context rq' = Inr (org, uid)"
    and "\<forall>r \<in> set (idem_rows db2). \<not> expired_before (ir_expires_at r) t2"
  shows "begin_idempotency sha (alone t2 tok2) 0 rq' key db2 =
      (if body_digest sha rq' = body_digest sha rq
       then Inr \<lparr>io_status = Completed, io_lease_token = None, io_record_id = io_record_id out,
                 io_is_recovery = False\<rparr>
       else Inl payload_mismatch, db2)
    \<and> read_cached_response rq' key db2 = Inr (Some ref)"
proof -
  let ?k = "(org, uid, key)"
  obtain r where r: "get_by idem_key ?k (idem_rows db1) = Some r"
    "io_record_id out = Some (ir_id r)" "ir_request_hash r = body_digest sha rq"
    using begin_durable [OF assms(1,2,3)] by blast
  have db2: "db2 = update_idem ?k (settle_idem st ref) db1"
    using assms(3,5) r(1) by (auto simp: complete_idempotency_def split: if_splits)
  let ?s = "settle_idem st ref r"
  have s: "get_by idem_key ?k (idem_rows db2) = Some ?s" using r(1) by (simp add: db2 get_by_set_idem)
  have f: "ir_status ?s = Completed" "ir_response_reference ?s = Some ref" "ir_id ?s = ir_id r"
    "ir_request_hash ?s = body_digest sha rq"
    using assms(6,7) r(3) by (simp_all add: settle_idem_def)
  have live: "\<not> expired_before (ir_expires_at ?s) t2"
    using get_by_SomeD [OF s] assms(10) by blast
  have all: "ir_status x = Completed" if "x \<in> set (idem_rows db2)" "idem_key x = ?k" for x
    using that assms(6,7) by (auto simp: db2 update_idem_def set_by_def settle_idem_def
        dest!: set_update_where)
  have "find (\<lambda>x. idem_key x = ?k \<and> ir_status x = Completed) (idem_rows db2)
          = find (\<lambda>x. idem_key x = ?k) (idem_rows db2)"
    using all by (intro find_cong) auto
  then have "read_cached_response rq' key db2 = Inr (Some ref)"
    using s f(2) assms(9) by (simp add: read_cached_response_def get_by_def)
  then show ?thesis
    using begin_alone_completed [OF assms(9) s f(1) live f(2) assms(8), of sha tok2 0] f(3,4) r(2)
    by (simp add: eq_commute)
qed

theorem completed_request_replays_witness:
  "begin_idempotency (\<lambda>s. s) (alone 9 ''t2'') 0 sample_rq ''k1''
       (snd (complete_idempotency 5 sample_rq ''k1'' 200 ''12'' (Some ''t1'') sample_ledger)) =
      (if body_digest (\<lambda>s. s) sample_rq = body_digest (\<lambda>s. s) sample_rq
       then Inr \<lparr>io_status = Completed, io_lease_token = None,
                 io_record_id = io_record_id (owned ''t1'' 1 False), io_is_recovery = False\<rparr>
       else Inl payload_mismatch,
       snd (complete_idempotency 5 sample_rq ''k1'' 200 ''12'' (Some ''t1'') sample_ledger))
    \<and> read_cached_response sample_rq ''k1''
       (snd (complete_idempotency 5 sample_rq ''k1'' 200 ''12'' (Some ''t1'') sample_ledger)) = Inr (Some ''12'')"
  by (rule completed_request_replays [where w = "alone 0 ''t1''" and db = empty_chat_db and org = 7
        and uid = 3 and tok = "''t1''" and ?t1.0 = 5 and st = 200 and ?db1.0 = sample_ledger])
    (simp_all add: sample_ledger_eq begin_idempotency.simps resolve_context_def sample_rq_def
      empty_chat_db_def get_by_def alone_def body_digest_def Let_def owned_def seconds_def
      LEASE_SECONDS_def complete_idempotency_def update_idem_def set_by_def update_where_def
      new_idem_row_def idem_key_def expired_before_def settle_idem_def DEFAULT_TTL_SECONDS_def)

text \<open>Schema.  Every interleaving of ledger calls keeps the unique key (organization, user, key),
  the primary key, and the sequence ahead of every id; ids are never handed out twice.\<close>

theorem ledger_keeps_unique_keys:
  assumes "ledger_run sha db db'" and "idem_wf db"
  shows "idem_wf db' \<and> next_row db \<le> next_row db'"
  using assms by (blast intro: ledger_run_wf ledger_run_next_row)

theorem ledger_keeps_unique_keys_witness:
  "idem_wf (snd (cleanup_expired_records 3 1000 sample_ledger))
   \<and> next_row empty_chat_db \<le> next_row (snd (cleanup_expired_records 3 1000 sample_ledger))"
proof (rule ledger_keeps_unique_keys)
  have "ledger_run (\<lambda>s. s) empty_chat_db (snd (begin_idempotency (\<lambda>s. s) (alone 0 ''t1'') 0 sample_rq ''k1'' empty_chat_db))"
    by (rule lr_begin [OF lr_start]) (simp add: alone_def lr_start)
  then show "ledger_run (\<lambda>s. s) empty_chat_db (snd (cleanup_expired_records 3 1000 sample_ledger))"
    unfolding sample_ledger_def sample_run_def by (rule lr_cleanup)
qed (simp add: idem_wf_def empty_chat_db_def)

text \<open>Clean-up removes exactly the settled records that have expired, and never one that is
  still being processed; the \<open>limit\<close> argument bounds nothing, so the count it returns is the same for
  every limit, zero included.\<close>

theorem cleanup_ignores_limit:
  "cleanup_expired_records now limit db = cleanup_expired_records now 0 db
   \<and> int (length (idem_rows (snd (cleanup_expired_records now limit db)))) =
       int (length (idem_rows db)) - fst (cleanup_expired_records now limit db)
   \<and> filter (\<lambda>r. ir_status r = Processing) (idem_rows (snd (cleanup_expired_records now limit db)))
       = filter (\<lambda>r. ir_status r = Processing) (idem_rows db)"
proof -
  let ?gone = "\<lambda>r. expired_before (ir_expires_at r) now \<and> ir_status r \<in> {Completed, Failed}"
  have "length (filter ?gone (idem_rows db)) + length (filter (\<lambda>r. \<not> ?gone r) (idem_rows db))
          = length (idem_rows db)"
    by (rule sum_length_filter_compl)
  moreover have "filter (\<lambda>r. ir_status r = Processing) (filter (\<lambda>r. \<not> ?gone r) (idem_rows db))
                   = filter (\<lambda>r. ir_status r = Processing) (idem_rows db)"
    by (auto simp: filter_filter intro: filter_cong)
  ultimately show ?thesis
    by (auto simp: cleanup_expired_records_def Let_def idem_rows_delete)
qed

end
