(* ===== verification/ChatPersistence.thy ===== *)
theory ChatPersistence
  imports Idempotency CostAccounting
begin

text \<open>
  The atomic persistence contract of one chat execution
  (\<^verbatim>\<open>application/chat_persistence.py\<close>).  An operation returns its result or the exception it
  raises, and the database it leaves behind: a rollback (explicit, or of the session when an
  exception escapes) leaves the database of the call, a commit leaves the changed one.  The
  database may fail any query, the flush and the commit, as the \<^typ>\<open>db_env\<close> of the call says;
  queries are numbered in the order the operation sends them.  One clock reading serves each call.
\<close>

datatype persistence_error =
    PersistenceConflict string
  | PersistenceUnavailable string
  | RetryLimitExceeded string
  | PersistenceValueError string

type_synonym 'a txn = "(persistence_error + 'a) \<times> chat_db"

record persisted_chat_execution =
  pce_execution_id :: string
  pce_user_message_id :: identity
  pce_assistant_message_id :: identity
  pce_status :: status

definition terminal_statuses :: "status set" where
  "terminal_statuses = {Completed, Failed, Cancelled}"

definition execution_identity ::
    "(string \<Rightarrow> string) \<Rightarrow> string \<Rightarrow> identity \<Rightarrow> identity \<Rightarrow> string option \<Rightarrow> identity option \<Rightarrow> string" where
  "execution_identity sha fresh org uid key record_id =
     (if py_or_empty key = [] then fresh
      else sha (str_int org @ '':'' @ str_int uid @ '':'' @ py_or_empty key @ '':''
                @ (case record_id of None \<Rightarrow> [] | Some i \<Rightarrow> if i = 0 then [] else str_int i)))"

section \<open>Queries, updates, commits\<close>

definition ask :: "db_env \<Rightarrow> nat \<Rightarrow> chat_db \<Rightarrow> 'a txn \<Rightarrow> 'a txn" where
  "ask env i db k =
     (if env_query_fails env i
      then (Inl (PersistenceUnavailable ''chat persistence query failed''), db) else k)"

definition commit_or_unavailable :: "db_env \<Rightarrow> chat_db \<Rightarrow> chat_db \<Rightarrow> persistence_error + 'a \<Rightarrow> 'a txn" where
  "commit_or_unavailable env db db' out =
     (if env_commit_fails env
      then (Inl (PersistenceUnavailable ''chat persistence is unavailable''), db) else (out, db'))"

definition find_execution :: "string \<Rightarrow> chat_db \<Rightarrow> chat_execution option" where
  "find_execution eid db = get_by ce_execution_id eid (executions db)"

definition update_execution :: "string \<Rightarrow> (chat_execution \<Rightarrow> chat_execution) \<Rightarrow> chat_db \<Rightarrow> chat_db" where
  "update_execution eid f db = db\<lparr>executions := set_by ce_execution_id eid f (executions db)\<rparr>"

definition update_message :: "identity \<Rightarrow> (message \<Rightarrow> message) \<Rightarrow> chat_db \<Rightarrow> chat_db" where
  "update_message i f db = db\<lparr>messages := set_by ms_id i f (messages db)\<rparr>"

definition find_idem :: "identity \<Rightarrow> chat_db \<Rightarrow> idempotency_record option" where
  "find_idem i db = get_by ir_id i (idem_rows db)"

definition update_idem_by_id ::
    "identity \<Rightarrow> (idempotency_record \<Rightarrow> idempotency_record) \<Rightarrow> chat_db \<Rightarrow> chat_db" where
  "update_idem_by_id i f db = db\<lparr>idem_rows := set_by ir_id i f (idem_rows db)\<rparr>"

definition assistant_of :: "chat_execution \<Rightarrow> chat_db \<Rightarrow> message option" where
  "assistant_of e db = find (\<lambda>m. Some (ms_id m) = ce_assistant_message_id e
     \<and> ms_execution_id m = Some (ce_execution_id e) \<and> ms_role m = ''assistant'') (messages db)"

definition snapshot :: "chat_execution \<Rightarrow> persistence_error + persisted_chat_execution" where
  "snapshot e = (case (ce_user_message_id e, ce_assistant_message_id e) of
     (Some u, Some a) \<Rightarrow> Inr \<lparr>pce_execution_id = ce_execution_id e, pce_user_message_id = u,
                           pce_assistant_message_id = a, pce_status = ce_status e\<rparr>
   | _ \<Rightarrow> Inl (PersistenceConflict ''execution message binding is incomplete''))"

text \<open>\<^verbatim>\<open>_assert_recovery_owner\<close>: \<open>None\<close> stands for the success of the check.\<close>

definition lease_lost :: "db_env \<Rightarrow> string option \<Rightarrow> idempotency_record option \<Rightarrow> bool" where
  "lease_lost env lease_token idem \<longleftrightarrow> (case idem of None \<Rightarrow> True
     | Some r \<Rightarrow> ir_status r \<noteq> Processing \<or> ir_lease_token r \<noteq> lease_token
                \<or> expired_before (ir_lease_until r) (env_now env))"

definition recovery_owner ::
    "db_env \<Rightarrow> nat \<Rightarrow> chat_execution \<Rightarrow> string option \<Rightarrow> chat_db
     \<Rightarrow> persistence_error + idempotency_record" where
  "recovery_owner env q e lease_token db =
     (case (ce_idempotency_record_id e, lease_token) of
        (Some i, Some _) \<Rightarrow>
          (if env_query_fails env q then Inl (PersistenceUnavailable ''chat persistence query failed'')
           else (case find_idem i db of
             None \<Rightarrow> Inl (PersistenceConflict ''recovery lease ownership was lost'')
           | Some r \<Rightarrow> if lease_lost env lease_token (Some r)
               then Inl (PersistenceConflict ''recovery lease ownership was lost'') else Inr r))
      | _ \<Rightarrow> Inl (PersistenceConflict ''recovery requires idempotency ownership''))"

definition bind_decision_error ::
    "db_env \<Rightarrow> nat \<Rightarrow> string \<Rightarrow> string \<Rightarrow> identity \<Rightarrow> identity \<Rightarrow> chat_db \<Rightarrow> persistence_error option" where
  "bind_decision_error env q did eid org uid db =
     (if env_query_fails env q then Some (PersistenceUnavailable ''chat persistence query failed'')
      else (case get_by gd_decision_id did (decisions db) of
        None \<Rightarrow> Some (PersistenceConflict ''governance decision binding is invalid'')
      | Some d \<Rightarrow>
          if \<not> gd_allowed d \<or> gd_finalized_at d \<noteq> None \<or> gd_organization_id d \<noteq> org
             \<or> gd_user_id d \<noteq> uid \<or> gd_execution_id d \<notin> {None, Some eid}
          then Some (PersistenceConflict ''governance decision binding is invalid'') else None))"

definition bind_decision :: "string \<Rightarrow> string \<Rightarrow> chat_db \<Rightarrow> chat_db" where
  "bind_decision did eid db = db\<lparr>decisions := set_by gd_decision_id did
     (\<lambda>d. d\<lparr>gd_execution_id := Some eid\<rparr>) (decisions db)\<rparr>"

text \<open>\<^verbatim>\<open>_bind_governance_decision\<close>: without a decision id nothing happens.\<close>

definition bind_governance_decision ::
    "db_env \<Rightarrow> nat \<Rightarrow> string option \<Rightarrow> string \<Rightarrow> identity \<Rightarrow> identity \<Rightarrow> chat_db
     \<Rightarrow> persistence_error + chat_db" where
  "bind_governance_decision env q did eid org uid db =
     (case did of
        None \<Rightarrow> Inr db
      | Some d \<Rightarrow> (case bind_decision_error env q d eid org uid db of
          Some e \<Rightarrow> Inl e | None \<Rightarrow> Inr (bind_decision d eid db)))"

section \<open>Preparing an exchange\<close>

record exchange_request =
  px_execution_id :: string
  px_request_id :: string
  px_conversation_id :: identity
  px_organization_id :: identity
  px_user_id :: identity
  px_bot_id :: identity
  px_bot_organization_id :: identity
  px_provider :: string
  px_model :: string
  px_prompt :: string
  px_idempotency_record_id :: "identity option"
  px_estimated_tokens :: int
  px_estimated_cost :: rat
  px_verification :: bool
  px_recover :: bool
  px_lease_token :: "string option"
  px_max_attempts :: int
  px_governance_decision_id :: "string option"

definition same_scope :: "exchange_request \<Rightarrow> chat_execution \<Rightarrow> bool" where
  "same_scope px e \<longleftrightarrow> ce_organization_id e = px_organization_id px \<and> ce_user_id e = px_user_id px
     \<and> ce_conversation_id e = px_conversation_id px \<and> ce_bot_id e = px_bot_id px
     \<and> ce_bot_organization_id e = px_bot_organization_id px
     \<and> ce_idempotency_record_id e = px_idempotency_record_id px
     \<and> ce_provider e = px_provider px \<and> ce_model e = px_model px"

definition exhaust_execution :: "microseconds \<Rightarrow> message \<Rightarrow> chat_execution \<Rightarrow> chat_execution" where
  "exhaust_execution now assistant e = e\<lparr>ce_status := Failed,
     ce_last_failure_code := Some RETRY_EXHAUSTED, ce_failure_retryable := False,
     ce_partial_response := ms_content assistant \<noteq> [], ce_completed_at := Some now\<rparr>"

definition mark_exhausted :: "microseconds \<Rightarrow> chat_execution \<Rightarrow> message \<Rightarrow> chat_db \<Rightarrow> chat_db" where
  "mark_exhausted now e a db =
     update_message (ms_id a) (\<lambda>m. m\<lparr>ms_status := Failed\<rparr>)
       (update_execution (ce_execution_id e) (exhaust_execution now a) db)"

definition retry_execution :: "microseconds \<Rightarrow> bool \<Rightarrow> chat_execution \<Rightarrow> chat_execution" where
  "retry_execution now governed e =
     (let crashed = (if ce_status e \<in> {Prepared, Streaming}
                     then e\<lparr>ce_last_failure_code := Some PROCESS_CRASH, ce_failure_retryable := True\<rparr>
                     else e)
      in crashed\<lparr>ce_status := Prepared, ce_attempt_count := ce_attempt_count e + 1,
           ce_recovered_at := Some now, ce_completed_at := None, ce_partial_response := False,
           ce_governance_audit_required := (governed \<or> ce_governance_audit_required e)\<rparr>)"

definition reservation_usage :: "chat_execution \<Rightarrow> provider_usage_record \<Rightarrow> bool" where
  "reservation_usage e u \<longleftrightarrow> pu_chat_execution_id u = ce_id e \<and> pu_usage_source u = ''reservation''"

definition add_reservation :: "exchange_request \<Rightarrow> provider_usage_record \<Rightarrow> provider_usage_record" where
  "add_reservation px u = u\<lparr>pu_total_tokens := pu_total_tokens u + px_estimated_tokens px,
     pu_estimated_cost := pu_estimated_cost u + px_estimated_cost px\<rparr>"

definition retry_db :: "db_env \<Rightarrow> exchange_request \<Rightarrow> chat_execution \<Rightarrow> message \<Rightarrow> chat_db \<Rightarrow> chat_db" where
  "retry_db env px e a db =
     (let db1 = update_execution (ce_execution_id e)
                  (retry_execution (env_now env) (px_governance_decision_id px \<noteq> None)) db;
          db2 = update_message (ms_id a) (\<lambda>m. m\<lparr>ms_content := [], ms_status := Pending\<rparr>) db1
      in db2\<lparr>usage_rows := update_where (reservation_usage e) (add_reservation px) (usage_rows db2)\<rparr>)"

definition recover_exchange ::
    "db_env \<Rightarrow> exchange_request \<Rightarrow> chat_execution \<Rightarrow> chat_db \<Rightarrow> persisted_chat_execution txn" where
  "recover_exchange env px e db =
     (if \<not> same_scope px e
      then (Inl (PersistenceConflict ''execution identity is bound to another scope''), db)
      else if \<not> px_recover px
      then (Inl (PersistenceConflict ''existing execution requires an owned recovery lease''), db)
      else (case recovery_owner env 1 e (px_lease_token px) db of
        Inl err \<Rightarrow> (Inl err, db)
      | Inr _ \<Rightarrow>
          ask env 2 db
            (case assistant_of e db of
               None \<Rightarrow> (Inl (PersistenceConflict ''assistant message binding is invalid''), db)
             | Some a \<Rightarrow>
                 if ce_max_attempts e \<le> ce_attempt_count e
                 then commit_or_unavailable env db (mark_exhausted (env_now env) e a db)
                        (Inl (RetryLimitExceeded ''execution retry limit was reached''))
                 else if ce_status e \<notin> {Prepared, Streaming} \<and> ce_status e \<notin> {Failed, Cancelled}
                 then (Inl (PersistenceConflict ''execution state is not recoverable''), db)
                 else if ce_status e \<notin> {Prepared, Streaming} \<and> \<not> ce_failure_retryable e
                 then (Inl (PersistenceConflict ''execution failure is not retryable''), db)
                 else ask env 3 db
                   (if find (reservation_usage e) (usage_rows db) = None
                    then (Inl (PersistenceConflict ''execution usage binding is invalid''), db)
                    else (case bind_governance_decision env 4 (px_governance_decision_id px)
                                (ce_execution_id e) (px_organization_id px) (px_user_id px)
                                (retry_db env px e a db) of
                        Inl err \<Rightarrow> (Inl err, db)
                      | Inr db' \<Rightarrow>
                          commit_or_unavailable env db db'
                            (snapshot (retry_execution (env_now env)
                                         (px_governance_decision_id px \<noteq> None) e)))))))"

definition new_execution :: "identity \<Rightarrow> exchange_request \<Rightarrow> chat_execution" where
  "new_execution i px =
     \<lparr>ce_id = i, ce_execution_id = px_execution_id px, ce_request_id = px_request_id px,
      ce_conversation_id = px_conversation_id px, ce_organization_id = px_organization_id px,
      ce_user_id = px_user_id px, ce_bot_id = px_bot_id px,
      ce_bot_organization_id = px_bot_organization_id px,
      ce_idempotency_record_id = px_idempotency_record_id px,
      ce_user_message_id = Some (i + 1), ce_assistant_message_id = Some (i + 2),
      ce_provider = px_provider px, ce_model = px_model px, ce_status = Prepared,
      ce_attempt_count = 1, ce_max_attempts = px_max_attempts px, ce_last_failure_code = None,
      ce_failure_retryable = False, ce_partial_response = False, ce_recovered_at = None,
      ce_governance_audit_required = (px_governance_decision_id px \<noteq> None), ce_completed_at = None\<rparr>"

definition new_message ::
    "identity \<Rightarrow> exchange_request \<Rightarrow> string \<Rightarrow> string \<Rightarrow> status \<Rightarrow> bool \<Rightarrow> microseconds \<Rightarrow> message" where
  "new_message i px role content st marked now =
     \<lparr>ms_id = i, ms_conversation_id = px_conversation_id px,
      ms_organization_id = px_organization_id px, ms_execution_id = Some (px_execution_id px),
      ms_role = role, ms_content = content, ms_bot_id = Some (px_bot_id px), ms_status = st,
      ms_ai_marked = marked, ms_created_at = now\<rparr>"

definition new_reservation_usage :: "identity \<Rightarrow> exchange_request \<Rightarrow> provider_usage_record" where
  "new_reservation_usage i px =
     \<lparr>pu_request_id = px_request_id px, pu_execution_id = px_execution_id px,
      pu_chat_execution_id = i, pu_user_id = px_user_id px,
      pu_organization_id = px_organization_id px, pu_provider = px_provider px,
      pu_model = px_model px, pu_operation = ''reservation'', pu_attempt = 1,
      pu_usage_source = ''reservation'', pu_pricing_revision = None, pu_input_tokens = 0,
      pu_output_tokens = 0, pu_total_tokens = px_estimated_tokens px,
      pu_estimated_cost = px_estimated_cost px, pu_actual_cost = None,
      pu_verification = px_verification px\<rparr>"

text \<open>The constraints the first flush is checked against: the unique reference to an idempotency
  record, its tenant-scoped foreign key, and one message per execution and role.\<close>

definition flush_rejected :: "exchange_request \<Rightarrow> chat_db \<Rightarrow> bool" where
  "flush_rejected px db \<longleftrightarrow>
     (case px_idempotency_record_id px of
        None \<Rightarrow> False
      | Some i \<Rightarrow> (\<exists>e \<in> set (executions db). ce_idempotency_record_id e = Some i)
          \<or> \<not> (\<exists>r \<in> set (idem_rows db). ir_id r = i \<and> ir_organization_id r = px_organization_id px
                \<and> ir_user_id r = px_user_id px))
     \<or> (\<exists>m \<in> set (messages db). ms_execution_id m = Some (px_execution_id px)
          \<and> ms_role m \<in> {''user'', ''assistant''})"

definition insert_exchange :: "db_env \<Rightarrow> exchange_request \<Rightarrow> chat_db \<Rightarrow> chat_db" where
  "insert_exchange env px db =
     (let i = next_row db in
      db\<lparr>executions := executions db @ [new_execution i px],
         messages := messages db
           @ [new_message (i + 1) px ''user'' (px_prompt px) Completed False (env_now env),
              new_message (i + 2) px ''assistant'' [] Pending True (env_now env)],
         next_row := i + 3\<rparr>)"

definition start_exchange ::
    "db_env \<Rightarrow> exchange_request \<Rightarrow> chat_db \<Rightarrow> persisted_chat_execution txn" where
  "start_exchange env px db =
     (if env_flush_fails env \<or> flush_rejected px db
      then (Inl (PersistenceUnavailable ''chat execution preparation could not be flushed''), db)
      else (case bind_governance_decision env 1 (px_governance_decision_id px) (px_execution_id px)
                  (px_organization_id px) (px_user_id px) (insert_exchange env px db) of
        Inl (PersistenceConflict c) \<Rightarrow> (Inl (PersistenceConflict c), db)
      | Inl _ \<Rightarrow> (Inl (PersistenceUnavailable ''chat execution preparation could not be flushed''), db)
      | Inr db' \<Rightarrow>
          if env_commit_fails env
          then (Inl (PersistenceUnavailable ''chat execution preparation could not be committed''), db)
          else (snapshot (new_execution (next_row db) px),
                db'\<lparr>usage_rows := usage_rows db' @ [new_reservation_usage (next_row db) px]\<rparr>)))"

definition prepare_exchange ::
    "db_env \<Rightarrow> exchange_request \<Rightarrow> chat_db \<Rightarrow> persisted_chat_execution txn" where
  "prepare_exchange env px db =
     ask env 0 db
       (case find_execution (px_execution_id px) db of
          Some e \<Rightarrow> recover_exchange env px e db
        | None \<Rightarrow> start_exchange env px db)"

section \<open>Streaming, recovery check, finalization\<close>

definition locked_execution ::
    "db_env \<Rightarrow> string \<Rightarrow> chat_db \<Rightarrow> (chat_execution \<Rightarrow> 'a txn) \<Rightarrow> 'a txn" where
  "locked_execution env eid db k =
     ask env 0 db
       (case find_execution eid db of
          None \<Rightarrow> (Inl (PersistenceConflict ''execution does not exist''), db)
        | Some e \<Rightarrow> k e)"

definition mark_streaming :: "db_env \<Rightarrow> string \<Rightarrow> chat_db \<Rightarrow> bool txn" where
  "mark_streaming env eid db =
     locked_execution env eid db (\<lambda>e.
       if ce_status e \<in> terminal_statuses then (Inr False, db)
       else ask env 1 db
         (case assistant_of e db of
            None \<Rightarrow> (Inl (PersistenceConflict ''assistant message binding is invalid''), db)
          | Some a \<Rightarrow>
              commit_or_unavailable env db
                (update_message (ms_id a) (\<lambda>m. m\<lparr>ms_status := Streaming\<rparr>)
                  (update_execution eid (\<lambda>e. e\<lparr>ce_status := Streaming\<rparr>) db))
                (Inr True)))"

definition exhaust_idem :: "idempotency_record \<Rightarrow> idempotency_record" where
  "exhaust_idem r = r\<lparr>ir_status := Failed,
     ir_response_status := Some (fp_response_status (failure_policy RETRY_EXHAUSTED)),
     ir_response_reference := Some ''failed'', ir_lease_until := None\<rparr>"

definition assert_recovery_allowed ::
    "db_env \<Rightarrow> string \<Rightarrow> identity \<Rightarrow> string option \<Rightarrow> chat_db \<Rightarrow> unit txn" where
  "assert_recovery_allowed env eid record_id lease_token db =
     ask env 0 db
       (case find_execution eid db of
          None \<Rightarrow> (Inr (), db)
        | Some e \<Rightarrow>
            if ce_idempotency_record_id e \<noteq> Some record_id
            then (Inl (PersistenceConflict ''recovery identity is bound to another record''), db)
            else (case recovery_owner env 1 e lease_token db of
              Inl err \<Rightarrow> (Inl err, db)
            | Inr r \<Rightarrow>
                ask env 2 db
                  (case assistant_of e db of
                     None \<Rightarrow> (Inl (PersistenceConflict ''assistant message binding is invalid''), db)
                   | Some a \<Rightarrow>
                       if ce_max_attempts e \<le> ce_attempt_count e
                       then commit_or_unavailable env db
                              (update_idem_by_id (ir_id r) exhaust_idem
                                (mark_exhausted (env_now env) e a db))
                              (Inl (RetryLimitExceeded ''execution retry limit was reached''))
                       else if ce_status e \<notin> {Prepared, Streaming, Failed, Cancelled}
                       then (Inl (PersistenceConflict ''execution state is not recoverable''), db)
                       else if ce_status e \<in> {Failed, Cancelled} \<and> \<not> ce_failure_retryable e
                       then (Inl (PersistenceConflict ''execution failure is not retryable''), db)
                       else (Inr (), db))))"

record finalize_request =
  fz_execution_id :: string
  fz_terminal_status :: status
  fz_content :: string
  fz_response_status :: int
  fz_response_reference :: string
  fz_lease_token :: "string option"
  fz_failure_code :: "failure_code option"
  fz_accounting :: "execution_cost list"

definition final_response_status :: "finalize_request \<Rightarrow> int" where
  "final_response_status fz = (case fz_failure_code fz of
     None \<Rightarrow> fz_response_status fz | Some c \<Rightarrow> fp_response_status (failure_policy c))"

definition final_execution :: "microseconds \<Rightarrow> finalize_request \<Rightarrow> chat_execution \<Rightarrow> chat_execution" where
  "final_execution now fz e =
     (let e1 = e\<lparr>ce_status := fz_terminal_status fz, ce_completed_at := Some now,
                 ce_partial_response := (fz_terminal_status fz \<noteq> Completed \<and> fz_content fz \<noteq> [])\<rparr>
      in case fz_failure_code fz of
           Some c \<Rightarrow> e1\<lparr>ce_last_failure_code := Some c,
                        ce_failure_retryable := fp_retryable (failure_policy c)\<rparr>
         | None \<Rightarrow> if fz_terminal_status fz = Completed
                   then e1\<lparr>ce_failure_retryable := False\<rparr> else e1)"

definition open_decision :: "chat_execution \<Rightarrow> governance_decision \<Rightarrow> bool" where
  "open_decision e d \<longleftrightarrow> gd_execution_id d = Some (ce_execution_id e)
     \<and> gd_organization_id d = ce_organization_id e \<and> gd_allowed d \<and> gd_finalized_at d = None"

definition status_text :: "status \<Rightarrow> string" where
  "status_text s = (case s of Processing \<Rightarrow> ''processing'' | Prepared \<Rightarrow> ''prepared''
     | Pending \<Rightarrow> ''pending'' | Streaming \<Rightarrow> ''streaming'' | Completed \<Rightarrow> ''completed''
     | Failed \<Rightarrow> ''failed'' | Cancelled \<Rightarrow> ''cancelled'')"

definition close_decision ::
    "microseconds \<Rightarrow> finalize_request \<Rightarrow> governance_decision \<Rightarrow> governance_decision" where
  "close_decision now fz d = d\<lparr>gd_result_status := Some (status_text (fz_terminal_status fz)),
     gd_response_status := Some (final_response_status fz),
     gd_failure_code := fz_failure_code fz, gd_finalized_at := Some now\<rparr>"

definition usage_of_cost :: "chat_execution \<Rightarrow> execution_cost \<Rightarrow> provider_usage_record" where
  "usage_of_cost e c =
     \<lparr>pu_request_id = ce_request_id e, pu_execution_id = ce_execution_id e,
      pu_chat_execution_id = ce_id e, pu_user_id = ce_user_id e,
      pu_organization_id = ce_organization_id e, pu_provider = ec_provider c,
      pu_model = ec_model c, pu_operation = ec_operation c, pu_attempt = ce_attempt_count e,
      pu_usage_source = ec_usage_source c, pu_pricing_revision = Some (ec_pricing_revision c),
      pu_input_tokens = ec_input_tokens c, pu_output_tokens = ec_output_tokens c,
      pu_total_tokens = ec_total_tokens c, pu_estimated_cost = 0, pu_actual_cost = Some (ec_cost c),
      pu_verification = (ec_operation c = ''verification'')\<rparr>"

definition same_entry :: "chat_execution \<Rightarrow> execution_cost \<Rightarrow> provider_usage_record \<Rightarrow> bool" where
  "same_entry e c u \<longleftrightarrow> pu_chat_execution_id u = ce_id e \<and> pu_attempt u = ce_attempt_count e
     \<and> pu_operation u = ec_operation c \<and> pu_usage_source u = ec_usage_source c"

text \<open>\<^verbatim>\<open>_record_accounting\<close>: \<open>q\<close> counts the queries, \<open>seen\<close> is the set of operations; each added row
  is flushed before the next query.\<close>

fun record_accounting ::
    "db_env \<Rightarrow> nat \<Rightarrow> chat_execution \<Rightarrow> string set \<Rightarrow> execution_cost list \<Rightarrow> chat_db
     \<Rightarrow> persistence_error + chat_db" where
  "record_accounting env q e seen [] db = Inr db"
| "record_accounting env q e seen (c # cs) db =
     (if ec_operation c \<in> seen
      then Inl (PersistenceConflict ''duplicate accounting operation'')
      else if ec_operation c = ''primary''
              \<and> (ec_provider c \<noteq> ce_provider e \<or> ec_model c \<noteq> ce_model e)
      then Inl (PersistenceConflict ''primary accounting binding is invalid'')
      else if env_query_fails env q
      then Inl (PersistenceUnavailable ''chat persistence query failed'')
      else if find (same_entry e c) (usage_rows db) \<noteq> None
      then Inl (PersistenceConflict ''execution accounting was already recorded'')
      else record_accounting env (Suc q) e (insert (ec_operation c) seen) cs
             (db\<lparr>usage_rows := usage_rows db @ [usage_of_cost e c]\<rparr>))"

definition fenced_idem ::
    "db_env \<Rightarrow> chat_execution \<Rightarrow> string option \<Rightarrow> chat_db \<Rightarrow> persistence_error option" where
  "fenced_idem env e lease_token db =
     (case ce_idempotency_record_id e of
        None \<Rightarrow> None
      | Some i \<Rightarrow>
          if env_query_fails env 1 then Some (PersistenceUnavailable ''chat persistence query failed'')
          else (case find_idem i db of
            None \<Rightarrow> Some (PersistenceConflict ''idempotency ownership was lost'')
          | Some r \<Rightarrow>
              if ir_status r \<noteq> Processing \<or> ir_lease_token r \<noteq> lease_token
              then Some (PersistenceConflict ''idempotency ownership was lost'')
              else if expired_before (ir_lease_until r) (env_now env)
              then Some (PersistenceConflict ''idempotency lease expired'') else None))"

definition final_db :: "db_env \<Rightarrow> finalize_request \<Rightarrow> chat_execution \<Rightarrow> message \<Rightarrow> chat_db \<Rightarrow> chat_db" where
  "final_db env fz e a db =
     (let db1 = update_execution (ce_execution_id e) (final_execution (env_now env) fz) db;
          db2 = update_message (ms_id a)
                  (\<lambda>m. m\<lparr>ms_status := fz_terminal_status fz, ms_content := fz_content fz\<rparr>) db1;
          db3 = (case ce_idempotency_record_id e of
                   None \<Rightarrow> db2
                 | Some i \<Rightarrow> update_idem_by_id i
                     (settle_idem (final_response_status fz) (fz_response_reference fz)) db2)
      in db3\<lparr>decisions := update_where (open_decision e) (close_decision (env_now env) fz)
               (decisions db3)\<rparr>)"

definition finalize :: "db_env \<Rightarrow> finalize_request \<Rightarrow> chat_db \<Rightarrow> bool txn" where
  "finalize env fz db =
     (if fz_terminal_status fz \<notin> terminal_statuses
      then (Inl (PersistenceValueError ''terminal_status must be completed, failed or cancelled''), db)
      else locked_execution env (fz_execution_id fz) db (\<lambda>e.
        if ce_status e \<in> terminal_statuses then (Inr False, db)
        else if fz_terminal_status fz \<noteq> Completed \<and> fz_failure_code fz = None
        then (Inl (PersistenceValueError ''terminal failures require a failure_code''), db)
        else (case fenced_idem env e (fz_lease_token fz) db of
          Some err \<Rightarrow> (Inl err, db)
        | None \<Rightarrow>
            ask env 2 db
              (case assistant_of e db of
                 None \<Rightarrow> (Inl (PersistenceConflict ''assistant message binding is invalid''), db)
               | Some a \<Rightarrow>
                   ask env 3 db
                     (if ce_governance_audit_required e
                         \<and> find (open_decision e) (decisions db) = None
                      then (Inl (PersistenceConflict ''governance audit binding is missing''), db)
                      else (case record_accounting env 4 e {} (fz_accounting fz) (final_db env fz e a db) of
                          Inl err \<Rightarrow> (Inl err, db)
                        | Inr db' \<Rightarrow>
                            if env_commit_fails env
                            then (Inl (PersistenceUnavailable
                                    ''chat execution finalization could not be committed''), db)
                            else (Inr True, db')))))))"

section \<open>How each operation ends\<close>

lemmas persistence_ops =
  prepare_exchange_def recover_exchange_def start_exchange_def mark_streaming_def
  assert_recovery_allowed_def finalize_def locked_execution_def ask_def commit_or_unavailable_def

lemma find_execution_SomeD:
  "find_execution eid db = Some e \<Longrightarrow> e \<in> set (executions db) \<and> ce_execution_id e = eid"
  unfolding find_execution_def by (rule get_by_SomeD)

lemma record_accounting_InrD:
  assumes "record_accounting env q e seen cs db = Inr db'"
  shows "db' = db\<lparr>usage_rows := usage_rows db @ map (usage_of_cost e) cs\<rparr>
    \<and> distinct (map ec_operation cs) \<and> set (map ec_operation cs) \<inter> seen = {}
    \<and> (\<forall>c \<in> set cs. ec_operation c = ''primary'' \<longrightarrow> ec_provider c = ce_provider e \<and> ec_model c = ce_model e)
    \<and> (\<forall>c \<in> set cs. \<forall>u \<in> set (usage_rows db). \<not> same_entry e c u)"
  using assms
proof (induction env q e seen cs db rule: record_accounting.induct)
  case (2 env q e seen c cs db)
  from "2.prems" have none: "find (same_entry e c) (usage_rows db) = None" and seen: "ec_operation c \<notin> seen"
    and rest: "record_accounting env (Suc q) e (insert (ec_operation c) seen) cs
      (db\<lparr>usage_rows := usage_rows db @ [usage_of_cost e c]\<rparr>) = Inr db'"
    and prim: "ec_operation c = ''primary'' \<Longrightarrow> ec_provider c = ce_provider e \<and> ec_model c = ce_model e"
    and q: "\<not> env_query_fails env q"
    by (simp_all split: if_splits)
  have "\<not> (ec_operation c = ''primary'' \<and> (ec_provider c \<noteq> ce_provider e \<or> ec_model c \<noteq> ce_model e))"
    using prim by blast
  from "2.IH" [OF seen this q _ rest] none
  have ih: "db' = db\<lparr>usage_rows := usage_rows db @ map (usage_of_cost e) (c # cs)\<rparr>"
      "distinct (map ec_operation cs)" "set (map ec_operation cs) \<inter> insert (ec_operation c) seen = {}"
      "\<forall>c \<in> set cs. ec_operation c = ''primary'' \<longrightarrow> ec_provider c = ce_provider e \<and> ec_model c = ce_model e"
      "\<forall>x \<in> set cs. \<forall>u \<in> set (usage_rows db). \<not> same_entry e x u"
    by simp_all
  have "\<forall>u \<in> set (usage_rows db). \<not> same_entry e c u" using none by (simp add: find_None_iff)
  with ih(5) have all: "\<forall>x \<in> set (c # cs). \<forall>u \<in> set (usage_rows db). \<not> same_entry e x u" by simp
  have "\<forall>x \<in> set (c # cs). ec_operation x = ''primary'' \<longrightarrow> ec_provider x = ce_provider e \<and> ec_model x = ce_model e"
    using ih(4) prim by simp
  moreover have "distinct (map ec_operation (c # cs))" "set (map ec_operation (c # cs)) \<inter> seen = {}"
    using ih(2,3) seen by auto
  ultimately show ?case using ih(1) all by blast
qed simp

lemma finalize_TrueD:
  assumes "finalize env fz db = (Inr True, db')"
  shows "\<exists>e a. find_execution (fz_execution_id fz) db = Some e \<and> ce_status e \<notin> terminal_statuses
    \<and> fz_terminal_status fz \<in> terminal_statuses
    \<and> (fz_terminal_status fz = Completed \<or> fz_failure_code fz \<noteq> None)
    \<and> fenced_idem env e (fz_lease_token fz) db = None \<and> assistant_of e db = Some a
    \<and> (ce_governance_audit_required e \<longrightarrow> find (open_decision e) (decisions db) \<noteq> None)
    \<and> record_accounting env 4 e {} (fz_accounting fz) (final_db env fz e a db) = Inr db'"
  using assms by (auto simp: persistence_ops split: if_splits option.splits sum.splits)

lemma finalize_only_commits_true:
  "finalize env fz db = (r, db') \<Longrightarrow> r \<noteq> Inr True \<Longrightarrow> db' = db"
  by (auto simp: persistence_ops split: if_splits option.splits sum.splits)

text \<open>A recovery either leaves the database alone, or closes an exhausted execution, or opens the next
  attempt; a fresh exchange is inserted as a whole or not at all.\<close>

definition recovery_exhausts ::
    "db_env \<Rightarrow> exchange_request \<Rightarrow> chat_execution \<Rightarrow> chat_db \<Rightarrow> message \<Rightarrow> bool" where
  "recovery_exhausts env px e db a \<longleftrightarrow> same_scope px e \<and> px_recover px
     \<and> (\<exists>rec. recovery_owner env 1 e (px_lease_token px) db = Inr rec)
     \<and> assistant_of e db = Some a \<and> ce_max_attempts e \<le> ce_attempt_count e"

definition recovery_retries ::
    "db_env \<Rightarrow> exchange_request \<Rightarrow> chat_execution \<Rightarrow> chat_db \<Rightarrow> message \<Rightarrow> bool" where
  "recovery_retries env px e db a \<longleftrightarrow> same_scope px e \<and> px_recover px
     \<and> (\<exists>rec. recovery_owner env 1 e (px_lease_token px) db = Inr rec)
     \<and> assistant_of e db = Some a \<and> ce_attempt_count e < ce_max_attempts e
     \<and> (ce_status e \<in> {Prepared, Streaming}
        \<or> ce_status e \<in> {Failed, Cancelled} \<and> ce_failure_retryable e)"

lemma recover_outcomes:
  "(snd (recover_exchange env px e db) = db \<and> (\<forall>x. fst (recover_exchange env px e db) \<noteq> Inr x))
   \<or> (\<exists>a. recovery_exhausts env px e db a
        \<and> snd (recover_exchange env px e db) = mark_exhausted (env_now env) e a db
        \<and> fst (recover_exchange env px e db) = Inl (RetryLimitExceeded ''execution retry limit was reached''))
   \<or> (\<exists>a. recovery_retries env px e db a
        \<and> bind_governance_decision env 4 (px_governance_decision_id px) (ce_execution_id e)
            (px_organization_id px) (px_user_id px) (retry_db env px e a db)
            = Inr (snd (recover_exchange env px e db))
        \<and> fst (recover_exchange env px e db)
            = snapshot (retry_execution (env_now env) (px_governance_decision_id px \<noteq> None) e))"
proof (cases "recovery_owner env 1 e (px_lease_token px) db")
  case (Inl err)
  then show ?thesis by (simp add: recover_exchange_def)
next
  case own: (Inr rec)
  show ?thesis
  proof (cases "assistant_of e db")
    case None
    with own show ?thesis by (simp add: recover_exchange_def ask_def)
  next
    case a: (Some a)
    show ?thesis
    proof (cases "bind_governance_decision env 4 (px_governance_decision_id px) (ce_execution_id e)
         (px_organization_id px) (px_user_id px) (retry_db env px e a db)")
      case (Inl err)
      with own a show ?thesis
        by (simp add: recover_exchange_def ask_def commit_or_unavailable_def recovery_exhausts_def)
    next
      case (Inr db1)
      with own a show ?thesis
        by (simp add: recover_exchange_def ask_def commit_or_unavailable_def recovery_exhausts_def
            recovery_retries_def not_le)
    qed
  qed
qed

lemma start_outcomes:
  "(snd (start_exchange env px db) = db \<and> (\<forall>x. fst (start_exchange env px db) \<noteq> Inr x))
   \<or> (\<exists>db1. \<not> flush_rejected px db
        \<and> bind_governance_decision env 1 (px_governance_decision_id px) (px_execution_id px)
            (px_organization_id px) (px_user_id px) (insert_exchange env px db) = Inr db1
        \<and> snd (start_exchange env px db)
            = db1\<lparr>usage_rows := usage_rows db1 @ [new_reservation_usage (next_row db) px]\<rparr>
        \<and> fst (start_exchange env px db) = snapshot (new_execution (next_row db) px))"
  by (simp add: start_exchange_def split: sum.split persistence_error.split)

section \<open>Consistency of the tables\<close>

text \<open>How the assistant message shows the state of its execution.\<close>

fun shows_as :: "status \<Rightarrow> status" where
  "shows_as Prepared = Pending"
| "shows_as s = s"

definition execution_ok :: "chat_execution \<Rightarrow> bool" where
  "execution_ok e \<longleftrightarrow> ce_status e \<in> {Prepared, Streaming} \<union> terminal_statuses
     \<and> (ce_completed_at e \<noteq> None \<longleftrightarrow> ce_status e \<in> terminal_statuses)
     \<and> 1 \<le> ce_attempt_count e \<and> ce_attempt_count e \<le> max 1 (ce_max_attempts e)
     \<and> ce_user_message_id e \<noteq> None \<and> (ce_status e = Completed \<longrightarrow> \<not> ce_partial_response e)"

definition answer_ok :: "chat_db \<Rightarrow> chat_execution \<Rightarrow> bool" where
  "answer_ok db e \<longleftrightarrow> (\<exists>a. assistant_of e db = Some a \<and> ms_status a = shows_as (ce_status e))"

definition chat_wf :: "chat_db \<Rightarrow> bool" where
  "chat_wf db \<longleftrightarrow> idem_wf db \<and> distinct (map ce_execution_id (executions db))
     \<and> distinct (map ms_id (messages db)) \<and> (\<forall>m \<in> set (messages db). ms_id m < next_row db)
     \<and> (\<forall>e \<in> set (executions db). execution_ok e \<and> answer_ok db e)
     \<and> (\<forall>i. count_list (map ce_idempotency_record_id (executions db)) (Some i) \<le> 1)"

lemma assistant_of_SomeD:
  "assistant_of e db = Some a \<Longrightarrow> a \<in> set (messages db) \<and> ce_assistant_message_id e = Some (ms_id a)
     \<and> ms_execution_id a = Some (ce_execution_id e) \<and> ms_role a = ''assistant''"
  unfolding assistant_of_def by (auto dest!: find_SomeD)

lemma assistant_of_cong:
  "ce_assistant_message_id e = ce_assistant_message_id e' \<Longrightarrow> ce_execution_id e = ce_execution_id e' \<Longrightarrow>
   messages db = messages db' \<Longrightarrow> assistant_of e db = assistant_of e' db'"
  by (simp add: assistant_of_def)

definition keeps_message :: "(message \<Rightarrow> message) \<Rightarrow> bool" where
  "keeps_message g \<longleftrightarrow> (\<forall>m. ms_id (g m) = ms_id m \<and> ms_execution_id (g m) = ms_execution_id m
     \<and> ms_role (g m) = ms_role m)"

definition keeps_execution :: "(chat_execution \<Rightarrow> chat_execution) \<Rightarrow> bool" where
  "keeps_execution f \<longleftrightarrow> (\<forall>e. ce_execution_id (f e) = ce_execution_id e
     \<and> ce_user_message_id (f e) = ce_user_message_id e
     \<and> ce_assistant_message_id (f e) = ce_assistant_message_id e
     \<and> ce_idempotency_record_id (f e) = ce_idempotency_record_id e)"

lemma assistant_of_update:
  assumes "keeps_message g" and "messages db' = set_by ms_id i g (messages db)"
  shows "assistant_of e db' = map_option (\<lambda>m. if ms_id m = i then g m else m) (assistant_of e db)"
  using assms unfolding assistant_of_def set_by_def update_where_def keeps_message_def
  by (subst assms(2)) (simp add: set_by_def update_where_def, subst find_map_stable, auto)

lemma executions_lookup:
  "chat_wf db \<Longrightarrow> e \<in> set (executions db) \<Longrightarrow> find_execution (ce_execution_id e) db = Some e"
  by (simp add: chat_wf_def find_execution_def get_by_distinct)

text \<open>One execution and its answer advance together; everything else stays.\<close>

definition advances ::
    "chat_execution \<Rightarrow> message \<Rightarrow> (chat_execution \<Rightarrow> chat_execution) \<Rightarrow> (message \<Rightarrow> message)
     \<Rightarrow> chat_db \<Rightarrow> chat_db \<Rightarrow> bool" where
  "advances e a f g db db' \<longleftrightarrow> keeps_execution f \<and> keeps_message g
     \<and> executions db' = set_by ce_execution_id (ce_execution_id e) f (executions db)
     \<and> messages db' = set_by ms_id (ms_id a) g (messages db) \<and> next_row db' = next_row db"

lemma advances_lookup:
  assumes "advances e a f g db db'"
  shows "find_execution eid db' =
    (if eid = ce_execution_id e then map_option f (find_execution eid db) else find_execution eid db)"
  using assms unfolding advances_def find_execution_def
  by (simp add: rows.fetch_modify keeps_key_def keeps_execution_def)

lemma advances_own_answer:
  assumes "advances e a f g db db'" and "assistant_of e db = Some a"
  shows "assistant_of (f e) db' = Some (g a)"
proof -
  have "assistant_of (f e) db' = assistant_of e db'"
    using assms(1) by (intro assistant_of_cong) (auto simp: advances_def keeps_execution_def)
  also have "\<dots> = Some (g a)"
    using assistant_of_update [of g db' "ms_id a" db e] assms by (simp add: advances_def)
  finally show ?thesis .
qed

lemma advances_other_answer:
  assumes "advances e a f g db db'" and "assistant_of e db = Some a"
    and "ce_execution_id x \<noteq> ce_execution_id e" and "distinct (map ms_id (messages db))"
  shows "assistant_of x db' = assistant_of x db"
proof (cases "assistant_of x db")
  case None
  then show ?thesis using assistant_of_update [of g db' "ms_id a" db x] assms(1) by (simp add: advances_def)
next
  case (Some b)
  have "b \<noteq> a" using assistant_of_SomeD [OF Some] assistant_of_SomeD [OF assms(2)] assms(3) by auto
  then have "ms_id b \<noteq> ms_id a"
    using assistant_of_SomeD [OF Some] assistant_of_SomeD [OF assms(2)] assms(4)
    by (auto simp: distinct_map dest: inj_onD)
  then show ?thesis
    using assistant_of_update [of g db' "ms_id a" db x] assms(1) Some by (simp add: advances_def)
qed

lemma advances_wf:
  assumes wf: "chat_wf db" and adv: "advances e a f g db db'" and idem: "idem_wf db'"
    and e: "find_execution eid db = Some e" and a: "assistant_of e db = Some a"
    and ok: "execution_ok (f e)" and mirror: "ms_status (g a) = shows_as (ce_status (f e))"
  shows "chat_wf db'"
proof -
  have parts: "executions db' = update_where (\<lambda>r. ce_execution_id r = ce_execution_id e) f (executions db)"
    "messages db' = update_where (\<lambda>r. ms_id r = ms_id a) g (messages db)"
    "keeps_execution f" "keeps_message g" "next_row db' = next_row db"
    using adv by (auto simp: advances_def set_by_def)
  have ids: "map ce_execution_id (executions db') = map ce_execution_id (executions db)"
    "map ms_id (messages db') = map ms_id (messages db)"
    "map ce_idempotency_record_id (executions db') = map ce_idempotency_record_id (executions db)"
    unfolding parts(1,2) using parts(3,4)
    by (auto simp: keeps_execution_def keeps_message_def intro!: map_update_where)
  have "execution_ok x \<and> answer_ok db' x" if x: "x \<in> set (executions db')" for x
  proof (cases "ce_execution_id x = ce_execution_id e")
    case True
    obtain x0 where "x0 \<in> set (executions db)" "x = f x0" "ce_execution_id x0 = ce_execution_id e"
      using x True parts(3) unfolding parts(1) keeps_execution_def by (auto dest!: set_update_where)
    moreover have "find_execution (ce_execution_id e) db = Some e"
      using find_execution_SomeD [OF e] executions_lookup [OF wf] by blast
    ultimately have "x = f e" using executions_lookup [OF wf] by fastforce
    then show ?thesis using ok mirror advances_own_answer [OF adv a] by (simp add: answer_ok_def)
  next
    case False
    then have "x \<in> set (executions db)"
      using x parts(3) unfolding parts(1) keeps_execution_def by (auto dest!: set_update_where)
    then show ?thesis
      using wf advances_other_answer [OF adv a False] by (auto simp: chat_wf_def answer_ok_def)
  qed
  moreover have "\<forall>m \<in> set (messages db'). ms_id m < next_row db'"
    using wf ids(2) parts(5) unfolding chat_wf_def by (metis (no_types, lifting) image_iff list.set_map)
  ultimately show ?thesis using wf ids idem by (simp add: chat_wf_def)
qed

lemma idem_wf_cong:
  "idem_wf db \<Longrightarrow> idem_rows db' = idem_rows db \<Longrightarrow> next_row db \<le> next_row db' \<Longrightarrow> idem_wf db'"
  by (fastforce simp: idem_wf_def)

lemma idem_wf_update_by_id:
  assumes "idem_wf db" and "\<And>r. idem_key (f r) = idem_key r" and "\<And>r. ir_id (f r) = ir_id r"
  shows "idem_wf (update_idem_by_id i f db)"
  using assms unfolding idem_wf_def update_idem_by_id_def
  by (auto simp: set_by_def map_update_where dest!: set_update_where)

lemma update_projections [simp]:
  "idem_rows (update_execution eid f db) = idem_rows db"
  "messages (update_execution eid f db) = messages db"
  "usage_rows (update_execution eid f db) = usage_rows db"
  "decisions (update_execution eid f db) = decisions db"
  "next_row (update_execution eid f db) = next_row db"
  "executions (update_execution eid f db) = set_by ce_execution_id eid f (executions db)"
  "idem_rows (update_message i g db) = idem_rows db"
  "executions (update_message i g db) = executions db"
  "usage_rows (update_message i g db) = usage_rows db"
  "decisions (update_message i g db) = decisions db"
  "next_row (update_message i g db) = next_row db"
  "messages (update_message i g db) = set_by ms_id i g (messages db)"
  "executions (update_idem_by_id i h db) = executions db"
  "messages (update_idem_by_id i h db) = messages db"
  "usage_rows (update_idem_by_id i h db) = usage_rows db"
  "decisions (update_idem_by_id i h db) = decisions db"
  "next_row (update_idem_by_id i h db) = next_row db"
  "idem_rows (update_idem_by_id i h db) = set_by ir_id i h (idem_rows db)"
  "executions (bind_decision d eid db) = executions db"
  "messages (bind_decision d eid db) = messages db"
  "idem_rows (bind_decision d eid db) = idem_rows db"
  "usage_rows (bind_decision d eid db) = usage_rows db"
  "next_row (bind_decision d eid db) = next_row db"
  by (simp_all add: update_execution_def update_message_def update_idem_by_id_def bind_decision_def)

lemma bind_governance_InrD:
  "bind_governance_decision env q did eid org uid db = Inr db' \<Longrightarrow>
     executions db' = executions db \<and> messages db' = messages db \<and> idem_rows db' = idem_rows db
     \<and> usage_rows db' = usage_rows db \<and> next_row db' = next_row db"
  by (auto simp: bind_governance_decision_def split: option.splits)

lemma keeps_transitions [simp]:
  "keeps_execution (exhaust_execution now a)"
  "keeps_execution (retry_execution now governed)"
  "keeps_execution (final_execution now fz)"
  "keeps_execution (\<lambda>e. e\<lparr>ce_status := s\<rparr>)"
  "keeps_message (\<lambda>m. m\<lparr>ms_status := s\<rparr>)"
  "keeps_message (\<lambda>m. m\<lparr>ms_content := t, ms_status := s\<rparr>)"
  "keeps_message (\<lambda>m. m\<lparr>ms_status := s, ms_content := t\<rparr>)"
  by (auto simp: keeps_execution_def keeps_message_def exhaust_execution_def retry_execution_def
      final_execution_def Let_def split: option.splits)

lemma transitions_ok:
  "execution_ok e \<Longrightarrow> execution_ok (exhaust_execution now a e)"
  "execution_ok e \<Longrightarrow> ce_attempt_count e < ce_max_attempts e \<Longrightarrow> execution_ok (retry_execution now gov e)"
  "execution_ok e \<Longrightarrow> fz_terminal_status fz \<in> terminal_statuses \<Longrightarrow> execution_ok (final_execution now fz e)"
  "execution_ok e \<Longrightarrow> ce_status e \<notin> terminal_statuses \<Longrightarrow> execution_ok (e\<lparr>ce_status := Streaming\<rparr>)"
  by (auto simp: execution_ok_def exhaust_execution_def retry_execution_def final_execution_def
      terminal_statuses_def Let_def split: option.splits)

lemma transition_statuses [simp]:
  "ce_status (exhaust_execution now a e) = Failed"
  "ce_status (retry_execution now gov e) = Prepared"
  "ce_status (final_execution now fz e) = fz_terminal_status fz"
  "ce_attempt_count (retry_execution now gov e) = ce_attempt_count e + 1"
  "ce_attempt_count (exhaust_execution now a e) = ce_attempt_count e"
  "ce_max_attempts (exhaust_execution now a e) = ce_max_attempts e"
  by (simp_all add: exhaust_execution_def retry_execution_def final_execution_def Let_def
      split: option.split)

lemma shows_as_terminal: "s \<in> terminal_statuses \<Longrightarrow> shows_as s = s"
  by (auto simp: terminal_statuses_def)

lemma mark_exhausted_advances:
  "advances e a (exhaust_execution now a) (\<lambda>m. m\<lparr>ms_status := Failed\<rparr>) db (mark_exhausted now e a db)"
  by (simp add: advances_def mark_exhausted_def)

lemma retry_advances:
  "bind_governance_decision env q did eid org uid (retry_db env px e a db) = Inr db' \<Longrightarrow>
   advances e a (retry_execution (env_now env) (px_governance_decision_id px \<noteq> None))
     (\<lambda>m. m\<lparr>ms_content := [], ms_status := Pending\<rparr>) db db' \<and> idem_rows db' = idem_rows db"
  by (drule bind_governance_InrD) (simp add: advances_def retry_db_def Let_def)

lemma final_db_advances:
  "advances e a (final_execution (env_now env) fz)
     (\<lambda>m. m\<lparr>ms_status := fz_terminal_status fz, ms_content := fz_content fz\<rparr>) db
     (final_db env fz e a db\<lparr>usage_rows := us\<rparr>)"
  by (simp add: advances_def final_db_def Let_def split: option.split)

lemma final_db_idem_wf: "idem_wf db \<Longrightarrow> idem_wf (final_db env fz e a db\<lparr>usage_rows := us\<rparr>)"
proof -
  assume wf: "idem_wf db"
  let ?h = "settle_idem (final_response_status fz) (fz_response_reference fz)"
  have "idem_rows (final_db env fz e a db) = (case ce_idempotency_record_id e of None \<Rightarrow> idem_rows db
          | Some i \<Rightarrow> idem_rows (update_idem_by_id i ?h db))"
    by (simp add: final_db_def Let_def split: option.split)
  moreover have "next_row (final_db env fz e a db) = next_row db"
    by (simp add: final_db_def Let_def split: option.split)
  moreover have "idem_wf (update_idem_by_id i ?h db)" for i
    by (rule idem_wf_update_by_id [OF wf]) simp_all
  ultimately show ?thesis using wf by (auto simp: idem_wf_def split: option.splits)
qed

lemma chat_wf_parts:
  assumes "chat_wf db" and "find_execution eid db = Some e"
  shows "execution_ok e" and "answer_ok db e" and "idem_wf db"
  using assms find_execution_SomeD [OF assms(2)] by (auto simp: chat_wf_def)

lemma chat_wf_finalize:
  assumes "chat_wf db"
  shows "chat_wf (snd (finalize env fz db))"
proof (cases "finalize env fz db = (Inr True, snd (finalize env fz db))")
  case True
  let ?db' = "snd (finalize env fz db)"
  obtain e a where e: "find_execution (fz_execution_id fz) db = Some e"
    and t: "fz_terminal_status fz \<in> terminal_statuses" and a: "assistant_of e db = Some a"
    and r: "record_accounting env 4 e {} (fz_accounting fz) (final_db env fz e a db) = Inr ?db'"
    using finalize_TrueD [OF True] by blast
  let ?us = "usage_rows (final_db env fz e a db) @ map (usage_of_cost e) (fz_accounting fz)"
  have db': "?db' = final_db env fz e a db\<lparr>usage_rows := ?us\<rparr>"
    using record_accounting_InrD [OF r] by blast
  show ?thesis
    unfolding db'
    by (rule advances_wf [OF assms final_db_advances final_db_idem_wf e a])
      (use chat_wf_parts [OF assms e] t in \<open>simp_all add: transitions_ok shows_as_terminal\<close>)
next
  case False
  then show ?thesis using finalize_only_commits_true [of env fz db] assms by (metis prod.collapse)
qed

lemma chat_wf_mark_exhausted:
  assumes "chat_wf db" and "find_execution eid db = Some e" and "assistant_of e db = Some a"
  shows "chat_wf (mark_exhausted now e a db)"
  by (rule advances_wf [OF assms(1) mark_exhausted_advances _ assms(2,3)])
    (use chat_wf_parts [OF assms(1,2)] in
      \<open>simp_all add: transitions_ok mark_exhausted_def idem_wf_cong [of db]\<close>)

lemma chat_wf_mark_streaming:
  assumes "chat_wf db"
  shows "chat_wf (snd (mark_streaming env eid db))"
proof -
  have "chat_wf (update_message (ms_id a) (\<lambda>m. m\<lparr>ms_status := Streaming\<rparr>)
                  (update_execution eid (\<lambda>e. e\<lparr>ce_status := Streaming\<rparr>) db))" (is "chat_wf ?db'")
    if e: "find_execution eid db = Some e" and s: "ce_status e \<notin> terminal_statuses"
      and a: "assistant_of e db = Some a" for e a
    by (rule advances_wf [OF assms _ _ e a, where f = "\<lambda>e. e\<lparr>ce_status := Streaming\<rparr>"
          and g = "\<lambda>m. m\<lparr>ms_status := Streaming\<rparr>"])
      (use find_execution_SomeD [OF e] chat_wf_parts [OF assms e] s in
        \<open>simp_all add: advances_def transitions_ok idem_wf_cong [of db]\<close>)
  then show ?thesis using assms
    by (auto simp: mark_streaming_def locked_execution_def ask_def commit_or_unavailable_def
        split: option.splits)
qed

lemma recovery_owner_InrD:
  "recovery_owner env q e token db = Inr r \<Longrightarrow> \<exists>i t. ce_idempotency_record_id e = Some i
     \<and> token = Some t \<and> find_idem i db = Some r \<and> ir_status r = Processing
     \<and> ir_lease_token r = Some t \<and> \<not> expired_before (ir_lease_until r) (env_now env)"
  by (auto simp: recovery_owner_def lease_lost_def split: option.splits if_splits)

lemma allowed_outcomes:
  "snd (assert_recovery_allowed env eid i token db) = db
   \<or> (\<exists>e a r. find_execution eid db = Some e \<and> assistant_of e db = Some a
        \<and> recovery_owner env 1 e token db = Inr r \<and> ce_max_attempts e \<le> ce_attempt_count e
        \<and> snd (assert_recovery_allowed env eid i token db)
            = update_idem_by_id (ir_id r) exhaust_idem (mark_exhausted (env_now env) e a db))"
  by (auto simp: assert_recovery_allowed_def ask_def commit_or_unavailable_def
      split: option.split sum.split)

lemma chat_wf_assert_recovery_allowed:
  assumes "chat_wf db"
  shows "chat_wf (snd (assert_recovery_allowed env eid i token db))"
  using allowed_outcomes [of env eid i token db]
proof (elim disjE exE conjE)
  fix e a r
  assume e: "find_execution eid db = Some e" and a: "assistant_of e db = Some a"
    and out: "snd (assert_recovery_allowed env eid i token db)
      = update_idem_by_id (ir_id r) exhaust_idem (mark_exhausted (env_now env) e a db)"
  let ?db1 = "mark_exhausted (env_now env) e a db"
  have wf1: "chat_wf ?db1" by (rule chat_wf_mark_exhausted [OF assms e a])
  have "idem_wf (update_idem_by_id (ir_id r) exhaust_idem ?db1)"
    by (rule idem_wf_update_by_id) (use wf1 in \<open>simp_all add: chat_wf_def exhaust_idem_def\<close>)
  then show ?thesis using wf1 unfolding out by (simp add: chat_wf_def answer_ok_def assistant_of_def)
qed (use assms in simp)

lemma insert_exchange_wf:
  assumes wf: "chat_wf db" and fresh: "find_execution (px_execution_id px) db = None"
    and ok: "\<not> flush_rejected px db"
  shows "chat_wf (insert_exchange env px db)"
proof -
  let ?i = "next_row db" and ?db' = "insert_exchange env px db"
  let ?e = "new_execution ?i px"
  let ?u = "new_message (?i + 1) px ''user'' (px_prompt px) Completed False (env_now env)"
  let ?a = "new_message (?i + 2) px ''assistant'' [] Pending True (env_now env)"
  have parts: "executions ?db' = executions db @ [?e]" "messages ?db' = messages db @ [?u, ?a]"
    "idem_rows ?db' = idem_rows db" "next_row ?db' = ?i + 3"
    by (simp_all add: insert_exchange_def Let_def)
  have old: "\<forall>m \<in> set (messages db). ms_id m < ?i" using wf by (simp add: chat_wf_def)
  have new_ids: "ce_execution_id ?e = px_execution_id px" "ms_id ?u = ?i + 1" "ms_id ?a = ?i + 2"
    "ce_assistant_message_id ?e = Some (?i + 2)" "ms_execution_id ?a = Some (px_execution_id px)"
    "ms_role ?a = ''assistant''" "ms_role ?u = ''user''" "ms_status ?a = Pending" "ce_status ?e = Prepared"
    "ce_idempotency_record_id ?e = px_idempotency_record_id px"
    by (simp_all add: new_execution_def new_message_def)
  have "find (\<lambda>m. Some (ms_id m) = ce_assistant_message_id ?e \<and> ms_execution_id m = Some (ce_execution_id ?e)
          \<and> ms_role m = ''assistant'') (messages db) = None"
    using old by (auto simp: find_None_iff new_ids)
  then have mine: "answer_ok ?db' ?e"
    unfolding answer_ok_def assistant_of_def parts(2) by (simp add: find_append new_ids)
  have others: "answer_ok ?db' x" if "answer_ok db x" for x
    using that unfolding answer_ok_def assistant_of_def parts(2) by (auto simp: find_append)
  have "px_execution_id px \<notin> ce_execution_id ` set (executions db)"
    using fresh by (auto simp: find_execution_def get_by_None_key)
  moreover have "execution_ok ?e" by (simp add: execution_ok_def new_execution_def terminal_statuses_def)
  moreover have "count_list (map ce_idempotency_record_id (executions db)) (Some i) = 0"
    if "px_idempotency_record_id px = Some i" for i
    using ok that by (auto simp: flush_rejected_def count_list_0_iff)
  ultimately show ?thesis
    using wf mine others old idem_wf_cong [of db ?db']
    unfolding chat_wf_def parts by (auto simp: new_ids intro: less_le_trans)
qed

lemma chat_wf_cong:
  assumes "chat_wf db" and "idem_rows db' = idem_rows db" and "executions db' = executions db"
    and "messages db' = messages db" and "next_row db' = next_row db"
  shows "chat_wf db'"
  using assms idem_wf_cong [of db db'] by (simp add: chat_wf_def answer_ok_def assistant_of_def)

lemma chat_wf_prepare:
  assumes wf: "chat_wf db"
  shows "chat_wf (snd (prepare_exchange env px db))"
proof (cases "find_execution (px_execution_id px) db")
  case None
  have "chat_wf (snd (start_exchange env px db))"
    using start_outcomes [of env px db]
  proof (elim disjE exE conjE)
    fix db1
    assume "\<not> flush_rejected px db"
      and b: "bind_governance_decision env 1 (px_governance_decision_id px) (px_execution_id px)
            (px_organization_id px) (px_user_id px) (insert_exchange env px db) = Inr db1"
      and out: "snd (start_exchange env px db)
            = db1\<lparr>usage_rows := usage_rows db1 @ [new_reservation_usage (next_row db) px]\<rparr>"
    then have "chat_wf (insert_exchange env px db)" by (intro insert_exchange_wf [OF wf None])
    then show ?thesis unfolding out by (rule chat_wf_cong) (use bind_governance_InrD [OF b] in simp_all)
  qed (use wf in simp)
  with None wf show ?thesis by (simp add: prepare_exchange_def ask_def)
next
  case e: (Some e)
  have "chat_wf (snd (recover_exchange env px e db))"
    using recover_outcomes [of env px e db]
  proof (elim disjE exE conjE)
    fix a
    assume "recovery_exhausts env px e db a"
      and "snd (recover_exchange env px e db) = mark_exhausted (env_now env) e a db"
    then show ?thesis using chat_wf_mark_exhausted [OF wf e] by (simp add: recovery_exhausts_def)
  next
    fix a
    assume ra: "recovery_retries env px e db a"
      and b: "bind_governance_decision env 4 (px_governance_decision_id px) (ce_execution_id e)
            (px_organization_id px) (px_user_id px) (retry_db env px e a db)
            = Inr (snd (recover_exchange env px e db))"
    have a: "assistant_of e db = Some a" and n: "ce_attempt_count e < ce_max_attempts e"
      using ra by (auto simp: recovery_retries_def)
    note adv = retry_advances [OF b]
    show ?thesis
      by (rule advances_wf [OF wf conjunct1 [OF adv] _ e a])
        (use adv chat_wf_parts [OF wf e] n in
          \<open>simp_all add: transitions_ok idem_wf_cong [of db] advances_def\<close>)
  qed (use wf in simp)
  with e wf show ?thesis by (simp add: prepare_exchange_def ask_def)
qed

text \<open>The ledger's own operations on the shared tables.\<close>

lemma chat_wf_ledger:
  assumes "chat_wf db" and "idem_wf db'" and "executions db' = executions db"
    and "messages db' = messages db" and "next_row db \<le> next_row db'"
  shows "chat_wf db'"
  using assms by (fastforce simp: chat_wf_def answer_ok_def assistant_of_def)

lemma count_list_clear:
  "count_list (map (\<lambda>x. if P x then None else h x) xs) (Some i) \<le> count_list (map h xs) (Some i)"
  by (induction xs) auto

definition clear_reference :: "(idempotency_record \<Rightarrow> bool) \<Rightarrow> chat_db \<Rightarrow> chat_execution \<Rightarrow> chat_execution" where
  "clear_reference P db e = (case ce_idempotency_record_id e of
     Some i \<Rightarrow> if i \<in> set (map ir_id (filter P (idem_rows db))) then e\<lparr>ce_idempotency_record_id := None\<rparr> else e
   | None \<Rightarrow> e)"

lemma executions_delete: "executions (delete_idem_rows P db) = map (clear_reference P db) (executions db)"
  by (simp add: delete_idem_rows_def clear_reference_def Let_def)

lemma clear_reference_fields [simp]:
  "ce_execution_id (clear_reference P db e) = ce_execution_id e"
  "ce_status (clear_reference P db e) = ce_status e"
  "ce_assistant_message_id (clear_reference P db e) = ce_assistant_message_id e"
  "ce_attempt_count (clear_reference P db e) = ce_attempt_count e"
  "ce_max_attempts (clear_reference P db e) = ce_max_attempts e"
  "ce_last_failure_code (clear_reference P db e) = ce_last_failure_code e"
  "execution_ok (clear_reference P db e) = execution_ok e"
  by (simp_all add: clear_reference_def execution_ok_def split: option.split)

lemma chat_wf_delete:
  assumes "chat_wf db"
  shows "chat_wf (delete_idem_rows P db)"
proof -
  let ?db' = "delete_idem_rows P db"
  have same: "messages ?db' = messages db" "next_row ?db' = next_row db"
    by (simp_all add: delete_idem_rows_def Let_def)
  have "answer_ok ?db' (clear_reference P db e) = answer_ok db e" for e
    by (simp add: answer_ok_def assistant_of_def same)
  moreover have "count_list (map ce_idempotency_record_id (executions ?db')) (Some i) \<le> 1" for i
  proof -
    have one: "count_list (map ce_idempotency_record_id (executions db)) (Some i) \<le> 1"
      using assms by (simp add: chat_wf_def)
    have "map ce_idempotency_record_id (executions ?db')
        = map (\<lambda>e. if (\<exists>i. ce_idempotency_record_id e = Some i
                 \<and> i \<in> set (map ir_id (filter P (idem_rows db)))) then None
                 else ce_idempotency_record_id e) (executions db)"
      by (simp add: executions_delete clear_reference_def split: option.split)
    then have "count_list (map ce_idempotency_record_id (executions ?db')) (Some i)
        \<le> count_list (map ce_idempotency_record_id (executions db)) (Some i)"
      by (simp only: count_list_clear)
    then show ?thesis using one by simp
  qed
  ultimately show ?thesis
    using assms idem_wf_delete [of db P] unfolding chat_wf_def same
    by (auto simp: executions_delete comp_def intro: order.trans)
qed

lemma ledger_projections [simp]:
  "executions (update_idem k f db) = executions db"
  "messages (update_idem k f db) = messages db"
  "next_row (update_idem k f db) = next_row db"
  by (simp_all add: update_idem_def)

lemma chat_wf_begin:
  assumes "chat_wf db" and "\<And>i d. chat_wf d \<Longrightarrow> chat_wf (iw_interfere w i d)"
  shows "chat_wf (snd (begin_idempotency sha w n rq key db))"
  using assms
proof (induction "2 - n" arbitrary: n db rule: less_induct)
  case less
  note wf1 = less.prems(2) [OF less.prems(1), of n]
  have again: "chat_wf (snd (begin_idempotency sha w (Suc n) rq key x))" if "\<not> 2 \<le> n" "chat_wf x" for x
    by (rule less.hyps [of "Suc n", OF _ that(2) less.prems(2)]) (use that(1) in linarith)
  have upd: "chat_wf (update_idem k f d)"
    if "chat_wf d" "\<And>r. idem_key (f r) = idem_key r" "\<And>r. ir_id (f r) = ir_id r" for k f d
    by (rule chat_wf_ledger [OF that(1) idem_wf_update [OF _ that(2,3)]])
      (use that(1) in \<open>simp_all add: chat_wf_def\<close>)
  have ins: "chat_wf (db\<lparr>idem_rows := idem_rows db @ [new_idem_row (next_row db) org uid key digest now token],
                  next_row := next_row db + 1\<rparr>)"
    if "get_by idem_key (org, uid, key) (idem_rows db) = None" for org uid digest now token
    by (rule chat_wf_ledger [OF less.prems(1) idem_wf_insert [OF _ that]])
      (use less.prems(1) in \<open>simp_all add: chat_wf_def\<close>)
  show ?case
    unfolding begin_idempotency.simps [of sha w n]
    using less.prems(1) wf1
    by (auto simp: Let_def intro!: again ins upd chat_wf_delete split: sum.splits option.splits)
qed

lemma chat_wf_renew:
  assumes "chat_wf db"
  shows "chat_wf (snd (renew_idempotency_lease now rq key token db))"
  by (rule chat_wf_ledger [OF assms idem_wf_renew])
    (use assms in \<open>auto simp: chat_wf_def renew_idempotency_lease_def Let_def split: sum.splits\<close>)

lemma chat_wf_complete:
  assumes "chat_wf db"
  shows "chat_wf (snd (complete_idempotency now rq key st ref token db))"
  by (rule chat_wf_ledger [OF assms idem_wf_complete])
    (use assms in \<open>auto simp: chat_wf_def complete_idempotency_def split: sum.splits option.splits\<close>)

section \<open>Runs of the persistence layer\<close>

text \<open>
  Any sequence of persistence and ledger transactions, from any request, against a database that
  fails as it likes; while \<open>begin\<close> waits for its row lock, other transactions may run.
\<close>

inductive chat_run :: "(string \<Rightarrow> string) \<Rightarrow> chat_db \<Rightarrow> chat_db \<Rightarrow> bool" for sha where
  cr_start: "chat_run sha db db"
| cr_begin: "chat_run sha db d \<Longrightarrow> (\<And>i x. chat_run sha x (iw_interfere w i x))
    \<Longrightarrow> chat_run sha db (snd (begin_idempotency sha w 0 rq key d))"
| cr_renew: "chat_run sha db d \<Longrightarrow> chat_run sha db (snd (renew_idempotency_lease now rq key token d))"
| cr_complete: "chat_run sha db d
    \<Longrightarrow> chat_run sha db (snd (complete_idempotency now rq key st ref lease_token d))"
| cr_cleanup: "chat_run sha db d \<Longrightarrow> chat_run sha db (snd (cleanup_expired_records now limit d))"
| cr_prepare: "chat_run sha db d \<Longrightarrow> chat_run sha db (snd (prepare_exchange env px d))"
| cr_streaming: "chat_run sha db d \<Longrightarrow> chat_run sha db (snd (mark_streaming env eid d))"
| cr_allow: "chat_run sha db d \<Longrightarrow> chat_run sha db (snd (assert_recovery_allowed env eid i lt d))"
| cr_finalize: "chat_run sha db d \<Longrightarrow> chat_run sha db (snd (finalize env fz d))"

inductive_cases chat_run_from_empty: "chat_run sha empty_chat_db db"

lemmas chat_wf_operations = chat_wf_begin chat_wf_renew chat_wf_complete chat_wf_prepare
  chat_wf_mark_streaming chat_wf_assert_recovery_allowed chat_wf_finalize

lemma chat_run_wf: "chat_run sha db db' \<Longrightarrow> chat_wf db \<Longrightarrow> chat_wf db'"
  by (induction rule: chat_run.induct)
    (auto intro: chat_wf_operations simp: cleanup_expired_records_def Let_def chat_wf_delete)

lemma chat_run_trans:
  "chat_run sha d e \<Longrightarrow> chat_run sha db d \<Longrightarrow> chat_run sha db e"
  by (induction rule: chat_run.induct) (auto intro: chat_run.intros)

lemma chat_wf_empty: "chat_wf empty_chat_db"
  by (simp add: chat_wf_def idem_wf_def empty_chat_db_def)

text \<open>An execution whose answer is final: completed, or closed as exhausted, which no recovery
  reopens.\<close>

definition answer_final :: "string \<Rightarrow> string \<Rightarrow> chat_db \<Rightarrow> bool" where
  "answer_final eid answer db \<longleftrightarrow> (\<exists>e a. find_execution eid db = Some e \<and> assistant_of e db = Some a
     \<and> ms_content a = answer
     \<and> (ce_status e = Completed \<or> ce_status e = Failed
        \<and> ce_last_failure_code e = Some RETRY_EXHAUSTED \<and> ce_max_attempts e \<le> ce_attempt_count e))"

lemma answer_final_advance_other:
  assumes "chat_wf db" and "answer_final eid t db" and "advances e a f g db db'"
    and "assistant_of e db = Some a" and "eid \<noteq> ce_execution_id e"
  shows "answer_final eid t db'"
proof -
  obtain x b where x: "find_execution eid db = Some x" "assistant_of x db = Some b" "ms_content b = t"
    "ce_status x = Completed \<or> ce_status x = Failed
      \<and> ce_last_failure_code x = Some RETRY_EXHAUSTED \<and> ce_max_attempts x \<le> ce_attempt_count x"
    using assms(2) by (auto simp: answer_final_def)
  have "find_execution eid db' = Some x" using advances_lookup [OF assms(3), of eid] assms(5) x(1) by simp
  moreover have "assistant_of x db' = Some b"
    using advances_other_answer [OF assms(3,4), of x] find_execution_SomeD [OF x(1)] assms(1,5) x(2)
    by (simp add: chat_wf_def)
  ultimately show ?thesis using x(3,4) by (auto simp: answer_final_def)
qed

lemma answer_final_exhausted:
  assumes "chat_wf db" and "answer_final eid t db" and "find_execution (ce_execution_id e) db = Some e"
    and "assistant_of e db = Some a" and "ce_max_attempts e \<le> ce_attempt_count e"
  shows "answer_final eid t (mark_exhausted now e a db)"
proof (cases "eid = ce_execution_id e")
  case False
  then show ?thesis by (rule answer_final_advance_other [OF assms(1,2) mark_exhausted_advances assms(4)])
next
  case True
  let ?f = "exhaust_execution now a"
  have "find_execution eid (mark_exhausted now e a db) = Some (?f e)"
    using advances_lookup [OF mark_exhausted_advances [of e a now db], where eid = eid] True assms(3) by simp
  moreover have "assistant_of (?f e) (mark_exhausted now e a db) = Some (a\<lparr>ms_status := Failed\<rparr>)"
    by (rule advances_own_answer [OF mark_exhausted_advances assms(4)])
  moreover have "ms_content a = t" using assms(2-4) True by (auto simp: answer_final_def)
  ultimately show ?thesis using assms(5)
    by (auto simp: answer_final_def exhaust_execution_def)
qed

lemma answer_final_cong:
  "answer_final eid t db \<Longrightarrow> executions db' = executions db \<Longrightarrow> messages db' = messages db
    \<Longrightarrow> answer_final eid t db'"
  by (simp add: answer_final_def find_execution_def assistant_of_def)

lemma answer_final_prepare:
  assumes wf: "chat_wf db" and fin: "answer_final eid t db"
  shows "answer_final eid t (snd (prepare_exchange env px db))"
proof (cases "find_execution (px_execution_id px) db")
  case None
  have "answer_final eid t (snd (start_exchange env px db))"
    using start_outcomes [of env px db]
  proof (elim disjE exE conjE)
    fix db1
    assume b: "bind_governance_decision env 1 (px_governance_decision_id px) (px_execution_id px)
            (px_organization_id px) (px_user_id px) (insert_exchange env px db) = Inr db1"
      and out: "snd (start_exchange env px db)
            = db1\<lparr>usage_rows := usage_rows db1 @ [new_reservation_usage (next_row db) px]\<rparr>"
    have "answer_final eid t (insert_exchange env px db)"
      using fin by (auto simp: answer_final_def find_execution_def get_by_def assistant_of_def
          insert_exchange_def Let_def find_append)
    then show ?thesis unfolding out
      by (rule answer_final_cong) (use bind_governance_InrD [OF b] in simp_all)
  qed (use fin in simp)
  with None fin show ?thesis by (simp add: prepare_exchange_def ask_def)
next
  case e: (Some e)
  note e' = find_execution_SomeD [OF e]
  have self: "find_execution (ce_execution_id e) db = Some e" using e e' by simp
  have "answer_final eid t (snd (recover_exchange env px e db))"
    using recover_outcomes [of env px e db]
  proof (elim disjE exE conjE)
    fix a
    assume "recovery_exhausts env px e db a"
      and "snd (recover_exchange env px e db) = mark_exhausted (env_now env) e a db"
    then show ?thesis using answer_final_exhausted [OF wf fin self] by (simp add: recovery_exhausts_def)
  next
    fix a
    assume ra: "recovery_retries env px e db a"
      and b: "bind_governance_decision env 4 (px_governance_decision_id px) (ce_execution_id e)
            (px_organization_id px) (px_user_id px) (retry_db env px e a db)
            = Inr (snd (recover_exchange env px e db))"
    have "eid \<noteq> ce_execution_id e"
      using ra fin self by (auto simp: recovery_retries_def answer_final_def)
    then show ?thesis using ra
      by (intro answer_final_advance_other [OF wf fin conjunct1 [OF retry_advances [OF b]]])
        (simp_all add: recovery_retries_def)
  qed (use fin in simp)
  with e fin show ?thesis by (simp add: prepare_exchange_def ask_def)
qed

lemma answer_final_not_open:
  "answer_final eid t db \<Longrightarrow> find_execution eid db = Some e \<Longrightarrow> ce_status e \<in> terminal_statuses"
  by (auto simp: answer_final_def terminal_statuses_def)

lemma answer_final_streaming:
  assumes wf: "chat_wf db" and fin: "answer_final eid t db"
  shows "answer_final eid t (snd (mark_streaming env x db))"
proof -
  have "answer_final eid t (update_message (ms_id a) (\<lambda>m. m\<lparr>ms_status := Streaming\<rparr>)
                  (update_execution x (\<lambda>e. e\<lparr>ce_status := Streaming\<rparr>) db))"
    if e: "find_execution x db = Some e" "ce_status e \<notin> terminal_statuses" "assistant_of e db = Some a" for e a
  proof -
    have x: "ce_execution_id e = x" using find_execution_SomeD [OF e(1)] by simp
    have ne: "eid \<noteq> ce_execution_id e" using answer_final_not_open [OF fin] e(1,2) x by auto
    show ?thesis
      by (rule answer_final_advance_other [OF wf fin _ e(3) ne, where f = "\<lambda>e. e\<lparr>ce_status := Streaming\<rparr>"
            and g = "\<lambda>m. m\<lparr>ms_status := Streaming\<rparr>"]) (simp add: advances_def x)
  qed
  then show ?thesis using fin
    by (auto simp: mark_streaming_def locked_execution_def ask_def commit_or_unavailable_def
        split: option.splits)
qed

lemma answer_final_finalize:
  assumes wf: "chat_wf db" and fin: "answer_final eid t db"
  shows "answer_final eid t (snd (finalize env fz db))"
proof (cases "finalize env fz db = (Inr True, snd (finalize env fz db))")
  case True
  obtain e a where e: "find_execution (fz_execution_id fz) db = Some e" "ce_status e \<notin> terminal_statuses"
    and a: "assistant_of e db = Some a"
    and r: "record_accounting env 4 e {} (fz_accounting fz) (final_db env fz e a db)
      = Inr (snd (finalize env fz db))"
    using finalize_TrueD [OF True] by blast
  have ne: "eid \<noteq> ce_execution_id e"
    using answer_final_not_open [OF fin] e find_execution_SomeD [OF e(1)] by auto
  have "snd (finalize env fz db) = final_db env fz e a db\<lparr>usage_rows :=
      usage_rows (final_db env fz e a db) @ map (usage_of_cost e) (fz_accounting fz)\<rparr>"
    using record_accounting_InrD [OF r] by blast
  then show ?thesis
    using answer_final_advance_other [OF wf fin final_db_advances a ne] by metis
next
  case False
  then show ?thesis using finalize_only_commits_true [of env fz db] fin by (metis prod.collapse)
qed

lemma answer_final_allow:
  assumes wf: "chat_wf db" and fin: "answer_final eid t db"
  shows "answer_final eid t (snd (assert_recovery_allowed env x i token db))"
  using allowed_outcomes [of env x i token db]
proof (elim disjE exE conjE)
  fix e a r
  assume e: "find_execution x db = Some e" "assistant_of e db = Some a" "ce_max_attempts e \<le> ce_attempt_count e"
    and out: "snd (assert_recovery_allowed env x i token db)
      = update_idem_by_id (ir_id r) exhaust_idem (mark_exhausted (env_now env) e a db)"
  have "find_execution (ce_execution_id e) db = Some e" using e(1) find_execution_SomeD [OF e(1)] by simp
  then have "answer_final eid t (mark_exhausted (env_now env) e a db)"
    by (rule answer_final_exhausted [OF wf fin _ e(2,3)])
  then show ?thesis unfolding out by (rule answer_final_cong) simp_all
qed (use fin in simp)

lemma answer_final_delete:
  assumes "answer_final eid t db"
  shows "answer_final eid t (delete_idem_rows P db)"
proof -
  have m: "messages (delete_idem_rows P db) = messages db" by (simp add: delete_idem_rows_def Let_def)
  have "find_execution eid (delete_idem_rows P db) = map_option (clear_reference P db) (find_execution eid db)"
    by (simp add: find_execution_def get_by_def executions_delete find_map_stable)
  moreover have "assistant_of (clear_reference P db e) (delete_idem_rows P db) = assistant_of e db" for e
    by (simp add: assistant_of_def m)
  ultimately show ?thesis using assms by (auto simp: answer_final_def)
qed

lemma answer_final_begin:
  assumes "chat_wf db" and "answer_final eid t db"
    and "\<And>i d. chat_wf d \<Longrightarrow> chat_wf (iw_interfere w i d)"
    and "\<And>i d. chat_wf d \<Longrightarrow> answer_final eid t d \<Longrightarrow> answer_final eid t (iw_interfere w i d)"
  shows "answer_final eid t (snd (begin_idempotency sha w n rq key db))"
  using assms
proof (induction "2 - n" arbitrary: n db rule: less_induct)
  case less
  note wf1 = less.prems(3) [OF less.prems(1), of n]
  note fin1 = less.prems(4) [OF less.prems(1,2), of n]
  have again: "answer_final eid t (snd (begin_idempotency sha w (Suc n) rq key x))"
    if "\<not> 2 \<le> n" "chat_wf x" "answer_final eid t x" for x
    by (rule less.hyps [of "Suc n", OF _ that(2,3) less.prems(3,4)]) (use that(1) in linarith)
  have same: "answer_final eid t d'" if "answer_final eid t d" "executions d' = executions d"
    "messages d' = messages d" for d d' using that by (rule answer_final_cong)
  show ?case
    unfolding begin_idempotency.simps [of sha w n]
    using less.prems(2) wf1 fin1
    by (auto simp: Let_def intro: again same [OF less.prems(2)] same [OF fin1]
        intro!: answer_final_delete chat_wf_delete split: sum.splits option.splits)
qed

lemma chat_run_answer_final:
  "chat_run sha db db' \<Longrightarrow> chat_wf db \<Longrightarrow> answer_final eid t db \<Longrightarrow> answer_final eid t db'"
proof (induction rule: chat_run.induct)
  case (cr_begin db d w rq key)
  then show ?case by (intro answer_final_begin) (auto intro: chat_run_wf)
next
  case (cr_renew db d now rq key token)
  then show ?case
    by (auto intro: answer_final_cong simp: renew_idempotency_lease_def Let_def split: sum.splits)
next
  case (cr_complete db d now rq key st ref token)
  then show ?case
    by (auto intro: answer_final_cong simp: complete_idempotency_def split: sum.splits option.splits)
next
  case (cr_cleanup db d now limit)
  then show ?case by (simp add: cleanup_expired_records_def Let_def answer_final_delete)
qed (auto intro: chat_run_wf answer_final_prepare answer_final_streaming answer_final_allow
    answer_final_finalize)

section \<open>Finalization as a machine that ends once\<close>

definition execution_closed :: "string \<Rightarrow> chat_db \<Rightarrow> bool" where
  "execution_closed eid db \<longleftrightarrow> (\<exists>e. find_execution eid db = Some e \<and> ce_status e \<in> terminal_statuses)"

text \<open>A racer brings its own database conditions and its own result for the same execution.\<close>

definition race_finalize :: "string \<Rightarrow> db_env \<times> finalize_request \<Rightarrow> chat_db \<Rightarrow> bool txn" where
  "race_finalize eid c db = finalize (fst c) (snd c\<lparr>fz_execution_id := eid\<rparr>) db"

lemma finalize_closes:
  assumes "finalize env fz db = (Inr True, db')"
  shows "\<not> execution_closed (fz_execution_id fz) db \<and> execution_closed (fz_execution_id fz) db'"
proof -
  obtain e a where e: "find_execution (fz_execution_id fz) db = Some e" "ce_status e \<notin> terminal_statuses"
    and t: "fz_terminal_status fz \<in> terminal_statuses"
    and r: "record_accounting env 4 e {} (fz_accounting fz) (final_db env fz e a db) = Inr db'"
    using finalize_TrueD [OF assms] by blast
  have "db' = final_db env fz e a db\<lparr>usage_rows :=
      usage_rows (final_db env fz e a db) @ map (usage_of_cost e) (fz_accounting fz)\<rparr>"
    using record_accounting_InrD [OF r] by blast
  then have "find_execution (ce_execution_id e) db' = map_option (final_execution (env_now env) fz)
      (find_execution (ce_execution_id e) db)"
    using advances_lookup [OF final_db_advances] by simp
  then show ?thesis using e t find_execution_SomeD [OF e(1)] by (auto simp: execution_closed_def)
qed

lemma finalize_on_closed:
  "execution_closed (fz_execution_id fz) db \<Longrightarrow> snd (finalize env fz db) = db"
  by (auto simp: execution_closed_def finalize_def locked_execution_def ask_def)

interpretation racing: terminal_machine "race_finalize eid" "\<lambda>r. r = Inr True" "execution_closed eid" for eid
proof
  show "\<not> execution_closed eid s \<and> execution_closed eid s'"
    if "race_finalize eid c s = (r, s')" "r = Inr True" for c s r s'
    using that finalize_closes [of "fst c" "snd c\<lparr>fz_execution_id := eid\<rparr>" s s']
    by (simp add: race_finalize_def)
  show "snd (race_finalize eid c s) = s" if "execution_closed eid s" for c s
    using that finalize_on_closed [of "snd c\<lparr>fz_execution_id := eid\<rparr>"] by (simp add: race_finalize_def)
qed

section \<open>Properties\<close>

definition sample_px :: exchange_request where
  "sample_px = \<lparr>px_execution_id = ''x1'', px_request_id = ''q1'', px_conversation_id = 5,
     px_organization_id = 7, px_user_id = 3, px_bot_id = 9, px_bot_organization_id = 7,
     px_provider = ''openai'', px_model = ''gpt-4o'', px_prompt = ''hello'',
     px_idempotency_record_id = Some 1, px_estimated_tokens = 10, px_estimated_cost = 0,
     px_verification = False, px_recover = False, px_lease_token = Some ''t1'', px_max_attempts = 2,
     px_governance_decision_id = None\<rparr>"

definition sample_prepared :: chat_db where
  "sample_prepared = snd (prepare_exchange (calm 10) sample_px sample_ledger)"

definition sample_cost :: execution_cost where
  "sample_cost = \<lparr>ec_provider = ''openai'', ec_model = ''gpt-4o'', ec_operation = ''primary'',
     ec_input_tokens = 2, ec_output_tokens = 1, ec_total_tokens = 3, ec_cost = 0,
     ec_usage_source = ''estimated'', ec_pricing_revision = CATALOG_REVISION\<rparr>"

definition sample_fz :: finalize_request where
  "sample_fz = \<lparr>fz_execution_id = ''x1'', fz_terminal_status = Completed, fz_content = ''hi'',
     fz_response_status = 200, fz_response_reference = ''4'', fz_lease_token = Some ''t1'',
     fz_failure_code = None, fz_accounting = [sample_cost]\<rparr>"

definition sample_finished :: chat_db where
  "sample_finished = snd (finalize (calm 20) sample_fz sample_prepared)"

lemma sample_ledger_run: "chat_run (\<lambda>s. s) empty_chat_db sample_ledger"
  unfolding sample_ledger_def sample_run_def
  by (rule cr_begin [OF cr_start]) (simp add: alone_def cr_start)

lemma sample_prepared_run: "chat_run (\<lambda>s. s) empty_chat_db sample_prepared"
  unfolding sample_prepared_def by (rule cr_prepare [OF sample_ledger_run])

lemma sample_prepared_wf: "chat_wf sample_prepared"
  by (rule chat_run_wf [OF sample_prepared_run chat_wf_empty])

lemma sample_prepared_eq:
  "sample_prepared = sample_ledger\<lparr>executions := [new_execution 2 sample_px],
     messages := [new_message 3 sample_px ''user'' ''hello'' Completed False 10,
                  new_message 4 sample_px ''assistant'' [] Pending True 10],
     usage_rows := [new_reservation_usage 2 sample_px], next_row := 5\<rparr>"
  by (simp add: sample_prepared_def prepare_exchange_def start_exchange_def ask_def calm_def
      sample_ledger_eq empty_chat_db_def find_execution_def get_by_def flush_rejected_def
      bind_governance_decision_def insert_exchange_def sample_px_def new_idem_row_def Let_def)

lemma sample_finalize: "finalize (calm 20) sample_fz sample_prepared = (Inr True, sample_finished)"
proof -
  have "fst (finalize (calm 20) sample_fz sample_prepared) = Inr True"
    by (simp add: sample_prepared_eq sample_ledger_eq finalize_def locked_execution_def ask_def calm_def
        sample_fz_def terminal_statuses_def find_execution_def get_by_def new_execution_def
        sample_px_def fenced_idem_def find_idem_def new_idem_row_def expired_before_def seconds_def
        LEASE_SECONDS_def assistant_of_def new_message_def empty_chat_db_def final_db_def
        sample_cost_def same_entry_def new_reservation_usage_def Let_def update_execution_def
        update_message_def update_idem_by_id_def)
  then show ?thesis by (simp add: sample_finished_def prod_eq_iff)
qed



text \<open>Finalization wins once.  Let a call that finalizes an execution succeed; then none of the
  racers that follow it (a timeout handler, a client disconnect, a retry), with whatever outcome and
  lease they bring, succeeds as well or changes a row, and in any race at all at most one succeeds.\<close>

theorem finalization_wins_once:
  assumes "race_finalize eid c db = (Inr True, db')"
  shows "snd (run_results (race_finalize eid) (c # cs) db) = db'
    \<and> length (filter (\<lambda>r. r = Inr True) (fst (run_results (race_finalize eid) (ds @ c # cs) db0))) \<le> 1"
  using racing.winner_stays [OF assms refl] racing.at_most_one_win by blast

theorem finalization_wins_once_witness:
  "snd (run_results (race_finalize ''x1'')
        ((calm 20, sample_fz) # [(calm 21, sample_fz\<lparr>fz_terminal_status := Failed\<rparr>)]) sample_prepared)
      = sample_finished
    \<and> length (filter (\<lambda>r. r = Inr True) (fst (run_results (race_finalize ''x1'')
        ([] @ (calm 20, sample_fz) # [(calm 21, sample_fz\<lparr>fz_terminal_status := Failed\<rparr>)])
        sample_prepared))) \<le> 1"
proof (rule finalization_wins_once)
  have "sample_fz\<lparr>fz_execution_id := ''x1''\<rparr> = sample_fz" by (simp add: sample_fz_def)
  then show "race_finalize ''x1'' (calm 20, sample_fz) sample_prepared = (Inr True, sample_finished)"
    by (simp add: race_finalize_def sample_finalize)
qed

lemma final_execution_keeps:
  "ce_organization_id (final_execution now fz e) = ce_organization_id e"
  "ce_execution_id (final_execution now fz e) = ce_execution_id e"
  by (simp_all add: final_execution_def Let_def split: option.split)

lemma closed_decisions:
  "d \<in> set (update_where (open_decision e) (close_decision now fz) ds) \<Longrightarrow> \<not> open_decision e d"
  by (auto simp: update_where_def open_decision_def close_decision_def split: if_splits)

lemma finalize_shape:
  assumes "finalize env fz db = (Inr True, db')"
  shows "\<exists>e a. find_execution (fz_execution_id fz) db = Some e \<and> ce_execution_id e = fz_execution_id fz
    \<and> fenced_idem env e (fz_lease_token fz) db = None \<and> assistant_of e db = Some a
    \<and> db' = final_db env fz e a db\<lparr>usage_rows := usage_rows db @ map (usage_of_cost e) (fz_accounting fz)\<rparr>
    \<and> find_execution (fz_execution_id fz) db' = Some (final_execution (env_now env) fz e)
    \<and> (\<forall>x. x \<noteq> fz_execution_id fz \<longrightarrow> find_execution x db' = find_execution x db)
    \<and> assistant_of (final_execution (env_now env) fz e) db'
        = Some (a\<lparr>ms_status := fz_terminal_status fz, ms_content := fz_content fz\<rparr>)"
proof -
  obtain e a where e: "find_execution (fz_execution_id fz) db = Some e"
    and fenced: "fenced_idem env e (fz_lease_token fz) db = None" and a: "assistant_of e db = Some a"
    and r: "record_accounting env 4 e {} (fz_accounting fz) (final_db env fz e a db) = Inr db'"
    using finalize_TrueD [OF assms] by blast
  have us: "usage_rows (final_db env fz e a db) = usage_rows db"
    by (simp add: final_db_def Let_def split: option.split)
  have db': "db' = final_db env fz e a db\<lparr>usage_rows := usage_rows db @ map (usage_of_cost e) (fz_accounting fz)\<rparr>"
    using record_accounting_InrD [OF r] us by simp
  have eid: "ce_execution_id e = fz_execution_id fz" using find_execution_SomeD [OF e] by simp
  have look: "find_execution x db' = (if x = fz_execution_id fz
      then map_option (final_execution (env_now env) fz) (find_execution x db) else find_execution x db)" for x
    unfolding db' using advances_lookup [OF final_db_advances, where eid = x] eid by simp
  have "assistant_of (final_execution (env_now env) fz e) db'
        = Some (a\<lparr>ms_status := fz_terminal_status fz, ms_content := fz_content fz\<rparr>)"
    unfolding db' by (rule advances_own_answer [OF final_db_advances a])
  then show ?thesis using e eid fenced a db' look by (intro exI [of _ e] exI [of _ a]) simp
qed



text \<open>Fencing and atomicity.  A finalization whose execution is tied to an idempotency record
  succeeds only while that record is being processed under the very lease token the caller holds and the
  lease has not run out; every other outcome, whatever failed and wherever, leaves all tables as they
  were.\<close>

theorem finalization_fenced_and_atomic:
  assumes "finalize env fz db = (r, db')" and "db' \<noteq> db \<or> r = Inr True"
    and "find_execution (fz_execution_id fz) db = Some e" and "ce_idempotency_record_id e = Some i"
  shows "r = Inr True \<and> ce_status e \<notin> terminal_statuses \<and> (\<exists>rec. find_idem i db = Some rec
    \<and> ir_status rec = Processing \<and> ir_lease_token rec = fz_lease_token fz
    \<and> \<not> expired_before (ir_lease_until rec) (env_now env))"
proof -
  have won: "r = Inr True" using finalize_only_commits_true [OF assms(1)] assms(2) by blast
  with assms(1) obtain e' where "find_execution (fz_execution_id fz) db = Some e'"
    and "ce_status e' \<notin> terminal_statuses" and "fenced_idem env e' (fz_lease_token fz) db = None"
    using finalize_TrueD by blast
  with assms(3) have open_e: "ce_status e \<notin> terminal_statuses" and fenced: "fenced_idem env e (fz_lease_token fz) db = None"
    by simp_all
  from fenced assms(4) show ?thesis
    using won open_e by (auto simp: fenced_idem_def split: option.splits if_splits)
qed

theorem finalization_fenced_and_atomic_witness:
  "(Inr True :: persistence_error + bool) = Inr True
    \<and> ce_status (new_execution 2 sample_px) \<notin> terminal_statuses \<and> (\<exists>rec. find_idem 1 sample_prepared = Some rec
    \<and> ir_status rec = Processing \<and> ir_lease_token rec = fz_lease_token sample_fz
    \<and> \<not> expired_before (ir_lease_until rec) (env_now (calm 20)))"
  by (rule finalization_fenced_and_atomic [OF sample_finalize])
    (simp_all add: sample_prepared_eq find_execution_def get_by_def new_execution_def sample_px_def
      sample_fz_def)

text \<open>C8: Recovery needs the lease.  Preparing an exchange whose execution already exists changes a table
  only for the same tenant, user, conversation, bot, provider and model, when the caller asked for
  recovery and holds the live lease of its idempotency record; then either the attempt counter goes up
  by one, still within the budget, and the execution was not completed, or the budget was spent and the
  execution is closed as failed for good.\<close>

theorem recovery_needs_the_lease:
  assumes "find_execution (px_execution_id px) db = Some e" and "snd (prepare_exchange env px db) \<noteq> db"
  shows "same_scope px e \<and> px_recover px
    \<and> (\<exists>i rec. px_idempotency_record_id px = Some i \<and> find_idem i db = Some rec
         \<and> ir_status rec = Processing \<and> ir_lease_token rec = px_lease_token px
         \<and> \<not> expired_before (ir_lease_until rec) (env_now env))
    \<and> (\<exists>e'. find_execution (px_execution_id px) (snd (prepare_exchange env px db)) = Some e'
         \<and> (ce_status e' = Prepared \<and> ce_attempt_count e' = ce_attempt_count e + 1
              \<and> ce_attempt_count e' \<le> ce_max_attempts e \<and> ce_status e \<noteq> Completed
            \<or> ce_status e' = Failed \<and> \<not> ce_failure_retryable e' \<and> ce_max_attempts e \<le> ce_attempt_count e))"
proof -
  let ?out = "snd (recover_exchange env px e db)"
  have out: "snd (prepare_exchange env px db) = ?out" "?out \<noteq> db"
    using assms by (auto simp: prepare_exchange_def ask_def split: if_splits)
  have eid: "ce_execution_id e = px_execution_id px" using find_execution_SomeD [OF assms(1)] by simp
  have lease: "\<exists>i rec. px_idempotency_record_id px = Some i \<and> find_idem i db = Some rec
         \<and> ir_status rec = Processing \<and> ir_lease_token rec = px_lease_token px
         \<and> \<not> expired_before (ir_lease_until rec) (env_now env)"
    if "same_scope px e" "\<exists>rec. recovery_owner env 1 e (px_lease_token px) db = Inr rec"
    using that by (auto simp: same_scope_def dest!: recovery_owner_InrD)
  from recover_outcomes [of env px e db] out(2) consider
      (spent) a where "recovery_exhausts env px e db a" "?out = mark_exhausted (env_now env) e a db"
    | (again) a where "recovery_retries env px e db a"
        "bind_governance_decision env 4 (px_governance_decision_id px) (ce_execution_id e)
            (px_organization_id px) (px_user_id px) (retry_db env px e a db) = Inr ?out"
    by blast
  then show ?thesis
  proof cases
    case spent
    then have "find_execution (px_execution_id px) ?out = Some (exhaust_execution (env_now env) a e)"
      using advances_lookup [OF mark_exhausted_advances] assms(1) eid by simp
    then show ?thesis using spent(1) lease out(1)
      by (auto simp: recovery_exhausts_def exhaust_execution_def)
  next
    case again
    then have "find_execution (px_execution_id px) ?out
        = Some (retry_execution (env_now env) (px_governance_decision_id px \<noteq> None) e)"
      using advances_lookup [OF conjunct1 [OF retry_advances]] assms(1) eid by simp
    then show ?thesis using again(1) lease out(1) by (auto simp: recovery_retries_def)
  qed
qed

definition sample_crashed :: chat_db where
  "sample_crashed = snd (begin_idempotency (\<lambda>s. s) (alone 120000020 ''t2'') 0 sample_rq ''k1'' sample_prepared)"

definition sample_retry_px :: exchange_request where
  "sample_retry_px = sample_px\<lparr>px_recover := True, px_lease_token := Some ''t2''\<rparr>"

definition sample_retried :: chat_db where
  "sample_retried = snd (prepare_exchange (calm 120000030) sample_retry_px sample_crashed)"

lemma sample_crashed_eq:
  "sample_crashed = sample_prepared\<lparr>idem_rows :=
     [retake_expired 120000020 ''t2'' (new_idem_row 1 7 3 ''k1'' ''hello'' 0 ''t1'')]\<rparr>"
  by (simp add: sample_crashed_def sample_prepared_eq sample_ledger_eq begin_idempotency.simps
      resolve_context_def sample_rq_def get_by_def alone_def body_digest_def Let_def expired_before_def
      update_idem_def set_by_def update_where_def seconds_def LEASE_SECONDS_def)

lemma sample_crashed_lookup: "find_execution ''x1'' sample_crashed = Some (new_execution 2 sample_px)"
  by (simp add: sample_crashed_eq sample_prepared_eq find_execution_def get_by_def new_execution_def
      sample_px_def)

lemma sample_retried_changes: "sample_retried \<noteq> sample_crashed"
proof -
  have "find_execution ''x1'' sample_retried
      = Some (retry_execution 120000030 False (new_execution 2 sample_px))"
    by (simp add: sample_retried_def prepare_exchange_def sample_retry_px_def ask_def calm_def
        recover_exchange_def sample_crashed_eq sample_prepared_eq sample_ledger_eq find_execution_def
        get_by_def new_execution_def sample_px_def same_scope_def recovery_owner_def find_idem_def
        retake_expired_def new_idem_row_def lease_lost_def expired_before_def seconds_def
        LEASE_SECONDS_def assistant_of_def new_message_def reservation_usage_def
        new_reservation_usage_def bind_governance_decision_def commit_or_unavailable_def retry_db_def
        Let_def set_by_def update_where_def retry_execution_def)
  then show ?thesis using sample_crashed_lookup by (auto simp: retry_execution_def new_execution_def Let_def)
qed

theorem recovery_needs_the_lease_witness:
  "same_scope sample_retry_px (new_execution 2 sample_px) \<and> px_recover sample_retry_px
    \<and> (\<exists>i rec. px_idempotency_record_id sample_retry_px = Some i \<and> find_idem i sample_crashed = Some rec
         \<and> ir_status rec = Processing \<and> ir_lease_token rec = px_lease_token sample_retry_px
         \<and> \<not> expired_before (ir_lease_until rec) (env_now (calm 120000030)))
    \<and> (\<exists>e'. find_execution (px_execution_id sample_retry_px)
              (snd (prepare_exchange (calm 120000030) sample_retry_px sample_crashed)) = Some e'
         \<and> (ce_status e' = Prepared \<and> ce_attempt_count e' = ce_attempt_count (new_execution 2 sample_px) + 1
              \<and> ce_attempt_count e' \<le> ce_max_attempts (new_execution 2 sample_px)
              \<and> ce_status (new_execution 2 sample_px) \<noteq> Completed
            \<or> ce_status e' = Failed \<and> \<not> ce_failure_retryable e'
              \<and> ce_max_attempts (new_execution 2 sample_px) \<le> ce_attempt_count (new_execution 2 sample_px)))"
  by (rule recovery_needs_the_lease)
    (use sample_crashed_lookup sample_retried_changes in
      \<open>simp_all add: sample_retried_def sample_retry_px_def sample_px_def\<close>)

text \<open>C2: A completed answer is final.  Once an execution has completed, no later sequence of
  transactions, by anyone, rewrites or clears the text of its answer or reopens it: it stays completed,
  or, should a recovery find its budget spent, closed as exhausted, with the same text.\<close>

theorem completed_answer_is_final:
  assumes "chat_run sha empty_chat_db db" and "find_execution eid db = Some e" and "ce_status e = Completed"
    and "assistant_of e db = Some a" and "chat_run sha db db'"
  shows "\<exists>e' a'. find_execution eid db' = Some e' \<and> assistant_of e' db' = Some a'
    \<and> ms_content a' = ms_content a
    \<and> (ce_status e' = Completed \<or> ce_status e' = Failed
       \<and> ce_last_failure_code e' = Some RETRY_EXHAUSTED \<and> ce_max_attempts e' \<le> ce_attempt_count e')"
proof -
  have "answer_final eid (ms_content a) db" using assms(2-4) by (auto simp: answer_final_def)
  then have "answer_final eid (ms_content a) db'"
    by (rule chat_run_answer_final [OF assms(5) chat_run_wf [OF assms(1) chat_wf_empty]])
  then show ?thesis by (auto simp: answer_final_def)
qed

theorem completed_answer_is_final_witness:
  "\<exists>e a e' a'. find_execution ''x1'' sample_finished = Some e \<and> ms_content a = ''hi''
    \<and> find_execution ''x1'' (snd (mark_streaming (calm 30) ''x1'' sample_finished)) = Some e'
    \<and> assistant_of e' (snd (mark_streaming (calm 30) ''x1'' sample_finished)) = Some a'
    \<and> ms_content a' = ms_content a"
proof -
  obtain e0 a0 where f: "find_execution ''x1'' sample_finished = Some (final_execution 20 sample_fz e0)"
    "assistant_of (final_execution 20 sample_fz e0) sample_finished
        = Some (a0\<lparr>ms_status := Completed, ms_content := ''hi''\<rparr>)"
    using finalize_shape [OF sample_finalize] by (auto simp: sample_fz_def calm_def)
  have fin: "ce_status (final_execution 20 sample_fz e0) = Completed" by (simp add: sample_fz_def)
  have run: "chat_run (\<lambda>s. s) empty_chat_db sample_finished"
    unfolding sample_finished_def by (rule cr_finalize [OF sample_prepared_run])
  have "chat_run (\<lambda>s. s) sample_finished (snd (mark_streaming (calm 30) ''x1'' sample_finished))"
    by (rule cr_streaming [OF cr_start])
  from completed_answer_is_final [OF run f(1) fin f(2) this]
  obtain e' a' where "find_execution ''x1'' (snd (mark_streaming (calm 30) ''x1'' sample_finished)) = Some e'"
    "assistant_of e' (snd (mark_streaming (calm 30) ''x1'' sample_finished)) = Some a'"
    "ms_content a' = ''hi''" by auto
  with f(1) show ?thesis by (metis message.select_convs(6))
qed

end
