(* ===== verification/Reservation.thy ===== *)
theory Reservation
  imports CostAccounting
begin

text \<open>
  Usage budgets: the Redis reservation scripts (\<^verbatim>\<open>domains/usage/redis_reservation.py\<close>), their
  composition with the estimator (\<^verbatim>\<open>domains/usage/execution_budget.py\<close>), the process-local gate
  (\<^verbatim>\<open>core/usage_budget.py\<close>) and its use (\<^verbatim>\<open>application/usage_execution.py\<close>).  Redis is a map from
  keys to values with an expiry; a script is one atomic step at the server's clock, whose expiry times
  are kept to the unit (Redis: a millisecond) and read back exactly by \<^verbatim>\<open>PTTL\<close>.  Counters and
  settlements hold integers, markers hold the identity string.  The flag \<^verbatim>\<open>up\<close> says whether a client is
  configured and its call succeeds.  Python floats are rationals here.
\<close>

section \<open>The store\<close>

datatype redis_value = RInt int | RStr string

record redis_entry =
  rd_value :: redis_value
  rd_expires_at :: "microseconds option"

type_synonym redis = "string \<Rightarrow> redis_entry option"

definition redis_get :: "microseconds \<Rightarrow> string \<Rightarrow> redis \<Rightarrow> redis_entry option" where
  "redis_get now k s = (case s k of None \<Rightarrow> None
     | Some e \<Rightarrow> (case rd_expires_at e of None \<Rightarrow> Some e | Some t \<Rightarrow> if now < t then Some e else None))"

text \<open>\<^verbatim>\<open>tonumber(redis.call('GET', key)) or 0\<close>\<close>

definition redis_number :: "microseconds \<Rightarrow> string \<Rightarrow> redis \<Rightarrow> int" where
  "redis_number now k s = (case redis_get now k s of None \<Rightarrow> 0
     | Some e \<Rightarrow> (case rd_value e of RInt i \<Rightarrow> i | RStr _ \<Rightarrow> 0))"

definition redis_set :: "string \<Rightarrow> redis_value \<Rightarrow> microseconds option \<Rightarrow> redis \<Rightarrow> redis" where
  "redis_set k v t s = s(k \<mapsto> \<lparr>rd_value = v, rd_expires_at = t\<rparr>)"

definition redis_expiry :: "microseconds \<Rightarrow> string \<Rightarrow> redis \<Rightarrow> microseconds option" where
  "redis_expiry now k s = (case redis_get now k s of None \<Rightarrow> None | Some e \<Rightarrow> rd_expires_at e)"

definition incrby :: "microseconds \<Rightarrow> string \<Rightarrow> int \<Rightarrow> redis \<Rightarrow> redis" where
  "incrby now k n s = redis_set k (RInt (redis_number now k s + n)) (redis_expiry now k s) s"

definition expire :: "microseconds \<Rightarrow> string \<Rightarrow> int \<Rightarrow> redis \<Rightarrow> redis" where
  "expire now k ttl_seconds s = (case redis_get now k s of None \<Rightarrow> s
     | Some e \<Rightarrow> redis_set k (rd_value e) (Some (now + ttl_seconds * 1000000)) s)"

definition redis_del :: "string \<Rightarrow> redis \<Rightarrow> redis" where
  "redis_del k s = s(k := None)"

section \<open>Reservations\<close>

datatype budget_error =
    BudgetBackendUnavailable | BudgetReservationDenied string | BudgetValueError string

record counter_reservation =
  rv_key :: string
  rv_amount :: int

record tenant_reservation =
  tr_reservation_id :: string
  tr_marker_key :: string
  tr_user :: counter_reservation
  tr_organization :: counter_reservation
  tr_replayed :: bool

definition reserve_counter ::
    "bool \<Rightarrow> microseconds \<Rightarrow> string \<Rightarrow> int \<Rightarrow> int \<Rightarrow> int \<Rightarrow> redis
     \<Rightarrow> (budget_error + counter_reservation) \<times> redis" where
  "reserve_counter up now key amount limit ttl_seconds s =
     (if amount < 0 \<or> limit < 0
        then (Inl (BudgetValueError ''amount and limit must be non-negative''), s)
      else if key = [] then (Inl (BudgetValueError ''reservation key is required''), s)
      else if \<not> up then (Inl BudgetBackendUnavailable, s)
      else if limit < redis_number now key s + amount
        then (Inl (BudgetReservationDenied ''budget reservation denied''), s)
      else (Inr \<lparr>rv_key = key, rv_amount = amount\<rparr>,
            expire now key ttl_seconds (incrby now key amount s)))"

definition release_counter ::
    "bool \<Rightarrow> microseconds \<Rightarrow> counter_reservation \<Rightarrow> redis \<Rightarrow> (budget_error + unit) \<times> redis" where
  "release_counter up now r s =
     (if \<not> up then (Inl BudgetBackendUnavailable, s) else (Inr (), incrby now (rv_key r) (- rv_amount r) s))"

definition marker_key_of :: "string \<Rightarrow> string \<Rightarrow> string" where
  "marker_key_of organization_key reservation_id = organization_key @ '':reservation:'' @ reservation_id"

definition settlement_key_of :: "string \<Rightarrow> string" where
  "settlement_key_of marker = marker @ '':settled''"

definition reservation_identity :: "string \<Rightarrow> string \<Rightarrow> int \<Rightarrow> string" where
  "reservation_identity user_key organization_key amount =
     user_key @ ''|'' @ organization_key @ ''|'' @ str_int amount"

definition reserve_script ::
    "microseconds \<Rightarrow> string \<Rightarrow> string \<Rightarrow> string \<Rightarrow> int \<Rightarrow> int \<Rightarrow> int \<Rightarrow> int \<Rightarrow> string \<Rightarrow> redis
     \<Rightarrow> int \<times> redis" where
  "reserve_script now marker user_key org_key amount user_limit org_limit ttl_seconds ident s =
     (case redis_get now marker s of
        Some e \<Rightarrow> (if rd_value e = RStr ident then 2 else -1, s)
      | None \<Rightarrow>
          if user_limit < redis_number now user_key s + amount then (0, s)
          else if org_limit < redis_number now org_key s + amount then (0, s)
          else (1,
            expire now org_key ttl_seconds (expire now user_key ttl_seconds
              (redis_set marker (RStr ident) (Some (now + ttl_seconds * 1000000))
                (incrby now org_key amount (incrby now user_key amount s))))))"

definition reserve_tenant ::
    "bool \<Rightarrow> microseconds \<Rightarrow> string \<Rightarrow> string \<Rightarrow> string \<Rightarrow> int \<Rightarrow> int \<Rightarrow> int \<Rightarrow> int \<Rightarrow> redis
     \<Rightarrow> (budget_error + tenant_reservation) \<times> redis" where
  "reserve_tenant up now reservation_id user_key org_key amount user_limit org_limit ttl_seconds s =
     (if reservation_id = [] \<or> user_key = [] \<or> org_key = []
        then (Inl (BudgetValueError ''tenant reservation identity is required''), s)
      else if min (min amount user_limit) (min org_limit ttl_seconds) \<le> 0
        then (Inl (BudgetValueError ''tenant reservation values must be positive''), s)
      else if \<not> up then (Inl BudgetBackendUnavailable, s)
      else (let marker = marker_key_of org_key reservation_id in
        (case reserve_script now marker user_key org_key amount user_limit org_limit ttl_seconds
                (reservation_identity user_key org_key amount) s of
           (result, s') \<Rightarrow>
             (if result = 0 then Inl (BudgetReservationDenied ''tenant token budget exceeded'')
              else if result \<notin> {1, 2} then Inl (BudgetReservationDenied ''reservation identity conflict'')
              else Inr \<lparr>tr_reservation_id = reservation_id, tr_marker_key = marker,
                        tr_user = \<lparr>rv_key = user_key, rv_amount = amount\<rparr>,
                        tr_organization = \<lparr>rv_key = org_key, rv_amount = amount\<rparr>,
                        tr_replayed = (result = 2)\<rparr>, s'))))"

definition tenant_identity :: "tenant_reservation \<Rightarrow> string" where
  "tenant_identity r = reservation_identity (rv_key (tr_user r)) (rv_key (tr_organization r)) (rv_amount (tr_user r))"

definition release_tenant ::
    "bool \<Rightarrow> microseconds \<Rightarrow> tenant_reservation \<Rightarrow> redis \<Rightarrow> (budget_error + unit) \<times> redis" where
  "release_tenant up now r s =
     (if tr_replayed r then (Inr (), s)
      else if \<not> up then (Inl BudgetBackendUnavailable, s)
      else if map_option rd_value (redis_get now (tr_marker_key r) s) \<noteq> Some (RStr (tenant_identity r))
        then (Inr (), s)
      else (let amount = rv_amount (tr_user r); uk = rv_key (tr_user r); ok = rv_key (tr_organization r);
                user_current = redis_number now uk s; org_current = redis_number now ok s;
                s1 = redis_set uk (RInt (max 0 (user_current - amount))) (redis_expiry now uk s) s;
                s2 = redis_set ok (RInt (max 0 (org_current - amount))) (redis_expiry now ok s1) s1
            in (Inr (), redis_del (tr_marker_key r) s2)))"

definition settle_script ::
    "microseconds \<Rightarrow> string \<Rightarrow> string \<Rightarrow> string \<Rightarrow> int \<Rightarrow> int \<Rightarrow> string \<Rightarrow> redis \<Rightarrow> int \<times> redis" where
  "settle_script now marker user_key org_key reserved actual ident s =
     (if map_option rd_value (redis_get now marker s) \<noteq> Some (RStr ident) then (-1, s)
      else (case redis_get now (settlement_key_of marker) s of
        Some e \<Rightarrow> (if rd_value e = RInt actual then 0 else -2, s)
      | None \<Rightarrow>
          (case redis_expiry now marker s of
             None \<Rightarrow> (-1, s)
           | Some t \<Rightarrow>
               (1, redis_set (settlement_key_of marker) (RInt actual) (Some t)
                     (incrby now org_key (actual - reserved) (incrby now user_key (actual - reserved) s))))))"

definition settle_tenant ::
    "bool \<Rightarrow> microseconds \<Rightarrow> tenant_reservation \<Rightarrow> int \<Rightarrow> redis \<Rightarrow> (budget_error + bool) \<times> redis" where
  "settle_tenant up now r actual s =
     (if actual < 0 then (Inl (BudgetValueError ''actual usage cannot be negative''), s)
      else if \<not> up then (Inl BudgetBackendUnavailable, s)
      else (case settle_script now (tr_marker_key r) (rv_key (tr_user r)) (rv_key (tr_organization r))
                   (rv_amount (tr_user r)) actual (tenant_identity r) s of
        (result, s') \<Rightarrow>
          (if result < 0 then Inl (BudgetReservationDenied ''budget settlement identity conflict'')
           else Inr (result = 1), s')))"

section \<open>The distributed execution budget\<close>

record execution_reservation =
  er_estimate :: cost_estimate
  er_tenant :: tenant_reservation

definition budget_tag :: "int \<Rightarrow> string" where
  "budget_tag org = ''{'' @ str_int org @ ''}''"

definition user_budget_key :: "int \<Rightarrow> int \<Rightarrow> string" where
  "user_budget_key org uid = ''budget:'' @ budget_tag org @ '':user:'' @ str_int uid @ '':tokens''"

definition organization_budget_key :: "int \<Rightarrow> string" where
  "organization_budget_key org = ''budget:'' @ budget_tag org @ '':organization:tokens''"

definition reserve_execution ::
    "bool \<Rightarrow> microseconds \<Rightarrow> int \<Rightarrow> int \<Rightarrow> int \<Rightarrow> string \<Rightarrow> int \<Rightarrow> int \<Rightarrow> string \<Rightarrow> bool \<Rightarrow> int \<Rightarrow> int \<Rightarrow> redis
     \<Rightarrow> (budget_error + execution_reservation) \<times> redis" where
  "reserve_execution up now chars_per_token output_tokens ttl_seconds reservation_id uid org prompt verify
       user_limit org_limit s =
     (let estimate = estimate_cost chars_per_token output_tokens prompt verify;
          total = estimate_total_tokens estimate
      in if org_limit < total \<or> user_limit < total
         then (Inl (BudgetReservationDenied ''execution token budget exceeded''), s)
         else (case reserve_tenant up now reservation_id (user_budget_key org uid)
                      (organization_budget_key org) total user_limit org_limit ttl_seconds s of
                 (Inl e, s') \<Rightarrow> (Inl e, s')
               | (Inr t, s') \<Rightarrow> (Inr \<lparr>er_estimate = estimate, er_tenant = t\<rparr>, s')))"

definition settle_execution ::
    "bool \<Rightarrow> microseconds \<Rightarrow> execution_reservation \<Rightarrow> int \<Rightarrow> redis \<Rightarrow> (budget_error + bool) \<times> redis" where
  "settle_execution up now r actual_tokens s = settle_tenant up now (er_tenant r) actual_tokens s"

section \<open>The process-local gate\<close>

datatype usage_budget_error = BudgetUnavailable string | BudgetExceeded string

record usage_budget_gate =
  ug_user_remaining :: "rat option"
  ug_organization_remaining :: "rat option"
  ug_max_execution_cost :: "rat option"
  ug_backend_available :: bool

record usage_budget_reservation =
  ur_user_id :: int
  ur_organization_id :: int
  ur_estimated_cost :: rat
  ur_verification_estimated_cost :: rat
  ur_total_reserved_cost :: rat

definition exceeds :: "rat \<Rightarrow> rat option \<Rightarrow> bool" where
  "exceeds x bound \<longleftrightarrow> (case bound of None \<Rightarrow> False | Some l \<Rightarrow> l < x)"

definition validate_usage :: "usage_budget_gate \<Rightarrow> rat \<Rightarrow> rat \<Rightarrow> usage_budget_error + rat" where
  "validate_usage g estimated verification =
     (if \<not> ug_backend_available g then Inl (BudgetUnavailable ''Usage budget state is unavailable.'')
      else if estimated < 0 \<or> verification < 0
        then Inl (BudgetExceeded ''Estimated cost cannot be negative.'')
      else if exceeds (estimated + verification) (ug_max_execution_cost g)
        then Inl (BudgetExceeded ''Execution budget exceeded.'')
      else if exceeds (estimated + verification) (ug_user_remaining g)
        then Inl (BudgetExceeded ''User quota exceeded.'')
      else if exceeds (estimated + verification) (ug_organization_remaining g)
        then Inl (BudgetExceeded ''Organization budget exceeded.'')
      else Inr (estimated + verification))"

definition charge_gate :: "rat \<Rightarrow> usage_budget_gate \<Rightarrow> usage_budget_gate" where
  "charge_gate required g = g\<lparr>ug_user_remaining := map_option (\<lambda>x. x - required) (ug_user_remaining g),
     ug_organization_remaining := map_option (\<lambda>x. x - required) (ug_organization_remaining g)\<rparr>"

definition try_reserve ::
    "usage_budget_gate \<Rightarrow> int \<Rightarrow> int \<Rightarrow> rat \<Rightarrow> rat \<Rightarrow> bool \<times> usage_budget_gate" where
  "try_reserve g uid org estimated verification =
     (case validate_usage g estimated verification of
        Inl _ \<Rightarrow> (False, g) | Inr required \<Rightarrow> (True, charge_gate required g))"

definition reserve_or_raise ::
    "usage_budget_gate \<Rightarrow> int \<Rightarrow> int \<Rightarrow> rat \<Rightarrow> rat
     \<Rightarrow> (usage_budget_error + usage_budget_reservation) \<times> usage_budget_gate" where
  "reserve_or_raise g uid org estimated verification =
     (case validate_usage g estimated verification of
        Inl e \<Rightarrow> (Inl e, g)
      | Inr required \<Rightarrow>
          (Inr \<lparr>ur_user_id = uid, ur_organization_id = org, ur_estimated_cost = estimated,
                ur_verification_estimated_cost = verification, ur_total_reserved_cost = required\<rparr>,
           charge_gate required g))"

definition reserve_provider_execution ::
    "int \<Rightarrow> int \<Rightarrow> usage_budget_gate \<Rightarrow> int \<Rightarrow> int \<Rightarrow> string \<Rightarrow> bool
     \<Rightarrow> (usage_budget_error + cost_estimate \<times> usage_budget_reservation) \<times> usage_budget_gate" where
  "reserve_provider_execution chars_per_token output_tokens g uid org prompt verify =
     (let estimate = estimate_cost chars_per_token output_tokens prompt verify in
      (case reserve_or_raise g uid org (of_int (primary_tokens estimate)) (of_int (verifier_tokens estimate)) of
         (Inl e, g') \<Rightarrow> (Inl e, g') | (Inr r, g') \<Rightarrow> (Inr (estimate, r), g')))"

section \<open>Lemmas\<close>

lemma redis_get_set:
  "redis_get now k (redis_set k' v t s) =
     (if k = k' then (case t of None \<Rightarrow> Some \<lparr>rd_value = v, rd_expires_at = t\<rparr>
        | Some x \<Rightarrow> if now < x then Some \<lparr>rd_value = v, rd_expires_at = t\<rparr> else None)
      else redis_get now k s)"
  by (auto simp: redis_get_def redis_set_def split: option.splits)

lemma live_expiry: "redis_get now k s = Some e \<Longrightarrow> rd_expires_at e = Some t \<Longrightarrow> now < t"
  by (auto simp: redis_get_def split: option.splits if_splits)

lemma redis_number_incrby:
  "redis_number now k (incrby now k' n s) =
     (if k = k' then redis_number now k s + n else redis_number now k s)"
proof (cases "k = k'")
  case True
  have "redis_get now k (incrby now k n s)
      = Some \<lparr>rd_value = RInt (redis_number now k s + n), rd_expires_at = redis_expiry now k s\<rparr>"
    unfolding incrby_def redis_get_set
    by (auto simp: redis_expiry_def dest: live_expiry split: option.splits)
  then have "redis_number now k (incrby now k n s) = redis_number now k s + n"
    by (subst redis_number_def) simp
  then show ?thesis using True by simp
qed (simp add: redis_number_def incrby_def redis_get_set)

lemma redis_get_incrby_other: "k \<noteq> k' \<Longrightarrow> redis_get t k (incrby now k' n s) = redis_get t k s"
  by (simp add: incrby_def redis_get_set)

lemma redis_number_expire:
  "0 < ttl \<Longrightarrow> redis_number now k (expire now k' ttl s) = redis_number now k s"
  by (auto simp: redis_number_def expire_def redis_get_set split: option.splits)

lemma redis_get_expire_other: "k \<noteq> k' \<Longrightarrow> redis_get now k (expire now k' ttl s) = redis_get now k s"
  by (auto simp: expire_def redis_get_set split: option.splits)

lemma redis_number_set_other: "k \<noteq> k' \<Longrightarrow> redis_number now k (redis_set k' v t s) = redis_number now k s"
  by (simp add: redis_number_def redis_get_set)

text \<open>The markers of a tenant's reservations are none of its counters.\<close>

lemma marker_not_counter:
  "marker_key_of org_key rid \<noteq> org_key" "settlement_key_of m \<noteq> m"
  by (simp_all add: marker_key_of_def settlement_key_of_def)

lemma reserve_tenant_InrD:
  assumes "reserve_tenant up now rid uk ok amount ul ol ttl s = (Inr r, s')"
  shows "up \<and> 0 < amount \<and> 0 < ttl \<and> rid \<noteq> [] \<and> tr_reservation_id r = rid \<and> tr_marker_key r = marker_key_of ok rid
    \<and> tr_user r = \<lparr>rv_key = uk, rv_amount = amount\<rparr> \<and> tr_organization r = \<lparr>rv_key = ok, rv_amount = amount\<rparr>
    \<and> (tr_replayed r \<longrightarrow> s' = s \<and> map_option rd_value (redis_get now (marker_key_of ok rid) s)
          = Some (RStr (reservation_identity uk ok amount)))
    \<and> (\<not> tr_replayed r \<longrightarrow> redis_get now (marker_key_of ok rid) s = None
          \<and> redis_number now uk s + amount \<le> ul \<and> redis_number now ok s + amount \<le> ol
          \<and> s' = expire now ok ttl (expire now uk ttl
              (redis_set (marker_key_of ok rid) (RStr (reservation_identity uk ok amount))
                (Some (now + ttl * 1000000)) (incrby now ok amount (incrby now uk amount s)))))"
  using assms
  by (auto simp: reserve_tenant_def reserve_script_def Let_def split: if_splits option.splits prod.splits)

lemma reserved_store:
  assumes "0 < ttl" and "uk \<noteq> ok" and "marker \<noteq> uk" and "marker \<noteq> ok"
    and "s' = expire now ok ttl (expire now uk ttl (redis_set marker (RStr ident)
                (Some (now + ttl * 1000000)) (incrby now ok amount (incrby now uk amount s))))"
  shows "redis_number now uk s' = redis_number now uk s + amount"
    and "redis_number now ok s' = redis_number now ok s + amount"
    and "redis_get now marker s' = Some \<lparr>rd_value = RStr ident, rd_expires_at = Some (now + ttl * 1000000)\<rparr>"
  using assms
  by (simp_all add: redis_number_expire redis_number_set_other redis_number_incrby redis_get_expire_other
      redis_get_set)

lemma str_int_last: "last (str_int i) \<noteq> CHR ''n''"
proof -
  have dig: "char_of (48 + d) \<noteq> (CHR ''n'' :: char)" if "d < 10" for d :: nat
  proof
    assume "char_of (48 + d) = (CHR ''n'' :: char)"
    then have "(of_char (char_of (48 + d) :: char) :: nat) = of_char (CHR ''n'')" by (rule arg_cong)
    then show False using that by simp
  qed
  have "last (str_nat n) \<noteq> CHR ''n''" for n
  proof -
    have "last (nat_digits n) < 10" by (rule nat_digits_small [of _ n]) simp
    then show ?thesis using dig by (simp add: str_nat_def last_map)
  qed
  moreover have "str_nat n \<noteq> []" for n by (simp add: str_nat_def)
  ultimately show ?thesis by (simp add: str_int_def)
qed

lemma budget_keys_differ: "user_budget_key org uid \<noteq> organization_budget_key org'"
proof
  assume "user_budget_key org uid = organization_budget_key org'"
  then have "(''budget:'' @ budget_tag org @ '':user:'' @ str_int uid) @ '':tokens''
      = (''budget:'' @ budget_tag org' @ '':organization'') @ '':tokens''"
    unfolding user_budget_key_def organization_budget_key_def by simp
  then have "''budget:'' @ budget_tag org @ '':user:'' @ str_int uid
      = ''budget:'' @ budget_tag org' @ '':organization''"
    by (rule append_same_eq [THEN iffD1])
  then have "last (''budget:'' @ budget_tag org @ '':user:'' @ str_int uid)
      = last (''budget:'' @ budget_tag org' @ '':organization'')"
    by (rule arg_cong)
  then show False using str_int_last [of uid] by (simp add: last_append)
qed

lemma tenant_keys_differ:
  "user_budget_key org uid \<noteq> organization_budget_key org"
  "marker_key_of (organization_budget_key org) rid \<noteq> user_budget_key org uid"
  "marker_key_of (organization_budget_key org) rid \<noteq> organization_budget_key org"
  "settlement_key_of (marker_key_of (organization_budget_key org) rid) \<noteq> user_budget_key org uid"
  "settlement_key_of (marker_key_of (organization_budget_key org) rid) \<noteq> organization_budget_key org"
  "settlement_key_of (marker_key_of (organization_budget_key org) rid) \<noteq> marker_key_of (organization_budget_key org) rid"
  by (rule budget_keys_differ, simp_all add: marker_key_of_def settlement_key_of_def user_budget_key_def
      organization_budget_key_def budget_tag_def)

text \<open>What a new reservation leaves in the store, read at any time before the reservation expires.\<close>

lemma reserved_later:
  assumes "now \<le> t" and "t < now + ttl * 1000000" and "uk \<noteq> ok" and "marker \<noteq> uk" and "marker \<noteq> ok"
    and "s' = expire now ok ttl (expire now uk ttl (redis_set marker (RStr ident)
                (Some (now + ttl * 1000000)) (incrby now ok amount (incrby now uk amount s))))"
  shows "redis_get t uk s' = Some \<lparr>rd_value = RInt (redis_number now uk s + amount), rd_expires_at = Some (now + ttl * 1000000)\<rparr>"
    and "redis_get t ok s' = Some \<lparr>rd_value = RInt (redis_number now ok s + amount), rd_expires_at = Some (now + ttl * 1000000)\<rparr>"
    and "redis_get t marker s' = Some \<lparr>rd_value = RStr ident, rd_expires_at = Some (now + ttl * 1000000)\<rparr>"
    and "\<And>k. k \<noteq> uk \<Longrightarrow> k \<noteq> ok \<Longrightarrow> k \<noteq> marker \<Longrightarrow> redis_get t k s' = redis_get t k s"
proof -
  have live: "redis_get now k (incrby now k n s'') = Some \<lparr>rd_value = RInt (redis_number now k s'' + n), rd_expires_at = redis_expiry now k s''\<rparr>"
    for k n s''
    by (auto simp: incrby_def redis_get_set redis_expiry_def dest: live_expiry split: option.splits)
  have num: "redis_number now ok (incrby now uk amount s) = redis_number now ok s"
    using assms(3) by (simp add: redis_number_incrby)
  have u: "redis_get now uk (redis_set marker (RStr ident) x (incrby now ok amount (incrby now uk amount s)))
      = Some \<lparr>rd_value = RInt (redis_number now uk s + amount), rd_expires_at = redis_expiry now uk s\<rparr>" for x
    using assms(3-5) by (simp add: redis_get_set redis_get_incrby_other live)
  have o: "redis_get now ok (expire now uk ttl (redis_set marker (RStr ident) x (incrby now ok amount (incrby now uk amount s))))
      = Some \<lparr>rd_value = RInt (redis_number now ok s + amount),
             rd_expires_at = redis_expiry now ok (incrby now uk amount s)\<rparr>" for x
    using assms(3-5) by (simp add: redis_get_expire_other redis_get_set live num)
  have shape: "s' = redis_set ok (RInt (redis_number now ok s + amount)) (Some (now + ttl * 1000000))
      (redis_set uk (RInt (redis_number now uk s + amount)) (Some (now + ttl * 1000000))
        (redis_set marker (RStr ident) (Some (now + ttl * 1000000)) (incrby now ok amount (incrby now uk amount s))))"
    unfolding assms(6) expire_def [of _ ok] using o by (simp add: expire_def u)
  show "redis_get t uk s' = Some \<lparr>rd_value = RInt (redis_number now uk s + amount), rd_expires_at = Some (now + ttl * 1000000)\<rparr>"
    and "redis_get t ok s' = Some \<lparr>rd_value = RInt (redis_number now ok s + amount), rd_expires_at = Some (now + ttl * 1000000)\<rparr>"
    and "redis_get t marker s' = Some \<lparr>rd_value = RStr ident, rd_expires_at = Some (now + ttl * 1000000)\<rparr>"
    and "\<And>k. k \<noteq> uk \<Longrightarrow> k \<noteq> ok \<Longrightarrow> k \<noteq> marker \<Longrightarrow> redis_get t k s' = redis_get t k s"
    unfolding shape using assms(1-5) by (simp_all add: redis_get_set incrby_def)
qed

section \<open>Distributed reservations: limits, replay, release\<close>

lemma reserve_execution_Inr:
  assumes "reserve_execution up now cpt out_tokens ttl rid uid org prompt verify ul ol s = (Inr e, s')"
  shows "reserve_tenant up now rid (user_budget_key org uid) (organization_budget_key org)
      (estimate_total_tokens (er_estimate e)) ul ol ttl s = (Inr (er_tenant e), s')"
    and "er_estimate e = estimate_cost cpt out_tokens prompt verify"
  using assms by (auto simp: reserve_execution_def Let_def split: if_splits prod.splits sum.splits)

lemma reserve_tenant_Inl: "reserve_tenant up now rid uk ok amount ul ol ttl s = (Inl x, s') \<Longrightarrow> s' = s"
  by (auto simp: reserve_tenant_def reserve_script_def Let_def split: if_splits option.splits prod.splits)

lemma reserve_execution_Inl:
  "reserve_execution up now cpt out_tokens ttl rid uid org prompt verify ul ol s = (Inl x, s') \<Longrightarrow> s' = s"
  by (auto simp: reserve_execution_def Let_def dest: reserve_tenant_Inl split: if_splits prod.splits sum.splits)

text \<open>A new reservation of an execution, as the store and the handle it leaves.\<close>

definition newly_reserved ::
    "microseconds \<Rightarrow> int \<Rightarrow> string \<Rightarrow> int \<Rightarrow> int \<Rightarrow> int \<Rightarrow> redis \<Rightarrow> tenant_reservation \<Rightarrow> redis \<Rightarrow> bool" where
  "newly_reserved now ttl rid uid org amount s r s' \<longleftrightarrow>
     0 < amount \<and> 0 < ttl
     \<and> r = \<lparr>tr_reservation_id = rid, tr_marker_key = marker_key_of (organization_budget_key org) rid,
            tr_user = \<lparr>rv_key = user_budget_key org uid, rv_amount = amount\<rparr>,
            tr_organization = \<lparr>rv_key = organization_budget_key org, rv_amount = amount\<rparr>, tr_replayed = False\<rparr>
     \<and> s' = expire now (organization_budget_key org) ttl (expire now (user_budget_key org uid) ttl
              (redis_set (tr_marker_key r) (RStr (tenant_identity r)) (Some (now + ttl * 1000000))
                (incrby now (organization_budget_key org) amount (incrby now (user_budget_key org uid) amount s))))"

lemma reserve_execution_new:
  assumes "reserve_execution up now cpt out_tokens ttl rid uid org prompt verify ul ol s = (Inr e, s')"
    and "\<not> tr_replayed (er_tenant e)"
  shows "newly_reserved now ttl rid uid org (estimate_total_tokens (estimate_cost cpt out_tokens prompt verify)) s
      (er_tenant e) s'"
    and "up" and "rid \<noteq> []"
    and "redis_number now (user_budget_key org uid) s + estimate_total_tokens (er_estimate e) \<le> ul"
    and "redis_number now (organization_budget_key org) s + estimate_total_tokens (er_estimate e) \<le> ol"
proof -
  note r = reserve_execution_Inr [OF assms(1)]
  show "newly_reserved now ttl rid uid org (estimate_total_tokens (estimate_cost cpt out_tokens prompt verify)) s
      (er_tenant e) s'"
    using reserve_tenant_InrD [OF r(1)] assms(2) r(2)
    by (cases "er_tenant e") (simp add: newly_reserved_def tenant_identity_def)
  show "up" "rid \<noteq> []" "redis_number now (user_budget_key org uid) s + estimate_total_tokens (er_estimate e) \<le> ul"
    "redis_number now (organization_budget_key org) s + estimate_total_tokens (er_estimate e) \<le> ol"
    using reserve_tenant_InrD [OF r(1)] assms(2) by simp_all
qed

lemma newly_reserved_store:
  assumes "newly_reserved now ttl rid uid org amount s r s'" and "now \<le> t" and "t < now + ttl * 1000000"
  shows "redis_get t (user_budget_key org uid) s' = Some
        \<lparr>rd_value = RInt (redis_number now (user_budget_key org uid) s + amount), rd_expires_at = Some (now + ttl * 1000000)\<rparr>"
    and "redis_get t (organization_budget_key org) s' = Some
        \<lparr>rd_value = RInt (redis_number now (organization_budget_key org) s + amount), rd_expires_at = Some (now + ttl * 1000000)\<rparr>"
    and "redis_get t (tr_marker_key r) s' = Some
        \<lparr>rd_value = RStr (tenant_identity r), rd_expires_at = Some (now + ttl * 1000000)\<rparr>"
    and "\<And>k. k \<notin> {user_budget_key org uid, organization_budget_key org, tr_marker_key r}
        \<Longrightarrow> redis_get t k s' = redis_get t k s"
proof -
  note keys = tenant_keys_differ [of org]
  have m: "tr_marker_key r = marker_key_of (organization_budget_key org) rid"
    using assms(1) by (simp add: newly_reserved_def)
  have s': "s' = expire now (organization_budget_key org) ttl (expire now (user_budget_key org uid) ttl
              (redis_set (tr_marker_key r) (RStr (tenant_identity r)) (Some (now + ttl * 1000000))
                (incrby now (organization_budget_key org) amount (incrby now (user_budget_key org uid) amount s))))"
    using assms(1) unfolding newly_reserved_def by blast
  note later = reserved_later [OF assms(2,3) keys(1) keys(2,3) [of rid, folded m] s']
  show "redis_get t (user_budget_key org uid) s' = Some
        \<lparr>rd_value = RInt (redis_number now (user_budget_key org uid) s + amount), rd_expires_at = Some (now + ttl * 1000000)\<rparr>"
    "redis_get t (organization_budget_key org) s' = Some
        \<lparr>rd_value = RInt (redis_number now (organization_budget_key org) s + amount), rd_expires_at = Some (now + ttl * 1000000)\<rparr>"
    "redis_get t (tr_marker_key r) s' = Some
        \<lparr>rd_value = RStr (tenant_identity r), rd_expires_at = Some (now + ttl * 1000000)\<rparr>"
    using later(1-3) by simp_all
  show "\<And>k. k \<notin> {user_budget_key org uid, organization_budget_key org, tr_marker_key r}
        \<Longrightarrow> redis_get t k s' = redis_get t k s"
    using later(4) by simp
qed

text \<open>C20: A distributed reservation respects both limits.  When an execution is newly reserved, the
  user's and the organization's counter each rise by exactly the estimate and stay within their limits,
  both live for the full window from now on, and no other key but the reservation's own marker changes.
  A denial, an outage, an invalid or conflicting request and a replay change nothing at all.\<close>

theorem reservation_respects_limits:
  assumes "reserve_execution up now cpt out_tokens ttl rid uid org prompt verify ul ol s = (r, s')"
  shows "case r of Inl x \<Rightarrow> s' = s
    | Inr e \<Rightarrow> if tr_replayed (er_tenant e) then s' = s
        else (\<exists>u g. redis_get now (user_budget_key org uid) s' = Some \<lparr>rd_value = RInt u, rd_expires_at = Some (now + ttl * 1000000)\<rparr>
          \<and> redis_get now (organization_budget_key org) s' = Some \<lparr>rd_value = RInt g, rd_expires_at = Some (now + ttl * 1000000)\<rparr>
          \<and> u = redis_number now (user_budget_key org uid) s + estimate_total_tokens (estimate_cost cpt out_tokens prompt verify)
          \<and> g = redis_number now (organization_budget_key org) s + estimate_total_tokens (estimate_cost cpt out_tokens prompt verify)
          \<and> u \<le> ul \<and> g \<le> ol
          \<and> (\<forall>k. k \<notin> {user_budget_key org uid, organization_budget_key org, tr_marker_key (er_tenant e)}
                \<longrightarrow> redis_get now k s' = redis_get now k s))"
proof (cases r)
  case (Inl x)
  then show ?thesis using assms reserve_execution_Inl by simp
next
  case (Inr e)
  show ?thesis
  proof (cases "tr_replayed (er_tenant e)")
    case True
    then show ?thesis
      using reserve_tenant_InrD [OF reserve_execution_Inr(1), of up now cpt out_tokens ttl rid uid org prompt verify ul ol s e s']
        assms Inr by simp
  next
    case False
    have run: "reserve_execution up now cpt out_tokens ttl rid uid org prompt verify ul ol s = (Inr e, s')"
      using assms Inr by simp
    note new = reserve_execution_new [OF run False]
    have "0 < ttl" using new(1) by (simp add: newly_reserved_def)
    then have "now < now + ttl * 1000000" by simp
    note st = newly_reserved_store [OF new(1) order_refl this]
    show ?thesis using Inr False new(4,5) st reserve_execution_Inr(2) [OF run] by simp
  qed
qed

theorem reservation_respects_limits_witness:
  "(case reserve_execution True 0 4 100 3600 ''exec_1'' 7 3 ''hello'' False 1000 5000 Map.empty of (r, s') \<Rightarrow>
     (case r of Inl x \<Rightarrow> False | Inr e \<Rightarrow> \<not> tr_replayed (er_tenant e))
     \<and> redis_number 0 (user_budget_key 3 7) s' \<le> 1000)"
proof -
  obtain r s' where run: "reserve_execution True 0 4 100 3600 ''exec_1'' 7 3 ''hello'' False 1000 5000 Map.empty = (r, s')"
    by fastforce
  have new: "case r of Inl x \<Rightarrow> False | Inr e \<Rightarrow> \<not> tr_replayed (er_tenant e)"
    using run
    by (auto simp: reserve_execution_def reserve_tenant_def reserve_script_def estimate_cost_def
        estimate_total_tokens_def ceil_div_def Let_def redis_get_def redis_number_def organization_budget_key_def
        user_budget_key_def split: sum.splits)
  then show ?thesis
    using reservation_respects_limits [OF run] run by (auto simp: redis_number_def split: sum.splits)
qed

lemma identity_of_new:
  "newly_reserved now ttl rid uid org amount s r s' \<Longrightarrow>
     tenant_identity r = reservation_identity (user_budget_key org uid) (organization_budget_key org) amount"
  "newly_reserved now ttl rid uid org amount s r s' \<Longrightarrow>
     rv_key (tr_user r) = user_budget_key org uid \<and> rv_key (tr_organization r) = organization_budget_key org
     \<and> rv_amount (tr_user r) = amount \<and> \<not> tr_replayed r
     \<and> tr_marker_key r = marker_key_of (organization_budget_key org) rid"
  by (simp_all add: newly_reserved_def tenant_identity_def)

lemma redis_number_set:
  "redis_number t k (redis_set k' (RInt i) x s) =
     (if k = k' then (if (case x of None \<Rightarrow> True | Some e \<Rightarrow> t < e) then i else 0) else redis_number t k s)"
  by (auto simp: redis_number_def redis_get_set split: option.splits)

lemma redis_get_del: "redis_get t k (redis_del k' s) = (if k = k' then None else redis_get t k s)"
  by (simp add: redis_get_def redis_del_def)

lemma redis_number_del: "redis_number t k (redis_del k' s) = (if k = k' then 0 else redis_number t k s)"
  by (simp add: redis_number_def redis_get_del)

lemma release_new:
  assumes "newly_reserved now ttl rid uid org amount s r s1" and "now \<le> t" and "t < now + ttl * 1000000"
    and "0 \<le> redis_number now (user_budget_key org uid) s"
    and "0 \<le> redis_number now (organization_budget_key org) s"
  shows "\<exists>s2. release_tenant True t r s1 = (Inr (), s2)
      \<and> redis_number t (user_budget_key org uid) s2 = redis_number now (user_budget_key org uid) s
      \<and> redis_number t (organization_budget_key org) s2 = redis_number now (organization_budget_key org) s
      \<and> redis_get t (tr_marker_key r) s2 = None
      \<and> release_tenant True t r s2 = (Inr (), s2)"
proof -
  let ?u = "user_budget_key org uid" and ?o = "organization_budget_key org"
  note ids = identity_of_new [OF assms(1)]
  note st = newly_reserved_store [OF assms(1-3)]
  note keys = tenant_keys_differ [of org]
  have nums: "redis_number t ?u s1 = redis_number now ?u s + amount" "redis_number t ?o s1 = redis_number now ?o s + amount"
    using st(1,2) by (simp_all add: redis_number_def)
  have exps: "redis_expiry t ?u s1 = Some (now + ttl * 1000000)"
    "redis_expiry t ?o (redis_set ?u v x s1) = Some (now + ttl * 1000000)" for v x
    using st(1,2) keys(1) [THEN not_sym] by (simp_all add: redis_expiry_def redis_get_set)
  define s2 where "s2 = redis_del (tr_marker_key r)
      (redis_set ?o (RInt (redis_number now ?o s)) (Some (now + ttl * 1000000))
        (redis_set ?u (RInt (redis_number now ?u s)) (Some (now + ttl * 1000000)) s1))"
  have rel: "release_tenant True t r s1 = (Inr (), s2)"
    unfolding release_tenant_def Let_def s2_def using st(3) ids nums exps assms(4,5) by simp
  have mk: "tr_marker_key r \<noteq> ?u" "tr_marker_key r \<noteq> ?o" using ids(2) keys(2,3) by simp_all
  have gone: "redis_get t (tr_marker_key r) s2 = None" by (simp add: s2_def redis_get_del)
  have again: "release_tenant True t r s2 = (Inr (), s2)" by (simp add: release_tenant_def gone)
  have nu: "redis_number t ?u s2 = redis_number now ?u s" "redis_number t ?o s2 = redis_number now ?o s"
    unfolding s2_def redis_number_del redis_number_set
    using keys(1) [THEN not_sym] assms(3) mk [THEN not_sym] by simp_all
  show ?thesis using rel nu gone again by blast
qed

lemma replay_new:
  assumes "newly_reserved now ttl rid uid org amount s r s1" and "now \<le> t" and "t < now + ttl * 1000000"
    and "amount \<le> ul" and "amount \<le> ol" and "rid \<noteq> []"
  shows "\<exists>x. reserve_tenant True t rid (user_budget_key org uid) (organization_budget_key org) amount ul ol ttl s1
      = (Inr x, s1) \<and> tr_replayed x"
proof -
  have m: "redis_get t (marker_key_of (organization_budget_key org) rid) s1
      = Some \<lparr>rd_value = RStr (reservation_identity (user_budget_key org uid) (organization_budget_key org) amount),
          rd_expires_at = Some (now + ttl * 1000000)\<rparr>"
    using newly_reserved_store(3) [OF assms(1-3)] identity_of_new [OF assms(1)] by simp
  have "user_budget_key org uid \<noteq> []" "organization_budget_key org \<noteq> []"
    by (simp_all add: user_budget_key_def organization_budget_key_def)
  moreover have "0 < amount" "0 < ttl" using assms(1) by (simp_all add: newly_reserved_def)
  ultimately show ?thesis
    using m assms(4-6) by (simp add: reserve_tenant_def reserve_script_def Let_def)
qed

text \<open>C21: Releasing undoes reserving, once.  As long as a new reservation lives, releasing it puts both
  counters back to what they were when it was made (they were not negative) and removes its marker;
  releasing it again does nothing.  Before it is released, reserving the same execution again is
  recognised as a replay and charges nothing, and releasing that replay does nothing either.\<close>

theorem reservation_released_exactly:
  assumes run: "reserve_execution up now cpt out_tokens ttl rid uid org prompt verify ul ol s = (Inr e, s1)"
    and fresh: "\<not> tr_replayed (er_tenant e)"
    and time: "now \<le> t" "t < now + ttl * 1000000"
    and nonneg: "0 \<le> redis_number now (user_budget_key org uid) s"
      "0 \<le> redis_number now (organization_budget_key org) s"
  shows "(\<exists>s2. release_tenant True t (er_tenant e) s1 = (Inr (), s2)
      \<and> redis_number t (user_budget_key org uid) s2 = redis_number now (user_budget_key org uid) s
      \<and> redis_number t (organization_budget_key org) s2 = redis_number now (organization_budget_key org) s
      \<and> redis_get t (tr_marker_key (er_tenant e)) s2 = None
      \<and> release_tenant True t (er_tenant e) s2 = (Inr (), s2))
    \<and> (\<exists>e'. reserve_execution True t cpt out_tokens ttl rid uid org prompt verify ul ol s1 = (Inr e', s1)
      \<and> tr_replayed (er_tenant e') \<and> release_tenant True t (er_tenant e') s1 = (Inr (), s1))"
proof -
  let ?n = "estimate_total_tokens (estimate_cost cpt out_tokens prompt verify)"
  note new = reserve_execution_new [OF run fresh]
  have lims: "?n \<le> ul" "?n \<le> ol" using new(4,5) nonneg reserve_execution_Inr(2) [OF run] by simp_all
  from replay_new [OF new(1) time lims new(3)]
  obtain x where x: "reserve_tenant True t rid (user_budget_key org uid) (organization_budget_key org) ?n ul ol ttl s1
      = (Inr x, s1)" "tr_replayed x" by blast
  then have "reserve_execution True t cpt out_tokens ttl rid uid org prompt verify ul ol s1
      = (Inr \<lparr>er_estimate = estimate_cost cpt out_tokens prompt verify, er_tenant = x\<rparr>, s1)"
    using lims by (simp add: reserve_execution_def Let_def)
  then show ?thesis using release_new [OF new(1) time nonneg] x(2) by (simp add: release_tenant_def)
qed

definition sample_reservation :: "(budget_error + execution_reservation) \<times> redis" where
  "sample_reservation = reserve_execution True 0 4 100 3600 ''exec_1'' 7 3 ''hello'' False 1000 5000 Map.empty"

lemma sample_reservation_new:
  obtains e s1 where "reserve_execution True 0 4 100 3600 ''exec_1'' 7 3 ''hello'' False 1000 5000 Map.empty = (Inr e, s1)"
    and "\<not> tr_replayed (er_tenant e)" and "sample_reservation = (Inr e, s1)"
proof -
  obtain r s1 where run: "sample_reservation = (r, s1)" by fastforce
  have "case r of Inl x \<Rightarrow> False | Inr e \<Rightarrow> \<not> tr_replayed (er_tenant e)"
    using run
    by (auto simp: sample_reservation_def reserve_execution_def reserve_tenant_def reserve_script_def estimate_cost_def
        estimate_total_tokens_def ceil_div_def Let_def redis_get_def redis_number_def organization_budget_key_def
        user_budget_key_def split: sum.splits)
  then show thesis using run that by (cases r) (auto simp: sample_reservation_def)
qed

theorem reservation_released_exactly_witness:
  "case sample_reservation of (Inr e, s1) \<Rightarrow>
      (\<exists>s2. release_tenant True 5 (er_tenant e) s1 = (Inr (), s2) \<and> redis_number 5 (user_budget_key 3 7) s2 = 0)
    | _ \<Rightarrow> False"
proof -
  obtain e s1 where run: "reserve_execution True 0 4 100 3600 ''exec_1'' 7 3 ''hello'' False 1000 5000 Map.empty = (Inr e, s1)"
    "\<not> tr_replayed (er_tenant e)" "sample_reservation = (Inr e, s1)" by (rule sample_reservation_new)
  have "redis_number 0 k Map.empty = 0" for k by (simp add: redis_number_def redis_get_def)
  then have "\<exists>s2. release_tenant True 5 (er_tenant e) s1 = (Inr (), s2) \<and> redis_number 5 (user_budget_key 3 7) s2 = 0"
    using reservation_released_exactly [OF run(1,2), of 5] by auto
  then show ?thesis by (simp add: run(3))
qed

text \<open>The store a settlement of a new reservation leaves.\<close>

lemma settle_new:
  assumes "newly_reserved now ttl rid uid org amount s r s1" and "now \<le> t" and "t < now + ttl * 1000000"
    and "redis_get t (settlement_key_of (tr_marker_key r)) s = None" and "0 \<le> actual"
  shows "settle_tenant True t r actual s1 = (Inr True,
      redis_set (settlement_key_of (tr_marker_key r)) (RInt actual) (Some (now + ttl * 1000000))
        (incrby t (organization_budget_key org) (actual - amount) (incrby t (user_budget_key org uid) (actual - amount) s1)))"
proof -
  note ids = identity_of_new [OF assms(1)]
  note st = newly_reserved_store [OF assms(1-3)]
  have "redis_get t (settlement_key_of (tr_marker_key r)) s1 = None"
    using st(4) assms(4) ids(2) tenant_keys_differ [of org] by simp
  then show ?thesis
    using st(3) ids assms(5) by (simp add: settle_tenant_def settle_script_def redis_expiry_def)
qed

text \<open>An execution's usage is settled once.  Settling a live new reservation with the actual usage
  moves both counters by exactly the difference between actual and estimate (also beyond the limits:
  settlement checks none), so they hold the old value plus the actual usage.  A second settlement with
  the same usage is a no-op reporting False, and one with a different usage is refused and changes
  nothing.\<close>

theorem settlement_happens_once:
  assumes run: "reserve_execution up now cpt out_tokens ttl rid uid org prompt verify ul ol s = (Inr e, s1)"
    and fresh: "\<not> tr_replayed (er_tenant e)"
    and unsettled: "redis_get t (settlement_key_of (tr_marker_key (er_tenant e))) s = None"
    and time: "now \<le> t" "t \<le> t'" "t' < now + ttl * 1000000"
    and usage: "0 \<le> actual" "0 \<le> other" "other \<noteq> actual"
  shows "\<exists>s2. settle_execution True t e actual s1 = (Inr True, s2)
      \<and> redis_number t (user_budget_key org uid) s2 = redis_number now (user_budget_key org uid) s + actual
      \<and> redis_number t (organization_budget_key org) s2 = redis_number now (organization_budget_key org) s + actual
      \<and> settle_execution True t' e actual s2 = (Inr False, s2)
      \<and> settle_execution True t' e other s2 = (Inl (BudgetReservationDenied ''budget settlement identity conflict''), s2)"
proof -
  let ?u = "user_budget_key org uid" and ?o = "organization_budget_key org" and ?r = "er_tenant e"
  let ?n = "estimate_total_tokens (estimate_cost cpt out_tokens prompt verify)"
  let ?k = "settlement_key_of (tr_marker_key ?r)"
  note new = reserve_execution_new(1) [OF run fresh]
  note ids = identity_of_new [OF new]
  note keys = tenant_keys_differ [of org]
  have t: "t < now + ttl * 1000000" "now \<le> t'" using time by simp_all
  note st = newly_reserved_store [OF new time(1) t(1)]
  define s2 where "s2 = redis_set ?k (RInt actual) (Some (now + ttl * 1000000))
      (incrby t ?o (actual - ?n) (incrby t ?u (actual - ?n) s1))"
  have set: "settle_tenant True t ?r actual s1 = (Inr True, s2)"
    unfolding s2_def by (rule settle_new [OF new time(1) t(1) unsettled usage(1)])
  have distinct: "?u \<noteq> ?k" "?o \<noteq> ?k" "?k \<noteq> tr_marker_key ?r" "tr_marker_key ?r \<noteq> ?u" "tr_marker_key ?r \<noteq> ?o" "?o \<noteq> ?u"
    using ids(2) keys(6) [of rid] keys(2) [of rid uid] keys(3) [of rid]
      keys(4) [of rid uid, THEN not_sym] keys(5) [of rid, THEN not_sym] keys(1) [of uid, THEN not_sym] by simp_all
  have nums: "redis_number t ?u s2 = redis_number now ?u s + actual" "redis_number t ?o s2 = redis_number now ?o s + actual"
    using st(1,2) distinct unfolding s2_def
    by (simp_all add: redis_number_set redis_number_incrby) (simp_all add: redis_number_def)
  have settled: "redis_get t' ?k s2 = Some \<lparr>rd_value = RInt actual, rd_expires_at = Some (now + ttl * 1000000)\<rparr>"
    using time(3) by (simp add: s2_def redis_get_set)
  have marker: "redis_get t' (tr_marker_key ?r) s2
      = Some \<lparr>rd_value = RStr (tenant_identity ?r), rd_expires_at = Some (now + ttl * 1000000)\<rparr>"
    using newly_reserved_store(3) [OF new t(2) time(3)] distinct
    by (simp add: s2_def redis_get_set redis_get_incrby_other)
  have "settle_tenant True t' ?r actual s2 = (Inr False, s2)"
    "settle_tenant True t' ?r other s2 = (Inl (BudgetReservationDenied ''budget settlement identity conflict''), s2)"
    using settled marker usage by (simp_all add: settle_tenant_def settle_script_def)
  then show ?thesis using set nums by (auto simp: settle_execution_def)
qed

theorem settlement_happens_once_witness:
  "case sample_reservation of (Inr e, s1) \<Rightarrow>
      (\<exists>s2. settle_execution True 5 e 2000 s1 = (Inr True, s2) \<and> redis_number 5 (user_budget_key 3 7) s2 = 2000
        \<and> settle_execution True 6 e 2000 s2 = (Inr False, s2))
    | _ \<Rightarrow> False"
proof -
  obtain e s1 where run: "reserve_execution True 0 4 100 3600 ''exec_1'' 7 3 ''hello'' False 1000 5000 Map.empty = (Inr e, s1)"
    "\<not> tr_replayed (er_tenant e)" "sample_reservation = (Inr e, s1)" by (rule sample_reservation_new)
  have "redis_number 0 k Map.empty = 0" "redis_get 5 k Map.empty = None" for k
    by (simp_all add: redis_number_def redis_get_def)
  then have "\<exists>s2. settle_execution True 5 e 2000 s1 = (Inr True, s2) \<and> redis_number 5 (user_budget_key 3 7) s2 = 2000
      \<and> settle_execution True 6 e 2000 s2 = (Inr False, s2)"
    using settlement_happens_once [OF run(1,2), of 5 6 2000 0] by auto
  then show ?thesis by (simp add: run(3))
qed

section \<open>The process-local gate\<close>

text \<open>One provider request to the gate: who asks, for which estimate.\<close>

record gate_request =
  gr_user_id :: int
  gr_organization_id :: int
  gr_estimated :: rat
  gr_verification :: rat

fun gate_serves :: "usage_budget_gate \<Rightarrow> gate_request list \<Rightarrow> bool list \<times> usage_budget_gate" where
  "gate_serves g [] = ([], g)"
| "gate_serves g (q # qs) =
     (case try_reserve g (gr_user_id q) (gr_organization_id q) (gr_estimated q) (gr_verification q) of
        (ok, g1) \<Rightarrow> (case gate_serves g1 qs of (oks, g2) \<Rightarrow> (ok # oks, g2)))"

definition granted_cost :: "gate_request list \<Rightarrow> bool list \<Rightarrow> rat" where
  "granted_cost qs oks = (\<Sum>(q, ok)\<leftarrow>zip qs oks. if ok then gr_estimated q + gr_verification q else 0)"

lemma granted_cost_simps [simp]:
  "granted_cost [] oks = 0"
  "granted_cost (q # qs) (ok # oks) = (if ok then gr_estimated q + gr_verification q else 0) + granted_cost qs oks"
  by (simp_all add: granted_cost_def)

lemma try_reserve_charges:
  assumes "try_reserve g uid org x y = (ok, g')" and "ug_user_remaining g = Some ru" and "ug_organization_remaining g = Some ro"
  shows "ug_user_remaining g' = Some (ru - (if ok then x + y else 0))
    \<and> ug_organization_remaining g' = Some (ro - (if ok then x + y else 0))
    \<and> (ok \<longrightarrow> 0 \<le> x + y \<and> x + y \<le> ru \<and> x + y \<le> ro)"
  using assms
  by (auto simp: try_reserve_def validate_usage_def charge_gate_def exceeds_def split: if_splits option.splits)

text \<open>The process-local gate never hands out more than it was built with: over any sequence of
  requests, what it granted in sum stays within the user and the organization quota, and the remaining
  quotas are the initial ones minus that sum.  But it is one quota for everybody: the answers do not
  depend on who asks, so what is granted to one user is taken from all others, and nothing replenishes
  it.\<close>

theorem gate_quota_is_shared:
  assumes "gate_serves g qs = (oks, g')"
    and "ug_user_remaining g = Some ru" and "ug_organization_remaining g = Some ro" and "0 \<le> ru" and "0 \<le> ro"
    and "length qs' = length qs"
    and "\<And>i. i < length qs \<Longrightarrow> gr_estimated (qs' ! i) = gr_estimated (qs ! i) \<and> gr_verification (qs' ! i) = gr_verification (qs ! i)"
  shows "granted_cost qs oks \<le> min ru ro
    \<and> ug_user_remaining g' = Some (ru - granted_cost qs oks)
    \<and> ug_organization_remaining g' = Some (ro - granted_cost qs oks)
    \<and> gate_serves g qs' = (oks, g')"
  using assms
proof (induction qs arbitrary: g ru ro oks g' qs')
  case Nil
  then show ?case by simp
next
  case (Cons q qs)
  obtain ok g1 where t: "try_reserve g (gr_user_id q) (gr_organization_id q) (gr_estimated q) (gr_verification q) = (ok, g1)"
    by fastforce
  obtain oks2 g2 where r: "gate_serves g1 qs = (oks2, g2)" by fastforce
  have o: "oks = ok # oks2" "g' = g2" using Cons.prems(1) t r by simp_all
  let ?c = "if ok then gr_estimated q + gr_verification q else 0"
  note ch = try_reserve_charges [OF t Cons.prems(2,3)]
  obtain p ps where ps: "qs' = p # ps" using Cons.prems(6) by (cases qs') auto
  have p: "gr_estimated p = gr_estimated q" "gr_verification p = gr_verification q"
    using Cons.prems(7) [of 0] ps by simp_all
  have rest: "gr_estimated (ps ! i) = gr_estimated (qs ! i) \<and> gr_verification (ps ! i) = gr_verification (qs ! i)"
    if "i < length qs" for i
    using Cons.prems(7) [of "Suc i"] ps that by simp
  have "0 \<le> ru - ?c" "0 \<le> ro - ?c" using ch Cons.prems(4,5) by auto
  then have ih: "granted_cost qs oks2 \<le> min (ru - ?c) (ro - ?c)
      \<and> ug_user_remaining g2 = Some (ru - ?c - granted_cost qs oks2)
      \<and> ug_organization_remaining g2 = Some (ro - ?c - granted_cost qs oks2)
      \<and> gate_serves g1 ps = (oks2, g2)"
    using Cons.IH [OF r, of "ru - ?c" "ro - ?c" ps] ch rest Cons.prems(6) ps by simp
  have "try_reserve g (gr_user_id p) (gr_organization_id p) (gr_estimated p) (gr_verification p) = (ok, g1)"
    using t by (simp add: try_reserve_def p)
  then show ?case using ih o ps by simp
qed

definition sample_gate :: usage_budget_gate where
  "sample_gate = \<lparr>ug_user_remaining = Some 100, ug_organization_remaining = Some 150,
     ug_max_execution_cost = Some 80, ug_backend_available = True\<rparr>"

definition sample_requests :: "int \<Rightarrow> gate_request list" where
  "sample_requests other = [\<lparr>gr_user_id = 1, gr_organization_id = 1, gr_estimated = 60, gr_verification = 0\<rparr>,
     \<lparr>gr_user_id = other, gr_organization_id = other, gr_estimated = 60, gr_verification = 0\<rparr>]"

theorem gate_quota_is_shared_witness:
  "fst (gate_serves sample_gate (sample_requests 1)) = [True, False]
   \<and> gate_serves sample_gate (sample_requests 2) = gate_serves sample_gate (sample_requests 1)"
proof -
  have a: "\<exists>g'. gate_serves sample_gate (sample_requests 1) = ([True, False], g')"
    by (simp add: sample_gate_def sample_requests_def try_reserve_def validate_usage_def exceeds_def charge_gate_def)
  then obtain g' where g': "gate_serves sample_gate (sample_requests 1) = ([True, False], g')" by blast
  have "gate_serves sample_gate (sample_requests 2) = ([True, False], g')"
    using gate_quota_is_shared [OF g', of 100 150 "sample_requests 2"]
    by (auto simp: sample_gate_def sample_requests_def less_Suc_eq nth_Cons')
  then show ?thesis using g' by simp
qed

end
