(* ===== verification/Streaming.thy ===== *)
theory Streaming
  imports ChatPersistence Reservation
begin

text \<open>
  Streaming an answer: provider failure isolation (\<^verbatim>\<open>application/provider_failure_isolation.py\<close>), the
  stream finalizer and the event pump (\<^verbatim>\<open>application/streaming_lifecycle.py\<close>).  A coroutine that is
  awaited is represented by how it ends; the pump's tasks by which of them are done when
  \<^verbatim>\<open>asyncio.wait\<close> returns, and the event loop's clock by its readings.
\<close>

section \<open>Provider failure isolation\<close>

datatype provider_failure_kind = TimeoutKind | Upstream | InvalidResponse | Internal

text \<open>The exceptions that the code tells apart; \<open>GeneratorClosed\<close> is \<^verbatim>\<open>GeneratorExit\<close>, which is not
  an \<^verbatim>\<open>Exception\<close>, and neither is \<^verbatim>\<open>CancelledError\<close>.\<close>

datatype py_exception =
    CancelledError | GeneratorClosed | IsolatedProviderFailure provider_failure_kind
  | AsyncTimeoutError | EiraOSError | OtherError string

definition isolated_failure_code :: "provider_failure_kind \<Rightarrow> failure_code" where
  "isolated_failure_code k = (if k = TimeoutKind then PROVIDER_TIMEOUT else PROVIDER_FAILURE)"

definition isolated_response_status :: "provider_failure_kind \<Rightarrow> int" where
  "isolated_response_status k = (if k = TimeoutKind then 504 else 502)"

definition require_text :: "pyval \<Rightarrow> py_exception + string" where
  "require_text value = (case value of
     PStr s \<Rightarrow> if s = [] then Inl (IsolatedProviderFailure InvalidResponse) else Inr s
   | _ \<Rightarrow> Inl (IsolatedProviderFailure InvalidResponse))"

definition isolate :: "py_exception \<Rightarrow> py_exception" where
  "isolate e = (case e of
     CancelledError \<Rightarrow> CancelledError
   | GeneratorClosed \<Rightarrow> GeneratorClosed
   | IsolatedProviderFailure k \<Rightarrow> IsolatedProviderFailure k
   | AsyncTimeoutError \<Rightarrow> IsolatedProviderFailure TimeoutKind
   | EiraOSError \<Rightarrow> IsolatedProviderFailure Upstream
   | OtherError _ \<Rightarrow> IsolatedProviderFailure Internal)"

text \<open>
  \<^verbatim>\<open>provider_with_timeout\<close> on an operation that would end as \<open>out\<close> after \<open>takes\<close>;
  \<^verbatim>\<open>execute\<close> on top of it.
\<close>

definition provider_with_timeout :: "rat \<Rightarrow> rat \<Rightarrow> py_exception + 'a \<Rightarrow> py_exception + 'a" where
  "provider_with_timeout timeout_seconds takes out =
     (if timeout_seconds \<le> 0 then Inl (OtherError ''provider timeout must be positive'')
      else if timeout_seconds \<le> takes then Inl AsyncTimeoutError else out)"

definition isolated_execute ::
    "rat \<Rightarrow> ('a \<Rightarrow> py_exception + 'b) \<Rightarrow> rat \<Rightarrow> py_exception + 'a \<Rightarrow> py_exception + 'b" where
  "isolated_execute timeout_seconds validate takes out =
     (case provider_with_timeout timeout_seconds takes out of
        Inl e \<Rightarrow> Inl (isolate e)
      | Inr x \<Rightarrow> (case validate x of Inl e \<Rightarrow> Inl (isolate e) | Inr y \<Rightarrow> Inr y))"

text \<open>What a provider stream produces: a value, the end, or an exception.\<close>

datatype 'v stream_item = Item 'v | Ended | Raised py_exception

text \<open>\<^verbatim>\<open>ProviderFailureIsolation.stream\<close>: in a stream, a timeout is any other exception.\<close>

definition isolate_stream_error :: "py_exception \<Rightarrow> py_exception" where
  "isolate_stream_error e = (case e of
     AsyncTimeoutError \<Rightarrow> IsolatedProviderFailure Internal | _ \<Rightarrow> isolate e)"

fun isolated_stream :: "pyval stream_item list \<Rightarrow> string list \<times> py_exception option" where
  "isolated_stream [] = ([], None)"
| "isolated_stream (Ended # items) = ([], None)"
| "isolated_stream (Raised e # items) = ([], Some (isolate_stream_error e))"
| "isolated_stream (Item (PStr s) # items) =
     (if s = [] then isolated_stream items
      else (case isolated_stream items of (out, e) \<Rightarrow> (s # out, e)))"
| "isolated_stream (Item _ # items) = ([], Some (IsolatedProviderFailure InvalidResponse))"

text \<open>
  \<^verbatim>\<open>provider_text_stream\<close> of the chat endpoint: a provider that reports usage streams events with exactly
  one payload; the last component is the usage seen when the stream ends.
\<close>

record provider_usage =
  us_input_tokens :: int
  us_output_tokens :: int

definition us_total_tokens :: "provider_usage \<Rightarrow> int" where
  "us_total_tokens u = us_input_tokens u + us_output_tokens u"

datatype provider_stream_event = TextEvent string | UsageEvent provider_usage

datatype provider_output =
    PlainStream "pyval stream_item list"
  | UsageStream "provider_stream_event stream_item list"

fun usage_stream ::
    "provider_stream_event stream_item list \<Rightarrow> provider_usage option \<Rightarrow> pyval stream_item list \<times> provider_usage option" where
  "usage_stream [] u = ([], u)"
| "usage_stream (Ended # items) u = ([], u)"
| "usage_stream (Raised e # items) u = ([Raised e], u)"
| "usage_stream (Item (TextEvent t) # items) u =
     (case usage_stream items u of (out, u') \<Rightarrow> (Item (PStr t) # out, u'))"
| "usage_stream (Item (UsageEvent v) # items) u =
     (if u \<noteq> None then ([Raised (OtherError ''provider emitted duplicate stream usage'')], u)
      else usage_stream items (Some v))"

definition provider_text_stream :: "provider_output \<Rightarrow> pyval stream_item list \<times> provider_usage option" where
  "provider_text_stream out = (case out of PlainStream items \<Rightarrow> (items, None) | UsageStream items \<Rightarrow> usage_stream items None)"

section \<open>The finalizer\<close>

datatype stream_terminal = StreamCompleted | StreamFailed | StreamCancelled

fun terminal_status :: "stream_terminal \<Rightarrow> status" where
  "terminal_status StreamCompleted = Completed"
| "terminal_status StreamFailed = Failed"
| "terminal_status StreamCancelled = Cancelled"

text \<open>
  The terminal state is claimed before the side effect: \<open>apply_it\<close> stands for the constructor
  argument \<^verbatim>\<open>apply\<close>, a state transformer that may raise.
\<close>

definition stream_finalize ::
    "(stream_terminal \<Rightarrow> string \<Rightarrow> 's \<Rightarrow> (py_exception + unit) \<times> 's) \<Rightarrow> stream_terminal \<Rightarrow> string
     \<Rightarrow> stream_terminal option \<times> 's \<Rightarrow> (py_exception + bool) \<times> stream_terminal option \<times> 's" where
  "stream_finalize apply_it terminal content st =
     (case st of (claimed, s) \<Rightarrow>
        if claimed \<noteq> None then (Inr False, claimed, s)
        else (case apply_it terminal content s of
           (Inl e, s') \<Rightarrow> (Inl e, Some terminal, s')
         | (Inr _, s') \<Rightarrow> (Inr True, Some terminal, s')))"

definition race_stream ::
    "(stream_terminal \<Rightarrow> string \<Rightarrow> 's \<Rightarrow> (py_exception + unit) \<times> 's) \<Rightarrow> stream_terminal \<times> string
     \<Rightarrow> stream_terminal option \<times> 's \<Rightarrow> (py_exception + bool) \<times> stream_terminal option \<times> 's" where
  "race_stream apply_it c st = stream_finalize apply_it (fst c) (snd c) st"

interpretation finalizer: terminal_machine "race_stream apply_it" "\<lambda>r. r \<noteq> Inr False" "\<lambda>st. fst st \<noteq> None" for apply_it
  by unfold_locales (auto simp: race_stream_def stream_finalize_def split: prod.splits if_splits sum.splits)

section \<open>The pump\<close>

datatype stream_event = Chunk string | Heartbeat | End | Disconnected | LeaseLost | Timeout

record pump_config =
  pc_heartbeat :: rat
  pc_chunk_timeout :: rat
  pc_has_lease :: bool

text \<open>The pump holds the isolated stream: the chunks still to come and the exception at its end.\<close>

record pump =
  pm_source :: "string list \<times> py_exception option"
  pm_chunk_deadline :: "rat option"
  pm_closed :: bool

definition new_pump :: "string list \<times> py_exception option \<Rightarrow> pump" where
  "new_pump source = \<lparr>pm_source = source, pm_chunk_deadline = None, pm_closed = False\<rparr>"

text \<open>
  One call of \<^verbatim>\<open>next_event\<close> from the outside: the clock when it computes the waiting time and when
  the wait is over, and which tasks are done then.  A chunk task is pending exactly while a deadline
  is set.
\<close>

record wakeup =
  wk_entry :: rat
  wk_disconnected :: bool
  wk_lease_lost :: bool
  wk_chunk_done :: bool
  wk_exit :: rat

definition chunk_deadline :: "pump_config \<Rightarrow> wakeup \<Rightarrow> pump \<Rightarrow> rat" where
  "chunk_deadline c w p = (case pm_chunk_deadline p of Some d \<Rightarrow> d | None \<Rightarrow> wk_entry w + pc_chunk_timeout c)"

definition wait_time :: "pump_config \<Rightarrow> wakeup \<Rightarrow> pump \<Rightarrow> rat" where
  "wait_time c w p = min (pc_heartbeat c) (max 0 (chunk_deadline c w p - wk_entry w))"

definition next_event :: "pump_config \<Rightarrow> wakeup \<Rightarrow> pump \<Rightarrow> (py_exception + stream_event) \<times> pump" where
  "next_event c w p =
     (if pm_closed p then (Inr End, p)
      else (let d = chunk_deadline c w p; waiting = p\<lparr>pm_chunk_deadline := Some d\<rparr> in
        if wk_disconnected w then (Inr Disconnected, waiting)
        else if pc_has_lease c \<and> wk_lease_lost w then (Inr LeaseLost, waiting)
        else if wk_chunk_done w then
          (case pm_source p of
             (s # ss, e) \<Rightarrow> (Inr (Chunk s), p\<lparr>pm_source := (ss, e), pm_chunk_deadline := None\<rparr>)
           | ([], None) \<Rightarrow> (Inr End, p\<lparr>pm_chunk_deadline := None\<rparr>)
           | ([], Some e) \<Rightarrow> (Inl e, p\<lparr>pm_source := ([], None), pm_chunk_deadline := None\<rparr>))
        else if d \<le> wk_exit w then (Inr Timeout, waiting)
        else (Inr Heartbeat, waiting)))"

definition close_pump :: "pump \<Rightarrow> pump" where
  "close_pump p = p\<lparr>pm_closed := True\<rparr>"

fun pump_events :: "pump_config \<Rightarrow> wakeup list \<Rightarrow> pump \<Rightarrow> (py_exception + stream_event) list \<times> pump" where
  "pump_events c [] p = ([], p)"
| "pump_events c (w # ws) p =
     (case next_event c w p of (r, p1) \<Rightarrow> (case pump_events c ws p1 of (rs, p2) \<Rightarrow> (r # rs, p2)))"

section \<open>Silence\<close>

text \<open>A run of calls that are only woken by their timer: the provider is silent, the client stays.\<close>

fun only_timer :: "pump_config \<Rightarrow> rat \<Rightarrow> wakeup list \<Rightarrow> pump \<Rightarrow> bool" where
  "only_timer c t [] p \<longleftrightarrow> True"
| "only_timer c t (w # ws) p \<longleftrightarrow> t \<le> wk_entry w \<and> \<not> wk_disconnected w \<and> \<not> (pc_has_lease c \<and> wk_lease_lost w)
     \<and> \<not> wk_chunk_done w \<and> wk_entry w + wait_time c w p \<le> wk_exit w
     \<and> only_timer c (wk_exit w) ws (snd (next_event c w p))"

lemma silent_events:
  assumes "only_timer c t ws p" and "pm_chunk_deadline p = Some d" and "\<not> pm_closed p"
    and "0 < pc_heartbeat c" and "i < length ws"
  shows "fst (pump_events c ws p) ! i = Inr Timeout
    \<or> fst (pump_events c ws p) ! i = Inr Heartbeat \<and> t + of_nat (Suc i) * pc_heartbeat c < d"
  using assms
proof (induction ws arbitrary: t p i)
  case (Cons w ws)
  have ev: "next_event c w p = (if d \<le> wk_exit w then Inr Timeout else Inr Heartbeat, p\<lparr>pm_chunk_deadline := Some d\<rparr>)"
    using Cons.prems(1-3) by (auto simp: next_event_def chunk_deadline_def Let_def)
  have pass: "t + pc_heartbeat c \<le> wk_exit w" if "wk_exit w < d"
    using Cons.prems(1,2) that by (auto simp: wait_time_def chunk_deadline_def)
  have exit: "t \<le> wk_exit w"
    using Cons.prems(1,4) by (auto simp: wait_time_def)
  show ?case
  proof (cases i)
    case 0
    then show ?thesis using ev pass by (auto split: prod.splits)
  next
    case (Suc j)
    have "j < length ws" using Cons.prems(5) Suc by simp
    then have ih: "fst (pump_events c ws (p\<lparr>pm_chunk_deadline := Some d\<rparr>)) ! j = Inr Timeout
        \<or> fst (pump_events c ws (p\<lparr>pm_chunk_deadline := Some d\<rparr>)) ! j = Inr Heartbeat
          \<and> wk_exit w + of_nat (Suc j) * pc_heartbeat c < d"
      using Cons.IH [of "wk_exit w" "p\<lparr>pm_chunk_deadline := Some d\<rparr>" j] Cons.prems ev by simp
    have "0 \<le> of_nat (Suc j) * pc_heartbeat c" using Cons.prems(4) by simp
    then have "t + of_nat (Suc i) * pc_heartbeat c < d" if "wk_exit w + of_nat (Suc j) * pc_heartbeat c < d"
      using pass that Suc by (simp add: algebra_simps)
    then show ?thesis using ih ev Suc by (auto split: prod.splits)
  qed
qed simp

text \<open>C23: Heartbeats do not keep a silent provider alive.  From a chunk request on, as long as the timer is
  all that wakes the pump, every call reports a heartbeat or a timeout, and the i-th heartbeat is only
  possible while i heartbeat intervals fit strictly within the chunk timeout; after that every call
  reports the timeout.\<close>

theorem silent_provider_times_out:
  assumes "only_timer c t (w # ws) (new_pump source)" and "0 < pc_heartbeat c" and "i \<le> length ws"
  shows "fst (pump_events c (w # ws) (new_pump source)) ! i = Inr Timeout
    \<or> fst (pump_events c (w # ws) (new_pump source)) ! i = Inr Heartbeat
      \<and> of_nat (Suc i) * pc_heartbeat c < pc_chunk_timeout c"
proof -
  let ?p = "(new_pump source)\<lparr>pm_chunk_deadline := Some (wk_entry w + pc_chunk_timeout c)\<rparr>"
  have same: "next_event c w (new_pump source) = next_event c w ?p"
    by (simp add: next_event_def chunk_deadline_def new_pump_def Let_def split: prod.splits list.splits option.splits)
  have "only_timer c (wk_entry w) (w # ws) ?p"
    using assms(1) same by (simp add: wait_time_def chunk_deadline_def new_pump_def)
  from silent_events [OF this _ _ assms(2), of "wk_entry w + pc_chunk_timeout c" i]
  have "fst (pump_events c (w # ws) ?p) ! i = Inr Timeout
    \<or> fst (pump_events c (w # ws) ?p) ! i = Inr Heartbeat
      \<and> wk_entry w + of_nat (Suc i) * pc_heartbeat c < wk_entry w + pc_chunk_timeout c"
    using assms(3) by (simp add: new_pump_def)
  then show ?thesis using same by simp
qed

text \<open>The endpoint's configuration: a heartbeat every 15 s and at most 30 s between chunks.\<close>

definition sse_config :: "bool \<Rightarrow> pump_config" where
  "sse_config lease = \<lparr>pc_heartbeat = 15, pc_chunk_timeout = 30, pc_has_lease = lease\<rparr>"

definition timer_wakeup :: "rat \<Rightarrow> wakeup" where
  "timer_wakeup t = \<lparr>wk_entry = t, wk_disconnected = False, wk_lease_lost = False, wk_chunk_done = False,
     wk_exit = t + 15\<rparr>"

theorem silent_provider_times_out_witness:
  "only_timer (sse_config True) 0 [timer_wakeup 0, timer_wakeup 15] (new_pump ([], None))
   \<and> fst (pump_events (sse_config True) [timer_wakeup 0, timer_wakeup 15] (new_pump ([], None))) ! 1 = Inr Timeout"
proof -
  have run: "only_timer (sse_config True) 0 [timer_wakeup 0, timer_wakeup 15] (new_pump ([], None))"
    by (simp add: sse_config_def timer_wakeup_def wait_time_def chunk_deadline_def new_pump_def next_event_def Let_def)
  show ?thesis
    using silent_provider_times_out [OF run, of 1] run by (simp add: sse_config_def)
qed

end
