(* ===== verification/Steps.thy ===== *)
theory Steps
  imports Prelude
begin

text \<open>
  Steps of sequential code: state transformers that end with a value or an exception.  An
  \<^verbatim>\<open>async\<close> function that is awaited to its end is such a step over the state it shares with its
  caller.  A frame is a preorder on states that single steps keep and that sequences of steps
  therefore keep as well.
\<close>

type_synonym ('s, 'e, 'a) step = "'s \<Rightarrow> ('e + 'a) \<times> 's"

definition and_then :: "('s, 'e, 'a) step \<Rightarrow> ('a \<Rightarrow> ('s, 'e, 'b) step) \<Rightarrow> ('s, 'e, 'b) step" where
  "and_then m k g = (case m g of (Inl e, g') \<Rightarrow> (Inl e, g') | (Inr x, g') \<Rightarrow> k x g')"

definition give :: "'a \<Rightarrow> ('s, 'e, 'a) step" where
  "give x g = (Inr x, g)"

definition fail :: "'e \<Rightarrow> ('s, 'e, 'a) step" where
  "fail e g = (Inl e, g)"

definition keeps :: "('s \<Rightarrow> 's \<Rightarrow> bool) \<Rightarrow> ('s, 'e, 'a) step \<Rightarrow> bool" where
  "keeps R m \<longleftrightarrow> (\<forall>g r g'. m g = (r, g') \<longrightarrow> R g g')"

lemma and_then_cases:
  assumes "and_then m k g = (r, g')"
  obtains e where "m g = (Inl e, g')" and "r = Inl e"
  | x g1 where "m g = (Inr x, g1)" and "k x g1 = (r, g')"
  using assms by (auto simp: and_then_def split: prod.splits sum.splits)

lemma and_then_InrD:
  assumes "and_then m k g = (Inr y, g')"
  obtains x g1 where "m g = (Inr x, g1)" and "k x g1 = (Inr y, g')"
  using assms by (auto elim: and_then_cases)

lemma and_then_assoc: "and_then (and_then m f) k = and_then m (\<lambda>x. and_then (f x) k)"
  by (rule ext) (auto simp: and_then_def split: prod.splits sum.splits)

lemma and_then_give [simp]: "and_then (give x) k = k x" "and_then (fail e) k = fail e"
  by (auto simp: and_then_def give_def fail_def)

lemma step_results [simp]: "give x g = (r, g') \<longleftrightarrow> r = Inr x \<and> g' = g" "fail e g = (r, g') \<longleftrightarrow> r = Inl e \<and> g' = g"
  by (auto simp: give_def fail_def)

lemma keepsD: "keeps R m \<Longrightarrow> m g = (r, g') \<Longrightarrow> R g g'"
  by (simp add: keeps_def)

locale step_frame =
  fixes R :: "'s \<Rightarrow> 's \<Rightarrow> bool"
  assumes R_refl: "R g g"
    and R_trans: "R g g1 \<Longrightarrow> R g1 g2 \<Longrightarrow> R g g2"
begin

lemma keeps_and_then:
  assumes "keeps R m" and "\<And>x. keeps R (k x)"
  shows "keeps R (and_then m k)"
  unfolding keeps_def
proof (intro allI impI)
  fix g r g'
  assume "and_then m k g = (r, g')"
  then show "R g g'"
  proof (rule and_then_cases)
    fix x g1
    assume m: "m g = (Inr x, g1)" and k: "k x g1 = (r, g')"
    have "R g g1" using assms(1) m by (simp add: keeps_def)
    moreover have "R g1 g'" using assms(2) [of x] k by (simp add: keeps_def)
    ultimately show "R g g'" by (rule R_trans)
  qed (use assms(1) in \<open>simp add: keeps_def\<close>)
qed

lemma keeps_state: "(\<And>g. snd (m g) = g) \<Longrightarrow> keeps R m"
  using R_refl by (metis keeps_def snd_conv)

lemma keeps_give: "keeps R (give x)" "keeps R (fail e)"
  using R_refl by (auto simp: keeps_def)

end

end
