(* ===== verification/ChatStream.thy ===== *)
theory ChatStream
  imports Verification Steps
begin

text \<open>
  The server-sent event stream of \<^verbatim>\<open>POST /chat/completions\<close>: \<^verbatim>\<open>event_generator\<close> of
  \<^verbatim>\<open>api/v1/chat.py\<close> with its nested \<^verbatim>\<open>apply_terminal\<close>, \<^verbatim>\<open>settle_primary_usage\<close> and
  \<^verbatim>\<open>run_verification\<close>, on top of the pump, the finalizer, the persistence contract, the accountant and
  the budget reservation.  The generator is a state transformer over \<open>gen\<close> that ends normally or
  with an exception.  What other parties do is an argument: the pump's wakeups, the polls of the
  verification task, the number of frames the client takes, the transactions that run between
  \<^verbatim>\<open>mark_streaming\<close> and the terminal transition.  A cancellation of the task strikes where it waits:
  when the given wakeups are used up.
\<close>

section \<open>The generator's state\<close>

datatype sse_frame =
    SseStart | SseToken string | SseKeepAlive | SseVerification string bool string
  | SseDone string bool "string option" "string option" | SseError

record gen =
  g_frames :: "sse_frame list"
  g_accumulated :: string
  g_code :: failure_code
  g_primary :: "string option"
  g_entries :: "execution_cost list"
  g_claimed :: "stream_terminal option"
  g_verified :: bool
  g_vstatus :: "string option"
  g_vreason :: "string option"
  g_pulls :: "nat option"
  g_redis :: redis
  g_db :: chat_db

text \<open>What the generator closes over.\<close>

record stream_request =
  sr_execution_id :: string
  sr_lease_token :: "string option"
  sr_has_lease :: bool
  sr_provider :: string
  sr_model :: string
  sr_messages :: "chat_message list"
  sr_system_prompt :: "string option"
  sr_prompt :: string
  sr_verify :: bool
  sr_reservation :: "execution_reservation option"
  sr_badges :: badge_texts
  sr_loads :: "string \<Rightarrow> verifier_reply"
  sr_dumps :: "string \<Rightarrow> bool \<Rightarrow> string option \<Rightarrow> string option \<Rightarrow> string"
  sr_timeout :: rat

text \<open>
  What the others do.  \<open>sw_verifier\<close> is what \<^verbatim>\<open>_find_verifier_bot\<close> and \<^verbatim>\<open>_provider_for_bot\<close> give
  (nothing when one of them raises): provider, model, the provider's \<^verbatim>\<open>complete\<close> and how long it takes.
\<close>

record stream_world =
  sw_mark_env :: db_env
  sw_output :: provider_output
  sw_wakeups :: "wakeup list"
  sw_redis_up :: bool
  sw_redis_now :: microseconds
  sw_verifier :: "(string \<times> string \<times> completer \<times> rat) option"
  sw_polls :: "(bool \<times> bool) list"
  sw_lease_lost_at_end :: bool
  sw_between :: "chat_db \<Rightarrow> chat_db"
  sw_finalize_env :: db_env

type_synonym 'a gstep = "(gen, py_exception, 'a) step"

text \<open>\<^verbatim>\<open>yield\<close>: the frame is handed out; a client that takes no further one closes the generator here.\<close>

definition yield_frame :: "sse_frame \<Rightarrow> unit gstep" where
  "yield_frame f g = (let g' = g\<lparr>g_frames := g_frames g @ [f]\<rparr> in
     case g_pulls g of None \<Rightarrow> (Inr (), g')
     | Some 0 \<Rightarrow> (Inl GeneratorClosed, g')
     | Some (Suc n) \<Rightarrow> (Inr (), g'\<lparr>g_pulls := Some n\<rparr>))"

definition raise_error :: "string \<Rightarrow> 'a gstep" where
  "raise_error text g = (Inl (OtherError text), g)"

section \<open>Accounting, settlement, terminal transition\<close>

definition CHARS_PER_TOKEN_ACCOUNTED :: int where
  "CHARS_PER_TOKEN_ACCOUNTED = 4"

definition account_primary :: "stream_request \<Rightarrow> string \<Rightarrow> accounting_error + execution_cost" where
  "account_primary sr output = account CHARS_PER_TOKEN_ACCOUNTED (sr_provider sr) (sr_model sr) ''primary''
     (sr_messages sr) output (sr_system_prompt sr)"

definition settle_primary_usage :: "stream_request \<Rightarrow> bool \<Rightarrow> microseconds \<Rightarrow> provider_usage option \<Rightarrow> unit gstep" where
  "settle_primary_usage sr up now usage g =
     (case (usage, sr_reservation sr) of
        (Some u, Some r) \<Rightarrow>
          (case account_reported (sr_provider sr) (sr_model sr) ''primary'' (us_input_tokens u) (us_output_tokens u) of
             Inl _ \<Rightarrow> (Inl (OtherError ''CostAccountingUnavailable''), g)
           | Inr c \<Rightarrow>
               (case settle_execution up now r (us_total_tokens u) (g_redis g) of
                  (Inl _, s) \<Rightarrow> (Inl (OtherError ''Provider usage reconciliation failed.''),
                                g\<lparr>g_entries := g_entries g @ [c], g_redis := s\<rparr>)
                | (Inr _, s) \<Rightarrow> (Inr (), g\<lparr>g_entries := g_entries g @ [c], g_redis := s\<rparr>)))
      | _ \<Rightarrow> (Inr (), g))"

definition primary_accounted :: "stream_request \<Rightarrow> string \<Rightarrow> unit gstep" where
  "primary_accounted sr content g =
     (if \<exists>c \<in> set (g_entries g). ec_operation c = ''primary'' then (Inr (), g)
      else (case account_primary sr (case g_primary g of None \<Rightarrow> content | Some p \<Rightarrow> p) of
          Inl _ \<Rightarrow> (Inl (OtherError ''CostAccountingUnavailable''), g)
        | Inr c \<Rightarrow> (Inr (), g\<lparr>g_entries := g_entries g @ [c]\<rparr>)))"

definition terminal_request :: "stream_request \<Rightarrow> stream_terminal \<Rightarrow> string \<Rightarrow> gen \<Rightarrow> finalize_request" where
  "terminal_request sr terminal content g =
     \<lparr>fz_execution_id = sr_execution_id sr, fz_terminal_status = terminal_status terminal, fz_content = content,
      fz_response_status = (if terminal = StreamCompleted then 200 else fp_response_status (failure_policy (g_code g))),
      fz_response_reference = (if terminal = StreamCompleted
         then sr_dumps sr content (g_verified g) (g_vstatus g) (g_vreason g) else ''failed''),
      fz_lease_token = sr_lease_token sr,
      fz_failure_code = (if terminal = StreamCompleted then None else Some (g_code g)),
      fz_accounting = g_entries g\<rparr>"

definition finalize_stream_db :: "stream_request \<Rightarrow> stream_world \<Rightarrow> stream_terminal \<Rightarrow> string \<Rightarrow> unit gstep" where
  "finalize_stream_db sr sw terminal content g =
     (case finalize (sw_finalize_env sw) (terminal_request sr terminal content g) (sw_between sw (g_db g)) of
        (Inl _, db) \<Rightarrow> (Inl (OtherError ''persistence''), g\<lparr>g_db := db\<rparr>)
      | (Inr won, db) \<Rightarrow>
          (if terminal = StreamCompleted \<and> \<not> won
           then (Inl (OtherError ''execution was already finalized''), g\<lparr>g_db := db\<rparr>)
           else (Inr (), g\<lparr>g_db := db\<rparr>)))"

definition apply_terminal :: "stream_request \<Rightarrow> stream_world \<Rightarrow> stream_terminal \<Rightarrow> string \<Rightarrow> unit gstep" where
  "apply_terminal sr sw terminal content =
     and_then (primary_accounted sr content) (\<lambda>_. finalize_stream_db sr sw terminal content)"

definition finalize_gen :: "stream_request \<Rightarrow> stream_world \<Rightarrow> stream_terminal \<Rightarrow> string \<Rightarrow> bool gstep" where
  "finalize_gen sr sw terminal content g =
     (case stream_finalize (apply_terminal sr sw) terminal content (g_claimed g, g) of
        (r, claimed, g') \<Rightarrow> (r, g'\<lparr>g_claimed := claimed\<rparr>))"

section \<open>The body\<close>

definition start_stream :: "stream_request \<Rightarrow> stream_world \<Rightarrow> unit gstep" where
  "start_stream sr sw g =
     (case mark_streaming (sw_mark_env sw) (sr_execution_id sr) (g_db g) of
        (Inl _, db) \<Rightarrow> (Inl (OtherError ''persistence''), g\<lparr>g_db := db\<rparr>)
      | (Inr False, db) \<Rightarrow> (Inl (OtherError ''execution was already finalized''), g\<lparr>g_db := db\<rparr>)
      | (Inr True, db) \<Rightarrow> yield_frame SseStart (g\<lparr>g_db := db\<rparr>))"

fun pump_loop :: "pump_config \<Rightarrow> wakeup list \<Rightarrow> pump \<Rightarrow> unit gstep" where
  "pump_loop c [] p g = (Inl CancelledError, g)"
| "pump_loop c (w # ws) p g =
     (case next_event c w p of
        (Inl e, p') \<Rightarrow> (Inl e, g)
      | (Inr (Chunk s), p') \<Rightarrow>
          (case yield_frame (SseToken s) (g\<lparr>g_accumulated := g_accumulated g @ s\<rparr>) of
             (Inl e, g') \<Rightarrow> (Inl e, g') | (Inr _, g') \<Rightarrow> pump_loop c ws p' g')
      | (Inr Heartbeat, p') \<Rightarrow>
          (case yield_frame SseKeepAlive g of (Inl e, g') \<Rightarrow> (Inl e, g') | (Inr _, g') \<Rightarrow> pump_loop c ws p' g')
      | (Inr End, p') \<Rightarrow> (Inr (), g)
      | (Inr Disconnected, p') \<Rightarrow> (Inl CancelledError, g\<lparr>g_code := CLIENT_CANCELLED\<rparr>)
      | (Inr LeaseLost, p') \<Rightarrow>
          (Inl (OtherError ''idempotency lease was lost during AI processing''), g\<lparr>g_code := IDEMPOTENCY_LOST\<rparr>)
      | (Inr Timeout, p') \<Rightarrow> (Inl (OtherError ''provider stream timed out''), g\<lparr>g_code := PROVIDER_TIMEOUT\<rparr>))"

text \<open>While the verification task runs: each poll tells whether the client is gone and the lease lost.\<close>

fun poll_loop :: "bool \<Rightarrow> (bool \<times> bool) list \<Rightarrow> unit gstep" where
  "poll_loop lease [] g = (Inr (), g)"
| "poll_loop lease ((gone, lost) # ps) g =
     (if gone then (Inl CancelledError, g)
      else if lease \<and> lost then (Inl (OtherError ''idempotency lease was lost during verification''), g)
      else (case yield_frame SseKeepAlive g of (Inl e, g') \<Rightarrow> (Inl e, g') | (Inr _, g') \<Rightarrow> poll_loop lease ps g'))"

definition not_carried_out :: string where
  "not_carried_out = ''Verifikationskontrollen kunne ikke gennemf'' @ [CHR 0xF8] @ ''res.''"

text \<open>\<^verbatim>\<open>run_verification\<close>: every \<^verbatim>\<open>Exception\<close> becomes a failed verification; the second component is
  \<^verbatim>\<open>verifier_accounting_context\<close>.\<close>

definition run_verification ::
    "stream_request \<Rightarrow> (string \<times> string \<times> completer \<times> rat) option \<Rightarrow> string
     \<Rightarrow> (py_exception + verification_result) \<times> (string \<times> string) option" where
  "run_verification sr verifier answer =
     (case verifier of
        None \<Rightarrow> (Inr (verification_failure (sr_badges sr) answer not_carried_out), None)
      | Some (provider, model, completes, takes) \<Rightarrow>
          ((case isolated_execute (sr_timeout sr) Inr takes
                  (verify_answer (sr_badges sr) (sr_loads sr) answer (sr_prompt sr) completes model) of
              Inl CancelledError \<Rightarrow> Inl CancelledError
            | Inl GeneratorClosed \<Rightarrow> Inl GeneratorClosed
            | Inl _ \<Rightarrow> Inr (verification_failure (sr_badges sr) answer not_carried_out)
            | Inr r \<Rightarrow> Inr r), Some (provider, model)))"

definition account_verification ::
    "stream_request \<Rightarrow> (string \<times> string) option \<Rightarrow> verification_result \<Rightarrow> string \<Rightarrow> unit gstep" where
  "account_verification sr context_of result primary g =
     (case (vr_provider_output result, context_of) of
        (Some output, Some (provider, model)) \<Rightarrow>
          (case account CHARS_PER_TOKEN_ACCOUNTED provider model ''verification''
                  (build_verification_messages (sr_prompt sr) primary) output (Some VERIFICATION_SYSTEM_PROMPT) of
             Inl _ \<Rightarrow> (Inl (OtherError ''CostAccountingUnavailable''), g)
           | Inr c \<Rightarrow> (Inr (), g\<lparr>g_entries := g_entries g @ [c]\<rparr>))
      | _ \<Rightarrow> (Inr (), g))"

definition adopt_verification :: "verification_result \<Rightarrow> unit gstep" where
  "adopt_verification result g =
     yield_frame (SseVerification (vr_status result) (vr_verified result) (vr_reason result))
       (g\<lparr>g_accumulated := vr_answer result, g_verified := vr_verified result,
          g_vstatus := Some (vr_status result), g_vreason := Some (vr_reason result)\<rparr>)"

definition verify_stream :: "stream_request \<Rightarrow> stream_world \<Rightarrow> unit gstep" where
  "verify_stream sr sw g =
     (if \<not> sr_verify sr then (Inr (), g)
      else (case run_verification sr (sw_verifier sw) (g_accumulated g) of
        (outcome, context_of) \<Rightarrow>
          and_then (poll_loop (sr_has_lease sr) (sw_polls sw)) (\<lambda>_ g.
            (case outcome of Inl e \<Rightarrow> (Inl e, g)
             | Inr result \<Rightarrow> and_then (account_verification sr context_of result (g_accumulated g))
                 (\<lambda>_. adopt_verification result) g)) g))"

definition complete_stream :: "stream_request \<Rightarrow> stream_world \<Rightarrow> unit gstep" where
  "complete_stream sr sw g =
     (if sr_has_lease sr \<and> sw_lease_lost_at_end sw
      then raise_error ''idempotency lease was lost before completion'' g
      else and_then (finalize_gen sr sw StreamCompleted (g_accumulated g))
        (\<lambda>_ g. yield_frame (SseDone (g_accumulated g) (g_verified g) (g_vstatus g) (g_vreason g)) g) g)"

definition read_stream :: "stream_request \<Rightarrow> stream_world \<Rightarrow> (provider_usage option) gstep" where
  "read_stream sr sw g = (case provider_text_stream (sw_output sw) of (items, usage) \<Rightarrow>
     and_then (pump_loop (sse_config (sr_has_lease sr)) (sw_wakeups sw) (new_pump (isolated_stream items)))
       (\<lambda>_ g. (Inr usage, g\<lparr>g_primary := Some (g_accumulated g)\<rparr>)) g)"

definition stream_body :: "stream_request \<Rightarrow> stream_world \<Rightarrow> unit gstep" where
  "stream_body sr sw =
     and_then (start_stream sr sw) (\<lambda>_.
     and_then (read_stream sr sw) (\<lambda>usage.
     and_then (settle_primary_usage sr (sw_redis_up sw) (sw_redis_now sw) usage) (\<lambda>_.
     and_then (verify_stream sr sw) (\<lambda>_. complete_stream sr sw))))"

text \<open>The handlers: what an exception of the terminal transition itself would be is dropped.\<close>

definition end_failed :: "stream_request \<Rightarrow> stream_world \<Rightarrow> unit gstep" where
  "end_failed sr sw g = (case finalize_gen sr sw StreamFailed (g_accumulated g) g of (_, g') \<Rightarrow> yield_frame SseError g')"

definition event_generator :: "stream_request \<Rightarrow> stream_world \<Rightarrow> unit gstep" where
  "event_generator sr sw g =
     (case stream_body sr sw g of
        (Inr _, g') \<Rightarrow> (Inr (), g')
      | (Inl CancelledError, g') \<Rightarrow>
          (case finalize_gen sr sw StreamCancelled (g_accumulated g') (g'\<lparr>g_code := CLIENT_CANCELLED\<rparr>) of
             (_, g'') \<Rightarrow> (Inl CancelledError, g''))
      | (Inl (IsolatedProviderFailure k), g') \<Rightarrow> end_failed sr sw (g'\<lparr>g_code := isolated_failure_code k\<rparr>)
      | (Inl GeneratorClosed, g') \<Rightarrow> (Inl GeneratorClosed, g')
      | (Inl _, g') \<Rightarrow> end_failed sr sw g')"

definition new_gen :: "nat option \<Rightarrow> redis \<Rightarrow> chat_db \<Rightarrow> gen" where
  "new_gen pulls s db = \<lparr>g_frames = [], g_accumulated = [], g_code = PROVIDER_FAILURE, g_primary = None,
     g_entries = [], g_claimed = None, g_verified = False, g_vstatus = None, g_vreason = None,
     g_pulls = pulls, g_redis = s, g_db = db\<rparr>"

section \<open>Frames of steps\<close>

fun token_of :: "sse_frame \<Rightarrow> string" where
  "token_of (SseToken s) = s"
| "token_of _ = []"

definition tokens_of :: "sse_frame list \<Rightarrow> string" where
  "tokens_of fs = concat (map token_of fs)"

fun is_done :: "sse_frame \<Rightarrow> bool" where
  "is_done (SseDone _ _ _ _) = True"
| "is_done _ = False"

lemma tokens_of_simps [simp]:
  "tokens_of [] = []" "tokens_of (f # fs) = token_of f @ tokens_of fs"
  "tokens_of (fs @ fs') = tokens_of fs @ tokens_of fs'"
  by (simp_all add: tokens_of_def)

text \<open>Nothing durable happens, and no final frame is sent; while reading, the answer grows by the tokens
  sent; while idle, the answer stays.\<close>

definition idle :: "gen \<Rightarrow> gen \<Rightarrow> bool" where
  "idle g g' \<longleftrightarrow> g_claimed g' = g_claimed g \<and> g_db g' = g_db g \<and> g_primary g' = g_primary g
     \<and> g_accumulated g' = g_accumulated g \<and> g_verified g' = g_verified g
     \<and> (\<exists>fs. g_frames g' = g_frames g @ fs \<and> \<not> list_ex is_done fs \<and> tokens_of fs = [])"

definition reading :: "gen \<Rightarrow> gen \<Rightarrow> bool" where
  "reading g g' \<longleftrightarrow> g_claimed g' = g_claimed g \<and> g_db g' = g_db g \<and> g_primary g' = g_primary g
     \<and> (\<exists>fs. g_frames g' = g_frames g @ fs \<and> \<not> list_ex is_done fs
          \<and> g_accumulated g' = g_accumulated g @ tokens_of fs)"

interpretation idle: step_frame idle
proof
  fix g g1 g2
  show "idle g g" by (simp add: idle_def)
  assume "idle g g1" and "idle g1 g2"
  then show "idle g g2" by (auto simp: idle_def)
qed

interpretation reading: step_frame reading
proof
  fix g g1 g2
  show "reading g g" by (simp add: reading_def)
  assume "reading g g1" and "reading g1 g2"
  then show "reading g g2" by (auto simp: reading_def)
qed

lemma yield_frame_shape:
  "yield_frame f g = (r, g') \<Longrightarrow> g_frames g' = g_frames g @ [f] \<and> g_claimed g' = g_claimed g \<and> g_db g' = g_db g
     \<and> g_primary g' = g_primary g \<and> g_accumulated g' = g_accumulated g \<and> g_code g' = g_code g
     \<and> g_entries g' = g_entries g \<and> g_verified g' = g_verified g \<and> g_vstatus g' = g_vstatus g
     \<and> g_vreason g' = g_vreason g \<and> (r = Inr () \<or> r = Inl GeneratorClosed)"
  by (auto simp: yield_frame_def Let_def split: option.splits nat.splits)

lemma yield_reading: "yield_frame SseKeepAlive g = (r, g') \<Longrightarrow> reading g g'"
  "yield_frame (SseToken t) (g\<lparr>g_accumulated := g_accumulated g @ t\<rparr>) = (r, g') \<Longrightarrow> reading g g'"
  by (auto simp: reading_def dest!: yield_frame_shape)

lemma pump_loop_reading: "pump_loop c ws p g = (r, g') \<Longrightarrow> reading g g'"
proof (induction c ws p g rule: pump_loop.induct)
  case (1 c p g)
  then show ?case using reading.R_refl by simp
next
  case (2 c w ws p g)
  obtain out p' where ev: "next_event c w p = (out, p')" by fastforce
  show ?case
  proof (cases out)
    case (Inl e)
    then show ?thesis using "2.prems" ev reading.R_refl by simp
  next
    case (Inr x)
    then show ?thesis
    proof (cases x)
      case (Chunk t)
      obtain y g1 where y: "yield_frame (SseToken t) (g\<lparr>g_accumulated := g_accumulated g @ t\<rparr>) = (y, g1)" by fastforce
      have "reading g1 g' \<or> g' = g1"
        using "2.prems" ev Inr Chunk y "2.IH"(1) [OF ev [symmetric] Inr Chunk y [symmetric]]
        by (cases y) auto
      then show ?thesis using yield_reading(2) [OF y] reading.R_trans by blast
    next
      case Heartbeat
      obtain y g1 where y: "yield_frame SseKeepAlive g = (y, g1)" by fastforce
      have "reading g1 g' \<or> g' = g1"
        using "2.prems" ev Inr Heartbeat y "2.IH"(2) [OF ev [symmetric] Inr Heartbeat y [symmetric]]
        by (cases y) auto
      then show ?thesis using yield_reading(1) [OF y] reading.R_trans by blast
    qed (use "2.prems" ev Inr in \<open>auto simp: reading_def\<close>)
  qed
qed

lemma poll_loop_idle: "keeps idle (poll_loop lease ps)"
proof -
  have "poll_loop lease ps g = (r, g') \<Longrightarrow> idle g g'" for g r g'
  proof (induction lease ps g rule: poll_loop.induct)
    case (1 lease g)
    then show ?case using idle.R_refl by simp
  next
    case (2 lease gone lost ps g)
    obtain y g1 where y: "yield_frame SseKeepAlive g = (y, g1)" by fastforce
    have q: "idle g g1" using yield_frame_shape [OF y] by (auto simp: idle_def)
    show ?case
    proof (cases "gone \<or> lease \<and> lost")
      case True
      then show ?thesis using "2.prems" idle.R_refl by (auto split: if_splits)
    next
      case False
      then have "idle g1 g' \<or> g' = g1"
        using "2.prems" y "2.IH" [OF _ _ y [symmetric]] by (cases y) auto
      then show ?thesis using q idle.R_trans by blast
    qed
  qed
  then show ?thesis by (simp add: keeps_def)
qed

lemma settle_idle: "keeps idle (settle_primary_usage sr up now usage)"
  by (auto simp: keeps_def settle_primary_usage_def idle_def split: option.splits sum.splits prod.splits)

lemma account_verification_idle: "keeps idle (account_verification sr cx result primary)"
  by (auto simp: keeps_def account_verification_def idle_def split: option.splits sum.splits prod.splits)

lemma adopt_shape:
  assumes "adopt_verification result g = (r, g')"
  shows "g_claimed g' = g_claimed g \<and> g_db g' = g_db g \<and> g_primary g' = g_primary g
     \<and> g_accumulated g' = vr_answer result \<and> g_verified g' = vr_verified result
     \<and> (\<exists>fs. g_frames g' = g_frames g @ fs \<and> \<not> list_ex is_done fs \<and> tokens_of fs = [])"
  using yield_frame_shape [OF assms [unfolded adopt_verification_def]] by auto

lemma idle_iff: "keeps idle m \<Longrightarrow> m g = (r, g') \<Longrightarrow> idle g g'"
  by (simp add: keeps_def)

lemma verify_answer_badge:
  "verify_answer badges loads answer prompt verifier model = Inr result \<Longrightarrow>
     vr_answer result = answer @ (if vr_verified result then verified_badge badges else verification_failed_badge badges)
     \<and> (vr_verified result \<longrightarrow> vr_status result = ''PASS'')"
  by (auto simp: verify_answer_def split: sum.splits if_splits prod.splits)

lemma isolated_execute_Inr: "isolated_execute t Inr takes out = Inr x \<Longrightarrow> out = Inr x"
  by (auto simp: isolated_execute_def provider_with_timeout_def split: sum.splits if_splits)

lemma run_verification_badge:
  assumes "run_verification sr verifier answer = (Inr result, cx)"
  shows "vr_answer result = answer @ (if vr_verified result then verified_badge (sr_badges sr)
      else verification_failed_badge (sr_badges sr)) \<and> (vr_verified result \<longrightarrow> vr_status result = ''PASS'')"
  using assms
  by (auto simp: run_verification_def verification_failure_def dest!: isolated_execute_Inr verify_answer_badge
      split: option.splits sum.splits py_exception.splits)

text \<open>What verification does to the answer: nothing, or it appends the badge of its verdict.\<close>

definition judged :: "stream_request \<Rightarrow> gen \<Rightarrow> gen \<Rightarrow> bool" where
  "judged sr g g' \<longleftrightarrow> g_claimed g' = g_claimed g \<and> g_db g' = g_db g \<and> g_primary g' = g_primary g
     \<and> (\<exists>fs. g_frames g' = g_frames g @ fs \<and> \<not> list_ex is_done fs \<and> tokens_of fs = [])
     \<and> (g_accumulated g' = g_accumulated g \<and> g_verified g' = g_verified g
        \<or> sr_verify sr \<and> g_accumulated g' = g_accumulated g
            @ (if g_verified g' then verified_badge (sr_badges sr) else verification_failed_badge (sr_badges sr)))"

lemma idle_judged: "idle g g' \<Longrightarrow> judged sr g g'"
  by (auto simp: idle_def judged_def)

lemma verify_stream_judged:
  assumes "verify_stream sr sw g = (r, g')"
  shows "judged sr g g' \<and> (r = Inr () \<and> sr_verify sr \<longrightarrow> g_accumulated g' = g_accumulated g
            @ (if g_verified g' then verified_badge (sr_badges sr) else verification_failed_badge (sr_badges sr)))"
proof (cases "sr_verify sr")
  case False
  then show ?thesis using assms idle_judged [OF idle.R_refl] by (simp add: verify_stream_def)
next
  case True
  obtain outcome cx where rv: "run_verification sr (sw_verifier sw) (g_accumulated g) = (outcome, cx)" by fastforce
  have "and_then (poll_loop (sr_has_lease sr) (sw_polls sw)) (\<lambda>_ g.
            (case outcome of Inl e \<Rightarrow> (Inl e, g)
             | Inr result \<Rightarrow> and_then (account_verification sr cx result (g_accumulated g))
                 (\<lambda>_. adopt_verification result) g)) g = (r, g')"
    using assms True rv by (simp add: verify_stream_def)
  then show ?thesis
  proof (rule and_then_cases)
    fix e
    assume "poll_loop (sr_has_lease sr) (sw_polls sw) g = (Inl e, g')" and "r = Inl e"
    then show ?thesis using idle_judged [OF idle_iff [OF poll_loop_idle]] by simp
  next
    fix x g1
    assume p: "poll_loop (sr_has_lease sr) (sw_polls sw) g = (Inr x, g1)"
      and k: "(case outcome of Inl e \<Rightarrow> (Inl e, g1)
             | Inr result \<Rightarrow> and_then (account_verification sr cx result (g_accumulated g1))
                 (\<lambda>_. adopt_verification result) g1) = (r, g')"
    have i1: "idle g g1" by (rule idle_iff [OF poll_loop_idle p])
    show ?thesis
    proof (cases outcome)
      case (Inl e)
      then show ?thesis using k idle_judged [OF i1] by auto
    next
      case (Inr result)
      then have "and_then (account_verification sr cx result (g_accumulated g1)) (\<lambda>_. adopt_verification result) g1 = (r, g')"
        using k by simp
      then show ?thesis
      proof (rule and_then_cases)
        fix e
        assume "account_verification sr cx result (g_accumulated g1) g1 = (Inl e, g')" and "r = Inl e"
        then show ?thesis
          using idle_judged [OF idle.R_trans [OF i1 idle_iff [OF account_verification_idle]]] by simp
      next
        fix y g2
        assume a: "account_verification sr cx result (g_accumulated g1) g1 = (Inr y, g2)"
          and ad: "adopt_verification result g2 = (r, g')"
        have i2: "idle g g2" by (rule idle.R_trans [OF i1 idle_iff [OF account_verification_idle a]])
        show ?thesis
          using i2 adopt_shape [OF ad] run_verification_badge [OF rv [unfolded Inr]] True
          by (auto simp: idle_def judged_def)
      qed
    qed
  qed
qed

section \<open>The terminal transition and the body\<close>

lemma primary_accounted_shape:
  "primary_accounted sr content g = (r, g') \<Longrightarrow>
     (\<exists>e. r = Inl e) \<and> g' = g \<or> r = Inr () \<and> (\<exists>es. g' = g\<lparr>g_entries := es\<rparr>)"
  by (cases "account_primary sr (case g_primary g of None \<Rightarrow> content | Some p \<Rightarrow> p)")
    (auto simp: primary_accounted_def split: if_splits intro: exI [of _ "g_entries g"])

definition settled_as :: "stream_request \<Rightarrow> stream_world \<Rightarrow> chat_db \<Rightarrow> stream_terminal \<Rightarrow> failure_code \<Rightarrow> bool txn \<Rightarrow> bool" where
  "settled_as sr sw db t code out \<longleftrightarrow> (\<exists>fz. finalize (sw_finalize_env sw) fz (sw_between sw db) = out
     \<and> fz_execution_id fz = sr_execution_id sr \<and> fz_terminal_status fz = terminal_status t
     \<and> fz_failure_code fz = (if t = StreamCompleted then None else Some code)
     \<and> fz_lease_token fz = sr_lease_token sr)"

lemma finalize_gen_shape:
  assumes "finalize_gen sr sw t content g = (r, g')" and "g_claimed g = None"
  shows "g_claimed g' = Some t \<and> g_frames g' = g_frames g \<and> g_accumulated g' = g_accumulated g
    \<and> g_verified g' = g_verified g \<and> g_vstatus g' = g_vstatus g \<and> g_vreason g' = g_vreason g
    \<and> g_primary g' = g_primary g
    \<and> ((\<exists>e. r = Inl e) \<and> g_db g' = g_db g
       \<or> (\<exists>es x. finalize (sw_finalize_env sw) (terminal_request sr t content (g\<lparr>g_entries := es\<rparr>)) (sw_between sw (g_db g))
             = (x, g_db g') \<and> (\<exists>e. r = Inl (OtherError e) \<or> r = Inr True) \<and> (r = Inr True \<and> t = StreamCompleted \<longrightarrow> x = Inr True)))"
proof -
  obtain r1 g1 where p: "primary_accounted sr content g = (r1, g1)" by fastforce
  from primary_accounted_shape [OF p] show ?thesis
  proof (elim disjE conjE exE)
    fix e
    assume "r1 = Inl e" and "g1 = g"
    then show ?thesis
      using assms p by (auto simp: finalize_gen_def stream_finalize_def apply_terminal_def and_then_def)
  next
    fix es
    assume "r1 = Inr ()" and "g1 = g\<lparr>g_entries := es\<rparr>"
    then have a: "apply_terminal sr sw t content g = finalize_stream_db sr sw t content (g\<lparr>g_entries := es\<rparr>)"
      using p by (simp add: apply_terminal_def and_then_def)
    obtain x db where f: "finalize (sw_finalize_env sw) (terminal_request sr t content (g\<lparr>g_entries := es\<rparr>))
        (sw_between sw (g_db g)) = (x, db)" by fastforce
    have "finalize_stream_db sr sw t content (g\<lparr>g_entries := es\<rparr>)
        = (case x of Inl _ \<Rightarrow> Inl (OtherError ''persistence'')
           | Inr won \<Rightarrow> if t = StreamCompleted \<and> \<not> won then Inl (OtherError ''execution was already finalized'') else Inr (),
           g\<lparr>g_entries := es, g_db := db\<rparr>)"
      using f by (auto simp: finalize_stream_db_def split: sum.splits)
    then show ?thesis
      using assms a f unfolding finalize_gen_def stream_finalize_def
      by (cases x) (auto split: if_splits intro!: exI [of _ es])
  qed
qed

lemma terminal_request_settles:
  "finalize (sw_finalize_env sw) (terminal_request sr t content (g\<lparr>g_entries := es\<rparr>)) (sw_between sw db) = out
   \<Longrightarrow> settled_as sr sw db t (g_code g) out"
  unfolding settled_as_def
  by (intro exI [of _ "terminal_request sr t content (g\<lparr>g_entries := es\<rparr>)"]) (simp add: terminal_request_def)

lemma finalize_gen_settled:
  assumes "finalize_gen sr sw t content g = (r, g')" and "g_claimed g = None"
  shows "g_db g' = g_db g \<or> (\<exists>x. settled_as sr sw (g_db g) t (g_code g) (x, g_db g'))"
  using finalize_gen_shape [OF assms] terminal_request_settles by metis

lemma finalize_gen_claimed:
  "g_claimed g \<noteq> None \<Longrightarrow> finalize_gen sr sw t content g = (Inr False, g)"
  by (auto simp: finalize_gen_def stream_finalize_def)

lemma finalize_gen_error:
  assumes "finalize_gen sr sw t content g = (Inl e, g')" and "g_claimed g = None"
  shows "\<exists>text. e = OtherError text"
  using assms
  by (auto simp: finalize_gen_def stream_finalize_def apply_terminal_def and_then_def primary_accounted_def
      finalize_stream_db_def split: prod.splits sum.splits if_splits)

text \<open>What a completed stream has left behind, whether or not its last frame was taken.\<close>

definition completed_by :: "stream_request \<Rightarrow> stream_world \<Rightarrow> chat_db \<Rightarrow> gen \<Rightarrow> bool" where
  "completed_by sr sw db g \<longleftrightarrow>
     (\<exists>fz. finalize (sw_finalize_env sw) fz (sw_between sw db) = (Inr True, g_db g)
        \<and> fz_execution_id fz = sr_execution_id sr \<and> fz_terminal_status fz = Completed
        \<and> fz_content fz = g_accumulated g \<and> fz_failure_code fz = None
        \<and> fz_response_reference fz = sr_dumps sr (g_accumulated g) (g_verified g) (g_vstatus g) (g_vreason g))
     \<and> g_accumulated g = tokens_of (g_frames g) @ (if \<not> sr_verify sr then []
          else if g_verified g then verified_badge (sr_badges sr) else verification_failed_badge (sr_badges sr))
     \<and> (\<exists>fs. g_frames g = fs @ [SseDone (g_accumulated g) (g_verified g) (g_vstatus g) (g_vreason g)]
          \<and> \<not> list_ex is_done fs)"

definition unsettled :: "chat_db \<Rightarrow> gen \<Rightarrow> bool" where
  "unsettled db g \<longleftrightarrow> g_claimed g = None \<and> g_db g = db \<and> \<not> list_ex is_done (g_frames g)"

lemma start_stream_shape:
  assumes "start_stream sr sw (new_gen pulls s db) = (r, g)"
  shows "unsettled (snd (mark_streaming (sw_mark_env sw) (sr_execution_id sr) db)) g \<and> g_accumulated g = []
    \<and> tokens_of (g_frames g) = [] \<and> g_primary g = None"
  using assms
  by (auto simp: start_stream_def new_gen_def unsettled_def dest!: yield_frame_shape split: sum.splits prod.splits bool.splits)

lemma read_stream_shape:
  assumes "read_stream sr sw g = (r, g')" and "unsettled db g" and "g_accumulated g = []" and "tokens_of (g_frames g) = []"
  shows "unsettled db g' \<and> (\<forall>u. r = Inr u \<longrightarrow> g_accumulated g' = tokens_of (g_frames g') \<and> g_primary g' = Some (g_accumulated g'))"
proof -
  obtain items usage where "provider_text_stream (sw_output sw) = (items, usage)" by fastforce
  then have "and_then (pump_loop (sse_config (sr_has_lease sr)) (sw_wakeups sw) (new_pump (isolated_stream items)))
       (\<lambda>_ g. (Inr usage, g\<lparr>g_primary := Some (g_accumulated g)\<rparr>)) g = (r, g')"
    using assms(1) by (simp add: read_stream_def)
  then show ?thesis
    by (rule and_then_cases) (use assms(2-4) pump_loop_reading in \<open>fastforce simp: unsettled_def reading_def\<close>)+
qed

lemma complete_stream_shape:
  assumes "complete_stream sr sw g = (r, g')" and "unsettled db g"
    and "g_accumulated g = tokens_of (g_frames g) @ (if \<not> sr_verify sr then []
          else if g_verified g then verified_badge (sr_badges sr) else verification_failed_badge (sr_badges sr))"
  shows "(\<exists>e. r = Inl (OtherError e)) \<and> unsettled db g'
    \<or> g_claimed g' = Some StreamCompleted \<and>
       ((\<exists>e. r = Inl e \<and> e \<noteq> GeneratorClosed \<and> e \<noteq> CancelledError \<and> (\<forall>k. e \<noteq> IsolatedProviderFailure k)) \<and> \<not> list_ex is_done (g_frames g')
          \<and> (g_db g' = db \<or> (\<exists>x code. settled_as sr sw db StreamCompleted code (x, g_db g')))
        \<or> r \<in> {Inr (), Inl GeneratorClosed} \<and> completed_by sr sw db g')"
proof (cases "sr_has_lease sr \<and> sw_lease_lost_at_end sw")
  case True
  then show ?thesis using assms(1,2) by (auto simp: complete_stream_def raise_error_def)
next
  case False
  have claim: "g_claimed g = None" "g_db g = db" "\<not> list_ex is_done (g_frames g)" using assms(2) by (simp_all add: unsettled_def)
  from assms(1) False have "and_then (finalize_gen sr sw StreamCompleted (g_accumulated g))
        (\<lambda>_ g. yield_frame (SseDone (g_accumulated g) (g_verified g) (g_vstatus g) (g_vreason g)) g) g = (r, g')"
    by (simp add: complete_stream_def)
  then show ?thesis
  proof (rule and_then_cases)
    fix e
    assume f: "finalize_gen sr sw StreamCompleted (g_accumulated g) g = (Inl e, g')" and r: "r = Inl e"
    have "g_db g' = db \<or> (\<exists>x code. settled_as sr sw db StreamCompleted code (x, g_db g'))"
      using finalize_gen_settled [OF f claim(1)] claim(2) by auto
    then show ?thesis
      using r claim(3) finalize_gen_error [OF f claim(1)] finalize_gen_shape [OF f claim(1)] by auto
  next
    fix x g1
    assume f: "finalize_gen sr sw StreamCompleted (g_accumulated g) g = (Inr x, g1)"
      and y: "yield_frame (SseDone (g_accumulated g1) (g_verified g1) (g_vstatus g1) (g_vreason g1)) g1 = (r, g')"
    note sh = finalize_gen_shape [OF f claim(1)]
    then obtain es where fin: "finalize (sw_finalize_env sw) (terminal_request sr StreamCompleted (g_accumulated g)
        (g\<lparr>g_entries := es\<rparr>)) (sw_between sw db) = (Inr True, g_db g1)"
      using claim(2) by auto
    have "completed_by sr sw db g'"
      unfolding completed_by_def using sh yield_frame_shape [OF y] fin claim(3) assms(3)
      by (auto simp: terminal_request_def intro!: exI [of _ "terminal_request sr StreamCompleted (g_accumulated g) (g\<lparr>g_entries := es\<rparr>)"])
    then show ?thesis using sh yield_frame_shape [OF y] by auto
  qed
qed

definition marked_db :: "stream_request \<Rightarrow> stream_world \<Rightarrow> chat_db \<Rightarrow> chat_db" where
  "marked_db sr sw db = snd (mark_streaming (sw_mark_env sw) (sr_execution_id sr) db)"

definition at_completion :: "stream_request \<Rightarrow> stream_world \<Rightarrow> chat_db \<Rightarrow> py_exception + unit \<Rightarrow> gen \<Rightarrow> bool" where
  "at_completion sr sw db r g \<longleftrightarrow> g_claimed g = Some StreamCompleted \<and>
     ((\<exists>e. r = Inl e \<and> e \<noteq> GeneratorClosed \<and> e \<noteq> CancelledError \<and> (\<forall>k. e \<noteq> IsolatedProviderFailure k))
        \<and> \<not> list_ex is_done (g_frames g) \<and> (g_db g = db \<or> (\<exists>x code. settled_as sr sw db StreamCompleted code (x, g_db g)))
      \<or> r \<in> {Inr (), Inl GeneratorClosed} \<and> completed_by sr sw db g)"

lemma settle_keeps_unsettled:
  assumes "settle_primary_usage sr up now usage g = (r, g')" and "unsettled db g"
  shows "unsettled db g'" and "g_accumulated g' = g_accumulated g" and "tokens_of (g_frames g') = tokens_of (g_frames g)"
  using idle_iff [OF settle_idle assms(1)] assms(2) by (auto simp: idle_def unsettled_def)

lemma verify_keeps_unsettled:
  assumes "verify_stream sr sw g = (r, g')" and "unsettled db g"
  shows "unsettled db g'" and "tokens_of (g_frames g') = tokens_of (g_frames g)"
    and "r = Inr () \<Longrightarrow> g_accumulated g' = g_accumulated g @ (if \<not> sr_verify sr then []
          else if g_verified g' then verified_badge (sr_badges sr) else verification_failed_badge (sr_badges sr))"
  using verify_stream_judged [OF assms(1)] assms(2) by (auto simp: judged_def unsettled_def)

text \<open>The body is everything before the completion, then the completion.\<close>

definition stream_prefix :: "stream_request \<Rightarrow> stream_world \<Rightarrow> unit gstep" where
  "stream_prefix sr sw =
     and_then (start_stream sr sw) (\<lambda>_.
     and_then (read_stream sr sw) (\<lambda>usage.
     and_then (settle_primary_usage sr (sw_redis_up sw) (sw_redis_now sw) usage) (\<lambda>_. verify_stream sr sw)))"

lemma stream_body_split: "stream_body sr sw = and_then (stream_prefix sr sw) (\<lambda>_. complete_stream sr sw)"
  by (simp add: stream_body_def stream_prefix_def and_then_assoc)

lemma stream_prefix_shape:
  assumes "stream_prefix sr sw (new_gen pulls s db) = (r, g)"
  shows "unsettled (marked_db sr sw db) g"
    and "r = Inr x \<Longrightarrow> g_accumulated g = tokens_of (g_frames g) @ (if \<not> sr_verify sr then []
          else if g_verified g then verified_badge (sr_badges sr) else verification_failed_badge (sr_badges sr))"
    and "r \<in> {Inr x, Inl GeneratorClosed} \<Longrightarrow> fst (mark_streaming (sw_mark_env sw) (sr_execution_id sr) db) = Inr True"
proof -
  let ?db = "marked_db sr sw db"
  have "unsettled ?db g \<and> (\<forall>x. r = Inr x \<longrightarrow> g_accumulated g = tokens_of (g_frames g) @ (if \<not> sr_verify sr then []
          else if g_verified g then verified_badge (sr_badges sr) else verification_failed_badge (sr_badges sr)))
      \<and> (\<forall>x. r \<in> {Inr x, Inl GeneratorClosed} \<longrightarrow> fst (mark_streaming (sw_mark_env sw) (sr_execution_id sr) db) = Inr True)"
    using assms unfolding stream_prefix_def
  proof (rule and_then_cases)
    fix e
    assume st: "start_stream sr sw (new_gen pulls s db) = (Inl e, g)" and "r = Inl e"
    then show ?thesis using start_stream_shape [OF st]
      by (auto simp: marked_db_def start_stream_def new_gen_def split: prod.splits sum.splits bool.splits)
  next
    fix x g1
    assume st: "start_stream sr sw (new_gen pulls s db) = (Inr x, g1)"
      and rest: "and_then (read_stream sr sw) (\<lambda>usage.
        and_then (settle_primary_usage sr (sw_redis_up sw) (sw_redis_now sw) usage) (\<lambda>_. verify_stream sr sw)) g1 = (r, g)"
    have marked: "fst (mark_streaming (sw_mark_env sw) (sr_execution_id sr) db) = Inr True"
      using st by (auto simp: start_stream_def new_gen_def split: prod.splits sum.splits bool.splits)
    have u1: "unsettled ?db g1" "g_accumulated g1 = []" "tokens_of (g_frames g1) = []"
      using start_stream_shape [OF st] by (simp_all add: marked_db_def)
    from rest show ?thesis
    proof (rule and_then_cases)
      fix e assume rd: "read_stream sr sw g1 = (Inl e, g)" and "r = Inl e"
      then show ?thesis using read_stream_shape [OF rd u1] marked by simp
    next
      fix usage g2
      assume rd: "read_stream sr sw g1 = (Inr usage, g2)"
        and rest: "and_then (settle_primary_usage sr (sw_redis_up sw) (sw_redis_now sw) usage) (\<lambda>_. verify_stream sr sw) g2 = (r, g)"
      have u2: "unsettled ?db g2" "g_accumulated g2 = tokens_of (g_frames g2)" using read_stream_shape [OF rd u1] by auto
      from rest show ?thesis
      proof (rule and_then_cases)
        fix e assume se: "settle_primary_usage sr (sw_redis_up sw) (sw_redis_now sw) usage g2 = (Inl e, g)" and "r = Inl e"
        then show ?thesis using settle_keeps_unsettled(1) [OF se u2(1)] marked by simp
      next
        fix y g3
        assume se: "settle_primary_usage sr (sw_redis_up sw) (sw_redis_now sw) usage g2 = (Inr y, g3)"
          and ve: "verify_stream sr sw g3 = (r, g)"
        note u3 = settle_keeps_unsettled [OF se u2(1)]
        note u4 = verify_keeps_unsettled [OF ve u3(1)]
        show ?thesis using u4 u3(2,3) u2(2) marked by simp
      qed
    qed
  qed
  then show "unsettled ?db g"
    and "r = Inr x \<Longrightarrow> g_accumulated g = tokens_of (g_frames g) @ (if \<not> sr_verify sr then []
          else if g_verified g then verified_badge (sr_badges sr) else verification_failed_badge (sr_badges sr))"
    and "r \<in> {Inr x, Inl GeneratorClosed} \<Longrightarrow> fst (mark_streaming (sw_mark_env sw) (sr_execution_id sr) db) = Inr True"
    by blast+
qed

lemma stream_body_shape:
  assumes "stream_body sr sw (new_gen pulls s db) = (r, g)"
  shows "(\<exists>e. r = Inl e) \<and> unsettled (marked_db sr sw db) g \<and> (r = Inl GeneratorClosed
        \<longrightarrow> fst (mark_streaming (sw_mark_env sw) (sr_execution_id sr) db) = Inr True)
    \<or> at_completion sr sw (marked_db sr sw db) r g"
  using assms unfolding stream_body_split
proof (rule and_then_cases)
  fix e
  assume p: "stream_prefix sr sw (new_gen pulls s db) = (Inl e, g)" and r: "r = Inl e"
  show ?thesis using stream_prefix_shape(1,3) [OF p] r by blast
next
  fix x g1
  assume p: "stream_prefix sr sw (new_gen pulls s db) = (Inr x, g1)" and c: "complete_stream sr sw g1 = (r, g)"
  from complete_stream_shape [OF c stream_prefix_shape(1) [OF p] stream_prefix_shape(2) [OF p refl]]
  show ?thesis by (auto simp: at_completion_def)
qed

text \<open>What is left when the generator has ended.\<close>

lemma end_failed_shape:
  assumes "end_failed sr sw g = (r, g')"
  shows "(r = Inr () \<or> r = Inl GeneratorClosed) \<and> (\<exists>fs. g_frames g' = fs @ [SseError] \<and> fs = g_frames g)
    \<and> (if g_claimed g \<noteq> None then g_claimed g' = g_claimed g \<and> g_db g' = g_db g
       else g_claimed g' = Some StreamFailed \<and> (g_db g' = g_db g \<or> (\<exists>x. settled_as sr sw (g_db g) StreamFailed (g_code g) (x, g_db g'))))"
proof -
  obtain x g1 where f: "finalize_gen sr sw StreamFailed (g_accumulated g) g = (x, g1)" by fastforce
  then have y: "yield_frame SseError g1 = (r, g')" using assms by (simp add: end_failed_def)
  show ?thesis
  proof (cases "g_claimed g = None")
    case True
    then show ?thesis
      using yield_frame_shape [OF y] finalize_gen_shape [OF f True] finalize_gen_settled [OF f True] by auto
  next
    case False
    then have "g1 = g" using f finalize_gen_claimed [OF False] by simp
    then show ?thesis using yield_frame_shape [OF y] False by auto
  qed
qed

definition stream_ends :: "stream_request \<Rightarrow> stream_world \<Rightarrow> chat_db \<Rightarrow> py_exception + unit \<Rightarrow> gen \<Rightarrow> bool" where
  "stream_ends sr sw db r g \<longleftrightarrow>
     (if \<exists>f \<in> set (g_frames g). is_done f
      then g_claimed g = Some StreamCompleted \<and> r \<in> {Inr (), Inl GeneratorClosed} \<and> completed_by sr sw (marked_db sr sw db) g
      else if g_claimed g = None
      then r = Inl GeneratorClosed \<and> g_db g = marked_db sr sw db
        \<and> fst (mark_streaming (sw_mark_env sw) (sr_execution_id sr) db) = Inr True
      else (\<exists>t code. g_claimed g = Some t
        \<and> (g_db g = marked_db sr sw db \<or> (\<exists>x. settled_as sr sw (marked_db sr sw db) t code (x, g_db g)))
        \<and> (if r = Inl CancelledError then t = StreamCancelled \<and> code = CLIENT_CANCELLED
           else t \<noteq> StreamCancelled \<and> last (g_frames g) = SseError \<and> (r = Inr () \<or> r = Inl GeneratorClosed))))"

lemma end_failed_ends:
  assumes "end_failed sr sw g = (r, g')" and "\<not> list_ex is_done (g_frames g)"
    and "g_claimed g = None \<and> g_db g = marked_db sr sw db
      \<or> g_claimed g = Some StreamCompleted \<and> (g_db g = marked_db sr sw db
          \<or> (\<exists>x code. settled_as sr sw (marked_db sr sw db) StreamCompleted code (x, g_db g)))"
  shows "stream_ends sr sw db r g'"
proof -
  note e = end_failed_shape [OF assms(1)]
  have nd: "\<not> (\<exists>f \<in> set (g_frames g'). is_done f)" "last (g_frames g') = SseError"
    using e assms(2) by (auto simp: list_ex_iff)
  from assms(3) show ?thesis
  proof (elim disjE conjE exE)
    assume "g_claimed g = None" and "g_db g = marked_db sr sw db"
    then show ?thesis using e nd unfolding stream_ends_def by auto
  qed (use e nd in \<open>unfold stream_ends_def, auto\<close>)
qed

lemma event_generator_ends:
  assumes "event_generator sr sw (new_gen pulls s db) = (r, g)"
  shows "stream_ends sr sw db r g"
proof -
  obtain rb gb where b: "stream_body sr sw (new_gen pulls s db) = (rb, gb)" by fastforce
  from stream_body_shape [OF b] show ?thesis
  proof (elim disjE conjE exE)
    fix e
    assume e: "rb = Inl e" and u: "unsettled (marked_db sr sw db) gb"
      and m: "rb = Inl GeneratorClosed \<longrightarrow> fst (mark_streaming (sw_mark_env sw) (sr_execution_id sr) db) = Inr True"
    have un: "g_claimed gb = None" "g_db gb = marked_db sr sw db" "\<not> list_ex is_done (g_frames gb)"
      using u by (simp_all add: unsettled_def)
    show ?thesis
    proof (cases e)
      case CancelledError
      obtain x g1 where f: "finalize_gen sr sw StreamCancelled (g_accumulated gb) (gb\<lparr>g_code := CLIENT_CANCELLED\<rparr>) = (x, g1)"
        by fastforce
      then have "r = Inl CancelledError" "g = g1" using assms b e CancelledError by (simp_all add: event_generator_def)
      then show ?thesis
        using finalize_gen_shape [OF f] finalize_gen_settled [OF f] un by (auto simp: stream_ends_def list_ex_iff)
    next
      case GeneratorClosed
      then show ?thesis using assms b e un m by (auto simp: event_generator_def stream_ends_def list_ex_iff)
    next
      case (IsolatedProviderFailure k)
      then have "end_failed sr sw (gb\<lparr>g_code := isolated_failure_code k\<rparr>) = (r, g)"
        using assms b e by (simp add: event_generator_def)
      then show ?thesis by (rule end_failed_ends) (use un in simp_all)
    qed (use assms b e un in \<open>auto simp: event_generator_def intro: end_failed_ends\<close>)
  next
    assume c: "at_completion sr sw (marked_db sr sw db) rb gb"
    then consider (failed) e where "rb = Inl e" "e \<noteq> GeneratorClosed" "e \<noteq> CancelledError"
        "\<forall>k. e \<noteq> IsolatedProviderFailure k" "\<not> list_ex is_done (g_frames gb)"
        "g_claimed gb = Some StreamCompleted" "g_db gb = marked_db sr sw db
          \<or> (\<exists>x code. settled_as sr sw (marked_db sr sw db) StreamCompleted code (x, g_db gb))"
      | (completed) "rb \<in> {Inr (), Inl GeneratorClosed}" "completed_by sr sw (marked_db sr sw db) gb"
        "g_claimed gb = Some StreamCompleted"
      by (auto simp: at_completion_def)
    then show ?thesis
    proof cases
      case failed
      then have "end_failed sr sw gb = (r, g)"
        using assms b by (cases e) (simp_all add: event_generator_def)
      then show ?thesis by (rule end_failed_ends) (use failed in simp_all)
    next
      case completed
      then have "g = gb" "r = rb" using assms b by (auto simp: event_generator_def)
      moreover have "\<exists>f \<in> set (g_frames gb). is_done f" using completed(2) by (auto simp: completed_by_def)
      ultimately show ?thesis using completed by (simp add: stream_ends_def)
    qed
  qed
qed

section \<open>Properties\<close>

text \<open>C24: A client that is told the answer is done can rely on it.  Whenever the stream sends its final
  frame, it was the last one and the only one, the terminal state was won, and one successful
  finalization made the execution completed and stored exactly the answer of that frame as the
  assistant's message; that answer is the concatenation of all token frames sent, followed, when
  verification was requested, by the badge that agrees with the reported verdict.\<close>

theorem stream_done_is_durable:
  assumes "event_generator sr sw (new_gen pulls s db) = (r, g)" and "SseDone answer verified vs vr \<in> set (g_frames g)"
  shows "g_claimed g = Some StreamCompleted
    \<and> (\<exists>fs. g_frames g = fs @ [SseDone answer verified vs vr] \<and> \<not> list_ex is_done fs)
    \<and> answer = tokens_of (g_frames g) @ (if \<not> sr_verify sr then []
         else if verified then verified_badge (sr_badges sr) else verification_failed_badge (sr_badges sr))
    \<and> (\<exists>e a. find_execution (sr_execution_id sr) (g_db g) = Some e \<and> ce_status e = Completed
         \<and> assistant_of e (g_db g) = Some a \<and> ms_content a = answer \<and> ms_status a = Completed)"
proof -
  have "\<exists>f \<in> set (g_frames g). is_done f" using assms(2) by force
  then have c: "g_claimed g = Some StreamCompleted" "completed_by sr sw (marked_db sr sw db) g"
    using event_generator_ends [OF assms(1)] by (simp_all add: stream_ends_def)
  then obtain fs fz where fs: "g_frames g = fs @ [SseDone (g_accumulated g) (g_verified g) (g_vstatus g) (g_vreason g)]"
      "\<not> list_ex is_done fs"
    and fz: "finalize (sw_finalize_env sw) fz (sw_between sw (marked_db sr sw db)) = (Inr True, g_db g)"
      "fz_execution_id fz = sr_execution_id sr" "fz_terminal_status fz = Completed" "fz_content fz = g_accumulated g"
      "fz_failure_code fz = None"
    and acc: "g_accumulated g = tokens_of (g_frames g) @ (if \<not> sr_verify sr then []
          else if g_verified g then verified_badge (sr_badges sr) else verification_failed_badge (sr_badges sr))"
    unfolding completed_by_def by blast
  have frame: "answer = g_accumulated g" "verified = g_verified g" "vs = g_vstatus g" "vr = g_vreason g"
    using assms(2) fs by (auto simp: list_ex_iff)
  obtain e0 a0 where e0: "find_execution (sr_execution_id sr) (g_db g) = Some (final_execution (env_now (sw_finalize_env sw)) fz e0)"
    "assistant_of (final_execution (env_now (sw_finalize_env sw)) fz e0) (g_db g)
        = Some (a0\<lparr>ms_status := fz_terminal_status fz, ms_content := fz_content fz\<rparr>)"
    using finalize_shape [OF fz(1)] unfolding fz(2) by blast
  have "ce_status (final_execution (env_now (sw_finalize_env sw)) fz e0) = Completed"
    using fz(3) by (simp add: final_execution_def Let_def split: option.split)
  then have stored: "\<exists>e a. find_execution (sr_execution_id sr) (g_db g) = Some e \<and> ce_status e = Completed
      \<and> assistant_of e (g_db g) = Some a \<and> ms_content a = answer \<and> ms_status a = Completed"
    using e0 fz(3,4) frame(1)
    by (intro exI [of _ "final_execution (env_now (sw_finalize_env sw)) fz e0"]
        exI [of _ "a0\<lparr>ms_status := fz_terminal_status fz, ms_content := fz_content fz\<rparr>"]) simp
  have "answer = tokens_of (g_frames g) @ (if \<not> sr_verify sr then []
         else if verified then verified_badge (sr_badges sr) else verification_failed_badge (sr_badges sr))"
    unfolding frame(1,2) by (rule acc)
  moreover have "\<exists>fs. g_frames g = fs @ [SseDone answer verified vs vr] \<and> \<not> list_ex is_done fs"
    using fs unfolding frame by blast
  ultimately show ?thesis using c(1) stored by blast
qed

text \<open>However a stream ends, at most one terminal transition is attempted.  Without a final frame,
  either nothing was claimed, the database is as \<^verbatim>\<open>mark_streaming\<close> left it and the generator was closed by
  its consumer, or one terminal state was claimed and the database is that of at most one finalization
  of this very execution to that state; it is a cancellation with the client-cancelled code exactly when
  the task was cancelled, and else the client's last frame is the error frame.\<close>

theorem stream_settles_at_most_once:
  assumes "event_generator sr sw (new_gen pulls s db) = (r, g)" and "\<forall>f \<in> set (g_frames g). \<not> is_done f"
  shows "g_claimed g = None \<and> r = Inl GeneratorClosed \<and> g_db g = marked_db sr sw db
    \<or> (\<exists>t code. g_claimed g = Some t
        \<and> (g_db g = marked_db sr sw db \<or> (\<exists>x. settled_as sr sw (marked_db sr sw db) t code (x, g_db g)))
        \<and> (if r = Inl CancelledError then t = StreamCancelled \<and> code = CLIENT_CANCELLED
           else t \<noteq> StreamCancelled \<and> last (g_frames g) = SseError \<and> (r = Inr () \<or> r = Inl GeneratorClosed)))"
proof -
  have nd: "\<not> (\<exists>f \<in> set (g_frames g). is_done f)" using assms(2) by blast
  note E = event_generator_ends [OF assms(1), unfolded stream_ends_def if_not_P [OF nd]]
  show ?thesis
  proof (cases "g_claimed g = None")
    case True
    with E show ?thesis unfolding if_P [OF True] by blast
  next
    case False
    with E show ?thesis unfolding if_not_P [OF False] by blast
  qed
qed

section \<open>Providers under an alias\<close>

text \<open>Primary entries name the canonical provider of the accountant; the relation is kept by every step.\<close>

definition billed :: "stream_request \<Rightarrow> execution_cost list \<Rightarrow> bool" where
  "billed sr es \<longleftrightarrow> (\<forall>c \<in> set es. ec_operation c = ''primary'' \<longrightarrow> normalize_provider (sr_provider sr) = Inr (ec_provider c))"

definition billing :: "stream_request \<Rightarrow> gen \<Rightarrow> gen \<Rightarrow> bool" where
  "billing sr g g' \<longleftrightarrow> (billed sr (g_entries g) \<longrightarrow> billed sr (g_entries g'))"

interpretation billing: step_frame "billing sr" for sr
  by unfold_locales (auto simp: billing_def)

lemma account_names:
  "account cpt provider model operation ms output sp = Inr c \<Longrightarrow>
     normalize_provider provider = Inr (ec_provider c) \<and> ec_operation c = operation"
  "account_reported provider model operation i out = Inr c \<Longrightarrow>
     normalize_provider provider = Inr (ec_provider c) \<and> ec_operation c = operation"
  by (auto simp: account_def account_reported_def Let_def dest!: price_lookup_InrD checked_InrD split: sum.splits)

lemma billed_snoc: "billed sr (es @ [c]) \<longleftrightarrow> billed sr es \<and> billed sr [c]"
  by (auto simp: billed_def)

lemma billed_primary:
  "account cpt (sr_provider sr) m ''primary'' ms output sp = Inr c \<Longrightarrow> billed sr [c]"
  "account_reported (sr_provider sr) m ''primary'' i out = Inr c \<Longrightarrow> billed sr [c]"
  by (auto simp: billed_def dest: account_names)

lemma billed_verification: "account cpt p m ''verification'' ms output sp = Inr c \<Longrightarrow> billed sr [c]"
  by (auto simp: billed_def dest: account_names)

lemma billing_leaf_steps:
  "keeps (billing sr) (settle_primary_usage sr up now usage)"
  "keeps (billing sr) (primary_accounted sr content)"
  "keeps (billing sr) (account_verification sr cx result primary)"
  "keeps (billing sr) (start_stream sr sw)"
  "keeps (billing sr) (yield_frame f)"
  "keeps (billing sr) (adopt_verification result)"
  "keeps (billing sr) (finalize_stream_db sr sw t content)"
  by (auto simp: keeps_def billing_def settle_primary_usage_def primary_accounted_def account_primary_def
      account_verification_def start_stream_def adopt_verification_def finalize_stream_db_def billed_snoc
      billed_primary billed_verification dest!: yield_frame_shape
      split: option.splits sum.splits prod.splits bool.splits if_splits)

lemma pump_loop_entries: "pump_loop c ws p g = (r, g') \<Longrightarrow> g_entries g' = g_entries g"
proof (induction c ws p g rule: pump_loop.induct)
  case (2 c w ws p g)
  obtain out p' where ev: "next_event c w p = (out, p')" by fastforce
  show ?case
  proof (cases out)
    case (Inr x)
    then show ?thesis
    proof (cases x)
      case (Chunk t)
      obtain y g1 where y: "yield_frame (SseToken t) (g\<lparr>g_accumulated := g_accumulated g @ t\<rparr>) = (y, g1)" by fastforce
      then show ?thesis
        using "2.prems" ev Inr Chunk "2.IH"(1) [OF ev [symmetric] Inr Chunk y [symmetric]] yield_frame_shape [OF y]
        by (cases y) auto
    next
      case Heartbeat
      obtain y g1 where y: "yield_frame SseKeepAlive g = (y, g1)" by fastforce
      then show ?thesis
        using "2.prems" ev Inr Heartbeat "2.IH"(2) [OF ev [symmetric] Inr Heartbeat y [symmetric]] yield_frame_shape [OF y]
        by (cases y) auto
    qed (use "2.prems" ev Inr in auto)
  qed (use "2.prems" ev in auto)
qed simp

lemma poll_loop_entries: "poll_loop lease ps g = (r, g') \<Longrightarrow> g_entries g' = g_entries g"
proof (induction lease ps g rule: poll_loop.induct)
  case (2 lease gone lost ps g)
  obtain y g1 where y: "yield_frame SseKeepAlive g = (y, g1)" by fastforce
  then show ?case
    using "2.prems" "2.IH" [OF _ _ y [symmetric]] yield_frame_shape [OF y] by (cases y) (auto split: if_splits)
qed simp

lemma billing_verify: "keeps (billing sr) (verify_stream sr sw)"
  unfolding keeps_def
proof (intro allI impI)
  fix g r g'
  assume v: "verify_stream sr sw g = (r, g')"
  obtain outcome cx where rv: "run_verification sr (sw_verifier sw) (g_accumulated g) = (outcome, cx)" by fastforce
  have "keeps (billing sr) (and_then (poll_loop (sr_has_lease sr) (sw_polls sw)) (\<lambda>_ g.
      case outcome of Inl e \<Rightarrow> (Inl e, g)
      | Inr result \<Rightarrow> and_then (account_verification sr cx result (g_accumulated g)) (\<lambda>_. adopt_verification result) g))"
  proof (rule billing.keeps_and_then)
    show "keeps (billing sr) (poll_loop (sr_has_lease sr) (sw_polls sw))"
      by (auto simp: keeps_def billing_def dest!: poll_loop_entries)
    have k: "keeps (billing sr) (and_then (account_verification sr cx result p) (\<lambda>_. adopt_verification result))" for result p
      by (intro billing.keeps_and_then billing_leaf_steps)
    show "keeps (billing sr) (\<lambda>g. case outcome of Inl e \<Rightarrow> (Inl e, g)
      | Inr result \<Rightarrow> and_then (account_verification sr cx result (g_accumulated g)) (\<lambda>_. adopt_verification result) g)"
      using k unfolding keeps_def by (cases outcome) (auto simp: billing.R_refl)
  qed
  then show "billing sr g g'"
    using v rv billing.R_refl unfolding keeps_def verify_stream_def by (cases "sr_verify sr") auto
qed

text \<open>A finalization only succeeds when the bot's provider is written in its canonical form.\<close>

lemma finalize_needs_canonical:
  assumes "finalize env (terminal_request sr t content g) db = (Inr True, db')" and "billed sr (g_entries g)"
    and "\<exists>c \<in> set (g_entries g). ec_operation c = ''primary''"
    and "find_execution (sr_execution_id sr) db = Some e"
  shows "normalize_provider (sr_provider sr) = Inr (ce_provider e)"
proof -
  obtain e' a where e': "find_execution (fz_execution_id (terminal_request sr t content g)) db = Some e'"
    and r: "record_accounting env 4 e' {} (fz_accounting (terminal_request sr t content g))
       (final_db env (terminal_request sr t content g) e' a db) = Inr db'"
    using finalize_TrueD [OF assms(1)] by blast
  have "e' = e" using e' assms(4) by (simp add: terminal_request_def)
  then have "\<forall>c \<in> set (g_entries g). ec_operation c = ''primary'' \<longrightarrow> ec_provider c = ce_provider e"
    using record_accounting_InrD [OF r] by (simp add: terminal_request_def)
  then show ?thesis using assms(2,3) by (auto simp: billed_def)
qed

lemma finalize_gen_alias:
  assumes "finalize_gen sr sw t content g = (r, g')" and "g_claimed g = None" and "billed sr (g_entries g)"
    and "find_execution (sr_execution_id sr) (sw_between sw (g_db g)) = Some e"
    and "normalize_provider (sr_provider sr) \<noteq> Inr (ce_provider e)"
  shows "g_db g' \<in> {g_db g, sw_between sw (g_db g)} \<and> (t = StreamCompleted \<longrightarrow> r \<noteq> Inr True)"
proof -
  obtain r1 g1 where p: "primary_accounted sr content g = (r1, g1)" by fastforce
  show ?thesis
  proof (cases r1)
    case (Inl e')
    then have "g_db g1 = g_db g" using primary_accounted_shape [OF p] by auto
    then show ?thesis
      using assms(1,2) p Inl by (auto simp: finalize_gen_def stream_finalize_def apply_terminal_def and_then_def)
  next
    case (Inr u)
    have prim: "\<exists>c \<in> set (g_entries g1). ec_operation c = ''primary''"
      using p Inr by (auto simp: primary_accounted_def account_primary_def dest: account_names split: if_splits sum.splits)
    have bill: "billed sr (g_entries g1)"
      using billing_leaf_steps(2) [of sr content] p assms(3) by (auto simp: keeps_def billing_def)
    have db: "g_db g1 = g_db g" using primary_accounted_shape [OF p] by auto
    obtain x db' where f: "finalize (sw_finalize_env sw) (terminal_request sr t content g1) (sw_between sw (g_db g)) = (x, db')"
      by fastforce
    have "x \<noteq> Inr True" using finalize_needs_canonical [OF _ bill prim assms(4)] f assms(5) by auto
    then have "db' = sw_between sw (g_db g)" using finalize_only_commits_true [OF f] by simp
    then show ?thesis
      using assms(1,2) p Inr f db \<open>x \<noteq> Inr True\<close>
      by (auto simp: finalize_gen_def stream_finalize_def apply_terminal_def and_then_def finalize_stream_db_def
          split: sum.splits if_splits)
  qed
qed

lemma billing_prefix: "keeps (billing sr) (stream_prefix sr sw)"
proof -
  have "keeps (billing sr) (read_stream sr sw)"
    unfolding keeps_def read_stream_def
    by (auto simp: billing_def and_then_def dest!: pump_loop_entries split: prod.splits sum.splits)
  then show ?thesis
    unfolding stream_prefix_def
    by (intro billing.keeps_and_then billing_leaf_steps billing_verify)
qed

definition not_finished :: "stream_request \<Rightarrow> stream_world \<Rightarrow> chat_db \<Rightarrow> gen \<Rightarrow> bool" where
  "not_finished sr sw db g \<longleftrightarrow> \<not> list_ex is_done (g_frames g) \<and> g_db g \<in> {db, sw_between sw db}"

lemma alias_finalize:
  assumes "unsettled db g" and "billed sr (g_entries g)" and "find_execution (sr_execution_id sr) (sw_between sw db) = Some e"
    and "normalize_provider (sr_provider sr) \<noteq> Inr (ce_provider e)"
    and "finalize_gen sr sw t content (g\<lparr>g_code := code\<rparr>) = (x, g1)"
  shows "not_finished sr sw db g1" and "t = StreamCompleted \<Longrightarrow> x \<noteq> Inr True" and "g_claimed g1 \<noteq> None"
  using finalize_gen_alias [OF assms(5), of e] finalize_gen_shape [OF assms(5)] assms(1-4)
  by (auto simp: unsettled_def not_finished_def)

lemma alias_end_failed:
  assumes "unsettled db g" and "billed sr (g_entries g)" and "find_execution (sr_execution_id sr) (sw_between sw db) = Some e"
    and "normalize_provider (sr_provider sr) \<noteq> Inr (ce_provider e)"
    and "end_failed sr sw (g\<lparr>g_code := code\<rparr>) = (r, g')"
  shows "not_finished sr sw db g'"
proof -
  obtain x g1 where f: "finalize_gen sr sw StreamFailed (g_accumulated g) (g\<lparr>g_code := code\<rparr>) = (x, g1)" by fastforce
  have y: "yield_frame SseError g1 = (r, g')" using assms(5) f by (simp add: end_failed_def)
  show ?thesis using yield_frame_shape [OF y] alias_finalize(1) [OF assms(1-4) f] by (simp add: not_finished_def)
qed

lemma alias_completion:
  assumes "unsettled db g" and "billed sr (g_entries g)" and "find_execution (sr_execution_id sr) (sw_between sw db) = Some e"
    and "normalize_provider (sr_provider sr) \<noteq> Inr (ce_provider e)"
    and "complete_stream sr sw g = (r, g')"
  shows "not_finished sr sw db g' \<and> (\<exists>text. r = Inl (OtherError text)) \<and> (g_claimed g' = None \<longrightarrow> g' = g)"
proof (cases "sr_has_lease sr \<and> sw_lease_lost_at_end sw")
  case True
  then show ?thesis
    using assms(1,5) by (auto simp: complete_stream_def raise_error_def unsettled_def not_finished_def)
next
  case False
  have un: "g_claimed g = None" using assms(1) by (simp add: unsettled_def)
  have self: "g = g\<lparr>g_code := g_code g\<rparr>" by simp
  obtain y g1 where f: "finalize_gen sr sw StreamCompleted (g_accumulated g) g = (y, g1)" by fastforce
  note al = alias_finalize [OF assms(1-4), of StreamCompleted _ "g_code g" y g1, folded self, OF f]
  obtain err where y: "y = Inl (OtherError err)"
    using finalize_gen_shape [OF f un] al(2) [OF refl] finalize_gen_error [of sr sw StreamCompleted "g_accumulated g" g _ g1] f un
    by (cases y) auto
  have "r = Inl (OtherError err)" "g' = g1"
    using assms(5) False f y by (auto simp: complete_stream_def and_then_def split: if_splits)
  then show ?thesis using al by auto
qed

text \<open>A bot whose provider is not written in its canonical form can stream but never finish.  The
  policy gate, the factory and the accountant accept aliases and other spellings (\<^verbatim>\<open>gemini\<close>,
  \<^verbatim>\<open>claude\<close>, \<^verbatim>\<open>OpenAI\<close>), the execution keeps the bot's spelling, and finalization insists that both
  agree: no final frame is ever sent and no finalization, not even to a failure, changes the database.\<close>

theorem alias_provider_never_finishes:
  assumes "event_generator sr sw (new_gen pulls s db) = (r, g)"
    and "find_execution (sr_execution_id sr) (sw_between sw (marked_db sr sw db)) = Some e"
    and "normalize_provider (sr_provider sr) \<noteq> Inr (ce_provider e)"
  shows "(\<forall>f \<in> set (g_frames g). \<not> is_done f)
    \<and> g_db g \<in> {marked_db sr sw db, sw_between sw (marked_db sr sw db)}"
proof -
  let ?db = "marked_db sr sw db"
  obtain rp gp where p: "stream_prefix sr sw (new_gen pulls s db) = (rp, gp)" by fastforce
  have "billed sr (g_entries (new_gen pulls s db))" by (simp add: billed_def new_gen_def)
  then have bill: "billed sr (g_entries gp)"
    using billing_prefix [of sr sw] p by (auto simp: keeps_def billing_def)
  note un = stream_prefix_shape(1) [OF p]
  note failed = alias_end_failed [OF un bill assms(2,3)]
  have self: "gp = gp\<lparr>g_code := g_code gp\<rparr>" by simp
  obtain rb gb where b: "stream_body sr sw (new_gen pulls s db) = (rb, gb)" by fastforce
  have "not_finished sr sw ?db g"
  proof (cases rp)
    case (Inr x)
    then have c: "complete_stream sr sw gp = (rb, gb)" using b p by (simp add: stream_body_split and_then_def)
    note al = alias_completion [OF un bill assms(2,3) c]
    then have e: "end_failed sr sw gb = (r, g)" using assms(1) b by (auto simp: event_generator_def)
    show ?thesis
    proof (cases "g_claimed gb = None")
      case True
      then show ?thesis using al e failed [of "g_code gp"] self by simp
    next
      case False
      have "yield_frame SseError gb = (r, g)" using e finalize_gen_claimed [OF False] by (simp add: end_failed_def)
      then show ?thesis using yield_frame_shape al by (simp add: not_finished_def)
    qed
  next
    case (Inl exc)
    then have b': "stream_body sr sw (new_gen pulls s db) = (Inl exc, gp)" using p by (simp add: stream_body_split and_then_def)
    show ?thesis
    proof (cases exc)
      case CancelledError
      then show ?thesis using assms(1) b' alias_finalize(1) [OF un bill assms(2,3)]
        by (auto simp: event_generator_def split: prod.splits)
    next
      case GeneratorClosed
      then show ?thesis using assms(1) b' un by (auto simp: event_generator_def unsettled_def not_finished_def)
    next
      case (IsolatedProviderFailure k)
      then show ?thesis using assms(1) b' failed by (auto simp: event_generator_def)
    qed (use assms(1) b' failed [of "g_code gp"] self in \<open>auto simp: event_generator_def\<close>)
  qed
  then show ?thesis by (auto simp: not_finished_def list_ex_iff)
qed

section \<open>Sample streams\<close>

definition sample_sr :: "string \<Rightarrow> stream_request" where
  "sample_sr provider = \<lparr>sr_execution_id = ''x1'', sr_lease_token = Some ''t1'', sr_has_lease = True, sr_provider = provider,
     sr_model = ''gpt-4o'', sr_messages = [], sr_system_prompt = None, sr_prompt = ''hello'', sr_verify = False,
     sr_reservation = None, sr_badges = \<lparr>verified_badge = '' ok'', verification_failed_badge = '' ?''\<rparr>,
     sr_loads = (\<lambda>_. NotJson), sr_dumps = (\<lambda>c _ _ _. c), sr_timeout = 60\<rparr>"

definition chunk_wakeup :: wakeup where
  "chunk_wakeup = \<lparr>wk_entry = 0, wk_disconnected = False, wk_lease_lost = False, wk_chunk_done = True, wk_exit = 1\<rparr>"

definition sample_sw :: stream_world where
  "sample_sw = \<lparr>sw_mark_env = calm 15, sw_output = PlainStream [Item (PStr ''hi''), Ended],
     sw_wakeups = [chunk_wakeup, chunk_wakeup], sw_redis_up = True, sw_redis_now = 15, sw_verifier = None, sw_polls = [],
     sw_lease_lost_at_end = False, sw_between = id, sw_finalize_env = calm 20\<rparr>"

definition sample_marked :: chat_db where
  "sample_marked = update_message 4 (\<lambda>m. m\<lparr>ms_status := Streaming\<rparr>)
     (update_execution ''x1'' (\<lambda>e. e\<lparr>ce_status := Streaming\<rparr>) sample_prepared)"

lemma sample_marks: "mark_streaming (calm 15) ''x1'' sample_prepared = (Inr True, sample_marked)"
  by (simp add: mark_streaming_def locked_execution_def ask_def calm_def sample_marked_def sample_prepared_eq
      find_execution_def get_by_def new_execution_def sample_px_def terminal_statuses_def assistant_of_def
      new_message_def commit_or_unavailable_def sample_ledger_eq empty_chat_db_def update_message_def update_execution_def)

lemma sample_account:
  obtains c where "account CHARS_PER_TOKEN_ACCOUNTED ''openai'' ''gpt-4o'' ''primary'' [] ''hi'' None = Inr c"
    and "ec_operation c = ''primary''" and "ec_provider c = ''openai''" and "ec_model c = ''gpt-4o''"
proof -
  have look: "price_lookup ''openai'' ''gpt-4o''
      = Inr (''openai'', snd (catalog_entry ''openai'' ''gpt-4o'' 128000 (5/2) 10 (native_caps True True True)))"
    by (simp add: price_lookup_def normalize_provider_fixed model_capability_catalog_def
        model_capability_entries_def catalog_entry_def)
  let ?c = "\<lparr>ec_provider = ''openai'', ec_model = ''gpt-4o'', ec_operation = ''primary'', ec_input_tokens = 0,
      ec_output_tokens = 1, ec_total_tokens = 1, ec_cost = quantize_cost (priced \<lparr>input_per_million = 5/2, output_per_million = 10\<rparr> 0 1),
      ec_usage_source = ''estimated'', ec_pricing_revision = CATALOG_REVISION\<rparr>"
  have "account CHARS_PER_TOKEN_ACCOUNTED ''openai'' ''gpt-4o'' ''primary'' [] ''hi'' None = execution_cost_checked ?c"
    using look by (simp add: account_def CHARS_PER_TOKEN_ACCOUNTED_def message_chars_def py_or_empty_def ceil_div_def
        Let_def catalog_entry_def)
  also have "\<dots> = Inr ?c"
    by (rule checked_InrI) (simp_all add: CATALOG_REVISION_def quantize_cost_def priced_def unit_tokens_def)
  finally show thesis by (rule that) simp_all
qed

lemma sample_finalizes:
  assumes "ec_operation c = ''primary''" and "ec_provider c = ''openai''" and "ec_model c = ''gpt-4o''"
  shows "fst (finalize (calm 20) \<lparr>fz_execution_id = ''x1'', fz_terminal_status = Completed, fz_content = ''hi'',
     fz_response_status = 200, fz_response_reference = ''hi'', fz_lease_token = Some ''t1'',
     fz_failure_code = None, fz_accounting = [c]\<rparr> sample_marked) = Inr True"
  using assms
  by (simp add: sample_marked_def sample_prepared_eq sample_ledger_eq finalize_def locked_execution_def ask_def calm_def
        terminal_statuses_def find_execution_def get_by_def new_execution_def
        sample_px_def fenced_idem_def find_idem_def new_idem_row_def expired_before_def seconds_def
        LEASE_SECONDS_def assistant_of_def new_message_def empty_chat_db_def final_db_def
        same_entry_def new_reservation_usage_def Let_def update_execution_def
        update_message_def update_idem_by_id_def set_by_def update_where_def)

lemma sample_prefix:
  "stream_prefix (sample_sr p) sample_sw (new_gen None s sample_prepared)
    = (Inr (), (new_gen None s sample_marked)\<lparr>g_frames := [SseStart, SseToken ''hi''], g_accumulated := ''hi'',
        g_primary := Some ''hi''\<rparr>)"
proof -
  have src: "isolated_stream [Item (PStr ''hi''), Ended] = ([''hi''], None)" by simp
  show ?thesis
    by (simp add: stream_prefix_def and_then_def start_stream_def sample_sr_def sample_sw_def new_gen_def sample_marks
        yield_frame_def Let_def read_stream_def provider_text_stream_def src new_pump_def next_event_def chunk_wakeup_def
        settle_primary_usage_def verify_stream_def)
qed

lemma sample_stream_done:
  obtains g where "event_generator (sample_sr ''openai'') sample_sw (new_gen None s sample_prepared) = (Inr (), g)"
    and "SseDone ''hi'' False None None \<in> set (g_frames g)"
proof -
  obtain c where c: "account CHARS_PER_TOKEN_ACCOUNTED ''openai'' ''gpt-4o'' ''primary'' [] ''hi'' None = Inr c"
    "ec_operation c = ''primary''" "ec_provider c = ''openai''" "ec_model c = ''gpt-4o''"
    by (rule sample_account)
  obtain db where db: "finalize (calm 20) \<lparr>fz_execution_id = ''x1'', fz_terminal_status = Completed, fz_content = ''hi'',
     fz_response_status = 200, fz_response_reference = ''hi'', fz_lease_token = Some ''t1'',
     fz_failure_code = None, fz_accounting = [c]\<rparr> sample_marked = (Inr True, db)"
    using sample_finalizes [OF c(2-4)] by (metis prod.collapse)
  have "\<exists>g. event_generator (sample_sr ''openai'') sample_sw (new_gen None s sample_prepared) = (Inr (), g)
      \<and> SseDone ''hi'' False None None \<in> set (g_frames g)"
    unfolding event_generator_def stream_body_split and_then_def [of "stream_prefix _ _"] sample_prefix
    using c(1) db
    by (simp add: complete_stream_def sample_sr_def sample_sw_def new_gen_def and_then_def finalize_gen_def
        stream_finalize_def apply_terminal_def primary_accounted_def account_primary_def finalize_stream_db_def
        terminal_request_def yield_frame_def Let_def)
  then show thesis using that by blast
qed

lemma sample_closed:
  "event_generator (sample_sr p) sample_sw (new_gen (Some 0) s sample_prepared)
    = (Inl GeneratorClosed, (new_gen (Some 0) s sample_marked)\<lparr>g_frames := [SseStart]\<rparr>)"
  by (simp add: event_generator_def stream_body_def and_then_def start_stream_def sample_sr_def sample_sw_def new_gen_def
      sample_marks yield_frame_def Let_def)

theorem stream_done_is_durable_witness:
  "\<exists>g. event_generator (sample_sr ''openai'') sample_sw (new_gen None Map.empty sample_prepared) = (Inr (), g)
     \<and> (\<exists>e a. find_execution ''x1'' (g_db g) = Some e \<and> ce_status e = Completed
         \<and> assistant_of e (g_db g) = Some a \<and> ms_content a = ''hi'')"
proof -
  obtain g where g: "event_generator (sample_sr ''openai'') sample_sw (new_gen None Map.empty sample_prepared) = (Inr (), g)"
    "SseDone ''hi'' False None None \<in> set (g_frames g)" by (rule sample_stream_done)
  have "sr_execution_id (sample_sr ''openai'') = ''x1''" by (simp add: sample_sr_def)
  then show ?thesis using stream_done_is_durable [OF g] g(1) by auto
qed

theorem stream_settles_at_most_once_witness:
  "\<exists>g. event_generator (sample_sr ''openai'') sample_sw (new_gen (Some 0) Map.empty sample_prepared) = (Inl GeneratorClosed, g)
     \<and> g_db g = sample_marked \<and> g_claimed g = None \<and> \<not> execution_closed ''x1'' (g_db g)"
proof -
  let ?g = "(new_gen (Some 0) Map.empty sample_marked)\<lparr>g_frames := [SseStart]\<rparr>"
  have m: "marked_db (sample_sr ''openai'') sample_sw sample_prepared = sample_marked"
    by (simp add: marked_db_def sample_sr_def sample_sw_def sample_marks)
  have "g_claimed ?g = None" by (simp add: new_gen_def)
  then have "g_db ?g = sample_marked"
    using stream_settles_at_most_once [OF sample_closed, of Map.empty "''openai''"] m by simp
  moreover have "\<not> execution_closed ''x1'' sample_marked"
    by (auto simp: execution_closed_def sample_marked_def sample_prepared_eq sample_ledger_eq empty_chat_db_def
        find_execution_def get_by_def update_message_def update_execution_def set_by_def update_where_def new_execution_def
        sample_px_def terminal_statuses_def)
  ultimately show ?thesis using sample_closed [of "''openai''" Map.empty] by (auto simp: new_gen_def)
qed

definition alias_prepared :: chat_db where
  "alias_prepared = snd (prepare_exchange (calm 10) (sample_px\<lparr>px_provider := ''OpenAI''\<rparr>) sample_ledger)"

lemma alias_marked:
  "\<exists>e. find_execution ''x1'' (marked_db (sample_sr ''OpenAI'') sample_sw alias_prepared) = Some e \<and> ce_provider e = ''OpenAI''"
  by (simp add: marked_db_def sample_sr_def sample_sw_def alias_prepared_def prepare_exchange_def start_exchange_def
      ask_def calm_def sample_ledger_eq empty_chat_db_def find_execution_def get_by_def flush_rejected_def
      bind_governance_decision_def insert_exchange_def sample_px_def new_idem_row_def Let_def mark_streaming_def
      locked_execution_def new_execution_def terminal_statuses_def assistant_of_def new_message_def
      commit_or_unavailable_def update_message_def update_execution_def set_by_def update_where_def)

theorem alias_provider_never_finishes_witness:
  "normalize_provider ''OpenAI'' = Inr ''openai''
   \<and> \<not> list_ex is_done (g_frames (snd (event_generator (sample_sr ''OpenAI'') sample_sw (new_gen None Map.empty alias_prepared))))"
proof -
  have n: "normalize_provider ''OpenAI'' = Inr ''openai''" by code_simp
  obtain r g where run: "event_generator (sample_sr ''OpenAI'') sample_sw (new_gen None Map.empty alias_prepared) = (r, g)"
    by fastforce
  obtain e where e: "find_execution ''x1'' (marked_db (sample_sr ''OpenAI'') sample_sw alias_prepared) = Some e"
    "ce_provider e = ''OpenAI''" using alias_marked by blast
  have p: "sr_execution_id (sample_sr ''OpenAI'') = ''x1''" "sw_between sample_sw = id" "sr_provider (sample_sr ''OpenAI'') = ''OpenAI''"
    by (simp_all add: sample_sr_def sample_sw_def)
  show ?thesis using alias_provider_never_finishes [OF run, of e] e n p run by (simp add: list_ex_iff)
qed

end
