(* ===== verification/Json.thy ===== *)
theory Json
  imports Prelude
begin

text \<open>
  \<^verbatim>\<open>json.dumps\<close> as the code calls it where the text matters: with sorted keys and the separators
  comma and colon (fingerprints of permits and stored provenance), and of the
  strings in chunk metadata.  \<open>frepr\<close> is the repr of a float.
\<close>

definition hex_digit :: "nat \<Rightarrow> char" where
  "hex_digit n = (if n < 10 then char_of (48 + n) else char_of (87 + n))"

definition json_char :: "char \<Rightarrow> string" where
  "json_char c =
     (let n = (of_char c :: nat) in
      if n = 34 then [CHR 0x5C, CHR 0x22]
      else if n = 92 then [CHR 0x5C, CHR 0x5C]
      else if n = 10 then [CHR 0x5C, CHR ''n'']
      else if n = 13 then [CHR 0x5C, CHR ''r'']
      else if n = 9 then [CHR 0x5C, CHR ''t'']
      else if n = 12 then [CHR 0x5C, CHR ''f'']
      else if n = 8 then [CHR 0x5C, CHR ''b'']
      else if 32 \<le> n \<and> n \<le> 126 then [c]
      else [CHR 0x5C, CHR ''u'', CHR ''0'', CHR ''0'', hex_digit (n div 16), hex_digit (n mod 16)])"

definition json_string :: "string \<Rightarrow> string" where
  "json_string s = [CHR 0x22] @ concat (map json_char s) @ [CHR 0x22]"

text \<open>With \<^verbatim>\<open>ensure_ascii=False\<close> only quotes, backslashes and control characters are escaped.\<close>

definition json_raw_string :: "string \<Rightarrow> string" where
  "json_raw_string s = [CHR 0x22]
     @ concat (map (\<lambda>c. if of_char c < (127 :: nat) then json_char c else [c]) s) @ [CHR 0x22]"

primrec json_compact :: "(rat \<Rightarrow> string) \<Rightarrow> json \<Rightarrow> string" where
  "json_compact frepr JNull = ''null''"
| "json_compact frepr (JBool b) = (if b then ''true'' else ''false'')"
| "json_compact frepr (JInt i) = str_int i"
| "json_compact frepr (JFloat q) = frepr q"
| "json_compact frepr (JStr s) = json_string s"
| "json_compact frepr (JList xs) = ''['' @ py_join '','' (map (json_compact frepr) xs) @ '']''"
| "json_compact frepr (JObj kvs) = ''{'' @ py_join '','' (map (\<lambda>kv. json_string (fst kv) @ '':'' @ snd kv)
     (sort_key fst (map (map_prod id (json_compact frepr)) kvs))) @ ''}''"

end
