(* ===== verification/GovernanceAudit.thy ===== *)
theory GovernanceAudit
  imports Schema ProviderPolicy Json
begin

text \<open>
  The governance audit trail (\<^verbatim>\<open>application/governance_audit.py\<close>): every provider decision becomes a
  durable row before anything else happens, and the row is closed with the result exactly once.
  Both operations are one transaction; \<open>sha\<close> is the SHA-256 hex digest and \<open>decision_id\<close> the fresh
  \<^verbatim>\<open>uuid4().hex\<close>, which the table requires to be unique.
\<close>

section \<open>Operations\<close>

definition POLICY_NAME :: string where "POLICY_NAME = ''provider_execution''"

definition POLICY_VERSION :: string where "POLICY_VERSION = ''f3-04-v1''"

datatype audit_error = GovernanceAuditUnavailable string

definition permit_json :: "permit \<Rightarrow> json" where
  "permit_json p = JObj
     [(''user_id'', JInt (pm_user_id p)), (''organization_id'', JInt (pm_organization_id p)),
      (''bot_id'', JInt (pm_bot_id p)), (''bot_organization_id'', JInt (pm_bot_organization_id p)),
      (''provider'', JStr (pm_provider p)), (''model'', JStr (pm_model p)),
      (''bot_tool_scope'', JStr (pm_bot_tool_scope p)), (''bot_visibility'', JStr (pm_bot_visibility p)),
      (''credential_scope'', JStr (pm_credential_scope p)), (''capability'', JStr (capability_value PROVIDER_EXECUTE))]"

definition permit_fingerprint :: "(string \<Rightarrow> string) \<Rightarrow> permit \<Rightarrow> string" where
  "permit_fingerprint sha p = sha (json_compact (\<lambda>_. []) (permit_json p))"

record decision_request =
  dr_request_id :: string
  dr_request_hash :: string
  dr_authorization :: auth_context
  dr_bot_id :: identity
  dr_bot_organization_id :: identity
  dr_allowed :: bool
  dr_reason :: string
  dr_provider :: "string option"
  dr_model :: "string option"
  dr_permit :: "permit option"

definition decision_row :: "(string \<Rightarrow> string) \<Rightarrow> microseconds \<Rightarrow> string \<Rightarrow> decision_request \<Rightarrow> governance_decision" where
  "decision_row sha now decision_id q =
     \<lparr>gd_decision_id = decision_id, gd_request_id = dr_request_id q, gd_request_hash = dr_request_hash q,
      gd_organization_id = ac_organization_id (dr_authorization q), gd_user_id = ac_user_id (dr_authorization q),
      gd_role = ac_role (dr_authorization q), gd_policy = POLICY_NAME, gd_policy_version = POLICY_VERSION,
      gd_capability = ''provider:execute'', gd_allowed = dr_allowed q, gd_reason = dr_reason q,
      gd_resource_type = ''bot'', gd_resource_id = str_int (dr_bot_id q),
      gd_resource_organization_id = dr_bot_organization_id q, gd_provider = dr_provider q, gd_model = dr_model q,
      gd_permit_fingerprint = map_option (permit_fingerprint sha) (dr_permit q), gd_execution_id = None,
      gd_result_status = (if dr_allowed q then None else Some ''denied''),
      gd_response_status = (if dr_allowed q then None else Some 403), gd_failure_code = None,
      gd_decided_at = now, gd_finalized_at = (if dr_allowed q then None else Some now)\<rparr>"

definition record_provider_decision ::
    "(string \<Rightarrow> string) \<Rightarrow> db_env \<Rightarrow> string \<Rightarrow> decision_request \<Rightarrow> chat_db \<Rightarrow> (audit_error + string) \<times> chat_db" where
  "record_provider_decision sha env decision_id q db =
     (if env_commit_fails env \<or> get_by gd_decision_id decision_id (decisions db) \<noteq> None
      then (Inl (GovernanceAuditUnavailable ''governance decision could not be persisted''), db)
      else (Inr decision_id, db\<lparr>decisions := decisions db @ [decision_row sha (env_now env) decision_id q]\<rparr>))"

definition close_result ::
    "microseconds \<Rightarrow> string \<Rightarrow> int \<Rightarrow> failure_code option \<Rightarrow> governance_decision \<Rightarrow> governance_decision" where
  "close_result now result_status response_status code d =
     d\<lparr>gd_result_status := Some result_status, gd_response_status := Some response_status,
       gd_failure_code := code, gd_finalized_at := Some now\<rparr>"

definition record_result ::
    "db_env \<Rightarrow> string \<Rightarrow> string \<Rightarrow> int \<Rightarrow> failure_code option \<Rightarrow> chat_db \<Rightarrow> (audit_error + unit) \<times> chat_db" where
  "record_result env decision_id result_status response_status code db =
     (let unavailable = (Inl (GovernanceAuditUnavailable ''governance result could not be persisted''), db) in
      if env_query_fails env 0 then unavailable
      else (case get_by gd_decision_id decision_id (decisions db) of
          None \<Rightarrow> (Inl (GovernanceAuditUnavailable ''governance decision result binding is invalid''), db)
        | Some d \<Rightarrow>
            if \<not> gd_allowed d
            then (Inl (GovernanceAuditUnavailable ''governance decision result binding is invalid''), db)
            else if gd_finalized_at d \<noteq> None then (Inr (), db)
            else if env_commit_fails env then unavailable
            else (Inr (), db\<lparr>decisions := set_by gd_decision_id decision_id
                    (close_result (env_now env) result_status response_status code) (decisions db)\<rparr>)))"

section \<open>Facts\<close>

lemma decision_row_fields [simp]:
  "gd_decision_id (decision_row sha now i q) = i" "gd_allowed (decision_row sha now i q) = dr_allowed q"
  "gd_execution_id (decision_row sha now i q) = None"
  "gd_organization_id (decision_row sha now i q) = ac_organization_id (dr_authorization q)"
  "gd_user_id (decision_row sha now i q) = ac_user_id (dr_authorization q)"
  "gd_finalized_at (decision_row sha now i q) = (if dr_allowed q then None else Some now)"
  by (simp_all add: decision_row_def)

lemma close_result_fields [simp]:
  "gd_decision_id (close_result now s r c d) = gd_decision_id d" "gd_allowed (close_result now s r c d) = gd_allowed d"
  "gd_finalized_at (close_result now s r c d) = Some now" "gd_result_status (close_result now s r c d) = Some s"
  "gd_response_status (close_result now s r c d) = Some r" "gd_execution_id (close_result now s r c d) = gd_execution_id d"
  "gd_organization_id (close_result now s r c d) = gd_organization_id d" "gd_user_id (close_result now s r c d) = gd_user_id d"
  by (simp_all add: close_result_def)

lemma record_decision_InrD:
  "record_provider_decision sha env i q db = (Inr j, db') \<Longrightarrow> j = i \<and> get_by gd_decision_id i (decisions db) = None
     \<and> db' = db\<lparr>decisions := decisions db @ [decision_row sha (env_now env) i q]\<rparr>"
  by (auto simp: record_provider_decision_def split: if_splits)

lemma record_decision_InlD: "record_provider_decision sha env i q db = (Inl e, db') \<Longrightarrow> db' = db"
  by (auto simp: record_provider_decision_def split: if_splits)

lemma record_result_only_decisions:
  "record_result env i s r c db = (out, db') \<Longrightarrow> db' = db\<lparr>decisions := decisions db'\<rparr>"
  by (auto simp: record_result_def Let_def split: if_splits option.splits)

lemma record_result_closes:
  assumes "record_result env i s r c db = (Inr (), db')"
  shows "\<exists>d. get_by gd_decision_id i (decisions db') = Some d \<and> gd_allowed d \<and> gd_finalized_at d \<noteq> None"
  using assms
  by (auto simp: record_result_def Let_def rows.fetch_modify keeps_key_def split: if_splits option.splits)

end
