(* ===== verification/Retrieval.thy ===== *)
theory Retrieval
  imports Verification Json "HOL-Library.Sublist" "HOL-Library.Product_Lexorder"
begin

text \<open>
  Retrieval of document knowledge (\<^verbatim>\<open>domains/documents/rag_service.py\<close>): splitting a text into chunks
  and hybrid search.  PostgreSQL evaluates the vector distance, the full-text match and the JSON
  operator; they are the parameters \<open>distance\<close>, \<open>text_rank\<close> and \<open>jsonb\<close>.  Rows that a query's ORDER BY
  leaves tied come in table order here.  Scores are exact rationals instead of floats.
\<close>

section \<open>Chunking\<close>

text \<open>
  \<^verbatim>\<open>re.split\<close> at a newline, whitespace, newline: after a newline, the greedy whitespace run has to
  contain another newline, and the separator ends at the last one.
\<close>

definition after_blank_line :: "string \<Rightarrow> string option" where
  "after_blank_line cs =
     (let run = takeWhile py_space cs in
      if CHR 0x0A \<in> set run
      then Some (rev (takeWhile (\<lambda>c. c \<noteq> CHR 0x0A) (rev run)) @ dropWhile py_space cs) else None)"

definition onto_first :: "char \<Rightarrow> string list \<Rightarrow> string list" where
  "onto_first c ps = (case ps of [] \<Rightarrow> [[c]] | p # qs \<Rightarrow> (c # p) # qs)"

lemma after_blank_line_shorter:
  assumes "after_blank_line cs = Some rest"
  shows "length rest \<le> length cs"
proof -
  have "length (takeWhile (\<lambda>c. c \<noteq> CHR 0x0A) (rev (takeWhile py_space cs))) \<le> length (takeWhile py_space cs)"
    by (metis length_rev length_takeWhile_le)
  moreover have "length (takeWhile py_space cs) + length (dropWhile py_space cs) = length cs"
    by (metis length_append takeWhile_dropWhile_id)
  ultimately show ?thesis using assms by (auto simp: after_blank_line_def Let_def split: if_splits)
qed

function split_paragraphs :: "string \<Rightarrow> string list" where
  "split_paragraphs [] = [[]]"
| "split_paragraphs (c # cs) =
     (case (if c = CHR 0x0A then after_blank_line cs else None) of
        Some rest \<Rightarrow> [] # split_paragraphs rest
      | None \<Rightarrow> onto_first c (split_paragraphs cs))"
  by pat_completeness auto
termination
  by (relation "measure length") (auto simp: less_Suc_eq_le split: if_splits dest: after_blank_line_shorter)

function windows :: "nat \<Rightarrow> nat \<Rightarrow> string \<Rightarrow> string list" where
  "windows chunk_size step para =
     (if para = [] then [] else take chunk_size para # windows chunk_size step (drop (max 1 step) para))"
  by pat_completeness auto
termination
  by (relation "measure (\<lambda>(chunk_size, step, para). length para)") auto

declare windows.simps [simp del]

text \<open>The loop over the paragraphs, with the chunks so far and the current chunk.\<close>

fun chunk_loop :: "nat \<Rightarrow> nat \<Rightarrow> string list \<Rightarrow> string list \<Rightarrow> string \<Rightarrow> string list" where
  "chunk_loop chunk_size overlap [] chunks current = (if current = [] then chunks else chunks @ [current])"
| "chunk_loop chunk_size overlap (p # ps) chunks current =
     (let para = py_strip p in
      if para = [] then chunk_loop chunk_size overlap ps chunks current
      else if length current + length para + 1 \<le> chunk_size
      then chunk_loop chunk_size overlap ps chunks (if current = [] then para else current @ [CHR 0x0A] @ para)
      else (let flushed = (if current = [] then chunks else chunks @ [current]) in
        if chunk_size < length para
        then chunk_loop chunk_size overlap ps
               (flushed @ windows chunk_size (max (chunk_size - overlap) 1) para) []
        else chunk_loop chunk_size overlap ps flushed para))"

definition intelligent_chunking :: "nat \<Rightarrow> nat \<Rightarrow> string \<Rightarrow> string list" where
  "intelligent_chunking chunk_size overlap text_content =
     chunk_loop chunk_size overlap (split_paragraphs text_content) [] []"

lemma windows_bounded: "0 < chunk_size \<Longrightarrow> w \<in> set (windows chunk_size step para) \<Longrightarrow> w \<noteq> [] \<and> length w \<le> chunk_size"
proof (induction chunk_size step para rule: windows.induct)
  case (1 chunk_size step para)
  show ?case
  proof (cases "para = []")
    case True
    then show ?thesis using "1.prems" by (simp add: windows.simps)
  next
    case False
    then have "w = take chunk_size para \<or> w \<in> set (windows chunk_size step (drop (max 1 step) para))"
      using "1.prems"(2) by (subst (asm) windows.simps) simp
    then show ?thesis using "1.IH" [OF False "1.prems"(1)] False "1.prems"(1) by auto
  qed
qed

lemma windows_cover:
  assumes "0 < step" and "step \<le> chunk_size"
  shows "concat (map (take step) (windows chunk_size step para)) = para"
  using assms
proof (induction chunk_size step para rule: windows.induct)
  case (1 chunk_size step para)
  show ?case
  proof (cases "para = []")
    case True
    then show ?thesis by (simp add: windows.simps)
  next
    case False
    have d: "max 1 step = step" using "1.prems"(1) by simp
    have w: "windows chunk_size step para = take chunk_size para # windows chunk_size step (drop step para)"
      unfolding windows.simps [of chunk_size step para] d if_not_P [OF False] ..
    have "concat (map (take step) (windows chunk_size step (drop step para))) = drop step para"
      using "1.IH" [OF False "1.prems"] unfolding d .
    moreover have "take step (take chunk_size para) = take step para" using "1.prems"(2) by (simp add: min_def)
    ultimately show ?thesis unfolding w list.map concat.simps by simp
  qed
qed

text \<open>One turn of the loop, by what becomes of the paragraph.\<close>

lemma chunk_loop_turn:
  assumes "py_strip p \<noteq> []"
  shows "length current + length (py_strip p) + 1 \<le> chunk_size \<Longrightarrow>
      chunk_loop chunk_size overlap (p # ps) chunks current = chunk_loop chunk_size overlap ps chunks
        (if current = [] then py_strip p else current @ [CHR 0x0A] @ py_strip p)"
    and "\<not> length current + length (py_strip p) + 1 \<le> chunk_size \<Longrightarrow> chunk_size < length (py_strip p) \<Longrightarrow>
      chunk_loop chunk_size overlap (p # ps) chunks current = chunk_loop chunk_size overlap ps
        ((if current = [] then chunks else chunks @ [current])
          @ windows chunk_size (max (chunk_size - overlap) 1) (py_strip p)) []"
    and "\<not> length current + length (py_strip p) + 1 \<le> chunk_size \<Longrightarrow> \<not> chunk_size < length (py_strip p) \<Longrightarrow>
      chunk_loop chunk_size overlap (p # ps) chunks current = chunk_loop chunk_size overlap ps
        (if current = [] then chunks else chunks @ [current]) (py_strip p)"
  by (simp_all only: chunk_loop.simps Let_def assms if_False if_True)

lemma chunk_loop_blank:
  "py_strip p = [] \<Longrightarrow> chunk_loop chunk_size overlap (p # ps) chunks current = chunk_loop chunk_size overlap ps chunks current"
  by (simp only: chunk_loop.simps Let_def simp_thms if_True)

declare chunk_loop.simps(2) [simp del]

text \<open>A loop with an invariant on its two variables: every turn keeps it, and it gives the result.\<close>

lemma chunk_loop_invariant:
  assumes "I chunks current"
    and "\<And>chunks current. I chunks current \<Longrightarrow> Q (if current = [] then chunks else chunks @ [current])"
    and "\<And>p chunks current. I chunks current \<Longrightarrow> p \<noteq> [] \<Longrightarrow> length current + length p + 1 \<le> chunk_size
           \<Longrightarrow> I chunks (if current = [] then p else current @ [CHR 0x0A] @ p)"
    and "\<And>p chunks current. I chunks current \<Longrightarrow> chunk_size < length p \<Longrightarrow>
           I ((if current = [] then chunks else chunks @ [current])
             @ windows chunk_size (max (chunk_size - overlap) 1) p) []"
    and "\<And>p chunks current. I chunks current \<Longrightarrow> p \<noteq> [] \<Longrightarrow> length p \<le> chunk_size \<Longrightarrow>
           I (if current = [] then chunks else chunks @ [current]) p"
  shows "Q (chunk_loop chunk_size overlap ps chunks current)"
  using assms(1)
proof (induction ps arbitrary: chunks current)
  case Nil
  then show ?case using assms(2) by simp
next
  case (Cons p ps)
  consider "py_strip p = []"
    | "py_strip p \<noteq> []" "length current + length (py_strip p) + 1 \<le> chunk_size"
    | "py_strip p \<noteq> []" "\<not> length current + length (py_strip p) + 1 \<le> chunk_size" "chunk_size < length (py_strip p)"
    | "py_strip p \<noteq> []" "\<not> length current + length (py_strip p) + 1 \<le> chunk_size" "\<not> chunk_size < length (py_strip p)"
    by blast
  then show ?case
  proof cases
    case 1
    show ?thesis unfolding chunk_loop_blank [OF 1] by (rule Cons.IH [OF Cons.prems])
  next
    case 2
    show ?thesis unfolding chunk_loop_turn(1) [OF 2] by (rule Cons.IH [OF assms(3) [OF Cons.prems 2]])
  next
    case 3
    show ?thesis unfolding chunk_loop_turn(2) [OF 3] by (rule Cons.IH [OF assms(4) [OF Cons.prems 3(3)]])
  next
    case 4
    show ?thesis unfolding chunk_loop_turn(3) [OF 4]
      using 4(3) by (intro Cons.IH assms(5) Cons.prems 4(1)) simp
  qed
qed

lemma chunk_loop_bounded:
  assumes "0 < chunk_size" and "c \<in> set (chunk_loop chunk_size overlap ps [] [])"
  shows "c \<noteq> [] \<and> length c \<le> chunk_size"
proof -
  let ?ok = "\<lambda>cs :: string list. \<forall>c \<in> set cs. c \<noteq> [] \<and> length c \<le> chunk_size"
  have "?ok (chunk_loop chunk_size overlap ps [] [])"
    by (rule chunk_loop_invariant [where I = "\<lambda>chunks current. ?ok chunks \<and> length current \<le> chunk_size"])
      (use windows_bounded [OF assms(1)] in \<open>auto split: if_splits\<close>)
  then show ?thesis using assms(2) by blast
qed

text \<open>What has to be found of a paragraph again: a short one inside one chunk, a long one as the windows
  over it, whose leading steps are the paragraph.\<close>

definition kept_in :: "nat \<Rightarrow> nat \<Rightarrow> string \<Rightarrow> string list \<Rightarrow> bool" where
  "kept_in chunk_size step para chunks \<longleftrightarrow>
     (if length para \<le> chunk_size then \<exists>c \<in> set chunks. sublist para c
      else \<exists>ws. set ws \<subseteq> set chunks \<and> concat (map (take step) ws) = para)"

lemma kept_in_mono: "kept_in n step p cs \<Longrightarrow> set cs \<subseteq> set cs' \<Longrightarrow> kept_in n step p cs'"
  by (auto simp: kept_in_def split: if_splits)

lemma kept_in_windows:
  assumes "n < length p" and "0 < n" and "set (windows n (max (n - overlap) 1) p) \<subseteq> set cs"
  shows "kept_in n (max (n - overlap) 1) p cs"
  using assms windows_cover [of "max (n - overlap) 1" n p] unfolding kept_in_def by auto

lemma sublist_widen: "sublist a b \<Longrightarrow> sublist a (c @ b @ d)"
  by (meson sublist_appendI sublist_order.order.trans)

lemmas sublist_beside = sublist_widen [where c = "[]", simplified] sublist_widen [where d = "[]", simplified]

lemma kept_in_current:
  "length p \<le> n \<Longrightarrow> \<exists>c \<in> set cs. sublist current c \<Longrightarrow> sublist p current \<Longrightarrow> kept_in n step p cs"
  unfolding kept_in_def by (auto intro: sublist_order.order.trans)

lemma chunk_loop_grows:
  "set chunks \<subseteq> set (chunk_loop n overlap ps chunks current)
   \<and> (current \<noteq> [] \<longrightarrow> (\<exists>c \<in> set (chunk_loop n overlap ps chunks current). sublist current c))"
  by (rule chunk_loop_invariant [where I = "\<lambda>chunks' cur. set chunks \<subseteq> set chunks'
      \<and> (current \<noteq> [] \<longrightarrow> (\<exists>c \<in> set (cur # chunks'). sublist current c))"])
    (auto intro: sublist_beside split: if_splits)

lemma chunk_loop_covers:
  assumes "0 < n" and "p \<in> set ps" and "py_strip p \<noteq> []"
  shows "kept_in n (max (n - overlap) 1) (py_strip p) (chunk_loop n overlap ps chunks current)"
  using assms(2)
proof (induction ps arbitrary: chunks current)
  case (Cons q ps)
  show ?case
  proof (cases "q = p")
    case False
    then have "p \<in> set ps" using Cons.prems by simp
    note ih = Cons.IH [OF this]
    show ?thesis
      by (cases "py_strip q = []"; cases "length current + length (py_strip q) + 1 \<le> n"; cases "n < length (py_strip q)")
        (simp_all only: chunk_loop_blank chunk_loop_turn ih simp_thms)
  next
    case True
    note ne = assms(3)
    consider "length current + length (py_strip p) + 1 \<le> n"
      | "\<not> length current + length (py_strip p) + 1 \<le> n" "n < length (py_strip p)"
      | "\<not> length current + length (py_strip p) + 1 \<le> n" "\<not> n < length (py_strip p)"
      by blast
    then show ?thesis
    proof cases
      case 1
      let ?cur = "if current = [] then py_strip p else current @ [CHR 0x0A] @ py_strip p"
      have cur: "?cur \<noteq> []" "sublist (py_strip p) ?cur"
        using ne sublist_widen [of "py_strip p" "py_strip p" "current @ [CHR 0x0A]" "[]"] by auto
      show ?thesis unfolding True chunk_loop_turn(1) [OF ne 1]
        by (rule kept_in_current [of _ _ _ ?cur]) (use 1 cur chunk_loop_grows in auto)
    next
      case 2
      let ?fl = "if current = [] then chunks else chunks @ [current]"
      show ?thesis unfolding True chunk_loop_turn(2) [OF ne 2]
        using chunk_loop_grows [of "?fl @ windows n (max (n - overlap) 1) (py_strip p)" n overlap ps "[]"]
        by (intro kept_in_windows 2(2) assms(1)) auto
    next
      case 3
      show ?thesis unfolding True chunk_loop_turn(3) [OF ne 3]
        by (rule kept_in_current [of _ _ _ "py_strip p"]) (use 3 ne chunk_loop_grows in auto)
    qed
  qed
qed simp

text \<open>Splitting drops nothing but whitespace.\<close>

lemma after_blank_line_ink:
  assumes "after_blank_line cs = Some rest"
  shows "filter (\<lambda>c. \<not> py_space c) rest = filter (\<lambda>c. \<not> py_space c) cs"
proof -
  let ?run = "takeWhile py_space cs"
  have blank: "filter (\<lambda>c. \<not> py_space c) xs = []" if "set xs \<subseteq> set ?run" for xs
    using that by (auto simp: filter_empty_conv dest: set_takeWhileD)
  have "set (rev (takeWhile (\<lambda>c. c \<noteq> CHR 0x0A) (rev ?run))) \<subseteq> set ?run" by (auto dest: set_takeWhileD)
  moreover have "rest = rev (takeWhile (\<lambda>c. c \<noteq> CHR 0x0A) (rev ?run)) @ dropWhile py_space cs"
    using assms by (auto simp: after_blank_line_def Let_def split: if_splits)
  moreover have "filter (\<lambda>c. \<not> py_space c) cs = filter (\<lambda>c. \<not> py_space c) ?run @ filter (\<lambda>c. \<not> py_space c) (dropWhile py_space cs)"
    by (metis filter_append takeWhile_dropWhile_id)
  ultimately show ?thesis using blank by simp
qed

lemma split_paragraphs_ink:
  "filter (\<lambda>c. \<not> py_space c) (concat (split_paragraphs s)) = filter (\<lambda>c. \<not> py_space c) s"
proof (induction s rule: split_paragraphs.induct)
  case (2 c cs)
  have first: "concat (onto_first c ps) = c # concat ps" for ps by (cases ps) (simp_all add: onto_first_def)
  show ?case
  proof (cases "if c = CHR 0x0A then after_blank_line cs else None")
    case None
    show ?thesis using "2.IH"(1) [OF None] first None by simp
  next
    case (Some rest)
    then have "c = CHR 0x0A" "after_blank_line cs = Some rest" by (auto split: if_splits)
    then show ?thesis using "2.IH"(2) [OF Some] after_blank_line_ink Some by (simp add: py_space_def)
  qed
qed simp

text \<open>C26: Chunking bounds every chunk and loses no text: chunks are never empty nor longer than the chunk
  size; the paragraphs are the text up to whitespace; and every paragraph that is not blank is found again,
  a short one in one piece inside a chunk, a long one as chunks whose leading steps concatenate to it.\<close>

theorem chunking_bounded_and_lossless:
  assumes "0 < chunk_size"
  shows "(\<forall>c \<in> set (intelligent_chunking chunk_size overlap s). c \<noteq> [] \<and> length c \<le> chunk_size)
    \<and> filter (\<lambda>c. \<not> py_space c) (concat (split_paragraphs s)) = filter (\<lambda>c. \<not> py_space c) s
    \<and> (\<forall>p \<in> set (split_paragraphs s). py_strip p \<noteq> [] \<longrightarrow>
         kept_in chunk_size (max (chunk_size - overlap) 1) (py_strip p) (intelligent_chunking chunk_size overlap s))"
  using chunk_loop_bounded [OF assms] chunk_loop_covers [OF assms] split_paragraphs_ink
  unfolding intelligent_chunking_def by blast

definition sample_text :: string where
  "sample_text = ''ab cd'' @ [CHR 0x0A, CHR 0x20, CHR 0x0A] @ ''efghijklmn''"

theorem chunking_bounded_and_lossless_witness:
  "intelligent_chunking 6 2 sample_text = [''ab cd'', ''efghij'', ''ijklmn'', ''mn'']
   \<and> kept_in 6 4 ''efghijklmn'' (intelligent_chunking 6 2 sample_text)"
proof -
  have split: "split_paragraphs sample_text = [''ab cd'', ''efghijklmn'']" by code_simp
  have "py_strip ''efghijklmn'' = ''efghijklmn''" by code_simp
  moreover have "intelligent_chunking 6 2 sample_text = [''ab cd'', ''efghij'', ''ijklmn'', ''mn'']" by code_simp
  ultimately show ?thesis using chunking_bounded_and_lossless [of 6 2 sample_text] split by simp
qed

section \<open>Documents and search\<close>

record document =
  doc_id :: identity
  doc_organization_id :: identity
  doc_title :: string
  doc_source :: "string option"
  doc_mime_type :: "string option"
  doc_status :: string
  doc_owner :: "identity option"

record 'v document_chunk =
  dch_id :: identity
  dch_organization_id :: identity
  dch_document_id :: identity
  dch_content :: string
  dch_embedding :: "'v option"
  dch_metadata :: "string option"

record 'v document_db =
  dd_documents :: "document list"
  dd_chunks :: "'v document_chunk list"
  dd_next :: identity

record 'v search_engine =
  se_distance :: "'v \<Rightarrow> 'v \<Rightarrow> rat"
  se_text_rank :: "string \<Rightarrow> string \<Rightarrow> rat option"
  se_text_fails :: bool
  se_jsonb :: "string \<Rightarrow> string \<Rightarrow> string option"

record search_result =
  sr_id :: identity
  sr_organization_id :: identity
  sr_content :: string
  sr_metadata :: "string option"
  sr_score :: rat

text \<open>\<^verbatim>\<open>_scope_clause\<close>: only the private query joins the documents.\<close>

definition scope_clause ::
    "'v search_engine \<Rightarrow> document list \<Rightarrow> string \<Rightarrow> identity \<Rightarrow> identity option \<Rightarrow> 'v document_chunk \<Rightarrow> bool" where
  "scope_clause se docs scope org caller c =
     (let field = (\<lambda>key. case dch_metadata c of None \<Rightarrow> None | Some m \<Rightarrow> se_jsonb se m key) in
      if scope = ''public'' then field ''visibility'' \<in> {None, Some ''public''}
      else if scope = ''private''
      then field ''visibility'' = Some ''private''
           \<and> (\<exists>d \<in> set docs. doc_id d = dch_document_id c \<and> doc_owner d = caller \<and> caller \<noteq> None
                \<and> doc_organization_id d = org)
      else if scope \<noteq> ''organization'' then field ''knowledge_scope'' = Some scope
      else True)"

definition search_candidates ::
    "'v search_engine \<Rightarrow> 'v document_db \<Rightarrow> string \<Rightarrow> identity \<Rightarrow> identity option \<Rightarrow> 'v document_chunk list" where
  "search_candidates se db scope org caller =
     filter (\<lambda>c. dch_organization_id c = org \<and> scope_clause se (dd_documents db) scope org caller c) (dd_chunks db)"

definition vector_rows :: "'v search_engine \<Rightarrow> 'v \<Rightarrow> nat \<Rightarrow> 'v document_chunk list \<Rightarrow> 'v document_chunk list" where
  "vector_rows se query_embedding fetch_n cs = take fetch_n
     (sort_key (\<lambda>c. case dch_embedding c of None \<Rightarrow> (1 :: int, 0) | Some e \<Rightarrow> (0, se_distance se e query_embedding)) cs)"

definition fts_rows :: "'v search_engine \<Rightarrow> string \<Rightarrow> nat \<Rightarrow> 'v document_chunk list \<Rightarrow> 'v document_chunk list" where
  "fts_rows se qtext fetch_n cs =
     (if qtext = [] \<or> se_text_fails se then []
      else take fetch_n (sort_key (\<lambda>c. case se_text_rank se qtext (dch_content c) of None \<Rightarrow> 0 | Some r \<Rightarrow> - r)
             (filter (\<lambda>c. se_text_rank se qtext (dch_content c) \<noteq> None) cs)))"

definition RRF_K :: nat where "RRF_K = 60"

text \<open>The dictionary of scores, in insertion order.\<close>

definition add_score :: "identity \<Rightarrow> rat \<Rightarrow> (identity \<times> rat) list \<Rightarrow> (identity \<times> rat) list" where
  "add_score i x scores =
     (if i \<in> fst ` set scores then map (\<lambda>(j, s). if j = i then (j, s + x) else (j, s)) scores else scores @ [(i, x)])"

fun accumulate :: "nat \<Rightarrow> 'v document_chunk list \<Rightarrow> (identity \<times> rat) list \<Rightarrow> (identity \<times> rat) list" where
  "accumulate rank [] scores = scores"
| "accumulate rank (row # rest) scores =
     accumulate (Suc rank) rest (add_score (dch_id row) (1 / of_nat (RRF_K + rank + 1)) scores)"

definition docs_of :: "'v document_chunk list \<Rightarrow> identity \<Rightarrow> 'v document_chunk option" where
  "docs_of rows = fold (\<lambda>row docs. docs(dch_id row \<mapsto> row)) rows Map.empty"

definition search_result_of :: "'v document_chunk \<Rightarrow> rat \<Rightarrow> search_result" where
  "search_result_of row score = \<lparr>sr_id = dch_id row, sr_organization_id = dch_organization_id row,
     sr_content = dch_content row, sr_metadata = dch_metadata row, sr_score = score\<rparr>"

definition fuse_rows :: "nat \<Rightarrow> 'v document_chunk list \<Rightarrow> 'v document_chunk list \<Rightarrow> search_result list" where
  "fuse_rows limit vs fs =
     concat (map (\<lambda>(i, score). case docs_of (vs @ fs) i of None \<Rightarrow> [] | Some row \<Rightarrow> [search_result_of row score])
       (take limit (sort_key (\<lambda>x. - snd x) (accumulate 0 fs (accumulate 0 vs [])))))"

definition search_scope :: "string \<Rightarrow> string" where
  "search_scope knowledge_scope = py_lower (if knowledge_scope = [] then ''organization'' else knowledge_scope)"

datatype search_error = SearchPermissionError

definition hybrid_search ::
    "'v search_engine \<Rightarrow> 'v document_db \<Rightarrow> identity \<Rightarrow> 'v \<Rightarrow> string \<Rightarrow> nat \<Rightarrow> string \<Rightarrow> identity option
     \<Rightarrow> search_error + search_result list" where
  "hybrid_search se db org query_embedding query_text limit knowledge_scope caller =
     (let scope = search_scope knowledge_scope in
      if scope = ''private'' \<and> caller = None then Inl SearchPermissionError
      else (let fetch_n = max (limit * 4) 20; cs = search_candidates se db scope org caller in
        Inr (fuse_rows limit (vector_rows se query_embedding fetch_n cs)
               (fts_rows se (py_strip query_text) fetch_n cs))))"

section \<open>Reciprocal rank fusion\<close>

text \<open>The reference: the candidates in the order of their first appearance, each with the sum of its
  reciprocal ranks.\<close>

fun reciprocal_rank :: "nat \<Rightarrow> 'v document_chunk list \<Rightarrow> identity \<Rightarrow> rat" where
  "reciprocal_rank rank [] i = 0"
| "reciprocal_rank rank (row # rest) i =
     (if dch_id row = i then 1 / of_nat (RRF_K + rank + 1) else 0) + reciprocal_rank (Suc rank) rest i"

definition snoc_new :: "'a \<Rightarrow> 'a list \<Rightarrow> 'a list" where
  "snoc_new x xs = (if x \<in> set xs then xs else xs @ [x])"

definition first_seen :: "'a list \<Rightarrow> 'a list" where
  "first_seen xs = fold snoc_new xs []"

lemma fold_snoc_new: "set (fold snoc_new xs ys) = set ys \<union> set xs" "distinct ys \<Longrightarrow> distinct (fold snoc_new xs ys)"
  by (induction xs arbitrary: ys) (auto simp: snoc_new_def)

lemma add_score_map:
  assumes "distinct js" and "i \<notin> set js \<Longrightarrow> g i = 0"
  shows "add_score i x (map (\<lambda>j. (j, g j)) js) = map (\<lambda>j. (j, (g(i := g i + x)) j)) (snoc_new i js)"
  using assms by (auto simp: add_score_def snoc_new_def image_iff)

lemma accumulate_scores:
  assumes "distinct js" and "\<And>i. i \<notin> set js \<Longrightarrow> g i = 0"
  shows "accumulate rank rows (map (\<lambda>j. (j, g j)) js)
    = map (\<lambda>j. (j, g j + reciprocal_rank rank rows j)) (fold snoc_new (map dch_id rows) js)"
  using assms
proof (induction rows arbitrary: rank js g)
  case (Cons row rows)
  let ?g = "g(dch_id row := g (dch_id row) + 1 / of_nat (RRF_K + rank + 1))"
  have "distinct (snoc_new (dch_id row) js)" using Cons.prems(1) by (simp add: snoc_new_def)
  moreover have "\<And>i. i \<notin> set (snoc_new (dch_id row) js) \<Longrightarrow> ?g i = 0"
    using Cons.prems(2) by (auto simp: snoc_new_def split: if_splits)
  ultimately have "accumulate (Suc rank) rows (map (\<lambda>j. (j, ?g j)) (snoc_new (dch_id row) js))
    = map (\<lambda>j. (j, ?g j + reciprocal_rank (Suc rank) rows j)) (fold snoc_new (map dch_id rows) (snoc_new (dch_id row) js))"
    by (rule Cons.IH)
  moreover have "add_score (dch_id row) (1 / of_nat (RRF_K + rank + 1)) (map (\<lambda>j. (j, g j)) js)
      = map (\<lambda>j. (j, ?g j)) (snoc_new (dch_id row) js)"
    using Cons.prems by (intro add_score_map) auto
  ultimately show ?case by (simp add: algebra_simps)
qed simp

lemma accumulate_both:
  "accumulate 0 fs (accumulate 0 vs []) = map (\<lambda>j. (j, reciprocal_rank 0 vs j + reciprocal_rank 0 fs j))
     (first_seen (map dch_id vs @ map dch_id fs))"
proof -
  have "accumulate 0 vs [] = map (\<lambda>j. (j, reciprocal_rank 0 vs j)) (first_seen (map dch_id vs))"
    using accumulate_scores [of "[]" "\<lambda>_. 0" 0 vs] by (simp add: first_seen_def)
  moreover have "reciprocal_rank k vs j = 0" if "j \<notin> dch_id ` set vs" for j k
    using that by (induction vs arbitrary: k) auto
  ultimately show ?thesis
    using accumulate_scores [of "first_seen (map dch_id vs)" "reciprocal_rank 0 vs" 0 fs] fold_snoc_new(1) [of "map dch_id vs" "[]"]
      fold_snoc_new(2) [where ys = "[]" and xs = "map dch_id vs"] by (simp add: first_seen_def)
qed

lemma docs_of_SomeD: "docs_of rows i = Some row \<Longrightarrow> row \<in> set rows \<and> dch_id row = i"
proof -
  have "fold (\<lambda>row docs. docs(dch_id row \<mapsto> row)) rows m i = Some row \<Longrightarrow> row \<in> set rows \<and> dch_id row = i \<or> m i = Some row"
    for m by (induction rows arbitrary: m) (fastforce split: if_splits)+
  then show "docs_of rows i = Some row \<Longrightarrow> ?thesis" by (auto simp: docs_of_def)
qed

lemma docs_of_complete: "row \<in> set rows \<Longrightarrow> docs_of rows (dch_id row) \<noteq> None"
proof -
  have "row \<in> set rows \<or> m (dch_id row) \<noteq> None \<Longrightarrow> fold (\<lambda>row docs. docs(dch_id row \<mapsto> row)) rows m (dch_id row) \<noteq> None"
    for m by (induction rows arbitrary: m) (auto split: if_splits)
  then show "row \<in> set rows \<Longrightarrow> ?thesis" by (simp add: docs_of_def)
qed

text \<open>The list the result is read from.\<close>

definition fused_scores :: "'v document_chunk list \<Rightarrow> 'v document_chunk list \<Rightarrow> (identity \<times> rat) list" where
  "fused_scores vs fs = map (\<lambda>i. (i, reciprocal_rank 0 vs i + reciprocal_rank 0 fs i))
     (first_seen (map dch_id vs @ map dch_id fs))"

lemma fused_scores_distinct: "distinct (map fst (fused_scores vs fs))"
  using fold_snoc_new(2) [where ys = "[]" and xs = "map dch_id vs @ map dch_id fs"]
  by (simp add: fused_scores_def comp_def first_seen_def)

lemma fused_scores_known: "x \<in> set (fused_scores vs fs) \<Longrightarrow> docs_of (vs @ fs) (fst x) \<noteq> None"
  using fold_snoc_new(1) [of "map dch_id vs @ map dch_id fs" "[]"] docs_of_complete [of _ "vs @ fs"]
  by (fastforce simp: fused_scores_def first_seen_def)

lemma fuse_rows_pairs:
  "map (\<lambda>r. (sr_id r, sr_score r)) (fuse_rows limit vs fs) = take limit (sort_key (\<lambda>x. - snd x) (fused_scores vs fs))"
proof -
  let ?row = "\<lambda>(i, score). case docs_of (vs @ fs) i of None \<Rightarrow> [] | Some row \<Rightarrow> [search_result_of row score]"
  have one: "map (\<lambda>r. (sr_id r, sr_score r)) (?row x) = [x]" if "docs_of (vs @ fs) (fst x) \<noteq> None" for x
    using that docs_of_SomeD [of "vs @ fs"] by (auto simp: search_result_of_def split: prod.splits)
  have "map (\<lambda>r. (sr_id r, sr_score r)) (concat (map ?row xs)) = xs"
    if "\<forall>x \<in> set xs. docs_of (vs @ fs) (fst x) \<noteq> None" for xs
    using that one by (induction xs) auto
  moreover have "\<forall>x \<in> set (take limit (sort_key (\<lambda>x. - snd x) (fused_scores vs fs))). docs_of (vs @ fs) (fst x) \<noteq> None"
    using fused_scores_known by (auto dest!: in_set_takeD)
  ultimately show ?thesis unfolding fuse_rows_def accumulate_both fused_scores_def [symmetric] by blast
qed

lemma fuse_rows_from:
  assumes "r \<in> set (fuse_rows limit vs fs)"
  shows "\<exists>c \<in> set (vs @ fs). r = search_result_of c (sr_score r)"
proof -
  obtain i score c where c: "docs_of (vs @ fs) i = Some c" and r: "r = search_result_of c score"
    using assms by (auto simp: fuse_rows_def split: option.splits intro: that [OF sym])
  have "r = search_result_of c (sr_score r)" using r by (simp add: search_result_of_def)
  then show ?thesis using docs_of_SomeD [OF c] by blast
qed

lemma search_InrD:
  assumes "hybrid_search se db org qe qt limit ks caller = Inr rs"
  obtains n where "rs = fuse_rows limit (vector_rows se qe n (search_candidates se db (search_scope ks) org caller))
      (fts_rows se (py_strip qt) n (search_candidates se db (search_scope ks) org caller))"
    and "search_scope ks = ''private'' \<Longrightarrow> caller \<noteq> None" and "n = max (limit * 4) 20"
  using assms by (auto simp: hybrid_search_def Let_def split: if_splits)

text \<open>C27: Hybrid search is reciprocal rank fusion: its dictionary loop returns, best first and with ties in the
  order of first appearance, the candidates of the two rankings with the sum of their reciprocal ranks, at
  most as many as asked for and none twice.\<close>

theorem search_is_rank_fusion:
  assumes "hybrid_search se db org qe qt limit ks caller = Inr rs"
  shows "\<exists>vs fs. vs = vector_rows se qe (max (limit * 4) 20) (search_candidates se db (search_scope ks) org caller)
    \<and> fs = fts_rows se (py_strip qt) (max (limit * 4) 20) (search_candidates se db (search_scope ks) org caller)
    \<and> map (\<lambda>r. (sr_id r, sr_score r)) rs = take limit (sort_key (\<lambda>x. - snd x) (fused_scores vs fs))
    \<and> distinct (map sr_id rs) \<and> sorted (map (\<lambda>r. - sr_score r) rs) \<and> length rs \<le> limit"
proof -
  obtain vs fs where rs: "rs = fuse_rows limit vs fs"
    and vs: "vs = vector_rows se qe (max (limit * 4) 20) (search_candidates se db (search_scope ks) org caller)"
    and fs: "fs = fts_rows se (py_strip qt) (max (limit * 4) 20) (search_candidates se db (search_scope ks) org caller)"
    using assms by (rule search_InrD) blast
  let ?xs = "sort_key (\<lambda>x. - snd x) (fused_scores vs fs)"
  have pairs: "map (\<lambda>r. (sr_id r, sr_score r)) rs = take limit ?xs" unfolding rs by (rule fuse_rows_pairs)
  then have ids: "map sr_id rs = map fst (take limit ?xs)" and sc: "map (\<lambda>r. - sr_score r) rs = map (\<lambda>x. - snd x) (take limit ?xs)"
    by (metis (mono_tags, lifting) comp_apply fst_conv map_eq_conv map_map,
        metis (mono_tags, lifting) comp_apply snd_conv map_eq_conv map_map)
  have "distinct (map fst ?xs)"
    using fused_scores_distinct [of vs fs] by (metis (no_types) distinct_map distinct_sort set_sort)
  then have "distinct (map sr_id rs)" unfolding ids by (metis distinct_take take_map)
  moreover have "sorted (map (\<lambda>r. - sr_score r) rs)"
    unfolding sc using sorted_sort_key [of "\<lambda>x. - snd x" "fused_scores vs fs"] by (metis sorted_wrt_take take_map)
  moreover have "length rs \<le> limit" using arg_cong [OF pairs, of length] by simp
  ultimately show ?thesis using pairs vs fs by blast
qed

text \<open>C28: Search stays in the tenant and in its scope: every result is a chunk of the asking organization that
  the scope admits, and a private search only ever returns chunks of documents the caller owns.\<close>

theorem search_stays_in_scope:
  assumes "hybrid_search se db org qe qt limit ks caller = Inr rs" and "r \<in> set rs"
  shows "\<exists>c \<in> set (dd_chunks db). r = search_result_of c (sr_score r) \<and> dch_organization_id c = org
    \<and> scope_clause se (dd_documents db) (search_scope ks) org caller c
    \<and> (search_scope ks = ''private'' \<longrightarrow> (\<exists>d \<in> set (dd_documents db). doc_id d = dch_document_id c
         \<and> doc_owner d = caller \<and> caller \<noteq> None \<and> doc_organization_id d = org))"
proof -
  obtain n where rs: "rs = fuse_rows limit (vector_rows se qe n (search_candidates se db (search_scope ks) org caller))
      (fts_rows se (py_strip qt) n (search_candidates se db (search_scope ks) org caller))"
    using assms(1) by (rule search_InrD)
  obtain c where c: "r = search_result_of c (sr_score r)"
    "c \<in> set (search_candidates se db (search_scope ks) org caller)"
    using fuse_rows_from [OF assms(2) [unfolded rs]]
    by (auto simp: vector_rows_def fts_rows_def split: if_splits dest!: in_set_takeD)
  then show ?thesis
    by (auto simp: search_candidates_def intro!: bexI [of _ c]) (auto simp: scope_clause_def Let_def)
qed

definition sample_engine :: "rat search_engine" where
  "sample_engine = \<lparr>se_distance = (\<lambda>a b. abs (a - b)), se_text_rank = (\<lambda>q c. if c = q then Some 1 else None),
     se_text_fails = False, se_jsonb = (\<lambda>m key. None)\<rparr>"

definition sample_chunk :: "identity \<Rightarrow> identity \<Rightarrow> string \<Rightarrow> rat \<Rightarrow> rat document_chunk" where
  "sample_chunk i org content v = \<lparr>dch_id = i, dch_organization_id = org, dch_document_id = 1, dch_content = content,
     dch_embedding = Some v, dch_metadata = None\<rparr>"

definition sample_documents :: "rat document_db" where
  "sample_documents = \<lparr>dd_documents = [], dd_chunks = [sample_chunk 1 7 ''far'' 9, sample_chunk 2 7 ''near'' 2,
     sample_chunk 3 8 ''other'' 1], dd_next = 4\<rparr>"

lemma sample_search:
  "hybrid_search sample_engine sample_documents 7 1 ''far'' 5 ''organization'' None
   = Inr [search_result_of (sample_chunk 1 7 ''far'' 9) (1 / 62 + 1 / 61),
          search_result_of (sample_chunk 2 7 ''near'' 2) (1 / 61)]"
proof -
  have n: "search_scope ''organization'' = ''organization''" "py_strip ''far'' = ''far''" by code_simp+
  have cs: "search_candidates sample_engine sample_documents ''organization'' 7 None = [sample_chunk 1 7 ''far'' 9, sample_chunk 2 7 ''near'' 2]"
    by (simp add: search_candidates_def sample_documents_def sample_chunk_def scope_clause_def)
  have vs: "vector_rows sample_engine (1 :: rat) 20 [sample_chunk 1 7 ''far'' 9, sample_chunk 2 7 ''near'' 2]
      = [sample_chunk 2 7 ''near'' 2, sample_chunk 1 7 ''far'' 9]"
    by (simp add: vector_rows_def sample_engine_def sample_chunk_def)
  have fs: "fts_rows sample_engine ''far'' 20 [sample_chunk 1 7 ''far'' 9, sample_chunk 2 7 ''near'' 2] = [sample_chunk 1 7 ''far'' 9]"
    by (simp add: fts_rows_def sample_engine_def sample_chunk_def)
  show ?thesis
    by (simp add: hybrid_search_def Let_def n cs vs fs fuse_rows_def add_score_def RRF_K_def docs_of_def)
      (simp add: sample_chunk_def)
qed

theorem search_is_rank_fusion_witness:
  "map sr_id [search_result_of (sample_chunk 1 7 ''far'' 9) (1 / 62 + 1 / 61),
              search_result_of (sample_chunk 2 7 ''near'' 2) (1 / 61)] = [1, 2]
   \<and> sorted (map (\<lambda>r. - sr_score r) [search_result_of (sample_chunk 1 7 ''far'' 9) (1 / 62 + 1 / 61),
              search_result_of (sample_chunk 2 7 ''near'' 2) (1 / 61)])"
  using search_is_rank_fusion [OF sample_search]
  by (simp add: search_result_of_def sample_chunk_def)

theorem search_stays_in_scope_witness:
  "\<exists>c \<in> set (dd_chunks sample_documents). search_result_of (sample_chunk 2 7 ''near'' 2) (1 / 61)
      = search_result_of c (1 / 61) \<and> dch_organization_id c = 7"
proof -
  have "search_result_of (sample_chunk 2 7 ''near'' 2) (1 / 61) \<in> set [search_result_of (sample_chunk 1 7 ''far'' 9) (1 / 62 + 1 / 61),
          search_result_of (sample_chunk 2 7 ''near'' 2) (1 / 61)]" by simp
  from search_stays_in_scope [OF sample_search this] show ?thesis by (auto simp: search_result_of_def)
qed

end
