(* ===== verification/Ingestion.thy ===== *)
theory Ingestion
  imports Retrieval Idempotency
begin

text \<open>
  Ingestion of documents: the worker task (\<^verbatim>\<open>workers/tasks.py\<close>), the queue client
  (\<^verbatim>\<open>workers/client.py\<close>) and the ingest endpoint (\<^verbatim>\<open>api/v1/documents.py\<close>).  The embedding
  provider, Redis and the database decide what the arguments of type \<open>embedding_reply\<close>, \<open>enqueue_reply\<close>
  and the commit flags say; a job of the worker is its two transactions, which those of other jobs may
  separate.
\<close>

section \<open>Embeddings\<close>

datatype 'v embedding_reply = Embedded 'v | HttpError | ReplyKeyError | ReplyIndexError

datatype embedding_error = EiraOSException int | UncaughtEmbedding

definition embedding_configured :: "string option \<Rightarrow> bool" where
  "embedding_configured key \<longleftrightarrow> key \<notin> {None, Some [], Some ''sk-placeholder'', Some ''replace-me''}"

definition generate_embedding :: "string option \<Rightarrow> (string \<Rightarrow> 'v embedding_reply) \<Rightarrow> string \<Rightarrow> embedding_error + 'v" where
  "generate_embedding key post s =
     (if \<not> embedding_configured key then Inl (EiraOSException 503)
      else (case post s of Embedded v \<Rightarrow> Inr v | ReplyIndexError \<Rightarrow> Inl UncaughtEmbedding | _ \<Rightarrow> Inl (EiraOSException 502)))"

definition worker_embed :: "string option \<Rightarrow> (string \<Rightarrow> 'v embedding_reply) \<Rightarrow> string \<Rightarrow> 'v option" where
  "worker_embed key post s =
     (if \<not> embedding_configured key then None else (case post s of Embedded v \<Rightarrow> Some v | _ \<Rightarrow> None))"

section \<open>The worker\<close>

definition chunk_metadata :: "nat \<Rightarrow> string \<Rightarrow> string \<Rightarrow> string" where
  "chunk_metadata position title knowledge_scope =
     ''{'' @ json_raw_string ''order'' @ '': '' @ str_nat position @ '', '' @ json_raw_string ''title'' @ '': ''
       @ json_raw_string title @ '', '' @ json_raw_string ''knowledge_scope'' @ '': ''
       @ json_raw_string knowledge_scope @ ''}''"

record job =
  jb_document_id :: identity
  jb_organization_id :: identity
  jb_content :: string
  jb_knowledge_scope :: string

definition find_document :: "identity \<Rightarrow> identity \<Rightarrow> document list \<Rightarrow> document option" where
  "find_document i org docs = find (\<lambda>d. doc_id d = i \<and> doc_organization_id d = org) docs"

definition set_status :: "identity \<Rightarrow> string \<Rightarrow> 'v document_db \<Rightarrow> 'v document_db" where
  "set_status i st db = db\<lparr>dd_documents := set_by doc_id i (\<lambda>d. d\<lparr>doc_status := st\<rparr>) (dd_documents db)\<rparr>"

definition new_chunk :: "job \<Rightarrow> string \<Rightarrow> (string \<Rightarrow> 'v option) \<Rightarrow> identity \<Rightarrow> nat \<Rightarrow> string \<Rightarrow> 'v document_chunk" where
  "new_chunk j title emb i position chunk_text =
     \<lparr>dch_id = i + int position, dch_organization_id = jb_organization_id j, dch_document_id = jb_document_id j,
      dch_content = chunk_text, dch_embedding = emb chunk_text,
      dch_metadata = Some (chunk_metadata position title (jb_knowledge_scope j))\<rparr>"

definition job_chunks :: "job \<Rightarrow> string list" where
  "job_chunks j = intelligent_chunking 500 50 (jb_content j)"

definition stored_chunks :: "job \<Rightarrow> string \<Rightarrow> (string \<Rightarrow> 'v option) \<Rightarrow> identity \<Rightarrow> 'v document_chunk list" where
  "stored_chunks j title emb i = map (\<lambda>(position, chunk_text). new_chunk j title emb i position chunk_text)
     (enumerate 0 (job_chunks j))"

datatype job_result = NotFound | AlreadyReady | Claimed document | JobRaises

text \<open>Up to the first commit: the claim.  The row lock ends with the transaction.\<close>

definition begin_job :: "bool \<Rightarrow> job \<Rightarrow> 'v document_db \<Rightarrow> job_result \<times> 'v document_db" where
  "begin_job commits j db =
     (case find_document (jb_document_id j) (jb_organization_id j) (dd_documents db) of
        None \<Rightarrow> (NotFound, db)
      | Some d \<Rightarrow>
          if doc_status d = ''ready'' then (AlreadyReady, db)
          else if commits then (Claimed d, set_status (doc_id d) ''processing'' db)
          else (JobRaises, db))"

text \<open>The second transaction, and the one of the exception handler when its commit fails.\<close>

definition finish_job :: "bool \<Rightarrow> bool \<Rightarrow> job \<Rightarrow> document \<Rightarrow> (string \<Rightarrow> 'v option) \<Rightarrow> 'v document_db \<Rightarrow> 'v document_db" where
  "finish_job commits commits_failure j d emb db =
     (if commits
      then (let chunks = stored_chunks j (doc_title d) emb (dd_next db) in
            set_status (doc_id d) (if chunks \<noteq> [] then ''ready'' else ''failed'')
              (db\<lparr>dd_chunks := dd_chunks db @ chunks, dd_next := dd_next db + int (length chunks)\<rparr>))
      else if commits_failure then set_status (doc_id d) ''failed'' db else db)"

definition process_document_ingestion :: "job \<Rightarrow> (string \<Rightarrow> 'v option) \<Rightarrow> 'v document_db \<Rightarrow> 'v document_db" where
  "process_document_ingestion j emb db =
     (case begin_job True j db of (Claimed d, db') \<Rightarrow> finish_job True True j d emb db' | (_, db') \<Rightarrow> db')"

section \<open>The ingest endpoint\<close>

datatype enqueue_reply = PoolUnavailable | JobEnqueued string | JobRejected | EnqueueRaises

definition enqueue_document_ingestion :: "enqueue_reply \<Rightarrow> unit + string option" where
  "enqueue_document_ingestion q = (case q of PoolUnavailable \<Rightarrow> Inr None | JobEnqueued i \<Rightarrow> Inr (Some i)
     | JobRejected \<Rightarrow> Inr None | EnqueueRaises \<Rightarrow> Inl ())"

record ingest_request =
  ig_title :: string
  ig_content :: string
  ig_source :: "string option"
  ig_mime_type :: "string option"

datatype ingest_body =
    StoredReply string | DuplicateBody string
  | QueuedBody identity string string | SyncBody string identity nat string

record 'v ingest_world =
  ig_ledger :: idem_world
  ig_now :: microseconds
  ig_queue :: enqueue_reply
  ig_sync_fallback :: bool
  ig_api_key :: "string option"
  ig_post :: "string \<Rightarrow> 'v embedding_reply"
  ig_loads :: "string \<Rightarrow> bool"
  ig_dumps :: "ingest_body \<Rightarrow> string"
  ig_failure_text :: "identity \<Rightarrow> string \<Rightarrow> string"

record 'v ingest_state =
  is_ledger :: chat_db
  is_documents :: "'v document_db"

definition ingest_ledger_key :: "idem_request \<Rightarrow> string option" where
  "ingest_ledger_key rq = map_option (\<lambda>k. ''doc:ingest:'' @ k) (py_or_none (py_strip (py_or_empty (rq_idempotency_header rq))))"

definition insert_document :: "identity \<Rightarrow> identity \<Rightarrow> ingest_request \<Rightarrow> 'v document_db \<Rightarrow> document \<times> 'v document_db" where
  "insert_document org uid p db =
     (let d = \<lparr>doc_id = dd_next db, doc_organization_id = org, doc_title = ig_title p,
                doc_source = Some (case ig_source p of None \<Rightarrow> ''api'' | Some x \<Rightarrow> x),
                doc_mime_type = Some (case ig_mime_type p of None \<Rightarrow> ''text/plain'' | Some x \<Rightarrow> x),
                doc_status = ''queued'', doc_owner = Some uid\<rparr>
      in (d, db\<lparr>dd_documents := dd_documents db @ [d], dd_next := dd_next db + 1\<rparr>))"

definition settle_ledger ::
    "microseconds \<Rightarrow> idem_request \<Rightarrow> string option \<Rightarrow> string option \<Rightarrow> int \<Rightarrow> string \<Rightarrow> chat_db \<Rightarrow> chat_db" where
  "settle_ledger now rq ledger_key lease_token code reference ledger =
     (case ledger_key of None \<Rightarrow> ledger
      | Some k \<Rightarrow> snd (complete_idempotency now rq k code reference lease_token ledger))"

definition fallback_metadata :: "nat \<Rightarrow> string \<Rightarrow> string" where
  "fallback_metadata position title = ''{'' @ json_raw_string ''order'' @ '': '' @ str_nat position @ '', ''
     @ json_raw_string ''title'' @ '': '' @ json_raw_string title @ ''}''"

definition fallback_chunks :: "'v ingest_world \<Rightarrow> identity \<Rightarrow> document \<Rightarrow> ingest_request \<Rightarrow> identity \<Rightarrow> 'v document_chunk list" where
  "fallback_chunks w org d p i = map (\<lambda>(position, chunk_text).
       \<lparr>dch_id = i + int position, dch_organization_id = org, dch_document_id = doc_id d, dch_content = chunk_text,
        dch_embedding = (case generate_embedding (ig_api_key w) (ig_post w) chunk_text of Inl _ \<Rightarrow> None | Inr v \<Rightarrow> Some v),
        dch_metadata = Some (fallback_metadata position (ig_title p))\<rparr>)
     (enumerate 0 (intelligent_chunking 500 50 (ig_content p)))"

definition sync_ingest ::
    "'v ingest_world \<Rightarrow> identity \<Rightarrow> document \<Rightarrow> ingest_request \<Rightarrow> 'v document_db \<Rightarrow> ingest_body \<times> 'v document_db" where
  "sync_ingest w org d p db =
     (let chunks = fallback_chunks w org d p (dd_next db); st = (if chunks \<noteq> [] then ''ready'' else ''failed'')
      in (SyncBody st (doc_id d) (length chunks) (ig_title p),
          set_status (doc_id d) st
            (db\<lparr>dd_chunks := dd_chunks db @ chunks, dd_next := dd_next db + int (length chunks)\<rparr>)))"

text \<open>After the reservation of the key: the document row, the queue, the reply.\<close>

definition accept_document ::
    "'v ingest_world \<Rightarrow> idem_request \<Rightarrow> identity \<Rightarrow> identity \<Rightarrow> ingest_request \<Rightarrow> string option \<Rightarrow> string option
     \<Rightarrow> 'v ingest_state \<Rightarrow> (api_error + ingest_body) \<times> 'v ingest_state" where
  "accept_document w rq org uid p ledger_key lease_token st =
     (case insert_document org uid p (is_documents st) of (d, docs) \<Rightarrow>
       (let failed = set_status (doc_id d) ''failed'' docs;
            replied = (\<lambda>(body, docs'). (Inr body, st\<lparr>is_documents := docs',
               is_ledger := settle_ledger (ig_now w) rq ledger_key lease_token 202 (ig_dumps w body) (is_ledger st)\<rparr>))
        in (case enqueue_document_ingestion (ig_queue w) of
             Inl _ \<Rightarrow> (Inl (HTTPException 503 ''Document ingestion could not be queued.''),
                st\<lparr>is_documents := failed, is_ledger := settle_ledger (ig_now w) rq ledger_key lease_token 503
                       (ig_failure_text w (doc_id d) (ig_title p)) (is_ledger st)\<rparr>)
           | Inr (Some job_id) \<Rightarrow> replied (QueuedBody (doc_id d) job_id (ig_title p), docs)
           | Inr None \<Rightarrow>
               if ig_sync_fallback w then replied (sync_ingest w org d p docs)
               else (Inl (HTTPException 503 ''Document was accepted but the background worker queue is unreachable.''),
                     st\<lparr>is_documents := failed\<rparr>))))"

definition ingest_document ::
    "(string \<Rightarrow> string) \<Rightarrow> 'v ingest_world \<Rightarrow> idem_request \<Rightarrow> identity \<Rightarrow> identity \<Rightarrow> ingest_request
     \<Rightarrow> 'v ingest_state \<Rightarrow> (api_error + ingest_body) \<times> 'v ingest_state" where
  "ingest_document sha w rq org uid p st =
     (case ingest_ledger_key rq of
        None \<Rightarrow> accept_document w rq org uid p None None st
      | Some k \<Rightarrow>
          (case begin_idempotency sha (ig_ledger w) 0 rq k (is_ledger st) of
             (Inl e, ledger) \<Rightarrow> (Inl e, st\<lparr>is_ledger := ledger\<rparr>)
           | (Inr outcome, ledger) \<Rightarrow>
               if io_status outcome = Completed
               then (case read_cached_response rq k ledger of
                       Inl e \<Rightarrow> (Inl e, st\<lparr>is_ledger := ledger\<rparr>)
                     | Inr (Some c) \<Rightarrow>
                         (Inr (if c \<noteq> [] \<and> ig_loads w c then StoredReply c else DuplicateBody (ig_title p)),
                          st\<lparr>is_ledger := ledger\<rparr>)
                     | Inr None \<Rightarrow> (Inr (DuplicateBody (ig_title p)), st\<lparr>is_ledger := ledger\<rparr>))
               else accept_document w rq org uid p (Some k) (io_lease_token outcome) (st\<lparr>is_ledger := ledger\<rparr>)))"

definition get_document_status :: "identity \<Rightarrow> identity \<Rightarrow> 'v document_db \<Rightarrow> api_error + identity \<times> string \<times> string \<times> identity" where
  "get_document_status i org db = (case find_document i org (dd_documents db) of
     None \<Rightarrow> Inl (HTTPException 404 ''Document not found'')
   | Some d \<Rightarrow> Inr (doc_id d, doc_title d, doc_status d, doc_organization_id d))"

definition search_documents ::
    "'v search_engine \<Rightarrow> string option \<Rightarrow> (string \<Rightarrow> 'v embedding_reply) \<Rightarrow> identity \<Rightarrow> identity \<Rightarrow> string \<Rightarrow> nat
     \<Rightarrow> 'v document_db \<Rightarrow> api_error + search_result list" where
  "search_documents se key post org uid query limit db =
     (case generate_embedding key post query of
        Inl (EiraOSException code) \<Rightarrow> Inl (HTTPException code ''embedding'')
      | Inl UncaughtEmbedding \<Rightarrow> Inl (ServerError ''IndexError'')
      | Inr v \<Rightarrow> (case hybrid_search se db org v query limit ''organization'' (Some uid) of
          Inl _ \<Rightarrow> Inl (ServerError ''PermissionError'') | Inr rs \<Rightarrow> Inr rs))"

section \<open>The worker, one job at a time\<close>

lemma find_document_distinct:
  "distinct (map doc_id docs) \<Longrightarrow>
     find_document i org docs = Some d \<longleftrightarrow> d \<in> set docs \<and> doc_id d = i \<and> doc_organization_id d = org"
  unfolding find_document_def by (induction docs) (auto simp: image_iff)

lemma find_document_SomeD:
  "find_document i org docs = Some d \<Longrightarrow> d \<in> set docs \<and> doc_id d = i \<and> doc_organization_id d = org"
  unfolding find_document_def by (drule find_SomeD) simp

lemma find_document_set_status:
  "find_document i org (dd_documents (set_status i st db)) = map_option (\<lambda>d. d\<lparr>doc_status := st\<rparr>) (find_document i org (dd_documents db))"
proof -
  have "find_document i org (set_by doc_id i (\<lambda>d. d\<lparr>doc_status := st\<rparr>) docs)
      = map_option (\<lambda>d. d\<lparr>doc_status := st\<rparr>) (find_document i org docs)" for docs
    by (induction docs) (auto simp: find_document_def set_by_def update_where_def)
  then show ?thesis by (simp add: set_status_def)
qed

lemma set_status_frame [simp]:
  "dd_chunks (set_status i st db) = dd_chunks db" "dd_next (set_status i st db) = dd_next db"
  "map doc_id (dd_documents (set_status i st db)) = map doc_id (dd_documents db)"
  by (simp_all add: set_status_def set_by_def map_update_where)

lemma stored_chunks_Nil: "stored_chunks j title emb i = [] \<longleftrightarrow> job_chunks j = []"
  by (simp add: stored_chunks_def enumerate_eq_zip)

text \<open>Undisturbed, a job stores the chunks of its text once, however often the queue delivers it: the
  document becomes ready, or failed when the text holds nothing, and the next delivery of a ready
  document changes nothing.\<close>

theorem ingestion_stores_once:
  assumes "find_document (jb_document_id j) (jb_organization_id j) (dd_documents db) = Some d"
    and "doc_status d \<noteq> ''ready''"
    and "process_document_ingestion j emb db = db'"
  shows "find_document (jb_document_id j) (jb_organization_id j) (dd_documents db')
      = Some (d\<lparr>doc_status := if job_chunks j \<noteq> [] then ''ready'' else ''failed''\<rparr>)
    \<and> dd_chunks db' = dd_chunks db @ stored_chunks j (doc_title d) emb (dd_next db)
    \<and> (job_chunks j \<noteq> [] \<longrightarrow> process_document_ingestion j emb db' = db')"
proof -
  have i: "doc_id d = jb_document_id j" using find_document_SomeD [OF assms(1)] by simp
  have db': "db' = finish_job True True j d emb (set_status (jb_document_id j) ''processing'' db)"
    using assms i by (simp add: process_document_ingestion_def begin_job_def)
  have found: "find_document (jb_document_id j) (jb_organization_id j) (dd_documents db')
      = Some (d\<lparr>doc_status := if job_chunks j \<noteq> [] then ''ready'' else ''failed''\<rparr>)"
    using assms(1) i unfolding db'
    by (simp add: finish_job_def Let_def find_document_set_status stored_chunks_Nil)
  then have "process_document_ingestion j emb db' = db'" if "job_chunks j \<noteq> []"
    using that by (simp add: process_document_ingestion_def begin_job_def)
  moreover have "dd_chunks db' = dd_chunks db @ stored_chunks j (doc_title d) emb (dd_next db)"
    unfolding db' by (simp add: finish_job_def Let_def)
  ultimately show ?thesis using found by blast
qed

definition secret_job :: job where
  "secret_job = \<lparr>jb_document_id = 1, jb_organization_id = 7, jb_content = ''secret'', jb_knowledge_scope = ''private''\<rparr>"

definition secret_document :: document where
  "secret_document = \<lparr>doc_id = 1, doc_organization_id = 7, doc_title = ''t'', doc_source = None, doc_mime_type = None,
     doc_status = ''queued'', doc_owner = Some 5\<rparr>"

theorem ingestion_stores_once_witness:
  "\<exists>db'. process_document_ingestion secret_job (\<lambda>_. None :: rat option)
       \<lparr>dd_documents = [secret_document], dd_chunks = [], dd_next = 2\<rparr> = db'
     \<and> length (dd_chunks db') = 1 \<and> process_document_ingestion secret_job (\<lambda>_. None) db' = db'"
proof -
  let ?db = "\<lparr>dd_documents = [secret_document], dd_chunks = [], dd_next = 2\<rparr> :: rat document_db"
  have one: "job_chunks secret_job = [''secret'']" by code_simp
  have "find_document (jb_document_id secret_job) (jb_organization_id secret_job) (dd_documents ?db) = Some secret_document"
    by (simp add: find_document_def secret_job_def secret_document_def)
  moreover have "doc_status secret_document \<noteq> ''ready''" by (simp add: secret_document_def)
  ultimately show ?thesis
    using ingestion_stores_once [of secret_job ?db secret_document "\<lambda>_. None" "process_document_ingestion secret_job (\<lambda>_. None) ?db"]
      one by (simp add: stored_chunks_def enumerate_eq_zip)
qed

text \<open>Nothing but the claim's own transaction protects a job: two deliveries that both claim before either
  finishes store every chunk twice.\<close>

theorem overlapping_jobs_store_twice:
  assumes "begin_job True j db = (Claimed d1, db1)" and "begin_job True j db1 = (Claimed d2, db2)"
  shows "dd_chunks (finish_job True True j d2 emb (finish_job True True j d1 emb db2))
    = dd_chunks db @ stored_chunks j (doc_title d1) emb (dd_next db)
        @ stored_chunks j (doc_title d2) emb (dd_next db + int (length (job_chunks j)))"
proof -
  have "dd_chunks db2 = dd_chunks db" "dd_next db2 = dd_next db"
    using assms by (auto simp: begin_job_def split: option.splits if_splits)
  then show ?thesis by (simp add: finish_job_def Let_def stored_chunks_def)
qed

section \<open>Who finds an ingested chunk\<close>

lemma stored_chunkD:
  assumes "c \<in> set (stored_chunks j title emb i)"
  obtains position where "dch_organization_id c = jb_organization_id j" "dch_document_id c = jb_document_id j"
    "dch_metadata c = Some (chunk_metadata position title (jb_knowledge_scope j))"
  using assms by (auto simp: stored_chunks_def new_chunk_def)

text \<open>The scope a document was uploaded with does not restrict who finds it.  The worker stores it as
  the metadata field \<^verbatim>\<open>knowledge_scope\<close>, the private and public queries read the field
  \<^verbatim>\<open>visibility\<close>, and the organization query, which the search endpoint and the default use, reads
  none: every member's organization or public search considers the chunk whatever its scope, a private
  search never does, not even its owner's, and another scope has to be stored in lower case to be found.\<close>

theorem uploaded_scope_is_not_enforced:
  assumes "c \<in> set (stored_chunks j title emb i)" and "c \<in> set (dd_chunks db)"
    and "\<And>position. se_jsonb se (chunk_metadata position title (jb_knowledge_scope j)) ''visibility'' = None"
    and "\<And>position. se_jsonb se (chunk_metadata position title (jb_knowledge_scope j)) ''knowledge_scope''
           = Some (jb_knowledge_scope j)"
  shows "c \<in> set (search_candidates se db (search_scope ks) (jb_organization_id j) caller) \<longleftrightarrow>
    search_scope ks \<in> {''organization'', ''public''}
    \<or> search_scope ks \<noteq> ''private'' \<and> search_scope ks = jb_knowledge_scope j"
proof -
  obtain position where "dch_organization_id c = jb_organization_id j"
    "dch_metadata c = Some (chunk_metadata position title (jb_knowledge_scope j))"
    using stored_chunkD [OF assms(1)] by blast
  then show ?thesis using assms(2-4) by (auto simp: search_candidates_def scope_clause_def Let_def)
qed

definition scope_engine :: "rat search_engine" where
  "scope_engine = sample_engine\<lparr>se_jsonb := (\<lambda>m key. if key = ''knowledge_scope'' then Some ''private'' else None)\<rparr>"

lemma secret_job_chunks: "stored_chunks secret_job ''t'' (\<lambda>_. None) 1 = [new_chunk secret_job ''t'' (\<lambda>_. None) 1 0 ''secret'']"
proof -
  have "job_chunks secret_job = [''secret'']" by code_simp
  then show ?thesis by (simp add: stored_chunks_def enumerate_eq_zip)
qed

theorem uploaded_scope_is_not_enforced_witness:
  "new_chunk secret_job ''t'' (\<lambda>_. None) 1 0 ''secret'' \<in> set (search_candidates scope_engine
     \<lparr>dd_documents = [], dd_chunks = [new_chunk secret_job ''t'' (\<lambda>_. None) 1 0 ''secret''], dd_next = 2\<rparr>
     (search_scope ''organization'') 7 (Some 99))"
proof -
  let ?c = "new_chunk secret_job ''t'' (\<lambda>_. None :: rat option) 1 0 ''secret''"
  have "search_scope ''organization'' = ''organization''" by code_simp
  then show ?thesis
    using uploaded_scope_is_not_enforced [of ?c secret_job "''t''" "\<lambda>_. None" 1 "\<lparr>dd_documents = [], dd_chunks = [?c], dd_next = 2\<rparr>"
        scope_engine "''organization''" "Some 99"]
    by (simp add: secret_job_chunks) (simp add: scope_engine_def secret_job_def)
qed

section \<open>Every interleaving\<close>

text \<open>The states reached by any interleaving of the endpoints' inserts and failures, the two halves of jobs
  (the claimed ones are pending) and synchronous ingestion.\<close>

definition empty_document_db :: "'v document_db" where
  "empty_document_db = \<lparr>dd_documents = [], dd_chunks = [], dd_next = 1\<rparr>"

inductive ingestion_run :: "'v document_db \<Rightarrow> (job \<times> document) list \<Rightarrow> bool" where
  start: "ingestion_run empty_document_db []"
| insert: "ingestion_run db cs \<Longrightarrow> ingestion_run (snd (insert_document org uid p db)) cs"
| refuse: "ingestion_run db cs \<Longrightarrow> insert_document org uid p db = (d, db') \<Longrightarrow> ingestion_run (set_status (doc_id d) ''failed'' db') cs"
| inline: "ingestion_run db cs \<Longrightarrow> insert_document org uid p db = (d, db') \<Longrightarrow> ingestion_run (snd (sync_ingest w org d p db')) cs"
| claim: "ingestion_run db cs \<Longrightarrow> begin_job commits j db = (Claimed d, db') \<Longrightarrow> ingestion_run db' ((j, d) # cs)"
| finish: "ingestion_run db cs \<Longrightarrow> (j, d) \<in> set cs \<Longrightarrow> ingestion_run (finish_job commits commits_failure j d emb db) (remove1 (j, d) cs)"

definition document_statuses :: "string set" where
  "document_statuses = {''queued'', ''processing'', ''ready'', ''failed''}"

definition has_document :: "'v document_db \<Rightarrow> identity \<Rightarrow> identity \<Rightarrow> bool" where
  "has_document db i org \<longleftrightarrow> (\<exists>d \<in> set (dd_documents db). doc_id d = i \<and> doc_organization_id d = org)"

definition documents_wf :: "'v document_db \<Rightarrow> bool" where
  "documents_wf db \<longleftrightarrow> distinct (map doc_id (dd_documents db)) \<and> distinct (map dch_id (dd_chunks db))
     \<and> (\<forall>d \<in> set (dd_documents db). doc_id d < dd_next db \<and> doc_status d \<in> document_statuses
          \<and> (doc_status d = ''ready'' \<longrightarrow> (\<exists>c \<in> set (dd_chunks db). dch_document_id c = doc_id d)))
     \<and> (\<forall>c \<in> set (dd_chunks db). dch_id c < dd_next db \<and> has_document db (dch_document_id c) (dch_organization_id c)
          \<and> dch_content c \<noteq> [] \<and> length (dch_content c) \<le> 500)"

lemma set_status_documents:
  "d \<in> set (dd_documents (set_status i st db)) \<longleftrightarrow>
     (\<exists>d0 \<in> set (dd_documents db). d = (if doc_id d0 = i then d0\<lparr>doc_status := st\<rparr> else d0))"
proof -
  have "dd_documents (set_status i st db) = map (\<lambda>d. if doc_id d = i then d\<lparr>doc_status := st\<rparr> else d) (dd_documents db)"
    by (simp add: set_status_def set_by_def update_where_def)
  then show ?thesis by (simp only: list.set_map image_iff)
qed

lemma has_document_set_status [simp]: "has_document (set_status i st db) = has_document db"
proof -
  have "has_document db = (\<lambda>i org. (i, org) \<in> set (map (\<lambda>d. (doc_id d, doc_organization_id d)) (dd_documents db)))"
    for db :: "'a document_db" by (auto simp: has_document_def fun_eq_iff)
  moreover have "map (\<lambda>d. (doc_id d, doc_organization_id d)) (dd_documents (set_status i st db))
      = map (\<lambda>d. (doc_id d, doc_organization_id d)) (dd_documents db)"
    by (simp add: set_status_def set_by_def map_update_where)
  ultimately show ?thesis by presburger
qed

text \<open>A change of status keeps the tables consistent unless it declares a document without chunks ready.\<close>

lemma documents_wf_set_status:
  assumes "documents_wf db" and "st \<in> document_statuses"
    and "st = ''ready'' \<Longrightarrow> \<exists>c \<in> set (dd_chunks db). dch_document_id c = i"
  shows "documents_wf (set_status i st db)"
  using assms unfolding documents_wf_def by (auto simp: set_status_documents)

lemma documents_wf_insert:
  assumes "documents_wf db" and "insert_document org uid p db = (d, db')"
  shows "documents_wf db' \<and> d \<in> set (dd_documents db') \<and> doc_organization_id d = org \<and> doc_status d = ''queued''"
  using assms unfolding documents_wf_def
  by (force simp: insert_document_def Let_def document_statuses_def has_document_def)

text \<open>Appending chunks of an existing document, numbered from the sequence.\<close>

lemma documents_wf_append:
  assumes "documents_wf db" and "has_document db i org"
    and "map dch_id cs = map (\<lambda>k. dd_next db + int k) [0..<length cs]"
    and "\<forall>c \<in> set cs. dch_document_id c = i \<and> dch_organization_id c = org \<and> dch_content c \<noteq> [] \<and> length (dch_content c) \<le> 500"
  shows "documents_wf (db\<lparr>dd_chunks := dd_chunks db @ cs, dd_next := dd_next db + int (length cs)\<rparr>)"
proof -
  have fresh: "\<exists>k < length cs. dch_id c = dd_next db + int k" if "c \<in> set cs" for c
  proof -
    have "dch_id c \<in> set (map dch_id cs)" using that by simp
    then show ?thesis unfolding assms(3) by auto
  qed
  have "distinct (map dch_id cs)" unfolding assms(3) by (simp add: distinct_map inj_on_def)
  moreover have "has_document (db\<lparr>dd_chunks := x, dd_next := y\<rparr>) = has_document db" for x y
    by (simp add: has_document_def fun_eq_iff)
  ultimately show ?thesis using assms(1,2,4) fresh unfolding documents_wf_def by fastforce
qed

lemma windows_ids: "map dch_id (stored_chunks j title emb i) = map (\<lambda>k. i + int k) [0..<length (stored_chunks j title emb i)]"
  "map dch_id (fallback_chunks w org d p i) = map (\<lambda>k. i + int k) [0..<length (fallback_chunks w org d p i)]"
  by (auto simp: stored_chunks_def new_chunk_def fallback_chunks_def enumerate_eq_zip intro!: nth_equalityI)

lemma chunk_shape:
  "c \<in> set (stored_chunks j title emb i) \<Longrightarrow> dch_document_id c = jb_document_id j \<and> dch_organization_id c = jb_organization_id j
     \<and> dch_content c \<noteq> [] \<and> length (dch_content c) \<le> 500"
  "c \<in> set (fallback_chunks w org d p i) \<Longrightarrow> dch_document_id c = doc_id d \<and> dch_organization_id c = org
     \<and> dch_content c \<noteq> [] \<and> length (dch_content c) \<le> 500"
  using chunk_loop_bounded [of 500 _ 50]
  by (auto simp: stored_chunks_def new_chunk_def job_chunks_def fallback_chunks_def intelligent_chunking_def
      enumerate_eq_zip dest!: set_zip_rightD)

text \<open>Appending a document's chunks and then giving it the status that goes with them.\<close>

lemma documents_wf_store:
  assumes "documents_wf db" and "has_document db i org"
    and "map dch_id cs = map (\<lambda>k. dd_next db + int k) [0..<length cs]"
    and "\<forall>c \<in> set cs. dch_document_id c = i \<and> dch_organization_id c = org \<and> dch_content c \<noteq> [] \<and> length (dch_content c) \<le> 500"
  shows "documents_wf (set_status i (if cs \<noteq> [] then ''ready'' else ''failed'')
           (db\<lparr>dd_chunks := dd_chunks db @ cs, dd_next := dd_next db + int (length cs)\<rparr>))"
proof (rule documents_wf_set_status)
  show "documents_wf (db\<lparr>dd_chunks := dd_chunks db @ cs, dd_next := dd_next db + int (length cs)\<rparr>)"
    by (rule documents_wf_append [OF assms])
qed (use assms(4) in \<open>auto simp: document_statuses_def neq_Nil_conv split: if_splits\<close>)

definition claims_wf :: "'v document_db \<Rightarrow> (job \<times> document) list \<Rightarrow> bool" where
  "claims_wf db cs \<longleftrightarrow> (\<forall>(j, d) \<in> set cs. doc_id d = jb_document_id j \<and> has_document db (jb_document_id j) (jb_organization_id j))"

lemma claims_wf_grow:
  "claims_wf db cs \<Longrightarrow> (\<And>i org. has_document db i org \<Longrightarrow> has_document db' i org) \<Longrightarrow> set cs' \<subseteq> set cs \<Longrightarrow> claims_wf db' cs'"
  by (fastforce simp: claims_wf_def)

lemma has_document_frame [simp]: "has_document (db\<lparr>dd_chunks := x, dd_next := y\<rparr>) = has_document db"
  by (simp add: has_document_def fun_eq_iff)

lemma has_document_insert: "insert_document org uid p db = (d, db') \<Longrightarrow> has_document db i org' \<Longrightarrow> has_document db' i org'"
  by (auto simp: insert_document_def Let_def has_document_def)

lemma has_document_finish: "has_document (finish_job c cf j d emb db) = has_document db"
  by (simp add: finish_job_def Let_def)

lemma ingestion_run_wf: "ingestion_run db cs \<Longrightarrow> documents_wf db \<and> claims_wf db cs"
proof (induction rule: ingestion_run.induct)
  case start
  show ?case by (simp add: empty_document_db_def documents_wf_def claims_wf_def)
next
  case (insert db cs org uid p)
  obtain d db' where d: "insert_document org uid p db = (d, db')" by fastforce
  then show ?case using insert documents_wf_insert [OF _ d] has_document_insert [OF d]
    by (auto intro: claims_wf_grow)
next
  case (refuse db cs org uid p d db')
  then show ?case using documents_wf_insert [OF _ refuse(2)] has_document_insert [OF refuse(2)]
    by (auto intro!: documents_wf_set_status intro: claims_wf_grow simp: document_statuses_def)
next
  case (inline db cs org uid p d db' w)
  have i: "documents_wf db'" "d \<in> set (dd_documents db')" "doc_organization_id d = org"
    using documents_wf_insert [OF _ inline(2)] inline.IH by auto
  then have h: "has_document db' (doc_id d) org" by (auto simp: has_document_def)
  have "documents_wf (snd (sync_ingest w org d p db'))"
    unfolding sync_ingest_def Let_def snd_conv
    by (rule documents_wf_store [OF i(1) h windows_ids(2)]) (use chunk_shape(2) in blast)
  moreover have "has_document (snd (sync_ingest w org d p db')) = has_document db'" by (simp add: sync_ingest_def Let_def)
  ultimately show ?case using inline.IH has_document_insert [OF inline(2)] by (auto intro: claims_wf_grow)
next
  case (claim db cs commits j d db')
  then have "find_document (jb_document_id j) (jb_organization_id j) (dd_documents db) = Some d"
    and db': "db' = set_status (doc_id d) ''processing'' db"
    by (auto simp: begin_job_def split: option.splits if_splits)
  then have "d \<in> set (dd_documents db)" "doc_id d = jb_document_id j" "doc_organization_id d = jb_organization_id j"
    using find_document_SomeD by blast+
  then show ?case using claim.IH unfolding db'
    by (auto intro!: documents_wf_set_status simp: document_statuses_def claims_wf_def has_document_def)
next
  case (finish db cs j d commits commits_failure emb)
  then have c: "doc_id d = jb_document_id j" "has_document db (jb_document_id j) (jb_organization_id j)"
    by (auto simp: claims_wf_def)
  have stored: "documents_wf (finish_job True commits_failure j d emb db)"
    unfolding finish_job_def Let_def if_True c(1)
    by (rule documents_wf_store [OF _ c(2) windows_ids(1)]) (use finish.IH chunk_shape(1) in blast)+
  have failed: "documents_wf (set_status (doc_id d) ''failed'' db)"
    using documents_wf_set_status [of db "''failed''" "doc_id d"] finish.IH by (simp add: document_statuses_def)
  have "documents_wf (finish_job commits commits_failure j d emb db)"
  proof (cases commits)
    case True
    then show ?thesis using stored by simp
  next
    case False
    then show ?thesis using failed finish.IH unfolding finish_job_def by (cases commits_failure) simp_all
  qed
  moreover have "claims_wf (finish_job commits commits_failure j d emb db) (remove1 (j, d) cs)"
    by (rule claims_wf_grow [OF conjunct2 [OF finish.IH] _ set_remove1_subset]) (simp only: has_document_finish)
  ultimately show ?case by blast
qed



section \<open>Retries of the ingest endpoint\<close>

lemma begin_alone_fresh:
  "resolve_context rq = Inr (org, uid) \<Longrightarrow> get_by idem_key (org, uid, key) (idem_rows db) = None \<Longrightarrow>
   begin_idempotency sha (alone now token) 0 rq key db = (Inr (owned token (next_row db) False),
     db\<lparr>idem_rows := idem_rows db @ [new_idem_row (next_row db) org uid key (body_digest sha rq) now token],
        next_row := next_row db + 1\<rparr>)"
  by (simp add: begin_idempotency.simps alone_def Let_def)

text \<open>The ledger after the reservation of a fresh key, and the row a settlement leaves.\<close>

lemma ingest_fresh:
  assumes "ingest_ledger_key rq = Some k" and "resolve_context rq = Inr (org, uid)"
    and "get_by idem_key (org, uid, k) (idem_rows (is_ledger st)) = None" and "ig_ledger w = alone now token"
    and "ledger = (is_ledger st)\<lparr>idem_rows := idem_rows (is_ledger st)
             @ [new_idem_row (next_row (is_ledger st)) org uid k (body_digest sha rq) now token],
           next_row := next_row (is_ledger st) + 1\<rparr>"
  shows "ingest_document sha w rq org uid p st = accept_document w rq org uid p (Some k) (Some token) (st\<lparr>is_ledger := ledger\<rparr>)"
    and "get_by idem_key (org, uid, k) (idem_rows ledger)
      = Some (new_idem_row (next_row (is_ledger st)) org uid k (body_digest sha rq) now token)"
proof -
  have "begin_idempotency sha (ig_ledger w) 0 rq k (is_ledger st) = (Inr (owned token (next_row (is_ledger st)) False), ledger)"
    using begin_alone_fresh [OF assms(2,3)] assms(4,5) by simp
  then show "ingest_document sha w rq org uid p st = accept_document w rq org uid p (Some k) (Some token) (st\<lparr>is_ledger := ledger\<rparr>)"
    using assms(1) by (simp add: ingest_document_def owned_def)
  show "get_by idem_key (org, uid, k) (idem_rows ledger)
      = Some (new_idem_row (next_row (is_ledger st)) org uid k (body_digest sha rq) now token)"
    using assms(3,5) by (simp add: get_by_append_fresh)
qed

lemma read_cached_completed:
  assumes "resolve_context rq = Inr (org, uid)" and "get_by idem_key (org, uid, k) (idem_rows db) = Some r"
    and "ir_status r = Completed"
  shows "read_cached_response rq k db = Inr (ir_response_reference r)"
proof -
  have "find P rows = Some x \<Longrightarrow> Q x \<Longrightarrow> find (\<lambda>y. P y \<and> Q y) rows = Some x" for P Q and rows :: "'r list" and x
    by (induction rows) (auto split: if_splits)
  from this [OF assms(2) [unfolded get_by_def], of "\<lambda>r. ir_status r = Completed"] assms(1,3)
  show ?thesis by (simp add: read_cached_response_def)
qed

text \<open>A retry of an accepted upload under the same key replays the stored reply and stores nothing.\<close>

theorem ingest_retry_replays:
  assumes "ingest_ledger_key rq = Some k" and "resolve_context rq = Inr (org, uid)"
    and "get_by idem_key (org, uid, k) (idem_rows (is_ledger st)) = None" and "ig_ledger w = alone now token"
    and "ig_queue w = JobEnqueued job_id" and "now \<le> ig_now w" and "ig_now w \<le> now + seconds LEASE_SECONDS"
    and "ig_ledger w' = alone now' token'" and "now' \<le> now + seconds DEFAULT_TTL_SECONDS"
    and "ig_dumps w (QueuedBody (dd_next (is_documents st)) job_id (ig_title p)) = reply" and "reply \<noteq> []" and "ig_loads w' reply"
  shows "\<exists>st'. ingest_document sha w rq org uid p st = (Inr (QueuedBody (dd_next (is_documents st)) job_id (ig_title p)), st')
    \<and> ingest_document sha w' rq org uid p st' = (Inr (StoredReply reply), st')"
proof -
  let ?row = "new_idem_row (next_row (is_ledger st)) org uid k (body_digest sha rq) now token"
  let ?ledger = "(is_ledger st)\<lparr>idem_rows := idem_rows (is_ledger st) @ [?row], next_row := next_row (is_ledger st) + 1\<rparr>"
  note fresh = ingest_fresh [OF assms(1-4) refl]
  have settled: "complete_idempotency (ig_now w) rq k 202 reply (Some token) ?ledger
      = (Inr True, update_idem (org, uid, k) (settle_idem 202 reply) ?ledger)"
    using assms(2,7) fresh(2) by (simp add: complete_idempotency_def expired_before_def)
  define ledger where "ledger = update_idem (org, uid, k) (settle_idem 202 reply) ?ledger"
  define st' where "st' = st\<lparr>is_documents := snd (insert_document org uid p (is_documents st)), is_ledger := ledger\<rparr>"
  have first: "ingest_document sha w rq org uid p st = (Inr (QueuedBody (dd_next (is_documents st)) job_id (ig_title p)), st')"
    unfolding fresh(1) using assms(5,10) settled
    by (simp add: accept_document_def insert_document_def Let_def enqueue_document_ingestion_def settle_ledger_def st'_def ledger_def)
  have row: "get_by idem_key (org, uid, k) (idem_rows ledger) = Some (settle_idem 202 reply ?row)"
    unfolding ledger_def using fresh(2) by (simp add: get_by_set_idem)
  have ttl: "\<not> expired_before (ir_expires_at (settle_idem 202 reply ?row)) now'"
    using assms(9) by (simp add: settle_idem_def new_idem_row_def expired_before_def)
  have "begin_idempotency sha (alone now' token') 0 rq k ledger
      = (Inr \<lparr>io_status = Completed, io_lease_token = None, io_record_id = Some (next_row (is_ledger st)), io_is_recovery = False\<rparr>, ledger)"
    using begin_alone_completed [OF assms(2) row _ ttl _ assms(11)] by (simp add: settle_idem_def new_idem_row_def)
  moreover have "read_cached_response rq k ledger = Inr (Some reply)"
    using read_cached_completed [OF assms(2) row] by (simp add: settle_idem_def)
  ultimately have "ingest_document sha w' rq org uid p st' = (Inr (StoredReply reply), st')"
    using assms(1,8,11,12) by (simp add: ingest_document_def st'_def)
  with first show ?thesis by blast
qed

definition sample_ingest_request :: idem_request where
  "sample_ingest_request = \<lparr>rq_cached_body = Some ''b'', rq_organization_id = Some 7, rq_user_id = Some 5,
     rq_idempotency_header = Some ''k''\<rparr>"

definition sample_upload :: ingest_request where
  "sample_upload = \<lparr>ig_title = ''t'', ig_content = ''c'', ig_source = None, ig_mime_type = None\<rparr>"

definition sample_ingest_world :: "microseconds \<Rightarrow> string \<Rightarrow> enqueue_reply \<Rightarrow> rat ingest_world" where
  "sample_ingest_world now token q = \<lparr>ig_ledger = alone now token, ig_now = now + 1, ig_queue = q, ig_sync_fallback = False,
     ig_api_key = None, ig_post = (\<lambda>_. HttpError), ig_loads = (\<lambda>_. True), ig_dumps = (\<lambda>_. ''reply''),
     ig_failure_text = (\<lambda>_ _. ''failed'')\<rparr>"

definition sample_ingest_state :: "rat ingest_state" where
  "sample_ingest_state = \<lparr>is_ledger = empty_chat_db, is_documents = empty_document_db\<rparr>"

lemma sample_ingest_facts:
  "ingest_ledger_key sample_ingest_request = Some ''doc:ingest:k''"
  "resolve_context sample_ingest_request = Inr (7, 5)"
  "get_by idem_key x (idem_rows (is_ledger sample_ingest_state)) = None"
  "ig_ledger (sample_ingest_world now token q) = alone now token"
  "ig_queue (sample_ingest_world now token q) = q" "ig_now (sample_ingest_world now token q) = now + 1"
  "ig_dumps (sample_ingest_world now token q) body = ''reply''" "ig_loads (sample_ingest_world now token q) r"
  "ig_sync_fallback (sample_ingest_world now token q) = False"
proof -
  have "py_strip ''k'' = ''k''" by code_simp
  then show "ingest_ledger_key sample_ingest_request = Some ''doc:ingest:k''"
    by (simp add: ingest_ledger_key_def sample_ingest_request_def py_or_none_def py_or_empty_def)
qed (simp_all add: sample_ingest_request_def resolve_context_def sample_ingest_state_def empty_chat_db_def get_by_def sample_ingest_world_def)

theorem ingest_retry_replays_witness:
  "\<exists>st'. ingest_document id (sample_ingest_world 100 ''t2'' (JobEnqueued ''j2'')) sample_ingest_request 7 5 sample_upload st'
     = (Inr (StoredReply ''reply''), st')"
  using ingest_retry_replays [OF sample_ingest_facts(1-4), of 0 "''t1''" "JobEnqueued ''j1''" "''j1''"
      "sample_ingest_world 100 ''t2'' (JobEnqueued ''j2'')" 100 "''t2''" sample_upload "''reply''" id]
  by (auto simp: sample_ingest_facts seconds_def LEASE_SECONDS_def DEFAULT_TTL_SECONDS_def)

text \<open>An unreachable queue blocks the retry.  When the pool cannot be reached and there is no synchronous
  fallback, the document is marked failed and the client gets a 503, but the reservation of the key is
  neither completed nor released: until the lease has run out, retrying is refused as still in progress
  and stores nothing.  (When the queue raises instead, the key is settled as failed.)\<close>

theorem queue_outage_blocks_retries:
  assumes "ingest_ledger_key rq = Some k" and "resolve_context rq = Inr (org, uid)"
    and "get_by idem_key (org, uid, k) (idem_rows (is_ledger st)) = None" and "ig_ledger w = alone now token"
    and "ig_queue w = PoolUnavailable" and "\<not> ig_sync_fallback w"
    and "ig_ledger w' = alone now' token'" and "now' \<le> now + seconds LEASE_SECONDS"
  shows "\<exists>st' detail. ingest_document sha w rq org uid p st = (Inl (HTTPException 503 detail), st')
    \<and> map doc_status (dd_documents (is_documents st')) = map doc_status
        (dd_documents (set_status (dd_next (is_documents st)) ''failed'' (is_documents st))) @ [''failed'']
    \<and> ingest_document sha w' rq org uid p st' = (Inl in_progress, st')"
proof -
  let ?row = "new_idem_row (next_row (is_ledger st)) org uid k (body_digest sha rq) now token"
  let ?ledger = "(is_ledger st)\<lparr>idem_rows := idem_rows (is_ledger st) @ [?row], next_row := next_row (is_ledger st) + 1\<rparr>"
  note fresh = ingest_fresh [OF assms(1-4) refl]
  define st' where "st' = st\<lparr>is_ledger := ?ledger,
    is_documents := set_status (dd_next (is_documents st)) ''failed'' (snd (insert_document org uid p (is_documents st)))\<rparr>"
  have first: "ingest_document sha w rq org uid p st
      = (Inl (HTTPException 503 ''Document was accepted but the background worker queue is unreachable.''), st')"
    unfolding fresh(1) using assms(5,6)
    by (simp add: accept_document_def insert_document_def Let_def enqueue_document_ingestion_def st'_def)
  have st': "is_ledger st' = ?ledger"
    "is_documents st' = set_status (dd_next (is_documents st)) ''failed'' (snd (insert_document org uid p (is_documents st)))"
    by (simp_all add: st'_def)
  have "\<not> expired_before (ir_lease_until ?row) now'" using assms(8) by (simp add: expired_before_def)
  then have "begin_idempotency sha (alone now' token') 0 rq k ?ledger = (Inl in_progress, ?ledger)"
    using begin_alone_live [OF assms(2) fresh(2)] by simp
  then have "ingest_document sha w' rq org uid p st' = (Inl in_progress, st')"
    using assms(1,7) st'(1) by (simp add: ingest_document_def)
  moreover have "map doc_status (dd_documents (is_documents st')) = map doc_status
        (dd_documents (set_status (dd_next (is_documents st)) ''failed'' (is_documents st))) @ [''failed'']"
    by (simp add: st'(2) insert_document_def Let_def set_status_def set_by_def update_where_def)
  ultimately show ?thesis using first by blast
qed

theorem queue_outage_blocks_retries_witness:
  "\<exists>st'. ingest_document id (sample_ingest_world 100 ''t2'' (JobEnqueued ''j2'')) sample_ingest_request 7 5 sample_upload st'
     = (Inl in_progress, st') \<and> map doc_status (dd_documents (is_documents st')) = [''failed'']"
  using queue_outage_blocks_retries [OF sample_ingest_facts(1-4), of 0 "''t1''" PoolUnavailable
      "sample_ingest_world 100 ''t2'' (JobEnqueued ''j2'')" 100 "''t2''" id sample_upload]
  by (auto simp: sample_ingest_facts seconds_def LEASE_SECONDS_def sample_ingest_state_def empty_document_db_def
      set_status_def set_by_def update_where_def)

end
