(* ===== verification/Upload.thy ===== *)
theory Upload
  imports Ingestion
begin

text \<open>
  Multipart upload of a file (\<^verbatim>\<open>api/v1/document_upload.py\<close>) and the file helpers it uses
  (\<^verbatim>\<open>domains/documents/file_service.py\<close>).  A path is the list of its components; the file system decides
  what \<open>resolve\<close> does with symbolic links, which bytes the stream yields, and how the PDF process ends.
  The files that exist are a list of paths.
\<close>

section \<open>File helpers\<close>

definition MAX_UPLOAD_BYTES :: nat where "MAX_UPLOAD_BYTES = 10 * 1024 * 1024"

definition MAX_EXTRACTED_TEXT_CHARS :: nat where "MAX_EXTRACTED_TEXT_CHARS = 500000"

definition ALLOWED_EXTENSIONS :: "string set" where
  "ALLOWED_EXTENSIONS = {''.txt'', ''.md'', ''.markdown'', ''.pdf'', ''.csv'', ''.json''}"

text \<open>\<^verbatim>\<open>PurePosixPath\<close>: empty components and single dots vanish; the suffix of a name.\<close>

definition path_parts :: "string \<Rightarrow> string list" where
  "path_parts s = filter (\<lambda>p. p \<noteq> [] \<and> p \<noteq> ''.'') (py_split CHR ''/'' s)"

definition path_suffix :: "string \<Rightarrow> string" where
  "path_suffix s = (let name = (case rev (path_parts s) of [] \<Rightarrow> [] | p # _ \<Rightarrow> p);
       ext = rev (takeWhile (\<lambda>c. c \<noteq> CHR ''.'') (rev name))
     in if ext \<noteq> [] \<and> length ext + 1 < length name then CHR ''.'' # ext else [])"

definition safe_extension :: "string \<Rightarrow> string" where
  "safe_extension filename = py_lower (path_suffix filename)"

definition validate_upload :: "string \<Rightarrow> nat \<Rightarrow> string + string" where
  "validate_upload filename sz =
     (if safe_extension filename \<notin> ALLOWED_EXTENSIONS then Inl ''Unsupported document type''
      else if sz = 0 \<or> MAX_UPLOAD_BYTES < sz then Inl ''Document exceeds the permitted size''
      else Inr (safe_extension filename))"

datatype file_content = Utf8 string | NotUtf8

datatype pdf_outcome = PdfText string | PdfError string | PdfTimeout

definition extract_pdf :: "pdf_outcome \<Rightarrow> string + string" where
  "extract_pdf x = (case x of PdfText s \<Rightarrow> Inr s | PdfError e \<Rightarrow> Inl e
     | PdfTimeout \<Rightarrow> Inl ''PDF parsing exceeded the time limit'')"

text \<open>The child process: the pages' texts, \<open>None\<close> when pypdf raises or a resource limit strikes.\<close>

definition MAX_PDF_PAGES :: nat where "MAX_PDF_PAGES = 200"

definition pdf_worker :: "string list option \<Rightarrow> pdf_outcome" where
  "pdf_worker pages = (case pages of
     None \<Rightarrow> PdfError ''Unable to extract PDF text''
   | Some ps \<Rightarrow> if MAX_PDF_PAGES < length ps \<or> MAX_EXTRACTED_TEXT_CHARS < length (concat ps)
       then PdfError ''Unable to extract PDF text''
       else PdfText (py_join [CHR 0x0A, CHR 0x0A] ps))"

definition extract_text :: "file_content \<Rightarrow> pdf_outcome \<Rightarrow> string \<Rightarrow> string + string" where
  "extract_text content pdf extension =
     (case (if extension = ''.pdf'' then extract_pdf pdf
            else (case content of Utf8 s \<Rightarrow> Inr s | NotUtf8 \<Rightarrow> Inl ''Document must be UTF-8 text'')) of
        Inl e \<Rightarrow> Inl e
      | Inr s \<Rightarrow>
          if MAX_EXTRACTED_TEXT_CHARS < length s then Inl ''Document exceeds the extracted text limit''
          else (let t = py_strip (filter (\<lambda>c. c \<noteq> CHR 0x00) s) in
                if t = [] then Inl ''Document contains no extractable text'' else Inr t))"

text \<open>The sizes of the pieces that \<^verbatim>\<open>read\<close> returns; the first empty one ends the file.\<close>

fun write_upload :: "nat list \<Rightarrow> nat \<Rightarrow> string + nat" where
  "write_upload [] total_size = Inr total_size"
| "write_upload (n # ns) total_size =
     (if n = 0 then Inr total_size
      else if MAX_UPLOAD_BYTES < total_size + n then Inl ''Document exceeds the permitted size''
      else write_upload ns (total_size + n))"

section \<open>The endpoint\<close>

definition MAX_SCOPE_CHARS :: nat where "MAX_SCOPE_CHARS = 120"

definition dotted :: "string \<Rightarrow> bool" where
  "dotted v \<longleftrightarrow> v \<in> {''.'', ''..''} \<or> (\<exists>part \<in> set (py_split CHR ''/'' v). part \<in> {''.'', ''..''})"

definition safe_scope :: "string \<Rightarrow> api_error + string" where
  "safe_scope s = (let v = py_strip (if s = [] then ''organization'' else s) in
     if v = [] \<or> MAX_SCOPE_CHARS < length v \<or> dotted v then Inl (HTTPException 422 ''Invalid knowledge_scope'') else Inr v)"

definition safe_folder :: "string \<Rightarrow> api_error + string list" where
  "safe_folder s =
     (if (case s of [] \<Rightarrow> False | c # _ \<Rightarrow> c = CHR ''/'') \<or> (\<exists>part \<in> set (path_parts s). part \<in> {[], ''.'', ''..''})
      then Inl (HTTPException 422 ''Invalid storage_folder'') else Inr (path_parts s))"

record upload_world =
  uw_root :: "string list"
  uw_resolve :: "string list \<Rightarrow> string list"
  uw_uuid :: string
  uw_reads :: "nat list"
  uw_content :: file_content
  uw_pdf :: "string list option option"
  uw_queue :: enqueue_reply

record upload_form =
  uf_filename :: "string option"
  uf_content_type :: "string option"
  uf_scope :: string
  uf_folder :: string

record 'v upload_state =
  us_documents :: "'v document_db"
  us_files :: "string list list"
  us_jobs :: "job list"

record upload_reply =
  ur_document_id :: identity
  ur_job_id :: string
  ur_knowledge_scope :: string
  ur_storage_path :: string
  ur_size :: nat

definition upload_filename :: "upload_form \<Rightarrow> string" where
  "upload_filename f = (case uf_filename f of None \<Rightarrow> ''document'' | Some s \<Rightarrow> if s = [] then ''document'' else s)"

definition tenant_root :: "upload_world \<Rightarrow> identity \<Rightarrow> string list" where
  "tenant_root w org = uw_resolve w (uw_root w @ [str_int org])"

definition upload_root :: "upload_world \<Rightarrow> identity \<Rightarrow> string list \<Rightarrow> string list" where
  "upload_root w org folder = uw_resolve w (uw_root w @ [str_int org] @ folder)"

text \<open>The three steps under \<^verbatim>\<open>try\<close>: write, validate, extract.\<close>

definition receive_file :: "upload_world \<Rightarrow> string \<Rightarrow> string + nat \<times> string" where
  "receive_file w filename =
     (case write_upload (uw_reads w) 0 of
        Inl e \<Rightarrow> Inl e
      | Inr sz \<Rightarrow>
          (case validate_upload filename sz of
             Inl e \<Rightarrow> Inl e
           | Inr _ \<Rightarrow>
               (case extract_text (uw_content w) (case uw_pdf w of None \<Rightarrow> PdfTimeout | Some pages \<Rightarrow> pdf_worker pages)
                       (safe_extension filename) of
                  Inl e \<Rightarrow> Inl e | Inr t \<Rightarrow> Inr (sz, t))))"

definition upload_row :: "identity \<Rightarrow> identity \<Rightarrow> upload_form \<Rightarrow> string \<Rightarrow> identity \<Rightarrow> document" where
  "upload_row org uid f relative i =
     \<lparr>doc_id = i, doc_organization_id = org, doc_title = take 500 (upload_filename f), doc_source = Some relative,
      doc_mime_type = Some (case uf_content_type f of None \<Rightarrow> ''application/octet-stream''
        | Some t \<Rightarrow> if t = [] then ''application/octet-stream'' else t),
      doc_status = ''queued'', doc_owner = Some uid\<rparr>"

text \<open>After the file is received: the row, the job, the reply.  Without a job id the document fails; when
  the queue raises, nothing handles it.\<close>

definition queue_upload ::
    "upload_world \<Rightarrow> identity \<Rightarrow> identity \<Rightarrow> upload_form \<Rightarrow> string \<Rightarrow> string \<Rightarrow> nat \<times> string
     \<Rightarrow> 'v upload_state \<Rightarrow> (api_error + upload_reply) \<times> 'v upload_state" where
  "queue_upload w org uid f scope relative received st =
     (let i = dd_next (us_documents st);
          docs = (us_documents st)\<lparr>dd_documents := dd_documents (us_documents st) @ [upload_row org uid f relative i],
                                  dd_next := i + 1\<rparr>;
          j = \<lparr>jb_document_id = i, jb_organization_id = org, jb_content = snd received, jb_knowledge_scope = scope\<rparr>
      in (case enqueue_document_ingestion (uw_queue w) of
            Inl _ \<Rightarrow> (Inl (ServerError ''queue''), st\<lparr>us_documents := docs\<rparr>)
          | Inr None \<Rightarrow> (Inl (HTTPException 503 ''Document queue is unavailable''), st\<lparr>us_documents := set_status i ''failed'' docs\<rparr>)
          | Inr (Some job_id) \<Rightarrow>
              (Inr \<lparr>ur_document_id = i, ur_job_id = job_id, ur_knowledge_scope = scope, ur_storage_path = relative,
                    ur_size = fst received\<rparr>, st\<lparr>us_documents := docs, us_jobs := us_jobs st @ [j]\<rparr>)))"

definition upload_document ::
    "upload_world \<Rightarrow> identity \<Rightarrow> identity \<Rightarrow> upload_form \<Rightarrow> 'v upload_state \<Rightarrow> (api_error + upload_reply) \<times> 'v upload_state" where
  "upload_document w org uid f st =
     (case safe_scope (uf_scope f) of
        Inl e \<Rightarrow> (Inl e, st)
      | Inr scope \<Rightarrow>
     (case safe_folder (uf_folder f) of
        Inl e \<Rightarrow> (Inl e, st)
      | Inr folder \<Rightarrow>
          (let root = upload_root w org folder;
               target = root @ [uw_uuid w @ safe_extension (upload_filename f)]
           in if take (length (tenant_root w org)) root \<noteq> tenant_root w org
              then (Inl (HTTPException 422 ''Invalid storage_folder''), st)
              else if target \<in> set (us_files st) then (Inl (ServerError ''FileExistsError''), st)
              else (case receive_file w (upload_filename f) of
                 Inl e \<Rightarrow> (Inl (HTTPException 422 e), st)
               | Inr received \<Rightarrow>
                   queue_upload w org uid f scope (py_join ''/'' (drop (length (uw_root w)) target)) received
                     (st\<lparr>us_files := us_files st @ [target]\<rparr>)))))"

section \<open>Facts\<close>

lemma write_upload_bound: "write_upload ns t = Inr sz \<Longrightarrow> t \<le> MAX_UPLOAD_BYTES \<Longrightarrow> t \<le> sz \<and> sz \<le> MAX_UPLOAD_BYTES"
  by (induction ns t rule: write_upload.induct) (auto split: if_splits)

lemma receive_file_InrD:
  assumes "receive_file w filename = Inr (sz, t)"
  shows "safe_extension filename \<in> ALLOWED_EXTENSIONS \<and> 0 < sz \<and> sz \<le> MAX_UPLOAD_BYTES
    \<and> t \<noteq> [] \<and> length t \<le> MAX_EXTRACTED_TEXT_CHARS"
proof -
  have "length (py_strip (filter P s)) \<le> MAX_EXTRACTED_TEXT_CHARS" if "length s \<le> MAX_EXTRACTED_TEXT_CHARS" for P s
    using that length_strip_le [of "filter P s"] length_filter_le [of P s] by linarith
  then show ?thesis using assms
    by (auto simp: receive_file_def validate_upload_def extract_text_def Let_def split: sum.splits if_splits)
qed

lemma queue_upload_outcomes:
  assumes "queue_upload w org uid f scope relative received st = (r, st')" and "i = dd_next (us_documents st)"
  shows "us_files st' = us_files st
    \<and> (\<forall>reply. r = Inr reply \<longrightarrow> ur_size reply = fst received \<and> ur_document_id reply = i
         \<and> dd_documents (us_documents st') = dd_documents (us_documents st) @ [upload_row org uid f relative i]
         \<and> us_jobs st' = us_jobs st @ [\<lparr>jb_document_id = i, jb_organization_id = org, jb_content = snd received, jb_knowledge_scope = scope\<rparr>])
    \<and> (\<forall>e. r = Inl e \<longrightarrow> us_jobs st' = us_jobs st \<and> (\<forall>detail. e \<noteq> HTTPException 422 detail))"
  using assms by (auto simp: queue_upload_def Let_def split: sum.splits option.splits)

lemma upload_document_cases:
  assumes "upload_document w org uid f st = (r, st')"
  obtains e where "r = Inl e" and "st' = st"
  | scope folder target sz t relative
    where "take (length (tenant_root w org)) (upload_root w org folder) = tenant_root w org"
      and "target = upload_root w org folder @ [uw_uuid w @ safe_extension (upload_filename f)]"
      and "receive_file w (upload_filename f) = Inr (sz, t)"
      and "queue_upload w org uid f scope relative (sz, t) (st\<lparr>us_files := us_files st @ [target]\<rparr>) = (r, st')"
  using assms by (auto simp: upload_document_def Let_def split: sum.splits if_splits)

text \<open>An upload is stored inside its tenant or not at all.  When it is accepted, one new file exists below
  the directory of the caller's organization, one queued document of that organization owned by the caller
  refers to it, and one job for that very document, with a nonempty text within the limit, is queued; the
  type is allowed and the size within 10 MiB.  When it is rejected with a 422, nothing changed: no file, no
  document and no job is left behind.\<close>

theorem upload_stored_or_rejected:
  assumes "upload_document w org uid f st = (r, st')" and "i = dd_next (us_documents st)"
  shows "(\<forall>reply. r = Inr reply \<longrightarrow>
      (\<exists>name below j relative. us_files st' = us_files st @ [tenant_root w org @ below @ [name]]
        \<and> dd_documents (us_documents st') = dd_documents (us_documents st) @ [upload_row org uid f relative i]
        \<and> us_jobs st' = us_jobs st @ [j] \<and> jb_document_id j = i \<and> jb_organization_id j = org
        \<and> jb_content j \<noteq> [] \<and> length (jb_content j) \<le> MAX_EXTRACTED_TEXT_CHARS)
      \<and> safe_extension (upload_filename f) \<in> ALLOWED_EXTENSIONS \<and> 0 < ur_size reply \<and> ur_size reply \<le> MAX_UPLOAD_BYTES)
    \<and> (\<forall>detail. r = Inl (HTTPException 422 detail) \<longrightarrow> st' = st)"
  using assms(1)
proof (rule upload_document_cases)
  fix e
  assume "r = Inl e" and "st' = st"
  then show ?thesis by simp
next
  fix scope folder target sz t relative
  assume root: "take (length (tenant_root w org)) (upload_root w org folder) = tenant_root w org"
      "target = upload_root w org folder @ [uw_uuid w @ safe_extension (upload_filename f)]"
    and recv: "receive_file w (upload_filename f) = Inr (sz, t)"
    and q: "queue_upload w org uid f scope relative (sz, t) (st\<lparr>us_files := us_files st @ [target]\<rparr>) = (r, st')"
  have t: "target = tenant_root w org @ drop (length (tenant_root w org)) (upload_root w org folder)
      @ [uw_uuid w @ safe_extension (upload_filename f)]"
    using root by (metis append.assoc append_take_drop_id)
  show ?thesis using queue_upload_outcomes [OF q, of i] assms(2) receive_file_InrD [OF recv] t by auto
qed

definition sample_upload_world :: upload_world where
  "sample_upload_world = \<lparr>uw_root = [''storage''], uw_resolve = id, uw_uuid = ''u1'', uw_reads = [3, 0],
     uw_content = Utf8 ''abc'', uw_pdf = None, uw_queue = JobEnqueued ''j1''\<rparr>"

definition sample_form :: upload_form where
  "sample_form = \<lparr>uf_filename = Some ''notes.txt'', uf_content_type = None, uf_scope = ''hr'', uf_folder = ''a/b''\<rparr>"

definition sample_upload_state :: "rat upload_state" where
  "sample_upload_state = \<lparr>us_documents = empty_document_db, us_files = [], us_jobs = []\<rparr>"

lemma sample_accepted: "\<exists>reply st'. upload_document sample_upload_world 7 5 sample_form sample_upload_state = (Inr reply, st')"
proof -
  have s: "safe_scope ''hr'' = Inr ''hr''" by code_simp
  have f: "safe_folder ''a/b'' = Inr [''a'', ''b'']" by code_simp
  have e: "safe_extension ''notes.txt'' = ''.txt''" by code_simp
  have r: "receive_file sample_upload_world ''notes.txt'' = Inr (3, ''abc'')"
  proof -
    have "py_strip ''abc'' = ''abc''" by code_simp
    then show ?thesis
      by (simp add: receive_file_def sample_upload_world_def MAX_UPLOAD_BYTES_def validate_upload_def e ALLOWED_EXTENSIONS_def
          extract_text_def MAX_EXTRACTED_TEXT_CHARS_def)
  qed
  show ?thesis
    by (simp add: upload_document_def sample_form_def s f upload_filename_def e r tenant_root_def upload_root_def
        queue_upload_def Let_def enqueue_document_ingestion_def sample_upload_state_def)
      (simp add: sample_upload_world_def)
qed

theorem upload_stored_or_rejected_witness:
  "\<exists>st' reply name below. upload_document sample_upload_world 7 5 sample_form sample_upload_state = (Inr reply, st')
     \<and> us_files st' = [tenant_root sample_upload_world 7 @ below @ [name]]
     \<and> safe_extension (upload_filename sample_form) \<in> ALLOWED_EXTENSIONS"
proof -
  obtain reply st' where u: "upload_document sample_upload_world 7 5 sample_form sample_upload_state = (Inr reply, st')"
    using sample_accepted by blast
  from upload_stored_or_rejected [OF u refl] obtain name below where
    "us_files st' = us_files sample_upload_state @ [tenant_root sample_upload_world 7 @ below @ [name]]"
    and "safe_extension (upload_filename sample_form) \<in> ALLOWED_EXTENSIONS" by auto
  then show ?thesis using u by (auto simp: sample_upload_state_def)
qed

end
