(* ===== verification/Memory.thy ===== *)
theory Memory
  imports Conversations Json "HOL-Library.Product_Lexorder"
begin

text \<open>
  Memory and provenance: the in-process store with its promotion boundary (\<^verbatim>\<open>application/memory.py\<close>), the
  durable tenant-bound store (\<^verbatim>\<open>application/memory_runtime.py\<close>), the provenance resolver
  (\<^verbatim>\<open>application/provenance.py\<close>) and the endpoints (\<^verbatim>\<open>api/v1/memory.py\<close>).  \<open>sha\<close> is the SHA-256 hex
  digest.  The column \<^verbatim>\<open>provenance_json\<close> is represented by the value its text denotes, nothing when the
  text is not JSON.
\<close>

section \<open>Memory classes and the in-process store\<close>

datatype memory_class = CONVERSATION_HISTORY | SHORT_TERM_CONTEXT | PERSISTENT_MEMORY | USER_ORG_KNOWLEDGE

fun memory_class_value :: "memory_class \<Rightarrow> string" where
  "memory_class_value CONVERSATION_HISTORY = ''conversation_history''"
| "memory_class_value SHORT_TERM_CONTEXT = ''short_term_context''"
| "memory_class_value PERSISTENT_MEMORY = ''persistent_memory''"
| "memory_class_value USER_ORG_KNOWLEDGE = ''user_org_knowledge''"

type_synonym dict = "(string \<times> json) list"

text \<open>\<^verbatim>\<open>d[k] = v\<close> and \<^verbatim>\<open>{**d, **e}\<close>: a key keeps its first position.\<close>

definition dict_set :: "string \<Rightarrow> json \<Rightarrow> dict \<Rightarrow> dict" where
  "dict_set k v d = (if k \<in> fst ` set d then map (\<lambda>(j, w). if j = k then (j, v) else (j, w)) d else d @ [(k, v)])"

definition dict_update :: "dict \<Rightarrow> dict \<Rightarrow> dict" where
  "dict_update d e = fold (\<lambda>(k, v). dict_set k v) e d"

record memory_item =
  mi_item_id :: string
  mi_memory_class :: memory_class
  mi_scope :: string
  mi_content :: json
  mi_provenance :: dict

record promotion =
  pr_actor :: string
  pr_reason :: string
  pr_target_class :: memory_class
  pr_provenance :: dict

datatype memory_error =
    MemoryValueError string | MemoryKeyError string
  | MemoryBoundaryError string | MemoryPermissionError | MemoryIntegrityError

type_synonym memory_store = "string \<Rightarrow> memory_item option"

definition put_item :: "memory_item \<Rightarrow> memory_store \<Rightarrow> memory_error + memory_store" where
  "put_item item s =
     (if mi_item_id item = [] \<or> mi_scope item = [] then Inl (MemoryValueError ''memory item requires id and scope'')
      else if mi_memory_class item \<in> {PERSISTENT_MEMORY, USER_ORG_KNOWLEDGE} \<and> mi_provenance item = []
      then Inl (MemoryValueError ''persistent/knowledge items require provenance'')
      else if s (mi_item_id item) \<noteq> None then Inl (MemoryValueError ''memory item identity is immutable'')
      else Inr (s(mi_item_id item \<mapsto> item)))"

definition get_item :: "string \<Rightarrow> string \<Rightarrow> memory_store \<Rightarrow> memory_item option" where
  "get_item i scope s = (case s i of None \<Rightarrow> None | Some item \<Rightarrow> if mi_scope item \<noteq> scope then None else Some item)"

definition promote :: "string \<Rightarrow> promotion \<Rightarrow> string \<Rightarrow> json \<Rightarrow> memory_store \<Rightarrow> memory_error + memory_item \<times> memory_store" where
  "promote i p new_id content s =
     (case s i of
        None \<Rightarrow> Inl (MemoryKeyError i)
      | Some source \<Rightarrow>
          if pr_actor p = [] \<or> pr_reason p = [] then Inl (MemoryValueError ''promotion requires actor and reason'')
          else if mi_memory_class source = USER_ORG_KNOWLEDGE \<and> pr_target_class p = PERSISTENT_MEMORY
          then Inl (MemoryValueError ''cross-owner promotion requires explicit boundary'')
          else (let promoted = \<lparr>mi_item_id = new_id, mi_memory_class = pr_target_class p, mi_scope = mi_scope source,
                     mi_content = content,
                     mi_provenance = dict_update (pr_provenance p) [(''source_item_id'', JStr (mi_item_id source)),
                       (''source_class'', JStr (memory_class_value (mi_memory_class source)))]\<rparr>
                in (case put_item promoted s of Inl e \<Rightarrow> Inl e | Inr s' \<Rightarrow> Inr (promoted, s'))))"

section \<open>The durable store\<close>

record memory_record =
  mr_id :: identity
  mr_item_id :: string
  mr_organization_id :: identity
  mr_owner_user_id :: "identity option"
  mr_actor_user_id :: identity
  mr_memory_class :: string
  mr_scope_kind :: string
  mr_content :: string
  mr_provenance_json :: "json option"
  mr_source_message_id :: "identity option"
  mr_source_memory_item_id :: "string option"
  mr_reason :: string
  mr_created_at :: microseconds
  mr_deleted_at :: "microseconds option"

record memory_request =
  mq_organization_id :: identity
  mq_actor_user_id :: identity
  mq_actor_role :: string
  mq_memory_class :: memory_class
  mq_scope_kind :: string
  mq_content :: string
  mq_provenance :: dict
  mq_reason :: string
  mq_source_message_id :: "identity option"
  mq_source_memory_item_id :: "string option"

definition memory_constraints :: "memory_record \<Rightarrow> bool" where
  "memory_constraints r \<longleftrightarrow> mr_memory_class r \<in> {''persistent_memory'', ''user_org_knowledge''}
     \<and> (mr_scope_kind r = ''user'' \<and> mr_owner_user_id r \<noteq> None
        \<or> mr_scope_kind r = ''organization'' \<and> mr_owner_user_id r = None)"

definition validate_memory :: "memory_request \<Rightarrow> memory_error + unit" where
  "validate_memory q =
     (if mq_memory_class q \<notin> {PERSISTENT_MEMORY, USER_ORG_KNOWLEDGE}
      then Inl (MemoryBoundaryError ''ephemeral memory classes cannot be persisted'')
      else if mq_scope_kind q \<notin> {''user'', ''organization''} then Inl (MemoryBoundaryError ''memory scope must be explicit'')
      else if py_strip (mq_content q) = [] \<or> 20000 < length (mq_content q)
      then Inl (MemoryBoundaryError ''memory content is invalid'')
      else if mq_provenance q = [] then Inl (MemoryBoundaryError ''durable memory requires provenance'')
      else if py_strip (mq_reason q) = [] then Inl (MemoryBoundaryError ''memory operation requires a reason'')
      else Inr ())"

definition assert_mutation_scope :: "string \<Rightarrow> string \<Rightarrow> memory_error + unit" where
  "assert_mutation_scope scope_kind actor_role =
     (if scope_kind = ''organization'' \<and> actor_role \<notin> {''owner'', ''admin''} then Inl MemoryPermissionError else Inr ())"

definition load_message_source ::
    "message list \<Rightarrow> conversation list \<Rightarrow> identity \<Rightarrow> identity \<Rightarrow> identity \<Rightarrow> string \<Rightarrow> memory_error + message" where
  "load_message_source msgs convs message_id org uid scope_kind =
     (case find (\<lambda>m. ms_id m = message_id \<and> ms_organization_id m = org \<and> ms_status m = Completed
              \<and> (\<exists>c \<in> set convs. cv_id c = Some (ms_conversation_id m) \<and> cv_organization_id c = ms_organization_id m
                    \<and> (scope_kind = ''user'' \<longrightarrow> cv_user_id c = uid))) msgs of
        None \<Rightarrow> Inl (MemoryBoundaryError ''source message is unavailable in target scope'') | Some m \<Rightarrow> Inr m)"

definition visible_memory :: "identity \<Rightarrow> identity \<Rightarrow> memory_record \<Rightarrow> bool" where
  "visible_memory org uid r \<longleftrightarrow> mr_organization_id r = org
     \<and> (mr_scope_kind r = ''organization'' \<or> mr_owner_user_id r = Some uid)"

definition get_memory :: "string \<Rightarrow> identity \<Rightarrow> identity \<Rightarrow> memory_record list \<Rightarrow> memory_record option" where
  "get_memory i org uid rows = find (\<lambda>r. mr_item_id r = i \<and> visible_memory org uid r \<and> mr_deleted_at r = None) rows"

definition list_memory :: "identity \<Rightarrow> identity \<Rightarrow> memory_record list \<Rightarrow> memory_record list" where
  "list_memory org uid rows = rev (sort_key (\<lambda>r. (mr_created_at r, mr_id r))
     (filter (\<lambda>r. visible_memory org uid r \<and> mr_deleted_at r = None) rows))"

definition authoritative_provenance ::
    "(string \<Rightarrow> string) \<Rightarrow> memory_request \<Rightarrow> memory_record option \<Rightarrow> message option \<Rightarrow> dict" where
  "authoritative_provenance sha q source source_message =
     dict_update (dict_update
       [(''actor_user_id'', JInt (mq_actor_user_id q)), (''content_sha256'', JStr (sha (py_strip (mq_content q)))),
        (''source_type'', JStr ''declared''), (''source_message_id'', JNull), (''source_memory_item_id'', JNull),
        (''source_class'', JNull), (''source_sha256'', JNull)]
       (case source of None \<Rightarrow> []
        | Some s \<Rightarrow> [(''source_type'', JStr ''memory''), (''source_memory_item_id'', JStr (mr_item_id s)),
            (''source_class'', JStr (mr_memory_class s)), (''source_sha256'', JStr (sha (mr_content s)))]))
       (case source_message of None \<Rightarrow> []
        | Some m \<Rightarrow> [(''source_type'', JStr ''message''), (''source_message_id'', JInt (ms_id m)),
            (''source_sha256'', JStr (sha (ms_content m)))])"

definition new_memory ::
    "(string \<Rightarrow> string) \<Rightarrow> microseconds \<Rightarrow> identity \<Rightarrow> string \<Rightarrow> memory_request \<Rightarrow> memory_record option \<Rightarrow> message option
     \<Rightarrow> memory_record" where
  "new_memory sha now i item_id q source source_message =
     \<lparr>mr_id = i, mr_item_id = item_id, mr_organization_id = mq_organization_id q,
      mr_owner_user_id = (if mq_scope_kind q = ''user'' then Some (mq_actor_user_id q) else None),
      mr_actor_user_id = mq_actor_user_id q, mr_memory_class = memory_class_value (mq_memory_class q),
      mr_scope_kind = mq_scope_kind q, mr_content = py_strip (mq_content q),
      mr_provenance_json = Some (JObj (dict_update (mq_provenance q) (authoritative_provenance sha q source source_message))),
      mr_source_message_id = mq_source_message_id q, mr_source_memory_item_id = map_option mr_item_id source,
      mr_reason = py_strip (mq_reason q), mr_created_at = now, mr_deleted_at = None\<rparr>"

record memory_db =
  md_rows :: "memory_record list"
  md_next :: identity

definition source_message_of :: "message list \<Rightarrow> conversation list \<Rightarrow> memory_request \<Rightarrow> memory_error + message option" where
  "source_message_of msgs convs q =
     (case mq_source_message_id q of None \<Rightarrow> Inr None
      | Some i \<Rightarrow> (case load_message_source msgs convs i (mq_organization_id q) (mq_actor_user_id q) (mq_scope_kind q) of
          Inl e \<Rightarrow> Inl e | Inr m \<Rightarrow> Inr (Some m)))"

definition source_memory_of :: "memory_record list \<Rightarrow> memory_request \<Rightarrow> memory_error + memory_record option" where
  "source_memory_of rows q =
     (case mq_source_memory_item_id q of None \<Rightarrow> Inr None
      | Some i \<Rightarrow> (case get_memory i (mq_organization_id q) (mq_actor_user_id q) rows of
          None \<Rightarrow> Inl (MemoryBoundaryError ''source memory is unavailable in caller scope'') | Some s \<Rightarrow> Inr (Some s)))"

definition insert_memory :: "memory_record \<Rightarrow> memory_db \<Rightarrow> (memory_error + memory_record) \<times> memory_db" where
  "insert_memory r db =
     (if mr_item_id r \<in> mr_item_id ` set (md_rows db) \<or> \<not> memory_constraints r then (Inl MemoryIntegrityError, db)
      else (Inr r, \<lparr>md_rows = md_rows db @ [r], md_next = md_next db + 1\<rparr>))"

definition create_memory ::
    "(string \<Rightarrow> string) \<Rightarrow> microseconds \<Rightarrow> string \<Rightarrow> message list \<Rightarrow> conversation list \<Rightarrow> memory_request \<Rightarrow> memory_db
     \<Rightarrow> (memory_error + memory_record) \<times> memory_db" where
  "create_memory sha now item_id msgs convs q db =
     (case validate_memory q of Inl e \<Rightarrow> (Inl e, db) | Inr _ \<Rightarrow>
     (case assert_mutation_scope (mq_scope_kind q) (mq_actor_role q) of Inl e \<Rightarrow> (Inl e, db) | Inr _ \<Rightarrow>
     (case source_message_of msgs convs q of Inl e \<Rightarrow> (Inl e, db) | Inr source_message \<Rightarrow>
     (case source_memory_of (md_rows db) q of Inl e \<Rightarrow> (Inl e, db) | Inr source \<Rightarrow>
        insert_memory (new_memory sha now (md_next db) item_id q source source_message) db))))"

definition delete_memory :: "microseconds \<Rightarrow> string \<Rightarrow> identity \<Rightarrow> identity \<Rightarrow> string \<Rightarrow> memory_db \<Rightarrow> (memory_error + bool) \<times> memory_db" where
  "delete_memory now i org uid actor_role db =
     (case get_memory i org uid (md_rows db) of
        None \<Rightarrow> (Inr False, db)
      | Some r \<Rightarrow>
          (case assert_mutation_scope (mr_scope_kind r) actor_role of
             Inl e \<Rightarrow> (Inl e, db)
           | Inr _ \<Rightarrow> (Inr True, db\<lparr>md_rows := set_by mr_item_id i (\<lambda>r. r\<lparr>mr_deleted_at := Some now\<rparr>) (md_rows db)\<rparr>)))"

section \<open>Provenance\<close>

datatype trace_node =
    MemoryNode string string string identity string bool string bool
  | UnavailableNode string
  | SourceMismatchNode string
  | MessageNode identity string string bool

datatype trace_end = TracedRoot | Cycle | Unavailable | IntegrityFailure | Source | Declared | DepthLimit

record provenance_trace =
  tr_root_item_id :: string
  tr_nodes :: "trace_node list"
  tr_termination :: trace_end

definition trace_complete :: "provenance_trace \<Rightarrow> bool" where
  "trace_complete t \<longleftrightarrow> tr_termination t \<in> {Source, Declared, TracedRoot}"

definition resolve_memory :: "string \<Rightarrow> identity \<Rightarrow> identity \<Rightarrow> bool \<Rightarrow> memory_record list \<Rightarrow> memory_record option" where
  "resolve_memory i org uid include_deleted rows =
     find (\<lambda>r. mr_item_id r = i \<and> visible_memory org uid r \<and> (include_deleted \<or> mr_deleted_at r = None)) rows"

definition provenance_of :: "memory_record \<Rightarrow> dict" where
  "provenance_of r = (case mr_provenance_json r of Some (JObj d) \<Rightarrow> d | _ \<Rightarrow> [])"

definition matches_digest :: "dict \<Rightarrow> string \<Rightarrow> string \<Rightarrow> bool" where
  "matches_digest d key digest \<longleftrightarrow> map_of d key = Some (JStr digest)"

definition memory_node :: "(string \<Rightarrow> string) \<Rightarrow> memory_record \<Rightarrow> trace_node" where
  "memory_node sha r = MemoryNode (mr_item_id r) (mr_memory_class r) (mr_scope_kind r) (mr_actor_user_id r) (mr_reason r)
     (mr_deleted_at r \<noteq> None) (sha (mr_content r)) (matches_digest (provenance_of r) ''content_sha256'' (sha (mr_content r)))"

text \<open>The loop: \<open>fuel\<close> is what is left of \<^verbatim>\<open>max_depth\<close>; an empty or zero reference is no reference.\<close>

fun trace_loop ::
    "(string \<Rightarrow> string) \<Rightarrow> message list \<Rightarrow> memory_record list \<Rightarrow> identity \<Rightarrow> identity \<Rightarrow> nat \<Rightarrow> string set \<Rightarrow> memory_record
     \<Rightarrow> trace_node list \<times> trace_end" where
  "trace_loop sha msgs rows org uid 0 seen r = ([], DepthLimit)"
| "trace_loop sha msgs rows org uid (Suc fuel) seen r =
     (if mr_item_id r \<in> seen then ([], Cycle)
      else (case (case mr_source_memory_item_id r of Some [] \<Rightarrow> None | i \<Rightarrow> i) of
          Some i \<Rightarrow>
            (case resolve_memory i org uid True rows of
               None \<Rightarrow> ([memory_node sha r, UnavailableNode ''memory''], Unavailable)
             | Some source \<Rightarrow>
                 if \<not> matches_digest (provenance_of r) ''source_sha256'' (sha (mr_content source))
                 then ([memory_node sha r, SourceMismatchNode (mr_item_id source)], IntegrityFailure)
                 else (case trace_loop sha msgs rows org uid fuel (insert (mr_item_id r) seen) source of
                         (nodes, t) \<Rightarrow> (memory_node sha r # nodes, t)))
        | None \<Rightarrow>
            (case (case mr_source_message_id r of Some i \<Rightarrow> if i = 0 then None else Some i | None \<Rightarrow> None) of
               Some i \<Rightarrow>
                 (case find (\<lambda>m. ms_id m = i \<and> ms_organization_id m = org) msgs of
                    None \<Rightarrow> ([memory_node sha r, UnavailableNode ''message''], Unavailable)
                  | Some m \<Rightarrow> ([memory_node sha r, MessageNode (ms_id m) (ms_role m) (sha (ms_content m))
                        (matches_digest (provenance_of r) ''source_sha256'' (sha (ms_content m)))], Source))
             | None \<Rightarrow> ([memory_node sha r], Declared))))"

definition resolver_depth_ok :: "int \<Rightarrow> bool" where
  "resolver_depth_ok max_depth \<longleftrightarrow> 0 < max_depth \<and> max_depth \<le> 100"

definition trace ::
    "(string \<Rightarrow> string) \<Rightarrow> message list \<Rightarrow> memory_record list \<Rightarrow> int \<Rightarrow> string \<Rightarrow> identity \<Rightarrow> identity
     \<Rightarrow> memory_error + provenance_trace" where
  "trace sha msgs rows max_depth i org uid =
     (if \<not> resolver_depth_ok max_depth then Inl (MemoryValueError ''provenance depth must be bounded'')
      else (case resolve_memory i org uid False rows of
         None \<Rightarrow> Inl (MemoryKeyError i)
       | Some first \<Rightarrow>
           (case trace_loop sha msgs rows org uid (nat max_depth) {} first of
              (nodes, t) \<Rightarrow> Inr \<lparr>tr_root_item_id = mr_item_id first, tr_nodes = nodes, tr_termination = t\<rparr>)))"

section \<open>Endpoints\<close>

definition http_of_memory :: "memory_error \<Rightarrow> api_error" where
  "http_of_memory e = (case e of
     MemoryPermissionError \<Rightarrow> HTTPException 403 ''organization memory mutation requires admin authority''
   | MemoryBoundaryError d \<Rightarrow> HTTPException 422 d
   | MemoryKeyError _ \<Rightarrow> HTTPException 404 ''Memory item not found''
   | _ \<Rightarrow> ServerError ''IntegrityError'')"

definition delete_memory_endpoint ::
    "microseconds \<Rightarrow> string \<Rightarrow> identity \<Rightarrow> identity \<Rightarrow> string \<Rightarrow> memory_db \<Rightarrow> (api_error + int) \<times> memory_db" where
  "delete_memory_endpoint now i org uid role db =
     (case delete_memory now i org uid role db of
        (Inl e, db') \<Rightarrow> (Inl (http_of_memory e), db')
      | (Inr False, db') \<Rightarrow> (Inl (HTTPException 404 ''Memory item not found''), db')
      | (Inr True, db') \<Rightarrow> (Inr 204, db'))"

record memory_create =
  mb_memory_class :: memory_class
  mb_scope_kind :: string
  mb_content :: string
  mb_provenance :: dict
  mb_reason :: string
  mb_source_message_id :: "identity option"
  mb_source_memory_item_id :: "string option"

text \<open>The bounds of the request's fields; a request that breaks them is answered 422 by the framework.\<close>

definition memory_create_ok :: "memory_create \<Rightarrow> bool" where
  "memory_create_ok b \<longleftrightarrow> 1 \<le> length (mb_content b) \<and> length (mb_content b) \<le> 20000
     \<and> 1 \<le> length (mb_reason b) \<and> length (mb_reason b) \<le> 500"

record memory_view =
  mv_item_id :: string
  mv_memory_class :: string
  mv_scope_kind :: string
  mv_content :: string
  mv_provenance :: "json option"
  mv_reason :: string
  mv_created_at :: microseconds

definition view_of :: "memory_record \<Rightarrow> memory_view" where
  "view_of r = \<lparr>mv_item_id = mr_item_id r, mv_memory_class = mr_memory_class r, mv_scope_kind = mr_scope_kind r,
     mv_content = mr_content r, mv_provenance = mr_provenance_json r, mv_reason = mr_reason r, mv_created_at = mr_created_at r\<rparr>"

definition create_memory_endpoint ::
    "(string \<Rightarrow> string) \<Rightarrow> microseconds \<Rightarrow> string \<Rightarrow> message list \<Rightarrow> conversation list \<Rightarrow> identity \<Rightarrow> identity \<Rightarrow> string
     \<Rightarrow> memory_create \<Rightarrow> memory_db \<Rightarrow> (api_error + memory_view) \<times> memory_db" where
  "create_memory_endpoint sha now item_id msgs convs org uid role b db =
     (if \<not> memory_create_ok b then (Inl (HTTPException 422 ''validation error''), db)
      else (case create_memory sha now item_id msgs convs
          \<lparr>mq_organization_id = org, mq_actor_user_id = uid, mq_actor_role = role, mq_memory_class = mb_memory_class b,
           mq_scope_kind = mb_scope_kind b, mq_content = mb_content b, mq_provenance = mb_provenance b,
           mq_reason = mb_reason b, mq_source_message_id = mb_source_message_id b,
           mq_source_memory_item_id = mb_source_memory_item_id b\<rparr> db of
        (Inl e, db') \<Rightarrow> (Inl (http_of_memory e), db')
      | (Inr r, db') \<Rightarrow> (Inr (view_of r), db')))"

definition list_memory_endpoint :: "identity \<Rightarrow> identity \<Rightarrow> memory_record list \<Rightarrow> memory_view list" where
  "list_memory_endpoint org uid rows = map view_of (list_memory org uid rows)"

definition get_memory_provenance ::
    "(string \<Rightarrow> string) \<Rightarrow> message list \<Rightarrow> memory_record list \<Rightarrow> string \<Rightarrow> identity \<Rightarrow> identity \<Rightarrow> api_error + provenance_trace" where
  "get_memory_provenance sha msgs rows i org uid =
     (case trace sha msgs rows 20 i org uid of Inl e \<Rightarrow> Inl (http_of_memory e) | Inr t \<Rightarrow> Inr t)"

section \<open>Reachable tables\<close>

inductive memory_run :: "(string \<Rightarrow> string) \<Rightarrow> memory_db \<Rightarrow> bool" for sha where
  start: "memory_run sha \<lparr>md_rows = [], md_next = 1\<rparr>"
| create: "memory_run sha db \<Longrightarrow> memory_run sha (snd (create_memory sha now item_id msgs convs q db))"
| delete: "memory_run sha db \<Longrightarrow> memory_run sha (snd (delete_memory now i org uid role db))"

lemma map_of_at_end: "map_of (xs @ ys) j = (case map_of xs j of Some w \<Rightarrow> Some w | None \<Rightarrow> map_of ys j)"
  by (induction xs) auto

definition replace_key :: "string \<Rightarrow> json \<Rightarrow> dict \<Rightarrow> dict" where
  "replace_key k v d = map (\<lambda>(j, w). if j = k then (j, v) else (j, w)) d"

lemma replace_key_keys: "map fst (replace_key k v d) = map fst d"
  unfolding replace_key_def by (induction d) auto

lemma replace_key_map:
  "map_of (replace_key k v d) j = (if j = k then (if k \<in> set (map fst d) then Some v else None) else map_of d j)"
  unfolding replace_key_def
proof (induction d)
  case (Cons x d)
  then show ?case by (cases x; cases "j = k") auto
qed simp

lemma dict_set_cases: "dict_set k v d = (if k \<in> set (map fst d) then replace_key k v d else d @ [(k, v)])"
  by (simp add: dict_set_def replace_key_def)

lemma map_of_dict_set: "map_of (dict_set k v d) j = (if j = k then Some v else map_of d j)"
proof (cases "k \<in> set (map fst d)")
  case True
  then show ?thesis unfolding dict_set_cases if_P [OF True] replace_key_map by simp
next
  case False
  then have "map_of d k = None" unfolding map_of_eq_None_iff by simp
  then show ?thesis unfolding dict_set_cases if_not_P [OF False] map_of_at_end by (cases "map_of d j") auto
qed

lemma map_of_dict_update: "map_of (dict_update d e) j = (case map_of (rev e) j of Some v \<Rightarrow> Some v | None \<Rightarrow> map_of d j)"
proof (induction e arbitrary: d)
  case (Cons x e)
  obtain k v where x: "x = (k, v)" by fastforce
  have "dict_update d (x # e) = dict_update (dict_set k v d) e" by (simp add: dict_update_def x)
  moreover have "map_of (rev (x # e)) j = (case map_of (rev e) j of Some w \<Rightarrow> Some w | None \<Rightarrow> if j = k then Some v else None)"
    unfolding rev.simps map_of_at_end x by (cases "map_of (rev e) j") simp_all
  ultimately show ?case using Cons.IH [of "dict_set k v d"] unfolding map_of_dict_set
    by (cases "map_of (rev e) j"; cases "j = k") (simp_all only: option.case if_True if_False simp_thms)
qed (simp add: dict_update_def)

lemma distinct_dict_set: "distinct (map fst d) \<Longrightarrow> distinct (map fst (dict_set k v d))"
proof (cases "k \<in> set (map fst d)")
  case True
  show "distinct (map fst d) \<Longrightarrow> ?thesis" unfolding dict_set_cases if_P [OF True] replace_key_keys .
next
  case False
  then show "distinct (map fst d) \<Longrightarrow> ?thesis" unfolding dict_set_cases if_not_P [OF False] by simp
qed

lemma distinct_dict_update: "distinct (map fst d) \<Longrightarrow> distinct (map fst (dict_update d e))"
  unfolding dict_update_def by (induction e arbitrary: d) (simp_all add: distinct_dict_set split_beta)

lemma map_of_dict_update_distinct:
  assumes "distinct (map fst e)"
  shows "map_of (dict_update d e) j = (case map_of e j of Some v \<Rightarrow> Some v | None \<Rightarrow> map_of d j)"
proof -
  have "map_of (rev e) j = Some v \<longleftrightarrow> map_of e j = Some v" for v
    using assms map_of_eq_Some_iff [of e] map_of_eq_Some_iff [of "rev e"] by (simp add: rev_map [symmetric])
  then have "map_of (rev e) j = map_of e j" by (metis option.exhaust)
  then show ?thesis by (simp add: map_of_dict_update)
qed

lemma authoritative_distinct: "distinct (map fst (authoritative_provenance sha q s m))"
  unfolding authoritative_provenance_def by (intro distinct_dict_update) simp

lemma authoritative_map_of:
  "map_of (authoritative_provenance sha q s m) j =
     (case map_of (case m of None \<Rightarrow> [] | Some m \<Rightarrow> [(''source_type'', JStr ''message''), (''source_message_id'', JInt (ms_id m)),
            (''source_sha256'', JStr (sha (ms_content m)))]) j of Some v \<Rightarrow> Some v
      | None \<Rightarrow> (case map_of (case s of None \<Rightarrow> []
        | Some s \<Rightarrow> [(''source_type'', JStr ''memory''), (''source_memory_item_id'', JStr (mr_item_id s)),
            (''source_class'', JStr (mr_memory_class s)), (''source_sha256'', JStr (sha (mr_content s)))]) j of Some v \<Rightarrow> Some v
        | None \<Rightarrow> map_of [(''actor_user_id'', JInt (mq_actor_user_id q)), (''content_sha256'', JStr (sha (py_strip (mq_content q)))),
        (''source_type'', JStr ''declared''), (''source_message_id'', JNull), (''source_memory_item_id'', JNull),
        (''source_class'', JNull), (''source_sha256'', JNull)] j))"
  unfolding authoritative_provenance_def
  by (subst map_of_dict_update_distinct; (subst map_of_dict_update_distinct)?) (auto split: option.splits)

text \<open>What the store always writes of itself.\<close>

lemma new_memory_digests:
  "matches_digest (provenance_of (new_memory sha now i item q s m)) ''content_sha256'' (sha (mr_content (new_memory sha now i item q s m)))"
  "matches_digest (provenance_of (new_memory sha now i item q (Some r) None)) ''source_sha256'' (sha (mr_content r))"
  "matches_digest (provenance_of (new_memory sha now i item q s (Some k))) ''source_sha256'' d \<longleftrightarrow> d = sha (ms_content k)"
  by (auto simp: matches_digest_def provenance_of_def new_memory_def map_of_dict_update_distinct [OF authoritative_distinct]
      authoritative_map_of split: option.splits)

section \<open>What every table satisfies\<close>

definition sourced :: "(string \<Rightarrow> string) \<Rightarrow> memory_record list \<Rightarrow> memory_record \<Rightarrow> bool" where
  "sourced sha rows r \<longleftrightarrow> (\<forall>i. mr_source_memory_item_id r = Some i \<longrightarrow>
     (\<exists>s \<in> set rows. mr_item_id s = i \<and> mr_id s < mr_id r
        \<and> (mr_source_message_id r = None \<longrightarrow> matches_digest (provenance_of r) ''source_sha256'' (sha (mr_content s)))))"

definition memory_wf :: "(string \<Rightarrow> string) \<Rightarrow> memory_db \<Rightarrow> bool" where
  "memory_wf sha db \<longleftrightarrow> distinct (map mr_item_id (md_rows db))
     \<and> (\<forall>r \<in> set (md_rows db). mr_id r < md_next db \<and> memory_constraints r
          \<and> matches_digest (provenance_of r) ''content_sha256'' (sha (mr_content r)) \<and> sourced sha (md_rows db) r)"

lemma create_memory_InrD:
  assumes "create_memory sha now item_id msgs convs q db = (Inr r, db')"
  obtains source source_message where "r = new_memory sha now (md_next db) item_id q source source_message"
    and "db' = \<lparr>md_rows = md_rows db @ [r], md_next = md_next db + 1\<rparr>"
    and "item_id \<notin> mr_item_id ` set (md_rows db)" and "memory_constraints r" and "validate_memory q = Inr ()"
    and "assert_mutation_scope (mq_scope_kind q) (mq_actor_role q) = Inr ()"
    and "source_memory_of (md_rows db) q = Inr source" and "source_message_of msgs convs q = Inr source_message"
proof -
  have "mr_item_id (new_memory sha now i item_id q s m) = item_id" for i s m by (simp add: new_memory_def)
  then show thesis using assms that
    by (auto simp: create_memory_def insert_memory_def split: sum.splits if_splits)
qed

lemma create_memory_InlD: "create_memory sha now item_id msgs convs q db = (Inl e, db') \<Longrightarrow> db' = db"
  by (auto simp: create_memory_def insert_memory_def split: sum.splits if_splits)

lemma get_memory_SomeD:
  "get_memory i org uid rows = Some r \<Longrightarrow> r \<in> set rows \<and> mr_item_id r = i \<and> visible_memory org uid r \<and> mr_deleted_at r = None"
  unfolding get_memory_def by (drule find_SomeD) simp

lemma resolve_memory_SomeD:
  "resolve_memory i org uid b rows = Some r \<Longrightarrow> r \<in> set rows \<and> mr_item_id r = i \<and> visible_memory org uid r
     \<and> (b \<or> mr_deleted_at r = None)"
  unfolding resolve_memory_def by (drule find_SomeD) simp

lemma item_ids_injective: "distinct (map mr_item_id rows) \<Longrightarrow> r \<in> set rows \<Longrightarrow> s \<in> set rows \<Longrightarrow> mr_item_id r = mr_item_id s \<Longrightarrow> r = s"
  by (metis distinct_map inj_onD)

lemma sourced_mono: "sourced sha rows r \<Longrightarrow> sourced sha (rows @ rows') r"
  by (simp add: sourced_def) blast

lemma source_memory_SomeD: "source_memory_of rows q = Inr (Some s) \<Longrightarrow>
    s \<in> set rows \<and> mq_source_memory_item_id q = Some (mr_item_id s) \<and> visible_memory (mq_organization_id q) (mq_actor_user_id q) s"
  by (auto simp: source_memory_of_def split: option.splits dest: get_memory_SomeD)

lemma sourced_new:
  assumes "source_memory_of rows q = Inr source" and "source_message_of msgs convs q = Inr source_message"
    and "\<forall>s \<in> set rows. mr_id s < i"
  shows "sourced sha rows (new_memory sha now i item_id q source source_message)"
proof (cases source)
  case None
  then show ?thesis by (simp add: sourced_def new_memory_def)
next
  case (Some s)
  let ?r = "new_memory sha now i item_id q source source_message"
  have "source_message = None" if "mr_source_message_id ?r = None"
    using that assms(2) by (simp add: new_memory_def source_message_of_def)
  then have "mr_source_message_id ?r = None \<longrightarrow> matches_digest (provenance_of ?r) ''source_sha256'' (sha (mr_content s))"
    using new_memory_digests(2) Some by blast
  moreover have "s \<in> set rows" "mr_item_id s = mr_item_id s" "mr_id s < mr_id ?r"
    using source_memory_SomeD assms(1,3) Some by (auto simp: new_memory_def)
  moreover have "mr_source_memory_item_id ?r = Some (mr_item_id s)" using Some by (simp add: new_memory_def)
  ultimately show ?thesis unfolding sourced_def by auto
qed

lemma memory_wf_create:
  assumes "memory_wf sha db" and "create_memory sha now item_id msgs convs q db = (Inr r, db')"
  shows "memory_wf sha db'"
  using assms(2)
proof (rule create_memory_InrD)
  fix source source_message
  assume r: "r = new_memory sha now (md_next db) item_id q source source_message"
    and db': "db' = \<lparr>md_rows = md_rows db @ [r], md_next = md_next db + 1\<rparr>"
    and fresh: "item_id \<notin> mr_item_id ` set (md_rows db)" and con: "memory_constraints r"
    and src: "source_memory_of (md_rows db) q = Inr source" "source_message_of msgs convs q = Inr source_message"
  have ids: "mr_item_id r = item_id" "mr_id r = md_next db" by (simp_all add: r new_memory_def)
  have "sourced sha (md_rows db) r" unfolding r
    using assms(1) by (intro sourced_new [OF src]) (simp add: memory_wf_def)
  moreover have "matches_digest (provenance_of r) ''content_sha256'' (sha (mr_content r))"
    unfolding r by (rule new_memory_digests(1))
  ultimately show ?thesis using assms(1) fresh con ids unfolding memory_wf_def db'
    by (auto intro: sourced_mono)
qed

text \<open>Updates that leave everything but the deletion mark alone.\<close>

definition keeps_record :: "(memory_record \<Rightarrow> memory_record) \<Rightarrow> bool" where
  "keeps_record f \<longleftrightarrow> (\<forall>r. mr_item_id (f r) = mr_item_id r \<and> mr_id (f r) = mr_id r \<and> mr_content (f r) = mr_content r
      \<and> provenance_of (f r) = provenance_of r \<and> mr_source_message_id (f r) = mr_source_message_id r
      \<and> mr_source_memory_item_id (f r) = mr_source_memory_item_id r \<and> memory_constraints (f r) = memory_constraints r)"

lemma sourced_map:
  assumes "keeps_record f" and "sourced sha rows r"
  shows "sourced sha (map f rows) (f r)"
  unfolding sourced_def
proof (intro allI impI)
  fix j
  assume "mr_source_memory_item_id (f r) = Some j"
  then have "mr_source_memory_item_id r = Some j" using assms(1) by (simp add: keeps_record_def)
  then obtain x where x: "x \<in> set rows" "mr_item_id x = j" "mr_id x < mr_id r"
    "mr_source_message_id r = None \<longrightarrow> matches_digest (provenance_of r) ''source_sha256'' (sha (mr_content x))"
    using assms(2) unfolding sourced_def by blast
  have "f x \<in> set (map f rows)" using x(1) by simp
  then show "\<exists>s \<in> set (map f rows). mr_item_id s = j \<and> mr_id s < mr_id (f r) \<and>
      (mr_source_message_id (f r) = None \<longrightarrow> matches_digest (provenance_of (f r)) ''source_sha256'' (sha (mr_content s)))"
    using x(2-4) assms(1) by (intro bexI [of _ "f x"]) (simp_all add: keeps_record_def)
qed

lemma memory_wf_map:
  assumes "memory_wf sha db" and "keeps_record f"
  shows "memory_wf sha (db\<lparr>md_rows := map f (md_rows db)\<rparr>)"
proof -
  have "mr_item_id \<circ> f = mr_item_id" using assms(2) by (simp add: keeps_record_def fun_eq_iff)
  moreover have "mr_id (f r) < md_next db \<and> memory_constraints (f r)
      \<and> matches_digest (provenance_of (f r)) ''content_sha256'' (sha (mr_content (f r)))" if "r \<in> set (md_rows db)" for r
    using assms that by (simp add: memory_wf_def keeps_record_def)
  moreover have "sourced sha (map f (md_rows db)) (f r)" if "r \<in> set (md_rows db)" for r
    using assms(1) that by (intro sourced_map assms(2)) (simp add: memory_wf_def)
  ultimately show ?thesis using assms(1) unfolding memory_wf_def by auto
qed

lemma memory_wf_delete:
  assumes "memory_wf sha db"
  shows "memory_wf sha (snd (delete_memory now i org uid role db))"
proof -
  have "keeps_record (\<lambda>r. if mr_item_id r = i then r\<lparr>mr_deleted_at := Some now\<rparr> else r)"
    by (simp add: keeps_record_def provenance_of_def memory_constraints_def)
  from memory_wf_map [OF assms this] show ?thesis using assms
    by (simp add: delete_memory_def set_by_def update_where_def split: option.splits sum.splits)
qed

lemma memory_run_wf: "memory_run sha db \<Longrightarrow> memory_wf sha db"
proof (induction rule: memory_run.induct)
  case (create db now item_id msgs convs q)
  obtain r db' where c: "create_memory sha now item_id msgs convs q db = (r, db')" by fastforce
  show ?case
  proof (cases r)
    case (Inr x)
    then show ?thesis using memory_wf_create [OF create.IH] c by simp
  next
    case (Inl e)
    then have "db' = db" using create_memory_InlD c by blast
    then show ?thesis using create.IH c by simp
  qed
qed (simp_all add: memory_wf_delete, simp add: memory_wf_def)

section \<open>What a trace can say\<close>

text \<open>Sources are older than what they support, so the records on the way are never met again.\<close>

definition one_source :: "memory_record \<Rightarrow> bool" where
  "one_source r \<longleftrightarrow> mr_source_memory_item_id r = None \<or> mr_source_message_id r = None"

fun node_ok :: "trace_node \<Rightarrow> bool" where
  "node_ok (MemoryNode _ _ _ _ _ _ _ verified) = verified"
| "node_ok (SourceMismatchNode _) = False"
| "node_ok _ = True"

lemma memory_node_ok: "matches_digest (provenance_of r) ''content_sha256'' (sha (mr_content r)) \<Longrightarrow> node_ok (memory_node sha r)"
  by (simp add: memory_node_def)

lemma trace_loop_sound:
  assumes "memory_wf sha db" and "\<forall>r \<in> set (md_rows db). one_source r"
    and "r \<in> set (md_rows db)" and "\<forall>i \<in> seen. \<exists>s \<in> set (md_rows db). mr_item_id s = i \<and> mr_id r < mr_id s"
    and "trace_loop sha msgs (md_rows db) org uid fuel seen r = (nodes, t)"
  shows "t \<noteq> Cycle \<and> t \<noteq> IntegrityFailure \<and> (\<forall>n \<in> set nodes. node_ok n)"
  using assms(3-5)
proof (induction fuel arbitrary: seen r nodes t)
  case (Suc fuel)
  note wf = assms(1) [unfolded memory_wf_def]
  have unseen: "mr_item_id r \<notin> seen"
    using Suc.prems(1,2) wf item_ids_injective [of "md_rows db" r] by fastforce
  have ok: "node_ok (memory_node sha r)" using Suc.prems(1) wf by (intro memory_node_ok) blast
  show ?case
  proof (cases "case mr_source_memory_item_id r of Some [] \<Rightarrow> None | i \<Rightarrow> i")
    case None
    then show ?thesis using Suc.prems(3) unseen ok by (auto split: option.splits if_splits)
  next
    case (Some i)
    then have i: "mr_source_memory_item_id r = Some i" by (auto split: option.splits list.splits)
    show ?thesis
    proof (cases "resolve_memory i org uid True (md_rows db)")
      case None
      then show ?thesis using Suc.prems(3) unseen ok Some by auto
    next
      case (Some s)
      note s = resolve_memory_SomeD [OF Some]
      have "mr_source_message_id r = None" using assms(2) Suc.prems(1) i by (auto simp: one_source_def)
      moreover obtain s' where "s' \<in> set (md_rows db)" "mr_item_id s' = i" "mr_id s' < mr_id r"
        "mr_source_message_id r = None \<longrightarrow> matches_digest (provenance_of r) ''source_sha256'' (sha (mr_content s'))"
        using wf Suc.prems(1) i unfolding sourced_def by blast
      moreover from this s have "s' = s" using wf item_ids_injective by blast
      ultimately have older: "mr_id s < mr_id r"
        and digest: "matches_digest (provenance_of r) ''source_sha256'' (sha (mr_content s))" by auto
      obtain nodes' t' where rec: "trace_loop sha msgs (md_rows db) org uid fuel (insert (mr_item_id r) seen) s = (nodes', t')"
        by fastforce
      have "\<forall>j \<in> insert (mr_item_id r) seen. \<exists>x \<in> set (md_rows db). mr_item_id x = j \<and> mr_id s < mr_id x"
        using Suc.prems(1,2) older by fastforce
      from Suc.IH [OF conjunct1 [OF s] this rec]
      have "t' \<noteq> Cycle \<and> t' \<noteq> IntegrityFailure \<and> (\<forall>n \<in> set nodes'. node_ok n)" .
      moreover have "nodes = memory_node sha r # nodes'" "t = t'"
        using Suc.prems(3) unseen digest rec Some \<open>(case mr_source_memory_item_id r of Some [] \<Rightarrow> None | i \<Rightarrow> i) = Some i\<close>
        by simp_all
      ultimately show ?thesis using ok by simp
    qed
  qed
qed simp


text \<open>A record that names both a message and a memory, which the API accepts, can never be traced: the one
  digest field holds the message's digest and the resolver compares it with the memory's, so its own
  author's trace ends in an integrity failure although nothing was tampered with.\<close>

theorem two_sources_break_integrity:
  assumes "create_memory sha now item_id msgs convs q db = (Inr r, db')" and "memory_run sha db"
    and "source_message_of msgs convs q = Inr (Some m)" and "source_memory_of (md_rows db) q = Inr (Some s)"
    and "mr_item_id s \<noteq> []" and "sha (ms_content m) \<noteq> sha (mr_content s)" and "0 < max_depth" and "max_depth \<le> 100"
  shows "\<exists>t. trace sha msgs (md_rows db') max_depth item_id (mq_organization_id q) (mq_actor_user_id q) = Inr t
    \<and> tr_termination t = IntegrityFailure \<and> \<not> trace_complete t"
proof -
  have r: "r = new_memory sha now (md_next db) item_id q (Some s) (Some m)" and rows: "md_rows db' = md_rows db @ [r]"
    and fresh: "item_id \<notin> mr_item_id ` set (md_rows db)" and con: "memory_constraints r" and v: "validate_memory q = Inr ()"
    using assms(1,3,4) by (auto elim!: create_memory_InrD)
  have ids: "mr_item_id r = item_id" "mr_deleted_at r = None" "mr_source_memory_item_id r = Some (mr_item_id s)"
    by (simp_all add: r new_memory_def)
  have vis: "visible_memory (mq_organization_id q) (mq_actor_user_id q) r"
    using v by (auto simp: visible_memory_def r new_memory_def validate_memory_def split: if_splits)
  have root: "resolve_memory item_id (mq_organization_id q) (mq_actor_user_id q) False (md_rows db') = Some r"
  proof -
    have "find (\<lambda>x. mr_item_id x = item_id \<and> visible_memory (mq_organization_id q) (mq_actor_user_id q) x \<and> mr_deleted_at x = None)
        (md_rows db) = None"
      using fresh by (auto simp: find_None_iff)
    then show ?thesis using vis ids by (simp add: resolve_memory_def rows find_append)
  qed
  have wf: "memory_wf sha db'" using memory_wf_create [OF memory_run_wf [OF assms(2)] assms(1)] .
  have s: "s \<in> set (md_rows db')" "visible_memory (mq_organization_id q) (mq_actor_user_id q) s"
    using source_memory_SomeD [OF assms(4)] rows by auto
  have "find (\<lambda>x. mr_item_id x = mr_item_id s \<and> visible_memory (mq_organization_id q) (mq_actor_user_id q) x) (md_rows db') \<noteq> None"
    using s by (auto simp: find_None_iff)
  then obtain s' where "resolve_memory (mr_item_id s) (mq_organization_id q) (mq_actor_user_id q) True (md_rows db') = Some s'"
    by (auto simp: resolve_memory_def)
  moreover from this have "s' = s" using resolve_memory_SomeD s(1) wf item_ids_injective by (metis memory_wf_def)
  ultimately have src: "resolve_memory (mr_item_id s) (mq_organization_id q) (mq_actor_user_id q) True (md_rows db') = Some s" by simp
  have "\<not> matches_digest (provenance_of r) ''source_sha256'' (sha (mr_content s))"
    unfolding r using assms(6) by (simp add: new_memory_digests(3))
  moreover obtain n where "nat max_depth = Suc n" using assms(7) by (metis gr0_implies_Suc zero_less_nat_eq)
  moreover have "(case mr_source_memory_item_id r of Some [] \<Rightarrow> None | i \<Rightarrow> i) = Some (mr_item_id s)"
    using ids(3) assms(5) by (auto split: list.splits)
  ultimately show ?thesis using root src assms(7,8)
    by (simp add: trace_def resolver_depth_ok_def trace_complete_def)
qed

lemma message_source_InrD:
  "load_message_source msgs convs i org uid ''user'' = Inr m \<Longrightarrow>
     \<exists>m \<in> set msgs. \<exists>c \<in> set convs. ms_id m = i \<and> ms_organization_id m = org
       \<and> cv_id c = Some (ms_conversation_id m) \<and> cv_user_id c = uid"
  unfolding load_message_source_def by (auto split: option.splits dest!: find_SomeD)

text \<open>What a caller creates is visible to them, belongs to their organization and names them as the actor; an
  organization-wide record needs an owner or admin; a source memory was visible to them and a message cited
  by a personal record is from their own conversation.  A refused creation changes nothing.\<close>

theorem created_memory_authorized:
  "case create_memory sha now item_id msgs convs q db of
     (Inl e, db') \<Rightarrow> db' = db
   | (Inr r, db') \<Rightarrow> md_rows db' = md_rows db @ [r] \<and> mr_actor_user_id r = mq_actor_user_id q
       \<and> visible_memory (mq_organization_id q) (mq_actor_user_id q) r
       \<and> (mr_scope_kind r = ''organization'' \<longrightarrow> mq_actor_role q \<in> {''owner'', ''admin''})
       \<and> (\<forall>i. mr_source_memory_item_id r = Some i \<longrightarrow>
            (\<exists>s \<in> set (md_rows db). mr_item_id s = i \<and> visible_memory (mq_organization_id q) (mq_actor_user_id q) s))
       \<and> (\<forall>i. mr_source_message_id r = Some i \<longrightarrow> mr_scope_kind r = ''user'' \<longrightarrow>
            (\<exists>m \<in> set msgs. \<exists>c \<in> set convs. ms_id m = i \<and> ms_organization_id m = mq_organization_id q
               \<and> cv_id c = Some (ms_conversation_id m) \<and> cv_user_id c = mq_actor_user_id q))"
proof -
  obtain res db' where c: "create_memory sha now item_id msgs convs q db = (res, db')" by fastforce
  show ?thesis
  proof (cases res)
    case (Inl e)
    then show ?thesis using c create_memory_InlD by simp
  next
    case (Inr r)
    show ?thesis
    proof (rule create_memory_InrD [OF c [unfolded Inr]])
      fix source source_message
      assume r: "r = new_memory sha now (md_next db) item_id q source source_message"
        and db': "db' = \<lparr>md_rows = md_rows db @ [r], md_next = md_next db + 1\<rparr>"
        and v: "validate_memory q = Inr ()" and auth: "assert_mutation_scope (mq_scope_kind q) (mq_actor_role q) = Inr ()"
        and src: "source_memory_of (md_rows db) q = Inr source" "source_message_of msgs convs q = Inr source_message"
      have f: "mr_actor_user_id r = mq_actor_user_id q" "mr_scope_kind r = mq_scope_kind q"
        "mr_source_memory_item_id r = map_option mr_item_id source" "mr_source_message_id r = mq_source_message_id q"
        by (simp_all add: r new_memory_def)
      have "visible_memory (mq_organization_id q) (mq_actor_user_id q) r"
        using v by (auto simp: visible_memory_def r new_memory_def validate_memory_def split: if_splits)
      moreover have "mr_scope_kind r = ''organization'' \<longrightarrow> mq_actor_role q \<in> {''owner'', ''admin''}"
        using auth f(2) by (auto simp: assert_mutation_scope_def split: if_splits)
      moreover have "\<exists>s \<in> set (md_rows db). mr_item_id s = i \<and> visible_memory (mq_organization_id q) (mq_actor_user_id q) s"
        if "mr_source_memory_item_id r = Some i" for i
        using that f(3) src(1) source_memory_SomeD by auto
      moreover have "\<exists>m \<in> set msgs. \<exists>c \<in> set convs. ms_id m = i \<and> ms_organization_id m = mq_organization_id q
                   \<and> cv_id c = Some (ms_conversation_id m) \<and> cv_user_id c = mq_actor_user_id q"
        if "mr_source_message_id r = Some i" and "mr_scope_kind r = ''user''" for i
      proof -
        have "mq_source_message_id q = Some i" "mq_scope_kind q = ''user''" using that f(2,4) by simp_all
        then obtain m where "load_message_source msgs convs i (mq_organization_id q) (mq_actor_user_id q) ''user'' = Inr m"
          using src(2) by (auto simp: source_message_of_def split: sum.splits)
        from message_source_InrD [OF this] show ?thesis .
      qed
      ultimately show ?thesis using db' f(1) c Inr by simp
    qed
  qed
qed

text \<open>What a caller deletes was visible to them and alive, again with authority over organization-wide
  records; only its deletion mark changes, and a refused deletion changes nothing.\<close>

theorem deleted_memory_authorized:
  "case delete_memory now i org uid role db of
     (res, db') \<Rightarrow>
       if res = Inr True
       then (\<exists>r \<in> set (md_rows db). mr_item_id r = i \<and> visible_memory org uid r \<and> mr_deleted_at r = None
         \<and> (mr_scope_kind r = ''organization'' \<longrightarrow> role \<in> {''owner'', ''admin''}))
         \<and> md_rows db' = set_by mr_item_id i (\<lambda>r. r\<lparr>mr_deleted_at := Some now\<rparr>) (md_rows db)
       else db' = db"
  using get_memory_SomeD [of i org uid "md_rows db"]
  by (auto simp: delete_memory_def assert_mutation_scope_def split: option.splits if_splits sum.splits)

section \<open>Promotion\<close>

lemma promote_InrD:
  assumes "promote i p new_id content s = Inr (item, s')"
  obtains source where "s i = Some source" and "pr_actor p \<noteq> []" and "pr_reason p \<noteq> []"
    and "\<not> (mi_memory_class source = USER_ORG_KNOWLEDGE \<and> pr_target_class p = PERSISTENT_MEMORY)"
    and "item = \<lparr>mi_item_id = new_id, mi_memory_class = pr_target_class p, mi_scope = mi_scope source, mi_content = content,
           mi_provenance = dict_update (pr_provenance p) [(''source_item_id'', JStr (mi_item_id source)),
             (''source_class'', JStr (memory_class_value (mi_memory_class source)))]\<rparr>"
    and "put_item item s = Inr s'"
  using assms that by (auto simp: promote_def Let_def split: option.splits if_splits sum.splits)

text \<open>Promotion between memory classes is explicit, attributed and additive: it needs an actor and a reason,
  never takes over an existing identity, leaves every stored item as it was, keeps the scope of its source
  and names the source and its class in the provenance whatever the caller declared there.\<close>

theorem promotion_is_additive:
  assumes "promote i p new_id content s = Inr (item, s')"
  shows "\<exists>source. s i = Some source \<and> pr_actor p \<noteq> [] \<and> pr_reason p \<noteq> [] \<and> s new_id = None
    \<and> s' = s(new_id \<mapsto> item) \<and> get_item new_id (mi_scope source) s' = Some item
    \<and> get_item i (mi_scope source) s' = Some source
    \<and> map_of (mi_provenance item) ''source_item_id'' = Some (JStr (mi_item_id source))
    \<and> map_of (mi_provenance item) ''source_class'' = Some (JStr (memory_class_value (mi_memory_class source)))
    \<and> (mi_memory_class source = USER_ORG_KNOWLEDGE \<longrightarrow> mi_memory_class item \<noteq> PERSISTENT_MEMORY)"
  using assms
proof (rule promote_InrD)
  fix source
  assume src: "s i = Some source" and actor: "pr_actor p \<noteq> []" and reason: "pr_reason p \<noteq> []"
    and cls: "\<not> (mi_memory_class source = USER_ORG_KNOWLEDGE \<and> pr_target_class p = PERSISTENT_MEMORY)"
    and item: "item = \<lparr>mi_item_id = new_id, mi_memory_class = pr_target_class p, mi_scope = mi_scope source, mi_content = content,
           mi_provenance = dict_update (pr_provenance p) [(''source_item_id'', JStr (mi_item_id source)),
             (''source_class'', JStr (memory_class_value (mi_memory_class source)))]\<rparr>"
    and put: "put_item item s = Inr s'"
  have f: "mi_item_id item = new_id" "mi_scope item = mi_scope source" "mi_memory_class item = pr_target_class p"
    by (simp_all add: item)
  from put have "s new_id = None" "s' = s(new_id \<mapsto> item)"
    by (auto simp: put_item_def f split: if_splits)
  moreover from this src have "i \<noteq> new_id" by auto
  moreover have "map_of (mi_provenance item) ''source_item_id'' = Some (JStr (mi_item_id source))"
    "map_of (mi_provenance item) ''source_class'' = Some (JStr (memory_class_value (mi_memory_class source)))"
    by (simp_all add: item map_of_dict_update)
  ultimately show ?thesis using src actor reason cls f by (simp add: get_item_def)
qed

section \<open>Witnesses\<close>

definition example_request :: "string \<Rightarrow> identity option \<Rightarrow> string option \<Rightarrow> memory_request" where
  "example_request content source_message source_memory =
     \<lparr>mq_organization_id = 1, mq_actor_user_id = 7, mq_actor_role = ''member'', mq_memory_class = PERSISTENT_MEMORY,
      mq_scope_kind = ''user'', mq_content = content, mq_provenance = [(''origin'', JStr ''chat'')], mq_reason = ''keep'',
      mq_source_message_id = source_message, mq_source_memory_item_id = source_memory\<rparr>"

definition no_memory :: memory_db where
  "no_memory = \<lparr>md_rows = [], md_next = 1\<rparr>"

definition first_memory :: memory_db where
  "first_memory = snd (create_memory (\<lambda>s. s) 5 ''m1'' [] [] (example_request ''alpha'' None None) no_memory)"

definition derived_memory :: memory_db where
  "derived_memory = snd (create_memory (\<lambda>s. s) 6 ''m2'' [] [] (example_request ''beta'' None (Some ''m1'')) first_memory)"

lemma example_runs: "memory_run (\<lambda>s. s) first_memory" "memory_run (\<lambda>s. s) derived_memory"
  unfolding derived_memory_def first_memory_def no_memory_def by (intro memory_run.intros)+

lemma first_memory_rows: "md_rows first_memory = [new_memory (\<lambda>s. s) 5 1 ''m1'' (example_request ''alpha'' None None) None None]"
  by code_simp

lemma strip_alpha: "py_strip ''alpha'' = ''alpha''"
  by code_simp

definition cited_message :: message where
  "cited_message = \<lparr>ms_id = 3, ms_conversation_id = 4, ms_organization_id = 1, ms_execution_id = None, ms_role = ''user'',
     ms_content = ''gamma'', ms_bot_id = None, ms_status = Completed, ms_ai_marked = False, ms_created_at = 2\<rparr>"

definition own_conversation :: conversation where
  "own_conversation = \<lparr>cv_id = Some 4, cv_user_id = 7, cv_organization_id = 1, cv_title = ''talk'', cv_lifecycle = ''active'',
     cv_version = 1, cv_archived_at = None, cv_created_at = 1, cv_updated_at = 1\<rparr>"


theorem two_sources_break_integrity_witness:
  "\<exists>r db'. create_memory (\<lambda>s. s) 6 ''m2'' [cited_message] [own_conversation] (example_request ''beta'' (Some 3) (Some ''m1'')) first_memory
        = (Inr r, db')
     \<and> (\<exists>t. trace (\<lambda>s. s) [cited_message] (md_rows db') 20 ''m2'' 1 7 = Inr t \<and> tr_termination t = IntegrityFailure)"
proof -
  let ?q = "example_request ''beta'' (Some 3) (Some ''m1'')"
  let ?c = "create_memory (\<lambda>s. s) 6 ''m2'' [cited_message] [own_conversation] ?q first_memory"
  have "\<not> isl (fst ?c)" by code_simp
  then obtain r db' where c: "?c = (Inr r, db')" by (metis prod.collapse sum.collapse(2))
  have m: "source_message_of [cited_message] [own_conversation] ?q = Inr (Some cited_message)" by code_simp
  have s: "source_memory_of (md_rows first_memory) ?q
      = Inr (Some (new_memory (\<lambda>s. s) 5 1 ''m1'' (example_request ''alpha'' None None) None None))"
    unfolding first_memory_rows by code_simp
  have ids: "mq_organization_id ?q = 1" "mq_actor_user_id ?q = 7" by (simp_all add: example_request_def)
  have "\<exists>t. trace (\<lambda>s. s) [cited_message] (md_rows db') 20 ''m2'' (mq_organization_id ?q) (mq_actor_user_id ?q) = Inr t
      \<and> tr_termination t = IntegrityFailure \<and> \<not> trace_complete t"
    by (rule two_sources_break_integrity [OF c example_runs(1) m s])
      (simp_all add: new_memory_def example_request_def cited_message_def strip_alpha)
  then show ?thesis using c unfolding ids by blast
qed

theorem created_memory_authorized_witness:
  "\<exists>r db'. create_memory (\<lambda>s. s) 6 ''m2'' [cited_message] [own_conversation] (example_request ''beta'' (Some 3) (Some ''m1'')) first_memory
        = (Inr r, db')
     \<and> visible_memory 1 7 r \<and> mr_source_message_id r = Some 3
     \<and> (\<exists>m \<in> set [cited_message]. ms_id m = 3 \<and> ms_organization_id m = 1)"
proof -
  let ?q = "example_request ''beta'' (Some 3) (Some ''m1'')"
  let ?c = "create_memory (\<lambda>s. s) 6 ''m2'' [cited_message] [own_conversation] ?q first_memory"
  have "case ?c of (Inl _, _) \<Rightarrow> False | (Inr r, _) \<Rightarrow> mr_source_message_id r = Some 3 \<and> mr_scope_kind r = ''user''" by code_simp
  then obtain r db' where c: "?c = (Inr r, db')" "mr_source_message_id r = Some 3" "mr_scope_kind r = ''user''"
    by (auto split: prod.splits sum.splits)
  have ids: "mq_organization_id ?q = 1" "mq_actor_user_id ?q = 7" by (simp_all add: example_request_def)
  show ?thesis
    using created_memory_authorized [where sha = "\<lambda>s. s" and now = 6 and item_id = "''m2''" and msgs = "[cited_message]"
        and convs = "[own_conversation]" and q = ?q and db = first_memory] c
    unfolding c(1) ids by auto
qed

definition example_store :: memory_store where
  "example_store = (\<lambda>_. None)(''h'' \<mapsto> \<lparr>mi_item_id = ''h'', mi_memory_class = CONVERSATION_HISTORY, mi_scope = ''u7'',
     mi_content = JStr ''hi'', mi_provenance = []\<rparr>)"

definition example_promotion :: promotion where
  "example_promotion = \<lparr>pr_actor = ''ann'', pr_reason = ''useful'', pr_target_class = PERSISTENT_MEMORY, pr_provenance = []\<rparr>"

theorem promotion_is_additive_witness:
  "\<exists>item s'. promote ''h'' example_promotion ''p'' (JStr ''hi'') example_store = Inr (item, s')
     \<and> example_store ''p'' = None \<and> get_item ''p'' ''u7'' s' = Some item"
proof -
  have "\<exists>item s'. promote ''h'' example_promotion ''p'' (JStr ''hi'') example_store = Inr (item, s')"
    by (simp add: promote_def example_store_def example_promotion_def put_item_def Let_def dict_update_def dict_set_def)
  then obtain item s' where p: "promote ''h'' example_promotion ''p'' (JStr ''hi'') example_store = Inr (item, s')" by blast
  from promotion_is_additive [OF p] have "example_store ''p'' = None"
    and "\<exists>x. example_store ''h'' = Some x \<and> get_item ''p'' (mi_scope x) s' = Some item" by auto
  then show ?thesis using p by (auto simp: example_store_def)
qed

end
