(* ===== verification/ChatPreflight.thy ===== *)
theory ChatPreflight
  imports Steps GovernanceAudit Conversations ContextConstruction Reservation Ingestion
begin

text \<open>
  The preparation of a chat completion (\<^verbatim>\<open>api/v1/chat.py\<close>, the closures of \<^verbatim>\<open>create_chat_completion\<close>)
  in the order \<^verbatim>\<open>application/chat_execution.py\<close> gives them: authorization and its audit row, the
  idempotency reservation, the token budget, the durable exchange, the provider with its context; then what
  the handler does when one of them raises.  The closures share their \<^verbatim>\<open>nonlocal\<close> variables, the database
  session, the budget counters and the process-local gate: these are the state.  What the request carries,
  what other tables hold and which calls fail is the world.
\<close>

section \<open>Requests, world, state\<close>

record chat_payload =
  cq_conversation_id :: identity
  cq_bot_id :: identity
  cq_prompt :: string
  cq_idempotency_key :: "string option"
  cq_verify :: bool
  cq_knowledge_scope :: "string option"

record chat_settings =
  cs_redis_url :: string
  cs_app_env :: string
  cs_user_token_limit :: "int option"
  cs_organization_token_limit :: "int option"
  cs_max_attempts :: int

record 'v preflight_world =
  pw_settings :: chat_settings
  pw_environ :: environ
  pw_sha :: "string \<Rightarrow> string"
  pw_request_id :: string
  pw_request :: idem_request
  pw_authorization :: auth_context
  pw_user_id :: identity
  pw_org :: identity
  pw_conversations :: "conversation list"
  pw_bots :: "bot list"
  pw_sql_fails :: "nat \<Rightarrow> bool"
  pw_decision_env :: db_env
  pw_decision_id :: string
  pw_ledger :: idem_world
  pw_loads :: "string \<Rightarrow> json option"
  pw_fresh_execution :: string
  pw_recovery_env :: db_env
  pw_redis_up :: bool
  pw_redis_now :: microseconds
  pw_persist_env :: db_env
  pw_api_key :: "string option"
  pw_post :: "string \<Rightarrow> 'v embedding_reply"
  pw_engine :: "'v search_engine"
  pw_documents :: "'v document_db"
  pw_release_up :: bool
  pw_release_now :: microseconds
  pw_fail_env :: db_env

datatype budgeted_execution =
    TenantBudget execution_reservation
  | GateBudget cost_estimate usage_budget_reservation

record idempotency_reservation =
  is_key :: "string option"
  is_lease_token :: "string option"
  is_cached_response :: "json option"
  is_record_id :: "identity option"
  is_recovery :: bool

record preflight =
  pf_db :: chat_db
  pf_redis :: redis
  pf_gate :: usage_budget_gate
  pf_reserved :: idempotency_reservation
  pf_budget :: "budgeted_execution option"
  pf_persisted :: "persisted_chat_execution option"
  pf_execution_id :: "string option"
  pf_decision :: "string option"

definition no_reservation :: idempotency_reservation where
  "no_reservation = \<lparr>is_key = None, is_lease_token = None, is_cached_response = None, is_record_id = None,
     is_recovery = False\<rparr>"

definition new_preflight :: "chat_db \<Rightarrow> redis \<Rightarrow> usage_budget_gate \<Rightarrow> preflight" where
  "new_preflight db s g = \<lparr>pf_db = db, pf_redis = s, pf_gate = g, pf_reserved = no_reservation, pf_budget = None,
     pf_persisted = None, pf_execution_id = None, pf_decision = None\<rparr>"

record authorized_chat =
  au_conversation :: conversation
  au_bot :: bot
  au_knowledge_scope :: "string option"
  au_permit :: permit
  au_decision_id :: string

record provider_context =
  ctx_provider :: governed_provider
  ctx_messages :: "chat_message list"
  ctx_system_prompt :: "string option"

text \<open>The exceptions the handler tells apart; \<open>PreOther\<close> is any other \<^verbatim>\<open>Exception\<close>.\<close>

datatype preflight_error =
    PreHttp api_error
  | PreBudgetExceeded
  | PreBudgetUnavailable
  | PrePersistence persistence_error
  | PreSqlError
  | PreContextExceeded
  | PreOther string

type_synonym 'a pstep = "(preflight, preflight_error, 'a) step"

text \<open>An \<^verbatim>\<open>api_error\<close> that is no \<^verbatim>\<open>HTTPException\<close> is an exception like any other.\<close>

definition raised :: "api_error \<Rightarrow> preflight_error" where
  "raised e = (case e of HTTPException _ _ \<Rightarrow> PreHttp e | ServerError s \<Rightarrow> PreOther s)"

section \<open>Authorization\<close>

definition valid_knowledge_scope :: "string option \<Rightarrow> api_error + string option" where
  "valid_knowledge_scope value = (case value of
     None \<Rightarrow> Inr None
   | Some v \<Rightarrow>
       (let scope = py_strip v in
        if scope = [] \<or> scope \<in> {''.'', ''..''} \<or> (\<exists>part \<in> set (py_split CHR ''/'' scope). part \<in> {''.'', ''..''})
        then Inl (HTTPException 422 ''Invalid knowledge_scope'') else Inr (Some scope)))"

definition decision_of :: "'v preflight_world \<Rightarrow> bot \<Rightarrow> bool \<Rightarrow> string \<Rightarrow> string \<Rightarrow> string \<Rightarrow> permit option \<Rightarrow> decision_request" where
  "decision_of w b allowed reason provider model pm =
     \<lparr>dr_request_id = pw_request_id w, dr_request_hash = pw_sha w (py_or_empty (rq_cached_body (pw_request w))),
      dr_authorization = pw_authorization w, dr_bot_id = bot_key b,
      dr_bot_organization_id = (case b_organization_id b of None \<Rightarrow> 0 | Some i \<Rightarrow> i),
      dr_allowed = allowed, dr_reason = reason, dr_provider = Some provider, dr_model = Some model, dr_permit = pm\<rparr>"

text \<open>The decision of the policy and its durable row.  A bot without an organization cannot be recorded: the
  column is not nullable.\<close>

definition audit_denial :: "'v preflight_world \<Rightarrow> bot \<Rightarrow> string \<Rightarrow> permit pstep" where
  "audit_denial w b reason pf =
     (let unavailable = Inl (PreHttp (HTTPException 503 ''Governance audit is unavailable.'')) in
      if b_organization_id b = None then (unavailable, pf)
      else (case record_provider_decision (pw_sha w) (pw_decision_env w) (pw_decision_id w)
                (decision_of w b False reason (b_provider b) (b_model b) None) (pf_db pf) of
        (Inl _, db) \<Rightarrow> (unavailable, pf\<lparr>pf_db := db\<rparr>)
      | (Inr _, db) \<Rightarrow> (Inl (PreHttp (HTTPException 403 ''Provider execution is not permitted.'')), pf\<lparr>pf_db := db\<rparr>)))"

definition audit_grant :: "'v preflight_world \<Rightarrow> bot \<Rightarrow> permit \<Rightarrow> permit pstep" where
  "audit_grant w b pm pf =
     (case record_provider_decision (pw_sha w) (pw_decision_env w) (pw_decision_id w)
             (decision_of w b True ''granted'' (pm_provider pm) (pm_model pm) (Some pm)) (pf_db pf) of
        (Inl _, db) \<Rightarrow> (Inl (PreHttp (HTTPException 503 ''Governance audit is unavailable.'')), pf\<lparr>pf_db := db\<rparr>)
      | (Inr i, db) \<Rightarrow> (Inr pm, pf\<lparr>pf_db := db, pf_decision := Some i\<rparr>))"

definition decide_provider :: "'v preflight_world \<Rightarrow> bot \<Rightarrow> permit pstep" where
  "decide_provider w b =
     (case authorize_provider_execution (pw_environ w) (pw_authorization w) b (pw_org w) of
        Inl (ProviderPolicyDenied reason) \<Rightarrow> audit_denial w b reason
      | Inl _ \<Rightarrow> fail (PreOther ''provider policy'')
      | Inr pm \<Rightarrow> audit_grant w b pm)"

definition open_conversation :: "'v preflight_world \<Rightarrow> chat_payload \<Rightarrow> preflight_error + conversation" where
  "open_conversation w q =
     (if pw_sql_fails w 0 then Inl PreSqlError
      else (case find (\<lambda>c. cv_id c = Some (cq_conversation_id q) \<and> cv_organization_id c = pw_org w
                \<and> cv_user_id c = pw_user_id w) (pw_conversations w) of
          None \<Rightarrow> Inl (PreHttp (HTTPException 404 ''Conversation not found or access denied''))
        | Some c \<Rightarrow>
            (case hydrate_conversation c of
               Inl (ConversationStateError _) \<Rightarrow> Inl (PreHttp (HTTPException 409 ''Conversation is archived.''))
             | Inl (StateValueError s) \<Rightarrow> Inl (PreOther s)
             | Inr a \<Rightarrow> (case assert_accepts_execution a of
                   Inl _ \<Rightarrow> Inl (PreHttp (HTTPException 409 ''Conversation is archived.'')) | Inr _ \<Rightarrow> Inr c))))"

definition accessible_bot :: "'v preflight_world \<Rightarrow> chat_payload \<Rightarrow> preflight_error + bot" where
  "accessible_bot w q =
     (if pw_sql_fails w 1 then Inl PreSqlError
      else (case find (\<lambda>b. b_id b = Some (cq_bot_id q)) (pw_bots w) of
          None \<Rightarrow> Inl (PreHttp (HTTPException 404 ''Bot not found or access denied''))
        | Some b \<Rightarrow> if bot_accessible b (pw_org w) then Inr b
            else Inl (PreHttp (HTTPException 404 ''Bot not found or access denied''))))"

definition either :: "'e + 'a \<Rightarrow> ('s, 'e, 'a) step" where
  "either r g = (r, g)"

definition authorize_chat :: "'v preflight_world \<Rightarrow> chat_payload \<Rightarrow> authorized_chat pstep" where
  "authorize_chat w q =
     and_then (either (open_conversation w q)) (\<lambda>c.
     and_then (either (accessible_bot w q)) (\<lambda>b.
     and_then (decide_provider w b) (\<lambda>pm.
     (case valid_knowledge_scope (cq_knowledge_scope q) of
        Inl e \<Rightarrow> fail (PreHttp e)
      | Inr scope \<Rightarrow> give \<lparr>au_conversation = c, au_bot = b, au_knowledge_scope = scope, au_permit = pm,
                            au_decision_id = pw_decision_id w\<rparr>))))"

section \<open>The idempotency reservation\<close>

definition identity_for :: "'v preflight_world \<Rightarrow> string option \<Rightarrow> identity option \<Rightarrow> string" where
  "identity_for w key record_id = execution_identity (pw_sha w) (pw_fresh_execution w) (pw_org w) (pw_user_id w) key record_id"

text \<open>A completed record whose response is stored: \<^verbatim>\<open>json.loads\<close> of the reference.  A stored \<^verbatim>\<open>null\<close> is no
  cached response and leaves the execution without an identity.\<close>

definition replay_reservation :: "'v preflight_world \<Rightarrow> string \<Rightarrow> identity option \<Rightarrow> string \<Rightarrow> idempotency_reservation pstep" where
  "replay_reservation w key record_id cached pf =
     (case pw_loads w cached of
        None \<Rightarrow> (Inl (PreOther ''JSONDecodeError''), pf)
      | Some v \<Rightarrow>
          (let r = \<lparr>is_key = Some key, is_lease_token = None, is_cached_response = (if v = JNull then None else Some v),
                    is_record_id = record_id, is_recovery = False\<rparr>
           in (Inr r, pf\<lparr>pf_reserved := r\<rparr>)))"

definition adopt_outcome :: "'v preflight_world \<Rightarrow> string \<Rightarrow> idempotency_outcome \<Rightarrow> idempotency_reservation pstep" where
  "adopt_outcome w key outcome pf =
     (let r = \<lparr>is_key = Some key, is_lease_token = io_lease_token outcome, is_cached_response = None,
               is_record_id = io_record_id outcome, is_recovery = io_is_recovery outcome\<rparr>;
          eid = identity_for w (Some key) (io_record_id outcome);
          pf1 = pf\<lparr>pf_reserved := r, pf_execution_id := Some eid\<rparr>
      in (case io_record_id outcome of
            Some i \<Rightarrow>
              if io_is_recovery outcome
              then (case assert_recovery_allowed (pw_recovery_env w) eid i (io_lease_token outcome) (pf_db pf1) of
                      (Inl e, db) \<Rightarrow> (Inl (PrePersistence e), pf1\<lparr>pf_db := db\<rparr>)
                    | (Inr _, db) \<Rightarrow> (Inr r, pf1\<lparr>pf_db := db\<rparr>))
              else (Inr r, pf1)
          | None \<Rightarrow> (Inr r, pf1)))"

definition reserve_idempotency :: "'v preflight_world \<Rightarrow> chat_payload \<Rightarrow> idempotency_reservation pstep" where
  "reserve_idempotency w q pf =
     (case resolve_idempotency_key (pw_request w) (cq_idempotency_key q) of
        Inl e \<Rightarrow> (Inl (raised e), pf)
      | Inr None \<Rightarrow> (Inr (pf_reserved pf), pf\<lparr>pf_execution_id := Some (identity_for w None None)\<rparr>)
      | Inr (Some key) \<Rightarrow>
          (case begin_idempotency (pw_sha w) (pw_ledger w) 0 (pw_request w) key (pf_db pf) of
             (Inl e, db) \<Rightarrow> (Inl (raised e), pf\<lparr>pf_db := db\<rparr>)
           | (Inr outcome, db) \<Rightarrow>
               (case (if io_status outcome = Completed then read_cached_response (pw_request w) key db else Inr None) of
                  Inl e \<Rightarrow> (Inl (raised e), pf\<lparr>pf_db := db\<rparr>)
                | Inr (Some cached) \<Rightarrow> replay_reservation w key (io_record_id outcome) cached (pf\<lparr>pf_db := db\<rparr>)
                | Inr None \<Rightarrow> adopt_outcome w key outcome (pf\<lparr>pf_db := db\<rparr>))))"

section \<open>The budget\<close>

definition estimator_chars :: int where "estimator_chars = 4"

definition estimator_output :: int where "estimator_output = 1024"

definition budget_window :: int where "budget_window = 3600"

definition reserve_gate :: "'v preflight_world \<Rightarrow> chat_payload \<Rightarrow> unit pstep" where
  "reserve_gate w q pf =
     (if cs_app_env (pw_settings w) \<noteq> ''development'' then (Inl PreBudgetUnavailable, pf)
      else (case reserve_provider_execution estimator_chars estimator_output (pf_gate pf) (pw_user_id w) (pw_org w)
                  (cq_prompt q) (cq_verify q) of
          (Inl (BudgetExceeded _), g) \<Rightarrow> (Inl PreBudgetExceeded, pf\<lparr>pf_gate := g\<rparr>)
        | (Inl (BudgetUnavailable _), g) \<Rightarrow> (Inl PreBudgetUnavailable, pf\<lparr>pf_gate := g\<rparr>)
        | (Inr (e, r), g) \<Rightarrow> (Inr (), pf\<lparr>pf_gate := g, pf_budget := Some (GateBudget e r)\<rparr>)))"

definition reserve_tokens :: "'v preflight_world \<Rightarrow> chat_payload \<Rightarrow> string \<Rightarrow> int \<Rightarrow> int \<Rightarrow> unit pstep" where
  "reserve_tokens w q eid user_limit organization_limit pf =
     (case reserve_execution (pw_redis_up w) (pw_redis_now w) estimator_chars estimator_output budget_window eid
             (pw_user_id w) (pw_org w) (cq_prompt q) (cq_verify q) user_limit organization_limit (pf_redis pf) of
        (Inl (BudgetReservationDenied _), s) \<Rightarrow> (Inl PreBudgetExceeded, pf\<lparr>pf_redis := s\<rparr>)
      | (Inl BudgetBackendUnavailable, s) \<Rightarrow> (Inl PreBudgetUnavailable, pf\<lparr>pf_redis := s\<rparr>)
      | (Inl (BudgetValueError m), s) \<Rightarrow> (Inl (PreOther m), pf\<lparr>pf_redis := s\<rparr>)
      | (Inr r, s) \<Rightarrow> (Inr (), pf\<lparr>pf_redis := s, pf_budget := Some (TenantBudget r)\<rparr>))"

definition reserve_budget :: "'v preflight_world \<Rightarrow> chat_payload \<Rightarrow> unit pstep" where
  "reserve_budget w q pf =
     (if cs_redis_url (pw_settings w) = [] then reserve_gate w q pf
      else (case pf_execution_id pf of
          None \<Rightarrow> (Inl (PrePersistence (PersistenceConflict ''execution identity is missing'')), pf)
        | Some eid \<Rightarrow>
            (case (cs_user_token_limit (pw_settings w), cs_organization_token_limit (pw_settings w)) of
               (Some ul, Some ol) \<Rightarrow> reserve_tokens w q eid ul ol pf
             | _ \<Rightarrow> (Inl PreBudgetUnavailable, pf))))"

section \<open>The durable exchange\<close>

definition budget_estimate :: "budgeted_execution \<Rightarrow> cost_estimate" where
  "budget_estimate b = (case b of TenantBudget r \<Rightarrow> er_estimate r | GateBudget e _ \<Rightarrow> e)"

definition exchange_of :: "'v preflight_world \<Rightarrow> chat_payload \<Rightarrow> authorized_chat \<Rightarrow> string \<Rightarrow> budgeted_execution
    \<Rightarrow> idempotency_reservation \<Rightarrow> exchange_request" where
  "exchange_of w q a eid b r =
     \<lparr>px_execution_id = eid, px_request_id = pw_request_id w, px_conversation_id = cq_conversation_id q,
      px_organization_id = pw_org w, px_user_id = pw_user_id w, px_bot_id = bot_key (au_bot a),
      px_bot_organization_id = (case b_organization_id (au_bot a) of None \<Rightarrow> 0 | Some i \<Rightarrow> i),
      px_provider = b_provider (au_bot a), px_model = b_model (au_bot a), px_prompt = cq_prompt q,
      px_idempotency_record_id = is_record_id r, px_estimated_tokens = estimate_total_tokens (budget_estimate b),
      px_estimated_cost = 0, px_verification = cq_verify q, px_recover = is_recovery r,
      px_lease_token = is_lease_token r, px_max_attempts = cs_max_attempts (pw_settings w),
      px_governance_decision_id = Some (au_decision_id a)\<rparr>"

definition persist_request :: "'v preflight_world \<Rightarrow> chat_payload \<Rightarrow> authorized_chat \<Rightarrow> unit pstep" where
  "persist_request w q a pf =
     (case (pf_budget pf, pf_execution_id pf) of
        (None, _) \<Rightarrow> (Inl (PrePersistence (PersistenceConflict ''budget reservation is missing'')), pf)
      | (_, None) \<Rightarrow> (Inl (PrePersistence (PersistenceConflict ''execution identity is missing'')), pf)
      | (Some b, Some eid) \<Rightarrow>
          (case prepare_exchange (pw_persist_env w) (exchange_of w q a eid b (pf_reserved pf)) (pf_db pf) of
             (Inl e, db) \<Rightarrow> (Inl (PrePersistence e), pf\<lparr>pf_db := db\<rparr>)
           | (Inr px, db) \<Rightarrow> (Inr (), pf\<lparr>pf_db := db, pf_persisted := Some px\<rparr>)))"

section \<open>The provider and its context\<close>

definition provider_of :: "'v preflight_world \<Rightarrow> authorized_chat \<Rightarrow> preflight_error + governed_provider" where
  "provider_of w a = (case provider_for_bot (pw_environ w) (au_bot a) (pw_org w) (au_permit a) of
     Inl (PolicyError _) \<Rightarrow> Inl (PreOther ''provider policy'') | Inl (ApiError e) \<Rightarrow> Inl (raised e) | Inr gp \<Rightarrow> Inr gp)"

definition knowledge_of :: "search_result \<Rightarrow> knowledge_result" where
  "knowledge_of r = \<lparr>kr_content = PStr (sr_content r),
     kr_metadata = (case sr_metadata r of None \<Rightarrow> PNone | Some m \<Rightarrow> PStr m)\<rparr>"

text \<open>\<^verbatim>\<open>hybrid_search\<close> is called without a caller: the private scope has no user to check.\<close>

definition knowledge_context :: "'v preflight_world \<Rightarrow> string \<Rightarrow> string option \<Rightarrow> preflight_error + string option" where
  "knowledge_context w prompt scope = (case py_or_none (py_or_empty scope) of
     None \<Rightarrow> Inr None
   | Some sc \<Rightarrow>
       (case generate_embedding (pw_api_key w) (pw_post w) prompt of
          Inl _ \<Rightarrow> Inl (PreOther ''embedding'')
        | Inr v \<Rightarrow>
            if pw_sql_fails w 3 then Inl PreSqlError
            else (case hybrid_search (pw_engine w) (pw_documents w) (pw_org w) v prompt 6 sc None of
                Inl SearchPermissionError \<Rightarrow> Inl (PreOther ''PermissionError'')
              | Inr results \<Rightarrow> Inr (build_knowledge_system_context (map knowledge_of results)))))"

definition combined_system_prompt :: "string option \<Rightarrow> string option \<Rightarrow> string option" where
  "combined_system_prompt bot_prompt knowledge =
     (let parts = filter (\<lambda>p. p \<noteq> []) (map (py_strip \<circ> py_or_empty) [bot_prompt, knowledge])
      in if parts = [] then None else Some (py_join [CHR 0x0A, CHR 0x0A] parts))"

definition chat_history :: "'v preflight_world \<Rightarrow> chat_payload \<Rightarrow> string \<Rightarrow> message list \<Rightarrow> message list" where
  "chat_history w q eid rows =
     take 200 (rev (sort_key (\<lambda>m. (ms_created_at m, ms_id m))
       (filter (\<lambda>m. ms_conversation_id m = cq_conversation_id q \<and> ms_organization_id m = pw_org w
          \<and> ms_status m = Completed \<and> ms_role m \<in> {''user'', ''assistant''} \<and> ms_execution_id m \<noteq> Some eid) rows)))"

definition model_metadata :: "string \<Rightarrow> string \<Rightarrow> preflight_error + provider_model_metadata" where
  "model_metadata provider model = (case normalize_provider provider of
     Inl e \<Rightarrow> Inl (raised e)
   | Inr p \<Rightarrow> (case model_capability_catalog (p, model) of
        None \<Rightarrow> Inl (PreOther ''model capability metadata is unavailable'') | Some md \<Rightarrow> Inr md))"

definition preflight_policy :: "provider_model_metadata \<Rightarrow> context_policy" where
  "preflight_policy md = \<lparr>cp_context_window_tokens = mm_context_window_tokens md, cp_reserved_output_tokens = 1000,
     cp_max_history_tokens = 8000, cp_max_history_messages = 40, cp_max_source_messages = 200,
     cp_max_compaction_tokens = 1000, cp_chars_per_token = chat_chars_per_token\<rparr>"

definition chat_context :: "'v preflight_world \<Rightarrow> chat_payload \<Rightarrow> authorized_chat \<Rightarrow> string option \<Rightarrow> message list
    \<Rightarrow> preflight_error + constructed_context" where
  "chat_context w q a system history =
     (case model_metadata (b_provider (au_bot a)) (b_model (au_bot a)) of
        Inl e \<Rightarrow> Inl e
      | Inr md \<Rightarrow>
          (case context_policy_checked (preflight_policy md) of
             Inl _ \<Rightarrow> Inl (PreOther ''context policy'')
           | Inr p \<Rightarrow>
               (case build_context (pw_sha w) p (map context_item_of history) (cq_prompt q) system of
                  Inl (ContextBudgetExceeded _) \<Rightarrow> Inl PreContextExceeded
                | Inl (ContextValueError m) \<Rightarrow> Inl (PreOther m)
                | Inr ctx \<Rightarrow> Inr ctx)))"

definition context_for :: "'v preflight_world \<Rightarrow> chat_payload \<Rightarrow> authorized_chat \<Rightarrow> governed_provider \<Rightarrow> string option
    \<Rightarrow> provider_context pstep" where
  "context_for w q a gp knowledge pf =
     (case pf_persisted pf of
        None \<Rightarrow> (Inl (PrePersistence (PersistenceConflict ''execution persistence is missing before context construction'')), pf)
      | Some px \<Rightarrow>
          if pw_sql_fails w 2 then (Inl PreSqlError, pf)
          else (case chat_context w q a (combined_system_prompt (b_system_prompt (au_bot a)) knowledge)
                    (chat_history w q (pce_execution_id px) (messages (pf_db pf))) of
              Inl e \<Rightarrow> (Inl e, pf)
            | Inr ctx \<Rightarrow> (Inr \<lparr>ctx_provider = gp, ctx_messages = cc_messages ctx,
                                ctx_system_prompt = cc_system_prompt ctx\<rparr>, pf)))"

definition prepare_provider :: "'v preflight_world \<Rightarrow> chat_payload \<Rightarrow> authorized_chat \<Rightarrow> provider_context pstep" where
  "prepare_provider w q a =
     and_then (either (provider_of w a)) (\<lambda>gp.
     and_then (either (knowledge_context w (cq_prompt q) (au_knowledge_scope a))) (context_for w q a gp))"

section \<open>The boundary\<close>

text \<open>\<^verbatim>\<open>ChatExecutionBoundary.prepare\<close>: a replay is answered before anything is charged or stored.\<close>

datatype prepared_chat =
    Replay idempotency_reservation json
  | Prepared_chat authorized_chat provider_context idempotency_reservation

definition prepare_new :: "'v preflight_world \<Rightarrow> chat_payload \<Rightarrow> authorized_chat \<Rightarrow> idempotency_reservation \<Rightarrow> prepared_chat pstep" where
  "prepare_new w q a idem =
     and_then (reserve_budget w q) (\<lambda>_.
     and_then (persist_request w q a) (\<lambda>_.
     and_then (prepare_provider w q a) (\<lambda>ctx. give (Prepared_chat a ctx idem))))"

definition prepare :: "'v preflight_world \<Rightarrow> chat_payload \<Rightarrow> prepared_chat pstep" where
  "prepare w q =
     and_then (authorize_chat w q) (\<lambda>a.
     and_then (reserve_idempotency w q) (\<lambda>idem.
     (case is_cached_response idem of
        Some j \<Rightarrow> give (Replay idem j)
      | None \<Rightarrow> prepare_new w q a idem)))"

section \<open>Failures\<close>

definition release_preflight_lease :: "microseconds \<Rightarrow> idem_request \<Rightarrow> idempotency_reservation \<Rightarrow> int \<Rightarrow> chat_db \<Rightarrow> chat_db" where
  "release_preflight_lease now rq r code db =
     (case (py_or_none (py_or_empty (is_key r)), py_or_none (py_or_empty (is_lease_token r))) of
        (Some key, Some token) \<Rightarrow> snd (complete_idempotency now rq key code ''failed'' (Some token) db)
      | _ \<Rightarrow> db)"

definition release_budget :: "'v preflight_world \<Rightarrow> preflight \<Rightarrow> preflight" where
  "release_budget w pf =
     (case (pf_persisted pf, pf_budget pf) of
        (None, Some (TenantBudget r)) \<Rightarrow>
          if cs_redis_url (pw_settings w) = [] then pf
          else pf\<lparr>pf_redis := snd (release_tenant (pw_release_up w) (pw_release_now w) (er_tenant r) (pf_redis pf))\<rparr>
      | _ \<Rightarrow> pf)"

definition failed_request :: "persisted_chat_execution \<Rightarrow> idempotency_reservation \<Rightarrow> int \<Rightarrow> failure_code \<Rightarrow> finalize_request" where
  "failed_request px r code failure =
     \<lparr>fz_execution_id = pce_execution_id px, fz_terminal_status = Failed, fz_content = [], fz_response_status = code,
      fz_response_reference = ''failed'', fz_lease_token = is_lease_token r, fz_failure_code = Some failure, fz_accounting = []\<rparr>"

definition close_decision_of :: "'v preflight_world \<Rightarrow> int \<Rightarrow> failure_code \<Rightarrow> unit pstep" where
  "close_decision_of w code failure pf =
     (case pf_decision pf of
        None \<Rightarrow> (Inr (), pf)
      | Some i \<Rightarrow>
          (case record_result (pw_fail_env w) i ''preflight_failed'' code (Some failure) (pf_db pf) of
             (Inl _, db) \<Rightarrow> (Inl (PreHttp (HTTPException 503 ''Governance audit is unavailable.'')), pf\<lparr>pf_db := db\<rparr>)
           | (Inr _, db) \<Rightarrow> (Inr (), pf\<lparr>pf_db := db\<rparr>)))"

definition fail_preflight :: "'v preflight_world \<Rightarrow> int \<Rightarrow> failure_code \<Rightarrow> unit pstep" where
  "fail_preflight w code failure pf =
     (let pf1 = release_budget w pf in
      case pf_persisted pf1 of
        Some px \<Rightarrow> (Inr (), pf1\<lparr>pf_db := snd (finalize (pw_fail_env w) (failed_request px (pf_reserved pf1) code failure) (pf_db pf1))\<rparr>)
      | None \<Rightarrow> and_then (close_decision_of w code failure) (\<lambda>_ pf2.
          (Inr (), pf2\<lparr>pf_db := release_preflight_lease (env_now (pw_fail_env w)) (pw_request w) (pf_reserved pf2) code (pf_db pf2)\<rparr>)) pf1)"

text \<open>What each exception is answered with and recorded as.\<close>

fun preflight_answer :: "preflight_error \<Rightarrow> int \<times> failure_code \<times> string" where
  "preflight_answer PreBudgetExceeded = (429, BUDGET_REJECTED, ''Execution budget exceeded.'')"
| "preflight_answer PreBudgetUnavailable = (503, DATABASE_FAILURE, ''Execution budget unavailable.'')"
| "preflight_answer (PrePersistence (RetryLimitExceeded _)) = (409, RETRY_EXHAUSTED, ''Execution retry limit was reached.'')"
| "preflight_answer (PrePersistence (PersistenceConflict _)) = (409, IDEMPOTENCY_CONFLICT, ''Execution recovery was rejected.'')"
| "preflight_answer (PrePersistence (PersistenceUnavailable _)) = (503, DATABASE_FAILURE, ''Execution persistence is unavailable.'')"
| "preflight_answer (PrePersistence (PersistenceValueError _)) = (500, PROVIDER_FAILURE, ''AI provider could not be initialized.'')"
| "preflight_answer PreSqlError = (503, DATABASE_FAILURE, ''Execution database is unavailable.'')"
| "preflight_answer PreContextExceeded = (422, CONTEXT_REJECTED, ''Conversation context exceeds the model window.'')"
| "preflight_answer (PreHttp (HTTPException code detail)) = (code, PROVIDER_FAILURE, detail)"
| "preflight_answer (PreHttp (ServerError _)) = (500, PROVIDER_FAILURE, ''AI provider could not be initialized.'')"
| "preflight_answer (PreOther _) = (500, PROVIDER_FAILURE, ''AI provider could not be initialized.'')"

datatype chat_start =
    Answered api_error
  | Replayed json
  | Started authorized_chat provider_context idempotency_reservation persisted_chat_execution

definition answer_failure :: "'v preflight_world \<Rightarrow> preflight_error \<Rightarrow> preflight \<Rightarrow> chat_start \<times> preflight" where
  "answer_failure w e pf =
     (case preflight_answer e of (code, failure, detail) \<Rightarrow>
       (case fail_preflight w code failure pf of
          (Inl (PreHttp e'), pf') \<Rightarrow> (Answered e', pf')
        | (_, pf') \<Rightarrow> (Answered (HTTPException code detail), pf')))"

text \<open>Nothing handles an audit that is unavailable when a replay is recorded.\<close>

definition record_replay :: "'v preflight_world \<Rightarrow> json \<Rightarrow> preflight \<Rightarrow> chat_start \<times> preflight" where
  "record_replay w j pf =
     (case pf_decision pf of
        None \<Rightarrow> (Replayed j, pf)
      | Some i \<Rightarrow>
          (case record_result (pw_fail_env w) i ''replayed'' 200 None (pf_db pf) of
             (Inl _, db) \<Rightarrow> (Answered (ServerError ''GovernanceAuditUnavailable''), pf\<lparr>pf_db := db\<rparr>)
           | (Inr _, db) \<Rightarrow> (Replayed j, pf\<lparr>pf_db := db\<rparr>)))"

definition start_chat :: "'v preflight_world \<Rightarrow> chat_payload \<Rightarrow> preflight \<Rightarrow> chat_start \<times> preflight" where
  "start_chat w q pf =
     (case prepare w q pf of
        (Inl e, pf') \<Rightarrow> answer_failure w e pf'
      | (Inr (Replay _ j), pf') \<Rightarrow> record_replay w j pf'
      | (Inr (Prepared_chat a ctx idem), pf') \<Rightarrow>
          (case pf_persisted pf' of
             Some px \<Rightarrow> (Started a ctx idem px, pf')
           | None \<Rightarrow> (Answered (ServerError ''AssertionError''), pf')))"

end
