(* ===== verification/PreflightProperties.thy ===== *)
theory PreflightProperties
  imports ChatPreflight
begin

text \<open>
  What the preparation of a chat completion guarantees: the tables stay consistent, a replay costs nothing, a
  started execution is authorized, charged, recorded and within the model's window, and a preparation that
  fails before the exchange is stored gives everything back.
\<close>

section \<open>Frames\<close>

text \<open>What every step keeps: the consistency of the tables, and the row of the request's own decision once it
  is there.  Other transactions that the ledger call may meet are assumed to keep both.\<close>

definition keeps_tables :: "preflight \<Rightarrow> preflight \<Rightarrow> bool" where
  "keeps_tables pf pf' \<longleftrightarrow> (chat_wf (pf_db pf) \<longrightarrow> chat_wf (pf_db pf'))"

interpretation tables: step_frame keeps_tables
  by unfold_locales (auto simp: keeps_tables_def)

lemma keeps_either [simp]: "(\<And>g. R g g) \<Longrightarrow> keeps R (either r)"
  by (auto simp: keeps_def either_def)

lemma tables_either: "keeps keeps_tables (either r)"
  by (simp add: keeps_tables_def)

lemma chat_wf_decisions: "chat_wf db \<Longrightarrow> chat_wf (db\<lparr>decisions := ds\<rparr>)"
  by (erule chat_wf_cong) simp_all

lemma record_decision_tables: "record_provider_decision sha env i q db = (r, db') \<Longrightarrow> chat_wf db \<Longrightarrow> chat_wf db'"
  by (auto simp: record_provider_decision_def chat_wf_decisions split: if_splits)

lemma record_result_tables: "record_result env i s r c db = (out, db') \<Longrightarrow> chat_wf db \<Longrightarrow> chat_wf db'"
  using record_result_only_decisions [of env i s r c db out db'] chat_wf_decisions [of db "decisions db'"] by simp

lemma decide_provider_tables: "keeps keeps_tables (decide_provider w b)"
  unfolding keeps_def keeps_tables_def
  by (auto simp: decide_provider_def audit_denial_def audit_grant_def Let_def
      split: sum.splits policy_error.splits if_splits prod.splits dest: record_decision_tables)

lemma authorize_chat_tables: "keeps keeps_tables (authorize_chat w q)"
  unfolding authorize_chat_def
  by (intro tables.keeps_and_then tables_either decide_provider_tables)
    (auto split: sum.splits intro: tables.keeps_give)

lemma reserve_idempotency_tables:
  assumes "\<And>i d. chat_wf d \<Longrightarrow> chat_wf (iw_interfere (pw_ledger w) i d)"
  shows "keeps keeps_tables (reserve_idempotency w q)"
proof -
  have begin_wf: "chat_wf db'" if "begin_idempotency sha (pw_ledger w) 0 rq key db = (r, db')" "chat_wf db" for sha rq key db r db'
    using chat_wf_begin [OF that(2) assms, of sha 0 rq key] that(1) by simp
  have allow_wf: "chat_wf db'" if "assert_recovery_allowed env eid i token db = (r, db')" "chat_wf db" for env eid i token db r db'
    using chat_wf_assert_recovery_allowed [OF that(2), of env eid i token] that(1) by simp
  have adopt: "keeps_tables pf pf'" if "adopt_outcome w key out pf = (r, pf')" for key out pf r pf'
    using that by (auto simp: adopt_outcome_def Let_def keeps_tables_def split: option.splits if_splits prod.splits sum.splits
        dest: allow_wf)
  have replay: "keeps_tables pf pf'" if "replay_reservation w key i c pf = (r, pf')" for key i c pf r pf'
    using that by (auto simp: replay_reservation_def Let_def keeps_tables_def split: option.splits)
  have "keeps_tables pf pf'" if run: "reserve_idempotency w q pf = (r, pf')" for pf r pf'
  proof (cases "\<exists>key. resolve_idempotency_key (pw_request w) (cq_idempotency_key q) = Inr (Some key)")
    case False
    then show ?thesis using run by (auto simp: reserve_idempotency_def keeps_tables_def split: sum.splits option.splits)
  next
    case True
    then obtain key where key: "resolve_idempotency_key (pw_request w) (cq_idempotency_key q) = Inr (Some key)" by blast
    obtain out db where b: "begin_idempotency (pw_sha w) (pw_ledger w) 0 (pw_request w) key (pf_db pf) = (out, db)" by fastforce
    have wf: "keeps_tables pf (pf\<lparr>pf_db := db\<rparr>)" using begin_wf [OF b] by (simp add: keeps_tables_def)
    show ?thesis
      using run key b wf tables.R_trans [OF wf adopt] tables.R_trans [OF wf replay]
      by (auto simp: reserve_idempotency_def split: sum.splits option.splits)
  qed
  then show ?thesis by (simp add: keeps_def)
qed

lemma reserve_budget_tables: "keeps keeps_tables (reserve_budget w q)"
  by (auto simp: keeps_def keeps_tables_def reserve_budget_def reserve_gate_def reserve_tokens_def
      split: if_splits option.splits prod.splits sum.splits usage_budget_error.splits budget_error.splits)

lemma persist_request_tables: "keeps keeps_tables (persist_request w q a)"
proof -
  have wf: "chat_wf db'" if "prepare_exchange env px db = (r, db')" "chat_wf db" for env px db r db'
    using chat_wf_prepare [OF that(2), of env px] that(1) by simp
  show ?thesis
    by (auto simp: keeps_def keeps_tables_def persist_request_def split: option.splits prod.splits sum.splits dest: wf)
qed

text \<open>Preparing the provider only reads.\<close>

lemma context_for_state: "context_for w q a gp k pf = (r, pf') \<Longrightarrow> pf' = pf"
  by (auto simp: context_for_def split: option.splits if_splits sum.splits)

lemma prepare_provider_state: "prepare_provider w q a pf = (r, pf') \<Longrightarrow> pf' = pf"
  unfolding prepare_provider_def
  by (auto simp: either_def elim!: and_then_cases dest: context_for_state)

lemma prepare_new_tables: "keeps keeps_tables (prepare_new w q a idem)"
proof -
  have "keeps keeps_tables (prepare_provider w q a)"
    by (auto simp: keeps_def keeps_tables_def dest: prepare_provider_state)
  then show ?thesis unfolding prepare_new_def
    by (intro tables.keeps_and_then reserve_budget_tables persist_request_tables tables.keeps_give)
qed

lemma prepare_tables:
  assumes "\<And>i d. chat_wf d \<Longrightarrow> chat_wf (iw_interfere (pw_ledger w) i d)"
  shows "keeps keeps_tables (prepare w q)"
  unfolding prepare_def
  by (intro tables.keeps_and_then authorize_chat_tables reserve_idempotency_tables assms)
    (auto split: option.splits intro: tables.keeps_give prepare_new_tables)

lemma release_lease_tables: "chat_wf db \<Longrightarrow> chat_wf (release_preflight_lease now rq r code db)"
  by (auto simp: release_preflight_lease_def chat_wf_complete split: option.splits)

lemma release_budget_db [simp]:
  "pf_db (release_budget w pf) = pf_db pf" "pf_decision (release_budget w pf) = pf_decision pf"
  "pf_reserved (release_budget w pf) = pf_reserved pf" "pf_persisted (release_budget w pf) = pf_persisted pf"
  by (auto simp: release_budget_def split: option.splits budgeted_execution.splits)

lemma fail_preflight_tables: "keeps keeps_tables (fail_preflight w code failure)"
proof -
  have "chat_wf (pf_db pf')" if "fail_preflight w code failure pf = (r, pf')" "chat_wf (pf_db pf)" for pf r pf'
  proof (cases "pf_persisted pf")
    case None
    have "chat_wf (pf_db p')" if "close_decision_of w code failure p = (x, p')" "chat_wf (pf_db p)" for p x p'
      using that by (auto simp: close_decision_of_def split: option.splits prod.splits sum.splits dest: record_result_tables)
    then show ?thesis using that None
      by (fastforce simp: fail_preflight_def Let_def and_then_def split: prod.splits sum.splits intro: release_lease_tables)
  next
    case (Some px)
    then show ?thesis using that by (auto simp: fail_preflight_def Let_def chat_wf_finalize)
  qed
  then show ?thesis by (simp add: keeps_def keeps_tables_def)
qed

section \<open>What each step changes\<close>

abbreviation own_decision :: "'v preflight_world \<Rightarrow> chat_db \<Rightarrow> governance_decision option" where
  "own_decision w db \<equiv> get_by gd_decision_id (pw_decision_id w) (decisions db)"

definition evidence_kept :: "'v preflight_world \<Rightarrow> bool" where
  "evidence_kept w \<longleftrightarrow> (\<forall>i x. own_decision w (iw_interfere (pw_ledger w) i x) = own_decision w x)"

lemma own_decision_new [simp]:
  "get_by gd_decision_id i ds = None \<Longrightarrow> get_by gd_decision_id i (ds @ [decision_row sha now i q]) = Some (decision_row sha now i q)"
  by (simp add: get_by_def find_append)

text \<open>Authorization writes one decision row and nothing else.\<close>

lemma decide_provider_effects:
  assumes "decide_provider w b pf = (r, pf')"
  shows "pf' = pf\<lparr>pf_db := (pf_db pf)\<lparr>decisions := decisions (pf_db pf')\<rparr>, pf_decision := pf_decision pf'\<rparr>"
    and "case r of Inl _ \<Rightarrow> pf_decision pf' = pf_decision pf
       | Inr pm \<Rightarrow> pf_decision pf' = Some (pw_decision_id w)
           \<and> authorize_provider_execution (pw_environ w) (pw_authorization w) b (pw_org w) = Inr pm
           \<and> (\<exists>q. own_decision w (pf_db pf') = Some (decision_row (pw_sha w) (env_now (pw_decision_env w)) (pw_decision_id w) q)
                \<and> dr_allowed q)"
proof -
  show "pf' = pf\<lparr>pf_db := (pf_db pf)\<lparr>decisions := decisions (pf_db pf')\<rparr>, pf_decision := pf_decision pf'\<rparr>"
    using assms by (cases pf) (auto simp: decide_provider_def audit_denial_def audit_grant_def Let_def record_provider_decision_def
        split: sum.splits policy_error.splits if_splits)
  show "case r of Inl _ \<Rightarrow> pf_decision pf' = pf_decision pf
       | Inr pm \<Rightarrow> pf_decision pf' = Some (pw_decision_id w)
           \<and> authorize_provider_execution (pw_environ w) (pw_authorization w) b (pw_org w) = Inr pm
           \<and> (\<exists>q. own_decision w (pf_db pf') = Some (decision_row (pw_sha w) (env_now (pw_decision_env w)) (pw_decision_id w) q)
                \<and> dr_allowed q)"
    using assms by (auto simp: decide_provider_def audit_denial_def audit_grant_def Let_def record_provider_decision_def decision_of_def
        split: sum.splits policy_error.splits if_splits)
qed

lemma authorize_chat_cases:
  assumes "authorize_chat w q pf = (r, pf')"
  shows "pf' = pf\<lparr>pf_db := (pf_db pf)\<lparr>decisions := decisions (pf_db pf')\<rparr>, pf_decision := pf_decision pf'\<rparr>"
    and "pf_decision pf' = pf_decision pf \<and> isl r
       \<or> pf_decision pf' = Some (pw_decision_id w) \<and> (\<exists>d. own_decision w (pf_db pf') = Some d \<and> gd_allowed d)"
proof -
  have "pf' = pf \<and> isl r \<or> (\<exists>b x. decide_provider w b pf = (x, pf') \<and> (isl x \<longrightarrow> isl r))"
    using assms unfolding authorize_chat_def
    by (fastforce simp: either_def elim!: and_then_cases split: sum.splits)
  then show "pf' = pf\<lparr>pf_db := (pf_db pf)\<lparr>decisions := decisions (pf_db pf')\<rparr>, pf_decision := pf_decision pf'\<rparr>"
    and "pf_decision pf' = pf_decision pf \<and> isl r
       \<or> pf_decision pf' = Some (pw_decision_id w) \<and> (\<exists>d. own_decision w (pf_db pf') = Some d \<and> gd_allowed d)"
    by (force dest: decide_provider_effects(1), auto split: sum.splits dest!: decide_provider_effects(2))
qed

lemma own_decision_cong: "decisions db' = decisions db \<Longrightarrow> own_decision w db' = own_decision w db"
  by simp

lemma decisions_unchanged [simp]:
  "decisions (update_idem k f db) = decisions db" "decisions (delete_idem_rows P db) = decisions db"
  "decisions (update_idem_by_id i g db) = decisions db" "decisions (mark_exhausted now e a db) = decisions db"
  by (simp_all add: update_idem_def delete_idem_rows_def update_idem_by_id_def mark_exhausted_def update_message_def
      update_execution_def Let_def)

lemma begin_own_decision:
  assumes "evidence_kept w"
  shows "own_decision w (snd (begin_idempotency sha (pw_ledger w) n rq key db)) = own_decision w db"
proof (induction "2 - n" arbitrary: n db rule: less_induct)
  case less
  have again: "own_decision w (snd (begin_idempotency sha (pw_ledger w) (Suc n) rq key x)) = own_decision w x" if "\<not> 2 \<le> n" for x
    by (rule less.hyps) (use that in linarith)
  have other: "own_decision w (iw_interfere (pw_ledger w) n db) = own_decision w db"
    using assms by (simp add: evidence_kept_def)
  show ?case unfolding begin_idempotency.simps [of sha "pw_ledger w" n]
    by (simp add: Let_def again other split: sum.split option.split)
qed

text \<open>The reservation leaves the budget and the recorded decision alone.\<close>

lemma reserve_idempotency_effects:
  assumes "reserve_idempotency w q pf = (r, pf')" and "evidence_kept w"
  shows "pf_redis pf' = pf_redis pf \<and> pf_gate pf' = pf_gate pf \<and> pf_budget pf' = pf_budget pf
    \<and> pf_persisted pf' = pf_persisted pf \<and> pf_decision pf' = pf_decision pf
    \<and> own_decision w (pf_db pf') = own_decision w (pf_db pf)"
proof -
  have allow: "decisions db' = decisions db" if "assert_recovery_allowed env eid i token db = (x, db')" for env eid i token db x db'
    using allowed_outcomes [of env eid i token db] that by auto
  have adopt: "pf_redis p' = pf_redis p \<and> pf_gate p' = pf_gate p \<and> pf_budget p' = pf_budget p
    \<and> pf_persisted p' = pf_persisted p \<and> pf_decision p' = pf_decision p \<and> decisions (pf_db p') = decisions (pf_db p)"
    if "adopt_outcome w key out p = (x, p')" for key out p x p'
    using that by (auto simp: adopt_outcome_def Let_def split: option.splits if_splits prod.splits sum.splits dest: allow)
  have replay: "pf_redis p' = pf_redis p \<and> pf_gate p' = pf_gate p \<and> pf_budget p' = pf_budget p
    \<and> pf_persisted p' = pf_persisted p \<and> pf_decision p' = pf_decision p \<and> decisions (pf_db p') = decisions (pf_db p)"
    if "replay_reservation w key i c p = (x, p')" for key i c p x p'
    using that by (auto simp: replay_reservation_def Let_def split: option.splits)
  show ?thesis
  proof (cases "\<exists>key. resolve_idempotency_key (pw_request w) (cq_idempotency_key q) = Inr (Some key)")
    case False
    then show ?thesis using assms(1) by (auto simp: reserve_idempotency_def split: sum.splits option.splits)
  next
    case True
    then obtain key where key: "resolve_idempotency_key (pw_request w) (cq_idempotency_key q) = Inr (Some key)" by blast
    obtain out db where b: "begin_idempotency (pw_sha w) (pw_ledger w) 0 (pw_request w) key (pf_db pf) = (out, db)" by fastforce
    have own: "own_decision w db = own_decision w (pf_db pf)"
      using begin_own_decision [OF assms(2), of "pw_sha w" 0 "pw_request w" key "pf_db pf"] b by simp
    show ?thesis using assms(1) key b
      by (auto simp: reserve_idempotency_def own split: sum.splits option.splits dest!: adopt replay)
  qed
qed

abbreviation reserve_for :: "'v preflight_world \<Rightarrow> chat_payload \<Rightarrow> string \<Rightarrow> int \<Rightarrow> int \<Rightarrow> redis
    \<Rightarrow> (budget_error + execution_reservation) \<times> redis" where
  "reserve_for w q eid ul ol s \<equiv> reserve_execution (pw_redis_up w) (pw_redis_now w) estimator_chars estimator_output budget_window eid
     (pw_user_id w) (pw_org w) (cq_prompt q) (cq_verify q) ul ol s"

lemma reserve_budget_effects:
  assumes "reserve_budget w q pf = (r, pf')"
  shows "pf' = pf\<lparr>pf_redis := pf_redis pf', pf_gate := pf_gate pf', pf_budget := pf_budget pf'\<rparr>"
    and "case r of Inl _ \<Rightarrow> pf_redis pf' = pf_redis pf \<and> pf_budget pf' = pf_budget pf
       | Inr _ \<Rightarrow> pf_redis pf' = pf_redis pf \<and> (\<exists>e u. pf_budget pf' = Some (GateBudget e u))
           \<or> (\<exists>e eid ul ol. pf_budget pf' = Some (TenantBudget e) \<and> cs_redis_url (pw_settings w) \<noteq> []
                \<and> reserve_for w q eid ul ol (pf_redis pf) = (Inr e, pf_redis pf'))"
proof -
  show "pf' = pf\<lparr>pf_redis := pf_redis pf', pf_gate := pf_gate pf', pf_budget := pf_budget pf'\<rparr>"
    using assms by (cases pf) (auto simp: reserve_budget_def reserve_gate_def reserve_tokens_def
        split: if_splits option.splits prod.splits sum.splits usage_budget_error.splits budget_error.splits)
  show "case r of Inl _ \<Rightarrow> pf_redis pf' = pf_redis pf \<and> pf_budget pf' = pf_budget pf
       | Inr _ \<Rightarrow> pf_redis pf' = pf_redis pf \<and> (\<exists>e u. pf_budget pf' = Some (GateBudget e u))
           \<or> (\<exists>e eid ul ol. pf_budget pf' = Some (TenantBudget e) \<and> cs_redis_url (pw_settings w) \<noteq> []
                \<and> reserve_for w q eid ul ol (pf_redis pf) = (Inr e, pf_redis pf'))"
    using assms by (auto simp: reserve_budget_def reserve_gate_def reserve_tokens_def
        split: if_splits option.splits prod.splits sum.splits usage_budget_error.splits budget_error.splits
        dest: reserve_execution_Inl)
qed

lemma snapshot_retry:
  assumes "chat_wf db" and "find_execution eid db = Some e" and "assistant_of e db = Some a"
  shows "\<exists>x. snapshot (retry_execution now g e) = Inr x \<and> pce_execution_id x = eid"
proof -
  have "ce_user_message_id e \<noteq> None" "ce_execution_id e = eid" using chat_wf_parts(1) [OF assms(1,2)] find_execution_SomeD [OF assms(2)]
    by (simp_all add: execution_ok_def)
  moreover have "ce_assistant_message_id e \<noteq> None" using assistant_of_SomeD [OF assms(3)] by simp
  ultimately show ?thesis by (auto simp: snapshot_def retry_execution_def Let_def)
qed

lemma prepare_exchange_InlD:
  assumes "prepare_exchange env px db = (Inl x, db')" and "chat_wf db"
  shows "decisions db' = decisions db"
proof (cases "find_execution (px_execution_id px) db")
  case None
  then show ?thesis using assms(1) start_outcomes [of env px db]
    by (auto simp: prepare_exchange_def ask_def snapshot_def new_execution_def split: if_splits)
next
  case (Some e)
  have out: "db' = db \<or> recover_exchange env px e db = (Inl x, db')" using assms(1) Some
    by (simp add: prepare_exchange_def ask_def split: if_splits)
  show ?thesis
  proof (cases "db' = db")
    case False
    with out have out: "recover_exchange env px e db = (Inl x, db')" by simp
    show ?thesis using recover_outcomes [of env px e db] unfolding out fst_conv snd_conv
    proof (elim disjE exE conjE)
      fix a
      assume "recovery_retries env px e db a"
        and s: "Inl x = snapshot (retry_execution (env_now env) (px_governance_decision_id px \<noteq> None) e)"
      then have "assistant_of e db = Some a" by (simp add: recovery_retries_def)
      from snapshot_retry [OF assms(2) Some this, of "env_now env" "px_governance_decision_id px \<noteq> None"] s
      show ?thesis by (metis sum.distinct(1))
    qed simp_all
  qed simp
qed

lemma persist_request_effects:
  assumes "persist_request w q a pf = (r, pf')" and "chat_wf (pf_db pf)"
  shows "pf' = pf\<lparr>pf_db := pf_db pf', pf_persisted := pf_persisted pf'\<rparr>
    \<and> (case r of Inl _ \<Rightarrow> pf_persisted pf' = pf_persisted pf \<and> decisions (pf_db pf') = decisions (pf_db pf)
       | Inr _ \<Rightarrow> (\<exists>b eid px. pf_budget pf = Some b \<and> pf_persisted pf' = Some px
            \<and> prepare_exchange (pw_persist_env w) (exchange_of w q a eid b (pf_reserved pf)) (pf_db pf) = (Inr px, pf_db pf')))"
  using assms prepare_exchange_InlD
  by (cases pf) (fastforce simp: persist_request_def split: option.splits prod.splits sum.splits)

text \<open>How far a preparation got: only decisions and the ledger before the budget, the budget before the
  exchange, and after the exchange the state is final.\<close>

definition interference_ok :: "'v preflight_world \<Rightarrow> bool" where
  "interference_ok w \<longleftrightarrow> evidence_kept w \<and> (\<forall>i d. chat_wf d \<longrightarrow> chat_wf (iw_interfere (pw_ledger w) i d))"

lemma alone_ok: "pw_ledger w = alone now token \<Longrightarrow> interference_ok w"
  by (simp add: interference_ok_def evidence_kept_def alone_def)

definition recorded :: "'v preflight_world \<Rightarrow> preflight \<Rightarrow> bool" where
  "recorded w pf \<longleftrightarrow> pf_decision pf = None
     \<or> pf_decision pf = Some (pw_decision_id w) \<and> (\<exists>d. own_decision w (pf_db pf) = Some d \<and> gd_allowed d)"

definition uncharged :: "redis \<Rightarrow> preflight \<Rightarrow> bool" where
  "uncharged s pf \<longleftrightarrow> pf_redis pf = s \<and> pf_persisted pf = None \<and> (\<forall>e. pf_budget pf \<noteq> Some (TenantBudget e))"

definition charged :: "'v preflight_world \<Rightarrow> chat_payload \<Rightarrow> redis \<Rightarrow> preflight \<Rightarrow> bool" where
  "charged w q s pf \<longleftrightarrow> (\<exists>e eid ul ol. pf_budget pf = Some (TenantBudget e) \<and> cs_redis_url (pw_settings w) \<noteq> []
     \<and> reserve_for w q eid ul ol s = (Inr e, pf_redis pf))"

lemma authorize_chat_stage:
  assumes "authorize_chat w q (new_preflight db s g) = (r, pf)"
  shows "recorded w pf \<and> uncharged s pf \<and> pf_budget pf = None \<and> pf_reserved pf = no_reservation \<and> pf_gate pf = g
    \<and> pf_db pf = db\<lparr>decisions := decisions (pf_db pf)\<rparr> \<and> (\<not> isl r \<longrightarrow> pf_decision pf = Some (pw_decision_id w))"
proof -
  have pf: "pf = (new_preflight db s g)\<lparr>pf_db := db\<lparr>decisions := decisions (pf_db pf)\<rparr>, pf_decision := pf_decision pf\<rparr>"
    using authorize_chat_cases(1) [OF assms] by (simp add: new_preflight_def)
  have "recorded w pf" "\<not> isl r \<longrightarrow> pf_decision pf = Some (pw_decision_id w)"
    using authorize_chat_cases(2) [OF assms] by (auto simp: recorded_def new_preflight_def)
  moreover have "pf_budget pf = None \<and> pf_redis pf = s \<and> pf_persisted pf = None \<and> pf_reserved pf = no_reservation \<and> pf_gate pf = g
      \<and> pf_db pf = db\<lparr>decisions := decisions (pf_db pf)\<rparr>"
    by (subst (1 2 3 4 5 6) pf) (simp add: new_preflight_def)
  ultimately show ?thesis by (simp add: uncharged_def)
qed

lemma reserve_idempotency_stage:
  assumes "reserve_idempotency w q pf = (r, pf')" and "interference_ok w" and "recorded w pf" and "uncharged s pf" and "pf_budget pf = None"
  shows "recorded w pf' \<and> uncharged s pf' \<and> pf_budget pf' = None"
  using reserve_idempotency_effects [OF assms(1)] assms(2-5) by (auto simp: interference_ok_def recorded_def uncharged_def)

lemma reserve_budget_stage:
  assumes "reserve_budget w q pf = (r, pf')" and "recorded w pf" and "uncharged s pf"
  shows "recorded w pf' \<and> pf_persisted pf' = None \<and> (uncharged s pf' \<or> charged w q s pf') \<and> (\<not> isl r \<longrightarrow> pf_budget pf' \<noteq> None)"
proof -
  have "pf_db pf' = pf_db pf \<and> pf_decision pf' = pf_decision pf \<and> pf_persisted pf' = pf_persisted pf"
    by (subst (1 2 3) reserve_budget_effects(1) [OF assms(1)]) simp
  then show ?thesis using reserve_budget_effects(2) [OF assms(1)] assms(2,3)
    by (auto simp: recorded_def uncharged_def charged_def split: sum.splits)
qed

lemma prepare_new_stages:
  assumes "prepare_new w q a idem p2 = (r, pf)" and "recorded w p2" and "uncharged s p2" and "chat_wf (pf_db p2)"
  obtains (early) e where "r = Inl e" and "recorded w pf" and "pf_persisted pf = None" and "uncharged s pf \<or> charged w q s pf"
  | (persisted) p3 b eid px where "reserve_budget w q p2 = (Inr (), p3)"
      and "chat_wf (pf_db p3)" and "pf_budget p3 = Some b" and "pf_persisted pf = Some px"
      and "pf = p3\<lparr>pf_db := pf_db pf, pf_persisted := Some px\<rparr>"
      and "prepare_exchange (pw_persist_env w) (exchange_of w q a eid b (pf_reserved p3)) (pf_db p3) = (Inr px, pf_db pf)"
      and "prepare_provider w q a pf = (map_sum id (\<lambda>c. case c of Prepared_chat _ ctx _ \<Rightarrow> ctx) r, pf)"
      and "case r of Inl _ \<Rightarrow> True | Inr c \<Rightarrow> \<exists>ctx. c = Prepared_chat a ctx idem"
  using assms(1) unfolding prepare_new_def
proof (rule and_then_cases)
  fix e assume b: "reserve_budget w q p2 = (Inl e, pf)" and "r = Inl e"
  then show thesis using reserve_budget_stage [OF b assms(2,3)] by (intro early) auto
next
  fix u p3
  assume b: "reserve_budget w q p2 = (Inr u, p3)"
    and rest: "and_then (persist_request w q a) (\<lambda>_. and_then (prepare_provider w q a) (\<lambda>ctx. give (Prepared_chat a ctx idem))) p3 = (r, pf)"
  note s3 = reserve_budget_stage [OF b assms(2,3)]
  have wf3: "chat_wf (pf_db p3)" using keepsD [OF reserve_budget_tables b] assms(4) by (simp add: keeps_tables_def)
  from rest show thesis
  proof (rule and_then_cases)
    fix e assume p: "persist_request w q a p3 = (Inl e, pf)" and e: "r = Inl e"
    note eff = persist_request_effects [OF p wf3]
    have "pf_budget pf = pf_budget p3 \<and> pf_redis pf = pf_redis p3 \<and> pf_decision pf = pf_decision p3"
      by (subst (1 2 3) conjunct1 [OF eff]) simp
    then show thesis using eff s3 by (intro early [OF e]) (auto simp: recorded_def uncharged_def charged_def)
  next
    fix v p4
    assume p: "persist_request w q a p3 = (Inr v, p4)"
      and rest: "and_then (prepare_provider w q a) (\<lambda>ctx. give (Prepared_chat a ctx idem)) p4 = (r, pf)"
    obtain y p5 where y: "prepare_provider w q a p4 = (y, p5)" by fastforce
    have [simp]: "p5 = p4" by (rule prepare_provider_state [OF y])
    have r: "pf = p4 \<and> r = map_sum id (\<lambda>ctx. Prepared_chat a ctx idem) y"
      using rest y by (auto elim!: and_then_cases)
    note eff = persist_request_effects [OF p wf3]
    then obtain bx eid px where x: "pf_budget p3 = Some bx" "pf_persisted p4 = Some px"
      "prepare_exchange (pw_persist_env w) (exchange_of w q a eid bx (pf_reserved p3)) (pf_db p3) = (Inr px, pf_db p4)" by auto
    have eq: "pf = p3\<lparr>pf_db := pf_db pf, pf_persisted := Some px\<rparr>" using conjunct1 [OF eff] r x(2) by simp
    have "prepare_provider w q a pf = (map_sum id (\<lambda>c. case c of Prepared_chat _ ctx _ \<Rightarrow> ctx) r, pf)"
      using y r by (cases y) simp_all
    moreover have "case r of Inl _ \<Rightarrow> True | Inr c \<Rightarrow> \<exists>ctx. c = Prepared_chat a ctx idem" using r by (cases y) auto
    ultimately show thesis using persisted [OF _ wf3 x(1) _ eq] b x r by simp
  qed
qed

lemma prepare_stages:
  assumes "prepare w q (new_preflight db s g) = (r, pf)" and "interference_ok w" and "chat_wf db"
  obtains (early) e where "r = Inl e" and "recorded w pf" and "pf_persisted pf = None" and "uncharged s pf \<or> charged w q s pf"
  | (replayed) a p1 idem j where "r = Inr (Replay idem j)" and "authorize_chat w q (new_preflight db s g) = (Inr a, p1)"
      and "reserve_idempotency w q p1 = (Inr idem, pf)" and "is_cached_response idem = Some j" and "recorded w pf" and "uncharged s pf"
  | (fresh) a p1 p2 idem where "authorize_chat w q (new_preflight db s g) = (Inr a, p1)"
      and "reserve_idempotency w q p1 = (Inr idem, p2)" and "chat_wf (pf_db p2)" and "recorded w p2" and "uncharged s p2"
      and "prepare_new w q a idem p2 = (r, pf)"
  using assms(1) unfolding prepare_def
proof (rule and_then_cases)
  fix e assume a: "authorize_chat w q (new_preflight db s g) = (Inl e, pf)" and e: "r = Inl e"
  show thesis using authorize_chat_stage [OF a] by (intro early [OF e]) (auto simp: uncharged_def)
next
  fix a p1
  assume a: "authorize_chat w q (new_preflight db s g) = (Inr a, p1)"
    and rest: "and_then (reserve_idempotency w q) (\<lambda>idem. case is_cached_response idem of
      None \<Rightarrow> prepare_new w q a idem | Some j \<Rightarrow> give (Replay idem j)) p1 = (r, pf)"
  have s1: "recorded w p1" "uncharged s p1" "pf_budget p1 = None" using authorize_chat_stage [OF a] by auto
  have wf1: "chat_wf (pf_db p1)" using keepsD [OF authorize_chat_tables a] assms(3) by (simp add: keeps_tables_def new_preflight_def)
  from rest show thesis
  proof (rule and_then_cases)
    fix e assume i: "reserve_idempotency w q p1 = (Inl e, pf)" and e: "r = Inl e"
    show thesis using reserve_idempotency_stage [OF i assms(2) s1] by (intro early [OF e]) (auto simp: uncharged_def)
  next
    fix idem p2
    assume i: "reserve_idempotency w q p1 = (Inr idem, p2)"
      and rest: "(case is_cached_response idem of None \<Rightarrow> prepare_new w q a idem | Some j \<Rightarrow> give (Replay idem j)) p2 = (r, pf)"
    have s2: "recorded w p2 \<and> uncharged s p2 \<and> pf_budget p2 = None" by (rule reserve_idempotency_stage [OF i assms(2) s1])
    have "keeps keeps_tables (reserve_idempotency w q)" 
      using assms(2) by (intro reserve_idempotency_tables) (simp add: interference_ok_def)
    from keepsD [OF this i] wf1 have wf2: "chat_wf (pf_db p2)" by (simp add: keeps_tables_def)
    show thesis
    proof (cases "is_cached_response idem")
      case (Some j)
      then show thesis using rest s2 i by (intro replayed [OF _ a]) auto
    next
      case None
      then show thesis using rest s2 by (intro fresh [OF a i wf2]) auto
    qed
  qed
qed

end
