(* ===== verification/ChatStart.thy ===== *)
theory ChatStart
  imports PreflightProperties
begin

text \<open>
  What a chat completion may rely on once its preparation has returned: a started execution is authorized,
  recorded, bound to its decision and within the window of its model; a replay is free; a failed preparation
  gives back what it had taken.
\<close>

section \<open>A stored exchange\<close>

lemma binding_InrD:
  assumes "bind_governance_decision env n (Some did) eid org uid db = Inr db'"
  shows "db' = bind_decision did eid db
    \<and> (\<exists>d. get_by gd_decision_id did (decisions db) = Some d \<and> gd_allowed d \<and> gd_finalized_at d = None
         \<and> gd_organization_id d = org \<and> gd_user_id d = uid)"
  using assms by (auto simp: bind_governance_decision_def bind_decision_error_def split: option.splits if_splits)

lemma bound_decision:
  assumes "get_by gd_decision_id did (decisions db) = Some d"
  shows "get_by gd_decision_id did (decisions (bind_decision did eid db)) = Some (d\<lparr>gd_execution_id := Some eid\<rparr>)"
  using assms by (simp add: bind_decision_def rows.fetch_modify keeps_key_def)

lemma find_execution_appended:
  "find_execution eid db = None \<Longrightarrow> executions db' = executions db @ [e] \<Longrightarrow> ce_execution_id e = eid
     \<Longrightarrow> find_execution eid db' = Some e"
  by (simp add: find_execution_def get_by_def find_append)

text \<open>A stored exchange: its execution waits to run in the scope of the request and is the one the decision
  was taken for.\<close>

definition exchange_stored :: "exchange_request \<Rightarrow> persisted_chat_execution \<Rightarrow> string \<Rightarrow> chat_db \<Rightarrow> bool" where
  "exchange_stored px x did db \<longleftrightarrow> pce_execution_id x = px_execution_id px
     \<and> (\<exists>e. find_execution (px_execution_id px) db = Some e \<and> ce_status e = Prepared \<and> same_scope px e \<and> ce_governance_audit_required e)
     \<and> (\<exists>d. get_by gd_decision_id did (decisions db) = Some d \<and> gd_allowed d \<and> gd_finalized_at d = None
          \<and> gd_organization_id d = px_organization_id px \<and> gd_user_id d = px_user_id px \<and> gd_execution_id d = Some (px_execution_id px))"

lemma start_exchange_stored:
  assumes "start_exchange env px db = (Inr x, db')" and "find_execution (px_execution_id px) db = None"
    and "px_governance_decision_id px = Some did"
  shows "exchange_stored px x did db'"
proof -
  from start_outcomes [of env px db] assms(1) obtain db1 where
      bind: "bind_governance_decision env 1 (Some did) (px_execution_id px) (px_organization_id px) (px_user_id px)
        (insert_exchange env px db) = Inr db1"
    and db': "db' = db1\<lparr>usage_rows := usage_rows db1 @ [new_reservation_usage (next_row db) px]\<rparr>"
    and x: "Inr x = snapshot (new_execution (next_row db) px)"
    using assms(3) by auto
  from binding_InrD [OF bind] obtain d where d: "db1 = bind_decision did (px_execution_id px) (insert_exchange env px db)"
    "get_by gd_decision_id did (decisions (insert_exchange env px db)) = Some d" "gd_allowed d" "gd_finalized_at d = None"
    "gd_organization_id d = px_organization_id px" "gd_user_id d = px_user_id px" by blast
  have "find_execution (px_execution_id px) db' = Some (new_execution (next_row db) px)"
    by (rule find_execution_appended [OF assms(2)]) (simp_all add: db' d(1) insert_exchange_def Let_def new_execution_def)
  then show ?thesis unfolding exchange_stored_def using x bound_decision [OF d(2), of "px_execution_id px"] d assms(3)
    by (auto simp: db' snapshot_def new_execution_def same_scope_def)
qed

lemma recover_exchange_stored:
  assumes "recover_exchange env px e db = (Inr x, db')" and "find_execution (px_execution_id px) db = Some e"
    and "px_governance_decision_id px = Some did"
  shows "exchange_stored px x did db'"
proof -
  have eid: "ce_execution_id e = px_execution_id px" using find_execution_SomeD [OF assms(2)] by simp
  from recover_outcomes [of env px e db] assms(1) obtain a where ra: "recovery_retries env px e db a"
    and bind: "bind_governance_decision env 4 (Some did) (px_execution_id px) (px_organization_id px) (px_user_id px)
        (retry_db env px e a db) = Inr db'"
    and x: "Inr x = snapshot (retry_execution (env_now env) True e)"
    using assms(3) eid by auto
  from binding_InrD [OF bind] obtain d where d: "db' = bind_decision did (px_execution_id px) (retry_db env px e a db)"
    "get_by gd_decision_id did (decisions (retry_db env px e a db)) = Some d" "gd_allowed d" "gd_finalized_at d = None"
    "gd_organization_id d = px_organization_id px" "gd_user_id d = px_user_id px" by blast
  have "find_execution (px_execution_id px) db' = Some (retry_execution (env_now env) True e)"
    using advances_lookup [OF conjunct1 [OF retry_advances]] bind assms(2,3) eid by simp
  moreover have "same_scope px (retry_execution (env_now env) True e)" using ra
    by (simp add: recovery_retries_def same_scope_def retry_execution_def Let_def)
  ultimately show ?thesis unfolding exchange_stored_def using x bound_decision [OF d(2), of "px_execution_id px"] d eid
    by (auto simp: snapshot_def retry_execution_def Let_def split: option.splits if_splits)
qed

lemma prepare_exchange_stored:
  assumes "prepare_exchange env px db = (Inr x, db')" and "px_governance_decision_id px = Some did"
  shows "exchange_stored px x did db'"
  using assms start_exchange_stored recover_exchange_stored
  by (fastforce simp: prepare_exchange_def ask_def split: if_splits option.splits)

section \<open>What a started execution went through\<close>

lemma prepare_InrD:
  assumes "prepare w q pf0 = (Inr (Prepared_chat a ctx idem), pf)"
  obtains p1 p2 p3 where "authorize_chat w q pf0 = (Inr a, p1)" and "reserve_idempotency w q p1 = (Inr idem, p2)"
    and "is_cached_response idem = None" and "reserve_budget w q p2 = (Inr (), p3)"
    and "persist_request w q a p3 = (Inr (), pf)" and "prepare_provider w q a pf = (Inr ctx, pf)"
  using assms unfolding prepare_def prepare_new_def
  by (auto elim!: and_then_InrD split: option.splits) (frule prepare_provider_state, simp)

lemma authorize_chat_InrD:
  assumes "authorize_chat w q pf0 = (Inr a, p1)"
  shows "open_conversation w q = Inr (au_conversation a) \<and> accessible_bot w q = Inr (au_bot a)
    \<and> decide_provider w (au_bot a) pf0 = (Inr (au_permit a), p1)
    \<and> valid_knowledge_scope (cq_knowledge_scope q) = Inr (au_knowledge_scope a) \<and> au_decision_id a = pw_decision_id w"
  using assms unfolding authorize_chat_def
  by (auto simp: either_def elim!: and_then_InrD split: sum.splits)

lemma persist_request_InrD:
  assumes "persist_request w q a pf = (Inr u, pf')"
  shows "\<exists>b eid px. pf_budget pf = Some b \<and> pf_execution_id pf = Some eid
    \<and> pf' = pf\<lparr>pf_db := pf_db pf', pf_persisted := Some px\<rparr>
    \<and> prepare_exchange (pw_persist_env w) (exchange_of w q a eid b (pf_reserved pf)) (pf_db pf) = (Inr px, pf_db pf')"
  using assms by (cases pf) (auto simp: persist_request_def split: option.splits prod.splits sum.splits)

lemma open_conversation_InrD:
  assumes "open_conversation w q = Inr c"
  shows "c \<in> set (pw_conversations w) \<and> cv_id c = Some (cq_conversation_id q) \<and> cv_organization_id c = pw_org w
    \<and> cv_user_id c = pw_user_id w \<and> (\<exists>v. hydrate_conversation c = Inr v \<and> assert_accepts_execution v = Inr ())"
  using assms by (auto simp: open_conversation_def split: if_splits option.splits sum.splits state_error.splits dest!: find_SomeD)

lemma accessible_bot_InrD:
  assumes "accessible_bot w q = Inr b"
  shows "b \<in> set (pw_bots w) \<and> b_id b = Some (cq_bot_id q) \<and> bot_accessible b (pw_org w)"
  using assms by (auto simp: accessible_bot_def split: if_splits option.splits dest!: find_SomeD)

lemma prepare_provider_InrD:
  assumes "prepare_provider w q a pf = (Inr ctx, pf)"
  obtains gp k px c where "provider_of w a = Inr gp" and "knowledge_context w (cq_prompt q) (au_knowledge_scope a) = Inr k"
    and "pf_persisted pf = Some px"
    and "chat_context w q a (combined_system_prompt (b_system_prompt (au_bot a)) k)
      (chat_history w q (pce_execution_id px) (messages (pf_db pf))) = Inr c"
    and "ctx = \<lparr>ctx_provider = gp, ctx_messages = cc_messages c, ctx_system_prompt = cc_system_prompt c\<rparr>"
  using assms unfolding prepare_provider_def
  by (auto simp: either_def context_for_def elim!: and_then_InrD split: option.splits if_splits sum.splits)

lemma chat_context_InrD:
  assumes "chat_context w q a system history = Inr c"
  shows "\<exists>md. model_metadata (b_provider (au_bot a)) (b_model (au_bot a)) = Inr md
    \<and> cc_estimated_input_tokens c \<le> mm_context_window_tokens md - 1000 \<and> last (cc_messages c) = user_message (py_strip (cq_prompt q))"
proof -
  obtain md p where md: "model_metadata (b_provider (au_bot a)) (b_model (au_bot a)) = Inr md"
    and p: "context_policy_checked (preflight_policy md) = Inr p"
    and b: "build_context (pw_sha w) p (map context_item_of history) (cq_prompt q) system = Inr c"
    using assms by (auto simp: chat_context_def split: sum.splits context_error.splits)
  have [simp]: "p = preflight_policy md" using p by (auto simp: context_policy_checked_def split: if_splits)
  from b p [unfolded \<open>p = preflight_policy md\<close>] show ?thesis using md
    by (auto simp: preflight_policy_def elim!: build_context_InrD)
qed

lemma start_chat_StartedD:
  assumes "start_chat w q pf0 = (Started a ctx idem px, pf)"
  shows "prepare w q pf0 = (Inr (Prepared_chat a ctx idem), pf) \<and> pf_persisted pf = Some px"
proof -
  have "\<And>e pf1 pf2. answer_failure w e pf1 \<noteq> (Started a ctx idem px, pf2)"
    by (auto simp: answer_failure_def split: prod.splits sum.splits preflight_error.splits)
  moreover have "\<And>j pf1 pf2. record_replay w j pf1 \<noteq> (Started a ctx idem px, pf2)"
    by (auto simp: record_replay_def split: prod.splits sum.splits option.splits)
  ultimately show ?thesis using assms
    by (auto simp: start_chat_def split: prod.splits sum.splits prepared_chat.splits option.splits)
qed

lemma started_context:
  assumes "prepare_provider w q a pf = (Inr ctx, pf)"
  shows "\<exists>md (c :: constructed_context). model_metadata (b_provider (au_bot a)) (b_model (au_bot a)) = Inr md \<and> ctx_messages ctx = cc_messages c
    \<and> cc_estimated_input_tokens c \<le> mm_context_window_tokens md - 1000
    \<and> last (ctx_messages ctx) = user_message (py_strip (cq_prompt q))"
  using assms
proof (rule prepare_provider_InrD)
  fix gp k px c
  assume c: "chat_context w q a (combined_system_prompt (b_system_prompt (au_bot a)) k)
      (chat_history w q (pce_execution_id px) (messages (pf_db pf))) = Inr c"
    and ctx: "ctx = \<lparr>ctx_provider = gp, ctx_messages = cc_messages c, ctx_system_prompt = cc_system_prompt c\<rparr>"
  obtain md where "model_metadata (b_provider (au_bot a)) (b_model (au_bot a)) = Inr md"
    "cc_estimated_input_tokens c \<le> mm_context_window_tokens md - 1000" "last (cc_messages c) = user_message (py_strip (cq_prompt q))"
    using chat_context_InrD [OF c] by blast
  then show ?thesis by (intro exI [of _ md] exI [of _ c]) (simp add: ctx)
qed

lemma persisted_request:
  assumes "persist_request w q a p3 = (Inr (), pf)" and "pf_persisted pf = Some px" and "au_decision_id a = pw_decision_id w"
  shows "\<exists>r b. exchange_stored r px (pw_decision_id w) (pf_db pf) \<and> pf_budget pf = Some b \<and> px_user_id r = pw_user_id w
    \<and> px_organization_id r = pw_org w \<and> px_conversation_id r = cq_conversation_id q
    \<and> px_estimated_tokens r = estimate_total_tokens (budget_estimate b)"
proof -
  from persist_request_InrD [OF assms(1)] obtain b eid px' where b: "pf_budget p3 = Some b"
    and pf: "pf = p3\<lparr>pf_db := pf_db pf, pf_persisted := Some px'\<rparr>"
    and run: "prepare_exchange (pw_persist_env w) (exchange_of w q a eid b (pf_reserved p3)) (pf_db p3) = (Inr px', pf_db pf)"
    by blast
  have [simp]: "px' = px" using assms(2) by (subst (asm) pf) simp
  have "pf_budget pf = Some b" by (subst pf) (simp add: b)
  moreover have "exchange_stored (exchange_of w q a eid b (pf_reserved p3)) px (pw_decision_id w) (pf_db pf)"
    using prepare_exchange_stored [OF run] assms(3) by (simp add: exchange_of_def)
  ultimately show ?thesis by (intro exI [of _ "exchange_of w q a eid b (pf_reserved p3)"] exI [of _ b]) (simp add: exchange_of_def)
qed

section \<open>A started chat\<close>



definition sample_chat_bot :: bot where
  "sample_chat_bot = sample_bot\<lparr>b_provider := ''openai'', b_model := ''gpt-4o''\<rparr>"

definition sample_chat_rq :: idem_request where
  "sample_chat_rq = \<lparr>rq_cached_body = Some ''hello'', rq_organization_id = Some 2, rq_user_id = Some 7,
     rq_idempotency_header = Some ''k1''\<rparr>"

definition sample_payload :: chat_payload where
  "sample_payload = \<lparr>cq_conversation_id = 1, cq_bot_id = 5, cq_prompt = '' hello '', cq_idempotency_key = None,
     cq_verify = False, cq_knowledge_scope = None\<rparr>"

definition sample_world :: "rat preflight_world" where
  "sample_world = \<lparr>pw_settings = \<lparr>cs_redis_url = ''redis'', cs_app_env = ''production'', cs_user_token_limit = Some 5000,
       cs_organization_token_limit = Some 5000, cs_max_attempts = 3\<rparr>,
     pw_environ = (\<lambda>k. if k = ''EIRAOS_PROVIDER_K1'' then Some ''sk'' else None), pw_sha = (\<lambda>s. s), pw_request_id = ''r1'',
     pw_request = sample_chat_rq, pw_authorization = sample_auth, pw_user_id = 7, pw_org = 2,
     pw_conversations = [sample_conversation\<lparr>cv_organization_id := 2\<rparr>], pw_bots = [sample_chat_bot], pw_sql_fails = (\<lambda>_. False),
     pw_decision_env = calm 0, pw_decision_id = ''d1'', pw_ledger = alone 0 ''t1'', pw_loads = (\<lambda>s. Some (JStr s)),
     pw_fresh_execution = ''f'', pw_recovery_env = calm 0, pw_redis_up = True, pw_redis_now = 0, pw_persist_env = calm 0,
     pw_api_key = None, pw_post = (\<lambda>_. HttpError), pw_engine = sample_engine, pw_documents = sample_documents,
     pw_release_up = True, pw_release_now = 5, pw_fail_env = calm 5\<rparr>"

definition sample_pf :: preflight where
  "sample_pf = new_preflight empty_chat_db Map.empty sample_gate"


lemma sample_start:
  "case start_chat sample_world sample_payload sample_pf of (Started a ctx idem px, pf) \<Rightarrow> cq_prompt sample_payload = '' hello '' | _ \<Rightarrow> False"
  by code_simp


section \<open>The private scope\<close>

text \<open>A chat over the caller's private documents never starts.  The search is asked without saying who asks, so
  the check that protects private documents refuses everybody, the owner included.\<close>

theorem private_scope_never_starts:
  assumes "cq_knowledge_scope q = Some scope" and "search_scope (py_strip scope) = ''private''"
  shows "fst (start_chat w q pf0) \<noteq> Started a ctx idem px"
proof
  assume "fst (start_chat w q pf0) = Started a ctx idem px"
  then obtain pf where "start_chat w q pf0 = (Started a ctx idem px, pf)" by (cases "start_chat w q pf0") simp
  then obtain p1 where "authorize_chat w q pf0 = (Inr a, p1)" and c: "prepare_provider w q a pf = (Inr ctx, pf)"
    using start_chat_StartedD by (fast elim: prepare_InrD)
  then have sc: "au_knowledge_scope a = Some (py_strip scope)" "py_strip scope \<noteq> []"
    using authorize_chat_InrD [of w q pf0 a p1] assms(1) by (auto simp: valid_knowledge_scope_def Let_def split: if_splits)
  from c obtain k where "knowledge_context w (cq_prompt q) (au_knowledge_scope a) = Inr k" by (rule prepare_provider_InrD)
  then show False using sc assms(2)
    by (auto simp: knowledge_context_def py_or_none_def py_or_empty_def hybrid_search_def Let_def split: sum.splits if_splits)
qed

section \<open>Replays\<close>

lemma begin_alone_replay:
  assumes "begin_idempotency sha (alone now token) n rq key db = (Inr out, db')" and "io_status out = Completed"
    and "resolve_context rq = Inr (org, uid)"
  shows "db' = db \<and> (\<exists>r. get_by idem_key (org, uid, key) (idem_rows db) = Some r \<and> ir_status r = Completed
    \<and> ir_request_hash r = body_digest sha rq)"
proof -
  have fresh: "io_status out' = Processing" if "begin_idempotency sha (alone now token) m rq key x = (Inr out', y)"
    "get_by idem_key (org, uid, key) (idem_rows x) = None" for m x out' y
    using that assms(3) by (auto simp: begin_idempotency.simps Let_def owned_def)
  have gone: "get_by idem_key (org, uid, key) (idem_rows (delete_idem_rows (\<lambda>r. idem_key r = (org, uid, key)) db)) = None"
    by (simp add: idem_rows_delete get_by_filter_None)
  have world: "iw_now (alone now token) n = now" "iw_token (alone now token) n = token" "iw_interfere (alone now token) n db = db"
    by (simp_all add: alone_def)
  note step = assms(1) [unfolded begin_idempotency.simps [of sha "alone now token" n] world]
  show ?thesis using step assms(2,3) fresh [OF _ gone] by (auto simp: Let_def owned_def split: option.splits if_splits)
qed

lemma find_refine: "find P xs = Some x \<Longrightarrow> Q x \<Longrightarrow> find (\<lambda>y. P y \<and> Q y) xs = Some x"
  by (induction xs) (auto split: if_splits)

lemma reserve_idempotency_replay:
  assumes "reserve_idempotency w q pf = (Inr idem, pf')" and "is_cached_response idem = Some j" and "is_cached_response (pf_reserved pf) = None"
    and "pw_ledger w = alone now token"
  shows "pf_db pf' = pf_db pf \<and> (\<exists>key org uid r ref. resolve_idempotency_key (pw_request w) (cq_idempotency_key q) = Inr (Some key)
    \<and> resolve_context (pw_request w) = Inr (org, uid) \<and> get_by idem_key (org, uid, key) (idem_rows (pf_db pf)) = Some r
    \<and> ir_status r = Completed \<and> ir_request_hash r = body_digest (pw_sha w) (pw_request w)
    \<and> ir_response_reference r = Some ref \<and> pw_loads w ref = Some j)"
proof -
  obtain key where key: "resolve_idempotency_key (pw_request w) (cq_idempotency_key q) = Inr (Some key)"
    using assms(1-3) by (auto simp: reserve_idempotency_def split: sum.splits option.splits)
  obtain out db where b: "begin_idempotency (pw_sha w) (alone now token) 0 (pw_request w) key (pf_db pf) = (Inr out, db)"
    using assms(1,4) key by (auto simp: reserve_idempotency_def split: sum.splits prod.splits)
  have adopt: "is_cached_response i = None" if "adopt_outcome w key o' p = (Inr i, p')" for o' p i p'
    using that by (auto simp: adopt_outcome_def Let_def split: option.splits if_splits prod.splits sum.splits)
  obtain ref where ref: "io_status out = Completed" "read_cached_response (pw_request w) key db = Inr (Some ref)"
    "replay_reservation w key (io_record_id out) ref (pf\<lparr>pf_db := db\<rparr>) = (Inr idem, pf')"
    using assms(1,2,4) key b adopt
    by (auto simp: reserve_idempotency_def split: sum.splits prod.splits option.splits if_splits)
  obtain org uid where ctx: "resolve_context (pw_request w) = Inr (org, uid)"
    using ref(2) by (auto simp: read_cached_response_def split: sum.splits)
  from begin_alone_replay [OF b ref(1) ctx] obtain r where db: "db = pf_db pf"
    and r: "get_by idem_key (org, uid, key) (idem_rows (pf_db pf)) = Some r" "ir_status r = Completed"
      "ir_request_hash r = body_digest (pw_sha w) (pw_request w)" by blast
  have "find (\<lambda>r. idem_key r = (org, uid, key) \<and> ir_status r = Completed) (idem_rows (pf_db pf)) = Some r"
    using r(1,2) by (simp add: get_by_def find_refine)
  then have "ir_response_reference r = Some ref" using ref(2) ctx db by (simp add: read_cached_response_def)
  moreover have "pw_loads w ref = Some j \<and> pf_db pf' = db"
    using ref(3) assms(2) by (auto simp: replay_reservation_def Let_def split: option.splits if_splits)
  ultimately show ?thesis using key ctx db r by blast
qed


lemma start_chat_ReplayedD:
  assumes "start_chat w q pf0 = (Replayed j, pf)"
  obtains idem pf1 where "prepare w q pf0 = (Inr (Replay idem j), pf1)" and "record_replay w j pf1 = (Replayed j, pf)"
proof -
  have a: "\<And>e pf1 pf2. answer_failure w e pf1 \<noteq> (Replayed j, pf2)"
    by (auto simp: answer_failure_def split: prod.splits sum.splits preflight_error.splits)
  have r: "\<And>j' pf1 pf2. record_replay w j' pf1 = (Replayed j, pf2) \<Longrightarrow> j' = j"
    by (auto simp: record_replay_def split: prod.splits sum.splits option.splits)
  show thesis using assms a that
    by (auto simp: start_chat_def split: prod.splits sum.splits prepared_chat.splits option.splits dest: r)
qed

lemma record_replay_effects:
  assumes "record_replay w j pf = (Replayed j, pf')" and "pf_decision pf = Some (pw_decision_id w)"
  obtains db where "pf' = pf\<lparr>pf_db := db\<rparr>" and "db = (pf_db pf)\<lparr>decisions := decisions db\<rparr>"
    and "\<exists>d. own_decision w db = Some d \<and> gd_allowed d \<and> gd_finalized_at d \<noteq> None"
proof -
  obtain db where rr: "record_result (pw_fail_env w) (pw_decision_id w) ''replayed'' 200 None (pf_db pf) = (Inr (), db)"
    and pf': "pf' = pf\<lparr>pf_db := db\<rparr>"
    using assms by (auto simp: record_replay_def split: prod.splits sum.splits)
  show thesis by (rule that [OF pf' record_result_only_decisions [OF rr] record_result_closes [OF rr]])
qed



definition sample_replay_db :: chat_db where
  "sample_replay_db = empty_chat_db\<lparr>idem_rows := [settle_idem 200 ''done'' (new_idem_row 1 2 7 ''k1'' ''hello'' 0 ''t0'')], next_row := 2\<rparr>"

lemma sample_replay_wf: "chat_wf sample_replay_db"
  by (simp add: sample_replay_db_def chat_wf_def idem_wf_def empty_chat_db_def new_idem_row_def settle_idem_def)

lemma sample_replay:
  "case start_chat sample_world sample_payload (new_preflight sample_replay_db Map.empty sample_gate) of
     (Replayed j, pf) \<Rightarrow> cq_prompt sample_payload = '' hello '' | _ \<Rightarrow> False"
  by code_simp


theorem private_scope_never_starts_witness:
  "case fst (start_chat sample_world (sample_payload\<lparr>cq_knowledge_scope := Some '' private''\<rparr>) sample_pf) of
     Started a ctx idem px \<Rightarrow> False | _ \<Rightarrow> True"
proof -
  have "search_scope (py_strip '' private'') = ''private''" by code_simp
  from private_scope_never_starts [OF _ this, of "sample_payload\<lparr>cq_knowledge_scope := Some '' private''\<rparr>" sample_world sample_pf]
  show ?thesis by (simp split: chat_start.splits)
qed

section \<open>Failures before the exchange is stored\<close>

lemma complete_settles:
  assumes "resolve_context rq = Inr (org, uid)"
    and "get_by idem_key (org, uid, key) (idem_rows (snd (complete_idempotency now rq key code ref (Some token) db))) = Some r"
    and "ir_lease_token r = Some token" and "ir_status r = Processing"
  shows "expired_before (ir_lease_until r) now"
  using assms by (auto simp: complete_idempotency_def get_by_set_idem settle_idem_def split: option.splits if_splits)

text \<open>The budget is given back: either nothing had been taken, or both counters of the tenant are what they
  were.\<close>

definition refunded :: "'v preflight_world \<Rightarrow> redis \<Rightarrow> redis \<Rightarrow> bool" where
  "refunded w s s' \<longleftrightarrow> s' = s
     \<or> redis_number (pw_release_now w) (user_budget_key (pw_org w) (pw_user_id w)) s'
         = redis_number (pw_redis_now w) (user_budget_key (pw_org w) (pw_user_id w)) s
       \<and> redis_number (pw_release_now w) (organization_budget_key (pw_org w)) s'
         = redis_number (pw_redis_now w) (organization_budget_key (pw_org w)) s"

definition release_in_time :: "'v preflight_world \<Rightarrow> redis \<Rightarrow> bool" where
  "release_in_time w s \<longleftrightarrow> pw_release_up w \<and> pw_redis_now w \<le> pw_release_now w
     \<and> pw_release_now w < pw_redis_now w + budget_window * 1000000
     \<and> 0 \<le> redis_number (pw_redis_now w) (user_budget_key (pw_org w) (pw_user_id w)) s
     \<and> 0 \<le> redis_number (pw_redis_now w) (organization_budget_key (pw_org w)) s"

lemma release_budget_refunds:
  assumes "uncharged s pf \<or> charged w q s pf" and "pf_persisted pf = None" and "release_in_time w s"
  shows "refunded w s (pf_redis (release_budget w pf))"
  using assms(1)
proof
  assume "uncharged s pf"
  then show ?thesis by (auto simp: uncharged_def release_budget_def refunded_def split: option.splits budgeted_execution.splits)
next
  assume "charged w q s pf"
  then obtain e eid ul ol where b: "pf_budget pf = Some (TenantBudget e)" "cs_redis_url (pw_settings w) \<noteq> []"
    and run: "reserve_for w q eid ul ol s = (Inr e, pf_redis pf)" by (auto simp: charged_def)
  have pf: "pf_redis (release_budget w pf) = snd (release_tenant (pw_release_up w) (pw_release_now w) (er_tenant e) (pf_redis pf))"
    using b assms(2) by (simp add: release_budget_def)
  show ?thesis
  proof (cases "tr_replayed (er_tenant e)")
    case True
    then have "pf_redis pf = s" using reserve_tenant_InrD [OF reserve_execution_Inr(1) [OF run]] by simp
    then show ?thesis using True by (simp add: pf refunded_def release_tenant_def)
  next
    case False
    have time: "pw_redis_now w \<le> pw_release_now w" "pw_release_now w < pw_redis_now w + budget_window * 1000000"
      "0 \<le> redis_number (pw_redis_now w) (user_budget_key (pw_org w) (pw_user_id w)) s"
      "0 \<le> redis_number (pw_redis_now w) (organization_budget_key (pw_org w)) s" and up: "pw_release_up w"
      using assms(3) by (simp_all add: release_in_time_def)
    from release_new [OF reserve_execution_new(1) [OF run False] time] show ?thesis
      by (elim exE) (simp add: pf up refunded_def)
  qed
qed


lemma record_result_calm:
  assumes "own_decision w db = Some d" and "gd_allowed d"
  obtains db' where "record_result (calm t) (pw_decision_id w) st code failure db = (Inr (), db')"
    and "db' = db\<lparr>decisions := decisions db'\<rparr>" and "\<exists>d. own_decision w db' = Some d \<and> gd_allowed d \<and> gd_finalized_at d \<noteq> None"
proof -
  obtain db' where run: "record_result (calm t) (pw_decision_id w) st code failure db = (Inr (), db')"
  proof -
    assume that: "\<And>db'. record_result (calm t) (pw_decision_id w) st code failure db = (Inr (), db') \<Longrightarrow> thesis"
    have "fst (record_result (calm t) (pw_decision_id w) st code failure db) = Inr ()"
      using assms by (simp add: record_result_def calm_def Let_def)
    then show thesis using that by (metis prod.collapse)
  qed
  show thesis by (rule that [OF run record_result_only_decisions [OF run] record_result_closes [OF run]])
qed

definition decision_closed :: "'v preflight_world \<Rightarrow> preflight \<Rightarrow> bool" where
  "decision_closed w pf \<longleftrightarrow> pf_decision pf = None
     \<or> (\<exists>d. own_decision w (pf_db pf) = Some d \<and> gd_allowed d \<and> gd_finalized_at d \<noteq> None)"

lemma close_decision_calm:
  assumes "recorded w pf" and "pw_fail_env w = calm t"
  obtains db where "close_decision_of w code failure pf = (Inr (), pf\<lparr>pf_db := db\<rparr>)" and "decision_closed w (pf\<lparr>pf_db := db\<rparr>)"
proof (cases "pf_decision pf")
  case None
  then show thesis using that [of "pf_db pf"] by (simp add: close_decision_of_def decision_closed_def)
next
  case (Some i)
  then obtain d where d: "own_decision w (pf_db pf) = Some d" "gd_allowed d" and i: "i = pw_decision_id w"
    using assms(1) by (auto simp: recorded_def)
  from record_result_calm [OF d] obtain db where
      "record_result (calm t) (pw_decision_id w) ''preflight_failed'' code (Some failure) (pf_db pf) = (Inr (), db)"
    and "\<exists>d. own_decision w db = Some d \<and> gd_allowed d \<and> gd_finalized_at d \<noteq> None" by metis
  then show thesis using that [of db] Some i assms(2) by (simp add: close_decision_of_def decision_closed_def)
qed

text \<open>The request still holds the live lease of its key.\<close>

definition lease_held :: "'v preflight_world \<Rightarrow> preflight \<Rightarrow> bool" where
  "lease_held w pf \<longleftrightarrow> (\<exists>org uid key token r. resolve_context (pw_request w) = Inr (org, uid)
     \<and> is_key (pf_reserved pf) = Some key \<and> key \<noteq> [] \<and> is_lease_token (pf_reserved pf) = Some token \<and> token \<noteq> []
     \<and> get_by idem_key (org, uid, key) (idem_rows (pf_db pf)) = Some r \<and> ir_status r = Processing
     \<and> ir_lease_token r = Some token \<and> \<not> expired_before (ir_lease_until r) (env_now (pw_fail_env w)))"

lemma release_lease_settles:
  "\<not> lease_held w (pf\<lparr>pf_db := release_preflight_lease (env_now (pw_fail_env w)) (pw_request w) (pf_reserved pf) code db\<rparr>)"
  by (auto simp: lease_held_def release_preflight_lease_def py_or_none_def py_or_empty_def dest: complete_settles)

lemma release_lease_decisions: "decisions (release_preflight_lease now rq r code db) = decisions db"
  by (auto simp: release_preflight_lease_def complete_idempotency_def split: option.splits sum.splits)

lemma fail_preflight_cleans_up:
  assumes "fail_preflight w code failure p = (x, pf)" and "pf_persisted p = None" and "recorded w p"
    and "uncharged s p \<or> charged w q s p" and "release_in_time w s" and "pw_fail_env w = calm t"
  shows "x = Inr () \<and> decision_closed w pf \<and> refunded w s (pf_redis pf) \<and> \<not> lease_held w pf"
proof -
  let ?p = "release_budget w p"
  have rec: "recorded w ?p" using assms(3) by (simp add: recorded_def)
  obtain db where close: "close_decision_of w code failure ?p = (Inr (), ?p\<lparr>pf_db := db\<rparr>)"
    and closed: "decision_closed w (?p\<lparr>pf_db := db\<rparr>)"
    using close_decision_calm [OF rec assms(6)] by blast
  have run: "x = Inr ()" "pf = ?p\<lparr>pf_db := release_preflight_lease (env_now (pw_fail_env w)) (pw_request w) (pf_reserved ?p) code db\<rparr>"
    using assms(1,2) close by (auto simp: fail_preflight_def Let_def and_then_def)
  have "decision_closed w pf" using closed by (simp add: run(2) decision_closed_def release_lease_decisions)
  moreover have "refunded w s (pf_redis pf)" using release_budget_refunds [OF assms(4,2,5)] by (simp add: run(2))
  moreover have "\<not> lease_held w pf" unfolding run(2) by (rule release_lease_settles)
  ultimately show ?thesis using run(1) by simp
qed


lemma fail_preflight_persisted:
  assumes "fail_preflight w code failure p = (x, pf)" and "pf_persisted p = Some px"
  shows "pf_persisted pf = Some px"
  using assms by (auto simp: fail_preflight_def Let_def)

lemma start_chat_AnsweredD:
  assumes "start_chat w q pf0 = (Answered e, pf)" and "pf_persisted pf = None"
  obtains (failed) x p code failure y where "prepare w q pf0 = (Inl x, p)" and "fail_preflight w code failure p = (y, pf)"
    and "pf_persisted p = None" and "case y of Inl (PreHttp e') \<Rightarrow> e = e' | _ \<Rightarrow> (\<exists>detail. preflight_answer x = (code, failure, detail) \<and> e = HTTPException code detail)"
  | (unrecorded) idem j p where "prepare w q pf0 = (Inr (Replay idem j), p)" and "record_replay w j p = (Answered e, pf)"
  | (unpersisted) a ctx idem where "prepare w q pf0 = (Inr (Prepared_chat a ctx idem), pf)"
proof -
  obtain r p where prep: "prepare w q pf0 = (r, p)" by fastforce
  show thesis
  proof (cases r)
    case (Inl x)
    obtain code failure detail where a: "preflight_answer x = (code, failure, detail)" by (cases "preflight_answer x")
    obtain y pf2 where f: "fail_preflight w code failure p = (y, pf2)" by fastforce
    have "pf2 = pf" and e: "case y of Inl (PreHttp e') \<Rightarrow> e = e' | _ \<Rightarrow> e = HTTPException code detail"
      using assms(1) prep Inl a f by (auto simp: start_chat_def answer_failure_def split: sum.splits preflight_error.splits)
    moreover have "pf_persisted p = None" using fail_preflight_persisted [OF f] assms(2) calculation(1) by (cases "pf_persisted p") auto
    ultimately show thesis using failed [of x p code failure y] prep Inl a f
      by (auto split: sum.splits preflight_error.splits)
  next
    case (Inr c)
    then show thesis using assms prep unrecorded unpersisted
      by (cases c) (auto simp: start_chat_def split: option.splits)
  qed
qed

lemma replay_records_calm:
  assumes "record_replay w j p = (Answered e, pf)" and "recorded w p" and "pw_fail_env w = calm t"
  shows False
proof (cases "pf_decision p")
  case None
  then show ?thesis using assms(1) by (simp add: record_replay_def)
next
  case (Some i)
  then obtain d where d: "own_decision w (pf_db p) = Some d" "gd_allowed d" and i: "i = pw_decision_id w"
    using assms(2) by (auto simp: recorded_def)
  obtain db where "record_result (calm t) (pw_decision_id w) ''replayed'' 200 None (pf_db p) = (Inr (), db)"
    using record_result_calm [OF d] by metis
  then show ?thesis using assms(1,3) Some i by (simp add: record_replay_def)
qed



definition failing_world :: "rat preflight_world" where
  "failing_world = sample_world\<lparr>pw_persist_env := (calm 0)\<lparr>env_flush_fails := True\<rparr>\<rparr>"

lemma sample_failure:
  "case start_chat failing_world sample_payload sample_pf of
     (Answered e, pf) \<Rightarrow> (case pf_persisted pf of None \<Rightarrow> pf_budget pf \<noteq> None | Some x \<Rightarrow> False) | _ \<Rightarrow> False"
  by code_simp


section \<open>Consistency\<close>

text \<open>The tables stay consistent.  Whatever a chat request asks for and whatever fails on the way, preparing it
  keeps the consistency of the chat tables, as long as the transactions that run in between do.\<close>

theorem chat_start_keeps_tables:
  assumes "chat_wf (pf_db pf)" and "\<And>i d. chat_wf d \<Longrightarrow> chat_wf (iw_interfere (pw_ledger w) i d)"
  shows "chat_wf (pf_db (snd (start_chat w q pf)))"
proof -
  obtain r pf1 where p: "prepare w q pf = (r, pf1)" by fastforce
  have wf: "chat_wf (pf_db pf1)"
    using keepsD [OF prepare_tables [OF assms(2)] p] assms(1) by (simp add: keeps_tables_def)
  show ?thesis
  proof (cases r)
    case (Inl e)
    obtain code failure detail where a: "preflight_answer e = (code, failure, detail)" by (cases "preflight_answer e")
    obtain x pf2 where f: "fail_preflight w code failure pf1 = (x, pf2)" by fastforce
    have "chat_wf (pf_db pf2)" using keepsD [OF fail_preflight_tables f] wf by (simp add: keeps_tables_def)
    then show ?thesis using p Inl a f
      by (auto simp: start_chat_def answer_failure_def split: sum.splits preflight_error.splits)
  next
    case (Inr c)
    then show ?thesis using p wf
      by (auto simp: start_chat_def record_replay_def split: prepared_chat.splits option.splits prod.splits sum.splits
          dest: record_result_tables)
  qed
qed


theorem chat_start_keeps_tables_witness:
  "chat_wf (pf_db (snd (start_chat sample_world sample_payload sample_pf)))"
  by (rule chat_start_keeps_tables) (simp_all add: sample_pf_def new_preflight_def chat_wf_empty sample_world_def alone_def)

end
