(* ===== verification/ChatCompletion.thy ===== *)
theory ChatCompletion
  imports ChatStream
begin

text \<open>
  The completion without a stream (\<^verbatim>\<open>api/v1/chat.py\<close>, \<^verbatim>\<open>if not payload.stream\<close>): one isolated provider
  call, the usage, the verification, the terminal transition and the exceptions of the whole.  What the
  closures close over is a \<open>stream_request\<close>; the entries of the accounting, the counters and the
  tables are the state.
\<close>

section \<open>Values, world, state\<close>

text \<open>What \<^verbatim>\<open>execute\<close> may hand back: the provider's completion, or what the validator returned in its place.
  Only a completion has attributes \<^verbatim>\<open>text\<close> and \<^verbatim>\<open>usage\<close>.\<close>

datatype completion_object = CompletionResult pyval "provider_usage option" | TextResult string

definition validate_completion :: "completion_object \<Rightarrow> py_exception + completion_object" where
  "validate_completion obj = (case obj of
     CompletionResult t _ \<Rightarrow> (case require_text t of Inl e \<Rightarrow> Inl e | Inr s \<Rightarrow> Inr (TextResult s))
   | TextResult _ \<Rightarrow> Inl (OtherError ''AttributeError''))"

definition completion_fields :: "completion_object \<Rightarrow> py_exception + string \<times> provider_usage option" where
  "completion_fields obj = (case obj of
     CompletionResult (PStr s) u \<Rightarrow> Inr (s, u)
   | _ \<Rightarrow> Inl (OtherError ''AttributeError''))"

record completion_world =
  cw_result :: "py_exception + completion_object"
  cw_takes :: rat
  cw_lost_after_primary :: bool
  cw_lost_at_end :: bool
  cw_redis_up :: bool
  cw_redis_now :: microseconds
  cw_verifier :: "(string \<times> string \<times> completer \<times> rat) option"
  cw_between :: "chat_db \<Rightarrow> chat_db"
  cw_finalize_env :: db_env
  cw_failure_env :: db_env

record completing =
  co_entries :: "execution_cost list"
  co_redis :: redis
  co_db :: chat_db

datatype completion_error = Raises py_exception | RaisesHttp int string | RaisesPersistence persistence_error

type_synonym 'a cstep = "(completing, completion_error, 'a) step"

section \<open>The body\<close>

definition note_cost :: "accounting_error + execution_cost \<Rightarrow> unit cstep" where
  "note_cost r st = (case r of
     Inl _ \<Rightarrow> (Inl (Raises (OtherError ''CostAccountingUnavailable'')), st)
   | Inr c \<Rightarrow> (Inr (), st\<lparr>co_entries := co_entries st @ [c]\<rparr>))"

text \<open>Without a tenant reservation reported usage is not accounted at all.\<close>

definition settle_usage :: "stream_request \<Rightarrow> completion_world \<Rightarrow> provider_usage \<Rightarrow> unit cstep" where
  "settle_usage sr w u =
     (case sr_reservation sr of
        None \<Rightarrow> give ()
      | Some r \<Rightarrow>
          and_then (note_cost (account_reported (sr_provider sr) (sr_model sr) ''primary'' (us_input_tokens u) (us_output_tokens u)))
            (\<lambda>_ st. (case settle_execution (cw_redis_up w) (cw_redis_now w) r (us_total_tokens u) (co_redis st) of
               (Inl _, s) \<Rightarrow> (Inl (Raises (OtherError ''Provider usage reconciliation failed.'')), st\<lparr>co_redis := s\<rparr>)
             | (Inr _, s) \<Rightarrow> (Inr (), st\<lparr>co_redis := s\<rparr>))))"

definition meter_primary :: "stream_request \<Rightarrow> completion_world \<Rightarrow> string \<Rightarrow> provider_usage option \<Rightarrow> unit cstep" where
  "meter_primary sr w output usage = (case usage of
     None \<Rightarrow> note_cost (account_primary sr output) | Some u \<Rightarrow> settle_usage sr w u)"

definition require_lease :: "stream_request \<Rightarrow> bool \<Rightarrow> unit cstep" where
  "require_lease sr lost =
     (if sr_has_lease sr \<and> lost then fail (RaisesHttp 409 ''Idempotency lease was lost during AI processing.'') else give ())"

text \<open>Verification: any \<^verbatim>\<open>Exception\<close>, also of the accounting of the verifier, makes it a failed one.\<close>

definition verify_completion :: "stream_request \<Rightarrow> completion_world \<Rightarrow> string \<Rightarrow> (string \<times> bool \<times> string option \<times> string option) cstep" where
  "verify_completion sr w answer st =
     (if \<not> sr_verify sr then (Inr (answer, False, None, None), st)
      else (let failed = verification_failure (sr_badges sr) answer not_carried_out;
                adopt = (\<lambda>r. (vr_answer r, vr_verified r, Some (vr_status r), Some (vr_reason r)))
        in (case run_verification sr (cw_verifier w) answer of
              (Inl e, _) \<Rightarrow> (Inl (Raises e), st)
            | (Inr r, context_of) \<Rightarrow>
                (case (vr_provider_output r, context_of) of
                   (Some output, Some (provider, model)) \<Rightarrow>
                     (case note_cost (account CHARS_PER_TOKEN_ACCOUNTED provider model ''verification''
                             (build_verification_messages (sr_prompt sr) answer) output (Some VERIFICATION_SYSTEM_PROMPT)) st of
                        (Inl _, st') \<Rightarrow> (Inr (adopt failed), st')
                      | (Inr _, st') \<Rightarrow> (Inr (adopt r), st'))
                 | _ \<Rightarrow> (Inr (adopt r), st)))))"

definition completed_request :: "stream_request \<Rightarrow> string \<times> bool \<times> string option \<times> string option \<Rightarrow> completing \<Rightarrow> finalize_request" where
  "completed_request sr v st = (case v of (content, verified, status, reason) \<Rightarrow>
     \<lparr>fz_execution_id = sr_execution_id sr, fz_terminal_status = Completed, fz_content = content, fz_response_status = 200,
      fz_response_reference = sr_dumps sr content verified status reason, fz_lease_token = sr_lease_token sr,
      fz_failure_code = None, fz_accounting = co_entries st\<rparr>)"

definition finalize_completion :: "stream_request \<Rightarrow> completion_world \<Rightarrow> string \<times> bool \<times> string option \<times> string option
    \<Rightarrow> (string \<times> bool \<times> string option \<times> string option) cstep" where
  "finalize_completion sr w v st =
     (case finalize (cw_finalize_env w) (completed_request sr v st) (co_db st) of
        (Inl e, db) \<Rightarrow> (Inl (RaisesPersistence e), st\<lparr>co_db := db\<rparr>)
      | (Inr True, db) \<Rightarrow> (Inr v, st\<lparr>co_db := db\<rparr>)
      | (Inr False, db) \<Rightarrow> (Inl (RaisesHttp 409 ''Execution was already finalized.''), st\<lparr>co_db := db\<rparr>))"

definition use_completion :: "stream_request \<Rightarrow> completion_world \<Rightarrow> string \<times> provider_usage option
    \<Rightarrow> (string \<times> bool \<times> string option \<times> string option) cstep" where
  "use_completion sr w c =
     and_then (meter_primary sr w (fst c) (snd c)) (\<lambda>_.
     and_then (require_lease sr (cw_lost_after_primary w)) (\<lambda>_.
     and_then (verify_completion sr w (fst c)) (\<lambda>v.
     and_then (require_lease sr (cw_lost_at_end w)) (\<lambda>_.
     finalize_completion sr w v))))"

definition call_provider :: "stream_request \<Rightarrow> completion_world \<Rightarrow> completion_object cstep" where
  "call_provider sr w st =
     (case isolated_execute (sr_timeout sr) validate_completion (cw_takes w) (cw_result w) of
        Inl e \<Rightarrow> (Inl (Raises e), st\<lparr>co_db := cw_between w (co_db st)\<rparr>)
      | Inr obj \<Rightarrow> (Inr obj, st\<lparr>co_db := cw_between w (co_db st)\<rparr>))"

definition completion_body :: "stream_request \<Rightarrow> completion_world \<Rightarrow> (string \<times> bool \<times> string option \<times> string option) cstep" where
  "completion_body sr w =
     and_then (call_provider sr w) (\<lambda>obj.
     (case completion_fields obj of Inl e \<Rightarrow> fail (Raises e) | Inr c \<Rightarrow> use_completion sr w c))"

section \<open>Failures\<close>

definition failure_request :: "stream_request \<Rightarrow> failure_code \<Rightarrow> completing \<Rightarrow> finalize_request" where
  "failure_request sr code st =
     \<lparr>fz_execution_id = sr_execution_id sr,
      fz_terminal_status = (if code = CLIENT_CANCELLED then Cancelled else Failed), fz_content = [],
      fz_response_status = fp_response_status (failure_policy code), fz_response_reference = ''failed'',
      fz_lease_token = sr_lease_token sr, fz_failure_code = Some code, fz_accounting = co_entries st\<rparr>"

definition finalize_failure :: "stream_request \<Rightarrow> completion_world \<Rightarrow> failure_code \<Rightarrow> bool cstep" where
  "finalize_failure sr w code =
     and_then (\<lambda>st. if \<exists>c \<in> set (co_entries st). ec_operation c = ''primary'' then (Inr (), st)
                    else note_cost (account_primary sr []) st)
       (\<lambda>_ st. (case finalize (cw_failure_env w) (failure_request sr code st) (co_db st) of
          (Inl e, db) \<Rightarrow> (Inl (RaisesPersistence e), st\<lparr>co_db := db\<rparr>)
        | (Inr b, db) \<Rightarrow> (Inr b, st\<lparr>co_db := db\<rparr>)))"

datatype completion_reply =
    CompletionPayload "string \<times> bool \<times> string option \<times> string option"
  | CompletionFails api_error
  | CompletionCancelled

definition persistence_unavailable :: completion_reply where
  "persistence_unavailable = CompletionFails (HTTPException 503 ''Execution persistence is unavailable.'')"

text \<open>\<^verbatim>\<open>except PersistenceConflict: pass\<close>, \<^verbatim>\<open>except PersistenceUnavailable\<close>: a 503; anything else that settling
  raises is not handled.  The quiet form swallows both.\<close>

definition settle_then :: "stream_request \<Rightarrow> completion_world \<Rightarrow> failure_code \<Rightarrow> bool \<Rightarrow> completion_reply \<Rightarrow> completing
    \<Rightarrow> completion_reply \<times> completing" where
  "settle_then sr w code quiet reply st =
     (case finalize_failure sr w code st of
        (Inl (RaisesPersistence (PersistenceUnavailable _)), st') \<Rightarrow> (if quiet then reply else persistence_unavailable, st')
      | (Inl (RaisesPersistence (PersistenceConflict _)), st') \<Rightarrow> (reply, st')
      | (Inl (RaisesPersistence (RetryLimitExceeded _)), st') \<Rightarrow> (reply, st')
      | (Inl _, st') \<Rightarrow> (CompletionFails (ServerError ''settlement''), st')
      | (Inr _, st') \<Rightarrow> (reply, st'))"

definition completion_failed :: "stream_request \<Rightarrow> completion_world \<Rightarrow> completion_error \<Rightarrow> completing \<Rightarrow> completion_reply \<times> completing" where
  "completion_failed sr w e = (case e of
     Raises (IsolatedProviderFailure k) \<Rightarrow>
       settle_then sr w (isolated_failure_code k) False (CompletionFails (HTTPException (isolated_response_status k)
         (if k = TimeoutKind then ''AI provider timed out.'' else ''AI provider could not fulfil the request.'')))
   | Raises CancelledError \<Rightarrow> settle_then sr w CLIENT_CANCELLED True CompletionCancelled
   | RaisesHttp code detail \<Rightarrow> settle_then sr w IDEMPOTENCY_LOST True (CompletionFails (HTTPException code detail))
   | RaisesPersistence (PersistenceUnavailable _) \<Rightarrow> Pair persistence_unavailable
   | _ \<Rightarrow> settle_then sr w PROVIDER_FAILURE False
       (CompletionFails (HTTPException 502 ''AI provider could not fulfil the request.'')))"

definition complete_chat :: "stream_request \<Rightarrow> completion_world \<Rightarrow> completing \<Rightarrow> completion_reply \<times> completing" where
  "complete_chat sr w st =
     (case completion_body sr w st of
        (Inr v, st') \<Rightarrow> (CompletionPayload v, st')
      | (Inl e, st') \<Rightarrow> completion_failed sr w e st')"

section \<open>A completion never arrives\<close>

lemma isolated_text:
  "isolated_execute timeout validate_completion takes out = Inr obj \<Longrightarrow> \<exists>s. obj = TextResult s"
  by (auto simp: isolated_execute_def validate_completion_def split: sum.splits completion_object.splits)

lemma completion_body_raises:
  "\<exists>e. completion_body sr w st = (Inl (Raises e), st\<lparr>co_db := cw_between w (co_db st)\<rparr>)"
  using isolated_text
  by (auto simp: completion_body_def and_then_def call_provider_def completion_fields_def fail_def
      split: sum.splits prod.splits dest!: isolated_text)

lemma finalize_failure_outcome:
  assumes "finalize_failure sr w code st = (r, st')"
  shows "co_db st' = co_db st \<or> (\<exists>fz. fz_execution_id fz = sr_execution_id sr
     \<and> fz_terminal_status fz \<in> {Failed, Cancelled} \<and> co_db st' = snd (finalize (cw_failure_env w) fz (co_db st)))"
  using assms unfolding finalize_failure_def
proof (rule and_then_cases)
  fix e
  assume "(if \<exists>c \<in> set (co_entries st). ec_operation c = ''primary'' then (Inr (), st)
      else note_cost (account_primary sr []) st) = (Inl e, st')"
  then show ?thesis by (auto simp: note_cost_def split: if_splits sum.splits)
next
  fix u p
  assume p: "(if \<exists>c \<in> set (co_entries st). ec_operation c = ''primary'' then (Inr (), st)
      else note_cost (account_primary sr []) st) = (Inr u, p)"
    and f: "(case finalize (cw_failure_env w) (failure_request sr code p) (co_db p) of
      (Inl e, db) \<Rightarrow> (Inl (RaisesPersistence e), p\<lparr>co_db := db\<rparr>) | (Inr b, db) \<Rightarrow> (Inr b, p\<lparr>co_db := db\<rparr>)) = (r, st')"
  have "co_db p = co_db st" using p by (auto simp: note_cost_def split: if_splits sum.splits)
  moreover have "co_db st' = snd (finalize (cw_failure_env w) (failure_request sr code p) (co_db p))"
    using f by (auto split: prod.splits sum.splits)
  ultimately show ?thesis by (intro disjI2 exI [of _ "failure_request sr code p"]) (simp add: failure_request_def)
qed

lemma settle_then_outcome:
  assumes "settle_then sr w code quiet reply st = (r, st')"
  shows "(r = reply \<or> (\<exists>e. r = CompletionFails e)) \<and> (\<exists>x. finalize_failure sr w code st = (x, st'))"
  using assms by (auto simp: settle_then_def persistence_unavailable_def
      split: prod.splits sum.splits completion_error.splits persistence_error.splits if_splits)


end
