(* ===== verification/ChatEndpoint.thy ===== *)
theory ChatEndpoint
  imports ChatStart ChatCompletion
begin

text \<open>
  The whole of \<^verbatim>\<open>create_chat_completion\<close>: the preparation, what of it the two ways to answer close over,
  and the answer.  The theorems follow an execution from the authorization of its request to the row of its
  decision and its answer.
\<close>

section \<open>The endpoint\<close>

record chat_constants =
  ck_badges :: badge_texts
  ck_loads :: "string \<Rightarrow> verifier_reply"
  ck_dumps :: "identity \<Rightarrow> string \<Rightarrow> bool \<Rightarrow> string option \<Rightarrow> string option \<Rightarrow> string"
  ck_timeout :: rat

text \<open>Only a reservation of the distributed budget has a \<^verbatim>\<open>tenant\<close> to settle, and the heartbeat only runs
  for a key with a lease.\<close>

definition request_of_start :: "chat_constants \<Rightarrow> chat_payload \<Rightarrow> authorized_chat \<Rightarrow> provider_context \<Rightarrow> idempotency_reservation
    \<Rightarrow> persisted_chat_execution \<Rightarrow> preflight \<Rightarrow> stream_request" where
  "request_of_start ck q a ctx idem px pf =
     \<lparr>sr_execution_id = pce_execution_id px, sr_lease_token = is_lease_token idem,
      sr_has_lease = (py_or_none (py_or_empty (is_key idem)) \<noteq> None \<and> py_or_none (py_or_empty (is_lease_token idem)) \<noteq> None),
      sr_provider = b_provider (au_bot a), sr_model = b_model (au_bot a), sr_messages = ctx_messages ctx,
      sr_system_prompt = ctx_system_prompt ctx, sr_prompt = cq_prompt q, sr_verify = cq_verify q,
      sr_reservation = (case pf_budget pf of Some (TenantBudget r) \<Rightarrow> Some r | _ \<Rightarrow> None), sr_badges = ck_badges ck,
      sr_loads = ck_loads ck, sr_dumps = ck_dumps ck (pce_assistant_message_id px), sr_timeout = ck_timeout ck\<rparr>"

datatype chat_reply =
    PreflightReply api_error
  | CachedReply json
  | PlainReply completion_reply
  | StreamReply "py_exception + unit" gen

definition create_chat_completion :: "'v preflight_world \<Rightarrow> chat_constants \<Rightarrow> stream_world \<Rightarrow> completion_world \<Rightarrow> nat option \<Rightarrow> bool
    \<Rightarrow> chat_payload \<Rightarrow> chat_db \<Rightarrow> redis \<Rightarrow> usage_budget_gate \<Rightarrow> chat_reply \<times> chat_db" where
  "create_chat_completion w ck sw cw pulls stream q db s g =
     (case start_chat w q (new_preflight db s g) of
        (Answered e, pf) \<Rightarrow> (PreflightReply e, pf_db pf)
      | (Replayed j, pf) \<Rightarrow> (CachedReply j, pf_db pf)
      | (Started a ctx idem px, pf) \<Rightarrow>
          (let sr = request_of_start ck q a ctx idem px pf in
           if stream
           then (case event_generator sr sw (new_gen pulls (pf_redis pf) (pf_db pf)) of (r, gen) \<Rightarrow> (StreamReply r gen, g_db gen))
           else (case complete_chat sr cw \<lparr>co_entries = [], co_redis = pf_redis pf, co_db = pf_db pf\<rparr> of
                   (r, st) \<Rightarrow> (PlainReply r, co_db st))))"

section \<open>From the start to the answer\<close>

text \<open>Whose execution it is and what it was decided by.\<close>

definition belongs :: "'v preflight_world \<Rightarrow> chat_payload \<Rightarrow> chat_execution \<Rightarrow> bool" where
  "belongs w q e \<longleftrightarrow> ce_user_id e = pw_user_id w \<and> ce_organization_id e = pw_org w \<and> ce_conversation_id e = cq_conversation_id q"

definition decided :: "'v preflight_world \<Rightarrow> chat_execution \<Rightarrow> chat_db \<Rightarrow> bool" where
  "decided w e db \<longleftrightarrow> (\<exists>d. own_decision w db = Some d \<and> open_decision e d)"

lemma started_execution:
  assumes "start_chat w q pf0 = (Started a ctx idem px, pf)"
  obtains e where "find_execution (pce_execution_id px) (pf_db pf) = Some e" and "ce_status e = Prepared" and "belongs w q e"
    and "decided w e (pf_db pf)"
proof -
  obtain p1 p3 where a: "authorize_chat w q pf0 = (Inr a, p1)" and p: "persist_request w q a p3 = (Inr (), pf)"
    and px: "pf_persisted pf = Some px"
    using start_chat_StartedD [OF assms] by (elim conjE prepare_InrD)
  obtain r where st: "exchange_stored r px (pw_decision_id w) (pf_db pf)" and r: "px_user_id r = pw_user_id w"
    "px_organization_id r = pw_org w" "px_conversation_id r = cq_conversation_id q"
    using persisted_request [OF p px] authorize_chat_InrD [OF a] by blast
  then show thesis using that find_execution_SomeD
    by (fastforce simp: exchange_stored_def same_scope_def belongs_def decided_def open_decision_def)
qed

lemma marked_execution:
  assumes "find_execution eid db = Some e" and "belongs w q e" and "decided w e db"
  obtains e' where "find_execution eid (snd (mark_streaming env eid db)) = Some e'" and "belongs w q e'"
    and "decided w e' (snd (mark_streaming env eid db))"
proof (cases "snd (mark_streaming env eid db) = db")
  case True
  then show thesis using that assms by simp
next
  case False
  then have "\<exists>i. snd (mark_streaming env eid db) = update_message i (\<lambda>m. m\<lparr>ms_status := Streaming\<rparr>)
      (update_execution eid (\<lambda>e. e\<lparr>ce_status := Streaming\<rparr>) db)"
    using assms(1) by (auto simp: mark_streaming_def locked_execution_def ask_def commit_or_unavailable_def split: if_splits option.splits)
  then obtain i where db': "snd (mark_streaming env eid db) = update_message i (\<lambda>m. m\<lparr>ms_status := Streaming\<rparr>)
      (update_execution eid (\<lambda>e. e\<lparr>ce_status := Streaming\<rparr>) db)" by blast
  have "find_execution eid (snd (mark_streaming env eid db)) = Some (e\<lparr>ce_status := Streaming\<rparr>)"
    unfolding db' using assms(1) by (simp add: find_execution_def rows.fetch_modify keeps_key_def)
  moreover have "belongs w q (e\<lparr>ce_status := Streaming\<rparr>)" "decided w (e\<lparr>ce_status := Streaming\<rparr>) (snd (mark_streaming env eid db))"
    using assms(2,3) unfolding db' by (simp_all add: belongs_def decided_def open_decision_def)
  ultimately show thesis by (rule that)
qed

lemma closed_lookup:
  assumes "get_by gd_decision_id i ds = Some d" and "open_decision e d"
  shows "\<exists>d'. get_by gd_decision_id i (update_where (open_decision e) (close_decision now fz) ds) = Some d'
    \<and> gd_allowed d' \<and> gd_finalized_at d' \<noteq> None \<and> gd_execution_id d' = Some (ce_execution_id e)"
  using assms
  by (induction ds) (auto simp: get_by_def update_where_def open_decision_def close_decision_def split: if_splits)

lemma finalized_chat:
  assumes "finalize env fz db = (Inr True, db')" and "find_execution (fz_execution_id fz) db = Some e" and "belongs w q e" and "decided w e db"
  shows "\<exists>e' a. find_execution (fz_execution_id fz) db' = Some e' \<and> belongs w q e' \<and> ce_status e' = fz_terminal_status fz
    \<and> assistant_of e' db' = Some a \<and> ms_content a = fz_content fz
    \<and> (\<exists>d. own_decision w db' = Some d \<and> gd_allowed d \<and> gd_finalized_at d \<noteq> None \<and> gd_execution_id d = Some (fz_execution_id fz))"
proof -
  obtain a where db': "db' = final_db env fz e a db\<lparr>usage_rows := usage_rows db @ map (usage_of_cost e) (fz_accounting fz)\<rparr>"
    and e': "find_execution (fz_execution_id fz) db' = Some (final_execution (env_now env) fz e)"
    and answer: "assistant_of (final_execution (env_now env) fz e) db'
        = Some (a\<lparr>ms_status := fz_terminal_status fz, ms_content := fz_content fz\<rparr>)"
    using finalize_shape [OF assms(1)] assms(2) by auto
  have own: "belongs w q (final_execution (env_now env) fz e)" "ce_status (final_execution (env_now env) fz e) = fz_terminal_status fz"
    using assms(3) by (auto simp: belongs_def final_execution_def Let_def split: option.splits)
  obtain d where d: "own_decision w db = Some d" "open_decision e d" using assms(4) by (auto simp: decided_def)
  have ds: "decisions db' = update_where (open_decision e) (close_decision (env_now env) fz) (decisions db)"
    by (simp add: db' final_db_def Let_def split: option.splits)
  have "ce_execution_id e = fz_execution_id fz" using find_execution_SomeD [OF assms(2)] by simp
  then have "\<exists>d. own_decision w db' = Some d \<and> gd_allowed d \<and> gd_finalized_at d \<noteq> None \<and> gd_execution_id d = Some (fz_execution_id fz)"
    using closed_lookup [OF d] unfolding ds by simp
  then show ?thesis using e' own answer
    by (intro exI [of _ "final_execution (env_now env) fz e"]
        exI [of _ "a\<lparr>ms_status := fz_terminal_status fz, ms_content := fz_content fz\<rparr>"]) simp
qed

text \<open>What runs beside the stream leaves this execution and its decision alone.\<close>

definition others_keep :: "'v preflight_world \<Rightarrow> string \<Rightarrow> (chat_db \<Rightarrow> chat_db) \<Rightarrow> bool" where
  "others_keep w eid f \<longleftrightarrow> (\<forall>d. find_execution eid (f d) = find_execution eid d \<and> own_decision w (f d) = own_decision w d)"

text \<open>C3: From the request to the answer.  When the client of a streamed completion is told that the answer is done,
  the execution stored as completed is the caller's own, in the conversation that was asked for, its message
  holds exactly that answer, and the governance decision that permitted it is the closed record of this very
  execution.\<close>

theorem streamed_answer_is_accounted_for:
  assumes "create_chat_completion w ck sw cw pulls True q db s g = (StreamReply r gen, db')"
    and "SseDone answer verified vs vr \<in> set (g_frames gen)" and "\<And>eid. others_keep w eid (sw_between sw)"
  shows "\<exists>eid e a. find_execution eid db' = Some e \<and> ce_status e = Completed \<and> ce_user_id e = pw_user_id w
    \<and> ce_organization_id e = pw_org w \<and> ce_conversation_id e = cq_conversation_id q
    \<and> assistant_of e db' = Some a \<and> ms_content a = answer
    \<and> (\<exists>d. own_decision w db' = Some d \<and> gd_allowed d \<and> gd_finalized_at d \<noteq> None \<and> gd_execution_id d = Some eid)"
proof -
  obtain a ctx idem px pf where start: "start_chat w q (new_preflight db s g) = (Started a ctx idem px, pf)"
    and run: "event_generator (request_of_start ck q a ctx idem px pf) sw (new_gen pulls (pf_redis pf) (pf_db pf)) = (r, gen)"
    and db': "db' = g_db gen"
    using assms(1) by (auto simp: create_chat_completion_def Let_def split: prod.splits chat_start.splits)
  let ?sr = "request_of_start ck q a ctx idem px pf" and ?eid = "pce_execution_id px"
  have eid: "sr_execution_id ?sr = ?eid" by (simp add: request_of_start_def)
  obtain e0 where e0: "find_execution ?eid (pf_db pf) = Some e0" "belongs w q e0" "decided w e0 (pf_db pf)"
    using start by (rule started_execution)
  obtain e1 where e1: "find_execution ?eid (marked_db ?sr sw (pf_db pf)) = Some e1" "belongs w q e1" "decided w e1 (marked_db ?sr sw (pf_db pf))"
    using marked_execution [OF e0] unfolding marked_db_def eid by blast
  have "\<exists>f \<in> set (g_frames gen). is_done f" using assms(2) by force
  then have "completed_by ?sr sw (marked_db ?sr sw (pf_db pf)) gen"
    using event_generator_ends [OF run] by (simp add: stream_ends_def)
  then obtain fs fz where frames: "g_frames gen = fs @ [SseDone (g_accumulated gen) (g_verified gen) (g_vstatus gen) (g_vreason gen)]"
      "\<not> list_ex is_done fs"
    and fz: "finalize (sw_finalize_env sw) fz (sw_between sw (marked_db ?sr sw (pf_db pf))) = (Inr True, db')"
      "fz_execution_id fz = ?eid" "fz_terminal_status fz = Completed" "fz_content fz = g_accumulated gen"
    unfolding completed_by_def eid db' by blast
  have answer: "answer = g_accumulated gen" using assms(2) frames by (auto simp: list_ex_iff)
  have "find_execution (fz_execution_id fz) (sw_between sw (marked_db ?sr sw (pf_db pf))) = Some e1"
    "decided w e1 (sw_between sw (marked_db ?sr sw (pf_db pf)))"
    using e1 assms(3) [of ?eid] by (simp_all add: fz(2) others_keep_def decided_def)
  from finalized_chat [OF fz(1) this(1) e1(2) this(2)] show ?thesis
    unfolding fz(2-4) answer belongs_def by blast
qed


definition sample_constants :: chat_constants where
  "sample_constants = \<lparr>ck_badges = \<lparr>verified_badge = '' ok'', verification_failed_badge = '' ?''\<rparr>, ck_loads = (\<lambda>_. NotJson),
     ck_dumps = (\<lambda>_ c _ _ _. c), ck_timeout = 60\<rparr>"


definition sample_cw :: completion_world where
  "sample_cw = \<lparr>cw_result = Inl CancelledError, cw_takes = 1, cw_lost_after_primary = False, cw_lost_at_end = False,
     cw_redis_up = True, cw_redis_now = 5, cw_verifier = None, cw_between = id, cw_finalize_env = calm 20,
     cw_failure_env = calm 20\<rparr>"

lemma sample_answer:
  "case create_chat_completion sample_world sample_constants sample_sw sample_cw None True sample_payload empty_chat_db Map.empty sample_gate of
     (StreamReply r gen, db) \<Rightarrow> SseDone ''hi'' False None None \<in> set (g_frames gen) | _ \<Rightarrow> False"
  by code_simp

theorem streamed_answer_is_accounted_for_witness:
  "\<exists>r gen db' eid e a. create_chat_completion sample_world sample_constants sample_sw sample_cw None True sample_payload
       empty_chat_db Map.empty sample_gate = (StreamReply r gen, db')
     \<and> find_execution eid db' = Some e \<and> ce_status e = Completed \<and> ce_user_id e = 7 \<and> assistant_of e db' = Some a \<and> ms_content a = ''hi''"
proof -
  obtain r gen db' where run: "create_chat_completion sample_world sample_constants sample_sw sample_cw None True sample_payload
      empty_chat_db Map.empty sample_gate = (StreamReply r gen, db')" and d: "SseDone ''hi'' False None None \<in> set (g_frames gen)"
    using sample_answer by (auto split: prod.splits chat_reply.splits)
  have "\<And>eid. others_keep sample_world eid (sw_between sample_sw)" by (simp add: others_keep_def sample_sw_def)
  from streamed_answer_is_accounted_for [OF run d this] show ?thesis using run by (auto simp: sample_world_def)
qed

end
