(* ===== verification/LeaseHeartbeat.thy ===== *)
theory LeaseHeartbeat
  imports Idempotency
begin

text \<open>
  The heartbeat of a chat execution (\<^verbatim>\<open>api/v1/chat.py\<close>, \<^verbatim>\<open>_lease_heartbeat\<close> and its start and stop): a task
  beside the provider call that renews the lease of the idempotency key until it is cancelled or a renewal
  fails.  Between two renewals other requests of the tenant may try for the key.
\<close>

definition LEASE_RENEWAL_SECONDS :: int where "LEASE_RENEWAL_SECONDS = 60"

definition heartbeat_interval :: int where
  "heartbeat_interval = max 1 (min LEASE_RENEWAL_SECONDS (LEASE_SECONDS div 2))"

text \<open>One wake-up: how long after the interval it comes, which attempts at the key came before it (when since
  the last renewal, with which fresh token, by which request), and whether its database call raises.\<close>

record beat =
  bt_late :: microseconds
  bt_attempts :: "(microseconds \<times> string \<times> idem_request) list"
  bt_raises :: bool

definition attempt :: "(string \<Rightarrow> string) \<Rightarrow> string \<Rightarrow> microseconds \<Rightarrow> microseconds \<times> string \<times> idem_request \<Rightarrow> chat_db \<Rightarrow> chat_db" where
  "attempt sha key t a db = (case a of (offset, token, rq) \<Rightarrow>
     snd (begin_idempotency sha (alone (t + offset) token) 0 rq key db))"

definition next_beat :: "microseconds \<Rightarrow> beat \<Rightarrow> microseconds" where
  "next_beat t b = t + seconds heartbeat_interval + bt_late b"

fun lease_heartbeat :: "(string \<Rightarrow> string) \<Rightarrow> idem_request \<Rightarrow> string \<Rightarrow> string \<Rightarrow> microseconds \<Rightarrow> beat list \<Rightarrow> chat_db \<Rightarrow> bool \<times> chat_db" where
  "lease_heartbeat sha rq key token t [] db = (False, db)"
| "lease_heartbeat sha rq key token t (b # bs) db =
     (let db1 = fold (attempt sha key t) (bt_attempts b) db in
      if bt_raises b then (True, db1)
      else (case renew_idempotency_lease (next_beat t b) rq key token db1 of
              (Inr True, db2) \<Rightarrow> lease_heartbeat sha rq key token (next_beat t b) bs db2
            | (_, db2) \<Rightarrow> (True, db2)))"

text \<open>Without a key or a token there is no task, and its answer when it is stopped is that nothing was lost.\<close>

definition start_lease_heartbeat :: "string option \<Rightarrow> string option \<Rightarrow> bool" where
  "start_lease_heartbeat key token \<longleftrightarrow> py_or_none (py_or_empty key) \<noteq> None \<and> py_or_none (py_or_empty token) \<noteq> None"

definition stop_lease_heartbeat :: "bool option \<Rightarrow> bool" where
  "stop_lease_heartbeat lost = (case lost of None \<Rightarrow> True | Some l \<Rightarrow> \<not> l)"

section \<open>The lease under a heartbeat\<close>

definition held_until :: "identity \<times> identity \<times> string \<Rightarrow> string \<Rightarrow> microseconds \<Rightarrow> chat_db \<Rightarrow> bool" where
  "held_until k token t db \<longleftrightarrow> idem_wf db \<and> (\<exists>r. get_by idem_key k (idem_rows db) = Some r \<and> ir_status r = Processing
     \<and> ir_lease_token r = Some token \<and> ir_lease_until r = Some t)"

definition contends :: "identity \<times> identity \<Rightarrow> microseconds \<Rightarrow> microseconds \<times> string \<times> idem_request \<Rightarrow> bool" where
  "contends who limit a \<longleftrightarrow> (case a of (offset, token, rq) \<Rightarrow> resolve_context rq = Inr who \<and> offset \<le> limit)"

lemma held_attempt:
  assumes "held_until (org, uid, key) token l db" and "contends (org, uid) limit a" and "t + limit \<le> l"
  shows "attempt sha key t a db = db"
proof -
  obtain offset tok rq where a: "a = (offset, tok, rq)" by (cases a)
  obtain r where r: "get_by idem_key (org, uid, key) (idem_rows db) = Some r" "ir_status r = Processing"
    "ir_lease_until r = Some l" using assms(1) by (auto simp: held_until_def)
  have "\<not> expired_before (ir_lease_until r) (t + offset)" using r(3) assms(2,3) by (simp add: a contends_def expired_before_def)
  from begin_alone_live [OF _ r(1,2) this, of rq] assms(2) show ?thesis by (simp add: a contends_def attempt_def)
qed

lemma held_attempts:
  assumes "held_until (org, uid, key) token l db" and "list_all (contends (org, uid) limit) as" and "t + limit \<le> l"
  shows "fold (attempt sha key t) as db = db"
  using assms(2) by (induction as) (simp_all add: held_attempt [OF assms(1) _ assms(3)])

lemma one_mine:
  assumes "idem_wf db" and "get_by idem_key k (idem_rows db) = Some r" and "P r"
  shows "length (filter (\<lambda>x. idem_key x = k \<and> P x) (idem_rows db)) = 1"
proof -
  have "r \<in> set (idem_rows db) \<and> idem_key r = k" using find_SomeD [OF assms(2) [unfolded get_by_def]] .
  then have iff: "x \<in> set (filter (\<lambda>x. idem_key x = k \<and> P x) (idem_rows db)) \<longleftrightarrow> x = r" for x
    using idem_wf_lookup [OF assms(1,2), of x] assms(3) unfolding set_filter mem_Collect_eq by blast
  have "set (filter (\<lambda>x. idem_key x = k \<and> P x) (idem_rows db)) = {r}" by (rule set_eqI) (simp only: iff singleton_iff)
  moreover have "distinct (filter (\<lambda>x. idem_key x = k \<and> P x) (idem_rows db))"
    using assms(1) by (simp add: idem_wf_def distinct_map)
  ultimately have "card {r} = length (filter (\<lambda>x. idem_key x = k \<and> P x) (idem_rows db))" by (metis distinct_card)
  then show ?thesis by simp
qed

lemma get_by_update_where:
  "(\<And>x. key (f x) = key x) \<Longrightarrow> get_by key k (update_where P f rows) = map_option (\<lambda>x. if P x then f x else x) (get_by key k rows)"
  by (induction rows) (auto simp: get_by_def update_where_def)

lemma held_renew:
  assumes "held_until (org, uid, key) token l db" and "resolve_context rq = Inr (org, uid)"
  obtains db' where "renew_idempotency_lease now rq key token db = (Inr True, db')"
    and "held_until (org, uid, key) token (now + seconds LEASE_SECONDS) db'"
proof -
  let ?k = "(org, uid, key)" and ?P = "\<lambda>x. ir_status x = Processing \<and> ir_lease_token x = Some token"
  let ?f = "\<lambda>r. r\<lparr>ir_lease_until := Some (now + seconds LEASE_SECONDS)\<rparr>"
  obtain r where wf: "idem_wf db" and r: "get_by idem_key ?k (idem_rows db) = Some r" "?P r"
    using assms(1) by (auto simp: held_until_def)
  define db' where "db' = db\<lparr>idem_rows := update_where (\<lambda>x. idem_key x = ?k \<and> ?P x) ?f (idem_rows db)\<rparr>"
  have run: "renew_idempotency_lease now rq key token db = (Inr True, db')"
    using one_mine [where P = ?P, OF wf r] assms(2) by (simp add: renew_idempotency_lease_def Let_def db'_def)
  have db': "idem_rows db' = update_where (\<lambda>x. idem_key x = ?k \<and> ?P x) ?f (idem_rows db)" by (simp add: db'_def)
  have key: "idem_key (?f x) = idem_key x" for x by (simp add: idem_key_def)
  have "get_by idem_key ?k (idem_rows db') = Some (?f r)"
    unfolding db' get_by_update_where [where f = ?f and key = idem_key, OF key]
    using r by (auto simp: get_by_def dest: find_SomeD)
  moreover have "idem_wf db'" using idem_wf_renew [OF wf, of now rq key token] by (simp add: run)
  ultimately show thesis using run r(2) by (intro that) (auto simp: held_until_def)
qed

text \<open>A wake-up that comes in time: at most a minute late, its call answers, and the attempts fall before it.\<close>

definition timely :: "identity \<times> identity \<Rightarrow> beat \<Rightarrow> bool" where
  "timely who b \<longleftrightarrow> \<not> bt_raises b \<and> 0 \<le> bt_late b \<and> bt_late b \<le> seconds (LEASE_SECONDS - heartbeat_interval)
     \<and> list_all (contends who (seconds heartbeat_interval + bt_late b)) (bt_attempts b)"

text \<open>C12: The heartbeat keeps the key.  As long as its wake-ups are at most a minute late and its database answers, a
  running execution never loses the lease of its key, however many requests with that key arrive meanwhile
  and however long the provider takes: the record stays in processing under the execution's own token, and
  its lease always ends two minutes after the last renewal.\<close>

theorem heartbeat_keeps_lease:
  assumes "held_until (org, uid, key) token (t + seconds LEASE_SECONDS) db" and "resolve_context rq = Inr (org, uid)"
    and "list_all (timely (org, uid)) bs"
  shows "case lease_heartbeat sha rq key token t bs db of (lost, db') \<Rightarrow> \<not> lost
    \<and> held_until (org, uid, key) token (fold (\<lambda>b u. next_beat u b) bs t + seconds LEASE_SECONDS) db'"
  using assms(1,3)
proof (induction bs arbitrary: t db)
  case (Cons b bs)
  have b: "\<not> bt_raises b" "bt_late b \<le> seconds (LEASE_SECONDS - heartbeat_interval)"
    "list_all (contends (org, uid) (seconds heartbeat_interval + bt_late b)) (bt_attempts b)"
    using Cons.prems(2) by (simp_all add: timely_def)
  have "t + (seconds heartbeat_interval + bt_late b) \<le> t + seconds LEASE_SECONDS"
    using b(2) by (simp add: seconds_def algebra_simps)
  then have same: "fold (attempt sha key t) (bt_attempts b) db = db"
    by (rule held_attempts [OF Cons.prems(1) b(3)])
  obtain db' where "renew_idempotency_lease (next_beat t b) rq key token db = (Inr True, db')"
    "held_until (org, uid, key) token (next_beat t b + seconds LEASE_SECONDS) db'"
    using Cons.prems(1) assms(2) by (rule held_renew)
  then show ?case using Cons.IH [of "next_beat t b" db'] Cons.prems(2) b(1) same by simp
qed (simp add: )


definition sample_beat :: beat where
  "sample_beat = \<lparr>bt_late = seconds 30, bt_attempts = [(seconds 85, ''t2'', sample_rq)], bt_raises = False\<rparr>"

theorem heartbeat_keeps_lease_witness:
  "\<not> fst (lease_heartbeat (\<lambda>s. s) sample_rq ''k1'' ''t1'' 0 [sample_beat, sample_beat] sample_ledger)
   \<and> held_until (7, 3, ''k1'') ''t1'' (seconds 300)
       (snd (lease_heartbeat (\<lambda>s. s) sample_rq ''k1'' ''t1'' 0 [sample_beat, sample_beat] sample_ledger))"
proof -
  have held: "held_until (7, 3, ''k1'') ''t1'' (0 + seconds LEASE_SECONDS) sample_ledger"
    by (simp add: held_until_def sample_ledger_eq idem_wf_def empty_chat_db_def get_by_def new_idem_row_def idem_key_def)
  have rq: "resolve_context sample_rq = Inr (7, 3)" by (simp add: resolve_context_def sample_rq_def)
  have "list_all (timely (7, 3)) [sample_beat, sample_beat]"
    by (simp add: timely_def sample_beat_def contends_def rq seconds_def LEASE_SECONDS_def heartbeat_interval_def LEASE_RENEWAL_SECONDS_def)
  from heartbeat_keeps_lease [OF held rq this, of "\<lambda>s. s"] show ?thesis
    by (simp add: case_prod_beta next_beat_def sample_beat_def seconds_def heartbeat_interval_def LEASE_RENEWAL_SECONDS_def LEASE_SECONDS_def
        split del: if_split)
qed

end
