(* ===== verification/ProviderHttp.thy ===== *)
theory ProviderHttp
  imports Streaming
begin

text \<open>
  The HTTP exchange of the provider adapters (\<^verbatim>\<open>application/providers/http.py\<close>): bounded retries of a
  request whose outcomes the upstream chooses, the delays between them, and the decoding of a response.
  The clock of \<^verbatim>\<open>Retry-After\<close> dates and the conversion of header text to floats are parameters.
\<close>

section \<open>Outcomes\<close>

datatype transport_error =
    ConnectError | ConnectTimeout | ReadTimeout | HttpxError string | NotHttpx py_exception

definition transient_error :: "transport_error \<Rightarrow> bool" where
  "transient_error e \<longleftrightarrow> e \<in> {ConnectError, ConnectTimeout, ReadTimeout}"

text \<open>A response as the adapters see it: its status, the \<^verbatim>\<open>Retry-After\<close> header, whether
  \<^verbatim>\<open>raise_for_status\<close> raises, and the value of \<^verbatim>\<open>json()\<close>, if the body is JSON.\<close>

record http_response =
  hr_status :: int
  hr_retry_after :: "string option"
  hr_raises :: bool
  hr_json :: "json option"

datatype post_outcome = Responded http_response | PostRaises transport_error

definition TRANSIENT_STATUSES :: "int set" where "TRANSIENT_STATUSES = {429, 502, 503, 504}"

section \<open>Delays\<close>

text \<open>Python floats, as far as \<^verbatim>\<open>min\<close> and \<^verbatim>\<open>max\<close> of them go.\<close>

datatype py_float = Finite rat | NaN | PosInf | NegInf

fun clamp_delay :: "py_float \<Rightarrow> rat \<Rightarrow> rat" where
  "clamp_delay (Finite s) maximum = min (max 0 s) maximum"
| "clamp_delay NaN maximum = min 0 maximum"
| "clamp_delay PosInf maximum = maximum"
| "clamp_delay NegInf maximum = min 0 maximum"

record retry_after_clock =
  ra_float :: "string \<Rightarrow> py_float option"
  ra_until :: "string \<Rightarrow> rat option"

definition retry_delay :: "retry_after_clock \<Rightarrow> http_response option \<Rightarrow> rat \<Rightarrow> rat \<Rightarrow> rat" where
  "retry_delay p response fallback maximum =
     (case response of
        None \<Rightarrow> min fallback maximum
      | Some r \<Rightarrow>
          (let value = py_strip (py_or_empty (hr_retry_after r)) in
           if value = [] then min fallback maximum
           else (case ra_float p value of
                   Some s \<Rightarrow> clamp_delay s maximum
                 | None \<Rightarrow> clamp_delay (Finite (case ra_until p value of None \<Rightarrow> fallback | Some s \<Rightarrow> s)) maximum)))"

section \<open>Retries\<close>

record http_settings =
  hs_max_attempts :: int
  hs_backoff_seconds :: rat
  hs_max_retry_after_seconds :: rat

definition retriable :: "post_outcome \<Rightarrow> bool" where
  "retriable out = (case out of Responded r \<Rightarrow> hr_status r \<in> TRANSIENT_STATUSES | PostRaises e \<Rightarrow> transient_error e)"

definition outcome_value :: "post_outcome \<Rightarrow> transport_error + http_response" where
  "outcome_value out = (case out of Responded r \<Rightarrow> Inr r | PostRaises e \<Rightarrow> Inl e)"

definition outcome_response :: "post_outcome \<Rightarrow> http_response option" where
  "outcome_response out = (case out of Responded r \<Rightarrow> Some r | PostRaises e \<Rightarrow> None)"

text \<open>The loop over the attempts that are left; the delays slept are returned with the result.\<close>

fun retry_loop :: "retry_after_clock \<Rightarrow> http_settings \<Rightarrow> (nat \<Rightarrow> post_outcome) \<Rightarrow> nat list
    \<Rightarrow> (transport_error + http_response) \<times> rat list" where
  "retry_loop p hs post [] = (Inl (NotHttpx (OtherError ''provider retry loop exhausted'')), [])"
| "retry_loop p hs post (k # ks) =
     (if \<not> retriable (post k) \<or> hs_max_attempts hs \<le> int k then (outcome_value (post k), [])
      else (let delay = retry_delay p (outcome_response (post k)) (hs_backoff_seconds hs * 2 ^ (k - 1)) (hs_max_retry_after_seconds hs)
            in (case retry_loop p hs post ks of (r, ds) \<Rightarrow> (r, delay # ds))))"

definition post_with_retry :: "retry_after_clock \<Rightarrow> http_settings \<Rightarrow> (nat \<Rightarrow> post_outcome)
    \<Rightarrow> (transport_error + http_response) \<times> rat list" where
  "post_with_retry p hs post =
     (if \<not> (1 \<le> hs_max_attempts hs \<and> hs_max_attempts hs \<le> 3)
      then (Inl (NotHttpx (OtherError ''provider HTTP attempts must be between 1 and 3'')), [])
      else if hs_backoff_seconds hs < 0 \<or> hs_max_retry_after_seconds hs < 0
      then (Inl (NotHttpx (OtherError ''provider retry delays must be non-negative'')), [])
      else retry_loop p hs post [1..<Suc (nat (hs_max_attempts hs))])"

text \<open>\<^verbatim>\<open>except httpx.HTTPError\<close>: the sanitized failure; anything else passes.\<close>

definition upstream_failure :: "transport_error \<Rightarrow> py_exception" where
  "upstream_failure e = (case e of NotHttpx x \<Rightarrow> x | _ \<Rightarrow> EiraOSError)"

definition decode_completion :: "http_response \<Rightarrow> (json \<Rightarrow> py_exception + 'a) \<Rightarrow> py_exception + 'a" where
  "decode_completion r unpack =
     (if hr_raises r then Inl EiraOSError
      else (case hr_json r of None \<Rightarrow> Inl EiraOSError | Some payload \<Rightarrow> unpack payload))"

section \<open>Retries are bounded\<close>

lemma clamp_delay_range: "0 \<le> maximum \<Longrightarrow> 0 \<le> clamp_delay s maximum \<and> clamp_delay s maximum \<le> maximum"
  by (cases s) auto

lemma retry_delay_range:
  "0 \<le> fallback \<Longrightarrow> 0 \<le> maximum \<Longrightarrow> 0 \<le> retry_delay p r fallback maximum \<and> retry_delay p r fallback maximum \<le> maximum"
  using clamp_delay_range by (auto simp: retry_delay_def Let_def split: option.splits)

definition retries_until :: "http_settings \<Rightarrow> (nat \<Rightarrow> post_outcome) \<Rightarrow> nat \<Rightarrow> nat \<Rightarrow> bool" where
  "retries_until hs post k m \<longleftrightarrow> k \<le> m \<and> int m \<le> hs_max_attempts hs \<and> (\<forall>i. k \<le> i \<and> i < m \<longrightarrow> retriable (post i))
     \<and> (int m < hs_max_attempts hs \<longrightarrow> \<not> retriable (post m))"

lemma retry_loop_shape:
  assumes "int k \<le> hs_max_attempts hs" and "0 \<le> hs_backoff_seconds hs" and "0 \<le> hs_max_retry_after_seconds hs"
  shows "\<exists>m ds. retry_loop p hs post [k..<Suc (nat (hs_max_attempts hs))] = (outcome_value (post m), ds)
    \<and> retries_until hs post k m \<and> length ds = m - k \<and> list_all (\<lambda>d. 0 \<le> d \<and> d \<le> hs_max_retry_after_seconds hs) ds"
  using assms(1)
proof (induction "nat (hs_max_attempts hs) - k" arbitrary: k)
  case 0
  then have "[k..<Suc (nat (hs_max_attempts hs))] = [k]" "hs_max_attempts hs \<le> int k" by simp_all
  then show ?case using 0 by (intro exI [of _ k] exI [of _ "[]"]) (auto simp: retries_until_def)
next
  case (Suc n)
  have more: "int (Suc k) \<le> hs_max_attempts hs" using Suc.hyps(2) by linarith
  have upt: "[k..<Suc (nat (hs_max_attempts hs))] = k # [Suc k..<Suc (nat (hs_max_attempts hs))]"
    by (rule upt_conv_Cons) (use Suc.prems in linarith)
  show ?case
  proof (cases "retriable (post k)")
    case False
    then show ?thesis using Suc.prems by (intro exI [of _ k] exI [of _ "[]"]) (auto simp: upt retries_until_def simp del: upt_Suc)
  next
    case True
    have n: "n = nat (hs_max_attempts hs) - Suc k" using Suc.hyps(2) by linarith
    let ?d = "retry_delay p (outcome_response (post k)) (hs_backoff_seconds hs * 2 ^ (k - 1)) (hs_max_retry_after_seconds hs)"
    obtain m ds where rest: "retry_loop p hs post [Suc k..<Suc (nat (hs_max_attempts hs))] = (outcome_value (post m), ds)"
      "retries_until hs post (Suc k) m" "length ds = m - Suc k" "list_all (\<lambda>d. 0 \<le> d \<and> d \<le> hs_max_retry_after_seconds hs) ds"
      using Suc.hyps(1) [OF n more] by blast
    have "0 \<le> ?d \<and> ?d \<le> hs_max_retry_after_seconds hs" using assms(2,3) by (intro retry_delay_range) simp_all
    moreover have "retries_until hs post k m" unfolding retries_until_def
    proof (intro conjI allI impI)
      fix i assume i: "k \<le> i \<and> i < m"
      show "retriable (post i)" using rest(2) True i by (cases "i = k") (auto simp: retries_until_def)
    qed (use rest(2) in \<open>auto simp: retries_until_def\<close>)
    ultimately show ?thesis using True more rest
      by (intro exI [of _ m] exI [of _ "?d # ds"]) (simp add: upt retries_until_def Suc_diff_Suc del: upt_Suc)
  qed
qed

text \<open>Retries are bounded and never hide an outcome.  A completion request is posted between one and three times:
  again after every transient failure, and only then, as long as attempts are left; the caller gets the outcome
  of the last post, and every pause in between is within the configured cap, whatever \<^verbatim>\<open>Retry-After\<close> asks
  for, so the pauses add up to at most the cap for every repetition.\<close>

theorem retries_are_bounded:
  assumes "1 \<le> hs_max_attempts hs" and "hs_max_attempts hs \<le> 3" and "0 \<le> hs_backoff_seconds hs" and "0 \<le> hs_max_retry_after_seconds hs"
  shows "\<exists>m ds. post_with_retry p hs post = (outcome_value (post m), ds) \<and> retries_until hs post 1 m
    \<and> length ds = m - 1 \<and> list_all (\<lambda>d. 0 \<le> d \<and> d \<le> hs_max_retry_after_seconds hs) ds
    \<and> sum_list ds \<le> (of_int (hs_max_attempts hs) - 1) * hs_max_retry_after_seconds hs"
proof -
  obtain m ds where run: "retry_loop p hs post [1..<Suc (nat (hs_max_attempts hs))] = (outcome_value (post m), ds)"
    and m: "retries_until hs post 1 m" and len: "length ds = m - 1"
    and range: "list_all (\<lambda>d. 0 \<le> d \<and> d \<le> hs_max_retry_after_seconds hs) ds"
    using retry_loop_shape [of 1 hs p post] assms by auto
  have "sum_list ds \<le> of_nat (length ds) * hs_max_retry_after_seconds hs"
    using range by (induction ds) (auto simp: algebra_simps)
  also have "\<dots> \<le> (of_int (hs_max_attempts hs) - 1) * hs_max_retry_after_seconds hs"
  proof (rule mult_right_mono [OF _ assms(4)])
    have "int (length ds) \<le> hs_max_attempts hs - 1" using m len by (auto simp: retries_until_def)
    then have "(of_int (int (length ds)) :: rat) \<le> of_int (hs_max_attempts hs - 1)" by (simp only: of_int_le_iff)
    then show "(of_nat (length ds) :: rat) \<le> of_int (hs_max_attempts hs) - 1" by simp
  qed
  finally show ?thesis using run m len range assms by (intro exI [of _ m] exI [of _ ds]) (simp add: post_with_retry_def)
qed

definition busy :: http_response where
  "busy = \<lparr>hr_status = 503, hr_retry_after = Some ''9'', hr_raises = True, hr_json = None\<rparr>"

definition sample_http :: http_settings where
  "sample_http = \<lparr>hs_max_attempts = 2, hs_backoff_seconds = 1 / 10, hs_max_retry_after_seconds = 2\<rparr>"

definition sample_clock :: retry_after_clock where
  "sample_clock = \<lparr>ra_float = (\<lambda>_. Some (Finite 9)), ra_until = (\<lambda>_. None)\<rparr>"

theorem retries_are_bounded_witness:
  "\<exists>m ds. post_with_retry sample_clock sample_http (\<lambda>_. Responded busy) = (outcome_value (Responded busy), ds) \<and> m = 2
     \<and> length ds = m - 1 \<and> sum_list ds \<le> 2"
proof -
  have "1 \<le> hs_max_attempts sample_http" "hs_max_attempts sample_http \<le> 3" "0 \<le> hs_backoff_seconds sample_http"
    "0 \<le> hs_max_retry_after_seconds sample_http" by (simp_all add: sample_http_def)
  from retries_are_bounded [OF this, of sample_clock "\<lambda>_. Responded busy"] obtain m ds where
    "post_with_retry sample_clock sample_http (\<lambda>_. Responded busy) = (outcome_value (Responded busy), ds)"
    "retries_until sample_http (\<lambda>_. Responded busy) 1 m" "length ds = m - 1" "sum_list ds \<le> 2"
    by (auto simp: sample_http_def)
  then show ?thesis by (intro exI [of _ m] exI [of _ ds])
      (auto simp: retries_until_def sample_http_def retriable_def busy_def TRANSIENT_STATUSES_def)
qed

end
