(* ===== verification/ProviderAdapters.thy ===== *)
theory ProviderAdapters
  imports ProviderHttp ProviderPolicy AgentRuntime
begin

text \<open>
  The provider adapters (\<^verbatim>\<open>application/providers/openai_adapter.py\<close>, \<^verbatim>\<open>anthropic_adapter.py\<close>,
  \<^verbatim>\<open>gemini_adapter.py\<close>): the requests they send, how they unpack completions and usage, and how they turn the
  lines of an event stream into text.  The upstream and \<^verbatim>\<open>json.loads\<close> are parameters; what an upstream may
  send is any JSON value, so the accesses are modelled with the exceptions Python raises on it.
\<close>

section \<open>Access to decoded JSON\<close>

definition sum_then :: "'e + 'a \<Rightarrow> ('a \<Rightarrow> 'e + 'b) \<Rightarrow> 'e + 'b" where
  "sum_then r k = (case r of Inl e \<Rightarrow> Inl e | Inr x \<Rightarrow> k x)"

lemma sum_then_simps [simp]: "sum_then (Inl e) k = Inl e" "sum_then (Inr x) k = k x"
  by (simp_all add: sum_then_def)

text \<open>\<^verbatim>\<open>value.get(key)\<close>, \<^verbatim>\<open>value[key]\<close> and \<^verbatim>\<open>value[0]\<close>; keys of JSON objects are strings.\<close>

definition attr_get :: "json \<Rightarrow> string \<Rightarrow> py_exception + json" where
  "attr_get v k = (case v of JObj fs \<Rightarrow> Inr (json_get fs k) | _ \<Rightarrow> Inl (OtherError ''AttributeError''))"

definition index_key :: "json \<Rightarrow> string \<Rightarrow> py_exception + json" where
  "index_key v k = (case v of
     JObj fs \<Rightarrow> (case map_of fs k of None \<Rightarrow> Inl (OtherError ''KeyError'') | Some x \<Rightarrow> Inr x)
   | _ \<Rightarrow> Inl (OtherError ''TypeError''))"

fun first_item :: "json \<Rightarrow> py_exception + json" where
  "first_item (JList []) = Inl (OtherError ''IndexError'')"
| "first_item (JList (x # _)) = Inr x"
| "first_item (JStr []) = Inl (OtherError ''IndexError'')"
| "first_item (JStr (c # _)) = Inr (JStr [c])"
| "first_item (JObj _) = Inl (OtherError ''KeyError'')"
| "first_item _ = Inl (OtherError ''TypeError'')"

definition or_empty_dict :: "json \<Rightarrow> json" where
  "or_empty_dict v = (if json_falsy v then JObj [] else v)"

definition json_text :: "json \<Rightarrow> string" where
  "json_text v = (case v of JStr s \<Rightarrow> s | _ \<Rightarrow> [])"

definition truthy_value :: "json \<Rightarrow> json option" where
  "truthy_value v = (if json_falsy v then None else Some v)"

section \<open>Requests\<close>

record http_request =
  rq_url :: string
  rq_headers :: "(string \<times> string) list"
  rq_json :: json

record sse_exchange =
  sx_open :: "transport_error option"
  sx_raises :: bool
  sx_lines :: "string list"
  sx_end :: "transport_error option"

record upstream =
  up_clock :: retry_after_clock
  up_settings :: http_settings
  up_post :: "http_request \<Rightarrow> nat \<Rightarrow> post_outcome"
  up_stream :: "http_request \<Rightarrow> sse_exchange"
  up_loads :: "string \<Rightarrow> json option"

record completion_request =
  cr_messages :: "chat_message list"
  cr_model :: string
  cr_temperature :: rat
  cr_max_tokens :: int
  cr_system_prompt :: "string option"

definition normalized_base_url :: "string \<Rightarrow> string" where
  "normalized_base_url value = rev (dropWhile (\<lambda>c. c = CHR ''/'') (rev value))"

definition message_json :: "chat_message \<Rightarrow> json" where
  "message_json m = JObj [(''role'', JStr (cm_role m)), (''content'', JStr (cm_content m))]"

definition prompt_of :: "completion_request \<Rightarrow> string option" where
  "prompt_of cr = py_or_none (py_or_empty (cr_system_prompt cr))"

definition openai_messages :: "completion_request \<Rightarrow> json list" where
  "openai_messages cr = (case prompt_of cr of None \<Rightarrow> [] | Some s \<Rightarrow> [JObj [(''role'', JStr ''system''), (''content'', JStr s)]])
     @ map message_json (cr_messages cr)"

definition openai_request :: "string \<Rightarrow> string \<Rightarrow> completion_request \<Rightarrow> bool \<Rightarrow> (string \<times> json) list \<Rightarrow> http_request" where
  "openai_request base key cr streaming extra =
     \<lparr>rq_url = normalized_base_url base @ ''/chat/completions'',
      rq_headers = [(''Authorization'', ''Bearer '' @ key), (''Content-Type'', ''application/json'')],
      rq_json = JObj ([(''model'', JStr (cr_model cr)), (''messages'', JList (openai_messages cr)),
        (''temperature'', JFloat (cr_temperature cr)), (''max_tokens'', JInt (cr_max_tokens cr)), (''stream'', JBool streaming)] @ extra)\<rparr>"

definition anthropic_request :: "string \<Rightarrow> string \<Rightarrow> completion_request \<Rightarrow> bool \<Rightarrow> http_request" where
  "anthropic_request base key cr streaming =
     \<lparr>rq_url = normalized_base_url base @ ''/messages'',
      rq_headers = [(''x-api-key'', key), (''anthropic-version'', ''2023-06-01''), (''content-type'', ''application/json'')],
      rq_json = JObj ([(''model'', JStr (cr_model cr)), (''messages'', JList (map message_json (cr_messages cr))),
        (''max_tokens'', JInt (cr_max_tokens cr)), (''temperature'', JFloat (cr_temperature cr))]
        @ (if streaming then [(''stream'', JBool True)] else [])
        @ (case prompt_of cr of None \<Rightarrow> [] | Some s \<Rightarrow> [(''system'', JStr s)]))\<rparr>"

definition gemini_text :: "string \<Rightarrow> json" where
  "gemini_text s = JList [JObj [(''text'', JStr s)]]"

definition convert_messages :: "completion_request \<Rightarrow> (string \<times> json) list" where
  "convert_messages cr =
     [(''contents'', JList (map (\<lambda>m. JObj [(''role'', JStr (if cm_role m = ''assistant'' then ''model'' else ''user'')),
          (''parts'', gemini_text (cm_content m))]) (cr_messages cr)))]
     @ (case prompt_of cr of None \<Rightarrow> [] | Some s \<Rightarrow> [(''systemInstruction'', JObj [(''parts'', gemini_text s)])])"

definition gemini_request :: "string \<Rightarrow> string \<Rightarrow> completion_request \<Rightarrow> string \<Rightarrow> http_request" where
  "gemini_request base key cr method =
     \<lparr>rq_url = normalized_base_url base @ ''/models/'' @ cr_model cr @ method, rq_headers = [(''x-goog-api-key'', key)],
      rq_json = JObj (convert_messages cr @ [(''generationConfig'',
        JObj [(''temperature'', JFloat (cr_temperature cr)), (''maxOutputTokens'', JInt (cr_max_tokens cr))])])\<rparr>"

section \<open>Completions\<close>

definition unpack_message :: "json \<Rightarrow> py_exception + string" where
  "unpack_message data = (case data of
     JObj fs \<Rightarrow> (case json_get fs ''choices'' of
         JList (JObj cs # _) \<Rightarrow> (case json_get cs ''message'' of
             JObj ms \<Rightarrow> Inr (json_text (json_get ms ''content'')) | _ \<Rightarrow> Inl EiraOSError)
       | _ \<Rightarrow> Inl EiraOSError)
   | _ \<Rightarrow> Inl EiraOSError)"

definition unpack_anthropic_message :: "json \<Rightarrow> py_exception + string" where
  "unpack_anthropic_message data = (case data of
     JObj fs \<Rightarrow> (case json_get fs ''content'' of
         JList (JObj bs # _) \<Rightarrow> Inr (json_text (json_get bs ''text''))
       | _ \<Rightarrow> Inl EiraOSError)
   | _ \<Rightarrow> Inl EiraOSError)"

definition unpack_gemini_text :: "json \<Rightarrow> py_exception + string" where
  "unpack_gemini_text data = (case data of
     JObj fs \<Rightarrow> (case json_get fs ''candidates'' of
         JList (JObj cs # _) \<Rightarrow>
           (case or_empty_dict (json_get cs ''content'') of
              JObj content \<Rightarrow> (case json_get content ''parts'' of
                  JList (JObj p # _) \<Rightarrow> Inr (json_text (json_get p ''text''))
                | JList (_ # _) \<Rightarrow> Inr []
                | _ \<Rightarrow> Inl EiraOSError)
            | _ \<Rightarrow> Inl EiraOSError)
       | _ \<Rightarrow> Inl EiraOSError)
   | _ \<Rightarrow> Inl EiraOSError)"

text \<open>\<^verbatim>\<open>type(x) is int\<close> is not satisfied by a boolean.\<close>

definition checked_usage :: "int \<Rightarrow> int \<Rightarrow> py_exception + provider_usage" where
  "checked_usage i o' = (if i < 0 \<or> o' < 0 then Inl (OtherError ''ValueError'')
     else Inr \<lparr>us_input_tokens = i, us_output_tokens = o'\<rparr>)"

definition usage_of :: "json \<Rightarrow> string \<Rightarrow> string \<Rightarrow> string option \<Rightarrow> provider_usage option" where
  "usage_of data input_key output_key total_key = (case data of
     JObj fs \<Rightarrow> (case (json_get fs input_key, json_get fs output_key) of
         (JInt i, JInt o') \<Rightarrow>
           if (case total_key of None \<Rightarrow> True | Some k \<Rightarrow> json_get fs k = JInt (i + o'))
           then (case checked_usage i o' of Inl _ \<Rightarrow> None | Inr u \<Rightarrow> Some u) else None
       | _ \<Rightarrow> None)
   | _ \<Rightarrow> None)"

definition gemini_usage :: "json \<Rightarrow> py_exception + provider_usage option" where
  "gemini_usage data = (case data of
     JObj fs \<Rightarrow> (case (json_get fs ''promptTokenCount'', json_get fs ''totalTokenCount'') of
         (JInt prompt, JInt whole) \<Rightarrow>
           if whole < prompt then Inr None
           else (case checked_usage prompt (whole - prompt) of Inl e \<Rightarrow> Inl e | Inr u \<Rightarrow> Inr (Some u))
       | _ \<Rightarrow> Inr None)
   | _ \<Rightarrow> Inr None)"

definition field_or_none :: "json \<Rightarrow> string \<Rightarrow> json" where
  "field_or_none data k = (case data of JObj fs \<Rightarrow> json_get fs k | _ \<Rightarrow> JNull)"

definition posted :: "upstream \<Rightarrow> http_request \<Rightarrow> transport_error + http_response" where
  "posted up rq = fst (post_with_retry (up_clock up) (up_settings up) (up_post up rq))"

definition completed_text :: "upstream \<Rightarrow> http_request \<Rightarrow> (json \<Rightarrow> py_exception + string) \<Rightarrow> py_exception + string" where
  "completed_text up rq unpack = (case posted up rq of
     Inl e \<Rightarrow> Inl (upstream_failure e) | Inr r \<Rightarrow> decode_completion r unpack)"

text \<open>With usage, the status of the response is not looked at.\<close>

definition completed_usage :: "upstream \<Rightarrow> http_request \<Rightarrow> (json \<Rightarrow> py_exception + 'a) \<Rightarrow> py_exception + 'a" where
  "completed_usage up rq unpack = (case posted up rq of
     Inl e \<Rightarrow> Inl (upstream_failure e)
   | Inr r \<Rightarrow> (case hr_json r of None \<Rightarrow> Inl (OtherError ''JSONDecodeError'') | Some data \<Rightarrow> unpack data))"

definition openai_complete :: "upstream \<Rightarrow> string \<Rightarrow> string \<Rightarrow> completion_request \<Rightarrow> py_exception + string" where
  "openai_complete up base key cr = completed_text up (openai_request base key cr False []) unpack_message"

definition openai_complete_with_usage :: "upstream \<Rightarrow> string \<Rightarrow> string \<Rightarrow> completion_request \<Rightarrow> py_exception + string \<times> provider_usage option" where
  "openai_complete_with_usage up base key cr = completed_usage up (openai_request base key cr False [])
     (\<lambda>data. sum_then (unpack_message data) (\<lambda>t.
        Inr (t, usage_of (field_or_none data ''usage'') ''prompt_tokens'' ''completion_tokens'' (Some ''total_tokens''))))"

definition anthropic_complete :: "upstream \<Rightarrow> string \<Rightarrow> string \<Rightarrow> completion_request \<Rightarrow> py_exception + string" where
  "anthropic_complete up base key cr = completed_text up (anthropic_request base key cr False) unpack_anthropic_message"

definition anthropic_complete_with_usage :: "upstream \<Rightarrow> string \<Rightarrow> string \<Rightarrow> completion_request \<Rightarrow> py_exception + string \<times> provider_usage option" where
  "anthropic_complete_with_usage up base key cr = completed_usage up (anthropic_request base key cr False)
     (\<lambda>data. sum_then (unpack_anthropic_message data) (\<lambda>t.
        Inr (t, usage_of (field_or_none data ''usage'') ''input_tokens'' ''output_tokens'' None)))"

definition gemini_complete :: "upstream \<Rightarrow> string \<Rightarrow> string \<Rightarrow> completion_request \<Rightarrow> py_exception + string" where
  "gemini_complete up base key cr = completed_text up (gemini_request base key cr '':generateContent'') unpack_gemini_text"

definition gemini_complete_with_usage :: "upstream \<Rightarrow> string \<Rightarrow> string \<Rightarrow> completion_request \<Rightarrow> py_exception + string \<times> provider_usage option" where
  "gemini_complete_with_usage up base key cr = completed_usage up (gemini_request base key cr '':generateContent'')
     (\<lambda>data. sum_then (unpack_gemini_text data) (\<lambda>t.
        sum_then (gemini_usage (field_or_none data ''usageMetadata'')) (\<lambda>u. Inr (t, u))))"


section \<open>What a completion can raise\<close>

lemma unpack_raises:
  "unpack_message d = Inl e \<Longrightarrow> e = EiraOSError" "unpack_anthropic_message d = Inl e \<Longrightarrow> e = EiraOSError"
  "unpack_gemini_text d = Inl e \<Longrightarrow> e = EiraOSError"
  by (auto simp: unpack_message_def unpack_anthropic_message_def unpack_gemini_text_def split: json.splits list.splits)

definition adapter_complete :: "adapter \<Rightarrow> upstream \<Rightarrow> string \<Rightarrow> string \<Rightarrow> completion_request \<Rightarrow> py_exception + string" where
  "adapter_complete a = (case a of OpenAIProviderAdapter \<Rightarrow> openai_complete
     | AnthropicProviderAdapter \<Rightarrow> anthropic_complete | GeminiProviderAdapter \<Rightarrow> gemini_complete)"

text \<open>A transport that raises \<^verbatim>\<open>httpx\<close> errors and nothing else, under settings the configuration accepts.\<close>

definition httpx_only :: "upstream \<Rightarrow> bool" where
  "httpx_only up \<longleftrightarrow> 1 \<le> hs_max_attempts (up_settings up) \<and> hs_max_attempts (up_settings up) \<le> 3
     \<and> 0 \<le> hs_backoff_seconds (up_settings up) \<and> 0 \<le> hs_max_retry_after_seconds (up_settings up)
     \<and> (\<forall>rq k x. up_post up rq k \<noteq> PostRaises (NotHttpx x))"

lemma posted_raises:
  assumes "httpx_only up" and "posted up rq = Inl e"
  shows "upstream_failure e = EiraOSError"
proof -
  obtain m ds where "post_with_retry (up_clock up) (up_settings up) (up_post up rq) = (outcome_value (up_post up rq m), ds)"
    using retry_loop_shape [of 1 "up_settings up" "up_clock up" "up_post up rq"] assms(1)
    by (auto simp: httpx_only_def post_with_retry_def)
  then have "outcome_value (up_post up rq m) = Inl e" using assms(2) by (simp add: posted_def)
  moreover have "up_post up rq m \<noteq> PostRaises (NotHttpx x)" for x using assms(1) by (simp add: httpx_only_def)
  ultimately show ?thesis by (auto simp: outcome_value_def upstream_failure_def split: post_outcome.splits transport_error.splits)
qed

lemma completed_text_raises:
  assumes "httpx_only up" and "completed_text up rq unpack = Inl e" and "\<And>d x. unpack d = Inl x \<Longrightarrow> x = EiraOSError"
  shows "e = EiraOSError"
  using assms posted_raises
  by (auto simp: completed_text_def decode_completion_def split: sum.splits if_splits option.splits)

text \<open>Completions raise only the sanitized failure.  Whatever an upstream answers, any status and any body, JSON or
  not, of any shape, a completion of each of the three adapters is a text or the sanitized
  \<^verbatim>\<open>EiraOSException\<close>, which the failure isolation turns into an upstream failure: no \<^verbatim>\<open>KeyError\<close> or
  \<^verbatim>\<open>IndexError\<close> of the decoding ever reaches the chat.\<close>

theorem completions_raise_only_sanitized:
  assumes "httpx_only up" and "takes < limit" and "0 < limit"
  shows "(\<exists>t. adapter_complete a up base key cr = Inr t)
    \<or> adapter_complete a up base key cr = Inl EiraOSError
      \<and> isolated_execute limit validate takes (adapter_complete a up base key cr) = Inl (IsolatedProviderFailure Upstream)"
proof (cases "adapter_complete a up base key cr")
  case (Inl e)
  then have "e = EiraOSError" using completed_text_raises [OF assms(1)] unpack_raises
    by (cases a) (fastforce simp: adapter_complete_def openai_complete_def anthropic_complete_def gemini_complete_def)+
  then show ?thesis using Inl assms(2,3) by (simp add: isolated_execute_def provider_with_timeout_def isolate_def)
qed simp

definition sample_upstream :: "http_response \<Rightarrow> upstream" where
  "sample_upstream r = \<lparr>up_clock = sample_clock, up_settings = sample_http,
     up_post = (\<lambda>_ k. if k = 1 then PostRaises ConnectTimeout else Responded r),
     up_stream = (\<lambda>_. \<lparr>sx_open = None, sx_raises = False, sx_lines = [], sx_end = None\<rparr>), up_loads = (\<lambda>_. None)\<rparr>"

definition sample_completion :: completion_request where
  "sample_completion = \<lparr>cr_messages = [], cr_model = ''gpt-4o'', cr_temperature = 7 / 10, cr_max_tokens = 1000, cr_system_prompt = None\<rparr>"

theorem completions_raise_only_sanitized_witness:
  "isolated_execute 60 (\<lambda>t. require_text (PStr t)) 1
     (adapter_complete GeminiProviderAdapter (sample_upstream busy) ''https://host/'' ''key'' sample_completion)
   = Inl (IsolatedProviderFailure Upstream)"
proof -
  have "httpx_only (sample_upstream busy)" by (simp add: httpx_only_def sample_upstream_def sample_http_def)
  note f = completions_raise_only_sanitized [OF this, of 1 60 GeminiProviderAdapter "''https://host/''" "''key''" sample_completion
      "\<lambda>t. require_text (PStr t)"]
  have "adapter_complete GeminiProviderAdapter (sample_upstream busy) ''https://host/'' ''key'' sample_completion = Inl EiraOSError"
    by (simp add: adapter_complete_def gemini_complete_def completed_text_def posted_def post_with_retry_def sample_upstream_def
        sample_http_def retriable_def transient_error_def busy_def TRANSIENT_STATUSES_def outcome_value_def outcome_response_def
        decode_completion_def numeral_2_eq_2)
  then show ?thesis using f by simp
qed

section \<open>Completions with usage\<close>

definition adapter_complete_with_usage :: "adapter \<Rightarrow> upstream \<Rightarrow> string \<Rightarrow> string \<Rightarrow> completion_request
    \<Rightarrow> py_exception + string \<times> provider_usage option" where
  "adapter_complete_with_usage a = (case a of OpenAIProviderAdapter \<Rightarrow> openai_complete_with_usage
     | AnthropicProviderAdapter \<Rightarrow> anthropic_complete_with_usage | GeminiProviderAdapter \<Rightarrow> gemini_complete_with_usage)"

definition answers_json :: "upstream \<Rightarrow> bool" where
  "answers_json up \<longleftrightarrow> (\<forall>rq k r. up_post up rq k = Responded r \<longrightarrow> \<not> hr_raises r \<and> hr_json r \<noteq> None)"

lemma posted_from:
  assumes "posted up rq = Inr r"
  shows "\<exists>k. up_post up rq k = Responded r"
proof -
  have out: "outcome_value o' = Inr r \<longleftrightarrow> o' = Responded r" for o' by (cases o') (simp_all add: outcome_value_def)
  have "fst (retry_loop p hs post ks) = Inr r \<Longrightarrow> \<exists>k. post k = Responded r" for p hs post ks
    by (induction ks) (auto simp: Let_def out split: if_splits prod.splits)
  then show ?thesis using assms by (auto simp: posted_def post_with_retry_def split: if_splits)
qed

lemma answers_posted: "answers_json up \<Longrightarrow> posted up rq = Inr r \<Longrightarrow> \<not> hr_raises r \<and> (\<exists>d. hr_json r = Some d)"
  using posted_from [of up rq r] unfolding answers_json_def by blast

lemma completed_agree:
  assumes "answers_json up" and "\<And>d. map_sum id fst (unpack' d) = unpack d \<or> unpack' d = Inl x"
  shows "map_sum id fst (completed_usage up rq unpack') = completed_text up rq unpack \<or> completed_usage up rq unpack' = Inl x"
proof (cases "posted up rq")
  case (Inr r)
  then obtain d where "\<not> hr_raises r" "hr_json r = Some d" using answers_posted [OF assms(1) Inr] by blast
  then show ?thesis using Inr assms(2) by (simp add: completed_usage_def completed_text_def decode_completion_def)
qed (simp add: completed_usage_def completed_text_def)

lemma completed_agree_only:
  assumes "answers_json up" and "\<And>d. map_sum id fst (unpack' d) = unpack d"
  shows "map_sum id fst (completed_usage up rq unpack') = completed_text up rq unpack"
proof (cases "posted up rq")
  case (Inr r)
  then obtain d where "\<not> hr_raises r" "hr_json r = Some d" using answers_posted [OF assms(1) Inr] by blast
  then show ?thesis using Inr assms(2) by (simp add: completed_usage_def completed_text_def decode_completion_def)
qed (simp add: completed_usage_def completed_text_def)

lemma checked_usage_nonneg: "checked_usage i o' = Inr u \<Longrightarrow> 0 \<le> us_input_tokens u \<and> 0 \<le> us_output_tokens u"
  by (auto simp: checked_usage_def split: if_splits)

lemma usage_of_nonneg: "usage_of d i o' k = Some u \<Longrightarrow> 0 \<le> us_input_tokens u \<and> 0 \<le> us_output_tokens u"
  by (auto simp: usage_of_def split: json.splits if_splits sum.splits dest: checked_usage_nonneg)

lemma gemini_usage_nonneg: "gemini_usage d = Inr (Some u) \<Longrightarrow> 0 \<le> us_input_tokens u \<and> 0 \<le> us_output_tokens u"
  by (auto simp: gemini_usage_def split: json.splits if_splits sum.splits dest: checked_usage_nonneg)

lemma completed_usage_Inr:
  "completed_usage up rq unpack = Inr y \<Longrightarrow> \<exists>d. unpack d = Inr y"
  by (auto simp: completed_usage_def split: sum.splits option.splits)

text \<open>Asking for usage changes nothing else.  As long as the upstream answers with success and JSON, the completion
  with usage has the same text, or fails in the same way, as the completion without; only a negative prompt
  count of Gemini makes a difference, and the counts that are reported are never negative.\<close>

theorem usage_completion_agrees:
  assumes "answers_json up"
  shows "(map_sum id fst (adapter_complete_with_usage a up base key cr) = adapter_complete a up base key cr
      \<or> a = GeminiProviderAdapter \<and> adapter_complete_with_usage a up base key cr = Inl (OtherError ''ValueError''))
    \<and> (case adapter_complete_with_usage a up base key cr of
         Inr (t, Some u) \<Rightarrow> 0 \<le> us_input_tokens u \<and> 0 \<le> us_output_tokens u | _ \<Rightarrow> True)"
proof -
  have err: "gemini_usage d = Inl e \<Longrightarrow> e = OtherError ''ValueError''" for d e
    by (auto simp: gemini_usage_def checked_usage_def split: json.splits if_splits)
  have sum: "map_sum id fst (sum_then r (\<lambda>t. Inr (t, f))) = r" for r :: "py_exception + string" and f :: "provider_usage option"
    by (cases r) simp_all
  have sum3: "map_sum id fst (sum_then r (\<lambda>t. sum_then (gemini_usage d) (\<lambda>u. Inr (t, u)))) = r
      \<or> sum_then r (\<lambda>t. sum_then (gemini_usage d) (\<lambda>u. Inr (t, u))) = Inl (OtherError ''ValueError'')" for r :: "py_exception + string" and d
    by (cases r; cases "gemini_usage d") (auto dest: err)
  have same: "map_sum id fst (adapter_complete_with_usage a up base key cr) = adapter_complete a up base key cr
      \<or> a = GeminiProviderAdapter \<and> adapter_complete_with_usage a up base key cr = Inl (OtherError ''ValueError'')"
  proof (cases a)
    case GeminiProviderAdapter
    have "map_sum id fst (gemini_complete_with_usage up base key cr) = gemini_complete up base key cr
        \<or> gemini_complete_with_usage up base key cr = Inl (OtherError ''ValueError'')"
      unfolding gemini_complete_def gemini_complete_with_usage_def by (rule completed_agree [OF assms]) (rule sum3)
    then show ?thesis using GeminiProviderAdapter by (simp add: adapter_complete_with_usage_def adapter_complete_def)
  qed (simp_all add: adapter_complete_with_usage_def adapter_complete_def openai_complete_def openai_complete_with_usage_def
      anthropic_complete_def anthropic_complete_with_usage_def completed_agree_only [OF assms sum])
  have "0 \<le> us_input_tokens u \<and> 0 \<le> us_output_tokens u" if "adapter_complete_with_usage a up base key cr = Inr (t, Some u)" for t u
    using that usage_of_nonneg gemini_usage_nonneg
    by (cases a) (auto simp: adapter_complete_with_usage_def openai_complete_with_usage_def anthropic_complete_with_usage_def
        gemini_complete_with_usage_def sum_then_def dest!: completed_usage_Inr split: sum.splits)
  then show ?thesis using same by (auto split: sum.splits option.splits)
qed


definition answered :: http_response where
  "answered = \<lparr>hr_status = 200, hr_retry_after = None, hr_raises = False,
     hr_json = Some (JObj [(''choices'', JList [JObj [(''message'', JObj [(''content'', JStr ''hi'')])]]),
       (''usage'', JObj [(''prompt_tokens'', JInt 2), (''completion_tokens'', JInt 1), (''total_tokens'', JInt 3)])])\<rparr>"

theorem usage_completion_agrees_witness:
  "map_sum id fst (adapter_complete_with_usage OpenAIProviderAdapter (sample_upstream answered) ''https://host'' ''key'' sample_completion)
   = adapter_complete OpenAIProviderAdapter (sample_upstream answered) ''https://host'' ''key'' sample_completion"
proof -
  have "answers_json (sample_upstream answered)" by (auto simp: answers_json_def sample_upstream_def answered_def split: if_splits)
  from usage_completion_agrees [OF this, of OpenAIProviderAdapter] show ?thesis by simp
qed

end
