(* ===== verification/ProviderStreams.thy ===== *)
theory ProviderStreams
  imports ProviderAdapters
begin

text \<open>
  The event streams of the adapters: from the lines of a response to what the chat's generator receives.
  Each adapter has two readers, one for text and one for text and usage; the chat uses the second.
\<close>

section \<open>Lines\<close>

definition data_line :: "string \<Rightarrow> bool" where
  "data_line l \<longleftrightarrow> take 6 l = ''data: ''"

definition payload_of :: "string \<Rightarrow> string" where
  "payload_of l = py_strip (drop 6 l)"

datatype adapter_event = TextValue json | UsageValue provider_usage

text \<open>One event: the new state, what is yielded, and the exception that ends the generator.\<close>

type_synonym ('s, 'e) event_step = "'s \<Rightarrow> json \<Rightarrow> 's \<times> 'e list \<times> py_exception option"

fun event_loop :: "(string \<Rightarrow> json option) \<Rightarrow> ('s, 'e) event_step \<Rightarrow> ('s \<Rightarrow> 'e stream_item list) \<Rightarrow> 's \<Rightarrow> string list
    \<Rightarrow> 'e stream_item list" where
  "event_loop loads f at_end s [] = at_end s"
| "event_loop loads f at_end s (l # ls) =
     (if \<not> data_line l then event_loop loads f at_end s ls
      else (case loads (payload_of l) of
              None \<Rightarrow> event_loop loads f at_end s ls
            | Some v \<Rightarrow> (case f s v of
                  (s', es, None) \<Rightarrow> map Item es @ event_loop loads f at_end s' ls
                | (s', es, Some e) \<Rightarrow> map Item es @ [Raised e])))"

text \<open>The two wrappings of a response: the text readers turn \<^verbatim>\<open>httpx\<close> errors into the sanitized failure,
  the usage readers let them pass.\<close>

definition sanitized_response :: "sse_exchange \<Rightarrow> ('e stream_item list \<Rightarrow> string list \<Rightarrow> 'e stream_item list) \<Rightarrow> 'e stream_item list" where
  "sanitized_response sx read = (case sx_open sx of
     Some e \<Rightarrow> [Raised (upstream_failure e)]
   | None \<Rightarrow> if sx_raises sx then [Raised EiraOSError]
       else read (case sx_end sx of None \<Rightarrow> [Ended] | Some e \<Rightarrow> [Raised (upstream_failure e)]) (sx_lines sx))"

definition raw_failure :: "transport_error \<Rightarrow> py_exception" where
  "raw_failure e = (case e of NotHttpx x \<Rightarrow> x | _ \<Rightarrow> OtherError ''httpx.HTTPError'')"

definition raw_response :: "sse_exchange \<Rightarrow> (('s \<Rightarrow> 'e stream_item list) \<Rightarrow> string list \<Rightarrow> 'e stream_item list) \<Rightarrow> ('s \<Rightarrow> 'e list) \<Rightarrow> 'e stream_item list" where
  "raw_response sx read last_events = (case sx_open sx of
     Some e \<Rightarrow> [Raised (raw_failure e)]
   | None \<Rightarrow> if sx_raises sx then [Raised (OtherError ''httpx.HTTPStatusError'')]
       else read (\<lambda>s. case sx_end sx of None \<Rightarrow> map Item (last_events s) @ [Ended] | Some e \<Rightarrow> [Raised (raw_failure e)]) (sx_lines sx))"

section \<open>OpenAI\<close>

text \<open>The text reader: errors of the shape of a chunk skip it, but a chunk that is no object raises.\<close>

definition delta_content :: "json \<Rightarrow> json option" where
  "delta_content delta = (case delta of
     JObj fs \<Rightarrow> (case map_of fs ''content'' of None \<Rightarrow> None | Some v \<Rightarrow> truthy_value v) | _ \<Rightarrow> None)"

definition openai_chunk :: "(unit, json) event_step" where
  "openai_chunk s chunk = (case attr_get chunk ''error'' of
     Inl e \<Rightarrow> (s, [], Some e)
   | Inr err \<Rightarrow> if \<not> json_falsy err then (s, [], Some EiraOSError)
       else (case sum_then (index_key chunk ''choices'') (\<lambda>cs. sum_then (first_item cs) (\<lambda>c. index_key c ''delta'')) of
           Inl _ \<Rightarrow> (s, [], None)
         | Inr delta \<Rightarrow> (s, (case delta_content delta of None \<Rightarrow> [] | Some v \<Rightarrow> [v]), None)))"

definition done_line :: "string \<Rightarrow> bool" where
  "done_line l \<longleftrightarrow> data_line l \<and> payload_of l = ''[DONE]''"

definition openai_stream :: "upstream \<Rightarrow> string \<Rightarrow> string \<Rightarrow> completion_request \<Rightarrow> json stream_item list" where
  "openai_stream up base key cr =
     sanitized_response (up_stream up (openai_request base key cr True []))
       (\<lambda>tl ls. event_loop (up_loads up) openai_chunk
          (\<lambda>_. if \<exists>l \<in> set ls. done_line l then [Ended] else tl) () (takeWhile (\<lambda>l. \<not> done_line l) ls))"

definition choices_text :: "json \<Rightarrow> py_exception + json option" where
  "choices_text data =
     sum_then (attr_get data ''choices'') (\<lambda>cs. if json_falsy cs then Inr None
       else sum_then (first_item cs) (\<lambda>c. case c of
          JObj fs \<Rightarrow> sum_then (attr_get (or_empty_dict (json_get fs ''delta'')) ''content'') (\<lambda>t. Inr (truthy_value t))
        | _ \<Rightarrow> Inr None))"

definition openai_event :: "(unit, adapter_event) event_step" where
  "openai_event s data = (case attr_get data ''usage'' of
     Inl e \<Rightarrow> (s, [], Some e)
   | Inr u \<Rightarrow>
       (let us = (case usage_of u ''prompt_tokens'' ''completion_tokens'' (Some ''total_tokens'') of None \<Rightarrow> [] | Some v \<Rightarrow> [UsageValue v])
        in (case choices_text data of
              Inl e \<Rightarrow> (s, us, Some e)
            | Inr None \<Rightarrow> (s, us, None)
            | Inr (Some t) \<Rightarrow> (s, us @ [TextValue t], None))))"

definition openai_stream_with_usage :: "upstream \<Rightarrow> string \<Rightarrow> string \<Rightarrow> completion_request \<Rightarrow> adapter_event stream_item list" where
  "openai_stream_with_usage up base key cr =
     raw_response (up_stream up (openai_request base key cr True [(''stream_options'', JObj [(''include_usage'', JBool True)])]))
       (\<lambda>fin ls. event_loop (\<lambda>d. if d = ''[DONE]'' then None else up_loads up d) openai_event fin () ls) (\<lambda>_. [])"

section \<open>Anthropic\<close>

definition delta_text :: "json \<Rightarrow> py_exception + json option" where
  "delta_text delta = sum_then (attr_get delta ''type'') (\<lambda>ty.
     if ty = JStr ''text_delta'' then sum_then (attr_get delta ''text'') (\<lambda>t. Inr (truthy_value t)) else Inr None)"

definition get_default :: "json \<Rightarrow> string \<Rightarrow> json \<Rightarrow> py_exception + json" where
  "get_default v k d = (case v of
     JObj fs \<Rightarrow> Inr (case map_of fs k of None \<Rightarrow> d | Some x \<Rightarrow> x) | _ \<Rightarrow> Inl (OtherError ''AttributeError''))"

definition anthropic_chunk :: "(unit, json) event_step" where
  "anthropic_chunk s event = (case attr_get event ''type'' of
     Inl e \<Rightarrow> (s, [], Some e)
   | Inr ty \<Rightarrow>
       if ty = JStr ''error'' then (s, [], Some EiraOSError)
       else if ty = JStr ''content_block_delta''
       then (case sum_then (get_default event ''delta'' (JObj [])) delta_text of
               Inl e \<Rightarrow> (s, [], Some e) | Inr None \<Rightarrow> (s, [], None) | Inr (Some t) \<Rightarrow> (s, [t], None))
       else (s, [], None))"

definition anthropic_stream :: "upstream \<Rightarrow> string \<Rightarrow> string \<Rightarrow> completion_request \<Rightarrow> json stream_item list" where
  "anthropic_stream up base key cr =
     sanitized_response (up_stream up (anthropic_request base key cr True))
       (\<lambda>tl ls. event_loop (up_loads up) anthropic_chunk (\<lambda>_. tl) () ls)"

definition count_of :: "json \<Rightarrow> int option" where
  "count_of v = (case v of JInt i \<Rightarrow> if 0 \<le> i then Some i else None | _ \<Rightarrow> None)"

text \<open>The state: the token counts seen so far.\<close>

definition anthropic_event :: "(int option \<times> int option, adapter_event) event_step" where
  "anthropic_event st event = (case attr_get event ''type'' of
     Inl e \<Rightarrow> (st, [], Some e)
   | Inr ty \<Rightarrow>
       if ty = JStr ''message_start''
       then (case sum_then (attr_get event ''message'') (\<lambda>m. sum_then (get_default (or_empty_dict m) ''usage'' (JObj []))
                 (\<lambda>u. attr_get u ''input_tokens'')) of
               Inl e \<Rightarrow> (st, [], Some e) | Inr v \<Rightarrow> ((count_of v, snd st), [], None))
       else if ty = JStr ''message_delta''
       then (case sum_then (attr_get event ''usage'') (\<lambda>u. attr_get (or_empty_dict u) ''output_tokens'') of
               Inl e \<Rightarrow> (st, [], Some e) | Inr v \<Rightarrow> ((fst st, count_of v), [], None))
       else if ty = JStr ''content_block_delta''
       then (case sum_then (attr_get event ''delta'') (\<lambda>d. delta_text (or_empty_dict d)) of
               Inl e \<Rightarrow> (st, [], Some e) | Inr None \<Rightarrow> (st, [], None) | Inr (Some t) \<Rightarrow> (st, [TextValue t], None))
       else (st, [], None))"

definition anthropic_last :: "int option \<times> int option \<Rightarrow> adapter_event list" where
  "anthropic_last st = (case st of
     (Some i, Some o') \<Rightarrow> [UsageValue \<lparr>us_input_tokens = i, us_output_tokens = o'\<rparr>] | _ \<Rightarrow> [])"

definition anthropic_stream_with_usage :: "upstream \<Rightarrow> string \<Rightarrow> string \<Rightarrow> completion_request \<Rightarrow> adapter_event stream_item list" where
  "anthropic_stream_with_usage up base key cr =
     raw_response (up_stream up (anthropic_request base key cr True))
       (\<lambda>fin ls. event_loop (up_loads up) anthropic_event fin (None, None) ls) anthropic_last"

section \<open>Gemini\<close>

definition part_text :: "json \<Rightarrow> json option" where
  "part_text part = (case part of JObj fs \<Rightarrow> truthy_value (json_get fs ''text'') | _ \<Rightarrow> None)"

text \<open>Iterating over \<^verbatim>\<open>parts\<close>: what is no list has no objects among its elements, or cannot be iterated.\<close>

definition parts_texts :: "json \<Rightarrow> py_exception + json list" where
  "parts_texts parts = (case json_iter parts of
     None \<Rightarrow> Inl (OtherError ''TypeError'') | Some ps \<Rightarrow> Inr (List.map_filter part_text ps))"

definition candidate_texts :: "json \<Rightarrow> (json \<Rightarrow> py_exception + json) \<Rightarrow> py_exception + json list" where
  "candidate_texts candidates content_of =
     (if json_falsy candidates then Inr []
      else sum_then (first_item candidates) (\<lambda>c. case c of
         JObj _ \<Rightarrow> sum_then (content_of c) (\<lambda>content. sum_then (get_default content ''parts'' (JList [])) parts_texts)
       | _ \<Rightarrow> Inr []))"

definition gemini_chunk :: "(unit, json) event_step" where
  "gemini_chunk s chunk = (case attr_get chunk ''error'' of
     Inl e \<Rightarrow> (s, [], Some e)
   | Inr err \<Rightarrow> if \<not> json_falsy err then (s, [], Some EiraOSError)
       else (case sum_then (get_default chunk ''candidates'' (JList [])) (\<lambda>cs. candidate_texts cs (\<lambda>c. get_default c ''content'' (JObj []))) of
               Inl e \<Rightarrow> (s, [], Some e) | Inr ts \<Rightarrow> (s, ts, None)))"

definition gemini_stream :: "upstream \<Rightarrow> string \<Rightarrow> string \<Rightarrow> completion_request \<Rightarrow> json stream_item list" where
  "gemini_stream up base key cr =
     sanitized_response (up_stream up (gemini_request base key cr '':streamGenerateContent?alt=sse''))
       (\<lambda>tl ls. event_loop (up_loads up) gemini_chunk (\<lambda>_. tl) () ls)"

definition gemini_event :: "(provider_usage option, adapter_event) event_step" where
  "gemini_event u chunk = (case sum_then (attr_get chunk ''usageMetadata'') gemini_usage of
     Inl e \<Rightarrow> (u, [], Some e)
   | Inr parsed \<Rightarrow>
       (let u' = (case parsed of None \<Rightarrow> u | Some v \<Rightarrow> Some v) in
        (case sum_then (attr_get chunk ''candidates'') (\<lambda>cs.
              candidate_texts cs (\<lambda>c. sum_then (attr_get c ''content'') (\<lambda>x. Inr (or_empty_dict x)))) of
           Inl e \<Rightarrow> (u', [], Some e) | Inr ts \<Rightarrow> (u', map TextValue ts, None))))"

definition gemini_stream_with_usage :: "upstream \<Rightarrow> string \<Rightarrow> string \<Rightarrow> completion_request \<Rightarrow> adapter_event stream_item list" where
  "gemini_stream_with_usage up base key cr =
     raw_response (up_stream up (gemini_request base key cr '':streamGenerateContent?alt=sse''))
       (\<lambda>fin ls. event_loop (up_loads up) gemini_event fin None ls)
       (\<lambda>u. case u of None \<Rightarrow> [] | Some v \<Rightarrow> [UsageValue v])"


section \<open>To the chat\<close>

definition adapter_stream :: "adapter \<Rightarrow> upstream \<Rightarrow> string \<Rightarrow> string \<Rightarrow> completion_request \<Rightarrow> json stream_item list" where
  "adapter_stream a = (case a of OpenAIProviderAdapter \<Rightarrow> openai_stream
     | AnthropicProviderAdapter \<Rightarrow> anthropic_stream | GeminiProviderAdapter \<Rightarrow> gemini_stream)"

definition adapter_stream_with_usage :: "adapter \<Rightarrow> upstream \<Rightarrow> string \<Rightarrow> string \<Rightarrow> completion_request \<Rightarrow> adapter_event stream_item list" where
  "adapter_stream_with_usage a = (case a of OpenAIProviderAdapter \<Rightarrow> openai_stream_with_usage
     | AnthropicProviderAdapter \<Rightarrow> anthropic_stream_with_usage | GeminiProviderAdapter \<Rightarrow> gemini_stream_with_usage)"

text \<open>A yielded value that is no string is what the isolation makes of it.\<close>

fun chat_event :: "adapter_event stream_item \<Rightarrow> provider_stream_event stream_item" where
  "chat_event (Item (TextValue (JStr s))) = Item (TextEvent s)"
| "chat_event (Item (TextValue _)) = Raised (IsolatedProviderFailure InvalidResponse)"
| "chat_event (Item (UsageValue u)) = Item (UsageEvent u)"
| "chat_event Ended = Ended"
| "chat_event (Raised e) = Raised e"

definition chat_output :: "adapter_event stream_item list \<Rightarrow> provider_output" where
  "chat_output items = UsageStream (map chat_event items)"

fun plain_texts :: "json stream_item list \<Rightarrow> json list" where
  "plain_texts [] = []"
| "plain_texts (Item v # items) = v # plain_texts items"
| "plain_texts (_ # items) = plain_texts items"

fun event_texts :: "adapter_event stream_item list \<Rightarrow> json list" where
  "event_texts [] = []"
| "event_texts (Item (TextValue v) # items) = v # event_texts items"
| "event_texts (_ # items) = event_texts items"

lemma plain_texts_append [simp]: "plain_texts (map Item vs @ items) = vs @ plain_texts items"
  by (induction vs) simp_all

definition texts_in :: "adapter_event list \<Rightarrow> json list" where
  "texts_in es = event_texts (map Item es)"

lemma event_texts_append [simp]: "event_texts (map Item es @ items) = texts_in es @ event_texts items"
  unfolding texts_in_def
proof (induction es)
  case (Cons e es)
  then show ?case by (cases e) simp_all
qed simp

lemma texts_in_simps [simp]: "texts_in [] = []" "texts_in (TextValue v # es) = v # texts_in es"
  "texts_in (UsageValue u # es) = texts_in es" "texts_in (es @ es') = texts_in es @ texts_in es'"
  using event_texts_append [of es "map Item es'"] by (simp_all add: texts_in_def)

lemma texts_in_map [simp]: "texts_in (map TextValue vs) = vs"
  by (induction vs) simp_all

section \<open>Two readers, one text\<close>

text \<open>An event on which a step of the one and a step of the other reader raise nothing and yield the same text.\<close>

definition same_step :: "('s, json) event_step \<Rightarrow> ('t, adapter_event) event_step \<Rightarrow> json \<Rightarrow> bool" where
  "same_step f f' v \<longleftrightarrow> (\<forall>s t. snd (snd (f s v)) = None \<and> snd (snd (f' t v)) = None
     \<and> texts_in (fst (snd (f' t v))) = fst (snd (f s v)))"

lemma same_loop:
  assumes "list_all (\<lambda>l. data_line l \<longrightarrow> (case loads (payload_of l) of None \<Rightarrow> True | Some v \<Rightarrow> same_step f f' v)) ls"
    and "\<And>s t. event_texts (fin' t) = plain_texts (fin s)"
  shows "event_texts (event_loop loads f' fin' t ls) = plain_texts (event_loop loads f fin s ls)"
  using assms(1)
proof (induction ls arbitrary: s t)
  case (Cons l ls)
  show ?case
  proof (cases "data_line l")
    case True
    show ?thesis
    proof (cases "loads (payload_of l)")
      case (Some v)
      then have st: "same_step f f' v" using Cons.prems True by simp
      obtain s1 es x where f: "f s v = (s1, es, x)" by (cases "f s v")
      obtain t1 es' x' where f': "f' t v = (t1, es', x')" by (cases "f' t v")
      have "x = None" "x' = None" "texts_in es' = es"
        using st [unfolded same_step_def, rule_format, of s t] f f' by simp_all
      then show ?thesis using Cons True Some f f' by simp
    qed (use Cons True in simp)
  qed (use Cons in simp)
qed (simp add: assms(2))

definition quiet :: "adapter \<Rightarrow> json \<Rightarrow> bool" where
  "quiet a v \<longleftrightarrow> (case a of
     OpenAIProviderAdapter \<Rightarrow> snd (snd (openai_chunk () v)) = None \<and> snd (snd (openai_event () v)) = None
   | AnthropicProviderAdapter \<Rightarrow> snd (snd (anthropic_chunk () v)) = None \<and> snd (snd (anthropic_event (None, None) v)) = None
   | GeminiProviderAdapter \<Rightarrow> snd (snd (gemini_chunk () v)) = None \<and> snd (snd (gemini_event None v)) = None)"

lemma delta_agrees: "attr_get (or_empty_dict d) ''content'' = Inr x \<Longrightarrow> delta_content d = truthy_value x"
  by (cases d) (auto simp: attr_get_def or_empty_dict_def delta_content_def truthy_value_def json_get_def split: if_splits option.splits)

lemma first_choice_agrees:
  assumes "sum_then (attr_get (or_empty_dict (json_get fs ''delta'')) ''content'') (\<lambda>t. Inr (truthy_value t)) = Inr t"
  shows "case index_key (JObj fs) ''delta'' of Inl _ \<Rightarrow> t = None | Inr delta \<Rightarrow> delta_content delta = t"
proof (cases "map_of fs ''delta''")
  case None
  then show ?thesis using assms by (simp add: index_key_def json_get_def or_empty_dict_def attr_get_def truthy_value_def)
next
  case (Some d)
  then obtain x where "attr_get (or_empty_dict d) ''content'' = Inr x" "t = truthy_value x"
    using assms by (auto simp: json_get_def sum_then_def split: sum.splits)
  then show ?thesis using Some delta_agrees by (simp add: index_key_def)
qed

lemma choices_agree:
  assumes "choices_text (JObj fs) = Inr t"
  shows "case sum_then (index_key (JObj fs) ''choices'') (\<lambda>cs. sum_then (first_item cs) (\<lambda>c. index_key c ''delta'')) of
     Inl _ \<Rightarrow> t = None | Inr delta \<Rightarrow> delta_content delta = t"
proof (cases "map_of fs ''choices''")
  case None
  then show ?thesis using assms by (simp add: index_key_def choices_text_def attr_get_def json_get_def)
next
  case (Some cs)
  then have t: "(if json_falsy cs then Inr None
       else sum_then (first_item cs) (\<lambda>c. case c of
          JObj fs \<Rightarrow> sum_then (attr_get (or_empty_dict (json_get fs ''delta'')) ''content'') (\<lambda>t. Inr (truthy_value t))
        | _ \<Rightarrow> Inr None)) = Inr t"
    using assms by (simp add: choices_text_def attr_get_def json_get_def)
  have plain: "sum_then (index_key (JObj fs) ''choices'') k = k cs" for k :: "json \<Rightarrow> py_exception + json"
    using Some by (simp add: index_key_def)
  have c: "case index_key c ''delta'' of Inl _ \<Rightarrow> t = None | Inr delta \<Rightarrow> delta_content delta = t"
    if "(case c of JObj fs \<Rightarrow> sum_then (attr_get (or_empty_dict (json_get fs ''delta'')) ''content'') (\<lambda>t. Inr (truthy_value t))
        | _ \<Rightarrow> Inr None) = Inr t" for c
  proof (cases c)
    case (JObj cf)
    then show ?thesis using that first_choice_agrees [of cf t] by simp
  qed (use that in \<open>simp_all add: index_key_def\<close>)
  show ?thesis unfolding plain using t c
    by (cases "json_falsy cs"; cases "first_item cs") (auto elim!: first_item.elims)
qed

lemma quiet_openai:
  assumes "quiet OpenAIProviderAdapter v"
  shows "same_step openai_chunk openai_event v"
proof -
  have q: "snd (snd (openai_chunk () v)) = None" "snd (snd (openai_event () v)) = None" using assms by (simp_all add: quiet_def)
  then obtain fs where v: "v = JObj fs" by (cases v) (simp_all add: openai_chunk_def attr_get_def)
  obtain t where t: "choices_text (JObj fs) = Inr t"
    using q(2) by (auto simp: v openai_event_def attr_get_def Let_def split: sum.splits)
  show ?thesis using q t choices_agree [OF t]
    by (auto simp: same_step_def v openai_chunk_def openai_event_def attr_get_def Let_def split: sum.splits option.splits if_splits)
qed

lemma quiet_anthropic:
  assumes "quiet AnthropicProviderAdapter v"
  shows "same_step anthropic_chunk anthropic_event v"
proof -
  have q: "snd (snd (anthropic_chunk () v)) = None" "snd (snd (anthropic_event (None, None) v)) = None" using assms by (simp_all add: quiet_def)
  then obtain fs where v: "v = JObj fs" by (cases v) (simp_all add: anthropic_chunk_def attr_get_def)
  have d: "get_default (JObj fs) ''delta'' (JObj []) = Inr d \<Longrightarrow> delta_text d = Inr t \<Longrightarrow>
      sum_then (attr_get (JObj fs) ''delta'') (\<lambda>d. delta_text (or_empty_dict d)) = Inr t" for d t
    by (cases d) (auto simp: get_default_def attr_get_def json_get_def or_empty_dict_def delta_text_def sum_then_def split: option.splits)
  show ?thesis using q d
    by (auto simp: same_step_def v anthropic_chunk_def anthropic_event_def attr_get_def [of "JObj fs" "''type''"] sum_then_def [of "get_default (JObj fs) ''delta'' (JObj [])"]
        split: sum.splits option.splits if_splits)
qed


lemma candidates_agree:
  assumes "candidate_texts cs (\<lambda>c. get_default c ''content'' (JObj [])) = Inr ts"
  shows "candidate_texts cs (\<lambda>c. sum_then (attr_get c ''content'') (\<lambda>x. Inr (or_empty_dict x))) = Inr ts"
proof -
  have c: "sum_then (sum_then (attr_get (JObj cf) ''content'') (\<lambda>x. Inr (or_empty_dict x)))
        (\<lambda>content. sum_then (get_default content ''parts'' (JList [])) parts_texts) = Inr ts"
    if "sum_then (get_default (JObj cf) ''content'' (JObj [])) (\<lambda>content. sum_then (get_default content ''parts'' (JList [])) parts_texts) = Inr ts" for cf
  proof (cases "map_of cf ''content''")
    case None
    then show ?thesis using that by (simp add: get_default_def attr_get_def json_get_def or_empty_dict_def)
  next
    case (Some x)
    then have x: "sum_then (get_default x ''parts'' (JList [])) parts_texts = Inr ts" using that by (simp add: get_default_def [of "JObj cf"])
    then obtain xs where "x = JObj xs" by (cases x) (simp_all add: get_default_def)
    then show ?thesis using x Some by (auto simp: attr_get_def json_get_def or_empty_dict_def)
  qed
  show ?thesis
  proof (cases "json_falsy cs")
    case False
    show ?thesis
    proof (cases "first_item cs")
      case (Inr x)
      then show ?thesis using assms False c by (cases x) (simp_all add: candidate_texts_def)
    qed (use assms False in \<open>simp add: candidate_texts_def\<close>)
  qed (use assms in \<open>simp add: candidate_texts_def\<close>)
qed

lemma quiet_gemini:
  assumes "quiet GeminiProviderAdapter v"
  shows "same_step gemini_chunk gemini_event v"
proof -
  have q: "snd (snd (gemini_chunk () v)) = None" "snd (snd (gemini_event None v)) = None" using assms by (simp_all add: quiet_def)
  then obtain fs where v: "v = JObj fs" by (cases v) (simp_all add: gemini_chunk_def attr_get_def)
  obtain ts where ts: "sum_then (get_default (JObj fs) ''candidates'' (JList [])) (\<lambda>cs. candidate_texts cs (\<lambda>c. get_default c ''content'' (JObj []))) = Inr ts"
    and err: "json_falsy (json_get fs ''error'')"
    using q(1) by (auto simp: v gemini_chunk_def attr_get_def split: if_splits sum.splits)
  have "sum_then (attr_get (JObj fs) ''candidates'') (\<lambda>cs. candidate_texts cs (\<lambda>c. sum_then (attr_get c ''content'') (\<lambda>x. Inr (or_empty_dict x)))) = Inr ts"
  proof (cases "map_of fs ''candidates''")
    case None
    then show ?thesis using ts by (simp add: get_default_def [of "JObj fs"] attr_get_def [of "JObj fs"] json_get_def candidate_texts_def)
  next
    case (Some cs)
    then show ?thesis using ts candidates_agree by (simp add: get_default_def [of "JObj fs"] attr_get_def [of "JObj fs"] json_get_def)
  qed
  moreover obtain p where "sum_then (attr_get (JObj fs) ''usageMetadata'') gemini_usage = Inr p"
    using q(2) by (auto simp: v gemini_event_def split: sum.splits)
  moreover have "attr_get (JObj fs) ''error'' = Inr (json_get fs ''error'')" by (simp add: attr_get_def)
  ultimately show ?thesis using ts err by (simp add: same_step_def v gemini_chunk_def gemini_event_def Let_def)
qed

text \<open>A transcript on which both readers of an adapter keep quiet, with no data after the end mark of OpenAI.\<close>

definition quiet_transcript :: "adapter \<Rightarrow> (string \<Rightarrow> json option) \<Rightarrow> string list \<Rightarrow> bool" where
  "quiet_transcript a loads ls \<longleftrightarrow>
     list_all (\<lambda>l. data_line l \<longrightarrow> (case loads (payload_of l) of None \<Rightarrow> True | Some v \<Rightarrow> quiet a v)) ls
     \<and> (a = OpenAIProviderAdapter \<longrightarrow> list_all (\<lambda>l. data_line l \<longrightarrow> done_line l) (dropWhile (\<lambda>l. \<not> done_line l) ls))"

lemma quiet_lines:
  assumes "list_all (\<lambda>l. data_line l \<longrightarrow> (case loads (payload_of l) of None \<Rightarrow> True | Some v \<Rightarrow> quiet a v)) ls"
    and "\<And>v. quiet a v \<Longrightarrow> same_step f f' v"
  shows "list_all (\<lambda>l. data_line l \<longrightarrow> (case loads (payload_of l) of None \<Rightarrow> True | Some v \<Rightarrow> same_step f f' v)) ls"
  using assms by (auto simp: list_all_iff split: option.splits)

text \<open>After the end mark nothing is read, before it the mark does not occur.\<close>

lemma openai_rest:
  "list_all (\<lambda>l. data_line l \<longrightarrow> done_line l) ls \<Longrightarrow> event_loop (\<lambda>d. if d = ''[DONE]'' then None else loads d) f fin s ls = fin s"
  by (induction ls arbitrary: s) (auto simp: done_line_def)

lemma event_loop_split:
  "event_loop loads f fin s (ls @ ms) = event_loop loads f (\<lambda>s. event_loop loads f fin s ms) s ls"
  by (induction ls arbitrary: s) (auto split: option.splits prod.splits)

lemma event_loop_cong:
  assumes "\<And>l. l \<in> set ls \<Longrightarrow> data_line l \<Longrightarrow> loads (payload_of l) = loads' (payload_of l)"
  shows "event_loop loads f fin s ls = event_loop loads' f fin s ls"
  using assms by (induction ls arbitrary: s) (auto split: option.splits prod.splits)


text \<open>The contract of the two readers of an adapter.\<close>

locale event_readers =
  fixes a :: adapter and chunk :: "('s, json) event_step" and event :: "('t, adapter_event) event_step"
  assumes same: "quiet a v \<Longrightarrow> same_step chunk event v"
begin

lemma same_lines:
  assumes "list_all (\<lambda>l. data_line l \<longrightarrow> (case loads (payload_of l) of None \<Rightarrow> True | Some v \<Rightarrow> quiet a v)) ls"
    and "\<And>s t. event_texts (fin' t) = plain_texts (fin s)"
  shows "event_texts (event_loop loads event fin' t ls) = plain_texts (event_loop loads chunk fin s ls)"
  using quiet_lines [OF assms(1) same] assms(2) by (rule same_loop)

lemma same_response:
  assumes "quiet_transcript a loads (sx_lines sx)" and "\<And>t. texts_in (last_events t) = []"
  shows "event_texts (raw_response sx (\<lambda>fin ls. event_loop loads event fin t ls) last_events)
    = plain_texts (sanitized_response sx (\<lambda>tl ls. event_loop loads chunk (\<lambda>_. tl) s ls))"
proof (cases "sx_open sx = None \<and> \<not> sx_raises sx")
  case True
  have "list_all (\<lambda>l. data_line l \<longrightarrow> (case loads (payload_of l) of None \<Rightarrow> True | Some v \<Rightarrow> quiet a v)) (sx_lines sx)"
    using assms(1) by (simp add: quiet_transcript_def)
  note lines = same_lines [OF this]
  from True show ?thesis by (auto simp: raw_response_def sanitized_response_def assms(2) split: option.splits intro!: lines)
qed (auto simp: raw_response_def sanitized_response_def split: option.splits)

end

interpretation openai: event_readers OpenAIProviderAdapter openai_chunk openai_event
  by unfold_locales (rule quiet_openai)

interpretation anthropic: event_readers AnthropicProviderAdapter anthropic_chunk anthropic_event
  by unfold_locales (rule quiet_anthropic)

interpretation gemini: event_readers GeminiProviderAdapter gemini_chunk gemini_event
  by unfold_locales (rule quiet_gemini)

lemma list_all_takeWhile: "list_all P ls \<Longrightarrow> list_all P (takeWhile Q ls)"
  by (induction ls) simp_all

lemma quiet_openai_stream:
  assumes "\<And>rq. up_stream up rq = sx" and "quiet_transcript OpenAIProviderAdapter (up_loads up) (sx_lines sx)"
  shows "event_texts (openai_stream_with_usage up base key cr) = plain_texts (openai_stream up base key cr)"
proof (cases "sx_open sx = None \<and> \<not> sx_raises sx")
  case True
  let ?ls = "sx_lines sx" and ?before = "takeWhile (\<lambda>l. \<not> done_line l) (sx_lines sx)"
  let ?loads = "\<lambda>d. if d = ''[DONE]'' then None else up_loads up d"
  define fin where "fin = (\<lambda>s :: unit. (case sx_end sx of None \<Rightarrow> [Ended] | Some e \<Rightarrow> [Raised (raw_failure e)]) :: adapter_event stream_item list)"
  define tl where "tl = (\<lambda>s :: unit. (if \<exists>l \<in> set ?ls. done_line l then [Ended]
    else (case sx_end sx of None \<Rightarrow> [Ended] | Some e \<Rightarrow> [Raised (upstream_failure e)])) :: json stream_item list)"
  have rest: "event_loop ?loads openai_event fin s (dropWhile (\<lambda>l. \<not> done_line l) ?ls) = fin s" for s
    using assms(2) by (intro openai_rest) (simp add: quiet_transcript_def)
  have "event_loop ?loads openai_event fin () ?ls = event_loop ?loads openai_event fin () ?before"
    using event_loop_split [of ?loads openai_event fin "()" ?before "dropWhile (\<lambda>l. \<not> done_line l) ?ls"] rest by simp
  also have "\<dots> = event_loop (up_loads up) openai_event fin () ?before"
    by (rule event_loop_cong) (auto dest: set_takeWhileD simp: done_line_def)
  finally have usage: "openai_stream_with_usage up base key cr = event_loop (up_loads up) openai_event fin () ?before"
    using True assms(1) by (simp add: openai_stream_with_usage_def raw_response_def fin_def cong: option.case_cong)
  have plain: "openai_stream up base key cr = event_loop (up_loads up) openai_chunk tl () ?before"
    using True assms(1) by (simp add: openai_stream_def sanitized_response_def tl_def)
  have "list_all (\<lambda>l. data_line l \<longrightarrow> (case up_loads up (payload_of l) of None \<Rightarrow> True | Some v \<Rightarrow> quiet OpenAIProviderAdapter v)) ?before"
    using list_all_takeWhile assms(2) [unfolded quiet_transcript_def, THEN conjunct1] by blast
  note quiet = this
  have none: "event_texts (fin t) = []" "plain_texts (tl s) = []" for t s
    unfolding fin_def tl_def by (simp_all split: option.splits)
  have ends: "event_texts (fin t) = plain_texts (tl s)" for s t using none by (simp only:)
  note same = openai.same_lines [OF quiet, of fin tl "()" "()"]
  show ?thesis unfolding usage plain using ends by (intro same)
qed (use assms(1) in \<open>auto simp: openai_stream_with_usage_def openai_stream_def raw_response_def sanitized_response_def split: option.splits\<close>)

text \<open>The two readers of an adapter agree.  On the same response of the upstream, on which neither reader raises,
  the reader with usage yields exactly the text of the reader without, for each of the three adapters: the
  different ways to walk through a chunk make no difference.\<close>

theorem usage_stream_same_text:
  assumes "\<And>rq. up_stream up rq = sx" and "quiet_transcript a (up_loads up) (sx_lines sx)"
  shows "event_texts (adapter_stream_with_usage a up base key cr) = plain_texts (adapter_stream a up base key cr)"
proof (cases a)
  case OpenAIProviderAdapter
  then show ?thesis using quiet_openai_stream assms by (simp add: adapter_stream_with_usage_def adapter_stream_def)
next
  case AnthropicProviderAdapter
  have "texts_in (anthropic_last t) = []" for t by (auto simp: anthropic_last_def split: prod.splits option.splits)
  from anthropic.same_response [OF assms(2) [unfolded AnthropicProviderAdapter] this] show ?thesis
    by (simp add: AnthropicProviderAdapter adapter_stream_with_usage_def adapter_stream_def anthropic_stream_def
        anthropic_stream_with_usage_def assms(1))
next
  case GeminiProviderAdapter
  have "texts_in (case t of None \<Rightarrow> [] | Some v \<Rightarrow> [UsageValue v]) = []" for t by (simp split: option.splits)
  from gemini.same_response [OF assms(2) [unfolded GeminiProviderAdapter] this] show ?thesis
    by (simp add: GeminiProviderAdapter adapter_stream_with_usage_def adapter_stream_def gemini_stream_def
        gemini_stream_with_usage_def assms(1))
qed

section \<open>Errors inside a stream\<close>

text \<open>What an upstream reports when it fails after the response has begun: an object that names an error and
  carries no content.\<close>

definition reports_error :: "json \<Rightarrow> bool" where
  "reports_error v = (case v of
     JObj fs \<Rightarrow> json_get fs ''type'' = JStr ''error'' \<and> \<not> json_falsy (json_get fs ''error'')
       \<and> list_all (\<lambda>k. map_of fs k = None) [''choices'', ''candidates'', ''usage'', ''usageMetadata'']
   | _ \<Rightarrow> False)"

text \<open>C31: An error inside a stream is lost.  A response that begins and then only reports an error makes every text
  reader raise the sanitized failure; the usage readers, which are the ones the chat uses, yield nothing and end
  as if the answer were complete, so that the chat cannot tell it from a finished empty answer.\<close>

theorem stream_errors_are_lost:
  assumes "\<And>rq. up_stream up rq = \<lparr>sx_open = None, sx_raises = False, sx_lines = [l], sx_end = None\<rparr>"
    and "data_line l" and "payload_of l \<noteq> ''[DONE]''" and "up_loads up (payload_of l) = Some v" and "reports_error v"
  shows "adapter_stream a up base key cr = [Raised EiraOSError]
    \<and> adapter_stream_with_usage a up base key cr = [Ended]
    \<and> isolated_stream (fst (provider_text_stream (chat_output (adapter_stream_with_usage a up base key cr)))) = ([], None)"
proof -
  obtain fs where v: "v = JObj fs" and fs: "json_get fs ''type'' = JStr ''error''" "\<not> json_falsy (json_get fs ''error'')"
    "json_get fs ''choices'' = JNull" "json_get fs ''candidates'' = JNull" "json_get fs ''usage'' = JNull" "json_get fs ''usageMetadata'' = JNull"
    using assms(5) by (auto simp: reports_error_def json_get_def split: json.splits)
  have plain: "adapter_stream a up base key cr = [Raised EiraOSError]"
    using assms(2-4) fs
    by (cases a) (simp_all add: adapter_stream_def openai_stream_def anthropic_stream_def gemini_stream_def sanitized_response_def
        assms(1) done_line_def v openai_chunk_def anthropic_chunk_def gemini_chunk_def attr_get_def)
  have usage: "adapter_stream_with_usage a up base key cr = [Ended]"
    using assms(2-4) fs
    by (cases a) (simp_all add: adapter_stream_with_usage_def openai_stream_with_usage_def anthropic_stream_with_usage_def
        gemini_stream_with_usage_def raw_response_def assms(1) v openai_event_def anthropic_event_def gemini_event_def attr_get_def
        usage_of_def choices_text_def gemini_usage_def candidate_texts_def anthropic_last_def)
  show ?thesis using plain usage by (simp add: chat_output_def provider_text_stream_def)
qed

definition sample_response :: "string list \<Rightarrow> sse_exchange" where
  "sample_response ls = \<lparr>sx_open = None, sx_raises = False, sx_lines = ls, sx_end = None\<rparr>"

definition streaming_upstream :: "string list \<Rightarrow> json \<Rightarrow> upstream" where
  "streaming_upstream ls v = (sample_upstream busy)\<lparr>up_stream := (\<lambda>_. sample_response ls),
     up_loads := (\<lambda>d. if d = ''[DONE]'' then None else Some v)\<rparr>"

definition sample_text_chunk :: json where
  "sample_text_chunk = JObj [(''choices'', JList [JObj [(''delta'', JObj [(''content'', JStr ''Hej'')])]])]"

theorem usage_stream_same_text_witness:
  "event_texts (adapter_stream_with_usage OpenAIProviderAdapter (streaming_upstream [[], ''data: {1}'', ''data: [DONE]''] sample_text_chunk)
     ''https://host'' ''key'' sample_completion) = [JStr ''Hej'']"
proof -
  let ?up = "streaming_upstream [[], ''data: {1}'', ''data: [DONE]''] sample_text_chunk"
  have up: "up_stream ?up rq = sample_response [[], ''data: {1}'', ''data: [DONE]'']" for rq by (simp add: streaming_upstream_def)
  have q: "quiet_transcript OpenAIProviderAdapter (up_loads ?up) (sx_lines (sample_response [[], ''data: {1}'', ''data: [DONE]'']))"
    by code_simp
  have "plain_texts (adapter_stream OpenAIProviderAdapter ?up ''https://host'' ''key'' sample_completion) = [JStr ''Hej'']" by code_simp
  then show ?thesis using usage_stream_same_text [OF up q, of "''https://host''" "''key''" sample_completion] by simp
qed

definition sample_error :: json where
  "sample_error = JObj [(''type'', JStr ''error''), (''error'', JObj [(''type'', JStr ''overloaded_error'')])]"

theorem stream_errors_are_lost_witness:
  "adapter_stream_with_usage AnthropicProviderAdapter (streaming_upstream [''data: {1}''] sample_error) ''https://host'' ''key'' sample_completion
   = [Ended]"
proof -
  let ?up = "streaming_upstream [''data: {1}''] sample_error"
  have up: "up_stream ?up rq = \<lparr>sx_open = None, sx_raises = False, sx_lines = [''data: {1}''], sx_end = None\<rparr>" for rq
    by (simp add: streaming_upstream_def sample_response_def)
  have h: "data_line ''data: {1}''" "payload_of ''data: {1}'' \<noteq> ''[DONE]''" "up_loads ?up (payload_of ''data: {1}'') = Some sample_error"
    "reports_error sample_error" by code_simp+
  show ?thesis using stream_errors_are_lost [OF up h] by blast
qed

end
