(* ===== verification/Bots.thy ===== *)
theory Bots
  imports ProviderPolicy Identity
begin

text \<open>
  The bot endpoints (\<^verbatim>\<open>api/v1/bots.py\<close>): the schema of a creation request with its field validator, the
  row that is stored and the listing of the bots a caller may use.  The requests reach them through the
  dependencies of \<^verbatim>\<open>api/v1/auth.py\<close> (theory Identity).  A field of the request that is not given is
  \<^verbatim>\<open>None\<close>; the text of a timestamp is a parameter.
\<close>

section \<open>Rows and requests\<close>

record bot_row = bot +
  br_title :: string
  br_description :: "string option"
  br_created_at :: microseconds

record bot_db =
  bd_rows :: "bot_row list"
  bd_next :: identity

record bot_request =
  bq_title :: string
  bq_provider :: "string option"
  bq_model :: "string option"
  bq_description :: "string option"
  bq_bot_visibility :: "string option"
  bq_knowledge_visibility :: "string option"
  bq_is_public :: "bool option"

record bot_response =
  bs_id :: identity
  bs_organization_id :: identity
  bs_title :: string
  bs_provider :: string
  bs_model :: string
  bs_description :: "string option"
  bs_bot_visibility :: string
  bs_is_public :: bool
  bs_created_at :: string

definition or_default :: "'a option \<Rightarrow> 'a \<Rightarrow> 'a" where
  "or_default given d = (case given of None \<Rightarrow> d | Some v \<Rightarrow> v)"

definition public_must_match_visibility :: "bool \<Rightarrow> string \<Rightarrow> api_error + bool" where
  "public_must_match_visibility is_public vis =
     (if is_public \<and> vis \<noteq> ''public'' then Inl (HTTPException 422 ''is_public=True requires bot_visibility=public'')
      else if \<not> is_public \<and> vis = ''public'' then Inl (HTTPException 422 ''bot_visibility=public requires is_public=True'')
      else Inr is_public)"

text \<open>A field validator does not run on the default of a field that is not given.\<close>

definition validated_public :: "bot_request \<Rightarrow> api_error + bool" where
  "validated_public q = (case bq_is_public q of
     None \<Rightarrow> Inr False
   | Some p \<Rightarrow> public_must_match_visibility p (or_default (bq_bot_visibility q) ''organization''))"

section \<open>Endpoints\<close>

definition bot_caller :: "('t \<Rightarrow> claims option) \<Rightarrow> identity_db \<Rightarrow> string \<Rightarrow> 't \<Rightarrow> api_error + identity" where
  "bot_caller decode idb permission token =
     (case get_current_user decode token of
        Inl e \<Rightarrow> Inl e
      | Inr ctx \<Rightarrow> (case require_permission idb permission ctx of
          Inl e \<Rightarrow> Inl e
        | Inr _ \<Rightarrow> get_current_active_organization idb ctx))"

definition new_bot :: "bot_request \<Rightarrow> bool \<Rightarrow> identity \<Rightarrow> microseconds \<Rightarrow> identity \<Rightarrow> bot_row" where
  "new_bot q public org now i =
     \<lparr>b_id = Some i, b_organization_id = Some org, b_provider = or_default (bq_provider q) ''openai'',
      b_model = or_default (bq_model q) ''gpt-4o'', b_system_prompt = None,
      b_visibility_column = Some (or_default (bq_bot_visibility q) ''organization''),
      b_knowledge_visibility = or_default (bq_knowledge_visibility q) ''organization'',
      b_credential_scope = Some ''organization'', b_tool_scope = Some ''standard'', b_secret_reference = None,
      b_is_public = public, br_title = bq_title q, br_description = bq_description q, br_created_at = now\<rparr>"

definition bot_json :: "(microseconds \<Rightarrow> string) \<Rightarrow> bot_row \<Rightarrow> bot_response" where
  "bot_json show_time b =
     \<lparr>bs_id = (case b_id b of None \<Rightarrow> 0 | Some i \<Rightarrow> i), bs_organization_id = (case b_organization_id b of None \<Rightarrow> 0 | Some i \<Rightarrow> i),
      bs_title = br_title b, bs_provider = b_provider b, bs_model = b_model b, bs_description = br_description b,
      bs_bot_visibility = py_or_empty (b_visibility_column b), bs_is_public = b_is_public b, bs_created_at = show_time (br_created_at b)\<rparr>"

definition create_bot :: "('t \<Rightarrow> claims option) \<Rightarrow> (microseconds \<Rightarrow> string) \<Rightarrow> microseconds \<Rightarrow> identity_db \<Rightarrow> 't \<Rightarrow> bot_request
    \<Rightarrow> bot_db \<Rightarrow> (api_error + bot_response) \<times> bot_db" where
  "create_bot decode show_time now idb token q db =
     (case bot_caller decode idb ''bot:create'' token of
        Inl e \<Rightarrow> (Inl e, db)
      | Inr org \<Rightarrow> (case validated_public q of
          Inl e \<Rightarrow> (Inl e, db)
        | Inr public \<Rightarrow>
            (let b = new_bot q public org now (bd_next db)
             in (Inr (bot_json show_time b), \<lparr>bd_rows = bd_rows db @ [b], bd_next = bd_next db + 1\<rparr>))))"

definition listed :: "identity \<Rightarrow> bot_row \<Rightarrow> bool" where
  "listed org b \<longleftrightarrow> b_organization_id b = Some org \<or> b_is_public b \<or> b_visibility_column b = Some ''public''"

definition list_bots :: "('t \<Rightarrow> claims option) \<Rightarrow> (microseconds \<Rightarrow> string) \<Rightarrow> identity_db \<Rightarrow> 't \<Rightarrow> bot_db \<Rightarrow> api_error + bot_response list" where
  "list_bots decode show_time idb token db =
     (case bot_caller decode idb ''bot:read'' token of
        Inl e \<Rightarrow> Inl e
      | Inr org \<Rightarrow> Inr (map (bot_json show_time) (filter (listed org) (bd_rows db))))"

definition row_bot :: "bot_row \<Rightarrow> bot" where
  "row_bot b = bot.truncate b"

section \<open>Who can reach a bot\<close>

lemma listed_accessible: "listed org b \<longleftrightarrow> bot_accessible (row_bot b) org"
  by (auto simp: listed_def bot_accessible_def row_bot_def bot_visibility_def bot.truncate_def split: option.splits)

text \<open>Identities of the table: distinct, and below the next one.\<close>

definition bots_wf :: "bot_db \<Rightarrow> bool" where
  "bots_wf db \<longleftrightarrow> distinct (map b_id (bd_rows db))
     \<and> (\<forall>b \<in> set (bd_rows db). case b_id b of None \<Rightarrow> False | Some i \<Rightarrow> i < bd_next db)"

lemma listed_is_accessible: "listed org = (\<lambda>b. bot_accessible (row_bot b) org)"
  using listed_accessible by blast

lemma bots_wfD: "bots_wf db \<Longrightarrow> b \<in> set (bd_rows db) \<Longrightarrow> \<exists>i. b_id b = Some i \<and> i < bd_next db"
  unfolding bots_wf_def by (cases "b_id b") auto

lemma create_bot_InrD:
  assumes "create_bot decode show_time now idb token q db = (Inr r, db')"
  obtains org public where "bot_caller decode idb ''bot:create'' token = Inr org" "validated_public q = Inr public"
    "r = bot_json show_time (new_bot q public org now (bd_next db))"
    "db' = \<lparr>bd_rows = bd_rows db @ [new_bot q public org now (bd_next db)], bd_next = bd_next db + 1\<rparr>"
  using assms by (auto simp: create_bot_def Let_def split: sum.splits)

lemma create_bot_wf:
  assumes "bots_wf db"
  shows "bots_wf (snd (create_bot decode show_time now idb token q db))"
proof (cases "create_bot decode show_time now idb token q db")
  case (Pair r db')
  show ?thesis
  proof (cases r)
    case (Inl e)
    then show ?thesis using Pair assms by (auto simp: create_bot_def Let_def split: sum.splits)
  next
    case (Inr x)
    from Pair [unfolded Inr] obtain org public where
      db': "db' = \<lparr>bd_rows = bd_rows db @ [new_bot q public org now (bd_next db)], bd_next = bd_next db + 1\<rparr>"
      by (rule create_bot_InrD)
    have "Some (bd_next db) \<notin> b_id ` set (bd_rows db)"
      using bots_wfD [OF assms] by fastforce
    then show ?thesis using assms unfolding Pair snd_conv db' by (fastforce simp: bots_wf_def new_bot_def split: option.splits)
  qed
qed

definition caller_may :: "('t \<Rightarrow> claims option) \<Rightarrow> identity_db \<Rightarrow> string \<Rightarrow> 't \<Rightarrow> identity \<Rightarrow> bool" where
  "caller_may decode idb permission token org \<longleftrightarrow>
     (\<exists>m c. m \<in> set (members idb) \<and> m_organization_id m = org \<and> capability_of_value permission = Some c
        \<and> c \<in> the (role_capabilities (py_norm (m_role m))))"

lemma bot_caller_may:
  assumes "bot_caller decode idb permission token = Inr org"
  shows "caller_may decode idb permission token org"
proof -
  obtain ctx ctx' where perm: "require_permission idb permission ctx = Inr ctx'"
    and org: "get_current_active_organization idb ctx = Inr org"
    using assms by (auto simp: bot_caller_def split: sum.splits)
  obtain ac where "authorize idb (PInt (uc_user_id ctx)) (PInt (uc_organization_id ctx)) (Named permission) (Some (uc_organization_id ctx)) = Inr ac"
    using perm by (rule require_permission_InrD)
  then obtain m where m: "find_membership idb (uc_user_id ctx) (uc_organization_id ctx) = Some m"
    "cd_allowed (decide_role_capability (m_role m) (Named permission) (uc_organization_id ctx) (uc_organization_id ctx))"
    using authorize_InrD by blast
  moreover have "org = uc_organization_id ctx" using org by (rule active_organization_InrD)
  ultimately show ?thesis using find_membershipD [OF m(1)] by (auto simp: caller_may_def decide_allowed_iff)
qed

lemma list_bots_accessible:
  assumes "list_bots decode show_time idb token db = Inr rs"
  obtains org where "bot_caller decode idb ''bot:read'' token = Inr org"
    and "rs = map (bot_json show_time) (filter (\<lambda>b. bot_accessible (row_bot b) org) (bd_rows db))"
  using assms by (auto simp: list_bots_def listed_is_accessible split: sum.splits)


definition sample_members :: identity_db where
  "sample_members = \<lparr>users = [\<lparr>u_id = 1, u_email = ''ada'', u_name = None, u_username = None, u_password_hash = None, u_role = ''member'',
     u_is_enabled = True, u_token_version = 1\<rparr>], organizations = [\<lparr>o_id = 2, o_name = ''Org'', o_slug = None\<rparr>],
     members = [\<lparr>m_id = 3, m_organization_id = 2, m_user_id = 1, m_role = ''admin''\<rparr>], next_id = 4\<rparr>"

definition sample_claims :: "unit \<Rightarrow> claims option" where
  "sample_claims = (\<lambda>_. Some (map_of [(''sub'', PStr ''ada''), (''user_id'', PInt 1), (''organization_id'', PInt 2),
      (''token_version'', PInt 1), (''jti'', PStr ''j'')]))"

definition sample_new_bot :: bot_request where
  "sample_new_bot = \<lparr>bq_title = ''Helper'', bq_provider = None, bq_model = None, bq_description = None,
     bq_bot_visibility = Some ''public'', bq_knowledge_visibility = None, bq_is_public = None\<rparr>"


end
