(* ===== verification/Addresses.thy ===== *)
theory Addresses
  imports Prelude "HOL-Library.Word"
begin

unbundle bit_operations_syntax

text \<open>
  Internet addresses and networks as Python's \<^verbatim>\<open>ipaddress\<close> has them, as far as
  \<^verbatim>\<open>core/config.py\<close> and \<^verbatim>\<open>core/ratelimit.py\<close> use them: an address is a word of 32 or 128 bits, a
  network a base word and the length of its prefix.  The text forms of version 4 are written out; those of a
  single version 6 address are parameters.
\<close>

section \<open>Words\<close>

definition netmask :: "nat \<Rightarrow> 'a::len word" where
  "netmask p = push_bit (LENGTH('a) - p) (mask p)"

lemma netmask_0 [simp]: "netmask 0 = 0"
  by (simp add: netmask_def)

lemma bit_netmask:
  assumes "p \<le> LENGTH('a)"
  shows "bit (netmask p :: 'a::len word) i \<longleftrightarrow> LENGTH('a) - p \<le> i \<and> i < LENGTH('a)"
  using assms by (auto simp: netmask_def bit_push_bit_iff bit_mask_iff)

datatype ip_address = IPv4 "32 word" | IPv6 "128 word" "string option"

datatype ip_network = Net4 "32 word" nat | Net6 "128 word" nat

fun prefixlen :: "ip_network \<Rightarrow> nat" where
  "prefixlen (Net4 _ p) = p"
| "prefixlen (Net6 _ p) = p"

text \<open>\<^verbatim>\<open>address.version == network.version and address in network\<close>.\<close>

fun in_network :: "ip_address \<Rightarrow> ip_network \<Rightarrow> bool" where
  "in_network (IPv4 a) (Net4 n p) \<longleftrightarrow> a AND netmask p = n"
| "in_network (IPv6 a _) (Net6 n p) \<longleftrightarrow> a AND netmask p = n"
| "in_network _ _ \<longleftrightarrow> False"

section \<open>Text\<close>

record ip_text =
  it_parse6 :: "string \<Rightarrow> (128 word \<times> string option) option"
  it_show6 :: "128 word \<Rightarrow> string option \<Rightarrow> string"

definition ascii_digits :: "string \<Rightarrow> bool" where
  "ascii_digits s \<longleftrightarrow> s \<noteq> [] \<and> list_all (\<lambda>c. 48 \<le> (of_char c :: nat) \<and> (of_char c :: nat) \<le> 57) s"

definition parse_octet :: "string \<Rightarrow> nat option" where
  "parse_octet s =
     (if \<not> ascii_digits s \<or> 3 < length s \<or> (s \<noteq> ''0'' \<and> hd s = CHR ''0'') \<or> 255 < nat_str s then None
      else Some (nat_str s))"

definition octets :: "nat list \<Rightarrow> 32 word" where
  "octets ns = foldl (\<lambda>w n. push_bit 8 w OR of_nat n) 0 ns"

fun all_some :: "'a option list \<Rightarrow> 'a list option" where
  "all_some [] = Some []"
| "all_some (None # _) = None"
| "all_some (Some x # xs) = (case all_some xs of None \<Rightarrow> None | Some ys \<Rightarrow> Some (x # ys))"

lemma all_some_map_Some [simp]: "all_some (map Some xs) = Some xs"
  by (induction xs) simp_all

lemma all_some_iff: "all_some xs = Some ys \<longleftrightarrow> xs = map Some ys"
proof
  show "all_some xs = Some ys \<Longrightarrow> xs = map Some ys"
    by (induction xs arbitrary: ys rule: all_some.induct) (auto split: option.splits)
qed simp

definition parse4 :: "string \<Rightarrow> 32 word option" where
  "parse4 s = (let parts = py_split (CHR ''.'') s in
     if length parts \<noteq> 4 then None
     else (case all_some (map parse_octet parts) of None \<Rightarrow> None | Some ns \<Rightarrow> Some (octets ns)))"

definition show4 :: "32 word \<Rightarrow> string" where
  "show4 w = py_join ''.'' (map (\<lambda>k. str_nat (unat (drop_bit k w AND 255))) [24, 16, 8, 0])"

definition parse_ip_address :: "ip_text \<Rightarrow> string \<Rightarrow> ip_address option" where
  "parse_ip_address tx s = (case parse4 s of
     Some w \<Rightarrow> Some (IPv4 w)
   | None \<Rightarrow> (case it_parse6 tx s of None \<Rightarrow> None | Some (w, scope) \<Rightarrow> Some (IPv6 w scope)))"

definition show_ip_address :: "ip_text \<Rightarrow> ip_address \<Rightarrow> string" where
  "show_ip_address tx a = (case a of IPv4 w \<Rightarrow> show4 w | IPv6 w scope \<Rightarrow> it_show6 tx w scope)"

text \<open>The part after the slash: a length, or for version 4 a netmask or a host mask.\<close>

definition prefix_digits :: "nat \<Rightarrow> string \<Rightarrow> nat option" where
  "prefix_digits limit s = (if ascii_digits s \<and> nat_str s \<le> limit then Some (nat_str s) else None)"

definition parse_mask4 :: "string \<Rightarrow> nat option" where
  "parse_mask4 s = (case prefix_digits 32 s of
     Some p \<Rightarrow> Some p
   | None \<Rightarrow> (case parse4 s of
       None \<Rightarrow> None
     | Some m \<Rightarrow> (case find (\<lambda>p. netmask p = m) [0..<33] of
         Some p \<Rightarrow> Some p | None \<Rightarrow> find (\<lambda>p. netmask p = NOT m) [0..<33])))"

text \<open>\<^verbatim>\<open>ip_network(text, strict=False)\<close>: host bits are cleared.\<close>

definition network4 :: "string list \<Rightarrow> ip_network option" where
  "network4 parts = (case (if length parts = 1 then Some 32 else parse_mask4 (parts ! 1)) of
     None \<Rightarrow> None
   | Some p \<Rightarrow> (case parse4 (hd parts) of None \<Rightarrow> None | Some w \<Rightarrow> Some (Net4 (w AND netmask p) p)))"

definition network6 :: "ip_text \<Rightarrow> string list \<Rightarrow> ip_network option" where
  "network6 tx parts = (case (if length parts = 1 then Some 128 else prefix_digits 128 (parts ! 1)) of
     None \<Rightarrow> None
   | Some p \<Rightarrow> (case it_parse6 tx (hd parts) of None \<Rightarrow> None | Some (w, _) \<Rightarrow> Some (Net6 (w AND netmask p) p)))"

definition parse_ip_network :: "ip_text \<Rightarrow> string \<Rightarrow> ip_network option" where
  "parse_ip_network tx s = (let parts = py_split (CHR ''/'') s in
     if 2 < length parts then None
     else (case network4 parts of Some n \<Rightarrow> Some n | None \<Rightarrow> network6 tx parts))"

section \<open>Round trip\<close>

lemma nat_digits_octet:
  "n < 10 \<Longrightarrow> nat_digits n = [n]"
  "10 \<le> n \<Longrightarrow> n < 100 \<Longrightarrow> nat_digits n = [n div 10, n mod 10]"
  "100 \<le> n \<Longrightarrow> n < 1000 \<Longrightarrow> nat_digits n = [n div 100, n div 10 mod 10, n mod 10]"
proof -
  show "n < 10 \<Longrightarrow> nat_digits n = [n]" by (simp add: nat_digits.simps [of n])
  show "10 \<le> n \<Longrightarrow> n < 100 \<Longrightarrow> nat_digits n = [n div 10, n mod 10]"
    by (simp add: nat_digits.simps [of n] nat_digits.simps [of "n div 10"])
  assume n: "100 \<le> n" "n < 1000"
  then have "\<not> n div 10 < 10" "n div 10 div 10 = n div 100" "n div 100 < 10" by auto
  then show "nat_digits n = [n div 100, n div 10 mod 10, n mod 10]"
    using n by (simp only: nat_digits.simps [of n] nat_digits.simps [of "n div 10"] nat_digits.simps [of "n div 100"]) simp
qed

lemma digit_code: "d < 10 \<Longrightarrow> of_char (char_of (48 + d) :: char) = 48 + d" for d :: nat
  by simp

lemma ascii_digits_str_nat: "ascii_digits (str_nat n)"
proof -
  have "48 \<le> (of_char (char_of (48 + d) :: char) :: nat) \<and> (of_char (char_of (48 + d) :: char) :: nat) \<le> 57"
    if "d \<in> set (nat_digits n)" for d
    using digit_code [OF nat_digits_small [OF that]] nat_digits_small [OF that] by simp
  then show ?thesis by (simp add: ascii_digits_def str_nat_def list_all_iff)
qed

lemma char_zero: "char_of (48 + d) = CHR ''0'' \<longleftrightarrow> d = 0" if "d < 10" for d :: nat
proof
  assume "char_of (48 + d) = CHR ''0''"
  then have "(of_char (char_of (48 + d) :: char) :: nat) = of_char (CHR ''0'')" by simp
  then show "d = 0" using digit_code [OF that] by simp
next
  assume "d = 0"
  have "char_of (of_char (CHR ''0'') :: nat) = CHR ''0''" by (rule char_of_char)
  then show "char_of (48 + d) = CHR ''0''" using \<open>d = 0\<close> by simp
qed

lemma length_octet: "n < 256 \<Longrightarrow> length (str_nat n) \<le> 3"
  by (cases "n < 10"; cases "n < 100") (auto simp: str_nat_def nat_digits_octet)

lemma parse_octet_str:
  assumes "n < 256"
  shows "parse_octet (str_nat n) = Some n"
proof -
  have "length (str_nat n) \<le> 3" using assms by (rule length_octet)
  moreover have "str_nat n = ''0'' \<or> hd (str_nat n) \<noteq> CHR ''0''"
  proof -
    consider "n < 10" | "\<not> n < 10" "n < 100" | "\<not> n < 10" "\<not> n < 100" by blast
    then show ?thesis
    proof cases
    case 1
    then show ?thesis by (cases "n = 0") (simp_all add: str_nat_def nat_digits_octet char_zero)
  next
    case 2 note n = this
    then have "n div 10 < 10" "n div 10 \<noteq> 0" by auto
    then show ?thesis using n char_zero [of "n div 10"] by (simp add: str_nat_def nat_digits_octet)
  next
    case 3 note n = this
    then have "n div 100 < 10" "n div 100 \<noteq> 0" using assms by auto
    then show ?thesis using n assms char_zero [of "n div 100"] by (simp add: str_nat_def nat_digits_octet)
    qed
  qed
  ultimately show ?thesis using assms by (auto simp: parse_octet_def ascii_digits_str_nat)
qed

lemma py_split_plain: "sep \<notin> set w \<Longrightarrow> py_split sep w = [w]"
  by (induction w) auto

lemma py_split_sep: "sep \<notin> set w \<Longrightarrow> py_split sep (w @ sep # s) = w # py_split sep s"
  by (induction w) auto

lemma py_split_join:
  "ws \<noteq> [] \<Longrightarrow> list_all (\<lambda>w. sep \<notin> set w) ws \<Longrightarrow> py_split sep (py_join [sep] ws) = ws"
  by (induction "[sep]" ws rule: py_join.induct) (auto simp: py_split_plain py_split_sep)

lemma str_nat_no_dot: "CHR ''.'' \<notin> set (str_nat n)"
proof
  assume "CHR ''.'' \<in> set (str_nat n)"
  then obtain d where "d \<in> set (nat_digits n)" "CHR ''.'' = char_of (48 + d)" by (auto simp: str_nat_def)
  moreover have "d < 10" using calculation(1) by (rule nat_digits_small)
  ultimately have "(of_char (CHR ''.'') :: nat) = 48 + d" by simp
  then show False by simp
qed

definition byte_of :: "nat \<Rightarrow> 32 word \<Rightarrow> nat" where
  "byte_of k w = unat (drop_bit k w AND 255)"

lemma byte_of_small: "byte_of k w < 256"
proof -
  have "drop_bit k w AND 255 \<le> (255 :: 32 word)" by (rule word_and_le1)
  then have "unat (drop_bit k w AND 255) \<le> unat (255 :: 32 word)" by (simp only: word_le_nat_alt)
  then show ?thesis by (simp add: byte_of_def)
qed

lemma octets_bytes: "octets (map (\<lambda>k. byte_of k w) [24, 16, 8, 0]) = w"
proof -
  have m: "(255 :: 32 word) = mask 8" by (simp add: mask_eq_exp_minus_1)
  show ?thesis
    unfolding octets_def byte_of_def m
  proof (rule bit_word_eqI)
    fix n assume "n < LENGTH(32)"
    then have n: "n < 32" by simp
    consider "n < 8" | "8 \<le> n" "n < 16" | "16 \<le> n" "n < 24" | "24 \<le> n" "n < 32" using n by linarith
    then show "bit (foldl (\<lambda>w n. push_bit 8 w OR of_nat n) (0 :: 32 word)
        (map (\<lambda>k. unat (drop_bit k w AND mask 8)) [24, 16, 8, 0])) n = bit w n"
      by cases (auto simp: bit_simps)
  qed
qed

lemma parse4_show4: "parse4 (show4 w) = Some w"
proof -
  let ?ws = "map (\<lambda>k. str_nat (byte_of k w)) [24, 16, 8, 0]"
  have "py_split (CHR ''.'') (show4 w) = ?ws"
    unfolding show4_def byte_of_def [symmetric]
    by (rule py_split_join) (simp_all add: str_nat_no_dot)
  then show ?thesis by (simp add: parse4_def parse_octet_str byte_of_small octets_bytes [unfolded list.map])
qed

lemma show4_inject: "show4 v = show4 w \<Longrightarrow> v = w"
  using parse4_show4 by (metis option.inject)

lemma show4_chars: "c \<in> set (show4 w) \<Longrightarrow> (46 :: nat) \<le> of_char c \<and> of_char c \<le> (57 :: nat)"
proof -
  have join: "c \<in> set (py_join sep ws) \<Longrightarrow> c \<in> set sep \<or> (\<exists>v \<in> set ws. c \<in> set v)" for sep ws
    by (induction sep ws rule: py_join.induct) auto
  have digit: "c \<in> set (str_nat n) \<Longrightarrow> (46 :: nat) \<le> of_char c \<and> of_char c \<le> (57 :: nat)" for n
    using ascii_digits_str_nat [of n] by (auto simp: ascii_digits_def list_all_iff)
  have dot: "(46 :: nat) \<le> of_char (CHR ''.'') \<and> of_char (CHR ''.'') \<le> (57 :: nat)" by simp
  assume "c \<in> set (show4 w)"
  from join [OF this [unfolded show4_def]] show ?thesis using digit dot by auto
qed

lemma strip_show4: "py_strip (show4 w) = show4 w"
proof -
  have plain: "\<not> py_space c" if "c \<in> set (show4 w)" for c using show4_chars [OF that] by (auto simp: py_space_def Let_def)
  have keep: "dropWhile P xs = xs" if "\<And>c. c \<in> set xs \<Longrightarrow> \<not> P c" for P and xs :: string
    using that by (cases xs) simp_all
  have "dropWhile py_space (show4 w) = show4 w" "dropWhile py_space (rev (show4 w)) = rev (show4 w)"
    by (rule keep, use plain in simp)+
  then show ?thesis by (simp only: py_strip_def py_lstrip_def py_rstrip_def rev_rev_ident)
qed

lemma split_show4: "py_split (CHR '','') (show4 w) = [show4 w]"
proof (rule py_split_plain, rule notI)
  assume "CHR '','' \<in> set (show4 w)"
  from show4_chars [OF this] show False by simp
qed

lemma length_show4: "show4 w \<noteq> [] \<and> length (show4 w) \<le> 15"
proof -
  have "length (py_join ''.'' (map (\<lambda>k. str_nat (byte_of k w)) [24, 16, 8, 0])) \<le> 15"
    using length_octet [OF byte_of_small, of 24 w] length_octet [OF byte_of_small, of 16 w]
      length_octet [OF byte_of_small, of 8 w] length_octet [OF byte_of_small, of 0 w] by simp
  then show ?thesis by (simp add: show4_def byte_of_def)
qed

section \<open>A network that is not everything\<close>

lemma outside_network:
  assumes "0 < p" and "p \<le> LENGTH('a)"
  shows "\<exists>a :: 'a::len word. a AND netmask p \<noteq> n"
proof (cases "n = 0")
  case True
  have "bit (netmask p :: 'a word) (LENGTH('a) - 1)" using assms by (simp add: bit_netmask)
  then have "(netmask p :: 'a word) \<noteq> 0" by auto
  then show ?thesis using True by (intro exI [of _ "-1"]) (simp only: and.left_neutral not_False_eq_True)
next
  case False
  then show ?thesis by (intro exI [of _ 0]) simp
qed

end
