(* ===== verification/Settings.thy ===== *)
theory Settings
  imports Addresses ProviderHttp
begin

text \<open>
  The configuration (\<^verbatim>\<open>core/config.py\<close>): the fields a deployment sets, their bounds and validators, the
  properties derived from them, and the check across fields that runs last.  The values come in with the types
  of their fields; numbers with a fraction are rationals.  \<^verbatim>\<open>urlsplit\<close> is a parameter that is \<^verbatim>\<open>None\<close>
  where it raises; a validator that raises any \<^verbatim>\<open>ValueError\<close> rejects the configuration.
\<close>

section \<open>Fields\<close>

record app_settings =
  st_release_sha :: string
  st_app_env :: string
  st_api_v1_str :: string
  st_secret_key :: string
  st_algorithm :: string
  st_access_token_expire_minutes :: int
  st_redis_url :: string
  st_user_token_budget_limit :: "int option"
  st_organization_token_budget_limit :: "int option"
  st_chat_provider_timeout_seconds :: rat
  st_provider_http :: http_settings
  st_chat_max_attempts :: int
  st_allow_sync_ingest_fallback :: bool
  st_api_keys :: "string option list"
  st_cors_origins :: string
  st_trusted_hosts :: string
  st_trusted_proxy_cidrs :: string
  st_max_request_body_bytes :: int
  st_max_upload_request_body_bytes :: int

record url_parts =
  ur_scheme :: string
  ur_hostname :: "string option"
  ur_username :: "string option"
  ur_password :: "string option"
  ur_path :: string
  ur_query :: string
  ur_fragment :: string

record config_text =
  ct_ip :: ip_text
  ct_urlsplit :: "string \<Rightarrow> url_parts option"

definition WELL_KNOWN_SECRETS :: "string list" where
  "WELL_KNOWN_SECRETS = [''super-secret-production-key-change-me'', ''changeme'', ''change-me'', ''secret'', ''password'', []]"

definition PLACEHOLDER_API_KEYS :: "string list" where
  "PLACEHOLDER_API_KEYS = [''sk-placeholder'', ''replace-me'', ''xxx'', []]"

definition between :: "int \<Rightarrow> int \<Rightarrow> int \<Rightarrow> bool" where
  "between lo hi x \<longleftrightarrow> lo \<le> x \<and> x \<le> hi"

text \<open>\<^verbatim>\<open>^[A-Za-z0-9._-]{1,n}$\<close>.\<close>

definition plain_name :: "nat \<Rightarrow> string \<Rightarrow> bool" where
  "plain_name n s \<longleftrightarrow> 1 \<le> length s \<and> length s \<le> n \<and> list_all (\<lambda>c.
     (let k = (of_char c :: nat) in (65 \<le> k \<and> k \<le> 90) \<or> (97 \<le> k \<and> k \<le> 122) \<or> (48 \<le> k \<and> k \<le> 57) \<or> k = 46 \<or> k = 95 \<or> k = 45)) s"

definition optional_positive :: "int option \<Rightarrow> bool" where
  "optional_positive v = (case v of None \<Rightarrow> True | Some i \<Rightarrow> 0 < i)"

definition http_bounds :: "http_settings \<Rightarrow> bool" where
  "http_bounds hs \<longleftrightarrow> between 1 3 (hs_max_attempts hs) \<and> 0 \<le> hs_backoff_seconds hs \<and> hs_backoff_seconds hs \<le> 2
     \<and> 0 \<le> hs_max_retry_after_seconds hs \<and> hs_max_retry_after_seconds hs \<le> 10"

definition field_bounds :: "app_settings \<Rightarrow> bool" where
  "field_bounds s \<longleftrightarrow> plain_name 64 (st_release_sha s) \<and> between 1 1440 (st_access_token_expire_minutes s)
     \<and> optional_positive (st_user_token_budget_limit s) \<and> optional_positive (st_organization_token_budget_limit s)
     \<and> 0 < st_chat_provider_timeout_seconds s \<and> http_bounds (st_provider_http s) \<and> between 1 10 (st_chat_max_attempts s)
     \<and> between 1024 (20 * 1024 * 1024) (st_max_request_body_bytes s)
     \<and> between 1024 (20 * 1024 * 1024) (st_max_upload_request_body_bytes s)"

definition deployed :: "string \<Rightarrow> bool" where
  "deployed env \<longleftrightarrow> env \<in> {''staging'', ''production''}"

definition environment_known :: "string \<Rightarrow> bool" where
  "environment_known env \<longleftrightarrow> env \<in> {''development'', ''staging'', ''production''}"

definition algorithm_symmetric :: "string \<Rightarrow> bool" where
  "algorithm_symmetric v \<longleftrightarrow> v \<in> {''HS256'', ''HS384'', ''HS512''}"

definition secret_key_accepted :: "string \<Rightarrow> string \<Rightarrow> bool" where
  "secret_key_accepted env v \<longleftrightarrow>
     \<not> deployed env \<or> \<not> (v = [] \<or> v \<in> set WELL_KNOWN_SECRETS \<or> length v < 32)"

text \<open>The value kept, or the rejection.\<close>

definition api_key_checked :: "string \<Rightarrow> string option \<Rightarrow> string option option" where
  "api_key_checked env v = (case v of
     None \<Rightarrow> Some None
   | Some k \<Rightarrow> if py_strip k = [] then Some None
       else if env = ''development'' then Some (Some k)
       else if k \<in> set PLACEHOLDER_API_KEYS then None else Some (Some k))"

section \<open>Derived values\<close>

definition dict_keys :: "'a list \<Rightarrow> 'a list" where
  "dict_keys xs = rev (remdups (rev xs))"

definition list_items :: "string \<Rightarrow> string list" where
  "list_items s = filter (\<lambda>i. i \<noteq> []) (map py_strip (py_split (CHR '','') s))"

definition cors_origins :: "app_settings \<Rightarrow> string list" where
  "cors_origins s = dict_keys (list_items (st_cors_origins s))"

definition trusted_hosts :: "app_settings \<Rightarrow> string list" where
  "trusted_hosts s = dict_keys (map py_lower (list_items (st_trusted_hosts s)))"

definition trusted_proxy_networks :: "ip_text \<Rightarrow> app_settings \<Rightarrow> ip_network list option" where
  "trusted_proxy_networks tx s =
     map_option dict_keys (all_some (map (parse_ip_network tx) (list_items (st_trusted_proxy_cidrs s))))"

definition occurs_in :: "string \<Rightarrow> string \<Rightarrow> bool" where
  "occurs_in sub s \<longleftrightarrow> list_ex (\<lambda>i. take (length sub) (drop i s) = sub) [0..<Suc (length s)]"

definition secure_origin :: "url_parts \<Rightarrow> bool" where
  "secure_origin u \<longleftrightarrow> ur_scheme u = ''https''
     \<and> (case ur_hostname u of
          None \<Rightarrow> False
        | Some h \<Rightarrow> h \<noteq> [] \<and> ur_username u = None \<and> ur_password u = None \<and> ur_path u \<in> {[], ''/''}
            \<and> ur_query u = [] \<and> ur_fragment u = [] \<and> \<not> occurs_in ''localhost'' h \<and> h \<notin> {''127.0.0.1'', ''::1''})"

definition public_host :: "string \<Rightarrow> bool" where
  "public_host host \<longleftrightarrow> host \<noteq> [] \<and> CHR ''*'' \<notin> set host \<and> \<not> occurs_in ''://'' host \<and> CHR ''/'' \<notin> set host
     \<and> \<not> list_ex py_space host \<and> \<not> occurs_in ''localhost'' host \<and> host \<notin> {''127.0.0.1'', ''::1'', ''testserver''}"

section \<open>The check across fields\<close>

definition origin_accepted :: "config_text \<Rightarrow> string \<Rightarrow> bool" where
  "origin_accepted ct origin = (case ct_urlsplit ct origin of None \<Rightarrow> False | Some u \<Rightarrow> secure_origin u)"

definition redis_accepted :: "config_text \<Rightarrow> string \<Rightarrow> bool" where
  "redis_accepted ct url = (case ct_urlsplit ct url of None \<Rightarrow> False | Some u \<Rightarrow> ur_scheme u \<in> {''redis'', ''rediss''})"

definition production_accepted :: "config_text \<Rightarrow> app_settings \<Rightarrow> ip_network list \<Rightarrow> string option" where
  "production_accepted ct s proxies =
     (if st_redis_url s = [] then Some ''production requires Redis-backed rate limiting''
      else if \<not> redis_accepted ct (st_redis_url s) then Some ''production Redis URL must use redis:// or rediss://''
      else if st_allow_sync_ingest_fallback s then Some ''synchronous ingest fallback is forbidden in production''
      else if \<not> list_all (origin_accepted ct) (cors_origins s) then Some ''production CORS origins must be explicit HTTPS origins''
      else if \<not> list_all public_host (trusted_hosts s) then Some ''production trusted hosts must be explicit public hosts''
      else if proxies = [] then Some ''production requires explicit trusted proxy CIDRs''
      else if list_ex (\<lambda>n. prefixlen n = 0) proxies then Some ''production trusted proxy CIDRs cannot trust every address''
      else None)"

definition budget_limits_given :: "app_settings \<Rightarrow> string option" where
  "budget_limits_given s =
     (if st_user_token_budget_limit s = None then Some ''requires an explicit user token budget limit''
      else if st_organization_token_budget_limit s = None then Some ''requires an explicit organization token budget limit''
      else None)"

definition production_ingress :: "config_text \<Rightarrow> app_settings \<Rightarrow> string + app_settings" where
  "production_ingress ct s = (case trusted_proxy_networks (ct_ip ct) s of
     None \<Rightarrow> Inl ''trusted proxy CIDRs must be valid IP networks''
   | Some proxies \<Rightarrow>
       if cors_origins s = [] then Inl ''at least one CORS origin is required''
       else if trusted_hosts s = [] then Inl ''at least one trusted host is required''
       else (case (if st_app_env s = ''production'' then production_accepted ct s proxies else None) of
               Some e \<Rightarrow> Inl e
             | None \<Rightarrow> (case (if deployed (st_app_env s) then budget_limits_given s else None) of
                 Some e \<Rightarrow> Inl e | None \<Rightarrow> Inr s)))"

text \<open>\<^verbatim>\<open>Settings()\<close>: every field is validated, defaults included; the check across fields runs only when
  all fields pass.\<close>

definition load_settings :: "config_text \<Rightarrow> app_settings \<Rightarrow> string + app_settings" where
  "load_settings ct s =
     (if \<not> (field_bounds s \<and> environment_known (st_app_env s) \<and> algorithm_symmetric (st_algorithm s)
            \<and> secret_key_accepted (st_app_env s) (st_secret_key s)) then Inl ''ValidationError''
      else (case all_some (map (api_key_checked (st_app_env s)) (st_api_keys s)) of
              None \<Rightarrow> Inl ''ValidationError''
            | Some keys \<Rightarrow> production_ingress ct (s\<lparr>st_api_keys := keys\<rparr>)))"

section \<open>What an accepted configuration promises\<close>

lemma api_key_stable: "api_key_checked env v = Some w \<Longrightarrow> api_key_checked env w = Some w"
  by (auto simp: api_key_checked_def split: option.splits if_splits)

lemma api_keys_stable:
  assumes "all_some (map (api_key_checked env) vs) = Some ws"
  shows "all_some (map (api_key_checked env) ws) = Some ws"
proof -
  have "map (api_key_checked env) vs = map Some ws" using assms by (simp add: all_some_iff)
  then have "map (api_key_checked env) ws = map Some ws"
    by (induction vs arbitrary: ws) (auto simp: Cons_eq_map_conv intro: api_key_stable)
  then show ?thesis by (simp add: all_some_iff)
qed

lemma production_ingress_same: "production_ingress ct s = Inr s' \<Longrightarrow> s' = s"
  by (auto simp: production_ingress_def split: option.splits if_splits)

lemma mask4_le: "parse_mask4 t = Some p \<Longrightarrow> p \<le> 32"
  by (auto simp: parse_mask4_def prefix_digits_def find_Some_iff split: option.splits if_splits dest!: find_SomeD)

fun leaves_out :: "ip_network \<Rightarrow> bool" where
  "leaves_out (Net4 n p) \<longleftrightarrow> (\<exists>a. \<not> in_network (IPv4 a) (Net4 n p))"
| "leaves_out (Net6 n p) \<longleftrightarrow> (\<exists>a. \<not> in_network (IPv6 a None) (Net6 n p))"

lemma parsed_network_leaves_out:
  assumes "parse_ip_network tx t = Some n" and "prefixlen n \<noteq> 0"
  shows "leaves_out n"
proof (cases n)
  case (Net4 b p)
  then have "p \<le> 32" using assms(1)
    by (auto simp: parse_ip_network_def network4_def network6_def Let_def split: option.splits if_splits dest: mask4_le)
  then show ?thesis using outside_network [where 'a = 32, of p b] assms(2) Net4 by simp
next
  case (Net6 b p)
  then have "p \<le> 128" using assms(1)
    by (auto simp: parse_ip_network_def network4_def network6_def prefix_digits_def Let_def split: option.splits if_splits)
  then show ?thesis using outside_network [where 'a = 128, of p b] assms(2) Net6 by simp
qed

lemma proxy_networks_leave_out:
  assumes "trusted_proxy_networks tx s = Some nets" and "\<not> list_ex (\<lambda>n. prefixlen n = 0) nets"
  shows "list_all leaves_out nets"
proof -
  obtain ns where ns: "map (parse_ip_network tx) (list_items (st_trusted_proxy_cidrs s)) = map Some ns" "nets = dict_keys ns"
    using assms(1) by (auto simp: trusted_proxy_networks_def all_some_iff)
  have "leaves_out n" if "n \<in> set nets" for n
  proof -
    have "Some n \<in> set (map (parse_ip_network tx) (list_items (st_trusted_proxy_cidrs s)))"
      using that unfolding ns by (simp add: dict_keys_def)
    then obtain t where "parse_ip_network tx t = Some n" by auto
    then show ?thesis using assms(2) that by (intro parsed_network_leaves_out) (auto simp: list_ex_iff)
  qed
  then show ?thesis by (simp add: list_all_iff)
qed

lemma load_settings_InrD:
  assumes "load_settings ct raw = Inr s"
  shows "load_settings ct s = Inr s \<and> field_bounds s \<and> secret_key_accepted (st_app_env s) (st_secret_key s)
    \<and> production_ingress ct s = Inr s"
proof -
  obtain keys where keys: "all_some (map (api_key_checked (st_app_env raw)) (st_api_keys raw)) = Some keys"
    and s: "production_ingress ct (raw\<lparr>st_api_keys := keys\<rparr>) = Inr s"
    and fields: "field_bounds raw" "environment_known (st_app_env raw)" "algorithm_symmetric (st_algorithm raw)"
      "secret_key_accepted (st_app_env raw) (st_secret_key raw)"
    using assms by (auto simp: load_settings_def split: if_splits option.splits)
  have eq: "s = raw\<lparr>st_api_keys := keys\<rparr>" using s by (rule production_ingress_same)
  have "field_bounds s" using fields(1) by (simp add: eq field_bounds_def)
  then show ?thesis using fields s api_keys_stable [OF keys] by (simp add: eq load_settings_def)
qed

lemma production_ingress_InrD:
  assumes "production_ingress ct s = Inr s"
  obtains nets where "trusted_proxy_networks (ct_ip ct) s = Some nets"
    and "st_app_env s = ''production'' \<Longrightarrow> production_accepted ct s nets = None"
    and "deployed (st_app_env s) \<Longrightarrow> budget_limits_given s = None"
  using assms by (auto simp: production_ingress_def split: option.splits if_splits)

text \<open>C33: An accepted configuration is good for what relies on it.  Loading it again changes nothing; the retries of
  the provider adapters never reject their settings and post at most three times; a deployment has a secret of
  at least 32 characters that is not well known, and positive token limits; in production there are trusted
  proxies, and each of their networks leaves out some address of its version.\<close>

theorem accepted_settings_sound:
  assumes "load_settings ct raw = Inr s"
  shows "load_settings ct s = Inr s
    \<and> (\<exists>m ds. post_with_retry p (st_provider_http s) post = (outcome_value (post m), ds) \<and> 1 \<le> m \<and> m \<le> 3)
    \<and> (deployed (st_app_env s) \<longrightarrow> 32 \<le> length (st_secret_key s) \<and> st_secret_key s \<notin> set WELL_KNOWN_SECRETS
         \<and> (\<exists>u g. st_user_token_budget_limit s = Some u \<and> 0 < u \<and> st_organization_token_budget_limit s = Some g \<and> 0 < g))
    \<and> (st_app_env s = ''production'' \<longrightarrow>
         (\<exists>nets. trusted_proxy_networks (ct_ip ct) s = Some nets \<and> nets \<noteq> [] \<and> list_all leaves_out nets))"
proof (intro conjI impI)
  note loaded = load_settings_InrD [OF assms]
  then show "load_settings ct s = Inr s" by blast
  obtain nets where nets: "trusted_proxy_networks (ct_ip ct) s = Some nets"
    and production: "st_app_env s = ''production'' \<Longrightarrow> production_accepted ct s nets = None"
    and limits: "deployed (st_app_env s) \<Longrightarrow> budget_limits_given s = None"
    using loaded production_ingress_InrD by blast
  let ?hs = "st_provider_http s"
  have hs: "1 \<le> hs_max_attempts ?hs" "hs_max_attempts ?hs \<le> 3" "0 \<le> hs_backoff_seconds ?hs" "0 \<le> hs_max_retry_after_seconds ?hs"
    using loaded by (simp_all add: field_bounds_def http_bounds_def between_def)
  have "\<exists>m ds. retry_loop p ?hs post [1..<Suc (nat (hs_max_attempts ?hs))] = (outcome_value (post m), ds)
      \<and> retries_until ?hs post 1 m"
    using retry_loop_shape [of 1 ?hs p post] hs by auto
  then show "\<exists>m ds. post_with_retry p ?hs post = (outcome_value (post m), ds) \<and> 1 \<le> m \<and> m \<le> 3"
    using hs by (fastforce simp: post_with_retry_def retries_until_def simp del: upt_Suc)
  show "32 \<le> length (st_secret_key s)" "st_secret_key s \<notin> set WELL_KNOWN_SECRETS" if "deployed (st_app_env s)"
    using loaded that by (simp_all add: secret_key_accepted_def)
  show "\<exists>u g. st_user_token_budget_limit s = Some u \<and> 0 < u \<and> st_organization_token_budget_limit s = Some g \<and> 0 < g"
    if "deployed (st_app_env s)"
    using loaded limits [OF that] by (auto simp: budget_limits_given_def field_bounds_def optional_positive_def split: if_splits)
  show "\<exists>nets. trusted_proxy_networks (ct_ip ct) s = Some nets \<and> nets \<noteq> [] \<and> list_all leaves_out nets"
    if "st_app_env s = ''production''"
    using proxy_networks_leave_out [OF nets] nets production [OF that] by (auto simp: production_accepted_def split: if_splits)
qed

definition sample_ip :: ip_text where
  "sample_ip = \<lparr>it_parse6 = (\<lambda>_. None), it_show6 = (\<lambda>_ _. '':'')\<rparr>"

definition sample_urls :: "string \<Rightarrow> url_parts option" where
  "sample_urls u = (if u = ''redis://cache'' then Some \<lparr>ur_scheme = ''redis'', ur_hostname = Some ''cache'', ur_username = None,
       ur_password = None, ur_path = [], ur_query = [], ur_fragment = []\<rparr>
     else if u = ''https://app.example.org'' then Some \<lparr>ur_scheme = ''https'', ur_hostname = Some ''app.example.org'', ur_username = None,
       ur_password = None, ur_path = [], ur_query = [], ur_fragment = []\<rparr> else None)"

definition sample_config :: config_text where
  "sample_config = \<lparr>ct_ip = sample_ip, ct_urlsplit = sample_urls\<rparr>"

text \<open>A production deployment.\<close>

definition production_with :: "string \<Rightarrow> app_settings" where
  "production_with cidrs = \<lparr>st_release_sha = ''abc123'', st_app_env = ''production'', st_api_v1_str = ''/api/v1'', st_secret_key = replicate 40 (CHR ''k''),
     st_algorithm = ''HS256'', st_access_token_expire_minutes = 60, st_redis_url = ''redis://cache'',
     st_user_token_budget_limit = Some 1000, st_organization_token_budget_limit = Some 10000,
     st_chat_provider_timeout_seconds = 60, st_provider_http = sample_http, st_chat_max_attempts = 3,
     st_allow_sync_ingest_fallback = False, st_api_keys = [Some ''sk-real'', None, Some '' ''],
     st_cors_origins = ''https://app.example.org'', st_trusted_hosts = ''api.example.org'', st_trusted_proxy_cidrs = cidrs,
     st_max_request_body_bytes = 2097152, st_max_upload_request_body_bytes = 11534336\<rparr>"

lemma sample_settings_accepted: "case load_settings sample_config (production_with ''10.0.0.0/8'') of
    Inl _ \<Rightarrow> False | Inr s \<Rightarrow> st_app_env s = ''production''"
  by code_simp

theorem accepted_settings_sound_witness:
  "\<exists>(s :: app_settings) nets. load_settings sample_config (production_with ''10.0.0.0/8'') = Inr s
     \<and> trusted_proxy_networks (ct_ip sample_config) s = Some nets \<and> nets \<noteq> [] \<and> list_all leaves_out nets"
proof -
  obtain s where "load_settings sample_config (production_with ''10.0.0.0/8'') = Inr s" "st_app_env s = ''production''"
    using sample_settings_accepted by (auto split: sum.splits)
  then show ?thesis using accepted_settings_sound [of sample_config "production_with ''10.0.0.0/8''" s] by blast
qed

end
