(* ===== verification/RateLimit.thy ===== *)
theory RateLimit
  imports Settings
begin

text \<open>
  The identity the rate limits count by (\<^verbatim>\<open>core/ratelimit.py\<close>): the address of the peer, or, behind trusted
  proxies, the last address of the \<^verbatim>\<open>X-Forwarded-For\<close> chain that is no trusted proxy.
\<close>

definition MAX_FORWARDED_HEADER_CHARS :: nat where "MAX_FORWARDED_HEADER_CHARS = 1024"
definition MAX_FORWARDED_HOPS :: nat where "MAX_FORWARDED_HOPS = 16"

text \<open>A request as the limiter sees it: the host of the peer, if known, and the header lines in order, with
  lower-case names.  \<^verbatim>\<open>headers.get\<close> is the first line of that name.\<close>

record limited_request =
  lr_client_host :: "string option"
  lr_headers :: "(string \<times> string) list"

definition header_get :: "(string \<times> string) list \<Rightarrow> string \<Rightarrow> string \<Rightarrow> string" where
  "header_get hs name d = (case map_of hs name of None \<Rightarrow> d | Some v \<Rightarrow> v)"

definition address_of :: "ip_text \<Rightarrow> string \<Rightarrow> ip_address option" where
  "address_of tx value = parse_ip_address tx (py_strip value)"

definition trusted :: "ip_network list \<Rightarrow> ip_address option \<Rightarrow> bool" where
  "trusted nets address = (case address of None \<Rightarrow> False | Some a \<Rightarrow> list_ex (in_network a) nets)"

fun last_untrusted :: "ip_network list \<Rightarrow> ip_address list \<Rightarrow> ip_address option" where
  "last_untrusted nets [] = None"
| "last_untrusted nets (a # rest) = (if \<not> trusted nets (Some a) then Some a else last_untrusted nets rest)"

definition forwarded_identity :: "ip_text \<Rightarrow> ip_network list \<Rightarrow> ip_address \<Rightarrow> string \<Rightarrow> ip_address" where
  "forwarded_identity tx nets peer forwarded =
     (if forwarded = [] \<or> MAX_FORWARDED_HEADER_CHARS < length forwarded then peer
      else (let raw_chain = py_split (CHR '','') forwarded in
        if MAX_FORWARDED_HOPS < length raw_chain then peer
        else (case all_some (map (address_of tx) raw_chain) of
                None \<Rightarrow> peer
              | Some chain \<Rightarrow> (case last_untrusted nets (rev chain) of None \<Rightarrow> hd chain | Some a \<Rightarrow> a))))"

definition client_identity :: "ip_text \<Rightarrow> ip_network list \<Rightarrow> limited_request \<Rightarrow> string" where
  "client_identity tx nets rq =
     (let peer_text = (case lr_client_host rq of None \<Rightarrow> ''unknown'' | Some h \<Rightarrow> h) in
      case address_of tx peer_text of
        None \<Rightarrow> peer_text
      | Some peer \<Rightarrow> if \<not> trusted nets (Some peer) then show_ip_address tx peer
          else show_ip_address tx (forwarded_identity tx nets peer (header_get (lr_headers rq) ''x-forwarded-for'' [])))"

section \<open>Forged headers\<close>

lemma py_split_append: "py_split sep (a @ sep # b) = py_split sep a @ py_split sep b"
proof (induction a)
  case (Cons c a)
  have "py_split sep a \<noteq> []" by (cases a) (auto split: list.splits)
  then show ?case using Cons by (auto split: list.splits)
qed simp

lemma all_some_append:
  "all_some (xs @ ys) = (case all_some xs of None \<Rightarrow> None | Some a \<Rightarrow> (case all_some ys of None \<Rightarrow> None | Some b \<Rightarrow> Some (a @ b)))"
  by (induction xs rule: all_some.induct) (auto split: option.splits)

lemma last_untrusted_append:
  "last_untrusted nets (xs @ ys) = (case last_untrusted nets xs of None \<Rightarrow> last_untrusted nets ys | Some a \<Rightarrow> Some a)"
  by (induction xs) auto

lemma all_trusted_none: "list_all (\<lambda>a. trusted nets (Some a)) as \<Longrightarrow> last_untrusted nets as = None"
  by (induction as) auto

text \<open>What a chain of trusted proxies makes of the header of a client: the text the client sent, the address of
  the client, and the address of every proxy but the last, which is the peer.\<close>

definition forwarded_by :: "ip_text \<Rightarrow> ip_network list \<Rightarrow> ip_address \<Rightarrow> string \<Rightarrow> bool" where
  "forwarded_by tx nets client hops \<longleftrightarrow>
     (\<exists>proxies. map (address_of tx) (py_split (CHR '','') hops) = map Some (client # proxies)
        \<and> list_all (\<lambda>a. trusted nets (Some a)) proxies)"

lemma forwarded_identity_forged:
  assumes "forwarded_by tx nets client hops" and "\<not> trusted nets (Some client)"
  shows "forwarded_identity tx nets peer (forged @ CHR '','' # hops) \<in> {client, peer}"
proof (cases "all_some (map (address_of tx) (py_split (CHR '','') (forged @ CHR '','' # hops)))")
  case (Some chain)
  obtain proxies where hops: "map (address_of tx) (py_split (CHR '','') hops) = map Some (client # proxies)"
    and "list_all (\<lambda>a. trusted nets (Some a)) proxies" using assms(1) by (auto simp: forwarded_by_def)
  then have proxies: "list_all (\<lambda>a. trusted nets (Some a)) (rev proxies)" by simp
  obtain prefix where "chain = prefix @ client # proxies"
    using Some by (simp only: py_split_append map_append hops all_some_append all_some_map_Some) (auto split: option.splits)
  then have "last_untrusted nets (rev chain) = Some client"
    using assms(2) all_trusted_none [OF proxies] by (simp add: last_untrusted_append)
  then show ?thesis using Some by (simp add: forwarded_identity_def Let_def)
qed (simp add: forwarded_identity_def Let_def)

text \<open>C34: Nobody chooses the identity they are limited by.  A peer that is no trusted proxy is counted by its own
  address, whatever headers it sends; a client behind trusted proxies is counted by its own address or, if its
  forged part of the header breaks the limits or does not parse, by that of the last proxy.  Without a forged
  part it is always its own.\<close>

theorem client_identity_unspoofable:
  assumes "lr_client_host rq = Some host" and "address_of tx host = Some peer"
  shows "(\<not> trusted nets (Some peer) \<longrightarrow> client_identity tx nets rq = show_ip_address tx peer)
    \<and> (\<forall>client forged hops. trusted nets (Some peer) \<and> forwarded_by tx nets client hops \<and> \<not> trusted nets (Some client)
         \<and> header_get (lr_headers rq) ''x-forwarded-for'' [] = forged @ CHR '','' # hops
         \<longrightarrow> client_identity tx nets rq \<in> {show_ip_address tx client, show_ip_address tx peer})
    \<and> (\<forall>client hops. trusted nets (Some peer) \<and> forwarded_by tx nets client hops \<and> \<not> trusted nets (Some client)
         \<and> header_get (lr_headers rq) ''x-forwarded-for'' [] = hops \<and> hops \<noteq> [] \<and> length hops \<le> 1024
         \<and> length (py_split (CHR '','') hops) \<le> 16
         \<longrightarrow> client_identity tx nets rq = show_ip_address tx client)"
proof (intro conjI allI impI)
  fix client forged hops
  assume h: "trusted nets (Some peer) \<and> forwarded_by tx nets client hops \<and> \<not> trusted nets (Some client)
      \<and> header_get (lr_headers rq) ''x-forwarded-for'' [] = forged @ CHR '','' # hops"
  then have "client_identity tx nets rq = show_ip_address tx (forwarded_identity tx nets peer (forged @ CHR '','' # hops))"
    using assms by (simp add: client_identity_def)
  then show "client_identity tx nets rq \<in> {show_ip_address tx client, show_ip_address tx peer}"
    using forwarded_identity_forged [of tx nets client hops peer forged] h by auto
next
  fix client hops
  assume h: "trusted nets (Some peer) \<and> forwarded_by tx nets client hops \<and> \<not> trusted nets (Some client)
      \<and> header_get (lr_headers rq) ''x-forwarded-for'' [] = hops \<and> hops \<noteq> [] \<and> length hops \<le> 1024
      \<and> length (py_split (CHR '','') hops) \<le> 16"
  then obtain proxies where hops: "map (address_of tx) (py_split (CHR '','') hops) = map Some (client # proxies)"
    and "list_all (\<lambda>a. trusted nets (Some a)) proxies" by (auto simp: forwarded_by_def)
  then have proxies: "list_all (\<lambda>a. trusted nets (Some a)) (rev proxies)" by simp
  have "last_untrusted nets (rev (client # proxies)) = Some client"
    using h all_trusted_none [OF proxies] by (simp add: last_untrusted_append)
  then have "forwarded_identity tx nets peer hops = client"
    using h by (simp only: forwarded_identity_def Let_def hops all_some_map_Some MAX_FORWARDED_HEADER_CHARS_def
        MAX_FORWARDED_HOPS_def) simp
  then show "client_identity tx nets rq = show_ip_address tx client" using h assms by (simp add: client_identity_def)
qed (use assms in \<open>simp add: client_identity_def\<close>)

theorem client_identity_unspoofable_witness:
  "client_identity sample_ip [Net4 0x0A000000 8]
     \<lparr>lr_client_host = Some ''10.0.0.2'', lr_headers = [(''x-forwarded-for'', ''1.2.3.4, 203.0.113.9, 10.0.0.1'')]\<rparr>
   \<in> {''203.0.113.9'', ''10.0.0.2''}"
proof -
  let ?nets = "[Net4 0x0A000000 8]" and ?hops = "'' 203.0.113.9, 10.0.0.1''" and ?client = "IPv4 0xCB007109"
  let ?rq = "\<lparr>lr_client_host = Some ''10.0.0.2'', lr_headers = [(''x-forwarded-for'', ''1.2.3.4, 203.0.113.9, 10.0.0.1'')]\<rparr>"
  have peer: "address_of sample_ip ''10.0.0.2'' = Some (IPv4 0x0A000002)" by code_simp
  have hops: "map (address_of sample_ip) (py_split (CHR '','') ?hops) = map Some [?client, IPv4 0x0A000001]" by code_simp
  have proxies: "list_all (\<lambda>a. trusted ?nets (Some a)) [IPv4 0x0A000001]" by code_simp
  have t: "trusted ?nets (Some (IPv4 0x0A000002))" "\<not> trusted ?nets (Some ?client)" by code_simp+
  have fw: "forwarded_by sample_ip ?nets ?client ?hops" using hops proxies unfolding forwarded_by_def by blast
  have hd: "header_get (lr_headers ?rq) ''x-forwarded-for'' [] = ''1.2.3.4'' @ CHR '','' # ?hops" by (simp add: header_get_def)
  have c: "lr_client_host ?rq = Some ''10.0.0.2''" by simp
  have "client_identity sample_ip ?nets ?rq \<in> {show_ip_address sample_ip ?client, show_ip_address sample_ip (IPv4 0x0A000002)}"
    by (rule client_identity_unspoofable [OF c peer, of ?nets, THEN conjunct2, THEN conjunct1, rule_format, of ?client ?hops "''1.2.3.4''"])
      (use t fw hd in blast)
  moreover have "show_ip_address sample_ip ?client = ''203.0.113.9''" "show_ip_address sample_ip (IPv4 0x0A000002) = ''10.0.0.2''" by code_simp+
  ultimately show ?thesis by simp
qed

section \<open>Networks that cover every address\<close>

lemma top_bit: "bit (push_bit 31 1 :: 32 word) n \<longleftrightarrow> n = 31"
  by (simp only: bit_push_bit_iff) (auto simp: bit_1_iff)

lemma half_networks: "a AND netmask 1 = 0 \<or> a AND netmask 1 = (push_bit 31 1 :: 32 word)"
proof (cases "bit a 31")
  case True
  have "bit (a AND netmask 1) n = bit (push_bit 31 1 :: 32 word) n" if "n < LENGTH(32)" for n
    unfolding top_bit bit_and_iff using True that by (auto simp: bit_netmask)
  then have "a AND netmask 1 = push_bit 31 1" by (intro bit_word_eqI)
  then show ?thesis ..
next
  case False
  have "bit (a AND netmask 1) n = bit (0 :: 32 word) n" if "n < LENGTH(32)" for n
    using False that by (cases "n = 31") (auto simp: bit_and_iff bit_netmask)
  then have "a AND netmask 1 = 0" by (intro bit_word_eqI)
  then show ?thesis ..
qed

lemma halves_trusted: "trusted_proxy_networks sample_ip (production_with ''0.0.0.0/1, 128.0.0.0/1'')
    = Some [Net4 0 1, Net4 (push_bit 31 1) 1]"
  by code_simp

lemma halves_accepted: "case load_settings sample_config (production_with ''0.0.0.0/1, 128.0.0.0/1'') of
    Inl _ \<Rightarrow> False
  | Inr s \<Rightarrow> st_app_env s = ''production'' \<and> trusted_proxy_networks sample_ip s = Some [Net4 0 1, Net4 (push_bit 31 1) 1]"
  by code_simp

lemma address_of_show4: "address_of tx (show4 w) = Some (IPv4 w)"
  by (simp add: address_of_def strip_show4 parse_ip_address_def parse4_show4)

lemma halves_trust: "trusted [Net4 0 1, Net4 (push_bit 31 1) 1] (Some (IPv4 a))"
  using half_networks [of a] by (auto simp: trusted_def)

text \<open>Two half networks defeat the check that a production configuration does not trust every address: they are
  accepted, and then every client that is not behind a proxy is counted by the address it writes into its
  header.\<close>

theorem half_networks_trust_everyone:
  "\<exists>(s :: app_settings) nets. load_settings sample_config (production_with ''0.0.0.0/1, 128.0.0.0/1'') = Inr s
     \<and> st_app_env s = ''production'' \<and> trusted_proxy_networks (ct_ip sample_config) s = Some nets
     \<and> (\<forall>peer forged. client_identity sample_ip nets
            \<lparr>lr_client_host = Some (show4 peer), lr_headers = [(''x-forwarded-for'', show4 forged)]\<rparr> = show4 forged)"
proof -
  let ?nets = "[Net4 0 1, Net4 (push_bit 31 1) 1]"
  have every: "trusted ?nets (Some (IPv4 a))" for a by (rule halves_trust)
  have "client_identity sample_ip ?nets \<lparr>lr_client_host = Some (show4 peer), lr_headers = [(''x-forwarded-for'', show4 forged)]\<rparr>
      = show4 forged" for peer forged
    using length_show4 [of forged] every [of peer] every [of forged]
    by (simp add: client_identity_def address_of_show4 forwarded_identity_def header_get_def split_show4
        MAX_FORWARDED_HEADER_CHARS_def MAX_FORWARDED_HOPS_def show_ip_address_def del: push_bit_numeral)
  then show ?thesis using halves_accepted by (auto simp: sample_config_def split: sum.splits)
qed

end
