(* ===== verification/Middleware.thy ===== *)
theory Middleware
  imports RateLimit
begin

text \<open>
  The middleware (\<^verbatim>\<open>core/middleware.py\<close>) as \<^verbatim>\<open>main.py\<close> stacks it: request identities, security
  headers, and the body that is bounded and kept for the idempotency digest; and the exception handlers and
  the readiness probe of \<^verbatim>\<open>main.py\<close>.  Bytes are 8-bit characters, header names are lower-case.  The
  CORS and trusted-host middleware of the framework, its default handlers and the routes are parameters.
\<close>

section \<open>Requests and responses\<close>

record web_request =
  wr_method :: string
  wr_path :: string
  wr_headers :: "(string \<times> string) list"
  wr_body :: "string list"
  wr_request_id :: "string option"
  wr_cached_body :: "string option"

record web_response =
  ws_status :: int
  ws_headers :: "(string \<times> string) list"
  ws_content :: json

text \<open>A handler answers or raises.\<close>

type_synonym 'x handler = "web_request \<Rightarrow> 'x + web_response"

text \<open>\<^verbatim>\<open>headers[name] = value\<close>: the first line of that name is replaced, the others go.\<close>

fun set_header :: "string \<Rightarrow> string \<Rightarrow> (string \<times> string) list \<Rightarrow> (string \<times> string) list" where
  "set_header k v [] = [(k, v)]"
| "set_header k v ((k', v') # hs) =
     (if k' = k then (k, v) # filter (\<lambda>(x, _). x \<noteq> k) hs else (k', v') # set_header k v hs)"

definition problem_content :: "string \<Rightarrow> int \<Rightarrow> string \<Rightarrow> string \<Rightarrow> (string \<times> json) list" where
  "problem_content title status detail path =
     [(''type'', JStr ''about:blank''), (''title'', JStr title), (''status'', JInt status), (''detail'', JStr detail)]
     @ [(''instance'', JStr path)]"

definition json_response :: "int \<Rightarrow> (string \<times> json) list \<Rightarrow> web_response" where
  "json_response status content = \<lparr>ws_status = status, ws_headers = [(''content-type'', ''application/json'')], ws_content = JObj content\<rparr>"

section \<open>Body limits\<close>

text \<open>\<^verbatim>\<open>int(text)\<close> of a header, with single underscores between digits and at most 4300 digits.\<close>

fun int_digits :: "string \<Rightarrow> string option" where
  "int_digits [] = None"
| "int_digits [c] = (if ascii_digits [c] then Some [c] else None)"
| "int_digits (c # d # cs) =
     (if \<not> ascii_digits [c] then None
      else map_option (Cons c) (if d = CHR ''_'' then int_digits cs else int_digits (d # cs)))"

definition unsigned_int :: "string \<Rightarrow> int option" where
  "unsigned_int s = (case int_digits s of None \<Rightarrow> None
     | Some ds \<Rightarrow> if 4300 < length ds then None else Some (int (nat_str ds)))"

definition py_int :: "string \<Rightarrow> int option" where
  "py_int text = (case py_strip text of
     [] \<Rightarrow> None
   | c # cs \<Rightarrow> if c = CHR ''-'' then map_option uminus (unsigned_int cs)
       else if c = CHR ''+'' then unsigned_int cs else unsigned_int (c # cs))"

definition is_document_upload :: "app_settings \<Rightarrow> web_request \<Rightarrow> bool" where
  "is_document_upload st rq \<longleftrightarrow> wr_method rq = ''POST'' \<and> wr_path rq = st_api_v1_str st @ ''/documents/upload''"

definition body_limit :: "app_settings \<Rightarrow> web_request \<Rightarrow> int" where
  "body_limit st rq = (if is_document_upload st rq then st_max_upload_request_body_bytes st else st_max_request_body_bytes st)"

definition body_problem :: "web_request \<Rightarrow> int \<Rightarrow> string \<Rightarrow> web_response" where
  "body_problem rq status detail = json_response status
     (problem_content (if status = 400 then ''Bad Request'' else ''Payload Too Large'') status detail (wr_path rq))"

definition declared_problem :: "app_settings \<Rightarrow> web_request \<Rightarrow> web_response option" where
  "declared_problem st rq = (case map_of (wr_headers rq) ''content-length'' of
     None \<Rightarrow> None
   | Some declared \<Rightarrow> (case py_int declared of
       None \<Rightarrow> Some (body_problem rq 400 ''Invalid Content-Length'')
     | Some n \<Rightarrow> if n < 0 then Some (body_problem rq 400 ''Invalid Content-Length'')
         else if body_limit st rq < n then Some (body_problem rq 413 ''Request body too large'') else None))"

text \<open>Reading the stream into a buffer, chunk by chunk; \<^verbatim>\<open>None\<close> when it exceeds the limit.\<close>

fun read_body :: "int \<Rightarrow> string \<Rightarrow> string list \<Rightarrow> string option" where
  "read_body limit buffer [] = Some buffer"
| "read_body limit buffer (c # cs) =
     (if limit < int (length (buffer @ c)) then None else read_body limit (buffer @ c) cs)"

text \<open>What the routes read again: the messages of the spooled upload, and the one message of a kept body.\<close>

definition SPOOL_CHUNK :: nat where "SPOOL_CHUNK = 1024 * 1024"

function upload_messages :: "string \<Rightarrow> (string \<times> bool) list" where
  "upload_messages spool = (let chunk = take SPOOL_CHUNK spool in
     (chunk, chunk \<noteq> []) # (if chunk = [] then [] else upload_messages (drop SPOOL_CHUNK spool)))"
  by auto
termination by (relation "measure length") (auto simp: Let_def SPOOL_CHUNK_def)

declare upload_messages.simps [simp del]

definition body_middleware :: "app_settings \<Rightarrow> 'x handler \<Rightarrow> 'x handler" where
  "body_middleware st call_next rq = (case declared_problem st rq of
     Some r \<Rightarrow> Inr r
   | None \<Rightarrow> (case read_body (body_limit st rq) [] (wr_body rq) of
       None \<Rightarrow> Inr (body_problem rq 413 ''Request body too large'')
     | Some body \<Rightarrow>
         if is_document_upload st rq
         then call_next (rq\<lparr>wr_cached_body := None, wr_body := map fst (upload_messages body)\<rparr>)
         else call_next (rq\<lparr>wr_cached_body := Some body, wr_body := [body]\<rparr>)))"

section \<open>Identities and headers\<close>

definition request_id_of :: "string \<Rightarrow> web_request \<Rightarrow> string" where
  "request_id_of uuid rq = (let supplied = header_get (wr_headers rq) ''x-request-id'' [] in
     if plain_name 128 supplied then supplied else uuid)"

definition tracing_middleware :: "string \<Rightarrow> 'x handler \<Rightarrow> 'x handler" where
  "tracing_middleware uuid call_next rq =
     (let request_id = request_id_of uuid rq in
      case call_next (rq\<lparr>wr_request_id := Some request_id\<rparr>) of
        Inl e \<Rightarrow> Inl e
      | Inr r \<Rightarrow> Inr (r\<lparr>ws_headers := set_header ''x-request-id'' request_id (ws_headers r)\<rparr>))"

definition security_headers :: "(string \<times> string) list" where
  "security_headers =
     [(''x-content-type-options'', ''nosniff''), (''x-frame-options'', ''DENY''), (''x-xss-protection'', ''1; mode=block''),
      (''strict-transport-security'', ''max-age=31536000; includeSubDomains''),
      (''referrer-policy'', ''strict-origin-when-cross-origin''),
      (''content-security-policy'', ''default-src '' @ [CHR 0x27] @ ''none'' @ [CHR 0x27] @ ''; frame-ancestors ''
         @ [CHR 0x27] @ ''none'' @ [CHR 0x27])]"

definition secured :: "web_response \<Rightarrow> web_response" where
  "secured r = r\<lparr>ws_headers := fold (\<lambda>(k, v). set_header k v) security_headers (ws_headers r)\<rparr>"

definition security_middleware :: "'x handler \<Rightarrow> 'x handler" where
  "security_middleware call_next rq = map_sum id secured (call_next rq)"

definition tenant_middleware :: "'x handler \<Rightarrow> 'x handler" where
  "tenant_middleware call_next rq = call_next rq"

text \<open>The middleware added last is the outermost.\<close>

definition app_stack :: "app_settings \<Rightarrow> string \<Rightarrow> ('x handler \<Rightarrow> 'x handler) \<Rightarrow> ('x handler \<Rightarrow> 'x handler) \<Rightarrow> 'x handler \<Rightarrow> 'x handler" where
  "app_stack st uuid cors trusted_host routes =
     tracing_middleware uuid (security_middleware (cors (trusted_host (body_middleware st (tenant_middleware routes)))))"

section \<open>Errors and readiness\<close>

text \<open>The handlers of \<^verbatim>\<open>main.py\<close>; what has none is left to the framework.\<close>

datatype app_exception =
    EiraOSException string string int
  | RateLimitExceeded
  | RequestValidationError json
  | Unhandled string

definition handled :: "(app_exception \<Rightarrow> app_exception + web_response) \<Rightarrow> string \<Rightarrow> app_exception \<Rightarrow> app_exception + web_response" where
  "handled framework path e = (case e of
     EiraOSException title detail status \<Rightarrow> Inr (json_response status (problem_content title status detail path))
   | RateLimitExceeded \<Rightarrow> Inr (json_response 429 (problem_content ''Rate Limit Exceeded'' 429 ''Too many requests. Please slow down.'' path))
   | RequestValidationError errors \<Rightarrow> Inr (json_response 422
       [(''type'', JStr ''about:blank''), (''title'', JStr ''Validation Error''), (''status'', JInt 422),
        (''detail'', JStr ''Request validation failed''), (''errors'', errors), (''instance'', JStr path)])
   | Unhandled _ \<Rightarrow> framework e)"

definition with_handlers :: "(app_exception \<Rightarrow> app_exception + web_response) \<Rightarrow> app_exception handler \<Rightarrow> app_exception handler" where
  "with_handlers framework routes rq = (case routes rq of Inl e \<Rightarrow> handled framework (wr_path rq) e | Inr r \<Rightarrow> Inr r)"

record health_status =
  hs_status :: string
  hs_database :: string
  hs_redis :: string

definition probe_database :: "bool \<Rightarrow> health_status" where
  "probe_database answers = (if answers
     then \<lparr>hs_status = ''healthy'', hs_database = ''connected'', hs_redis = ''disconnected''\<rparr>
     else \<lparr>hs_status = ''degraded'', hs_database = ''unavailable'', hs_redis = ''disconnected''\<rparr>)"

definition probe_redis :: "string \<Rightarrow> bool \<Rightarrow> health_status \<Rightarrow> health_status" where
  "probe_redis url answers hs =
     (if url = [] then hs\<lparr>hs_redis := ''disabled''\<rparr>
      else if answers then hs\<lparr>hs_redis := ''connected''\<rparr>
      else hs\<lparr>hs_status := ''degraded'', hs_redis := ''unavailable''\<rparr>)"

definition health_ready :: "app_settings \<Rightarrow> bool \<Rightarrow> bool \<Rightarrow> web_response" where
  "health_ready st database_answers redis_answers =
     (let hs = probe_redis (st_redis_url st) redis_answers (probe_database database_answers)
      in json_response (if hs_status hs = ''healthy'' then 200 else 503)
           [(''status'', JStr (hs_status hs)), (''database'', JStr (hs_database hs)), (''redis'', JStr (hs_redis hs))])"

lemma ready_iff: "ws_status (health_ready st d r) = 200 \<longleftrightarrow> d \<and> (st_redis_url st = [] \<or> r)"
  by (simp add: health_ready_def probe_redis_def probe_database_def json_response_def)

section \<open>Bounded bodies\<close>

lemma read_body_iff:
  "read_body limit buffer cs = (if cs = [] \<or> int (length (buffer @ concat cs)) \<le> limit then Some (buffer @ concat cs) else None)"
proof (induction cs arbitrary: buffer)
  case (Cons c cs)
  show ?case
  proof (cases "limit < int (length (buffer @ c))")
    case False
    then have "read_body limit buffer (c # cs) = read_body limit (buffer @ c) cs" by simp
    then show ?thesis using Cons.IH [of "buffer @ c"] False by simp
  qed simp
qed simp

lemma upload_messages_whole: "concat (map fst (upload_messages s)) = s \<and> map snd (upload_messages s)
    = replicate (length (upload_messages s) - 1) True @ [False]"
proof (induction s rule: upload_messages.induct)
  case (1 s)
  show ?case
  proof (cases "take SPOOL_CHUNK s = []")
    case True
    then have "s = []" by (simp add: SPOOL_CHUNK_def)
    then show ?thesis by (simp add: upload_messages.simps [of "[]"])
  next
    case False
    then have m: "upload_messages s = (take SPOOL_CHUNK s, True) # upload_messages (drop SPOOL_CHUNK s)"
      by (simp add: upload_messages.simps [of s] Let_def)
    have ne: "upload_messages (drop SPOOL_CHUNK s) \<noteq> []" by (simp add: upload_messages.simps Let_def)
    have "length (upload_messages (drop SPOOL_CHUNK s)) = Suc (length (upload_messages (drop SPOOL_CHUNK s)) - 1)"
      using ne by simp
    then have "replicate (length (upload_messages (drop SPOOL_CHUNK s))) True
        = True # replicate (length (upload_messages (drop SPOOL_CHUNK s)) - 1) True"
      by (metis replicate_Suc)
    then show ?thesis using 1 [OF refl False] by (simp add: m)
  qed
qed

definition acceptable_body :: "app_settings \<Rightarrow> web_request \<Rightarrow> bool" where
  "acceptable_body st rq \<longleftrightarrow> declared_problem st rq = None \<and> int (length (concat (wr_body rq))) \<le> body_limit st rq"

text \<open>C35: Bodies reach the routes whole and bounded, or not at all.  Under an accepted configuration a request whose
  declared length is acceptable and whose body is within the limit reaches the routes with exactly the bytes
  that were sent, at most twenty megabytes; for everything but uploads these are also the bytes of the
  idempotency digest.  Any other request is answered with 400 or 413 and the routes never see it, whatever its
  declared length.\<close>

theorem bodies_are_bounded_and_whole:
  assumes "load_settings ct raw = Inr st"
  shows "if acceptable_body st rq
    then \<exists>rq'. (\<forall>call_next :: 'x handler. body_middleware st call_next rq = call_next rq') \<and> concat (wr_body rq') = concat (wr_body rq)
      \<and> length (concat (wr_body rq')) \<le> 20971520
      \<and> wr_cached_body rq' = (if is_document_upload st rq then None else Some (concat (wr_body rq)))
      \<and> wr_headers rq' = wr_headers rq \<and> wr_path rq' = wr_path rq \<and> wr_method rq' = wr_method rq \<and> wr_request_id rq' = wr_request_id rq
    else \<exists>r. (\<forall>call_next :: 'x handler. body_middleware st call_next rq = Inr r) \<and> ws_status r \<in> {400, 413}"
proof -
  have limits: "0 \<le> body_limit st rq \<and> body_limit st rq \<le> 20971520"
    using load_settings_InrD [OF assms] by (simp add: body_limit_def field_bounds_def between_def)
  show ?thesis
  proof (cases "acceptable_body st rq")
  case True
  have size: "length (concat (wr_body rq)) \<le> 20971520" using True limits by (simp add: acceptable_body_def)
  let ?body = "concat (wr_body rq)"
  let ?rq = "if is_document_upload st rq then rq\<lparr>wr_cached_body := None, wr_body := map fst (upload_messages ?body)\<rparr>
    else rq\<lparr>wr_cached_body := Some ?body, wr_body := [?body]\<rparr>"
  have "body_middleware st call_next rq = call_next ?rq" for call_next :: "'x handler"
    using True by (simp add: body_middleware_def acceptable_body_def read_body_iff)
  then show ?thesis using True size by (intro if_P [THEN iffD2] exI [of _ ?rq]) (simp_all add: upload_messages_whole)
next
  case False
  have declared: "declared_problem st rq = Some r \<Longrightarrow> ws_status r \<in> {400, 413}" for r
    by (auto simp: declared_problem_def body_problem_def json_response_def split: option.splits if_splits)
  show ?thesis
  proof (cases "declared_problem st rq")
    case (Some r)
    then show ?thesis using False declared by (auto simp: body_middleware_def)
  next
    case None
    then have "read_body (body_limit st rq) [] (wr_body rq) = None"
      using False limits by (auto simp: acceptable_body_def read_body_iff)
    then show ?thesis using False None by (auto simp: body_middleware_def body_problem_def json_response_def)
  qed
qed
qed

definition sample_request :: web_request where
  "sample_request = \<lparr>wr_method = ''POST'', wr_path = ''/api/v1/chat'', wr_headers = [(''content-length'', ''4'')],
     wr_body = [''he'', ''y!''], wr_request_id = None, wr_cached_body = None\<rparr>"

lemma sample_acceptable: "case load_settings sample_config (production_with ''10.0.0.0/8'') of
    Inl _ \<Rightarrow> False | Inr s \<Rightarrow> acceptable_body s sample_request \<and> \<not> is_document_upload s sample_request"
  by code_simp

theorem bodies_are_bounded_and_whole_witness:
  "\<exists>(st :: app_settings) (rq' :: web_request). load_settings sample_config (production_with ''10.0.0.0/8'') = Inr st
     \<and> body_middleware st (\<lambda>rq. Inl (wr_cached_body rq)) sample_request = Inl (wr_cached_body rq') \<and> wr_cached_body rq' = Some ''hey!''"
proof -
  obtain st where st: "load_settings sample_config (production_with ''10.0.0.0/8'') = Inr st"
    and ok: "acceptable_body st sample_request" "\<not> is_document_upload st sample_request"
    using sample_acceptable by (auto split: sum.splits)
  have body: "concat (wr_body sample_request) = ''hey!''" by (simp add: sample_request_def)
  obtain rq' where rq': "\<forall>call_next :: string option handler. body_middleware st call_next sample_request = call_next rq'"
    "wr_cached_body rq' = Some ''hey!''"
    using bodies_are_bounded_and_whole [OF st, of sample_request, where 'x = "string option"] ok body by auto
  show ?thesis using st rq'(1) [rule_format, of "\<lambda>rq. Inl (wr_cached_body rq)"] rq'(2) by blast
qed

section \<open>Marked responses\<close>

lemma set_header_same: "map_of (set_header k v hs) k = Some v"
  by (induction hs) auto

lemma set_header_other: "k' \<noteq> k \<Longrightarrow> map_of (set_header k v hs) k' = map_of hs k'"
proof (induction hs)
  case (Cons h hs)
  have "map_of (filter (\<lambda>(x, _). x \<noteq> k) hs) k' = map_of hs k'" if "k' \<noteq> k" using that by (induction hs) auto
  then show ?case using Cons by (cases h) auto
qed simp

lemma set_header_count: "length (filter (\<lambda>(x, _). x = k) (set_header k v hs)) = 1"
  by (induction hs) (auto simp: filter_empty_conv)

lemma secured_headers: "map_of security_headers k = Some v \<Longrightarrow> map_of (ws_headers (secured r)) k = Some v"
  unfolding secured_def security_headers_def by (auto simp: set_header_same set_header_other split: if_splits)

lemma secured_security: "list_all (\<lambda>(k, v). map_of (ws_headers (secured r)) k = Some v) security_headers"
proof -
  have "map_of security_headers k = Some v" if "(k, v) \<in> set security_headers" for k v
    using that by (auto simp: security_headers_def)
  then show ?thesis by (auto simp: list_all_iff intro: secured_headers)
qed

lemma no_request_id_header: "list_all (\<lambda>(k, _). k \<noteq> ''x-request-id'') security_headers"
  by (simp add: security_headers_def)

text \<open>Every answer is marked.  Whatever the routes and the framework's middleware answer, problems of the body
  limits included, the response names exactly one request identity, which is the one the client supplied only
  if that is a plain name of at most 128 characters, and carries each of the security headers with its value.\<close>

theorem responses_are_marked:
  assumes "app_stack st uuid cors trusted_host routes rq = Inr r"
  shows "map_of (ws_headers r) ''x-request-id'' = Some (request_id_of uuid rq)
    \<and> length (filter (\<lambda>(k, _). k = ''x-request-id'') (ws_headers r)) = 1
    \<and> (request_id_of uuid rq = uuid \<or> plain_name 128 (request_id_of uuid rq))
    \<and> list_all (\<lambda>(k, v). map_of (ws_headers r) k = Some v) security_headers"
proof -
  obtain r' where r: "r = (secured r')\<lparr>ws_headers := set_header ''x-request-id'' (request_id_of uuid rq) (ws_headers (secured r'))\<rparr>"
    using assms by (auto simp: app_stack_def tracing_middleware_def security_middleware_def Let_def map_sum_def split: sum.splits)
  have "map_of (ws_headers r) k = Some v" if "(k, v) \<in> set security_headers" for k v
  proof -
    have "k \<noteq> ''x-request-id''" "map_of (ws_headers (secured r')) k = Some v"
      using that secured_security [of r'] no_request_id_header unfolding list_all_iff by auto
    then show ?thesis by (simp add: r set_header_other)
  qed
  then have "list_all (\<lambda>(k, v). map_of (ws_headers r) k = Some v) security_headers" by (auto simp: list_all_iff)
  then show ?thesis by (simp add: r set_header_same set_header_count request_id_of_def Let_def)
qed

theorem responses_are_marked_witness:
  "\<exists>r. app_stack (production_with ''10.0.0.0/8'') ''u1'' id id (\<lambda>_. Inr (json_response 200 [])) sample_request = (Inr r :: unit + web_response)
        \<and> map_of (ws_headers r) ''x-request-id'' = Some (request_id_of ''u1'' sample_request)
        \<and> map_of (ws_headers r) ''x-frame-options'' = Some ''DENY''"
proof -
  have "case app_stack (production_with ''10.0.0.0/8'') ''u1'' id id (\<lambda>_. Inr (json_response 200 [])) sample_request of
      Inl (_ :: unit) \<Rightarrow> False | Inr _ \<Rightarrow> True" by code_simp
  then obtain r where r: "app_stack (production_with ''10.0.0.0/8'') ''u1'' id id (\<lambda>_. Inr (json_response 200 [])) sample_request
      = (Inr r :: unit + web_response)" by (auto split: sum.splits)
  note marked = responses_are_marked [OF r]
  then have "map_of (ws_headers r) ''x-frame-options'' = Some ''DENY''" by (simp add: security_headers_def)
  then show ?thesis using marked r by blast
qed

end
