(* ===== verification/Redaction.thy ===== *)
theory Redaction
  imports Settings
begin

text \<open>
  The redaction of log events (\<^verbatim>\<open>core/logging.py\<close>).  A logged value is a string, any other scalar, a list
  or tuple, or a dictionary whose keys may be no strings; rendering and time stamps are the logging library's.
\<close>

section \<open>The processor\<close>

datatype log_key = NameKey string | OtherKey

datatype log_value =
    LogStr string
  | LogScalar string
  | LogList "log_value list"
  | LogDict "(log_key \<times> log_value) list"

definition SENSITIVE_KEYS :: "string list" where
  "SENSITIVE_KEYS = [''authorization'', ''auth'', ''apikey'', ''api'', ''password'', ''pwd'', ''secret'', ''token'', ''jwt'',
     ''email'', ''cookie'', ''session'', ''creditcard'', ''ccnumber'', ''iban'', ''phonenumber'']"

definition REDACTED_VALUE :: string where "REDACTED_VALUE = ''[REDACTED]''"

definition normalized_key :: "string \<Rightarrow> string" where
  "normalized_key k = filter (\<lambda>c. c \<notin> {CHR ''_'', CHR ''-'', CHR '' ''}) (py_lower k)"

definition key_matches :: "string \<Rightarrow> bool" where
  "key_matches k \<longleftrightarrow> list_ex (\<lambda>p. occurs_in p (normalized_key k)) SENSITIVE_KEYS"

text \<open>\<^verbatim>\<open>key.lower()\<close> raises on a key that is no string, and is only evaluated for a string value.\<close>

fun masked :: "log_key \<Rightarrow> string \<Rightarrow> string option" where
  "masked (NameKey k) s = Some (if key_matches k then REDACTED_VALUE else s)"
| "masked OtherKey s = None"

fun redact_one :: "log_key \<Rightarrow> log_value \<Rightarrow> log_value option" and walk :: "log_value \<Rightarrow> log_value option" where
  "redact_one k (LogDict es) = walk (LogDict es)"
| "redact_one k (LogList vs) = map_option LogList (all_some (map (redact_one k) vs))"
| "redact_one k (LogStr s) = map_option LogStr (masked k s)"
| "redact_one k (LogScalar s) = Some (LogScalar s)"
| "walk (LogDict es) = map_option LogDict (all_some (map (\<lambda>(k, v). map_option (Pair k) (redact_one k v)) es))"
| "walk (LogList vs) = map_option LogList (all_some (map walk vs))"
| "walk (LogStr s) = Some (LogStr s)"
| "walk (LogScalar s) = Some (LogScalar s)"

definition redact_pii :: "(log_key \<times> log_value) list \<Rightarrow> log_value option" where
  "redact_pii event = walk (LogDict event)"

section \<open>What is hidden\<close>

text \<open>Every string of a value with the nearest key above it.\<close>

fun labelled :: "log_key option \<Rightarrow> log_value \<Rightarrow> (log_key option \<times> string) list" where
  "labelled k (LogStr s) = [(k, s)]"
| "labelled k (LogScalar _) = []"
| "labelled k (LogList vs) = concat (map (labelled k) vs)"
| "labelled k (LogDict es) = concat (map (\<lambda>(k', v). labelled (Some k') v) es)"

fun hide :: "log_key option \<times> string \<Rightarrow> log_key option \<times> string" where
  "hide (Some (NameKey k), s) = (Some (NameKey k), if key_matches k then REDACTED_VALUE else s)"
| "hide (k, s) = (k, s)"

lemma all_some_None: "all_some xs = None \<longleftrightarrow> None \<in> set xs"
  by (induction xs rule: all_some.induct) (auto split: option.splits)

lemma concat_pointwise:
  "map f xs = map Some ys \<Longrightarrow> (\<And>x y. x \<in> set xs \<Longrightarrow> f x = Some y \<Longrightarrow> g y = h x) \<Longrightarrow> concat (map g ys) = concat (map h xs)"
proof (induction xs arbitrary: ys)
  case (Cons x xs)
  then obtain y ys' where "ys = y # ys'" "f x = Some y" "map f xs = map Some ys'" by (auto simp: Cons_eq_map_conv)
  then show ?case using Cons.IH [of ys'] Cons.prems(2) by simp
qed simp

lemma redacted_labels:
  "redact_one k v = Some v' \<Longrightarrow> labelled (Some k) v' = map hide (labelled (Some k) v)"
  "walk v = Some w \<Longrightarrow> labelled None w = map hide (labelled None v)"
proof (induction k v and v arbitrary: v' and w rule: redact_one_walk.induct)
  case (2 k vs)
  obtain ws where ws: "v' = LogList ws" "map (redact_one k) vs = map Some ws" using 2(2) by (auto simp: all_some_iff)
  have "concat (map (labelled (Some k)) ws) = concat (map (\<lambda>v. map hide (labelled (Some k) v)) vs)"
    using ws(2) 2(1) by (rule concat_pointwise)
  then show ?case by (simp add: ws(1) map_concat comp_def)
next
  case (3 k s)
  then show ?case by (cases k) auto
next
  case (5 es)
  let ?f = "\<lambda>(k, v). map_option (Pair k) (redact_one k v)"
  obtain ws where ws: "w = LogDict ws" "map ?f es = map Some ws" using 5(2) by (auto simp: all_some_iff)
  have "concat (map (\<lambda>(k', v). labelled (Some k') v) ws) = concat (map (\<lambda>x. map hide (labelled (Some (fst x)) (snd x))) es)"
    using ws(2)
  proof (rule concat_pointwise)
    fix x y assume "x \<in> set es" "?f x = Some y"
    then show "(\<lambda>(k', v). labelled (Some k') v) y = map hide (labelled (Some (fst x)) (snd x))"
      using 5(1) [of x "fst x" "snd x"] by (auto simp: case_prod_beta)
  qed
  then show ?case by (simp add: ws(1) map_concat comp_def case_prod_beta)
next
  case (6 vs)
  obtain ws where ws: "w = LogList ws" "map walk vs = map Some ws" using 6(2) by (auto simp: all_some_iff)
  have "concat (map (labelled None) ws) = concat (map (\<lambda>v. map hide (labelled None v)) vs)"
    using ws(2) 6(1) by (rule concat_pointwise)
  then show ?case by (simp add: ws(1) map_concat comp_def)
qed auto

lemma redaction_raises:
  "redact_one k v = None \<longleftrightarrow> (\<exists>s. (Some OtherKey, s) \<in> set (labelled (Some k) v))"
  "walk v = None \<longleftrightarrow> (\<exists>s. (Some OtherKey, s) \<in> set (labelled None v))"
proof (induction k v and v rule: redact_one_walk.induct)
  case (3 k s)
  then show ?case by (cases k) auto
next
  case (5 es)
  have "walk (LogDict es) = None \<longleftrightarrow> (\<exists>(k, v) \<in> set es. redact_one k v = None)"
    by (force simp: all_some_None)
  also have "\<dots> \<longleftrightarrow> (\<exists>s. (Some OtherKey, s) \<in> set (labelled None (LogDict es)))"
    using 5 by fastforce
  finally show ?case .
next
  case (2 k vs)
  have "redact_one k (LogList vs) = None \<longleftrightarrow> (\<exists>v \<in> set vs. redact_one k v = None)" by (force simp: all_some_None)
  then show ?case using 2 by auto
next
  case (6 vs)
  have "walk (LogList vs) = None \<longleftrightarrow> (\<exists>v \<in> set vs. walk v = None)" by (force simp: all_some_None)
  then show ?case using 6 by auto
qed auto

text \<open>Strings under a sensitive key never reach the log.  The redacted event has the strings of the event, each
  with the same nearest key and in the same order, and exactly those whose key contains a sensitive word are
  replaced by the mark; the processor only fails, and logs nothing, on a string under a key that is no string.\<close>

theorem logs_hide_marked_strings:
  "case redact_pii event of
     None \<Rightarrow> (\<exists>s. (Some OtherKey, s) \<in> set (labelled None (LogDict event)))
   | Some v \<Rightarrow> labelled None v = map hide (labelled None (LogDict event))
       \<and> list_all (\<lambda>(k, s). case k of Some (NameKey n) \<Rightarrow> key_matches n = False \<or> s = REDACTED_VALUE | _ \<Rightarrow> True) (labelled None v)
       \<and> (\<forall>s. (Some OtherKey, s) \<notin> set (labelled None (LogDict event)))"
proof (cases "redact_pii event")
  case None
  then show ?thesis using redaction_raises(2) [of "LogDict event"] by (simp add: redact_pii_def)
next
  case (Some v)
  then have v: "labelled None v = map hide (labelled None (LogDict event))"
    unfolding redact_pii_def by (rule redacted_labels(2))
  have "case fst (hide x) of Some (NameKey n) \<Rightarrow> key_matches n = False \<or> snd (hide x) = REDACTED_VALUE | _ \<Rightarrow> True" for x
    by (cases x rule: hide.cases) auto
  then have "list_all (\<lambda>(k, s). case k of Some (NameKey n) \<Rightarrow> key_matches n = False \<or> s = REDACTED_VALUE | _ \<Rightarrow> True) (labelled None v)"
    unfolding v by (simp add: list_all_iff case_prod_beta)
  moreover have "(Some OtherKey, s) \<notin> set (labelled None (LogDict event))" for s
    using Some redaction_raises(2) [of "LogDict event"] by (auto simp: redact_pii_def)
  ultimately show ?thesis using Some v by simp
qed

text \<open>Only the nearest key counts: a dictionary below a sensitive key is not hidden.\<close>

lemma nested_secret_is_logged:
  "redact_pii [(NameKey ''password'', LogDict [(NameKey ''value'', LogStr s)])]
   = Some (LogDict [(NameKey ''password'', LogDict [(NameKey ''value'', LogStr s)])])"
proof -
  have "\<not> key_matches ''value''" by code_simp
  then show ?thesis by (simp add: redact_pii_def)
qed

end
