(* ===== verification/Client.thy ===== *)
theory Client
  imports ChatPreflight AgentRuntime
begin

text \<open>
  The client SDK (\<^verbatim>\<open>client/sdk.py\<close>) and the schema its chat request meets at the server
  (\<^verbatim>\<open>ChatCompletionRequest\<close> of \<^verbatim>\<open>api/v1/chat.py\<close>).  The coercions of the schema library and the text of
  a token that is no string are parameters.
\<close>

section \<open>The client\<close>

record sdk_client =
  sd_base_url :: string
  sd_token :: json
  sd_organization_id :: "int option"

definition new_client :: "string \<Rightarrow> sdk_client" where
  "new_client base = \<lparr>sd_base_url = base, sd_token = JNull, sd_organization_id = None\<rparr>"

definition set_auth_token :: "string \<Rightarrow> sdk_client \<Rightarrow> sdk_client" where
  "set_auth_token token c = c\<lparr>sd_token := JStr token\<rparr>"

definition set_organization :: "int \<Rightarrow> sdk_client \<Rightarrow> sdk_client" where
  "set_organization org c = c\<lparr>sd_organization_id := Some org\<rparr>"

definition get_headers :: "(json \<Rightarrow> string) \<Rightarrow> sdk_client \<Rightarrow> (string \<times> string) list" where
  "get_headers show c =
     (if json_falsy (sd_token c) then [] else [(''Authorization'', ''Bearer '' @ show (sd_token c))])
     @ (case sd_organization_id c of None \<Rightarrow> [] | Some i \<Rightarrow> if i = 0 then [] else [(''X-Organization-ID'', str_int i)])"

record sdk_request =
  sq_url :: string
  sq_form :: "(string \<times> string) list"
  sq_json :: json
  sq_headers :: "(string \<times> string) list"

datatype sdk_error = HttpStatusError | AttributeError | JsonError

definition login_request :: "sdk_client \<Rightarrow> string \<Rightarrow> string \<Rightarrow> sdk_request" where
  "login_request c username password = \<lparr>sq_url = sd_base_url c @ ''/auth/login'',
     sq_form = [(''username'', username), (''password'', password)], sq_json = JNull, sq_headers = []\<rparr>"

text \<open>A reply is \<^verbatim>\<open>None\<close> where \<^verbatim>\<open>raise_for_status\<close> raises, and its body \<^verbatim>\<open>None\<close> where it is no JSON.\<close>

definition sdk_reply :: "json option option \<Rightarrow> sdk_error + json" where
  "sdk_reply r = (case r of None \<Rightarrow> Inl HttpStatusError | Some None \<Rightarrow> Inl JsonError | Some (Some v) \<Rightarrow> Inr v)"

definition sdk_login :: "(sdk_request \<Rightarrow> json option option) \<Rightarrow> string \<Rightarrow> string \<Rightarrow> sdk_client \<Rightarrow> (sdk_error + json) \<times> sdk_client" where
  "sdk_login server username password c = (case sdk_reply (server (login_request c username password)) of
     Inl e \<Rightarrow> (Inl e, c)
   | Inr data \<Rightarrow> (case data of
       JObj fs \<Rightarrow> (Inr data, c\<lparr>sd_token := json_get fs ''access_token''\<rparr>)
     | _ \<Rightarrow> (Inl AttributeError, c)))"

definition stream_chat_request :: "(json \<Rightarrow> string) \<Rightarrow> sdk_client \<Rightarrow> string \<Rightarrow> int option \<Rightarrow> sdk_request" where
  "stream_chat_request show c prompt bot_id = \<lparr>sq_url = sd_base_url c @ ''/chat/completions'', sq_form = [],
     sq_json = JObj [(''prompt'', JStr prompt), (''bot_id'', case bot_id of None \<Rightarrow> JNull | Some i \<Rightarrow> JInt i), (''stream'', JBool True)],
     sq_headers = get_headers show c\<rparr>"

definition sdk_stream_chat :: "(json \<Rightarrow> string) \<Rightarrow> (sdk_request \<Rightarrow> string list option) \<Rightarrow> sdk_client \<Rightarrow> string \<Rightarrow> int option
    \<Rightarrow> sdk_error + string list" where
  "sdk_stream_chat show server c prompt bot_id = (case server (stream_chat_request show c prompt bot_id) of
     None \<Rightarrow> Inl HttpStatusError | Some ls \<Rightarrow> Inr (filter (\<lambda>l. l \<noteq> []) ls))"

definition sdk_search_documents :: "(json \<Rightarrow> string) \<Rightarrow> (sdk_request \<Rightarrow> json option option) \<Rightarrow> sdk_client \<Rightarrow> string \<Rightarrow> int
    \<Rightarrow> sdk_error + json" where
  "sdk_search_documents show server c query limit = sdk_reply (server \<lparr>sq_url = sd_base_url c @ ''/documents/search'', sq_form = [],
     sq_json = JObj [(''query'', JStr query), (''limit'', JInt limit)], sq_headers = get_headers show c\<rparr>)"

section \<open>The schema of a chat request\<close>

record coercions =
  co_int :: "json \<Rightarrow> int option"
  co_str :: "json \<Rightarrow> string option"
  co_bool :: "json \<Rightarrow> bool option"

definition MAX_KNOWLEDGE_SCOPE_CHARS :: nat where "MAX_KNOWLEDGE_SCOPE_CHARS = 120"

definition chat_fields :: "string list" where
  "chat_fields = [''conversation_id'', ''bot_id'', ''prompt'', ''stream'', ''idempotency_key'', ''verify'', ''knowledge_scope'']"

definition schema_field :: "(string \<times> json) list \<Rightarrow> string \<Rightarrow> (json \<Rightarrow> 'a option) \<Rightarrow> 'a option \<Rightarrow> 'a option" where
  "schema_field fs name coerce missing = (case map_of fs name of None \<Rightarrow> missing | Some v \<Rightarrow> coerce v)"

definition optional_text :: "coercions \<Rightarrow> json \<Rightarrow> string option option" where
  "optional_text co v = (if v = JNull then Some None else map_option Some (co_str co v))"

definition parse_chat_request :: "coercions \<Rightarrow> json \<Rightarrow> (chat_payload \<times> bool) option" where
  "parse_chat_request co body = (case body of
     JObj fs \<Rightarrow>
       if \<not> list_all (\<lambda>(k, _). k \<in> set chat_fields) fs then None
       else (case (schema_field fs ''conversation_id'' (co_int co) None, schema_field fs ''bot_id'' (co_int co) None,
                   schema_field fs ''prompt'' (co_str co) None, schema_field fs ''stream'' (co_bool co) (Some True),
                   schema_field fs ''idempotency_key'' (optional_text co) (Some None),
                   schema_field fs ''verify'' (co_bool co) (Some False),
                   schema_field fs ''knowledge_scope'' (optional_text co) (Some None)) of
           (Some cid, Some bid, Some prompt, Some stream, Some key, Some verify, Some scope) \<Rightarrow>
             if prompt = [] \<or> MAX_KNOWLEDGE_SCOPE_CHARS < length (py_or_empty scope) then None
             else Some (\<lparr>cq_conversation_id = cid, cq_bot_id = bid, cq_prompt = prompt, cq_idempotency_key = key,
                         cq_verify = verify, cq_knowledge_scope = scope\<rparr>, stream)
         | _ \<Rightarrow> None)
   | _ \<Rightarrow> None)"

section \<open>Client and server\<close>

text \<open>A server that reads chat requests with its schema.\<close>

definition chat_server :: "coercions \<Rightarrow> (chat_payload \<times> bool \<Rightarrow> string list option) \<Rightarrow> sdk_request \<Rightarrow> string list option" where
  "chat_server co answer rq = (case parse_chat_request co (sq_json rq) of None \<Rightarrow> None | Some p \<Rightarrow> answer p)"

lemma sdk_chat_refused: "sdk_stream_chat show (chat_server co answer) c prompt bot_id = Inl HttpStatusError"
  by (simp add: sdk_stream_chat_def chat_server_def stream_chat_request_def parse_chat_request_def schema_field_def chat_fields_def)

lemma sdk_organization_unsent: "sd_organization_id c = Some 0 \<Longrightarrow> get_headers show c = get_headers show (c\<lparr>sd_organization_id := None\<rparr>)"
  by (simp add: get_headers_def)

end
