(* ===== verification/Account.thy ===== *)
theory Account
  imports Identity
begin

text \<open>
  The schemas around the accounts of \<^verbatim>\<open>api/v1/auth.py\<close>: the registration request and its reply, the
  endpoint \<^verbatim>\<open>/me\<close>, and the permission lists kept for older callers.  Whether a text is an e-mail
  address is decided by the schema library and a parameter.
\<close>

section \<open>Registration\<close>

record user_register =
  ug_email :: string
  ug_password :: string
  ug_full_name :: "string option"

record user_response =
  up_id :: identity
  up_email :: string
  up_role :: string
  up_is_enabled :: bool

definition user_response_of :: "user \<Rightarrow> user_response" where
  "user_response_of u = \<lparr>up_id = u_id u, up_email = u_email u, up_role = u_role u, up_is_enabled = u_is_enabled u\<rparr>"

definition valid_registration :: "(string \<Rightarrow> bool) \<Rightarrow> user_register \<Rightarrow> bool" where
  "valid_registration is_email r \<longleftrightarrow> is_email (ug_email r) \<and> 12 \<le> length (ug_password r) \<and> length (ug_password r) \<le> 128"

definition register_endpoint :: "(string \<Rightarrow> bool) \<Rightarrow> bool \<Rightarrow> (string \<Rightarrow> string) \<Rightarrow> user_register \<Rightarrow> identity_db
    \<Rightarrow> (api_error + user_response) \<times> identity_db" where
  "register_endpoint is_email allow hash r db =
     (if \<not> valid_registration is_email r then (Inl (HTTPException 422 ''Request validation failed''), db)
      else (case register_user allow hash db (ug_email r) (ug_password r) (ug_full_name r) of
              Inl e \<Rightarrow> (Inl e, db)
            | Inr (u, db') \<Rightarrow> (Inr (user_response_of u), db')))"

section \<open>The caller\<close>

definition read_users_me :: "('t \<Rightarrow> claims option) \<Rightarrow> identity_db \<Rightarrow> 't \<Rightarrow> api_error + user_response" where
  "read_users_me decode db token = (case get_current_user decode token of
     Inl e \<Rightarrow> Inl e
   | Inr ctx \<Rightarrow> (case get_current_active_organization db ctx of
       Inl e \<Rightarrow> Inl e
     | Inr _ \<Rightarrow> (case get_by u_id (uc_user_id ctx) (users db) of
         None \<Rightarrow> Inl (HTTPException 404 ''User not found'')
       | Some u \<Rightarrow> Inr (user_response_of u))))"

section \<open>Permission lists\<close>

definition starts_with :: "string \<Rightarrow> string \<Rightarrow> bool" where
  "starts_with prefix s \<longleftrightarrow> take (length prefix) s = prefix"

definition role_permissions :: "string \<Rightarrow> string list option" where
  "role_permissions role = (case role_capabilities role of
     None \<Rightarrow> None
   | Some grants \<Rightarrow> Some (filter (\<lambda>v. \<not> starts_with ''provider:'' v \<and> \<not> starts_with ''tool:'' v)
       (sort (map capability_value (filter (\<lambda>c. c \<in> grants) all_capabilities)))))"

lemma read_users_me_InrD:
  assumes "read_users_me decode db token = Inr r"
  shows "\<exists>ctx u. get_current_user decode token = Inr ctx \<and> u \<in> set (users db) \<and> u_id u = uc_user_id ctx \<and> u_is_enabled u
    \<and> u_token_version u = uc_token_version ctx \<and> r = user_response_of u"
proof -
  obtain ctx org where ctx: "get_current_user decode token = Inr ctx" and org: "get_current_active_organization db ctx = Inr org"
    using assms by (auto simp: read_users_me_def split: sum.splits)
  obtain u where u: "get_by u_id (uc_user_id ctx) (users db) = Some u" "u_is_enabled u" "u_token_version u = uc_token_version ctx"
    using org by (rule active_organization_InrD)
  then show ?thesis using assms ctx org get_by_SomeD [OF u(1)] by (auto simp: read_users_me_def)
qed

text \<open>The endpoint never answers 404: a caller without a row is refused by the organization dependency.\<close>

lemma read_users_me_found: "read_users_me decode db token \<noteq> Inl (HTTPException 404 ''User not found'')"
  by (auto simp: read_users_me_def get_current_user_def get_current_active_organization_def credentials_exception_def
      split: sum.splits option.splits prod.splits if_splits)

lemma role_permissions_grants:
  assumes "role_permissions role = Some ps" and "v \<in> set ps"
  shows "\<exists>c grants. role_capabilities role = Some grants \<and> c \<in> grants \<and> v = capability_value c"
  using assms by (auto simp: role_permissions_def split: option.splits)

lemma role_permissions_sorted: "role_permissions role = Some ps \<Longrightarrow> sorted ps"
  by (auto simp: role_permissions_def sorted_wrt_filter split: option.splits)

end
