(* ===== verification/Recovery.thy ===== *)
theory Recovery
  imports ChatPersistence
begin

text \<open>
  What becomes of a chat whose worker died: its execution is left prepared or streaming and its lease
  runs out.  A client that sends the same request again takes the lease over, the recovery check of
  \<^verbatim>\<open>chat_preflight.py\<close> runs, and the exchange is prepared again; here every such attempt dies too,
  before or after it began to stream.
\<close>

type_synonym retry = "microseconds \<times> string \<times> bool"

text \<open>
  One retry at time \<^verbatim>\<open>t\<close> with a fresh lease token, up to the crash: \<^verbatim>\<open>begin_idempotency\<close>,
  \<^verbatim>\<open>assert_recovery_allowed\<close> when it says so, \<^verbatim>\<open>prepare_exchange\<close>, and perhaps \<^verbatim>\<open>mark_streaming\<close>.
\<close>

definition attempt_of :: "exchange_request \<Rightarrow> idempotency_outcome \<Rightarrow> exchange_request" where
  "attempt_of px out = px\<lparr>px_idempotency_record_id := io_record_id out, px_recover := io_is_recovery out,
     px_lease_token := io_lease_token out\<rparr>"

definition check_recovery ::
    "microseconds \<Rightarrow> exchange_request \<Rightarrow> idempotency_outcome \<Rightarrow> chat_db \<Rightarrow> unit txn" where
  "check_recovery t px out db =
     (case io_record_id out of
        Some i \<Rightarrow> if io_is_recovery out
          then assert_recovery_allowed (calm t) (px_execution_id px) i (io_lease_token out) db
          else (Inr (), db)
      | None \<Rightarrow> (Inr (), db))"

definition run_attempt :: "microseconds \<Rightarrow> bool \<Rightarrow> exchange_request \<Rightarrow> chat_db \<Rightarrow> chat_db" where
  "run_attempt t streamed px db =
     (case prepare_exchange (calm t) px db of
        (Inl err, db') \<Rightarrow> db'
      | (Inr x, db') \<Rightarrow> if streamed then snd (mark_streaming (calm t) (px_execution_id px) db') else db')"

definition crashing_retry ::
    "(string \<Rightarrow> string) \<Rightarrow> idem_request \<Rightarrow> string \<Rightarrow> exchange_request \<Rightarrow> retry \<Rightarrow> chat_db \<Rightarrow> chat_db" where
  "crashing_retry sha rq key px = (\<lambda>(t, token, streamed) db.
     (case begin_idempotency sha (alone t token) 0 rq key db of
        (Inl err, db1) \<Rightarrow> db1
      | (Inr out, db1) \<Rightarrow>
          (case check_recovery t px out db1 of
             (Inl err, db2) \<Rightarrow> db2
           | (Inr u, db2) \<Rightarrow> run_attempt t streamed (attempt_of px out) db2)))"

definition decision_open :: "exchange_request \<Rightarrow> chat_db \<Rightarrow> bool" where
  "decision_open px db \<longleftrightarrow> (case px_governance_decision_id px of None \<Rightarrow> True
     | Some did \<Rightarrow> (case get_by gd_decision_id did (decisions db) of None \<Rightarrow> False
         | Some d \<Rightarrow> gd_allowed d \<and> gd_finalized_at d = None \<and> gd_organization_id d = px_organization_id px
             \<and> gd_user_id d = px_user_id px \<and> gd_execution_id d \<in> {None, Some (px_execution_id px)}))"

text \<open>The ledger row of the request carries its execution and a lease that ends at \<^verbatim>\<open>l\<close>.\<close>

definition leased_until ::
    "(string \<Rightarrow> string) \<Rightarrow> idem_request \<Rightarrow> string \<Rightarrow> chat_db \<Rightarrow> chat_execution \<Rightarrow> microseconds \<Rightarrow> bool" where
  "leased_until sha rq key db e l \<longleftrightarrow> (\<exists>k r. resolve_context rq = Inr k
     \<and> get_by idem_key (fst k, snd k, key) (idem_rows db) = Some r
     \<and> ir_status r = Processing \<and> ir_lease_until r = Some l
     \<and> ir_request_hash r = body_digest sha rq \<and> ce_idempotency_record_id e = Some (ir_id r))"

text \<open>The execution \<^verbatim>\<open>e\<close> of the request was left open.\<close>

definition left_open :: "exchange_request \<Rightarrow> chat_db \<Rightarrow> chat_execution \<Rightarrow> bool" where
  "left_open px db e \<longleftrightarrow> find_execution (px_execution_id px) db = Some e \<and> same_scope px e
     \<and> ce_status e \<in> {Prepared, Streaming} \<and> ce_user_message_id e \<noteq> None
     \<and> assistant_of e db \<noteq> None \<and> find (reservation_usage e) (usage_rows db) \<noteq> None
     \<and> decision_open px db"

definition abandoned ::
    "(string \<Rightarrow> string) \<Rightarrow> idem_request \<Rightarrow> string \<Rightarrow> exchange_request \<Rightarrow> chat_db \<Rightarrow> chat_execution
     \<Rightarrow> microseconds \<Rightarrow> bool" where
  "abandoned sha rq key px db e l \<longleftrightarrow>
     idem_wf db \<and> left_open px db e \<and> leased_until sha rq key db e l"

text \<open>Retries each of which comes after the lease of the one before has run out.\<close>

fun spaced :: "microseconds \<Rightarrow> retry list \<Rightarrow> bool" where
  "spaced l [] = True"
| "spaced l ((t, token, streamed) # rs) = (l < t \<and> spaced (t + seconds LEASE_SECONDS) rs)"

section \<open>One retry\<close>

lemma find_by_id:
  assumes "idem_wf db" "get_by idem_key k (idem_rows db) = Some r"
  shows "find_idem (ir_id r) db = Some r"
  using assms get_by_SomeD [OF assms(2)] by (simp add: idem_wf_def find_idem_def get_by_distinct)

lemma takeover_row:
  assumes "idem_wf db" "get_by idem_key k (idem_rows db) = Some r"
  shows "find_idem (ir_id r) (update_idem k (retake_expired t token) db) = Some (retake_expired t token r)"
proof -
  let ?db = "update_idem k (retake_expired t token) db"
  have "idem_wf ?db" using assms(1) by (rule idem_wf_update) simp_all
  moreover have "get_by idem_key k (idem_rows ?db) = Some (retake_expired t token r)"
    using assms(2) by (simp add: get_by_set_idem)
  ultimately show ?thesis using find_by_id by fastforce
qed

lemma takeover_frame:
  "executions (update_idem k f db) = executions db" "messages (update_idem k f db) = messages db"
  "usage_rows (update_idem k f db) = usage_rows db" "decisions (update_idem k f db) = decisions db"
  by (simp_all add: update_idem_def)

lemma decision_open_cong: "decisions db' = decisions db \<Longrightarrow> decision_open px db' = decision_open px db"
  by (simp add: decision_open_def cong: option.case_cong)

lemma left_open_takeover: "left_open px (update_idem k f db) e = left_open px db e"
  by (simp add: left_open_def find_execution_def assistant_of_def takeover_frame
      decision_open_cong [of "update_idem k f db" db])

lemma takeover:
  assumes ab: "abandoned sha rq key px db e l" and late: "l < t"
  obtains out db1 r where "begin_idempotency sha (alone t token) 0 rq key db = (Inr out, db1)"
    and "abandoned sha rq key px db1 e (t + seconds LEASE_SECONDS)"
    and "out = owned token (ir_id r) True" and "ce_idempotency_record_id e = Some (ir_id r)"
    and "recovery_owner (calm t) 1 e (Some token) db1 = Inr r"
proof -
  obtain k r where k: "resolve_context rq = Inr k"
    and row: "get_by idem_key (fst k, snd k, key) (idem_rows db) = Some r" "ir_status r = Processing"
      "ir_lease_until r = Some l" "ir_request_hash r = body_digest sha rq"
      "ce_idempotency_record_id e = Some (ir_id r)"
    and wf: "idem_wf db"
    using ab unfolding abandoned_def leased_until_def by blast
  let ?k = "(fst k, snd k, key)" and ?r = "retake_expired t token r"
  let ?db = "update_idem ?k (retake_expired t token) db"
  have begun: "begin_idempotency sha (alone t token) 0 rq key db = (Inr (owned token (ir_id r) True), ?db)"
    using begin_alone_expired [of rq "fst k" "snd k" key db r l t sha token 0] k row late by simp
  have found: "find_idem (ir_id r) ?db = Some ?r"
    by (rule takeover_row [OF wf row(1)])
  have "get_by idem_key ?k (idem_rows ?db) = Some ?r"
    using row(1) by (simp add: get_by_set_idem)
  then have "leased_until sha rq key ?db e (t + seconds LEASE_SECONDS)"
    unfolding leased_until_def using k row
    by (intro exI [of _ k] exI [of _ ?r]) (simp add: retake_expired_def)
  moreover have "idem_wf ?db" using wf by (rule idem_wf_update) simp_all
  ultimately have ab': "abandoned sha rq key px ?db e (t + seconds LEASE_SECONDS)"
    using ab by (simp add: abandoned_def left_open_takeover)
  have owner: "recovery_owner (calm t) 1 e (Some token) ?db = Inr ?r"
    using found row(5) by (simp add: recovery_owner_def calm_def lease_lost_def retake_expired_def
        expired_before_def seconds_def LEASE_SECONDS_def)
  show thesis
    by (rule that [OF begun ab' _ _ owner]) (use row(5) in \<open>simp_all add: retake_expired_def\<close>)
qed

lemma decision_binds:
  assumes "decision_open px db" "eid = px_execution_id px"
  obtains db' where "bind_governance_decision (calm t) q (px_governance_decision_id px) eid
      (px_organization_id px) (px_user_id px) db = Inr db'"
    and "decision_open px db'"
proof (cases "px_governance_decision_id px")
  case None
  then show thesis
    using that [of db] assms(1) by (simp add: bind_governance_decision_def)
next
  case (Some did)
  with assms have "bind_decision_error (calm t) q did eid (px_organization_id px) (px_user_id px) db = None"
    by (auto simp: decision_open_def bind_decision_error_def calm_def split: option.splits)
  moreover have "decision_open px (bind_decision did eid db)"
    using assms Some by (auto simp: decision_open_def bind_decision_def rows.fetch_modify keeps_key_def
        split: option.splits)
  ultimately show thesis
    using that [of "bind_decision did eid db"] Some by (simp add: bind_governance_decision_def)
qed

lemma allowed_while_budget:
  assumes ab: "abandoned sha rq key px db e l" and own: "recovery_owner (calm t) 1 e (Some token) db = Inr r"
    and i: "ce_idempotency_record_id e = Some i" and left: "ce_attempt_count e < ce_max_attempts e"
  shows "assert_recovery_allowed (calm t) (px_execution_id px) i (Some token) db = (Inr (), db)"
  using assms by (auto simp: assert_recovery_allowed_def abandoned_def left_open_def ask_def calm_def)

lemma leased_until_cong:
  "idem_rows db' = idem_rows db \<Longrightarrow> ce_idempotency_record_id e' = ce_idempotency_record_id e \<Longrightarrow>
   leased_until sha rq key db' e' l = leased_until sha rq key db e l"
  by (simp add: leased_until_def)

lemma abandoned_advance:
  assumes ab: "abandoned sha rq key px db e l" and a: "assistant_of e db = Some a"
    and adv: "advances e a f g db db'" and idem: "idem_rows db' = idem_rows db"
    and same: "same_scope px (f e)" and open_: "ce_status (f e) \<in> {Prepared, Streaming}"
    and usage: "find (reservation_usage (f e)) (usage_rows db') \<noteq> None" and dec: "decision_open px db'"
  shows "abandoned sha rq key px db' (f e) l"
proof -
  have keeps: "ce_user_message_id (f e) = ce_user_message_id e"
      "ce_idempotency_record_id (f e) = ce_idempotency_record_id e"
    using adv by (auto simp: advances_def keeps_execution_def)
  have here: "find_execution (px_execution_id px) db = Some e"
    using ab by (simp add: abandoned_def left_open_def)
  then have "px_execution_id px = ce_execution_id e"
    using find_execution_SomeD [OF here] by simp
  with here have "find_execution (px_execution_id px) db' = Some (f e)"
    using advances_lookup [OF adv] by simp
  moreover have "assistant_of (f e) db' = Some (g a)"
    by (rule advances_own_answer [OF adv a])
  moreover have "idem_wf db'"
    using ab adv idem idem_wf_cong [of db db'] by (simp add: abandoned_def advances_def)
  ultimately show ?thesis
    using ab same open_ usage dec keeps leased_until_cong [OF idem keeps(2)]
    by (simp add: abandoned_def left_open_def)
qed

lemma reservation_kept:
  assumes "find (reservation_usage e) us \<noteq> None"
  shows "find (reservation_usage e) (update_where (reservation_usage e) (add_reservation px) us) \<noteq> None"
  using assms by (induction us) (auto simp: update_where_def add_reservation_def reservation_usage_def split: if_splits)

lemma same_reservation:
  "ce_id e' = ce_id e \<Longrightarrow> reservation_usage e' = reservation_usage e"
  by (simp add: reservation_usage_def fun_eq_iff)

lemma retry_execution_fields [simp]:
  "ce_id (retry_execution t gov e) = ce_id e"
  "ce_max_attempts (retry_execution t gov e) = ce_max_attempts e"
  "same_scope px (retry_execution t gov e) = same_scope px e"
  by (simp_all add: retry_execution_def same_scope_def Let_def)

lemma prepared_again:
  assumes ab: "abandoned sha rq key px db e l" and own: "recovery_owner (calm t) 1 e (Some token) db = Inr r"
    and left: "ce_attempt_count e < ce_max_attempts e"
    and px': "px' = px\<lparr>px_recover := True, px_lease_token := Some token\<rparr>"
  obtains x db' where "prepare_exchange (calm t) px' db = (Inr x, db')"
    and "abandoned sha rq key px db' (retry_execution t (px_governance_decision_id px \<noteq> None) e) l"
proof -
  let ?f = "retry_execution t (px_governance_decision_id px \<noteq> None)"
  obtain a where a: "assistant_of e db = Some a" using ab by (auto simp: abandoned_def left_open_def)
  have eid: "px_execution_id px' = ce_execution_id e" "find_execution (px_execution_id px') db = Some e"
    using ab px' by (auto simp: abandoned_def left_open_def dest: find_execution_SomeD)
  have sends: "decision_open px d = decision_open px' d" "same_scope px = same_scope px'" for d
    using px' by (simp_all add: decision_open_def same_scope_def fun_eq_iff cong: option.case_cong)
  have "decisions (retry_db (calm t) px' e a db) = decisions db"
    by (simp add: retry_db_def Let_def)
  then have "decision_open px' (retry_db (calm t) px' e a db) = decision_open px' db"
    by (rule decision_open_cong)
  then have held: "decision_open px' (retry_db (calm t) px' e a db)"
    using ab by (simp add: abandoned_def left_open_def sends(1))
  obtain db' where bound: "bind_governance_decision (calm t) 4 (px_governance_decision_id px') (ce_execution_id e)
      (px_organization_id px') (px_user_id px') (retry_db (calm t) px' e a db) = Inr db'"
    and dec: "decision_open px' db'"
    by (rule decision_binds [OF held eid(1) [symmetric]])
  have gov: "(px_governance_decision_id px' \<noteq> None) = (px_governance_decision_id px \<noteq> None)" "env_now (calm t) = t"
    using px' by (simp_all add: calm_def)
  have adv: "advances e a ?f (\<lambda>m. m\<lparr>ms_content := [], ms_status := Pending\<rparr>) db db'" "idem_rows db' = idem_rows db"
    using retry_advances [OF bound] unfolding gov by simp_all
  have "usage_rows db' = update_where (reservation_usage e) (add_reservation px') (usage_rows db)"
    using bind_governance_InrD [OF bound] by (simp add: retry_db_def Let_def)
  then have usage: "find (reservation_usage (?f e)) (usage_rows db') \<noteq> None"
    using ab reservation_kept same_reservation [of "?f e" e] by (simp add: abandoned_def left_open_def)
  have "abandoned sha rq key px db' (?f e) l"
    using ab usage dec by (intro abandoned_advance [OF ab a adv]) (simp_all add: abandoned_def left_open_def sends(1))
  moreover have "ce_assistant_message_id e \<noteq> None" using assistant_of_SomeD [OF a] by simp
  with ab have "\<exists>x. snapshot (?f e) = Inr x"
    by (auto simp: snapshot_def retry_execution_def abandoned_def left_open_def Let_def)
  then obtain x where "snapshot (retry_execution (env_now (calm t)) (px_governance_decision_id px' \<noteq> None) e) = Inr x"
    unfolding gov by blast
  then have "prepare_exchange (calm t) px' db = (Inr x, db')"
    using ab own left a eid bound px' unfolding sends(2)
    by (simp add: prepare_exchange_def recover_exchange_def ask_def calm_def commit_or_unavailable_def
        abandoned_def left_open_def) (auto simp: same_scope_def)
  ultimately show thesis using that by blast
qed

lemma streamed_again:
  assumes ab: "abandoned sha rq key px db e l"
  obtains f where "abandoned sha rq key px (snd (mark_streaming (calm t) (px_execution_id px) db)) (f e) l"
    and "ce_attempt_count (f e) = ce_attempt_count e" and "ce_max_attempts (f e) = ce_max_attempts e"
proof -
  let ?f = "\<lambda>e. e\<lparr>ce_status := Streaming\<rparr>" and ?g = "\<lambda>m. m\<lparr>ms_status := Streaming\<rparr>"
  obtain a where a: "assistant_of e db = Some a" using ab by (auto simp: abandoned_def left_open_def)
  let ?db = "update_message (ms_id a) ?g (update_execution (ce_execution_id e) ?f db)"
  have here: "find_execution (px_execution_id px) db = Some e" "ce_execution_id e = px_execution_id px"
    using ab by (auto simp: abandoned_def left_open_def dest: find_execution_SomeD)
  have out: "snd (mark_streaming (calm t) (px_execution_id px) db) = ?db"
    using ab a here by (auto simp: mark_streaming_def locked_execution_def ask_def calm_def commit_or_unavailable_def
        abandoned_def left_open_def terminal_statuses_def)
  have adv: "advances e a ?f ?g db ?db"
    by (simp add: advances_def)
  have "decision_open px ?db = decision_open px db"
    by (rule decision_open_cong) simp
  then have "abandoned sha rq key px ?db (?f e) l"
    using ab by (intro abandoned_advance [OF ab a adv])
      (simp_all add: abandoned_def left_open_def same_scope_def same_reservation [of "?f e" e])
  then show thesis using that [of ?f] out by simp
qed

lemma retry_while_budget:
  assumes ab: "abandoned sha rq key px db e l" and late: "l < t" and left: "ce_attempt_count e < ce_max_attempts e"
  obtains e' where "abandoned sha rq key px (crashing_retry sha rq key px (t, token, streamed) db) e'
      (t + seconds LEASE_SECONDS)"
    and "ce_attempt_count e' = ce_attempt_count e + 1" and "ce_max_attempts e' = ce_max_attempts e"
proof -
  let ?e = "retry_execution t (px_governance_decision_id px \<noteq> None) e"
  obtain out db1 r where b: "begin_idempotency sha (alone t token) 0 rq key db = (Inr out, db1)"
    and ab1: "abandoned sha rq key px db1 e (t + seconds LEASE_SECONDS)"
    and out: "out = owned token (ir_id r) True" and i: "ce_idempotency_record_id e = Some (ir_id r)"
    and own: "recovery_owner (calm t) 1 e (Some token) db1 = Inr r"
    by (rule takeover [OF ab late])
  have allowed: "check_recovery t px out db1 = (Inr (), db1)"
    using allowed_while_budget [OF ab1 own i left] out by (simp add: check_recovery_def owned_def)
  have "px_idempotency_record_id px = Some (ir_id r)"
    using ab i by (simp add: abandoned_def left_open_def same_scope_def)
  then have px': "attempt_of px out = px\<lparr>px_recover := True, px_lease_token := Some token\<rparr>"
    by (simp add: attempt_of_def out owned_def)
  obtain x db3 where p: "prepare_exchange (calm t) (attempt_of px out) db1 = (Inr x, db3)"
    and ab3: "abandoned sha rq key px db3 ?e (t + seconds LEASE_SECONDS)"
    by (rule prepared_again [OF ab1 own left px'])
  have eid: "px_execution_id (attempt_of px out) = px_execution_id px" by (simp add: attempt_of_def)
  have run: "crashing_retry sha rq key px (t, token, streamed) db
      = (if streamed then snd (mark_streaming (calm t) (px_execution_id px) db3) else db3)"
    by (simp add: crashing_retry_def b allowed run_attempt_def p eid)
  obtain f where f: "abandoned sha rq key px (snd (mark_streaming (calm t) (px_execution_id px) db3)) (f ?e)
      (t + seconds LEASE_SECONDS)" "ce_attempt_count (f ?e) = ce_attempt_count ?e"
      "ce_max_attempts (f ?e) = ce_max_attempts ?e"
    by (rule streamed_again [OF ab3])
  show thesis
  proof (cases streamed)
    case True
    then show thesis using that [of "f ?e"] f run by simp
  next
    case False
    then show thesis using that [of ?e] ab3 run by simp
  qed
qed

text \<open>A chat that was closed for good after its attempts were spent.\<close>

definition given_up :: "exchange_request \<Rightarrow> chat_db \<Rightarrow> int \<Rightarrow> bool" where
  "given_up px db n \<longleftrightarrow> (\<exists>e r. find_execution (px_execution_id px) db = Some e \<and> ce_status e = Failed
     \<and> ce_last_failure_code e = Some RETRY_EXHAUSTED \<and> \<not> ce_failure_retryable e
     \<and> ce_completed_at e \<noteq> None \<and> ce_attempt_count e = n
     \<and> px_idempotency_record_id px = Some (ir_id r) \<and> find_idem (ir_id r) db = Some r
     \<and> ir_status r = Failed \<and> ir_response_status r = Some 409)"

lemma retry_when_spent:
  assumes ab: "abandoned sha rq key px db e l" and late: "l < t" and spent: "ce_max_attempts e \<le> ce_attempt_count e"
  shows "given_up px (crashing_retry sha rq key px (t, token, streamed) db) (ce_attempt_count e)"
proof -
  obtain out db1 r where b: "begin_idempotency sha (alone t token) 0 rq key db = (Inr out, db1)"
    and ab1: "abandoned sha rq key px db1 e (t + seconds LEASE_SECONDS)"
    and out: "out = owned token (ir_id r) True" and i: "ce_idempotency_record_id e = Some (ir_id r)"
    and own: "recovery_owner (calm t) 1 e (Some token) db1 = Inr r"
    by (rule takeover [OF ab late])
  obtain a where a: "assistant_of e db1 = Some a" using ab1 by (auto simp: abandoned_def left_open_def)
  let ?db2 = "mark_exhausted t e a db1"
  let ?db = "update_idem_by_id (ir_id r) exhaust_idem ?db2"
  have here: "find_execution (px_execution_id px) db1 = Some e" "ce_execution_id e = px_execution_id px"
    using ab1 by (auto simp: abandoned_def left_open_def dest: find_execution_SomeD)
  have "check_recovery t px out db1 = (Inl (RetryLimitExceeded ''execution retry limit was reached''), ?db)"
    using here i own a spent by (simp add: check_recovery_def out owned_def assert_recovery_allowed_def ask_def
        calm_def commit_or_unavailable_def)
  then have run: "crashing_retry sha rq key px (t, token, streamed) db = ?db"
    by (simp add: crashing_retry_def b)
  have found: "find_idem (ir_id r) db1 = Some r"
    using recovery_owner_InrD [OF own] i by auto
  have "idem_rows ?db2 = idem_rows db1" by (simp add: mark_exhausted_def)
  then have row: "find_idem (ir_id r) ?db = Some (exhaust_idem r)"
    using found by (simp add: find_idem_def rows.fetch_modify keeps_key_def exhaust_idem_def)
  have "find_execution (px_execution_id px) ?db2 = Some (exhaust_execution t a e)"
    using advances_lookup [OF mark_exhausted_advances] here by simp
  then have "find_execution (px_execution_id px) ?db = Some (exhaust_execution t a e)"
    by (simp add: find_execution_def)
  moreover have "px_idempotency_record_id px = Some (ir_id r)"
    using ab i by (simp add: abandoned_def left_open_def same_scope_def)
  ultimately show ?thesis
    unfolding run given_up_def using row
    by (intro exI [of _ "exhaust_execution t a e"] exI [of _ "exhaust_idem r"])
      (simp add: exhaust_execution_def exhaust_idem_def)
qed

section \<open>Progress\<close>


lemma sample_prepared_abandoned:
  "abandoned (\<lambda>s. s) sample_rq ''k1'' sample_px sample_prepared (new_execution 2 sample_px) 120000000"
  by (simp add: abandoned_def left_open_def leased_until_def sample_prepared_eq sample_ledger_eq idem_wf_def
      find_execution_def get_by_def new_execution_def sample_px_def same_scope_def assistant_of_def new_message_def
      reservation_usage_def new_reservation_usage_def decision_open_def resolve_context_def sample_rq_def
      new_idem_row_def idem_key_def seconds_def LEASE_SECONDS_def body_digest_def)


end
