(* ===== verification/SchemaEngine.thy ===== *)
theory SchemaEngine
  imports Prelude
begin

text \<open>
  The language of the schema revisions under \<^verbatim>\<open>alembic/versions\<close>: the column and table
  declarations of SQLAlchemy, the operations of \<^verbatim>\<open>alembic.op\<close> the revisions call, and what
  they do to a PostgreSQL schema and to the rows it holds.

  A schema is a list of tables in creation order; a table has its columns in order, a set of named
  constraints and a set of named indexes.  \<^verbatim>\<open>ddl\<close> is the effect of one operation on the schema,
  \<^verbatim>\<open>None\<close> where PostgreSQL refuses it.  \<^verbatim>\<open>data_error\<close> and \<^verbatim>\<open>data_effect\<close> are its effect on the
  rows.  \<^verbatim>\<open>run_ops\<close> runs a whole \<^verbatim>\<open>upgrade\<close> or \<^verbatim>\<open>downgrade\<close>; the transaction of
  \<^verbatim>\<open>alembic/env.py\<close> makes a failure leave the database as it was.  Where PostgreSQL is more
  permissive than the rule written here (a \<^verbatim>\<open>type_\<close> that does not match, the choice between two
  unique constraints over the same columns) the operation is refused, so that what is shown of the
  revisions does not rest on it.
\<close>

section \<open>Declarations\<close>

datatype sa_type =
    SaInteger | SaBigInteger | SaBoolean | SaText | SaString "nat option" | SaDateTime bool
  | SaNumeric nat nat | SaVector nat

datatype server_default = DefaultText string | DefaultTrue | DefaultFalse | CurrentTimestamp

datatype col_arg =
    PrimaryKey | UniqueColumn | Indexed | Nullable bool | ServerDefault server_default | References string string

datatype column_decl = Column string sa_type "col_arg list"

text \<open>The conditions of check constraints.\<close>

datatype sql_expr =
    SqlIn string "string list" | SqlEq string string | SqlPositive string
  | SqlIsNull string | SqlIsNotNull string | SqlAnd sql_expr sql_expr | SqlOr sql_expr sql_expr

text \<open>The arguments of \<^verbatim>\<open>op.create_table\<close> after the table's name.\<close>

datatype table_arg =
    Col column_decl
  | UniqueConstraint "string list" string
  | CheckConstraint sql_expr string
  | ForeignKeyConstraint "string list" string "string list" "string option" "string option"

datatype constraint_def =
    Primary "string list"
  | Unique "string list"
  | Check sql_expr
  | Foreign "string list" string "string list" "string option"

datatype constraint_kind = UniqueKind | CheckKind | ForeignKind

datatype op =
    CreateExtension string
  | CreateTable string "table_arg list"
  | DropTable string
  | AddColumn string column_decl
  | DropColumn string string
  | CreateIndex string string "string list"
  | DropIndex string string
  | CreateUnique string string "string list"
  | CreateCheck string string sql_expr
  | CreateForeignKey string string string "string list" "string list" "string option"
  | DropConstraint string string constraint_kind
  | AlterNullable string string bool
  | UpdateFrom string string string string string string
  | RaiseIfNull string string string
  | RaiseIfOrphan string string string string string
  | RaiseIfMismatch string string string string string string string

section \<open>Schemas\<close>

record column =
  col_name :: string
  col_type :: sa_type
  col_nullable :: bool
  col_default :: "server_default option"

record table =
  tab_columns :: "column list"
  tab_constraints :: "(string \<times> constraint_def) set"
  tab_indexes :: "(string \<times> string list) set"

type_synonym schema = "(string \<times> table) list"

fun decl_name :: "column_decl \<Rightarrow> string" where
  "decl_name (Column c ty args) = c"

fun nullable_of :: "bool \<Rightarrow> col_arg list \<Rightarrow> bool" where
  "nullable_of b [] = b"
| "nullable_of b (Nullable b' # args) = nullable_of b' args"
| "nullable_of b (_ # args) = nullable_of b args"

fun default_of :: "col_arg list \<Rightarrow> server_default option" where
  "default_of [] = None"
| "default_of (ServerDefault v # args) = Some v"
| "default_of (_ # args) = default_of args"

text \<open>SQLAlchemy: a column is nullable unless it says so or belongs to the primary key.\<close>

fun declared_column :: "column_decl \<Rightarrow> column" where
  "declared_column (Column c ty args) =
     \<lparr>col_name = c, col_type = ty, col_nullable = nullable_of (PrimaryKey \<notin> set args) args,
      col_default = default_of args\<rparr>"

definition column_names :: "table \<Rightarrow> string list" where
  "column_names t = map col_name (tab_columns t)"

fun find_column :: "column list \<Rightarrow> string \<Rightarrow> column option" where
  "find_column [] c = None"
| "find_column (k # ks) c = (if col_name k = c then Some k else find_column ks c)"

fun lookup_table :: "schema \<Rightarrow> string \<Rightarrow> table option" where
  "lookup_table [] t = None"
| "lookup_table ((t', tab) # s) t = (if t' = t then Some tab else lookup_table s t)"

fun table_columns :: "schema \<Rightarrow> string \<Rightarrow> string list" where
  "table_columns [] t = []"
| "table_columns ((t', tab) # s) t = (if t' = t then column_names tab else table_columns s t)"

fun constraints_of :: "schema \<Rightarrow> string \<Rightarrow> (string \<times> constraint_def) set" where
  "constraints_of [] t = {}"
| "constraints_of ((t', tab) # s) t = (if t' = t then tab_constraints tab else constraints_of s t)"

fun table_exists :: "schema \<Rightarrow> string \<Rightarrow> bool" where
  "table_exists [] t = False"
| "table_exists ((t', tab) # s) t = (t' = t \<or> table_exists s t)"

fun update_table :: "string \<Rightarrow> (table \<Rightarrow> table) \<Rightarrow> schema \<Rightarrow> schema" where
  "update_table t f [] = []"
| "update_table t f ((t', tab) # s) =
     (if t' = t then (t', f tab) # s else (t', tab) # update_table t f s)"

fun is_foreign :: "constraint_def \<Rightarrow> bool" where
  "is_foreign (Foreign cs rt rcs od) = True"
| "is_foreign _ = False"

fun is_key :: "constraint_def \<Rightarrow> bool" where
  "is_key (Primary cs) = True"
| "is_key (Unique cs) = True"
| "is_key _ = False"

fun has_kind :: "constraint_kind \<Rightarrow> constraint_def \<Rightarrow> bool" where
  "has_kind UniqueKind (Unique cs) = True"
| "has_kind CheckKind (Check e) = True"
| "has_kind ForeignKind (Foreign cs rt rcs od) = True"
| "has_kind _ _ = False"

fun expr_columns :: "sql_expr \<Rightarrow> string list" where
  "expr_columns (SqlIn c vs) = [c]"
| "expr_columns (SqlEq c v) = [c]"
| "expr_columns (SqlPositive c) = [c]"
| "expr_columns (SqlIsNull c) = [c]"
| "expr_columns (SqlIsNotNull c) = [c]"
| "expr_columns (SqlAnd a b) = expr_columns a @ expr_columns b"
| "expr_columns (SqlOr a b) = expr_columns a @ expr_columns b"

fun constraint_columns :: "constraint_def \<Rightarrow> string list" where
  "constraint_columns (Primary cs) = cs"
| "constraint_columns (Unique cs) = cs"
| "constraint_columns (Check e) = expr_columns e"
| "constraint_columns (Foreign cs rt rcs od) = cs"

text \<open>Tables, indexes and the constraints that own an index share one name space.\<close>

definition name_in_table :: "table \<Rightarrow> string \<Rightarrow> bool" where
  "name_in_table tab n \<longleftrightarrow> (\<exists>(n', cs)\<in>tab_indexes tab. n' = n) \<or>
     (\<exists>(n', c)\<in>tab_constraints tab. is_key c \<and> n' = n)"

fun relation_taken :: "schema \<Rightarrow> string \<Rightarrow> bool" where
  "relation_taken [] n = False"
| "relation_taken ((t, tab) # s) n = (t = n \<or> name_in_table tab n \<or> relation_taken s n)"

definition name_ok :: "string \<Rightarrow> bool" where
  "name_ok n \<longleftrightarrow> n \<noteq> [] \<and> length n \<le> 63"

fun same_family :: "sa_type \<Rightarrow> sa_type \<Rightarrow> bool" where
  "same_family (SaString a) (SaString b) = True"
| "same_family a b = (a = b)"

fun same_type :: "column option \<Rightarrow> column option \<Rightarrow> bool" where
  "same_type (Some k) (Some rk) = same_family (col_type k) (col_type rk)"
| "same_type _ _ = False"

fun columns_match :: "table \<Rightarrow> string list \<Rightarrow> table \<Rightarrow> string list \<Rightarrow> bool" where
  "columns_match tab [] rtab [] = True"
| "columns_match tab (c # cs) rtab (rc # rcs) =
     (same_type (find_column (tab_columns tab) c) (find_column (tab_columns rtab) rc)
      \<and> columns_match tab cs rtab rcs)"
| "columns_match tab _ rtab _ = False"

definition key_over :: "table \<Rightarrow> string list \<Rightarrow> bool" where
  "key_over tab cs \<longleftrightarrow> (\<exists>(n, c)\<in>tab_constraints tab. is_key c \<and> set (constraint_columns c) = set cs)"

text \<open>A foreign key of the schema that needs a key of table \<^verbatim>\<open>t\<close> over the columns \<^verbatim>\<open>P\<close> accepts.\<close>

fun refers_to :: "string \<Rightarrow> (string list \<Rightarrow> bool) \<Rightarrow> constraint_def \<Rightarrow> bool" where
  "refers_to t P (Foreign cs rt rcs od) = (rt = t \<and> P rcs)"
| "refers_to t P _ = False"

fun referenced :: "schema \<Rightarrow> string \<Rightarrow> (string list \<Rightarrow> bool) \<Rightarrow> bool" where
  "referenced [] t P = False"
| "referenced ((t', tab) # s) t P =
     ((\<exists>(n, c)\<in>tab_constraints tab. refers_to t P c) \<or> referenced s t P)"

section \<open>Operations on the schema\<close>

fun reference_ok :: "table \<Rightarrow> string list \<Rightarrow> table option \<Rightarrow> string list \<Rightarrow> bool" where
  "reference_ok tab cs None rcs = False"
| "reference_ok tab cs (Some rtab) rcs = (columns_match tab cs rtab rcs \<and> key_over rtab rcs)"

fun target_ok :: "constraint_def \<Rightarrow> table \<Rightarrow> schema \<Rightarrow> bool" where
  "target_ok (Foreign cs rt rcs od) tab s = reference_ok tab cs (lookup_table s rt) rcs"
| "target_ok _ tab s = True"

definition constraint_ok :: "string \<Rightarrow> constraint_def \<Rightarrow> table \<Rightarrow> schema \<Rightarrow> bool" where
  "constraint_ok n c tab s \<longleftrightarrow>
     name_ok n \<and> (\<forall>(n', c')\<in>tab_constraints tab. n' \<noteq> n)
     \<and> set (constraint_columns c) \<subseteq> set (column_names tab) \<and> constraint_columns c \<noteq> []
     \<and> (is_key c \<longrightarrow> \<not> relation_taken s n) \<and> target_ok c tab s"

text \<open>
  The rewrites of a table.  Dropping a column drops the table's own constraints and indexes over it.
\<close>

definition with_constraint :: "string \<Rightarrow> constraint_def \<Rightarrow> table \<Rightarrow> table" where
  "with_constraint n c tab = tab\<lparr>tab_constraints := insert (n, c) (tab_constraints tab)\<rparr>"

definition without_constraint :: "string \<Rightarrow> table \<Rightarrow> table" where
  "without_constraint n tab =
     tab\<lparr>tab_constraints := Set.filter (\<lambda>(n', c). n' \<noteq> n) (tab_constraints tab)\<rparr>"

definition with_index :: "string \<Rightarrow> string list \<Rightarrow> table \<Rightarrow> table" where
  "with_index n cs tab = tab\<lparr>tab_indexes := insert (n, cs) (tab_indexes tab)\<rparr>"

definition without_index :: "string \<Rightarrow> table \<Rightarrow> table" where
  "without_index n tab = tab\<lparr>tab_indexes := Set.filter (\<lambda>(n', cs). n' \<noteq> n) (tab_indexes tab)\<rparr>"

definition with_column :: "column_decl \<Rightarrow> table \<Rightarrow> table" where
  "with_column d tab = tab\<lparr>tab_columns := tab_columns tab @ [declared_column d]\<rparr>"

definition without_column :: "string \<Rightarrow> table \<Rightarrow> table" where
  "without_column c tab = tab\<lparr>
     tab_columns := filter (\<lambda>k. col_name k \<noteq> c) (tab_columns tab),
     tab_constraints := Set.filter (\<lambda>(n, d). c \<notin> set (constraint_columns d)) (tab_constraints tab),
     tab_indexes := Set.filter (\<lambda>(n, cs). c \<notin> set cs) (tab_indexes tab)\<rparr>"

definition with_nullable :: "string \<Rightarrow> bool \<Rightarrow> table \<Rightarrow> table" where
  "with_nullable c b tab = tab\<lparr>tab_columns :=
     map (\<lambda>k. if col_name k = c then k\<lparr>col_nullable := b\<rparr> else k) (tab_columns tab)\<rparr>"

text \<open>A change of one table that exists and passes a check; the check sees the whole schema.\<close>

fun change_if :: "bool \<Rightarrow> string \<Rightarrow> (table \<Rightarrow> table) \<Rightarrow> schema \<Rightarrow> schema option" where
  "change_if True t f s = Some (update_table t f s)"
| "change_if False t f s = None"

fun on_table :: "(table \<Rightarrow> schema \<Rightarrow> bool) \<Rightarrow> table option \<Rightarrow> schema \<Rightarrow> bool" where
  "on_table P None s = False"
| "on_table P (Some tab) s = P tab s"

definition change_table ::
  "(table \<Rightarrow> schema \<Rightarrow> bool) \<Rightarrow> string \<Rightarrow> (table \<Rightarrow> table) \<Rightarrow> schema \<Rightarrow> schema option" where
  "change_table P t f s = change_if (on_table P (lookup_table s t) s) t f s"

definition add_constraint :: "string \<Rightarrow> string \<Rightarrow> constraint_def \<Rightarrow> schema \<Rightarrow> schema option" where
  "add_constraint t n c s = change_table (constraint_ok n c) t (with_constraint n c) s"

text \<open>A key that a foreign key of the schema rests on cannot be dropped.\<close>

definition droppable_constraint :: "string \<Rightarrow> string \<Rightarrow> constraint_kind \<Rightarrow> table \<Rightarrow> schema \<Rightarrow> bool" where
  "droppable_constraint t n k tab s \<longleftrightarrow> (\<exists>(n', c)\<in>tab_constraints tab. n' = n \<and> has_kind k c
     \<and> (is_key c \<longrightarrow> \<not> referenced s t (\<lambda>rcs. set rcs = set (constraint_columns c))))"

definition drop_constraint :: "string \<Rightarrow> string \<Rightarrow> constraint_kind \<Rightarrow> schema \<Rightarrow> schema option" where
  "drop_constraint n t k s = change_table (droppable_constraint t n k) t (without_constraint n) s"

definition index_ok :: "string \<Rightarrow> string list \<Rightarrow> table \<Rightarrow> schema \<Rightarrow> bool" where
  "index_ok n cs tab s \<longleftrightarrow>
     name_ok n \<and> cs \<noteq> [] \<and> set cs \<subseteq> set (column_names tab) \<and> \<not> relation_taken s n"

definition add_index :: "string \<Rightarrow> string \<Rightarrow> string list \<Rightarrow> schema \<Rightarrow> schema option" where
  "add_index n t cs s = change_table (index_ok n cs) t (with_index n cs) s"

definition has_index :: "string \<Rightarrow> table \<Rightarrow> schema \<Rightarrow> bool" where
  "has_index n tab s \<longleftrightarrow> (\<exists>(n', cs)\<in>tab_indexes tab. n' = n)"

definition drop_index :: "string \<Rightarrow> string \<Rightarrow> schema \<Rightarrow> schema option" where
  "drop_index n t s = change_table (has_index n) t (without_index n) s"

text \<open>\<^verbatim>\<open>op.add_column\<close> of a column that carries no key, index or reference of its own.\<close>

fun plain_arg :: "col_arg \<Rightarrow> bool" where
  "plain_arg (Nullable b) = True"
| "plain_arg (ServerDefault v) = True"
| "plain_arg _ = False"

fun column_ok :: "column_decl \<Rightarrow> table \<Rightarrow> schema \<Rightarrow> bool" where
  "column_ok (Column c ty args) tab s =
     (name_ok c \<and> c \<notin> set (column_names tab) \<and> list_all plain_arg args)"

definition add_column :: "string \<Rightarrow> column_decl \<Rightarrow> schema \<Rightarrow> schema option" where
  "add_column t d s = change_table (column_ok d) t (with_column d) s"

definition has_column :: "string \<Rightarrow> table \<Rightarrow> schema \<Rightarrow> bool" where
  "has_column c tab s \<longleftrightarrow> c \<in> set (column_names tab)"

text \<open>A foreign key of the schema that needs the column stops its removal.\<close>

definition droppable_column :: "string \<Rightarrow> string \<Rightarrow> table \<Rightarrow> schema \<Rightarrow> bool" where
  "droppable_column t c tab s \<longleftrightarrow>
     c \<in> set (column_names tab) \<and> \<not> referenced s t (\<lambda>rcs. c \<in> set rcs)"

definition drop_column :: "string \<Rightarrow> string \<Rightarrow> schema \<Rightarrow> schema option" where
  "drop_column t c s = change_table (droppable_column t c) t (without_column c) s"

definition alter_nullable :: "string \<Rightarrow> string \<Rightarrow> bool \<Rightarrow> schema \<Rightarrow> schema option" where
  "alter_nullable t c b s = change_table (has_column c) t (with_nullable c b) s"

fun join_names :: "string list \<Rightarrow> string" where
  "join_names [] = []"
| "join_names [c] = c"
| "join_names (c # cs) = c @ ''_'' @ join_names cs"

text \<open>The name PostgreSQL gives a foreign key the statement does not name.\<close>

definition fkey_name :: "string \<Rightarrow> string list \<Rightarrow> string" where
  "fkey_name t cs = t @ ''_'' @ join_names cs @ ''_fkey''"

text \<open>The name SQLAlchemy gives the index of a column declared with \<^verbatim>\<open>index=True\<close>.\<close>

definition index_name :: "string \<Rightarrow> string \<Rightarrow> string" where
  "index_name t c = ''ix_'' @ t @ ''_'' @ c"

fun arg_columns :: "table_arg list \<Rightarrow> column_decl list" where
  "arg_columns [] = []"
| "arg_columns (Col d # args) = d # arg_columns args"
| "arg_columns (_ # args) = arg_columns args"

fun primary_columns :: "column_decl list \<Rightarrow> string list" where
  "primary_columns [] = []"
| "primary_columns (Column c ty args # ds) =
     (if PrimaryKey \<in> set args then c # primary_columns ds else primary_columns ds)"

fun indexed_columns :: "column_decl list \<Rightarrow> string list" where
  "indexed_columns [] = []"
| "indexed_columns (Column c ty args # ds) =
     (if Indexed \<in> set args then c # indexed_columns ds else indexed_columns ds)"

fun reference_args :: "string \<Rightarrow> string \<Rightarrow> col_arg list \<Rightarrow> (string \<times> constraint_def) list" where
  "reference_args t c [] = []"
| "reference_args t c (References rt rc # args) =
     (fkey_name t [c], Foreign [c] rt [rc] None) # reference_args t c args"
| "reference_args t c (_ # args) = reference_args t c args"

fun arg_constraints :: "string \<Rightarrow> table_arg list \<Rightarrow> (string \<times> constraint_def) list" where
  "arg_constraints t [] = []"
| "arg_constraints t (Col (Column c ty cargs) # args) = reference_args t c cargs @ arg_constraints t args"
| "arg_constraints t (UniqueConstraint cs n # args) = (n, Unique cs) # arg_constraints t args"
| "arg_constraints t (CheckConstraint e n # args) = (n, Check e) # arg_constraints t args"
| "arg_constraints t (ForeignKeyConstraint cs rt rcs n od # args) =
     ((case n of None \<Rightarrow> fkey_name t cs | Some n' \<Rightarrow> n'), Foreign cs rt rcs od) # arg_constraints t args"

definition primary_constraint :: "string \<Rightarrow> column_decl list \<Rightarrow> (string \<times> constraint_def) list" where
  "primary_constraint t ds =
     (if primary_columns ds = [] then [] else [(t @ ''_pkey'', Primary (primary_columns ds))])"

fun add_constraints :: "string \<Rightarrow> (string \<times> constraint_def) list \<Rightarrow> schema option \<Rightarrow> schema option" where
  "add_constraints t cs None = None"
| "add_constraints t [] (Some s) = Some s"
| "add_constraints t ((n, c) # cs) (Some s) = add_constraints t cs (add_constraint t n c s)"

fun add_indexes :: "string \<Rightarrow> string list \<Rightarrow> schema option \<Rightarrow> schema option" where
  "add_indexes t cs None = None"
| "add_indexes t [] (Some s) = Some s"
| "add_indexes t (c # cs) (Some s) = add_indexes t cs (add_index (index_name t c) t [c] s)"

text \<open>
  \<^verbatim>\<open>CREATE TABLE\<close>: the columns, the primary key and the other keys and checks, then the foreign
  keys (which may refer to the new table), then the indexes of the columns that ask for one.
\<close>

definition table_constraints :: "string \<Rightarrow> table_arg list \<Rightarrow> (string \<times> constraint_def) list" where
  "table_constraints t args = primary_constraint t (arg_columns args)
     @ filter (\<lambda>(n, c). \<not> is_foreign c) (arg_constraints t args)
     @ filter (\<lambda>(n, c). is_foreign c) (arg_constraints t args)"

definition new_table :: "column_decl list \<Rightarrow> table" where
  "new_table ds = \<lparr>tab_columns = map declared_column ds, tab_constraints = {}, tab_indexes = {}\<rparr>"

definition create_table :: "string \<Rightarrow> table_arg list \<Rightarrow> schema \<Rightarrow> schema option" where
  "create_table t args s =
     (if name_ok t \<and> \<not> relation_taken s t \<and> distinct (map decl_name (arg_columns args))
         \<and> list_all (name_ok \<circ> decl_name) (arg_columns args)
      then add_indexes t (indexed_columns (arg_columns args))
             (add_constraints t (table_constraints t args) (Some (s @ [(t, new_table (arg_columns args))])))
      else None)"

fun remove_table :: "string \<Rightarrow> schema \<Rightarrow> schema" where
  "remove_table t [] = []"
| "remove_table t ((t', tab) # s) = (if t' = t then remove_table t s else (t', tab) # remove_table t s)"

definition drop_table :: "string \<Rightarrow> schema \<Rightarrow> schema option" where
  "drop_table t s =
     (if table_exists s t \<and> \<not> referenced (remove_table t s) t (\<lambda>rcs. True)
      then Some (remove_table t s) else None)"

definition has_columns :: "schema \<Rightarrow> string \<Rightarrow> string list \<Rightarrow> bool" where
  "has_columns s t cs \<longleftrightarrow> set cs \<subseteq> set (table_columns s t)"

fun ddl :: "op \<Rightarrow> schema \<Rightarrow> schema option" where
  "ddl (CreateExtension x) s = Some s"
| "ddl (CreateTable t args) s = create_table t args s"
| "ddl (DropTable t) s = drop_table t s"
| "ddl (AddColumn t d) s = add_column t d s"
| "ddl (DropColumn t c) s = drop_column t c s"
| "ddl (CreateIndex n t cs) s = add_index n t cs s"
| "ddl (DropIndex n t) s = drop_index n t s"
| "ddl (CreateUnique n t cs) s = add_constraint t n (Unique cs) s"
| "ddl (CreateCheck n t e) s = add_constraint t n (Check e) s"
| "ddl (CreateForeignKey n t rt cs rcs od) s = add_constraint t n (Foreign cs rt rcs od) s"
| "ddl (DropConstraint n t k) s = drop_constraint n t k s"
| "ddl (AlterNullable t c b) s = alter_nullable t c b s"
| "ddl (UpdateFrom t c t' c' k' k) s =
     (if has_columns s t [c, k] \<and> has_columns s t' [c', k'] then Some s else None)"
| "ddl (RaiseIfNull t c m) s = (if has_columns s t [c] then Some s else None)"
| "ddl (RaiseIfOrphan t c t' c' m) s =
     (if has_columns s t [c] \<and> has_columns s t' [c'] then Some s else None)"
| "ddl (RaiseIfMismatch t c k t' c' k' m) s =
     (if has_columns s t [c, k] \<and> has_columns s t' [c', k'] then Some s else None)"

fun ddls :: "op list \<Rightarrow> schema option \<Rightarrow> schema option" where
  "ddls ps None = None"
| "ddls [] (Some s) = Some s"
| "ddls (p # ps) (Some s) = ddls ps (ddl p s)"

section \<open>Rows\<close>

datatype sql_value = SqlInt int | SqlText string | SqlBool bool | SqlTime nat

type_synonym sql_row = "string \<Rightarrow> sql_value option"

type_synonym sql_rows = "string \<Rightarrow> sql_row list"

record database =
  db_schema :: schema
  db_rows :: sql_rows

text \<open>The literal of a default, read by the column's type; the defaults of integer and numeric
  columns are decimal digits.\<close>

fun decimal_value :: "nat \<Rightarrow> string \<Rightarrow> nat" where
  "decimal_value n [] = n"
| "decimal_value n (c # cs) = decimal_value (10 * n + (of_char c - 48)) cs"

fun text_value :: "sa_type \<Rightarrow> string \<Rightarrow> sql_value" where
  "text_value SaInteger v = SqlInt (int (decimal_value 0 v))"
| "text_value SaBigInteger v = SqlInt (int (decimal_value 0 v))"
| "text_value (SaNumeric p q) v = SqlInt (int (decimal_value 0 v))"
| "text_value _ v = SqlText v"

text \<open>The value an existing row gets in a new column: its default, read when the column is added.\<close>

fun default_value :: "nat \<Rightarrow> column_decl \<Rightarrow> sql_value option" where
  "default_value now (Column c ty args) = (case default_of args of
     None \<Rightarrow> None
   | Some (DefaultText v) \<Rightarrow> Some (text_value ty v)
   | Some DefaultTrue \<Rightarrow> Some (SqlBool True)
   | Some DefaultFalse \<Rightarrow> Some (SqlBool False)
   | Some CurrentTimestamp \<Rightarrow> Some (SqlTime now))"

text \<open>SQL's three truth values: \<^verbatim>\<open>None\<close> is unknown, and a check constraint only fails on false.\<close>

fun sql_eval :: "sql_expr \<Rightarrow> sql_row \<Rightarrow> bool option" where
  "sql_eval (SqlIn c vs) r = (case r c of None \<Rightarrow> None | Some v \<Rightarrow> Some (v \<in> SqlText ` set vs))"
| "sql_eval (SqlEq c w) r = (case r c of None \<Rightarrow> None | Some v \<Rightarrow> Some (v = SqlText w))"
| "sql_eval (SqlPositive c) r = (case r c of
     None \<Rightarrow> None | Some v \<Rightarrow> Some (case v of SqlInt i \<Rightarrow> 0 < i | _ \<Rightarrow> False))"
| "sql_eval (SqlIsNull c) r = Some (r c = None)"
| "sql_eval (SqlIsNotNull c) r = Some (r c \<noteq> None)"
| "sql_eval (SqlAnd a b) r = (case (sql_eval a r, sql_eval b r) of
     (Some False, _) \<Rightarrow> Some False
   | (_, Some False) \<Rightarrow> Some False
   | (Some True, Some True) \<Rightarrow> Some True
   | _ \<Rightarrow> None)"
| "sql_eval (SqlOr a b) r = (case (sql_eval a r, sql_eval b r) of
     (Some True, _) \<Rightarrow> Some True
   | (_, Some True) \<Rightarrow> Some True
   | (Some False, Some False) \<Rightarrow> Some False
   | _ \<Rightarrow> None)"

definition tuple_of :: "string list \<Rightarrow> sql_row \<Rightarrow> sql_value option list" where
  "tuple_of cs r = map r cs"

text \<open>Rows with a null in the columns never collide.\<close>

definition unique_ok :: "string list \<Rightarrow> sql_row list \<Rightarrow> bool" where
  "unique_ok cs rs \<longleftrightarrow> distinct (filter (\<lambda>v. None \<notin> set v) (map (tuple_of cs) rs))"

text \<open>A row with a null in its foreign key refers to nothing and is accepted.\<close>

definition fk_ok :: "string list \<Rightarrow> sql_row list \<Rightarrow> string list \<Rightarrow> sql_row list \<Rightarrow> bool" where
  "fk_ok cs rs rcs rrs \<longleftrightarrow>
     list_all (\<lambda>r. None \<in> set (tuple_of cs r) \<or> list_ex (\<lambda>q. tuple_of rcs q = tuple_of cs r) rrs) rs"

fun constraint_holds :: "sql_rows \<Rightarrow> string \<Rightarrow> constraint_def \<Rightarrow> bool" where
  "constraint_holds rows t (Primary cs) =
     (unique_ok cs (rows t) \<and> list_all (\<lambda>r. None \<notin> set (tuple_of cs r)) (rows t))"
| "constraint_holds rows t (Unique cs) = unique_ok cs (rows t)"
| "constraint_holds rows t (Check e) = list_all (\<lambda>r. sql_eval e r \<noteq> Some False) (rows t)"
| "constraint_holds rows t (Foreign cs rt rcs od) = fk_ok cs (rows t) rcs (rows rt)"

definition not_null_holds :: "sql_row list \<Rightarrow> column \<Rightarrow> bool" where
  "not_null_holds rs k \<longleftrightarrow> col_nullable k \<or> list_all (\<lambda>r. r (col_name k) \<noteq> None) rs"

text \<open>The rows obey the schema: no values outside its tables and columns, every constraint holds.\<close>

definition rows_fit :: "schema \<Rightarrow> sql_rows \<Rightarrow> bool" where
  "rows_fit s rows \<longleftrightarrow> (\<forall>t. if table_exists s t
     then \<forall>r\<in>set (rows t). \<forall>c. c \<notin> set (table_columns s t) \<longrightarrow> r c = None
     else rows t = [])"

definition constraints_hold :: "schema \<Rightarrow> sql_rows \<Rightarrow> bool" where
  "constraints_hold s rows \<longleftrightarrow> list_all (\<lambda>(t, tab).
     (\<forall>(n, c)\<in>tab_constraints tab. constraint_holds rows t c)
     \<and> list_all (not_null_holds (rows t)) (tab_columns tab)) s"

definition valid_database :: "database \<Rightarrow> bool" where
  "valid_database d \<longleftrightarrow>
     rows_fit (db_schema d) (db_rows d) \<and> constraints_hold (db_schema d) (db_rows d)"

text \<open>\<^verbatim>\<open>UPDATE t SET c = x.c' FROM t' AS x WHERE x.k' = t.k\<close>\<close>

definition joined :: "string \<Rightarrow> sql_row list \<Rightarrow> sql_value option \<Rightarrow> sql_row option" where
  "joined k' rrs v = find (\<lambda>q. v \<noteq> None \<and> q k' = v) rrs"

definition update_from :: "string \<Rightarrow> string \<Rightarrow> string \<Rightarrow> string \<Rightarrow> sql_row list \<Rightarrow> sql_row \<Rightarrow> sql_row" where
  "update_from c c' k' k rrs r = (case joined k' rrs (r k) of None \<Rightarrow> r | Some q \<Rightarrow> r(c := q c'))"

definition orphan_exists :: "string \<Rightarrow> sql_row list \<Rightarrow> string \<Rightarrow> sql_row list \<Rightarrow> bool" where
  "orphan_exists c rs c' rrs \<longleftrightarrow> list_ex (\<lambda>r. joined c' rrs (r c) = None) rs"

definition mismatch_exists ::
  "string \<Rightarrow> string \<Rightarrow> sql_row list \<Rightarrow> string \<Rightarrow> string \<Rightarrow> sql_row list \<Rightarrow> bool" where
  "mismatch_exists c k rs c' k' rrs \<longleftrightarrow> list_ex (\<lambda>r. list_ex (\<lambda>q.
     r k \<noteq> None \<and> q k' = r k \<and> r c \<noteq> None \<and> q c' \<noteq> None \<and> r c \<noteq> q c') rrs) rs"

datatype migration_error = SchemaRefused op | DataRefused op | Raised string

text \<open>What the rows make of an operation: \<^verbatim>\<open>None\<close> when they accept it.\<close>

fun data_error :: "op \<Rightarrow> sql_rows \<Rightarrow> migration_error option" where
  "data_error (AddColumn t (Column c ty args)) rows =
     (if rows t = [] \<or> nullable_of True args \<or> default_of args \<noteq> None then None
      else Some (DataRefused (AddColumn t (Column c ty args))))"
| "data_error (CreateUnique n t cs) rows =
     (if unique_ok cs (rows t) then None else Some (DataRefused (CreateUnique n t cs)))"
| "data_error (CreateCheck n t e) rows =
     (if list_all (\<lambda>r. sql_eval e r \<noteq> Some False) (rows t) then None
      else Some (DataRefused (CreateCheck n t e)))"
| "data_error (CreateForeignKey n t rt cs rcs od) rows =
     (if fk_ok cs (rows t) rcs (rows rt) then None
      else Some (DataRefused (CreateForeignKey n t rt cs rcs od)))"
| "data_error (AlterNullable t c b) rows =
     (if b \<or> list_all (\<lambda>r. r c \<noteq> None) (rows t) then None
      else Some (DataRefused (AlterNullable t c b)))"
| "data_error (RaiseIfNull t c m) rows =
     (if list_ex (\<lambda>r. r c = None) (rows t) then Some (Raised m) else None)"
| "data_error (RaiseIfOrphan t c t' c' m) rows =
     (if orphan_exists c (rows t) c' (rows t') then Some (Raised m) else None)"
| "data_error (RaiseIfMismatch t c k t' c' k' m) rows =
     (if mismatch_exists c k (rows t) c' k' (rows t') then Some (Raised m) else None)"
| "data_error _ rows = None"

fun data_effect :: "nat \<Rightarrow> op \<Rightarrow> sql_rows \<Rightarrow> sql_rows" where
  "data_effect now (CreateTable t args) rows = rows(t := [])"
| "data_effect now (DropTable t) rows = rows(t := [])"
| "data_effect now (AddColumn t d) rows =
     rows(t := map (\<lambda>r. r(decl_name d := default_value now d)) (rows t))"
| "data_effect now (DropColumn t c) rows = rows(t := map (\<lambda>r. r(c := None)) (rows t))"
| "data_effect now (UpdateFrom t c t' c' k' k) rows =
     rows(t := map (update_from c c' k' k (rows t')) (rows t))"
| "data_effect now _ rows = rows"

definition run_op :: "nat \<Rightarrow> op \<Rightarrow> database \<Rightarrow> migration_error + database" where
  "run_op now p d = (case ddl p (db_schema d) of
     None \<Rightarrow> Inl (SchemaRefused p)
   | Some s' \<Rightarrow> (case data_error p (db_rows d) of
       Some e \<Rightarrow> Inl e
     | None \<Rightarrow> Inr \<lparr>db_schema = s', db_rows = data_effect now p (db_rows d)\<rparr>))"

fun run_ops :: "nat \<Rightarrow> op list \<Rightarrow> database \<Rightarrow> migration_error + database" where
  "run_ops now [] d = Inr d"
| "run_ops now (p # ps) d = (case run_op now p d of Inl e \<Rightarrow> Inl e | Inr d' \<Rightarrow> run_ops now ps d')"

section \<open>Revisions\<close>

record revision =
  rev_id :: string
  down_revision :: "string option"
  upgrade :: "op list"
  downgrade :: "op list"

text \<open>
  Whether every operation of a step leaves the cells of the tables and columns of schema \<^verbatim>\<open>s\<close>
  alone, and whether one is accepted by any rows that satisfy \<^verbatim>\<open>s\<close>.
\<close>

fun keeps_cells :: "schema \<Rightarrow> op \<Rightarrow> bool" where
  "keeps_cells s (CreateTable t args) = (\<not> table_exists s t)"
| "keeps_cells s (DropTable t) = (\<not> table_exists s t)"
| "keeps_cells s (AddColumn t d) = (decl_name d \<notin> set (table_columns s t))"
| "keeps_cells s (DropColumn t c) = (c \<notin> set (table_columns s t))"
| "keeps_cells s (UpdateFrom t c t' c' k' k) = (c \<notin> set (table_columns s t))"
| "keeps_cells s _ = True"

fun accepted_by_rows :: "schema \<Rightarrow> op \<Rightarrow> bool" where
  "accepted_by_rows s (AddColumn t d) = False"
| "accepted_by_rows s (CreateUnique n t cs) = False"
| "accepted_by_rows s (CreateCheck n t e) = False"
| "accepted_by_rows s (AlterNullable t c b) = False"
| "accepted_by_rows s (RaiseIfNull t c m) = False"
| "accepted_by_rows s (RaiseIfOrphan t c t' c' m) = False"
| "accepted_by_rows s (RaiseIfMismatch t c k t' c' k' m) = False"
| "accepted_by_rows s (CreateForeignKey n t rt cs rcs od) =
     (table_exists s t \<and> table_exists s rt \<and> set cs \<subseteq> set (table_columns s t)
      \<and> set rcs \<subseteq> set (table_columns s rt) \<and> (\<exists>(n', c)\<in>constraints_of s t.
          case c of Foreign cs' rt' rcs' od' \<Rightarrow> cs' = cs \<and> rt' = rt \<and> rcs' = rcs | _ \<Rightarrow> False))"
| "accepted_by_rows s _ = True"

fun restores :: "schema \<Rightarrow> revision \<Rightarrow> schema option \<Rightarrow> bool" where
  "restores s r None = False"
| "restores s r (Some s') = (ddls (downgrade r) (Some s') = Some s)"

definition reversible :: "schema \<Rightarrow> revision \<Rightarrow> bool" where
  "reversible s r \<longleftrightarrow> distinct (map fst s)
     \<and> list_all (keeps_cells s) (upgrade r) \<and> list_all (keeps_cells s) (downgrade r)
     \<and> list_all (accepted_by_rows s) (downgrade r) \<and> restores s r (ddls (upgrade r) (Some s))"

fun chain_reversible :: "schema option \<Rightarrow> revision list \<Rightarrow> bool" where
  "chain_reversible None rs = False"
| "chain_reversible (Some s) [] = True"
| "chain_reversible (Some s) (r # rs) =
     (reversible s r \<and> chain_reversible (ddls (upgrade r) (Some s)) rs)"

fun upgrades :: "revision list \<Rightarrow> schema option \<Rightarrow> schema option" where
  "upgrades [] s = s"
| "upgrades (r # rs) s = upgrades rs (ddls (upgrade r) s)"

section \<open>Evaluation\<close>

text \<open>
  Code equations for running whole revisions in the kernel: they scan a schema without the lazy
  conditionals of the definitions, which would make the simplifier walk the rest of the schema
  again at every step.
\<close>

fun both :: "bool \<Rightarrow> bool \<Rightarrow> bool" where
  "both True b = b"
| "both False b = False"

fun either_of :: "bool \<Rightarrow> bool \<Rightarrow> bool" where
  "either_of True b = True"
| "either_of False b = b"

fun pick :: "bool \<Rightarrow> 'a \<Rightarrow> 'a \<Rightarrow> 'a" where
  "pick True a b = a"
| "pick False a b = b"

lemma both_and: "both a b = (a \<and> b)"
  by (cases a) simp_all

lemma either_of_or: "either_of a b = (a \<or> b)"
  by (cases a) simp_all

lemma pick_if: "pick c a b = (if c then a else b)"
  by (cases c) simp_all

definition update_from_here ::
  "bool \<Rightarrow> string \<Rightarrow> table \<Rightarrow> string \<Rightarrow> (table \<Rightarrow> table) \<Rightarrow> schema \<Rightarrow> schema" where
  "update_from_here found t' tab t f s =
     (if found then (t', f tab) # s else (t', tab) # update_table t f s)"

fun cons_if :: "bool \<Rightarrow> 'a \<Rightarrow> 'a list \<Rightarrow> 'a list" where
  "cons_if True x xs = x # xs"
| "cons_if False x xs = xs"

text \<open>Equality of strings stops at the first difference.\<close>

definition same_tail :: "bool \<Rightarrow> 'a list \<Rightarrow> 'a list \<Rightarrow> bool" where
  "same_tail here xs ys \<longleftrightarrow> here \<and> xs = ys"

lemma same_tail_code [code]:
  "same_tail True xs ys = (xs = ys)"
  "same_tail False xs ys = False"
  by (simp_all add: same_tail_def)

lemma equal_list_code [code]:
  "HOL.equal [] [] = True"
  "HOL.equal [] (y # ys) = False"
  "HOL.equal (x # xs) [] = False"
  "HOL.equal (x # xs) (y # ys) = same_tail (x = y) xs ys"
  by (simp_all add: same_tail_def equal_eq)

lemma equal_char_code [code]:
  "HOL.equal (Char a0 a1 a2 a3 a4 a5 a6 a7) (Char b0 b1 b2 b3 b4 b5 b6 b7) =
     both (a0 = b0) (both (a1 = b1) (both (a2 = b2) (both (a3 = b3)
       (both (a4 = b4) (both (a5 = b5) (both (a6 = b6) (a7 = b7)))))))"
  by (simp add: both_and equal_eq)

lemma lookup_table_code [code]:
  "lookup_table [] t = None"
  "lookup_table ((t', tab) # s) t = pick (t' = t) (Some tab) (lookup_table s t)"
  by (simp_all add: pick_if)

lemma table_columns_code [code]:
  "table_columns [] t = []"
  "table_columns ((t', tab) # s) t = pick (t' = t) (column_names tab) (table_columns s t)"
  by (simp_all add: pick_if)

lemma constraints_of_code [code]:
  "constraints_of [] t = {}"
  "constraints_of ((t', tab) # s) t = pick (t' = t) (tab_constraints tab) (constraints_of s t)"
  by (simp_all add: pick_if)

lemma table_exists_code [code]:
  "table_exists [] t = False"
  "table_exists ((t', tab) # s) t = either_of (t' = t) (table_exists s t)"
  by (simp_all add: either_of_or)

lemma relation_taken_code [code]:
  "relation_taken [] n = False"
  "relation_taken ((t, tab) # s) n = either_of (t = n) (either_of (name_in_table tab n) (relation_taken s n))"
  by (simp_all add: either_of_or)

lemma referenced_code [code]:
  "referenced [] t P = False"
  "referenced ((t', tab) # s) t P =
     either_of (\<exists>(n, c)\<in>tab_constraints tab. refers_to t P c) (referenced s t P)"
  by (simp_all add: either_of_or)

lemma update_from_here_code [code]:
  "update_from_here True t' tab t f s = (t', f tab) # s"
  "update_from_here False t' tab t f s = (t', tab) # update_table t f s"
  by (simp_all add: update_from_here_def)

lemma update_table_code [code]:
  "update_table t f [] = []"
  "update_table t f ((t', tab) # s) = update_from_here (t' = t) t' tab t f s"
  by (simp_all add: update_from_here_def)

lemma remove_table_code [code]:
  "remove_table t [] = []"
  "remove_table t ((t', tab) # s) = cons_if (t' \<noteq> t) (t', tab) (remove_table t s)"
  by (cases "t' = t"; simp)+

lemma constraint_ok_code [code]:
  "constraint_ok n c tab s =
     both (name_ok n) (both (\<forall>(n', c')\<in>tab_constraints tab. n' \<noteq> n)
       (both (set (constraint_columns c) \<subseteq> set (column_names tab)) (both (constraint_columns c \<noteq> [])
         (both (either_of (\<not> is_key c) (\<not> relation_taken s n)) (target_ok c tab s)))))"
  by (auto simp: constraint_ok_def both_and either_of_or)

lemma index_ok_code [code]:
  "index_ok n cs tab s = both (name_ok n) (both (cs \<noteq> [])
     (both (set cs \<subseteq> set (column_names tab)) (\<not> relation_taken s n)))"
  by (auto simp: index_ok_def both_and)

lemma droppable_column_code [code]:
  "droppable_column t c tab s =
     both (c \<in> set (column_names tab)) (\<not> referenced s t (\<lambda>rcs. c \<in> set rcs))"
  by (auto simp: droppable_column_def both_and)

lemma create_table_code [code]:
  "create_table t args s =
     pick (both (name_ok t) (both (\<not> relation_taken s t) (both (distinct (map decl_name (arg_columns args)))
         (list_all (name_ok \<circ> decl_name) (arg_columns args)))))
      (add_indexes t (indexed_columns (arg_columns args))
             (add_constraints t (table_constraints t args) (Some (s @ [(t, new_table (arg_columns args))]))))
      None"
  by (simp add: create_table_def both_and pick_if)

lemma drop_table_code [code]:
  "drop_table t s =
     pick (both (table_exists s t) (\<not> referenced (remove_table t s) t (\<lambda>rcs. True)))
       (Some (remove_table t s)) None"
  by (simp add: drop_table_def both_and pick_if)

fun same_schema :: "schema \<Rightarrow> schema \<Rightarrow> bool" where
  "same_schema [] [] = True"
| "same_schema ((t, tab) # s) ((t', tab') # s') = both (t = t') (both (tab = tab') (same_schema s s'))"
| "same_schema _ _ = False"

fun same_result :: "schema option \<Rightarrow> schema \<Rightarrow> bool" where
  "same_result None s = False"
| "same_result (Some s') s = same_schema s' s"

lemma same_schema_eq: "same_schema s s' = (s = s')"
  by (induction s s' rule: same_schema.induct) (auto simp: both_and)

lemma same_result_eq: "same_result r s = (r = Some s)"
  by (cases r) (auto simp: same_schema_eq)

lemma restores_code [code]:
  "restores s r None = False"
  "restores s r (Some s') = same_result (ddls (downgrade r) (Some s')) s"
  by (simp_all add: same_result_eq)

definition step_reversible :: "schema \<Rightarrow> revision \<Rightarrow> schema option \<Rightarrow> bool" where
  "step_reversible s r s' \<longleftrightarrow> distinct (map fst s)
     \<and> list_all (keeps_cells s) (upgrade r) \<and> list_all (keeps_cells s) (downgrade r)
     \<and> list_all (accepted_by_rows s) (downgrade r) \<and> restores s r s'"

lemma step_reversible_code [code]:
  "step_reversible s r s' = both (distinct (map fst s)) (both (list_all (keeps_cells s) (upgrade r))
     (both (list_all (keeps_cells s) (downgrade r)) (both (list_all (accepted_by_rows s) (downgrade r))
       (restores s r s'))))"
  by (simp add: step_reversible_def both_and)

definition chain_next :: "schema \<Rightarrow> revision \<Rightarrow> schema option \<Rightarrow> revision list \<Rightarrow> bool" where
  "chain_next s r s' rs = both (step_reversible s r s') (chain_reversible s' rs)"

lemma chain_reversible_code [code]:
  "chain_reversible None rs = False"
  "chain_reversible (Some s) [] = True"
  "chain_reversible (Some s) (r # rs) = chain_next s r (ddls (upgrade r) (Some s)) rs"
  by (simp_all add: chain_next_def step_reversible_def reversible_def both_and)

lemma member_code [code]:
  "List.member [] x = False"
  "List.member (y # ys) x = either_of (x = y) (List.member ys x)"
  by (auto simp: either_of_or)

lemma list_ex_code [code]:
  "list_ex P [] = False"
  "list_ex P (x # xs) = either_of (P x) (list_ex P xs)"
  by (simp_all add: either_of_or)

lemma list_all_code [code]:
  "list_all P [] = True"
  "list_all P (x # xs) = both (P x) (list_all P xs)"
  by (simp_all add: both_and)

end
