(* ===== verification/MigrationLaws.thy ===== *)
theory MigrationLaws
  imports SchemaEngine
begin

text \<open>
  What the schema operations do to the shape of a schema and to its rows: an operation that leaves
  the cells of a schema alone leaves its rows alone, rows keep fitting the schema as it changes, and
  so a downgrade that restores the schema restores the rows.
\<close>

named_theorems shape_simps "tables and columns after a change of one table"

section \<open>Tables and columns\<close>

lemma table_exists_update [shape_simps]: "table_exists (update_table t f s) t' = table_exists s t'"
proof (induction s)
  case (Cons a s)
  then show ?case by (cases a) simp
qed simp

lemma lookup_table_exists: "lookup_table s t = Some tab \<Longrightarrow> table_exists s t"
  by (induction s) (auto split: if_splits)

lemma lookup_table_columns: "lookup_table s t = Some tab \<Longrightarrow> table_columns s t = column_names tab"
  by (induction s) (auto split: if_splits)

lemma table_columns_update [shape_simps]:
  "table_columns (update_table t f s) t' =
     (case lookup_table s t of
        Some tab \<Rightarrow> if t' = t then column_names (f tab) else table_columns s t'
      | None \<Rightarrow> table_columns s t')"
proof (induction s)
  case (Cons a s)
  then show ?case by (cases a) (simp split: option.split)
qed simp

lemma table_exists_remove [shape_simps]:
  "table_exists (remove_table t s) t' = (t' \<noteq> t \<and> table_exists s t')"
proof (induction s)
  case (Cons a s)
  then show ?case by (cases a) auto
qed simp

lemma table_columns_remove [shape_simps]:
  "t' \<noteq> t \<Longrightarrow> table_columns (remove_table t s) t' = table_columns s t'"
proof (induction s)
  case (Cons a s)
  then show ?case by (cases a) auto
qed simp

lemma table_exists_append [shape_simps]:
  "table_exists (s @ s') t = (table_exists s t \<or> table_exists s' t)"
  by (induction s) auto

lemma table_columns_append [shape_simps]:
  "table_columns (s @ s') t = (if table_exists s t then table_columns s t else table_columns s' t)"
  by (induction s) auto

lemma table_exists_taken: "table_exists s t \<Longrightarrow> relation_taken s t"
  by (induction s) auto

lemma change_tableD:
  assumes "change_table P t f s = Some s'"
  obtains tab where "lookup_table s t = Some tab" "P tab s" "s' = update_table t f s"
proof (cases "lookup_table s t")
  case None
  then show thesis using assms by (simp add: change_table_def)
next
  case (Some tab)
  then show thesis using assms that by (cases "P tab s") (simp_all add: change_table_def)
qed

lemma column_names_same [shape_simps]:
  "column_names (with_constraint n c tab) = column_names tab"
  "column_names (without_constraint n tab) = column_names tab"
  "column_names (with_index n cs tab) = column_names tab"
  "column_names (without_index n tab) = column_names tab"
  "column_names (with_nullable c' b tab) = column_names tab"
  by (simp_all add: column_names_def with_constraint_def without_constraint_def with_index_def
      without_index_def with_nullable_def comp_def if_distrib cong: if_cong)

lemma declared_column_name: "col_name (declared_column d) = decl_name d"
  by (cases d) simp

lemma column_names_changed [shape_simps]:
  "column_names (with_column d tab) = column_names tab @ [decl_name d]"
  "column_names (without_column c tab) = filter (\<lambda>c'. c' \<noteq> c) (column_names tab)"
  by (simp_all add: column_names_def with_column_def without_column_def declared_column_name
      filter_map comp_def)

text \<open>Two schemas of the same shape have the same tables with the same columns.\<close>

definition same_shape :: "schema \<Rightarrow> schema \<Rightarrow> bool" where
  "same_shape s s' \<longleftrightarrow>
     (\<forall>t. table_exists s' t = table_exists s t \<and> set (table_columns s' t) = set (table_columns s t))"

lemma same_shape_refl: "same_shape s s"
  by (simp add: same_shape_def)

lemma same_shape_trans: "same_shape s s' \<Longrightarrow> same_shape s' s'' \<Longrightarrow> same_shape s s''"
  by (simp add: same_shape_def)

lemma change_same_shape:
  assumes "change_table P t f s = Some s'"
    and "\<And>tab. column_names (f tab) = column_names tab"
  shows "same_shape s s'"
proof -
  obtain tab where tab: "lookup_table s t = Some tab" "s' = update_table t f s"
    using assms(1) by (rule change_tableD)
  then show ?thesis
    by (auto simp: same_shape_def shape_simps assms(2) lookup_table_columns)
qed

lemma constraint_same_shape: "add_constraint t n c s = Some s' \<Longrightarrow> same_shape s s'"
  unfolding add_constraint_def by (erule change_same_shape) (simp add: shape_simps)

lemma index_same_shape: "add_index n t cs s = Some s' \<Longrightarrow> same_shape s s'"
  unfolding add_index_def by (erule change_same_shape) (simp add: shape_simps)

lemma add_constraints_same_shape:
  "add_constraints t cs (Some s) = Some s' \<Longrightarrow> same_shape s s'"
proof (induction t cs "Some s" arbitrary: s rule: add_constraints.induct)
  case (3 t n c cs s)
  then obtain s1 where "add_constraint t n c s = Some s1" "add_constraints t cs (Some s1) = Some s'"
    by (cases "add_constraint t n c s") auto
  with 3 show ?case
    using constraint_same_shape same_shape_trans by metis
qed (simp add: same_shape_refl)

lemma add_indexes_same_shape: "add_indexes t cs (Some s) = Some s' \<Longrightarrow> same_shape s s'"
proof (induction t cs "Some s" arbitrary: s rule: add_indexes.induct)
  case (3 t c cs s)
  then obtain s1 where "add_index (index_name t c) t [c] s = Some s1" "add_indexes t cs (Some s1) = Some s'"
    by (cases "add_index (index_name t c) t [c] s") auto
  with 3 show ?case
    using index_same_shape same_shape_trans by metis
qed (simp add: same_shape_refl)

lemma create_table_shape:
  assumes "create_table t args s = Some s'"
  shows "\<not> table_exists s t"
    and "same_shape (s @ [(t, new_table (arg_columns args))]) s'"
proof -
  let ?s = "s @ [(t, new_table (arg_columns args))]"
  from assms show "\<not> table_exists s t"
    by (auto simp: create_table_def dest: table_exists_taken split: if_splits)
  from assms have made: "add_indexes t (indexed_columns (arg_columns args))
      (add_constraints t (table_constraints t args) (Some ?s)) = Some s'"
    by (simp add: create_table_def split: if_splits)
  then obtain s1 where s1: "add_constraints t (table_constraints t args) (Some ?s) = Some s1"
    and s2: "add_indexes t (indexed_columns (arg_columns args)) (Some s1) = Some s'"
    by (cases "add_constraints t (table_constraints t args) (Some ?s)") auto
  from add_constraints_same_shape [OF s1] add_indexes_same_shape [OF s2]
  show "same_shape ?s s'"
    by (rule same_shape_trans)
qed

section \<open>Rows\<close>

lemma rows_fit_shape: "same_shape s s' \<Longrightarrow> rows_fit s' rows = rows_fit s rows"
  by (simp add: rows_fit_def same_shape_def)

lemma rows_fitI:
  assumes "\<And>t. \<not> table_exists s t \<Longrightarrow> rows t = []"
    and "\<And>t r c. table_exists s t \<Longrightarrow> r \<in> set (rows t) \<Longrightarrow> c \<notin> set (table_columns s t) \<Longrightarrow> r c = None"
  shows "rows_fit s rows"
  using assms by (simp add: rows_fit_def)

lemma rows_fitD:
  assumes "rows_fit s rows"
  shows "\<not> table_exists s t \<Longrightarrow> rows t = []"
    and "r \<in> set (rows t) \<Longrightarrow> c \<notin> set (table_columns s t) \<Longrightarrow> r c = None"
  using assms by (auto simp: rows_fit_def split: if_splits) (metis empty_iff list.set(1))+

lemma create_table_fit:
  assumes "create_table t args s = Some s'" "rows_fit s rows"
  shows "rows_fit s' (rows(t := []))"
  unfolding rows_fit_shape [OF create_table_shape(2) [OF assms(1)]]
  using create_table_shape(1) [OF assms(1)] rows_fitD [OF assms(2)]
  by (intro rows_fitI) (auto simp: shape_simps split: if_splits)

lemma drop_table_fit:
  assumes "drop_table t s = Some s'" "rows_fit s rows"
  shows "rows_fit s' (rows(t := []))"
  using assms(1) rows_fitD [OF assms(2)]
  by (intro rows_fitI) (auto simp: drop_table_def shape_simps split: if_splits)

lemma add_column_fit:
  assumes "add_column t d s = Some s'" "rows_fit s rows"
  shows "rows_fit s' (rows(t := map (\<lambda>r. r(decl_name d := v)) (rows t)))"
proof -
  obtain tab where tab: "lookup_table s t = Some tab" "s' = update_table t (with_column d) s"
    using assms(1) unfolding add_column_def by (rule change_tableD)
  then show ?thesis
    using rows_fitD [OF assms(2)] lookup_table_exists [OF tab(1)] lookup_table_columns [OF tab(1)]
    by (intro rows_fitI) (auto simp: shape_simps split: if_splits)
qed

lemma drop_column_fit:
  assumes "drop_column t c s = Some s'" "rows_fit s rows"
  shows "rows_fit s' (rows(t := map (\<lambda>r. r(c := None)) (rows t)))"
proof -
  obtain tab where tab: "lookup_table s t = Some tab" "s' = update_table t (without_column c) s"
    using assms(1) unfolding drop_column_def by (rule change_tableD)
  then show ?thesis
    using rows_fitD [OF assms(2)] lookup_table_exists [OF tab(1)] lookup_table_columns [OF tab(1)]
    by (intro rows_fitI) (auto simp: shape_simps split: if_splits)
qed

lemma update_from_column: "c'' \<noteq> c \<Longrightarrow> update_from c c' k' k rrs r c'' = r c''"
  by (simp add: update_from_def split: option.splits)

lemma update_from_fit:
  assumes "c \<in> set (table_columns s t)" "rows_fit s rows"
  shows "rows_fit s (rows(t := map (update_from c c' k' k rrs) (rows t)))"
  using assms(1) rows_fitD [OF assms(2)]
  by (intro rows_fitI) (auto simp: update_from_column split: if_splits, metis update_from_column)

lemma same_shape_ops:
  "drop_constraint n t kd s = Some s' \<Longrightarrow> same_shape s s'"
  "drop_index n t s = Some s' \<Longrightarrow> same_shape s s'"
  "alter_nullable t c b s = Some s' \<Longrightarrow> same_shape s s'"
  unfolding drop_constraint_def drop_index_def alter_nullable_def
  by (erule change_same_shape, simp add: shape_simps)+

lemmas shape_kept = constraint_same_shape index_same_shape same_shape_ops

lemma ddl_rows_fit:
  assumes "ddl p s = Some s'" "rows_fit s rows"
  shows "rows_fit s' (data_effect now p rows)"
  using assms
proof (cases p)
  case (UpdateFrom t c t' c' k' k)
  with assms show ?thesis
    using update_from_fit [of c s t rows] by (auto simp: has_columns_def split: if_splits)
qed (auto simp: has_columns_def create_table_fit drop_table_fit add_column_fit drop_column_fit
      rows_fit_shape shape_kept split: if_splits dest: shape_kept)

text \<open>Two sets of rows with the same values in the tables and columns of a schema.\<close>

definition same_cells :: "schema \<Rightarrow> string \<Rightarrow> sql_row \<Rightarrow> sql_row \<Rightarrow> bool" where
  "same_cells s t r r' \<longleftrightarrow> (\<forall>c\<in>set (table_columns s t). r c = r' c)"

definition agree_on :: "schema \<Rightarrow> sql_rows \<Rightarrow> sql_rows \<Rightarrow> bool" where
  "agree_on s rows rows' \<longleftrightarrow>
     (\<forall>t. table_exists s t \<longrightarrow> list_all2 (same_cells s t) (rows t) (rows' t))"

lemma agree_on_refl: "agree_on s rows rows"
  by (simp add: agree_on_def same_cells_def list.rel_refl)

lemma same_cells_trans: "same_cells s t r r' \<Longrightarrow> same_cells s t r' r'' \<Longrightarrow> same_cells s t r r''"
  by (simp add: same_cells_def)

lemma agree_on_trans:
  assumes "agree_on s rows rows'" "agree_on s rows' rows''"
  shows "agree_on s rows rows''"
  unfolding agree_on_def
proof (intro allI impI)
  fix t
  assume "table_exists s t"
  then have "list_all2 (same_cells s t) (rows t) (rows' t)" "list_all2 (same_cells s t) (rows' t) (rows'' t)"
    using assms by (simp_all add: agree_on_def)
  then show "list_all2 (same_cells s t) (rows t) (rows'' t)"
    using list_all2_trans [of "same_cells s t" "same_cells s t" "same_cells s t"] same_cells_trans by blast
qed

lemma agree_on_map:
  assumes "\<And>r. same_cells s t r (f r)"
  shows "agree_on s rows (rows(t := map f (rows t)))"
  using assms agree_on_refl [of s rows] by (auto simp: agree_on_def list.rel_map list_all2_same)

lemma no_columns: "\<not> table_exists s t \<Longrightarrow> table_columns s t = []"
  by (induction s) auto

lemma effect_agrees:
  assumes "keeps_cells s p"
  shows "agree_on s rows (data_effect now p rows)"
  using assms
proof (cases p)
  case (UpdateFrom t c t' c' k' k)
  with assms show ?thesis
    by (auto intro!: agree_on_map simp: same_cells_def) (metis update_from_column)
next
  case (AddColumn t d)
  with assms show ?thesis by (auto intro!: agree_on_map simp: same_cells_def)
next
  case (DropColumn t c)
  with assms show ?thesis by (auto intro!: agree_on_map simp: same_cells_def)
next
  case (CreateTable t args)
  with assms agree_on_refl [of s rows] show ?thesis by (auto simp: agree_on_def)
next
  case (DropTable t)
  with assms agree_on_refl [of s rows] show ?thesis by (auto simp: agree_on_def)
qed (simp_all add: agree_on_refl)

lemma agreeing_rows_fit:
  assumes "agree_on s rows rows'" "rows_fit s rows" "rows_fit s rows'"
  shows "rows = rows'"
proof
  fix t
  show "rows t = rows' t"
  proof (cases "table_exists s t")
    case True
    have "r = r'" if "r \<in> set (rows t)" "r' \<in> set (rows' t)" "same_cells s t r r'" for r r'
      using that rows_fitD(2) [OF assms(2)] rows_fitD(2) [OF assms(3)]
      by (metis ext same_cells_def)
    moreover have "list_all2 (same_cells s t) (rows t) (rows' t)"
      using assms(1) True by (simp add: agree_on_def)
    ultimately have "list_all2 (=) (rows t) (rows' t)"
      by (rule list.rel_mono_strong [rotated]) blast
    then show ?thesis by (simp add: list.rel_eq)
  next
    case False
    then show ?thesis using rows_fitD(1) [OF assms(2)] rows_fitD(1) [OF assms(3)] by simp
  qed
qed

section \<open>Runs\<close>

lemma run_ops_append:
  "run_ops now (ps @ qs) d = (case run_ops now ps d of Inl e \<Rightarrow> Inl e | Inr d' \<Rightarrow> run_ops now qs d')"
  by (induction ps arbitrary: d) (auto split: sum.splits)

lemma run_op_done:
  "run_op now p d = Inr d' \<longleftrightarrow> ddl p (db_schema d) = Some (db_schema d') \<and>
     data_error p (db_rows d) = None \<and> db_rows d' = data_effect now p (db_rows d)"
  by (cases d') (auto simp: run_op_def split: option.splits)

lemma run_ops_schema:
  "run_ops now ps d = Inr d' \<Longrightarrow> ddls ps (Some (db_schema d)) = Some (db_schema d')"
proof (induction ps arbitrary: d)
  case (Cons p ps)
  then show ?case by (auto simp: run_op_done split: sum.splits)
qed simp

lemma run_ops_fit:
  "run_ops now ps d = Inr d' \<Longrightarrow> rows_fit (db_schema d) (db_rows d) \<Longrightarrow>
    rows_fit (db_schema d') (db_rows d')"
proof (induction ps arbitrary: d)
  case (Cons p ps)
  then obtain d1 where d1: "run_op now p d = Inr d1" "run_ops now ps d1 = Inr d'"
    by (auto split: sum.splits)
  with Cons.prems(2) have "rows_fit (db_schema d1) (db_rows d1)"
    using ddl_rows_fit [of p "db_schema d" "db_schema d1" "db_rows d" now] by (simp add: run_op_done)
  with d1(2) show ?case by (rule Cons.IH)
qed simp

lemma run_ops_agree:
  "run_ops now ps d = Inr d' \<Longrightarrow> list_all (keeps_cells s) ps \<Longrightarrow> agree_on s (db_rows d) (db_rows d')"
proof (induction ps arbitrary: d)
  case (Cons p ps)
  then obtain d1 where d1: "run_op now p d = Inr d1" "run_ops now ps d1 = Inr d'"
    by (auto split: sum.splits)
  have "agree_on s (db_rows d) (db_rows d1)"
    using Cons.prems(2) d1(1) by (simp add: run_op_done effect_agrees)
  moreover have "agree_on s (db_rows d1) (db_rows d')"
    using Cons.IH [OF d1(2)] Cons.prems(2) by simp
  ultimately show ?case by (rule agree_on_trans)
qed (simp add: agree_on_refl)

lemma same_tuple:
  "same_cells s t r r' \<Longrightarrow> set cs \<subseteq> set (table_columns s t) \<Longrightarrow> tuple_of cs r = tuple_of cs r'"
  by (auto simp: same_cells_def tuple_of_def)

lemma fk_ok_agree:
  assumes "agree_on s rows rows'" "fk_ok cs (rows t) rcs (rows rt)"
    and "table_exists s t" "table_exists s rt"
    and "set cs \<subseteq> set (table_columns s t)" "set rcs \<subseteq> set (table_columns s rt)"
  shows "fk_ok cs (rows' t) rcs (rows' rt)"
  unfolding fk_ok_def list_all_iff
proof
  fix r'
  assume "r' \<in> set (rows' t)"
  with assms(1,3) obtain r where r: "r \<in> set (rows t)" "same_cells s t r r'"
    unfolding agree_on_def by (metis in_set_conv_nth list_all2_conv_all_nth)
  have eq: "tuple_of cs r = tuple_of cs r'"
    using same_tuple [OF r(2) assms(5)] .
  from r(1) assms(2) consider "None \<in> set (tuple_of cs r)"
    | q where "q \<in> set (rows rt)" "tuple_of rcs q = tuple_of cs r"
    by (auto simp: fk_ok_def list_all_iff list_ex_iff)
  then show "None \<in> set (tuple_of cs r') \<or> list_ex (\<lambda>q. tuple_of rcs q = tuple_of cs r') (rows' rt)"
  proof cases
    case 2
    with assms(1,4) obtain q' where "q' \<in> set (rows' rt)" "same_cells s rt q q'"
      unfolding agree_on_def by (metis in_set_conv_nth list_all2_conv_all_nth)
    moreover from same_tuple [OF this(2) assms(6)] 2(2) eq have "tuple_of rcs q' = tuple_of cs r'"
      by simp
    ultimately show ?thesis
      by (auto simp: list_ex_iff)
  qed (simp add: eq)
qed

lemma constraint_holds_of:
  assumes "constraints_hold s rows" "(n, c) \<in> constraints_of s t"
  shows "constraint_holds rows t c"
  using assms by (induction s) (auto simp: constraints_hold_def split: if_splits)

lemma accepted_no_error:
  assumes "accepted_by_rows s p" "constraints_hold s rows" "agree_on s rows rows'"
  shows "data_error p rows' = None"
proof (cases p)
  case (CreateForeignKey n t rt cs rcs od)
  with assms(1) obtain n' od' where "(n', Foreign cs rt rcs od') \<in> constraints_of s t"
    by (auto split: constraint_def.splits)
  then have "fk_ok cs (rows t) rcs (rows rt)"
    using constraint_holds_of [OF assms(2)] by fastforce
  then have "fk_ok cs (rows' t) rcs (rows' rt)"
    using assms(1) CreateForeignKey by (intro fk_ok_agree [OF assms(3)]) auto
  then show ?thesis using CreateForeignKey by simp
next
  case (AddColumn t d)
  with assms(1) show ?thesis by simp
qed (use assms(1) in simp_all)

lemma ddls_Cons_Some:
  "ddls (p # ps) (Some s) = Some s' \<longleftrightarrow> (\<exists>s1. ddl p s = Some s1 \<and> ddls ps (Some s1) = Some s')"
  by (cases "ddl p s") auto

lemma run_ops_accepted:
  assumes "ddls ps (Some (db_schema d)) = Some s'" "list_all (accepted_by_rows s) ps"
    and "list_all (keeps_cells s) ps" "constraints_hold s rows" "agree_on s rows (db_rows d)"
  shows "\<exists>d'. run_ops now ps d = Inr d' \<and> db_schema d' = s'"
  using assms
proof (induction ps arbitrary: d)
  case (Cons p ps)
  obtain s1 where s1: "ddl p (db_schema d) = Some s1" "ddls ps (Some s1) = Some s'"
    using Cons.prems(1) unfolding ddls_Cons_Some by blast
  let ?d1 = "\<lparr>db_schema = s1, db_rows = data_effect now p (db_rows d)\<rparr>"
  have "data_error p (db_rows d) = None"
    using Cons.prems(2,4,5) by (auto intro: accepted_no_error)
  then have "run_op now p d = Inr ?d1"
    using s1(1) by (simp add: run_op_done)
  moreover have "agree_on s rows (db_rows ?d1)"
    using Cons.prems(3,5) effect_agrees [of s p "db_rows d" now] agree_on_trans
    by fastforce
  then have "\<exists>d'. run_ops now ps ?d1 = Inr d' \<and> db_schema d' = s'"
    using Cons.prems s1(2) by (intro Cons.IH) auto
  ultimately show ?case by simp
qed auto

text \<open>A downgrade that restores the schema restores the whole database.\<close>

theorem reversible_round_trip:
  assumes "reversible (db_schema d) r" "valid_database d" "run_ops now (upgrade r) d = Inr d'"
  shows "run_ops now' (downgrade r) d' = Inr d"
proof -
  let ?s = "db_schema d"
  have up: "ddls (upgrade r) (Some ?s) = Some (db_schema d')"
    using assms(3) by (rule run_ops_schema)
  have keeps: "list_all (keeps_cells ?s) (upgrade r)" "list_all (keeps_cells ?s) (downgrade r)"
    and takes: "list_all (accepted_by_rows ?s) (downgrade r)"
    and down: "ddls (downgrade r) (Some (db_schema d')) = Some ?s"
    using assms(1) up by (auto simp: reversible_def)
  have fit: "rows_fit ?s (db_rows d)" and holds: "constraints_hold ?s (db_rows d)"
    using assms(2) by (simp_all add: valid_database_def)
  have up_rows: "agree_on ?s (db_rows d) (db_rows d')"
    using assms(3) keeps(1) by (rule run_ops_agree)
  obtain d2 where d2: "run_ops now' (downgrade r) d' = Inr d2" "db_schema d2 = ?s"
    using run_ops_accepted [OF down takes keeps(2) holds up_rows] by blast
  have "agree_on ?s (db_rows d) (db_rows d2)"
    using up_rows run_ops_agree [OF d2(1) keeps(2)] by (rule agree_on_trans)
  moreover have "rows_fit ?s (db_rows d2)"
    using run_ops_fit [OF d2(1)] run_ops_fit [OF assms(3) fit] d2(2) by simp
  ultimately have "db_rows d = db_rows d2"
    using agreeing_rows_fit [OF _ fit] by blast
  with d2 show ?thesis by simp
qed

lemma chain_reversible_nth:
  assumes "chain_reversible (Some s) rs" "k < length rs" "upgrades (take k rs) (Some s) = Some s'"
  shows "reversible s' (rs ! k)"
  using assms
proof (induction rs arbitrary: s k)
  case (Cons r rs)
  show ?case
  proof (cases k)
    case 0
    with Cons.prems show ?thesis by simp
  next
    case (Suc j)
    with Cons.prems obtain s1 where "ddls (upgrade r) (Some s) = Some s1" "chain_reversible (Some s1) rs"
      by (cases "ddls (upgrade r) (Some s)") auto
    with Cons.prems Suc Cons.IH show ?thesis by simp
  qed
qed simp

lemma chain_upgrades:
  assumes "chain_reversible (Some s) rs" "k \<le> length rs"
  shows "\<exists>s'. upgrades (take k rs) (Some s) = Some s'"
  using assms
proof (induction rs arbitrary: s k)
  case (Cons r rs)
  then show ?case
    by (cases k; cases "ddls (upgrade r) (Some s)") auto
qed simp

text \<open>The rows after a run, and the rows every check of the run saw.\<close>

lemma run_ops_rows:
  "run_ops now ps d = Inr d' \<Longrightarrow> db_rows d' = fold (data_effect now) ps (db_rows d)"
proof (induction ps arbitrary: d)
  case (Cons p ps)
  then show ?case by (auto simp: run_op_done split: sum.splits)
qed simp

lemma run_ops_checked:
  assumes "run_ops now (ps @ p # qs) d = Inr d'"
  shows "data_error p (fold (data_effect now) ps (db_rows d)) = None"
proof -
  obtain d1 where d1: "run_ops now ps d = Inr d1" "run_ops now (p # qs) d1 = Inr d'"
    using assms by (auto simp: run_ops_append split: sum.splits)
  then show ?thesis
    using run_ops_rows [OF d1(1)] by (auto simp: run_op_done split: sum.splits)
qed

lemma run_ops_check_at:
  assumes "run_ops now ps d = Inr d'" "i < length ps"
  shows "data_error (ps ! i) (fold (data_effect now) (take i ps) (db_rows d)) = None"
  using assms(1) run_ops_checked [of now "take i ps" "ps ! i" "drop (Suc i) ps" d d']
  by (simp add: id_take_nth_drop [OF assms(2), symmetric])

end
