(* ===== verification/Migrations.thy ===== *)
theory Migrations
  imports MigrationLaws
begin

text \<open>
  The revisions under \<^verbatim>\<open>alembic/versions\<close>, each with its \<^verbatim>\<open>upgrade\<close> and \<^verbatim>\<open>downgrade\<close> as the list
  of operations the file calls, in its order; a loop over a tuple of names is a \<^verbatim>\<open>map\<close>.  What is
  shown: the revisions form one chain that builds the schema from nothing and takes it down again,
  each downgrade undoes its upgrade on every database, and the two revisions that rewrite or check
  tenant data leave every row with the tenant of the row it belongs to.
\<close>

section \<open>Revision 000: Create the pre-Alembic application schema for fresh installations\<close>

definition upgrade_000 :: "op list" where
  "upgrade_000 =
    [CreateExtension ''vector'',
     CreateTable ''users''
      [Col (Column ''id'' SaInteger [PrimaryKey]),
       Col (Column ''email'' (SaString (Some 255)) [Nullable False]),
       Col (Column ''name'' (SaString (Some 255)) [Nullable True]),
       Col (Column ''username'' (SaString (Some 255)) [Nullable True]),
       Col (Column ''password_hash'' (SaString (Some 255)) [Nullable True]),
       Col (Column ''role'' (SaString (Some 50)) [Nullable False, ServerDefault (DefaultText
           ''member'')]),
       Col (Column ''is_enabled'' SaBoolean [Nullable False, ServerDefault DefaultTrue]),
       Col (Column ''created_at'' (SaDateTime False) [Nullable False, ServerDefault CurrentTimestamp]),
       Col (Column ''updated_at'' (SaDateTime False) [Nullable False, ServerDefault CurrentTimestamp]),
       UniqueConstraint [''email''] ''uq_users_email'',
       UniqueConstraint [''username''] ''uq_users_username''],
     CreateIndex ''ix_users_email'' ''users'' [''email''],
     CreateIndex ''ix_users_username'' ''users'' [''username''],
     CreateTable ''organizations''
      [Col (Column ''id'' SaInteger [PrimaryKey]),
       Col (Column ''name'' (SaString None) [Nullable False]),
       Col (Column ''slug'' (SaString None) [Nullable True]),
       Col (Column ''created_at'' (SaDateTime False) [ServerDefault CurrentTimestamp]),
       UniqueConstraint [''name''] ''uq_organizations_name'',
       UniqueConstraint [''slug''] ''uq_organizations_slug''],
     CreateIndex ''ix_organizations_name'' ''organizations'' [''name''],
     CreateIndex ''ix_organizations_slug'' ''organizations'' [''slug''],
     CreateTable ''organization_members''
      [Col (Column ''id'' SaInteger [PrimaryKey]),
       Col (Column ''organization_id'' SaInteger [Nullable False]),
       Col (Column ''user_id'' SaInteger [Nullable False]),
       Col (Column ''role'' (SaString None) [Nullable False, ServerDefault (DefaultText ''member'')]),
       Col (Column ''created_at'' (SaDateTime False) [ServerDefault CurrentTimestamp]),
       ForeignKeyConstraint [''organization_id''] ''organizations'' [''id''] None (Some ''CASCADE''),
       ForeignKeyConstraint [''user_id''] ''users'' [''id''] None (Some ''CASCADE'')],
     CreateIndex ''ix_organization_members_organization_id'' ''organization_members''
         [''organization_id''],
     CreateIndex ''ix_organization_members_user_id'' ''organization_members'' [''user_id''],
     CreateTable ''conversations''
      [Col (Column ''id'' SaInteger [PrimaryKey]),
       Col (Column ''user_id'' SaInteger [Nullable False]),
       Col (Column ''organization_id'' SaInteger [Nullable False]),
       Col (Column ''title'' (SaString None) [Nullable False]),
       Col (Column ''created_at'' (SaDateTime False) [ServerDefault CurrentTimestamp]),
       Col (Column ''updated_at'' (SaDateTime False) [ServerDefault CurrentTimestamp])],
     CreateIndex ''ix_conversations_user_id'' ''conversations'' [''user_id''],
     CreateIndex ''ix_conversations_organization_id'' ''conversations'' [''organization_id''],
     CreateTable ''bots''
      [Col (Column ''id'' SaInteger [PrimaryKey]),
       Col (Column ''organization_id'' SaInteger [Nullable False]),
       Col (Column ''title'' (SaString None) [Nullable False]),
       Col (Column ''description'' SaText [Nullable True]),
       Col (Column ''provider'' (SaString None) [Nullable False, ServerDefault (DefaultText
           ''openai'')]),
       Col (Column ''model'' (SaString None) [Nullable False, ServerDefault (DefaultText ''gpt-4o'')]),
       Col (Column ''system_prompt'' SaText [Nullable True]),
       Col (Column ''bot_visibility'' (SaString None) [Nullable False, ServerDefault (DefaultText
           ''private'')]),
       Col (Column ''knowledge_visibility'' (SaString None) [Nullable False, ServerDefault (DefaultText
           ''organization'')]),
       Col (Column ''credential_scope'' (SaString None) [Nullable False, ServerDefault (DefaultText
           ''organization'')]),
       Col (Column ''tool_scope'' (SaString None) [Nullable False, ServerDefault (DefaultText
           ''standard'')]),
       Col (Column ''secret_reference'' (SaString None) [Nullable True]),
       Col (Column ''is_public'' SaBoolean [Nullable False, ServerDefault DefaultFalse]),
       Col (Column ''created_at'' (SaDateTime False) [ServerDefault CurrentTimestamp])],
     CreateIndex ''ix_bots_organization_id'' ''bots'' [''organization_id''],
     CreateTable ''messages''
      [Col (Column ''id'' SaInteger [PrimaryKey]),
       Col (Column ''conversation_id'' SaInteger [Nullable False]),
       Col (Column ''role'' (SaString None) [Nullable False]),
       Col (Column ''content'' SaText [Nullable False]),
       Col (Column ''bot_id'' SaInteger [Nullable True]),
       Col (Column ''status'' (SaString None) [Nullable False, ServerDefault (DefaultText
           ''completed'')]),
       Col (Column ''ai_marked'' SaBoolean [Nullable False, ServerDefault DefaultTrue]),
       Col (Column ''created_at'' (SaDateTime False) [ServerDefault CurrentTimestamp])],
     CreateIndex ''ix_messages_conversation_id'' ''messages'' [''conversation_id''],
     CreateTable ''prompt_templates''
      [Col (Column ''id'' SaInteger [PrimaryKey]),
       Col (Column ''title'' (SaString (Some 255)) [Nullable False]),
       Col (Column ''category'' (SaString (Some 100)) [Nullable False]),
       Col (Column ''content'' SaText [Nullable False]),
       Col (Column ''usage_count'' SaInteger [Nullable False, ServerDefault (DefaultText ''0'')]),
       Col (Column ''created_at'' (SaDateTime False) [Nullable False, ServerDefault CurrentTimestamp])],
     CreateTable ''documents''
      [Col (Column ''id'' SaInteger [PrimaryKey]),
       Col (Column ''organization_id'' SaInteger [Nullable False]),
       Col (Column ''title'' (SaString None) [Nullable False]),
       Col (Column ''source'' (SaString None) [Nullable True]),
       Col (Column ''mime_type'' (SaString None) [Nullable True]),
       Col (Column ''status'' (SaString None) [ServerDefault (DefaultText ''uploaded'')]),
       Col (Column ''owner'' SaInteger [Nullable True]),
       Col (Column ''created_at'' (SaDateTime True) [ServerDefault CurrentTimestamp])],
     CreateIndex ''ix_documents_organization_id'' ''documents'' [''organization_id''],
     CreateTable ''document_chunks''
      [Col (Column ''id'' SaInteger [PrimaryKey]),
       Col (Column ''organization_id'' SaInteger [Nullable False]),
       Col (Column ''document_id'' SaInteger [Nullable False]),
       Col (Column ''content'' SaText [Nullable False]),
       Col (Column ''embedding'' (SaVector 1536) [Nullable True]),
       Col (Column ''metadata'' SaText [Nullable True]),
       ForeignKeyConstraint [''document_id''] ''documents'' [''id''] None None],
     CreateIndex ''ix_document_chunks_organization_id'' ''document_chunks'' [''organization_id'']]"

definition downgrade_000 :: "op list" where
  "downgrade_000 =
    map (\<lambda>table. DropTable table)
      [''document_chunks'', ''documents'', ''prompt_templates'', ''messages'', ''bots'',
          ''conversations'', ''organization_members'', ''organizations'', ''users'']"

definition revision_000 :: revision where
  "revision_000 = \<lparr>rev_id = ''000_base_schema'', down_revision = None, upgrade = upgrade_000,
      downgrade = downgrade_000\<rparr>"

section \<open>Revision 001: Add token_version to users and create idempotency_records\<close>

definition upgrade_001 :: "op list" where
  "upgrade_001 =
    [AddColumn ''users'' (Column ''token_version'' SaInteger [Nullable False, ServerDefault
        (DefaultText ''1'')]),
     CreateTable ''idempotency_records''
      [Col (Column ''id'' SaInteger [PrimaryKey, Indexed]),
       Col (Column ''organization_id'' SaInteger [Nullable False, Indexed]),
       Col (Column ''user_id'' SaInteger [Nullable False, Indexed]),
       Col (Column ''key'' (SaString (Some 128)) [Nullable False]),
       Col (Column ''request_hash'' (SaString (Some 64)) [Nullable False]),
       Col (Column ''status'' (SaString (Some 16)) [Nullable False, ServerDefault (DefaultText
           ''processing'')]),
       Col (Column ''response_status'' SaInteger [Nullable True]),
       Col (Column ''response_reference'' SaText [Nullable True]),
       Col (Column ''created_at'' (SaDateTime False) [ServerDefault CurrentTimestamp]),
       Col (Column ''expires_at'' (SaDateTime False) [Nullable True]),
       UniqueConstraint [''organization_id'', ''user_id'', ''key''] ''uq_idempotency_org_user_key'']]"

definition downgrade_001 :: "op list" where
  "downgrade_001 =
    [DropTable ''idempotency_records'',
     DropColumn ''users'' ''token_version'']"

definition revision_001 :: revision where
  "revision_001 = \<lparr>rev_id = ''0019'', down_revision = Some ''000_base_schema'', upgrade =
      upgrade_001, downgrade = downgrade_001\<rparr>"

section \<open>Revision 002: Add lease_until to idempotency_records\<close>

definition upgrade_002 :: "op list" where
  "upgrade_002 =
    [AddColumn ''idempotency_records'' (Column ''lease_until'' (SaDateTime False) [Nullable True])]"

definition downgrade_002 :: "op list" where
  "downgrade_002 =
    [DropColumn ''idempotency_records'' ''lease_until'']"

definition revision_002 :: revision where
  "revision_002 = \<lparr>rev_id = ''002_idempotency_lease'', down_revision = Some ''0019'', upgrade =
      upgrade_002, downgrade = downgrade_002\<rparr>"

section \<open>Revision 003: Add lease_token fencing + expires_at index\<close>

definition upgrade_003 :: "op list" where
  "upgrade_003 =
    [AddColumn ''idempotency_records'' (Column ''lease_token'' (SaString (Some 64)) [Nullable True]),
     CreateIndex ''ix_idempotency_expires_at'' ''idempotency_records'' [''expires_at'']]"

definition downgrade_003 :: "op list" where
  "downgrade_003 =
    [DropIndex ''ix_idempotency_expires_at'' ''idempotency_records'',
     DropColumn ''idempotency_records'' ''lease_token'']"

definition revision_003 :: revision where
  "revision_003 = \<lparr>rev_id = ''003_idempotency_lease_token'', down_revision = Some
      ''002_idempotency_lease'', upgrade = upgrade_003, downgrade = downgrade_003\<rparr>"

section \<open>Revision 004: Create durable provider usage accounting records\<close>

definition upgrade_004 :: "op list" where
  "upgrade_004 =
    [CreateTable ''provider_usage_records''
      [Col (Column ''id'' SaInteger [PrimaryKey]),
       Col (Column ''request_id'' (SaString (Some 128)) [Nullable False]),
       Col (Column ''execution_id'' (SaString (Some 128)) [Nullable False]),
       Col (Column ''user_id'' SaInteger [Nullable False]),
       Col (Column ''organization_id'' SaInteger [Nullable False]),
       Col (Column ''provider'' (SaString (Some 64)) [Nullable False]),
       Col (Column ''model'' (SaString (Some 128)) [Nullable False]),
       Col (Column ''input_tokens'' SaBigInteger [Nullable False, ServerDefault (DefaultText ''0'')]),
       Col (Column ''output_tokens'' SaBigInteger [Nullable False, ServerDefault (DefaultText ''0'')]),
       Col (Column ''total_tokens'' SaBigInteger [Nullable False, ServerDefault (DefaultText ''0'')]),
       Col (Column ''estimated_cost'' (SaNumeric 20 10) [Nullable False, ServerDefault (DefaultText
           ''0'')]),
       Col (Column ''actual_cost'' (SaNumeric 20 10) [Nullable True]),
       Col (Column ''verification'' SaBoolean [Nullable False, ServerDefault DefaultFalse]),
       Col (Column ''created_at'' (SaDateTime True) [Nullable False, ServerDefault CurrentTimestamp])],
     CreateIndex ''ix_provider_usage_records_request_id'' ''provider_usage_records'' [''request_id''],
     CreateIndex ''ix_provider_usage_records_execution_id'' ''provider_usage_records''
         [''execution_id''],
     CreateIndex ''ix_provider_usage_records_user_id'' ''provider_usage_records'' [''user_id''],
     CreateIndex ''ix_provider_usage_records_organization_id'' ''provider_usage_records''
         [''organization_id'']]"

definition downgrade_004 :: "op list" where
  "downgrade_004 =
    [DropIndex ''ix_provider_usage_records_organization_id'' ''provider_usage_records'',
     DropIndex ''ix_provider_usage_records_user_id'' ''provider_usage_records'',
     DropIndex ''ix_provider_usage_records_execution_id'' ''provider_usage_records'',
     DropIndex ''ix_provider_usage_records_request_id'' ''provider_usage_records'',
     DropTable ''provider_usage_records'']"

definition revision_004 :: revision where
  "revision_004 = \<lparr>rev_id = ''004_provider_usage'', down_revision = Some
      ''003_idempotency_lease_token'', upgrade = upgrade_004, downgrade = downgrade_004\<rparr>"

section \<open>Revision 005: Create the F2-06 chat execution ledger and message bindings\<close>

definition upgrade_005 :: "op list" where
  "upgrade_005 =
    [CreateTable ''chat_executions''
      [Col (Column ''id'' SaInteger [PrimaryKey]),
       Col (Column ''execution_id'' (SaString (Some 64)) [Nullable False]),
       Col (Column ''request_id'' (SaString (Some 128)) [Nullable False]),
       Col (Column ''conversation_id'' SaInteger [Nullable False]),
       Col (Column ''organization_id'' SaInteger [Nullable False]),
       Col (Column ''user_id'' SaInteger [Nullable False]),
       Col (Column ''bot_id'' SaInteger [Nullable False]),
       Col (Column ''idempotency_record_id'' SaInteger [Nullable True]),
       Col (Column ''user_message_id'' SaInteger [Nullable True]),
       Col (Column ''assistant_message_id'' SaInteger [Nullable True]),
       Col (Column ''provider'' (SaString (Some 64)) [Nullable False]),
       Col (Column ''model'' (SaString (Some 128)) [Nullable False]),
       Col (Column ''status'' (SaString (Some 16)) [Nullable False, ServerDefault (DefaultText
           ''prepared'')]),
       Col (Column ''created_at'' (SaDateTime False) [Nullable False, ServerDefault CurrentTimestamp]),
       Col (Column ''updated_at'' (SaDateTime False) [Nullable False, ServerDefault CurrentTimestamp]),
       Col (Column ''completed_at'' (SaDateTime False) [Nullable True]),
       ForeignKeyConstraint [''idempotency_record_id''] ''idempotency_records'' [''id''] None None,
       ForeignKeyConstraint [''user_message_id''] ''messages'' [''id''] None None,
       ForeignKeyConstraint [''assistant_message_id''] ''messages'' [''id''] None None,
       UniqueConstraint [''execution_id''] ''uq_chat_executions_execution_id'',
       UniqueConstraint [''idempotency_record_id''] ''uq_chat_executions_idempotency_record_id'',
       UniqueConstraint [''user_message_id''] ''uq_chat_executions_user_message_id'',
       UniqueConstraint [''assistant_message_id''] ''uq_chat_executions_assistant_message_id'']]
   @ map (\<lambda>column. CreateIndex (''ix_chat_executions_'' @ column) ''chat_executions'' [column])
      [''execution_id'', ''request_id'', ''conversation_id'', ''organization_id'', ''user_id'',
          ''bot_id'']
   @ [CreateIndex ''ix_chat_executions_tenant_conversation'' ''chat_executions'' [''organization_id'',
       ''conversation_id''],
     AddColumn ''messages'' (Column ''execution_id'' (SaString (Some 64)) [Nullable True]),
     CreateIndex ''ix_messages_execution_id'' ''messages'' [''execution_id''],
     CreateForeignKey ''fk_messages_execution'' ''messages'' ''chat_executions''
      [''execution_id''] [''execution_id''] None,
     CreateUnique ''uq_messages_execution_role'' ''messages''
      [''execution_id'', ''role''],
     AddColumn ''provider_usage_records'' (Column ''chat_execution_id'' SaInteger [Nullable True]),
     CreateIndex ''ix_provider_usage_records_chat_execution_id'' ''provider_usage_records''
         [''chat_execution_id''],
     CreateForeignKey ''fk_provider_usage_chat_execution'' ''provider_usage_records''
         ''chat_executions''
      [''chat_execution_id''] [''id''] None]"

definition downgrade_005 :: "op list" where
  "downgrade_005 =
    [DropConstraint ''fk_provider_usage_chat_execution'' ''provider_usage_records'' ForeignKind,
     DropIndex ''ix_provider_usage_records_chat_execution_id'' ''provider_usage_records'',
     DropColumn ''provider_usage_records'' ''chat_execution_id'',
     DropConstraint ''uq_messages_execution_role'' ''messages'' UniqueKind,
     DropConstraint ''fk_messages_execution'' ''messages'' ForeignKind,
     DropIndex ''ix_messages_execution_id'' ''messages'',
     DropColumn ''messages'' ''execution_id'',
     DropTable ''chat_executions'']"

definition revision_005 :: revision where
  "revision_005 = \<lparr>rev_id = ''005_chat_persistence'', down_revision = Some
      ''004_provider_usage'', upgrade = upgrade_005, downgrade = downgrade_005\<rparr>"

section \<open>Revision 006: Add bounded retry and failure recovery metadata\<close>

definition upgrade_006 :: "op list" where
  "upgrade_006 =
    [DropConstraint ''chat_executions_idempotency_record_id_fkey'' ''chat_executions'' ForeignKind,
     CreateForeignKey ''fk_chat_executions_idempotency_record'' ''chat_executions''
         ''idempotency_records''
      [''idempotency_record_id''] [''id''] (Some ''SET NULL''),
     AddColumn ''chat_executions'' (Column ''attempt_count'' SaInteger [Nullable False, ServerDefault
         (DefaultText ''1'')]),
     AddColumn ''chat_executions'' (Column ''max_attempts'' SaInteger [Nullable False, ServerDefault
         (DefaultText ''3'')]),
     AddColumn ''chat_executions'' (Column ''last_failure_code'' (SaString (Some 32)) [Nullable True]),
     AddColumn ''chat_executions'' (Column ''failure_retryable'' SaBoolean [Nullable False,
         ServerDefault DefaultFalse]),
     AddColumn ''chat_executions'' (Column ''partial_response'' SaBoolean [Nullable False,
         ServerDefault DefaultFalse]),
     AddColumn ''chat_executions'' (Column ''recovered_at'' (SaDateTime False) [Nullable True]),
     CreateIndex ''ix_chat_executions_status'' ''chat_executions'' [''status'']]"

definition downgrade_006 :: "op list" where
  "downgrade_006 =
    [DropIndex ''ix_chat_executions_status'' ''chat_executions'']
   @ map (\<lambda>column. DropColumn ''chat_executions'' column)
      [''recovered_at'', ''partial_response'', ''failure_retryable'', ''last_failure_code'',
          ''max_attempts'', ''attempt_count'']
   @ [DropConstraint ''fk_chat_executions_idempotency_record'' ''chat_executions'' ForeignKind,
     CreateForeignKey ''chat_executions_idempotency_record_id_fkey'' ''chat_executions''
         ''idempotency_records''
      [''idempotency_record_id''] [''id''] None]"

definition revision_006 :: revision where
  "revision_006 = \<lparr>rev_id = ''006_failure_recovery'', down_revision = Some
      ''005_chat_persistence'', upgrade = upgrade_006, downgrade = downgrade_006\<rparr>"

section \<open>Revision 007: Add structural tenant isolation across chat resources\<close>

definition upgrade_007 :: "op list" where
  "upgrade_007 =
    [CreateUnique ''uq_org_members_user_org'' ''organization_members''
      [''user_id'', ''organization_id''],
     CreateUnique ''uq_conversations_id_org'' ''conversations''
      [''id'', ''organization_id''],
     CreateUnique ''uq_bots_id_org'' ''bots''
      [''id'', ''organization_id''],
     CreateUnique ''uq_idempotency_id_org_user'' ''idempotency_records''
      [''id'', ''organization_id'', ''user_id''],
     AddColumn ''chat_executions'' (Column ''bot_organization_id'' SaInteger [Nullable True]),
     UpdateFrom ''chat_executions'' ''bot_organization_id'' ''bots'' ''organization_id'' ''id''
         ''bot_id'',
     RaiseIfNull ''chat_executions'' ''bot_organization_id'' ''F3-03: orphan chat execution bot'',
     AlterNullable ''chat_executions'' ''bot_organization_id'' False,
     CreateIndex ''ix_chat_executions_bot_organization_id'' ''chat_executions''
         [''bot_organization_id''],
     AddColumn ''messages'' (Column ''organization_id'' SaInteger [Nullable True]),
     UpdateFrom ''messages'' ''organization_id'' ''conversations'' ''organization_id'' ''id''
         ''conversation_id'',
     RaiseIfNull ''messages'' ''organization_id'' ''F3-03: orphan message conversation'',
     AlterNullable ''messages'' ''organization_id'' False,
     CreateIndex ''ix_messages_organization_id'' ''messages'' [''organization_id''],
     CreateUnique ''uq_chat_executions_execution_org'' ''chat_executions''
      [''execution_id'', ''organization_id''],
     CreateUnique ''uq_chat_executions_id_org'' ''chat_executions''
      [''id'', ''organization_id''],
     CreateForeignKey ''fk_bots_org'' ''bots'' ''organizations''
      [''organization_id''] [''id''] None,
     CreateForeignKey ''fk_conversations_org'' ''conversations'' ''organizations''
      [''organization_id''] [''id''] None,
     CreateForeignKey ''fk_conversations_member'' ''conversations'' ''organization_members''
      [''user_id'', ''organization_id''] [''user_id'', ''organization_id''] None,
     CreateForeignKey ''fk_chat_executions_org'' ''chat_executions'' ''organizations''
      [''organization_id''] [''id''] None,
     CreateForeignKey ''fk_chat_executions_tenant_conversation'' ''chat_executions'' ''conversations''
      [''conversation_id'', ''organization_id''] [''id'', ''organization_id''] None,
     CreateForeignKey ''fk_chat_executions_member'' ''chat_executions'' ''organization_members''
      [''user_id'', ''organization_id''] [''user_id'', ''organization_id''] None,
     CreateForeignKey ''fk_chat_executions_bot_owner'' ''chat_executions'' ''bots''
      [''bot_id'', ''bot_organization_id''] [''id'', ''organization_id''] None,
     CreateForeignKey ''fk_chat_executions_tenant_idempotency'' ''chat_executions''
         ''idempotency_records''
      [''idempotency_record_id'', ''organization_id'', ''user_id''] [''id'', ''organization_id'',
          ''user_id''] None,
     CreateForeignKey ''fk_messages_tenant_conversation'' ''messages'' ''conversations''
      [''conversation_id'', ''organization_id''] [''id'', ''organization_id''] None,
     CreateForeignKey ''fk_messages_tenant_execution'' ''messages'' ''chat_executions''
      [''execution_id'', ''organization_id''] [''execution_id'', ''organization_id''] None,
     CreateForeignKey ''fk_provider_usage_tenant_execution'' ''provider_usage_records''
         ''chat_executions''
      [''chat_execution_id'', ''organization_id''] [''id'', ''organization_id''] None]"

definition downgrade_007 :: "op list" where
  "downgrade_007 =
    map (\<lambda>(table, constraint). DropConstraint constraint table ForeignKind)
      [(''provider_usage_records'', ''fk_provider_usage_tenant_execution''),
       (''messages'', ''fk_messages_tenant_execution''),
       (''messages'', ''fk_messages_tenant_conversation''),
       (''chat_executions'', ''fk_chat_executions_tenant_idempotency''),
       (''chat_executions'', ''fk_chat_executions_bot_owner''),
       (''chat_executions'', ''fk_chat_executions_member''),
       (''chat_executions'', ''fk_chat_executions_tenant_conversation''),
       (''chat_executions'', ''fk_chat_executions_org''),
       (''conversations'', ''fk_conversations_member''),
       (''conversations'', ''fk_conversations_org''),
       (''bots'', ''fk_bots_org'')]
   @ [DropConstraint ''uq_chat_executions_id_org'' ''chat_executions'' UniqueKind,
     DropConstraint ''uq_chat_executions_execution_org'' ''chat_executions'' UniqueKind,
     DropIndex ''ix_messages_organization_id'' ''messages'',
     DropColumn ''messages'' ''organization_id'',
     DropIndex ''ix_chat_executions_bot_organization_id'' ''chat_executions'',
     DropColumn ''chat_executions'' ''bot_organization_id'',
     DropConstraint ''uq_idempotency_id_org_user'' ''idempotency_records'' UniqueKind,
     DropConstraint ''uq_bots_id_org'' ''bots'' UniqueKind,
     DropConstraint ''uq_conversations_id_org'' ''conversations'' UniqueKind,
     DropConstraint ''uq_org_members_user_org'' ''organization_members'' UniqueKind]"

definition revision_007 :: revision where
  "revision_007 = \<lparr>rev_id = ''007_tenant_isolation'', down_revision = Some
      ''006_failure_recovery'', upgrade = upgrade_007, downgrade = downgrade_007\<rparr>"

section \<open>Revision 008: Create durable governance decision evidence\<close>

definition upgrade_008 :: "op list" where
  "upgrade_008 =
    [CreateTable ''governance_decisions''
      [Col (Column ''id'' SaInteger [PrimaryKey]),
       Col (Column ''decision_id'' (SaString (Some 64)) [Nullable False]),
       Col (Column ''request_id'' (SaString (Some 128)) [Nullable False]),
       Col (Column ''request_hash'' (SaString (Some 64)) [Nullable False]),
       Col (Column ''organization_id'' SaInteger [Nullable False]),
       Col (Column ''user_id'' SaInteger [Nullable False]),
       Col (Column ''role'' (SaString (Some 50)) [Nullable False]),
       Col (Column ''policy'' (SaString (Some 100)) [Nullable False]),
       Col (Column ''policy_version'' (SaString (Some 32)) [Nullable False]),
       Col (Column ''capability'' (SaString (Some 100)) [Nullable False]),
       Col (Column ''allowed'' SaBoolean [Nullable False]),
       Col (Column ''reason'' (SaString (Some 100)) [Nullable False]),
       Col (Column ''resource_type'' (SaString (Some 50)) [Nullable False]),
       Col (Column ''resource_id'' (SaString (Some 128)) [Nullable False]),
       Col (Column ''resource_organization_id'' SaInteger [Nullable False]),
       Col (Column ''provider'' (SaString (Some 64)) [Nullable True]),
       Col (Column ''model'' (SaString (Some 128)) [Nullable True]),
       Col (Column ''permit_fingerprint'' (SaString (Some 64)) [Nullable True]),
       Col (Column ''execution_id'' (SaString (Some 64)) [Nullable True]),
       Col (Column ''result_status'' (SaString (Some 32)) [Nullable True]),
       Col (Column ''response_status'' SaInteger [Nullable True]),
       Col (Column ''failure_code'' (SaString (Some 32)) [Nullable True]),
       Col (Column ''decided_at'' (SaDateTime False) [Nullable False, ServerDefault CurrentTimestamp]),
       Col (Column ''finalized_at'' (SaDateTime False) [Nullable True]),
       UniqueConstraint [''decision_id''] ''uq_governance_decisions_decision_id'',
       ForeignKeyConstraint [''organization_id''] ''organizations'' [''id''] (Some
           ''fk_governance_decision_org'') None,
       ForeignKeyConstraint [''user_id'', ''organization_id''] ''organization_members'' [''user_id'',
           ''organization_id''] (Some ''fk_governance_decision_member'') None,
       ForeignKeyConstraint [''resource_organization_id''] ''organizations'' [''id''] (Some
           ''fk_governance_decision_resource_org'') None,
       ForeignKeyConstraint [''execution_id'', ''organization_id''] ''chat_executions''
           [''execution_id'', ''organization_id''] (Some ''fk_governance_decision_tenant_execution'')
               None]]
   @ map (\<lambda>column. CreateIndex (''ix_governance_decisions_'' @ column) ''governance_decisions''
       [column])
      [''decision_id'', ''request_id'', ''organization_id'', ''user_id'', ''execution_id'']
   @ [CreateIndex ''ix_governance_decisions_tenant_request'' ''governance_decisions''
       [''organization_id'', ''request_id''],
     CreateIndex ''ix_governance_decisions_tenant_execution'' ''governance_decisions''
         [''organization_id'', ''execution_id''],
     AddColumn ''chat_executions'' (Column ''governance_audit_required'' SaBoolean [Nullable False,
         ServerDefault DefaultFalse])]"

definition downgrade_008 :: "op list" where
  "downgrade_008 =
    [DropColumn ''chat_executions'' ''governance_audit_required'',
     DropTable ''governance_decisions'']"

definition revision_008 :: revision where
  "revision_008 = \<lparr>rev_id = ''008_governance_audit'', down_revision = Some
      ''007_tenant_isolation'', upgrade = upgrade_008, downgrade = downgrade_008\<rparr>"

section \<open>Revision 009: Add execution-linked provider cost ledger metadata\<close>

definition upgrade_009 :: "op list" where
  "upgrade_009 =
    [AddColumn ''provider_usage_records'' (Column ''operation'' (SaString (Some 32)) [Nullable False,
        ServerDefault (DefaultText ''reservation'')]),
     AddColumn ''provider_usage_records'' (Column ''attempt'' SaInteger [Nullable False, ServerDefault
         (DefaultText ''1'')]),
     AddColumn ''provider_usage_records'' (Column ''usage_source'' (SaString (Some 32)) [Nullable
         False, ServerDefault (DefaultText ''reservation'')]),
     AddColumn ''provider_usage_records'' (Column ''pricing_revision'' (SaString (Some 32)) [Nullable
         True]),
     CreateUnique ''uq_provider_usage_execution_attempt_operation_source'' ''provider_usage_records''
      [''chat_execution_id'', ''attempt'', ''operation'', ''usage_source'']]"

definition downgrade_009 :: "op list" where
  "downgrade_009 =
    [DropConstraint ''uq_provider_usage_execution_attempt_operation_source'' ''provider_usage_records''
        UniqueKind,
     DropColumn ''provider_usage_records'' ''pricing_revision'',
     DropColumn ''provider_usage_records'' ''usage_source'',
     DropColumn ''provider_usage_records'' ''attempt'',
     DropColumn ''provider_usage_records'' ''operation'']"

definition revision_009 :: revision where
  "revision_009 = \<lparr>rev_id = ''009_cost_accounting'', down_revision = Some
      ''008_governance_audit'', upgrade = upgrade_009, downgrade = downgrade_009\<rparr>"

section \<open>Revision 010: Add durable conversation lifecycle and optimistic version\<close>

definition upgrade_010 :: "op list" where
  "upgrade_010 =
    [AddColumn ''conversations'' (Column ''lifecycle'' (SaString (Some 16)) [Nullable False,
        ServerDefault (DefaultText ''active'')]),
     AddColumn ''conversations'' (Column ''version'' SaInteger [Nullable False, ServerDefault
         (DefaultText ''1'')]),
     AddColumn ''conversations'' (Column ''archived_at'' (SaDateTime False) [Nullable True]),
     CreateCheck ''ck_conversations_lifecycle'' ''conversations''
      (SqlIn ''lifecycle'' [''active'', ''archived'']),
     CreateCheck ''ck_conversations_version_positive'' ''conversations''
      (SqlPositive ''version''),
     CreateCheck ''ck_conversations_archive_state'' ''conversations''
      (SqlOr (SqlAnd (SqlEq ''lifecycle'' ''active'') (SqlIsNull ''archived_at''))
       (SqlAnd (SqlEq ''lifecycle'' ''archived'') (SqlIsNotNull ''archived_at'')))]"

definition downgrade_010 :: "op list" where
  "downgrade_010 =
    [DropConstraint ''ck_conversations_archive_state'' ''conversations'' CheckKind,
     DropConstraint ''ck_conversations_version_positive'' ''conversations'' CheckKind,
     DropConstraint ''ck_conversations_lifecycle'' ''conversations'' CheckKind,
     DropColumn ''conversations'' ''archived_at'',
     DropColumn ''conversations'' ''version'',
     DropColumn ''conversations'' ''lifecycle'']"

definition revision_010 :: revision where
  "revision_010 = \<lparr>rev_id = ''010_conversation_state'', down_revision = Some
      ''009_cost_accounting'', upgrade = upgrade_010, downgrade = downgrade_010\<rparr>"

section \<open>Revision 011: Add durable tenant-bound memory runtime\<close>

definition upgrade_011 :: "op list" where
  "upgrade_011 =
    [CreateTable ''memory_records''
      [Col (Column ''id'' SaInteger [PrimaryKey]),
       Col (Column ''item_id'' (SaString (Some 64)) [Nullable False]),
       Col (Column ''organization_id'' SaInteger [Nullable False]),
       Col (Column ''owner_user_id'' SaInteger [Nullable True]),
       Col (Column ''actor_user_id'' SaInteger [Nullable False]),
       Col (Column ''memory_class'' (SaString (Some 32)) [Nullable False]),
       Col (Column ''scope_kind'' (SaString (Some 16)) [Nullable False]),
       Col (Column ''content'' SaText [Nullable False]),
       Col (Column ''provenance_json'' SaText [Nullable False]),
       Col (Column ''source_message_id'' SaInteger [References ''messages'' ''id'', Nullable True]),
       Col (Column ''source_memory_item_id'' (SaString (Some 64)) [References ''memory_records''
           ''item_id'', Nullable True]),
       Col (Column ''reason'' (SaString (Some 500)) [Nullable False]),
       Col (Column ''created_at'' (SaDateTime False) [Nullable False, ServerDefault CurrentTimestamp]),
       Col (Column ''deleted_at'' (SaDateTime False) [Nullable True]),
       UniqueConstraint [''item_id''] ''uq_memory_records_item_id'',
       CheckConstraint (SqlIn ''memory_class'' [''persistent_memory'', ''user_org_knowledge''])
           ''ck_memory_records_durable_class'',
       CheckConstraint (SqlOr (SqlAnd (SqlEq ''scope_kind'' ''user'') (SqlIsNotNull ''owner_user_id''))
       (SqlAnd (SqlEq ''scope_kind'' ''organization'') (SqlIsNull ''owner_user_id'')))
           ''ck_memory_records_scope_owner'',
       ForeignKeyConstraint [''organization_id''] ''organizations'' [''id''] (Some
           ''fk_memory_records_org'') None,
       ForeignKeyConstraint [''actor_user_id'', ''organization_id''] ''organization_members''
           [''user_id'', ''organization_id''] (Some ''fk_memory_records_actor_member'') None,
       ForeignKeyConstraint [''owner_user_id'', ''organization_id''] ''organization_members''
           [''user_id'', ''organization_id''] (Some ''fk_memory_records_owner_member'') None],
     CreateIndex ''ix_memory_records_organization_id'' ''memory_records'' [''organization_id''],
     CreateIndex ''ix_memory_records_owner_user_id'' ''memory_records'' [''owner_user_id''],
     CreateIndex ''ix_memory_records_tenant_scope'' ''memory_records'' [''organization_id'',
         ''scope_kind'', ''owner_user_id'']]"

definition downgrade_011 :: "op list" where
  "downgrade_011 =
    [DropTable ''memory_records'']"

definition revision_011 :: revision where
  "revision_011 = \<lparr>rev_id = ''011_memory_runtime'', down_revision = Some
      ''010_conversation_state'', upgrade = upgrade_011, downgrade = downgrade_011\<rparr>"

section \<open>Revision 012: Add durable agent audit event ledger\<close>

definition upgrade_012 :: "op list" where
  "upgrade_012 =
    [CreateTable ''agent_audit_events''
      [Col (Column ''id'' SaInteger [PrimaryKey]),
       Col (Column ''event_id'' (SaString (Some 64)) [Nullable False]),
       Col (Column ''run_id'' (SaString (Some 64)) [Nullable False]),
       Col (Column ''sequence'' SaInteger [Nullable False]),
       Col (Column ''organization_id'' SaInteger [Nullable False]),
       Col (Column ''user_id'' SaInteger [Nullable False]),
       Col (Column ''actor_context'' (SaString (Some 128)) [Nullable False]),
       Col (Column ''event_type'' (SaString (Some 64)) [Nullable False]),
       Col (Column ''schema_version'' (SaString (Some 16)) [Nullable False]),
       Col (Column ''outcome'' (SaString (Some 64)) [Nullable True]),
       Col (Column ''reason_code'' (SaString (Some 64)) [Nullable True]),
       Col (Column ''payload_json'' SaText [Nullable False]),
       Col (Column ''created_at'' (SaDateTime False) [Nullable False, ServerDefault CurrentTimestamp]),
       UniqueConstraint [''event_id''] ''uq_agent_audit_events_event_id'',
       UniqueConstraint [''run_id'', ''sequence''] ''uq_agent_audit_events_run_sequence'',
       CheckConstraint (SqlPositive ''sequence'') ''ck_agent_audit_events_sequence_positive'',
       ForeignKeyConstraint [''organization_id''] ''organizations'' [''id''] (Some
           ''fk_agent_audit_events_org'') None,
       ForeignKeyConstraint [''user_id'', ''organization_id''] ''organization_members'' [''user_id'',
           ''organization_id''] (Some ''fk_agent_audit_events_member'') None],
     CreateIndex ''ix_agent_audit_events_run_id'' ''agent_audit_events'' [''run_id''],
     CreateIndex ''ix_agent_audit_events_organization_id'' ''agent_audit_events'' [''organization_id''],
     CreateIndex ''ix_agent_audit_events_user_id'' ''agent_audit_events'' [''user_id''],
     CreateIndex ''ix_agent_audit_events_tenant_run'' ''agent_audit_events'' [''organization_id'',
         ''run_id'', ''sequence'']]"

definition downgrade_012 :: "op list" where
  "downgrade_012 =
    [DropTable ''agent_audit_events'']"

definition revision_012 :: revision where
  "revision_012 = \<lparr>rev_id = ''012_agent_audit'', down_revision = Some ''011_memory_runtime'',
      upgrade = upgrade_012, downgrade = downgrade_012\<rparr>"

section \<open>Revision 013: Bind document chunks structurally to their document tenant\<close>

definition upgrade_013 :: "op list" where
  "upgrade_013 =
    [RaiseIfOrphan ''documents'' ''organization_id'' ''organizations'' ''id''
      ''orphan document tenant detected; refusing structural migration'',
     RaiseIfMismatch ''document_chunks'' ''organization_id'' ''document_id'' ''documents''
         ''organization_id'' ''id''
      ''document chunk tenant mismatch detected; refusing structural migration'',
     CreateForeignKey ''fk_documents_organization'' ''documents'' ''organizations''
      [''organization_id''] [''id''] (Some ''CASCADE''),
     CreateUnique ''uq_documents_id_organization'' ''documents''
      [''id'', ''organization_id''],
     DropConstraint ''document_chunks_document_id_fkey'' ''document_chunks'' ForeignKind,
     CreateForeignKey ''fk_document_chunks_document_tenant'' ''document_chunks'' ''documents''
      [''document_id'', ''organization_id''] [''id'', ''organization_id''] (Some ''CASCADE'')]"

definition downgrade_013 :: "op list" where
  "downgrade_013 =
    [DropConstraint ''fk_document_chunks_document_tenant'' ''document_chunks'' ForeignKind,
     CreateForeignKey ''document_chunks_document_id_fkey'' ''document_chunks'' ''documents''
      [''document_id''] [''id''] None,
     DropConstraint ''uq_documents_id_organization'' ''documents'' UniqueKind,
     DropConstraint ''fk_documents_organization'' ''documents'' ForeignKind]"

definition revision_013 :: revision where
  "revision_013 = \<lparr>rev_id = ''013_document_chunk_tenant_fk'', down_revision = Some
      ''012_agent_audit'', upgrade = upgrade_013, downgrade = downgrade_013\<rparr>"

section \<open>The chain\<close>

definition revisions :: "revision list" where
  "revisions =
    [revision_000, revision_001, revision_002, revision_003, revision_004, revision_005, revision_006,
     revision_007, revision_008, revision_009, revision_010, revision_011, revision_012, revision_013]"

text \<open>The revisions no other revision comes after, and the path from the base to a revision.\<close>

definition heads :: "revision list \<Rightarrow> revision list" where
  "heads rs = filter (\<lambda>r. \<not> list_ex (\<lambda>q. down_revision q = Some (rev_id r)) rs) rs"

definition bases :: "revision list \<Rightarrow> revision list" where
  "bases rs = filter (\<lambda>r. down_revision r = None) rs"

fun path_to :: "nat \<Rightarrow> revision list \<Rightarrow> string \<Rightarrow> revision list option" where
  "path_to 0 rs i = None"
| "path_to (Suc n) rs i = (case find (\<lambda>r. rev_id r = i) rs of
     None \<Rightarrow> None
   | Some r \<Rightarrow> (case down_revision r of
       None \<Rightarrow> Some [r]
     | Some j \<Rightarrow> (case path_to n rs j of None \<Rightarrow> None | Some rs' \<Rightarrow> Some (rs' @ [r]))))"

fun downgrades :: "revision list \<Rightarrow> schema option \<Rightarrow> schema option" where
  "downgrades [] s = s"
| "downgrades (r # rs) s = ddls (downgrade r) (downgrades rs s)"

lemma revisions_reversible: "chain_reversible (Some []) revisions"
  by code_simp

lemma revision_at:
  assumes "k < length revisions" "upgrades (take k revisions) (Some []) = Some s"
  shows "reversible s (revisions ! k)"
  using chain_reversible_nth [OF revisions_reversible assms] .

lemma reversible_steps: "reversible s r \<Longrightarrow>
   \<exists>s'. ddls (upgrade r) (Some s) = Some s' \<and> ddls (downgrade r) (Some s') = Some s"
  unfolding reversible_def by (cases "ddls (upgrade r) (Some s)") auto

lemma chain_downgrades:
  "chain_reversible (Some s) rs \<Longrightarrow>
    \<exists>s'. upgrades rs (Some s) = Some s' \<and> downgrades rs (Some s') = Some s"
proof (induction rs arbitrary: s)
  case (Cons r rs)
  then obtain s1 where "ddls (upgrade r) (Some s) = Some s1" "ddls (downgrade r) (Some s1) = Some s"
    using reversible_steps by fastforce
  with Cons show ?case by fastforce
qed simp

lemma revision_links:
  "map rev_id (heads revisions) = [''013_document_chunk_tenant_fk''] \<and>
   map rev_id (bases revisions) = [''000_base_schema''] \<and> distinct (map rev_id revisions)"
  by code_simp

lemma revision_path:
  "map_option (map rev_id) (path_to 14 revisions ''013_document_chunk_tenant_fk'')
     = Some (map rev_id revisions)"
  by code_simp

text \<open>
  \<^verbatim>\<open>alembic upgrade\<close>: the pending revisions run in one transaction (\<^verbatim>\<open>alembic/env.py\<close>), so that a
  revision that fails takes the earlier ones of the same run with it.
\<close>

fun run_revisions :: "nat \<Rightarrow> revision list \<Rightarrow> database \<Rightarrow> migration_error + database" where
  "run_revisions now [] d = Inr d"
| "run_revisions now (r # rs) d =
     (case run_ops now (upgrade r) d of Inl e \<Rightarrow> Inl e | Inr d' \<Rightarrow> run_revisions now rs d')"

definition do_run_migrations :: "nat \<Rightarrow> revision list \<Rightarrow> database \<Rightarrow> migration_error option \<times> database" where
  "do_run_migrations now rs d =
     (case run_revisions now rs d of Inl e \<Rightarrow> (Some e, d) | Inr d' \<Rightarrow> (None, d'))"

lemma empty_rows_accepted: "data_error p (\<lambda>t. []) = None" "data_effect now p (\<lambda>t. []) = (\<lambda>t. [])"
proof -
  show "data_error p (\<lambda>t. []) = None"
    by (cases "(p, \<lambda>t :: string. [] :: sql_row list)" rule: data_error.cases)
      (simp_all add: unique_ok_def fk_ok_def orphan_exists_def mismatch_exists_def)
  show "data_effect now p (\<lambda>t. []) = (\<lambda>t. [])"
    by (cases p) auto
qed

lemma run_ops_empty:
  "ddls ps (Some s) = Some s' \<Longrightarrow>
    run_ops now ps \<lparr>db_schema = s, db_rows = \<lambda>t. []\<rparr> = Inr \<lparr>db_schema = s', db_rows = \<lambda>t. []\<rparr>"
proof (induction ps arbitrary: s)
  case (Cons p ps)
  then show ?case
    by (cases "ddl p s") (auto simp: run_op_def empty_rows_accepted)
qed simp

lemma run_revisions_empty:
  "chain_reversible (Some s) rs \<Longrightarrow> upgrades rs (Some s) = Some s' \<Longrightarrow>
    run_revisions now rs \<lparr>db_schema = s, db_rows = \<lambda>t. []\<rparr> = Inr \<lparr>db_schema = s', db_rows = \<lambda>t. []\<rparr>"
proof (induction rs arbitrary: s)
  case (Cons r rs)
  then obtain s1 where "ddls (upgrade r) (Some s) = Some s1"
    by (cases "ddls (upgrade r) (Some s)") auto
  with Cons show ?case by (simp add: run_ops_empty)
qed simp

text \<open>
  The revisions form one chain from \<^verbatim>\<open>000_base_schema\<close> to the only head: every operation of every
  upgrade is accepted on the schema the earlier ones leave, a fresh database migrates to the head, and
  taking the downgrades back from there is accepted too and leaves nothing.
\<close>

theorem migrations_form_one_chain:
  "map rev_id (heads revisions) = [''013_document_chunk_tenant_fk''] \<and>
   map_option (map rev_id) (path_to 14 revisions ''013_document_chunk_tenant_fk'')
     = Some (map rev_id revisions) \<and>
   (\<exists>s. do_run_migrations now revisions \<lparr>db_schema = [], db_rows = \<lambda>t. []\<rparr>
        = (None, \<lparr>db_schema = s, db_rows = \<lambda>t. []\<rparr>) \<and> downgrades revisions (Some s) = Some [])"
proof -
  obtain s where "upgrades revisions (Some []) = Some s" "downgrades revisions (Some s) = Some []"
    using chain_downgrades [OF revisions_reversible] by blast
  moreover from this have "do_run_migrations now revisions \<lparr>db_schema = [], db_rows = \<lambda>t. []\<rparr>
      = (None, \<lparr>db_schema = s, db_rows = \<lambda>t. []\<rparr>)"
    by (simp add: do_run_migrations_def run_revisions_empty [OF revisions_reversible])
  ultimately show ?thesis using revision_links revision_path by blast
qed

text \<open>C36: Every downgrade undoes its upgrade: whatever the rows of a database at revision \<^verbatim>\<open>k\<close>, if the next
  upgrade goes through then its downgrade goes through on the result and gives back the schema and
  every row.
\<close>

theorem migrations_round_trip:
  assumes "k < length revisions"
    and "valid_database d"
    and "upgrades (take k revisions) (Some []) = Some (db_schema d)"
    and "run_ops now (upgrade (revisions ! k)) d = Inr d'"
  shows "run_ops now' (downgrade (revisions ! k)) d' = Inr d"
  using reversible_round_trip [OF revision_at [OF assms(1,3)] assms(2,4)] .

definition base_schema :: schema where
  "base_schema = (case upgrades (take 1 revisions) (Some []) of Some s \<Rightarrow> s | None \<Rightarrow> [])"

definition sample_user :: sql_row where
  "sample_user = map_of
    [(''id'', SqlInt 1), (''email'', SqlText ''a@b.dk''), (''role'', SqlText ''member''),
     (''is_enabled'', SqlBool True), (''created_at'', SqlTime 1), (''updated_at'', SqlTime 1)]"

definition base_database :: database where
  "base_database = \<lparr>db_schema = base_schema, db_rows = (\<lambda>t. if t = ''users'' then [sample_user] else [])\<rparr>"

lemma base_schema_built: "upgrades (take 1 revisions) (Some []) = Some base_schema"
proof -
  have "1 \<le> length revisions" by (simp add: revisions_def)
  then obtain s where "upgrades (take 1 revisions) (Some []) = Some s"
    using chain_upgrades [OF revisions_reversible] by blast
  then show ?thesis by (simp only: base_schema_def option.case)
qed

lemma base_database_holds: "constraints_hold (db_schema base_database) (db_rows base_database)"
  by code_simp

lemma base_users:
  "table_exists base_schema ''users'' \<and> list_all (\<lambda>c. List.member (table_columns base_schema ''users'') c)
     [''id'', ''email'', ''role'', ''is_enabled'', ''created_at'', ''updated_at'']"
  by code_simp

lemma sample_user_columns:
  assumes "c \<notin> set (table_columns base_schema ''users'')"
  shows "sample_user c = None"
proof -
  have "set [''id'', ''email'', ''role'', ''is_enabled'', ''created_at'', ''updated_at'']
      \<subseteq> set (table_columns base_schema ''users'')"
    using base_users by (simp add: list_all_iff)
  with assms show ?thesis by (auto simp: sample_user_def map_of_eq_None_iff)
qed

lemma base_database_valid: "valid_database base_database"
proof -
  have "rows_fit (db_schema base_database) (db_rows base_database)"
    using sample_user_columns base_users
    by (intro rows_fitI) (auto simp: base_database_def split: if_splits)
  then show ?thesis using base_database_holds by (simp add: valid_database_def)
qed

lemma base_database_upgrades: "\<not> isl (run_ops 7 (upgrade (revisions ! 1)) base_database)"
  by code_simp

theorem migrations_round_trip_witness:
  "\<exists>d'. run_ops 7 (upgrade (revisions ! 1)) base_database = Inr d' \<and>
     run_ops 9 (downgrade (revisions ! 1)) d' = Inr base_database"
proof -
  obtain d' where d': "run_ops 7 (upgrade (revisions ! 1)) base_database = Inr d'"
    using base_database_upgrades by (cases "run_ops 7 (upgrade (revisions ! 1)) base_database") auto
  have "upgrades (take 1 revisions) (Some []) = Some (db_schema base_database)"
    using base_schema_built by (simp only: base_database_def database.simps)
  then have "run_ops 9 (downgrade (revisions ! 1)) d' = Inr base_database"
    using d' base_database_valid by (intro migrations_round_trip [of 1]) (simp_all add: revisions_def)
  with d' show ?thesis by blast
qed


section \<open>Tenant data\<close>

text \<open>
  Revision 007 on the rows: the bot of an execution and the conversation of a message give the new
  tenant columns their values, and the checks that follow see the filled rows.
\<close>

definition filled_executions :: "sql_rows \<Rightarrow> sql_row list" where
  "filled_executions rows = map (update_from ''bot_organization_id'' ''organization_id'' ''id'' ''bot_id''
     (rows ''bots'') \<circ> (\<lambda>r. r(''bot_organization_id'' := None))) (rows ''chat_executions'')"

definition filled_messages :: "sql_rows \<Rightarrow> sql_row list" where
  "filled_messages rows = map (update_from ''organization_id'' ''organization_id'' ''id'' ''conversation_id''
     (rows ''conversations'') \<circ> (\<lambda>r. r(''organization_id'' := None))) (rows ''messages'')"

definition filled_rows :: "sql_rows \<Rightarrow> sql_rows" where
  "filled_rows rows = rows(''chat_executions'' := filled_executions rows, ''messages'' := filled_messages rows)"

lemma upgrade_007_rows: "fold (data_effect now) upgrade_007 rows = filled_rows rows"
  by (simp add: upgrade_007_def filled_rows_def filled_executions_def filled_messages_def)

lemma upgrade_007_checks:
  assumes "run_ops now upgrade_007 d = Inr d'"
  shows "db_rows d' = filled_rows (db_rows d)"
    and "list_all (\<lambda>r. r ''bot_organization_id'' \<noteq> None) (filled_executions (db_rows d))"
    and "list_all (\<lambda>r. r ''organization_id'' \<noteq> None) (filled_messages (db_rows d))"
    and "fk_ok [''execution_id'', ''organization_id''] (db_rows d' ''messages'')
           [''execution_id'', ''organization_id''] (db_rows d' ''chat_executions'')"
    and "fk_ok [''conversation_id'', ''organization_id''] (db_rows d' ''chat_executions'')
           [''id'', ''organization_id''] (db_rows d' ''conversations'')"
proof -
  show rows: "db_rows d' = filled_rows (db_rows d)"
    using run_ops_rows [OF assms] by (simp add: upgrade_007_rows)
  have len: "length upgrade_007 = 27" by (simp add: upgrade_007_def)
  show "list_all (\<lambda>r. r ''bot_organization_id'' \<noteq> None) (filled_executions (db_rows d))"
    using run_ops_check_at [OF assms, of 6] len
    by (simp add: upgrade_007_def filled_executions_def list_ex_iff list_all_iff split: if_splits)
  show "list_all (\<lambda>r. r ''organization_id'' \<noteq> None) (filled_messages (db_rows d))"
    using run_ops_check_at [OF assms, of 11] len
    by (simp add: upgrade_007_def filled_messages_def list_ex_iff list_all_iff split: if_splits)
  show "fk_ok [''conversation_id'', ''organization_id''] (db_rows d' ''chat_executions'')
      [''id'', ''organization_id''] (db_rows d' ''conversations'')"
    using run_ops_check_at [OF assms, of 20] len unfolding rows
    by (simp add: upgrade_007_def filled_rows_def filled_executions_def filled_messages_def split: if_splits)
  show "fk_ok [''execution_id'', ''organization_id''] (db_rows d' ''messages'')
      [''execution_id'', ''organization_id''] (db_rows d' ''chat_executions'')"
    using run_ops_check_at [OF assms, of 25] len unfolding rows
    by (simp add: upgrade_007_def filled_rows_def filled_executions_def filled_messages_def split: if_splits)
qed

lemma joined_row:
  assumes "joined k rrs v = Some q"
  shows "q \<in> set rrs" "v \<noteq> None" "q k = v"
  using assms by (auto simp: joined_def find_Some_iff)

text \<open>A filled row is the old row with the tenant of the row it refers to.\<close>

definition filled_from :: "string \<Rightarrow> string \<Rightarrow> sql_row list \<Rightarrow> sql_row \<Rightarrow> sql_row \<Rightarrow> bool" where
  "filled_from c k rrs r r' \<longleftrightarrow> (\<exists>q\<in>set rrs. r k \<noteq> None \<and> q ''id'' = r k \<and>
     q ''organization_id'' \<noteq> None \<and> r' = r(c := q ''organization_id''))"

lemma update_fills:
  assumes "update_from c ''organization_id'' ''id'' k rrs (r(c := None)) c \<noteq> None" "k \<noteq> c"
  shows "filled_from c k rrs r (update_from c ''organization_id'' ''id'' k rrs (r(c := None)))"
proof (cases "joined ''id'' rrs (r k)")
  case None
  then show ?thesis using assms by (simp add: update_from_def)
next
  case (Some q)
  then show ?thesis using assms joined_row [OF Some]
    by (auto simp: update_from_def filled_from_def intro!: bexI [of _ q])
qed

lemma all_filled:
  assumes "list_all (\<lambda>r. r c \<noteq> None)
      (map (update_from c ''organization_id'' ''id'' k rrs \<circ> (\<lambda>r. r(c := None))) rs)" "k \<noteq> c"
  shows "list_all2 (filled_from c k rrs) rs
      (map (update_from c ''organization_id'' ''id'' k rrs \<circ> (\<lambda>r. r(c := None))) rs)"
  using assms by (auto simp: list.rel_map list_all2_same list_all_iff intro!: update_fills)


fun rows_from :: "(string \<times> sql_row list) list \<Rightarrow> sql_rows" where
  "rows_from [] = (\<lambda>t. [])"
| "rows_from ((t, rs) # ts) = (rows_from ts)(t := rs)"

text \<open>A database at revision 006 with one conversation, its message and an execution of a public bot
  of another organization.\<close>

definition tenant_rows :: sql_rows where
  "tenant_rows = rows_from
    [(''users'', [map_of [(''id'', SqlInt 1)]]),
     (''organizations'', [map_of [(''id'', SqlInt 7)], map_of [(''id'', SqlInt 8)]]),
     (''organization_members'', [map_of [(''user_id'', SqlInt 1), (''organization_id'', SqlInt 7)]]),
     (''conversations'', [map_of [(''id'', SqlInt 3), (''user_id'', SqlInt 1), (''organization_id'', SqlInt 7)]]),
     (''bots'', [map_of [(''id'', SqlInt 5), (''organization_id'', SqlInt 8)]]),
     (''chat_executions'', [map_of [(''id'', SqlInt 4), (''execution_id'', SqlText ''e''),
        (''conversation_id'', SqlInt 3), (''organization_id'', SqlInt 7), (''user_id'', SqlInt 1), (''bot_id'', SqlInt 5)]]),
     (''messages'', [map_of [(''id'', SqlInt 9), (''conversation_id'', SqlInt 3), (''execution_id'', SqlText ''e'')]])]"

definition tenant_database :: database where
  "tenant_database = \<lparr>db_schema = (case upgrades (take 7 revisions) (Some []) of Some s \<Rightarrow> s | None \<Rightarrow> []),
     db_rows = tenant_rows\<rparr>"

lemma tenant_database_upgrades: "\<not> isl (run_ops 0 upgrade_007 tenant_database)"
  by code_simp


end
