(* ===== verification/OrmModels.thy ===== *)
theory OrmModels
  imports Migrations
begin

text \<open>
  The tables as the mapped classes of \<^verbatim>\<open>domains/*/models.py\<close> declare them, compared with the schema the
  revisions build.  Values a class fills in on the Python side (\<^verbatim>\<open>default=\<close>, \<^verbatim>\<open>onupdate=\<close>) are not
  part of the schema and are left out; a foreign key written on a column with a name or an
  \<^verbatim>\<open>ondelete\<close> stands with the table's own.
\<close>

section \<open>The mapped classes\<close>

text \<open>A table, its columns and constraints, and the indexes of its \<^verbatim>\<open>__table_args__\<close>.\<close>

type_synonym orm_table = "string \<times> table_arg list \<times> (string \<times> string list) list"

definition orm_user :: orm_table where
  "orm_user = (''users'',
    [Col (Column ''id'' SaInteger [PrimaryKey, Indexed]),
     Col (Column ''email'' (SaString (Some 255)) [UniqueColumn, Indexed, Nullable False]),
     Col (Column ''name'' (SaString (Some 255)) [Nullable True]),
     Col (Column ''username'' (SaString (Some 255)) [UniqueColumn, Indexed, Nullable True]),
     Col (Column ''password_hash'' (SaString (Some 255)) [Nullable True]),
     Col (Column ''role'' (SaString (Some 50)) [Nullable False]),
     Col (Column ''is_enabled'' SaBoolean [Nullable False]),
     Col (Column ''token_version'' SaInteger [Nullable False]),
     Col (Column ''created_at'' (SaDateTime False) [Nullable False]),
     Col (Column ''updated_at'' (SaDateTime False) [Nullable False])],
    [])"

definition orm_organization :: orm_table where
  "orm_organization = (''organizations'',
    [Col (Column ''id'' SaInteger [PrimaryKey, Indexed]),
     Col (Column ''name'' (SaString None) [UniqueColumn, Indexed, Nullable False]),
     Col (Column ''slug'' (SaString None) [UniqueColumn, Indexed, Nullable True]),
     Col (Column ''created_at'' (SaDateTime False) [ServerDefault CurrentTimestamp])],
    [])"

definition orm_organization_member :: orm_table where
  "orm_organization_member = (''organization_members'',
    [Col (Column ''id'' SaInteger [PrimaryKey, Indexed]),
     Col (Column ''organization_id'' SaInteger [Nullable False, Indexed]),
     Col (Column ''user_id'' SaInteger [Nullable False, Indexed]),
     Col (Column ''role'' (SaString None) [Nullable False]),
     Col (Column ''created_at'' (SaDateTime False) [ServerDefault CurrentTimestamp]),
     UniqueConstraint [''user_id'', ''organization_id''] ''uq_org_members_user_org'',
     ForeignKeyConstraint [''organization_id''] ''organizations'' [''id''] None (Some ''CASCADE''),
     ForeignKeyConstraint [''user_id''] ''users'' [''id''] None (Some ''CASCADE'')],
    [])"

definition orm_conversation :: orm_table where
  "orm_conversation = (''conversations'',
    [Col (Column ''id'' SaInteger [PrimaryKey, Indexed]),
     Col (Column ''user_id'' SaInteger [Nullable False, Indexed]),
     Col (Column ''organization_id'' SaInteger [Nullable False, Indexed]),
     Col (Column ''title'' (SaString None) [Nullable False]),
     Col (Column ''lifecycle'' (SaString (Some 16)) [Nullable False, ServerDefault (DefaultText
         ''active'')]),
     Col (Column ''version'' SaInteger [Nullable False, ServerDefault (DefaultText ''1'')]),
     Col (Column ''archived_at'' (SaDateTime False) [Nullable True]),
     Col (Column ''created_at'' (SaDateTime False) [ServerDefault CurrentTimestamp]),
     Col (Column ''updated_at'' (SaDateTime False) [ServerDefault CurrentTimestamp]),
     UniqueConstraint [''id'', ''organization_id''] ''uq_conversations_id_org'',
     ForeignKeyConstraint [''organization_id''] ''organizations'' [''id''] (Some
         ''fk_conversations_org'') None,
     ForeignKeyConstraint [''user_id'', ''organization_id''] ''organization_members'' [''user_id'',
         ''organization_id''] (Some ''fk_conversations_member'') None,
     CheckConstraint (SqlIn ''lifecycle'' [''active'', ''archived'']) ''ck_conversations_lifecycle'',
     CheckConstraint (SqlPositive ''version'') ''ck_conversations_version_positive'',
     CheckConstraint (SqlOr (SqlAnd (SqlEq ''lifecycle'' ''active'') (SqlIsNull ''archived_at''))
       (SqlAnd (SqlEq ''lifecycle'' ''archived'') (SqlIsNotNull ''archived_at'')))
           ''ck_conversations_archive_state''],
    [])"

definition orm_bot :: orm_table where
  "orm_bot = (''bots'',
    [Col (Column ''id'' SaInteger [PrimaryKey, Indexed]),
     Col (Column ''organization_id'' SaInteger [Nullable False, Indexed]),
     Col (Column ''title'' (SaString None) [Nullable False]),
     Col (Column ''description'' SaText [Nullable True]),
     Col (Column ''provider'' (SaString None) [Nullable False]),
     Col (Column ''model'' (SaString None) [Nullable False]),
     Col (Column ''system_prompt'' SaText [Nullable True]),
     Col (Column ''bot_visibility'' (SaString None) [Nullable False]),
     Col (Column ''knowledge_visibility'' (SaString None) [Nullable False]),
     Col (Column ''credential_scope'' (SaString None) [Nullable False]),
     Col (Column ''tool_scope'' (SaString None) [Nullable False]),
     Col (Column ''secret_reference'' (SaString None) [Nullable True]),
     Col (Column ''is_public'' SaBoolean [Nullable False]),
     Col (Column ''created_at'' (SaDateTime False) [ServerDefault CurrentTimestamp]),
     UniqueConstraint [''id'', ''organization_id''] ''uq_bots_id_org'',
     ForeignKeyConstraint [''organization_id''] ''organizations'' [''id''] (Some ''fk_bots_org'') None],
    [])"

definition orm_message :: orm_table where
  "orm_message = (''messages'',
    [Col (Column ''id'' SaInteger [PrimaryKey, Indexed]),
     Col (Column ''conversation_id'' SaInteger [Nullable False, Indexed]),
     Col (Column ''organization_id'' SaInteger [Nullable False, Indexed]),
     Col (Column ''execution_id'' (SaString (Some 64)) [References ''chat_executions''
         ''execution_id'', Nullable True, Indexed]),
     Col (Column ''role'' (SaString None) [Nullable False]),
     Col (Column ''content'' SaText [Nullable False]),
     Col (Column ''bot_id'' SaInteger [Nullable True]),
     Col (Column ''status'' (SaString None) [Nullable False]),
     Col (Column ''ai_marked'' SaBoolean [Nullable False]),
     Col (Column ''created_at'' (SaDateTime False) [ServerDefault CurrentTimestamp]),
     UniqueConstraint [''execution_id'', ''role''] ''uq_messages_execution_role'',
     ForeignKeyConstraint [''conversation_id'', ''organization_id''] ''conversations'' [''id'',
         ''organization_id''] (Some ''fk_messages_tenant_conversation'') None,
     ForeignKeyConstraint [''execution_id'', ''organization_id''] ''chat_executions''
         [''execution_id'', ''organization_id''] (Some ''fk_messages_tenant_execution'') None],
    [])"

definition orm_prompt_template :: orm_table where
  "orm_prompt_template = (''prompt_templates'',
    [Col (Column ''id'' SaInteger [PrimaryKey, Indexed]),
     Col (Column ''title'' (SaString (Some 255)) [Nullable False]),
     Col (Column ''category'' (SaString (Some 100)) [Nullable False]),
     Col (Column ''content'' SaText [Nullable False]),
     Col (Column ''usage_count'' SaInteger [Nullable False]),
     Col (Column ''created_at'' (SaDateTime False) [Nullable False])],
    [])"

definition orm_document :: orm_table where
  "orm_document = (''documents'',
    [Col (Column ''id'' SaInteger [PrimaryKey, Indexed]),
     Col (Column ''organization_id'' SaInteger [Indexed, Nullable False]),
     Col (Column ''title'' (SaString None) [Nullable False]),
     Col (Column ''source'' (SaString None) [Nullable True]),
     Col (Column ''mime_type'' (SaString None) [Nullable True]),
     Col (Column ''status'' (SaString None) []),
     Col (Column ''owner'' SaInteger [Nullable True]),
     Col (Column ''created_at'' (SaDateTime True) [ServerDefault CurrentTimestamp]),
     UniqueConstraint [''id'', ''organization_id''] ''uq_documents_id_organization'',
     ForeignKeyConstraint [''organization_id''] ''organizations'' [''id''] (Some
         ''fk_documents_organization'') (Some ''CASCADE'')],
    [])"

definition orm_document_chunk :: orm_table where
  "orm_document_chunk = (''document_chunks'',
    [Col (Column ''id'' SaInteger [PrimaryKey, Indexed]),
     Col (Column ''organization_id'' SaInteger [Indexed, Nullable False]),
     Col (Column ''document_id'' SaInteger [Nullable False]),
     Col (Column ''content'' SaText [Nullable False]),
     Col (Column ''embedding'' (SaVector 1536) [Nullable True]),
     Col (Column ''metadata'' SaText [Nullable True]),
     ForeignKeyConstraint [''document_id'', ''organization_id''] ''documents'' [''id'',
         ''organization_id''] (Some ''fk_document_chunks_document_tenant'') (Some ''CASCADE'')],
    [])"

definition orm_idempotency_record :: orm_table where
  "orm_idempotency_record = (''idempotency_records'',
    [Col (Column ''id'' SaInteger [PrimaryKey, Indexed]),
     Col (Column ''organization_id'' SaInteger [Nullable False, Indexed]),
     Col (Column ''user_id'' SaInteger [Nullable False, Indexed]),
     Col (Column ''key'' (SaString (Some 128)) [Nullable False]),
     Col (Column ''request_hash'' (SaString (Some 64)) [Nullable False]),
     Col (Column ''status'' (SaString (Some 16)) [Nullable False]),
     Col (Column ''response_status'' SaInteger [Nullable True]),
     Col (Column ''response_reference'' SaText [Nullable True]),
     Col (Column ''created_at'' (SaDateTime True) [ServerDefault CurrentTimestamp]),
     Col (Column ''expires_at'' (SaDateTime True) [Nullable True]),
     Col (Column ''lease_until'' (SaDateTime True) [Nullable True]),
     Col (Column ''lease_token'' (SaString (Some 64)) [Nullable True]),
     UniqueConstraint [''organization_id'', ''user_id'', ''key''] ''uq_idempotency_org_user_key'',
     UniqueConstraint [''id'', ''organization_id'', ''user_id''] ''uq_idempotency_id_org_user''],
    [(''ix_idempotency_expires_at'', [''expires_at''])])"

definition orm_provider_usage_record :: orm_table where
  "orm_provider_usage_record = (''provider_usage_records'',
    [Col (Column ''id'' SaInteger [PrimaryKey, Indexed]),
     Col (Column ''request_id'' (SaString (Some 128)) [Nullable False, Indexed]),
     Col (Column ''execution_id'' (SaString (Some 128)) [Nullable False, Indexed]),
     Col (Column ''chat_execution_id'' SaInteger [References ''chat_executions'' ''id'', Nullable True,
         Indexed]),
     Col (Column ''user_id'' SaInteger [Nullable False, Indexed]),
     Col (Column ''organization_id'' SaInteger [Nullable False, Indexed]),
     Col (Column ''provider'' (SaString (Some 64)) [Nullable False]),
     Col (Column ''model'' (SaString (Some 128)) [Nullable False]),
     Col (Column ''operation'' (SaString (Some 32)) [Nullable False]),
     Col (Column ''attempt'' SaInteger [Nullable False]),
     Col (Column ''usage_source'' (SaString (Some 32)) [Nullable False]),
     Col (Column ''pricing_revision'' (SaString (Some 32)) [Nullable True]),
     Col (Column ''input_tokens'' SaBigInteger [Nullable False]),
     Col (Column ''output_tokens'' SaBigInteger [Nullable False]),
     Col (Column ''total_tokens'' SaBigInteger [Nullable False]),
     Col (Column ''estimated_cost'' (SaNumeric 20 10) [Nullable False]),
     Col (Column ''actual_cost'' (SaNumeric 20 10) [Nullable True]),
     Col (Column ''verification'' SaBoolean [Nullable False]),
     Col (Column ''created_at'' (SaDateTime True) [Nullable False, ServerDefault CurrentTimestamp]),
     ForeignKeyConstraint [''chat_execution_id'', ''organization_id''] ''chat_executions'' [''id'',
         ''organization_id''] (Some ''fk_provider_usage_tenant_execution'') None,
     UniqueConstraint [''chat_execution_id'', ''attempt'', ''operation'', ''usage_source'']
         ''uq_provider_usage_execution_attempt_operation_source''],
    [])"

definition orm_chat_execution :: orm_table where
  "orm_chat_execution = (''chat_executions'',
    [Col (Column ''id'' SaInteger [PrimaryKey, Indexed]),
     Col (Column ''execution_id'' (SaString (Some 64)) [Nullable False, UniqueColumn, Indexed]),
     Col (Column ''request_id'' (SaString (Some 128)) [Nullable False, Indexed]),
     Col (Column ''conversation_id'' SaInteger [Nullable False, Indexed]),
     Col (Column ''organization_id'' SaInteger [Nullable False, Indexed]),
     Col (Column ''user_id'' SaInteger [Nullable False, Indexed]),
     Col (Column ''bot_id'' SaInteger [Nullable False, Indexed]),
     Col (Column ''bot_organization_id'' SaInteger [Nullable False, Indexed]),
     Col (Column ''idempotency_record_id'' SaInteger [Nullable True, UniqueColumn, Indexed]),
     Col (Column ''user_message_id'' SaInteger [References ''messages'' ''id'', Nullable True,
         UniqueColumn]),
     Col (Column ''assistant_message_id'' SaInteger [References ''messages'' ''id'', Nullable True,
         UniqueColumn]),
     Col (Column ''provider'' (SaString (Some 64)) [Nullable False]),
     Col (Column ''model'' (SaString (Some 128)) [Nullable False]),
     Col (Column ''status'' (SaString (Some 16)) [Nullable False]),
     Col (Column ''attempt_count'' SaInteger [Nullable False]),
     Col (Column ''max_attempts'' SaInteger [Nullable False]),
     Col (Column ''last_failure_code'' (SaString (Some 32)) [Nullable True]),
     Col (Column ''failure_retryable'' SaBoolean [Nullable False]),
     Col (Column ''partial_response'' SaBoolean [Nullable False]),
     Col (Column ''recovered_at'' (SaDateTime False) [Nullable True]),
     Col (Column ''governance_audit_required'' SaBoolean [Nullable False]),
     Col (Column ''created_at'' (SaDateTime False) [ServerDefault CurrentTimestamp]),
     Col (Column ''updated_at'' (SaDateTime False) [ServerDefault CurrentTimestamp]),
     Col (Column ''completed_at'' (SaDateTime False) [Nullable True]),
     UniqueConstraint [''execution_id'', ''organization_id''] ''uq_chat_executions_execution_org'',
     UniqueConstraint [''id'', ''organization_id''] ''uq_chat_executions_id_org'',
     ForeignKeyConstraint [''organization_id''] ''organizations'' [''id''] (Some
         ''fk_chat_executions_org'') None,
     ForeignKeyConstraint [''conversation_id'', ''organization_id''] ''conversations'' [''id'',
         ''organization_id''] (Some ''fk_chat_executions_tenant_conversation'') None,
     ForeignKeyConstraint [''user_id'', ''organization_id''] ''organization_members'' [''user_id'',
         ''organization_id''] (Some ''fk_chat_executions_member'') None,
     ForeignKeyConstraint [''bot_id'', ''bot_organization_id''] ''bots'' [''id'', ''organization_id'']
         (Some ''fk_chat_executions_bot_owner'') None,
     ForeignKeyConstraint [''idempotency_record_id'', ''organization_id'', ''user_id'']
         ''idempotency_records'' [''id'', ''organization_id'', ''user_id''] (Some
             ''fk_chat_executions_tenant_idempotency'') None,
     ForeignKeyConstraint [''idempotency_record_id''] ''idempotency_records'' [''id''] None (Some
         ''SET NULL'')],
    [(''ix_chat_executions_tenant_conversation'', [''organization_id'', ''conversation_id''])])"

definition orm_governance_decision_record :: orm_table where
  "orm_governance_decision_record = (''governance_decisions'',
    [Col (Column ''id'' SaInteger [PrimaryKey]),
     Col (Column ''decision_id'' (SaString (Some 64)) [Nullable False, UniqueColumn, Indexed]),
     Col (Column ''request_id'' (SaString (Some 128)) [Nullable False, Indexed]),
     Col (Column ''request_hash'' (SaString (Some 64)) [Nullable False]),
     Col (Column ''organization_id'' SaInteger [Nullable False, Indexed]),
     Col (Column ''user_id'' SaInteger [Nullable False, Indexed]),
     Col (Column ''role'' (SaString (Some 50)) [Nullable False]),
     Col (Column ''policy'' (SaString (Some 100)) [Nullable False]),
     Col (Column ''policy_version'' (SaString (Some 32)) [Nullable False]),
     Col (Column ''capability'' (SaString (Some 100)) [Nullable False]),
     Col (Column ''allowed'' SaBoolean [Nullable False]),
     Col (Column ''reason'' (SaString (Some 100)) [Nullable False]),
     Col (Column ''resource_type'' (SaString (Some 50)) [Nullable False]),
     Col (Column ''resource_id'' (SaString (Some 128)) [Nullable False]),
     Col (Column ''resource_organization_id'' SaInteger [Nullable False]),
     Col (Column ''provider'' (SaString (Some 64)) [Nullable True]),
     Col (Column ''model'' (SaString (Some 128)) [Nullable True]),
     Col (Column ''permit_fingerprint'' (SaString (Some 64)) [Nullable True]),
     Col (Column ''execution_id'' (SaString (Some 64)) [Nullable True, Indexed]),
     Col (Column ''result_status'' (SaString (Some 32)) [Nullable True]),
     Col (Column ''response_status'' SaInteger [Nullable True]),
     Col (Column ''failure_code'' (SaString (Some 32)) [Nullable True]),
     Col (Column ''decided_at'' (SaDateTime False) [Nullable False, ServerDefault CurrentTimestamp]),
     Col (Column ''finalized_at'' (SaDateTime False) [Nullable True]),
     ForeignKeyConstraint [''organization_id''] ''organizations'' [''id''] (Some
         ''fk_governance_decision_org'') None,
     ForeignKeyConstraint [''user_id'', ''organization_id''] ''organization_members'' [''user_id'',
         ''organization_id''] (Some ''fk_governance_decision_member'') None,
     ForeignKeyConstraint [''resource_organization_id''] ''organizations'' [''id''] (Some
         ''fk_governance_decision_resource_org'') None,
     ForeignKeyConstraint [''execution_id'', ''organization_id''] ''chat_executions''
         [''execution_id'', ''organization_id''] (Some ''fk_governance_decision_tenant_execution'')
             None],
    [(''ix_governance_decisions_tenant_request'', [''organization_id'', ''request_id'']),
        (''ix_governance_decisions_tenant_execution'', [''organization_id'', ''execution_id''])])"

definition orm_memory_record :: orm_table where
  "orm_memory_record = (''memory_records'',
    [Col (Column ''id'' SaInteger [PrimaryKey]),
     Col (Column ''item_id'' (SaString (Some 64)) [Nullable False]),
     Col (Column ''organization_id'' SaInteger [Nullable False, Indexed]),
     Col (Column ''owner_user_id'' SaInteger [Nullable True, Indexed]),
     Col (Column ''actor_user_id'' SaInteger [Nullable False]),
     Col (Column ''memory_class'' (SaString (Some 32)) [Nullable False]),
     Col (Column ''scope_kind'' (SaString (Some 16)) [Nullable False]),
     Col (Column ''content'' SaText [Nullable False]),
     Col (Column ''provenance_json'' SaText [Nullable False]),
     Col (Column ''source_message_id'' SaInteger [References ''messages'' ''id'', Nullable True]),
     Col (Column ''source_memory_item_id'' (SaString (Some 64)) [References ''memory_records''
         ''item_id'', Nullable True]),
     Col (Column ''reason'' (SaString (Some 500)) [Nullable False]),
     Col (Column ''created_at'' (SaDateTime False) [Nullable False, ServerDefault CurrentTimestamp]),
     Col (Column ''deleted_at'' (SaDateTime False) [Nullable True]),
     UniqueConstraint [''item_id''] ''uq_memory_records_item_id'',
     CheckConstraint (SqlIn ''memory_class'' [''persistent_memory'', ''user_org_knowledge''])
         ''ck_memory_records_durable_class'',
     CheckConstraint (SqlOr (SqlAnd (SqlEq ''scope_kind'' ''user'') (SqlIsNotNull ''owner_user_id''))
       (SqlAnd (SqlEq ''scope_kind'' ''organization'') (SqlIsNull ''owner_user_id'')))
           ''ck_memory_records_scope_owner'',
     ForeignKeyConstraint [''organization_id''] ''organizations'' [''id''] (Some
         ''fk_memory_records_org'') None,
     ForeignKeyConstraint [''actor_user_id'', ''organization_id''] ''organization_members''
         [''user_id'', ''organization_id''] (Some ''fk_memory_records_actor_member'') None,
     ForeignKeyConstraint [''owner_user_id'', ''organization_id''] ''organization_members''
         [''user_id'', ''organization_id''] (Some ''fk_memory_records_owner_member'') None],
    [(''ix_memory_records_tenant_scope'', [''organization_id'', ''scope_kind'', ''owner_user_id''])])"

definition orm_agent_audit_event :: orm_table where
  "orm_agent_audit_event = (''agent_audit_events'',
    [Col (Column ''id'' SaInteger [PrimaryKey]),
     Col (Column ''event_id'' (SaString (Some 64)) [Nullable False]),
     Col (Column ''run_id'' (SaString (Some 64)) [Nullable False, Indexed]),
     Col (Column ''sequence'' SaInteger [Nullable False]),
     Col (Column ''organization_id'' SaInteger [Nullable False, Indexed]),
     Col (Column ''user_id'' SaInteger [Nullable False, Indexed]),
     Col (Column ''actor_context'' (SaString (Some 128)) [Nullable False]),
     Col (Column ''event_type'' (SaString (Some 64)) [Nullable False]),
     Col (Column ''schema_version'' (SaString (Some 16)) [Nullable False]),
     Col (Column ''outcome'' (SaString (Some 64)) [Nullable True]),
     Col (Column ''reason_code'' (SaString (Some 64)) [Nullable True]),
     Col (Column ''payload_json'' SaText [Nullable False]),
     Col (Column ''created_at'' (SaDateTime False) [Nullable False, ServerDefault CurrentTimestamp]),
     UniqueConstraint [''event_id''] ''uq_agent_audit_events_event_id'',
     UniqueConstraint [''run_id'', ''sequence''] ''uq_agent_audit_events_run_sequence'',
     CheckConstraint (SqlPositive ''sequence'') ''ck_agent_audit_events_sequence_positive'',
     ForeignKeyConstraint [''organization_id''] ''organizations'' [''id''] (Some
         ''fk_agent_audit_events_org'') None,
     ForeignKeyConstraint [''user_id'', ''organization_id''] ''organization_members'' [''user_id'',
         ''organization_id''] (Some ''fk_agent_audit_events_member'') None],
    [(''ix_agent_audit_events_tenant_run'', [''organization_id'', ''run_id'', ''sequence''])])"

definition orm_tables :: "orm_table list" where
  "orm_tables =
    [orm_user, orm_organization, orm_organization_member, orm_conversation, orm_bot, orm_message,
     orm_prompt_template, orm_document, orm_document_chunk, orm_idempotency_record,
     orm_provider_usage_record, orm_chat_execution, orm_governance_decision_record, orm_memory_record,
     orm_agent_audit_event]"

section \<open>Comparison with the schema\<close>

definition orm_columns :: "orm_table \<Rightarrow> column list" where
  "orm_columns m = map declared_column (arg_columns (fst (snd m)))"

fun unique_columns :: "column_decl list \<Rightarrow> string list list" where
  "unique_columns [] = []"
| "unique_columns (Column c ty args # ds) =
     (if UniqueColumn \<in> set args \<or> PrimaryKey \<in> set args then [c] # unique_columns ds else unique_columns ds)"

fun key_columns :: "(string \<times> constraint_def) list \<Rightarrow> string list list" where
  "key_columns [] = []"
| "key_columns ((n, c) # cs) = (if is_key c then constraint_columns c # key_columns cs else key_columns cs)"

definition orm_keys :: "orm_table \<Rightarrow> string list set" where
  "orm_keys m = set (unique_columns (arg_columns (fst (snd m))) @ key_columns (arg_constraints (fst m) (fst (snd m))))"

definition schema_keys :: "schema \<Rightarrow> string \<Rightarrow> string list set" where
  "schema_keys s t = constraint_columns ` snd ` Set.filter (\<lambda>(n, c). is_key c) (constraints_of s t)"

text \<open>What a foreign key or a check demands, whatever its name.\<close>

definition orm_rules :: "orm_table \<Rightarrow> constraint_def set" where
  "orm_rules m = set (filter (\<lambda>c. \<not> is_key c) (map snd (arg_constraints (fst m) (fst (snd m)))))"

definition schema_rules :: "schema \<Rightarrow> string \<Rightarrow> constraint_def set" where
  "schema_rules s t = Set.filter (\<lambda>c. \<not> is_key c) (snd ` constraints_of s t)"

definition orm_index_columns :: "orm_table \<Rightarrow> string list set" where
  "orm_index_columns m = set (map (\<lambda>c. [c]) (indexed_columns (arg_columns (fst (snd m)))) @ map snd (snd (snd m)))"

definition schema_index_columns :: "schema \<Rightarrow> string \<Rightarrow> string list set" where
  "schema_index_columns s t =
     (case lookup_table s t of None \<Rightarrow> {} | Some tab \<Rightarrow> snd ` tab_indexes tab)"

definition schema_columns :: "schema \<Rightarrow> string \<Rightarrow> column list" where
  "schema_columns s t = (case lookup_table s t of None \<Rightarrow> [] | Some tab \<Rightarrow> tab_columns tab)"

text \<open>The columns of a class that the table lacks, or holds with another type or nullability.\<close>

definition agrees :: "column \<Rightarrow> column option \<Rightarrow> bool" where
  "agrees k c = (case c of None \<Rightarrow> False
     | Some k' \<Rightarrow> col_type k' = col_type k \<and> col_nullable k' = col_nullable k)"

definition column_drift :: "schema \<Rightarrow> orm_table \<Rightarrow> (string \<times> string) list" where
  "column_drift s m = map (\<lambda>k. (fst m, col_name k))
     (filter (\<lambda>k. \<not> agrees k (find_column (schema_columns s (fst m)) (col_name k))) (orm_columns m))"

definition unmapped_columns :: "schema \<Rightarrow> orm_table \<Rightarrow> string list" where
  "unmapped_columns s m = filter (\<lambda>c. \<not> List.member (map col_name (orm_columns m)) c) (table_columns s (fst m))"

definition head_schema :: schema where
  "head_schema = (case upgrades revisions (Some []) of Some s \<Rightarrow> s | None \<Rightarrow> [])"

definition drift_of :: "schema \<Rightarrow> (string \<times> string) list" where
  "drift_of s = concat (map (column_drift s) orm_tables)"

definition rules_agree :: "schema \<Rightarrow> orm_table \<Rightarrow> bool" where
  "rules_agree s m \<longleftrightarrow> orm_keys m = schema_keys s (fst m) \<and> orm_rules m = schema_rules s (fst m)"

fun known_drift_only :: "schema option \<Rightarrow> bool" where
  "known_drift_only None = False"
| "known_drift_only (Some s) =
     (map fst orm_tables = map fst s \<and> drift_of s =
        [(''idempotency_records'', ''created_at''), (''idempotency_records'', ''expires_at''),
         (''idempotency_records'', ''lease_until''), (''chat_executions'', ''created_at''),
         (''chat_executions'', ''updated_at'')] \<and>
      concat (map (unmapped_columns s) orm_tables) = [] \<and> list_all (rules_agree s) orm_tables)"

lemma head_agrees: "known_drift_only (upgrades revisions (Some []))"
  by code_simp

lemma orm_rules_hold: "list_all (rules_agree head_schema) orm_tables"
  using head_agrees unfolding head_schema_def
  by (cases "upgrades revisions (Some [])") simp_all


end
