(* ===== verification/SchemaChecks.thy ===== *)
theory SchemaChecks
  imports OrmModels Conversations Memory
begin

text \<open>
  The checks of the migrated schema against the constraints the models of the conversations and of the
  memory runtime work with.  A row is read as the SQL values of the columns the checks mention.
\<close>

fun check_expr :: "constraint_def \<Rightarrow> sql_expr option" where
  "check_expr (Check e) = Some e"
| "check_expr _ = None"

definition passes_checks :: "schema \<Rightarrow> string \<Rightarrow> sql_row \<Rightarrow> bool" where
  "passes_checks s t row \<longleftrightarrow> (\<forall>e\<in>Set.filter (\<lambda>c. \<not> is_key c) (snd ` constraints_of s t).
     case check_expr e of None \<Rightarrow> True | Some x \<Rightarrow> sql_eval x row \<noteq> Some False)"

lemma passes_checks_rules:
  "passes_checks s t row \<longleftrightarrow>
     (\<forall>e\<in>schema_rules s t. case check_expr e of None \<Rightarrow> True | Some x \<Rightarrow> sql_eval x row \<noteq> Some False)"
  by (simp add: passes_checks_def schema_rules_def)

definition conversation_sql :: "conversation \<Rightarrow> sql_row" where
  "conversation_sql r = (\<lambda>_. None)(''lifecycle'' := Some (SqlText (cv_lifecycle r)),
     ''version'' := Some (SqlInt (cv_version r)),
     ''archived_at'' := map_option (\<lambda>t. SqlTime (nat t)) (cv_archived_at r))"

definition memory_sql :: "memory_record \<Rightarrow> sql_row" where
  "memory_sql r = (\<lambda>_. None)(''memory_class'' := Some (SqlText (mr_memory_class r)),
     ''scope_kind'' := Some (SqlText (mr_scope_kind r)),
     ''owner_user_id'' := map_option SqlInt (mr_owner_user_id r))"

lemma head_rules: "m \<in> set orm_tables \<Longrightarrow> schema_rules head_schema (fst m) = orm_rules m"
  using orm_rules_hold by (simp add: list_all_iff rules_agree_def)


lemma rules_of_conversations:
  "orm_rules orm_conversation =
     {Check (SqlIn ''lifecycle'' [''active'', ''archived'']), Check (SqlPositive ''version''),
      Check (SqlOr (SqlAnd (SqlEq ''lifecycle'' ''active'') (SqlIsNull ''archived_at''))
        (SqlAnd (SqlEq ''lifecycle'' ''archived'') (SqlIsNotNull ''archived_at''))),
      Foreign [''organization_id''] ''organizations'' [''id''] None,
      Foreign [''user_id'', ''organization_id''] ''organization_members'' [''user_id'', ''organization_id''] None}"
  by (simp add: orm_rules_def orm_conversation_def insert_commute)

lemma rules_of_memory:
  "orm_rules orm_memory_record =
     {Check (SqlIn ''memory_class'' [''persistent_memory'', ''user_org_knowledge'']),
      Check (SqlOr (SqlAnd (SqlEq ''scope_kind'' ''user'') (SqlIsNotNull ''owner_user_id''))
        (SqlAnd (SqlEq ''scope_kind'' ''organization'') (SqlIsNull ''owner_user_id''))),
      Foreign [''organization_id''] ''organizations'' [''id''] None,
      Foreign [''actor_user_id'', ''organization_id''] ''organization_members'' [''user_id'', ''organization_id''] None,
      Foreign [''owner_user_id'', ''organization_id''] ''organization_members'' [''user_id'', ''organization_id''] None,
      Foreign [''source_message_id''] ''messages'' [''id''] None,
      Foreign [''source_memory_item_id''] ''memory_records'' [''item_id''] None}"
  by (simp add: orm_rules_def orm_memory_record_def insert_commute)

lemma conversation_checks:
  assumes "schema_rules s ''conversations'' = orm_rules orm_conversation"
  shows "passes_checks s ''conversations'' (conversation_sql r) = conversation_constraints r"
  unfolding passes_checks_rules assms rules_of_conversations
  by (cases "cv_archived_at r"; cases "cv_lifecycle r = ''active''"; cases "cv_lifecycle r = ''archived''")
    (auto simp: conversation_sql_def conversation_constraints_def)

lemma memory_checks:
  assumes "schema_rules s ''memory_records'' = orm_rules orm_memory_record"
  shows "passes_checks s ''memory_records'' (memory_sql r) = memory_constraints r"
  unfolding passes_checks_rules assms rules_of_memory
  by (auto simp: memory_sql_def memory_constraints_def split: bool.splits)

text \<open>C39: The database accepts exactly the rows the models accept: a row of the conversations or of the memory
  passes the checks of the migrated schema just when it satisfies the constraints under which the
  endpoints are modelled.
\<close>

theorem schema_checks_are_the_models:
  "passes_checks head_schema ''conversations'' (conversation_sql r) = conversation_constraints r \<and>
   passes_checks head_schema ''memory_records'' (memory_sql m) = memory_constraints m"
proof -
  have "schema_rules head_schema (fst orm_conversation) = orm_rules orm_conversation"
    and "schema_rules head_schema (fst orm_memory_record) = orm_rules orm_memory_record"
    by (rule head_rules, simp add: orm_tables_def)+
  then have "schema_rules head_schema ''conversations'' = orm_rules orm_conversation"
    and "schema_rules head_schema ''memory_records'' = orm_rules orm_memory_record"
    by (simp_all add: orm_conversation_def orm_memory_record_def)
  then show ?thesis by (simp add: conversation_checks memory_checks)
qed

end
