(* ===== verification/Operations.thy ===== *)
theory Operations
  imports Middleware Upload Reservation
begin

text \<open>
  What surrounds the request paths: the problem documents of \<^verbatim>\<open>core/exceptions.py\<close>, the system
  endpoints of \<^verbatim>\<open>main.py\<close>, the periodic jobs and the queue connection of \<^verbatim>\<open>workers\<close>, the
  process-wide budget gate of \<^verbatim>\<open>api/v1/chat.py\<close>, the request schemas of \<^verbatim>\<open>api/v1/documents.py\<close>
  and the storage paths of \<^verbatim>\<open>domains/documents/file_service.py\<close>.  Redis, the parser of its URLs and
  the file system's \<^verbatim>\<open>resolve\<close> are parameters.
\<close>

section \<open>Problem documents\<close>

text \<open>The exceptions \<^verbatim>\<open>register_exception_handlers\<close> has a handler for, each by its own class; the
  strings are what the handler could show of them.\<close>

datatype handled_exception =
    DomainError string string int
  | HttpError int string
  | TooManyRequests
  | InvalidRequest json
  | DatabaseError string
  | UnexpectedError string

definition problem_type :: "int \<Rightarrow> string" where
  "problem_type status = ''https://api.eiraos.ai/errors/'' @ str_int status"

definition rfc7807 :: "int \<Rightarrow> string \<Rightarrow> string \<Rightarrow> (string \<times> json) list \<Rightarrow> string \<Rightarrow> web_response" where
  "rfc7807 status title detail extra path = json_response status
     ([(''type'', JStr (problem_type status)), (''title'', JStr title), (''status'', JInt status),
       (''detail'', JStr detail)] @ extra @ [(''instance'', JStr path)])"

fun problem_handler :: "string \<Rightarrow> handled_exception \<Rightarrow> web_response" where
  "problem_handler path (DomainError title detail status) = rfc7807 status title detail [] path"
| "problem_handler path (HttpError status detail) = rfc7807 status ''HTTP Error'' detail [] path"
| "problem_handler path TooManyRequests =
     (let r = rfc7807 429 ''Too Many Requests'' ''Rate limit exceeded. Please retry after a short pause.'' [] path
      in r\<lparr>ws_headers := ws_headers r @ [(''retry-after'', ''60'')]\<rparr>)"
| "problem_handler path (InvalidRequest errors) =
     rfc7807 422 ''Validation Error'' ''The request payload contains invalid fields.'' [(''errors'', errors)] path"
| "problem_handler path (DatabaseError e) =
     rfc7807 500 ''Database Error'' ''An internal database error occurred while processing the request.'' [] path"
| "problem_handler path (UnexpectedError e) =
     rfc7807 500 ''Internal Server Error'' ''An unexpected internal server error occurred.'' [] path"

text \<open>The body names the status of the response, and an internal error shows nothing of itself.\<close>

lemma problem_status:
  "\<exists>fields. ws_content (problem_handler path e) = JObj fields
     \<and> map_of fields ''status'' = Some (JInt (ws_status (problem_handler path e)))"
  by (cases e) (simp_all add: rfc7807_def json_response_def Let_def)

lemma internal_errors_alike:
  "problem_handler path (DatabaseError e) = problem_handler path (DatabaseError e')"
  "problem_handler path (UnexpectedError e) = problem_handler path (UnexpectedError e')"
  by simp_all

section \<open>System endpoints\<close>

definition docs_url :: "app_settings \<Rightarrow> string option" where
  "docs_url st = (if st_app_env st = ''production'' then None else Some ''/docs'')"

definition redoc_url :: "app_settings \<Rightarrow> string option" where
  "redoc_url st = (if st_app_env st = ''production'' then None else Some ''/redoc'')"

definition health_live :: "app_settings \<Rightarrow> web_response" where
  "health_live st = json_response 200
     [(''status'', JStr ''alive''), (''release_sha'', JStr (st_release_sha st)), (''version'', JStr ''1.0.0'')]"

definition health_check :: "app_settings \<Rightarrow> bool \<Rightarrow> bool \<Rightarrow> web_response" where
  "health_check = health_ready"

definition root_endpoint :: "app_settings \<Rightarrow> web_response" where
  "root_endpoint st = json_response 200
     [(''system'', JStr ''EiraOS Chat Backend''), (''version'', JStr ''1.0.0''), (''status'', JStr ''active''),
      (''docs'', (case docs_url st of None \<Rightarrow> JNull | Some u \<Rightarrow> JStr u))]"

text \<open>The metrics need a signed-in user with an active organization.\<close>

definition metrics_endpoint ::
    "api_error + 'u \<Rightarrow> ('u \<Rightarrow> api_error + identity) \<Rightarrow> string \<Rightarrow> api_error + web_response" where
  "metrics_endpoint user active_organization latest =
     (case user of Inl e \<Rightarrow> Inl e
      | Inr u \<Rightarrow> (case active_organization u of Inl e \<Rightarrow> Inl e
          | Inr org \<Rightarrow> Inr \<lparr>ws_status = 200,
              ws_headers = [(''content-type'', ''text/plain; version=0.0.4; charset=utf-8'')],
              ws_content = JStr latest\<rparr>))"

section \<open>Jobs and their queue\<close>

record redis_settings =
  rs_host :: string
  rs_port :: int
  rs_ssl :: bool
  rs_check_hostname :: bool

text \<open>\<^verbatim>\<open>RedisSettings.from_dsn\<close> is the argument; \<^verbatim>\<open>None\<close> is an absent URL.\<close>

definition redis_settings_from_url :: "(string \<Rightarrow> redis_settings) \<Rightarrow> string option \<Rightarrow> redis_settings" where
  "redis_settings_from_url from_dsn url =
     (let normalized = py_strip (py_or_empty url) in
      if normalized = []
      then \<lparr>rs_host = ''localhost'', rs_port = 6379, rs_ssl = False, rs_check_hostname = False\<rparr>
      else let settings = from_dsn normalized in
        if rs_ssl settings then settings\<lparr>rs_check_hostname := True\<rparr> else settings)"

text \<open>\<^verbatim>\<open>get_arq_pool\<close> keeps the first connection it gets; \<^verbatim>\<open>None\<close> from Redis is a failed connect.\<close>

definition get_arq_pool :: "'p option \<Rightarrow> 'p option \<Rightarrow> 'p option \<times> 'p option" where
  "get_arq_pool connects pool = (case pool of
     Some p \<Rightarrow> (Some p, pool)
   | None \<Rightarrow> (connects, connects))"

text \<open>A sequence of calls, each with what Redis would answer then; the pool of every call.\<close>

fun pools :: "'p option list \<Rightarrow> 'p option \<Rightarrow> 'p option list" where
  "pools [] pool = []"
| "pools (c # cs) pool = (let (p, pool') = get_arq_pool c pool in p # pools cs pool')"

lemma pools_cached: "pools cs (Some p) = replicate (length cs) (Some p)"
  by (induction cs) (simp_all add: get_arq_pool_def)

definition cleanup_limit :: int where "cleanup_limit = 2000"

definition cleanup_expired_idempotency :: "microseconds \<Rightarrow> chat_db \<Rightarrow> (string \<times> json) list \<times> chat_db" where
  "cleanup_expired_idempotency now db =
     (let (deleted, db') = cleanup_expired_records now cleanup_limit db
      in ([(''status'', JStr ''ok''), (''deleted'', JInt deleted)], db'))"

definition aggregate_ai_usage_metrics :: "chat_db \<Rightarrow> (string \<times> json) list \<times> chat_db" where
  "aggregate_ai_usage_metrics db =
     ([(''status'', JStr ''skipped''), (''reason'', JStr ''no_usage_table'')], db)"

text \<open>The minutes of the hour at which the worker runs its periodic jobs.\<close>

definition cron_jobs :: "(string \<times> nat set) list" where
  "cron_jobs = [(''aggregate_ai_usage_metrics'', {0, 30}), (''cleanup_expired_idempotency'', {15})]"

section \<open>The budget gate of the process\<close>

text \<open>\<^verbatim>\<open>_usage_budget_gate\<close>: made from the settings at the first use and kept, so that what it has
  reserved is remembered by the process.\<close>

definition usage_budget_gate_of ::
    "rat option \<times> rat option \<times> rat option \<Rightarrow> usage_budget_gate option \<Rightarrow> usage_budget_gate \<times> usage_budget_gate option" where
  "usage_budget_gate_of settings gate = (case gate of
     Some g \<Rightarrow> (g, gate)
   | None \<Rightarrow> (let (user, organization, execution) = settings;
                g = \<lparr>ug_user_remaining = user, ug_organization_remaining = organization,
                     ug_max_execution_cost = execution, ug_backend_available = True\<rparr>
            in (g, Some g)))"

section \<open>Request schemas of the documents API\<close>

definition MAX_DOCUMENT_CHARS :: nat where "MAX_DOCUMENT_CHARS = 200000"
definition MAX_TITLE_CHARS :: nat where "MAX_TITLE_CHARS = 500"
definition MAX_SEARCH_QUERY_CHARS :: nat where "MAX_SEARCH_QUERY_CHARS = 2000"
definition MAX_SEARCH_LIMIT :: int where "MAX_SEARCH_LIMIT = 50"

definition within_chars :: "nat \<Rightarrow> string \<Rightarrow> bool" where
  "within_chars n s \<longleftrightarrow> 1 \<le> length s \<and> length s \<le> n"

definition valid_ingest_request :: "ingest_request \<Rightarrow> bool" where
  "valid_ingest_request p \<longleftrightarrow> within_chars MAX_TITLE_CHARS (ig_title p) \<and> within_chars MAX_DOCUMENT_CHARS (ig_content p)"

record search_request =
  sr_query :: string
  sr_limit :: int

definition search_request_of :: "string \<Rightarrow> int option \<Rightarrow> search_request" where
  "search_request_of query limit = \<lparr>sr_query = query, sr_limit = (case limit of None \<Rightarrow> 5 | Some n \<Rightarrow> n)\<rparr>"

definition valid_search_request :: "search_request \<Rightarrow> bool" where
  "valid_search_request p \<longleftrightarrow> within_chars MAX_SEARCH_QUERY_CHARS (sr_query p) \<and> 1 \<le> sr_limit p \<and> sr_limit p \<le> MAX_SEARCH_LIMIT"

section \<open>Storage paths\<close>

text \<open>The directories above a path, nearest first; the root has none.\<close>

fun parents_of :: "string list \<Rightarrow> string list list" where
  "parents_of [] = []"
| "parents_of (c # cs) = map (\<lambda>p. c # p) (parents_of cs) @ [[]]"

definition inside :: "string list \<Rightarrow> string list \<Rightarrow> bool" where
  "inside store target \<longleftrightarrow> (\<exists>rest. rest \<noteq> [] \<and> target = store @ rest)"

definition storage_path ::
    "(string list \<Rightarrow> string list) \<Rightarrow> string \<Rightarrow> string list \<Rightarrow> identity \<Rightarrow> string
     \<Rightarrow> string + string list \<times> string" where
  "storage_path resolve uuid store org extension =
     (let name = uuid @ extension;
          root_resolved = resolve store;
          target = resolve (root_resolved @ str_int org # path_parts name)
      in if root_resolved \<noteq> target \<and> root_resolved \<notin> set (parents_of target)
         then Inl ''Invalid storage path''
         else Inr (target, str_int org @ ''/'' @ name))"

lemma parents_of_iff: "p \<in> set (parents_of t) \<longleftrightarrow> (\<exists>rest. rest \<noteq> [] \<and> t = p @ rest)"
proof (induction t arbitrary: p)
  case (Cons c cs)
  show ?case
  proof (cases p)
    case (Cons a p')
    then show ?thesis using Cons.IH [of p'] by (auto simp: image_iff)
  qed auto
qed simp

text \<open>A path handed out is below the root, or the root itself, whatever the links of the file system.\<close>

lemma storage_path_contained:
  assumes "storage_path resolve uuid store org extension = Inr (target, relative)"
  shows "target = resolve store \<or> inside (resolve store) target"
  using assms by (auto simp: storage_path_def Let_def inside_def parents_of_iff split: if_splits)

end
