(* ===== verification/PerformanceGate.thy ===== *)
theory PerformanceGate
  imports Prelude
begin

text \<open>
  \<^verbatim>\<open>scripts/f8_performance_gate.py\<close>: the latency and error gate a deployment has to pass.  Durations
  and rates are exact rationals where Python has floats.  What the network answers to each request, and
  how long it takes, is an argument: the semaphore and \<^verbatim>\<open>asyncio.gather\<close> only decide when a request
  is sent, and \<^verbatim>\<open>gather\<close> returns the samples in the order of the requests.
\<close>

record sample =
  sm_status :: int
  sm_duration_ms :: rat
  sm_valid :: bool

text \<open>\<^verbatim>\<open>None\<close> stands for the \<^verbatim>\<open>IndexError\<close> of a rank past the end.\<close>

definition percentile :: "rat list \<Rightarrow> rat \<Rightarrow> rat option" where
  "percentile values quantile =
     (if values = [] then Some 0
      else let ordered = sort values;
               i = nat (max 0 (\<lceil>of_nat (length ordered) * quantile\<rceil> - 1))
           in if i < length ordered then Some (ordered ! i) else None)"

text \<open>\<^verbatim>\<open>round(x, 3)\<close>: to the nearest thousandth, ties to the even one.\<close>

definition round_half_even :: "rat \<Rightarrow> int" where
  "round_half_even x = (let f = \<lfloor>x\<rfloor>; d = x - of_int f in
     if d < 1 / 2 then f else if 1 / 2 < d then f + 1 else if even f then f else f + 1)"

definition round3 :: "rat \<Rightarrow> rat" where
  "round3 x = of_int (round_half_even (x * 1000)) / 1000"

record gate_report =
  gr_requests :: nat
  gr_errors :: nat
  gr_error_rate :: rat
  gr_p50_ms :: rat
  gr_p95_ms :: rat
  gr_max_ms :: rat

definition max_default :: "rat list \<Rightarrow> rat" where
  "max_default xs = (if xs = [] then 0 else Max (set xs))"

definition summarize :: "sample list \<Rightarrow> gate_report option" where
  "summarize samples =
     (let durations = map sm_duration_ms samples;
          errors = length (filter (\<lambda>s. \<not> sm_valid s) samples)
      in case (percentile durations (50 / 100), percentile durations (95 / 100)) of
           (Some p50, Some p95) \<Rightarrow> Some
             \<lparr>gr_requests = length samples, gr_errors = errors,
              gr_error_rate = (if samples = [] then 1 else of_nat errors / of_nat (length samples)),
              gr_p50_ms = round3 p50, gr_p95_ms = round3 p95, gr_max_ms = round3 (max_default durations)\<rparr>
         | _ \<Rightarrow> None)"

text \<open>One request: the status of its response, or an \<^verbatim>\<open>httpx.HTTPError\<close>, and the time it took.\<close>

type_synonym exchange_result = "int option \<times> rat"

definition one :: "int \<Rightarrow> exchange_result \<Rightarrow> sample" where
  "one expected r = (case r of
     (Some status, duration) \<Rightarrow> \<lparr>sm_status = status, sm_duration_ms = duration, sm_valid = (status = expected)\<rparr>
   | (None, duration) \<Rightarrow> \<lparr>sm_status = 0, sm_duration_ms = duration, sm_valid = False\<rparr>)"

definition run_scenario :: "int \<Rightarrow> exchange_result list \<Rightarrow> gate_report option" where
  "run_scenario expected results = summarize (map (one expected) results)"

record gate_args =
  ga_requests :: int
  ga_concurrency :: int
  ga_max_p95_ms :: rat
  ga_max_error_rate :: rat
  ga_require_release :: "string option"

text \<open>The defaults of \<^verbatim>\<open>parser()\<close>.\<close>

definition default_args :: gate_args where
  "default_args = \<lparr>ga_requests = 100, ga_concurrency = 10, ga_max_p95_ms = 500, ga_max_error_rate = 0,
     ga_require_release = None\<rparr>"

record deployment =
  dp_live :: "int \<times> string option"
  dp_health :: "exchange_result list"
  dp_rejections :: "exchange_result list"

definition release_of :: "int \<times> string option \<Rightarrow> string option" where
  "release_of live = (if fst live = 200 then snd live else None)"

definition within_limits :: "gate_args \<Rightarrow> gate_report \<Rightarrow> bool" where
  "within_limits a r \<longleftrightarrow> gr_error_rate r \<le> ga_max_error_rate a \<and> gr_p95_ms r \<le> ga_max_p95_ms a"

text \<open>An empty \<^verbatim>\<open>--require-release\<close> asks for nothing.\<close>

definition release_ok :: "gate_args \<Rightarrow> string option \<Rightarrow> bool" where
  "release_ok a release \<longleftrightarrow>
     ga_require_release a \<in> {None, Some []} \<or> release = ga_require_release a"

definition qualify :: "gate_args \<Rightarrow> deployment \<Rightarrow> (gate_report list \<times> bool) option" where
  "qualify a d = (case (run_scenario 200 (dp_health d), run_scenario 401 (dp_rejections d)) of
     (Some h, Some r) \<Rightarrow>
       Some ([h, r], list_all (within_limits a) [h, r] \<and> release_ok a (release_of (dp_live d)))
   | _ \<Rightarrow> None)"

datatype gate_exit = Usage string | Crash | Exit int

definition gate_main :: "gate_args \<Rightarrow> deployment \<Rightarrow> gate_exit" where
  "gate_main a d =
     (if ga_requests a < 1 \<or> ga_concurrency a < 1 \<or> ga_requests a < ga_concurrency a
      then Usage ''requests/concurrency must be positive and concurrency <= requests''
      else case qualify a d of None \<Rightarrow> Crash | Some (reports, passed) \<Rightarrow> Exit (if passed then 0 else 1))"

section \<open>What a pass means\<close>

lemma round_half_even_near: "\<bar>of_int (round_half_even x) - x\<bar> \<le> 1 / 2"
proof -
  have "of_int \<lfloor>x\<rfloor> \<le> x" "x < of_int \<lfloor>x\<rfloor> + 1" by linarith+
  then show ?thesis by (auto simp: round_half_even_def Let_def abs_le_iff)
qed

lemma round3_near: "x \<le> round3 x + 1 / 2000"
proof -
  have "x * 1000 \<le> of_int (round_half_even (x * 1000)) + 1 / 2"
    using round_half_even_near [of "x * 1000"] unfolding abs_le_iff by linarith
  then show ?thesis by (simp add: round3_def field_simps)
qed

text \<open>At least \<^verbatim>\<open>k + 1\<close> values are at most the one at rank \<^verbatim>\<open>k\<close>.\<close>

lemma rank_count:
  assumes "sorted ys" "k < length ys"
  shows "Suc k \<le> length (filter (\<lambda>y. y \<le> ys ! k) ys)"
proof -
  have "\<forall>y\<in>set (take (Suc k) ys). y \<le> ys ! k"
  proof
    fix y assume "y \<in> set (take (Suc k) ys)"
    then obtain i where "i < Suc k" "y = ys ! i" "i < length ys"
      by (metis in_set_conv_nth length_take min_less_iff_conj nth_take)
    with assms show "y \<le> ys ! k" by (auto simp: sorted_nth_mono)
  qed
  then have "filter (\<lambda>y. y \<le> ys ! k) (take (Suc k) ys) = take (Suc k) ys"
    by (simp add: filter_id_conv)
  then have "length (filter (\<lambda>y. y \<le> ys ! k) (take (Suc k) ys)) = Suc k"
    using assms(2) by simp
  moreover have "filter (\<lambda>y. y \<le> ys ! k) ys = filter (\<lambda>y. y \<le> ys ! k) (take (Suc k) ys)
      @ filter (\<lambda>y. y \<le> ys ! k) (drop (Suc k) ys)"
    by (metis append_take_drop_id filter_append)
  ultimately show ?thesis by simp
qed

lemma filter_sort_length: "length (filter P (sort xs)) = length (filter P xs)"
  by (metis filter_sort length_sort)

lemma length_filter_mono: "(\<And>x. P x \<Longrightarrow> Q x) \<Longrightarrow> length (filter P xs) \<le> length (filter Q xs)"
  by (induction xs) auto

lemma percentile_count:
  assumes "percentile xs q = Some p"
  shows "of_nat (length xs) * q \<le> of_nat (length (filter (\<lambda>x. x \<le> p) xs))"
proof (cases "xs = []")
  case False
  let ?i = "nat (max 0 (\<lceil>of_nat (length xs) * q\<rceil> - 1))"
  have i: "?i < length (sort xs)" and p: "p = sort xs ! ?i"
    using assms False by (auto simp: percentile_def Let_def split: if_splits)
  have "Suc ?i \<le> length (filter (\<lambda>x. x \<le> p) (sort xs))"
    using rank_count [OF sorted_sort i] p by simp
  then have "Suc ?i \<le> length (filter (\<lambda>x. x \<le> p) xs)"
    by (simp only: filter_sort_length)
  moreover have "of_nat (length xs) * q \<le> of_nat (Suc ?i)"
    by linarith
  ultimately show ?thesis
    by (meson of_nat_mono order_trans)
qed simp

lemma summarize_facts:
  assumes "summarize samples = Some r"
  shows "samples \<noteq> [] \<Longrightarrow>
      of_nat (length (filter (\<lambda>s. \<not> sm_valid s) samples)) = gr_error_rate r * of_nat (length samples)"
    and "of_nat (length samples) * (95 / 100 :: rat)
      \<le> of_nat (length (filter (\<lambda>s. sm_duration_ms s \<le> gr_p95_ms r + 1 / 2000) samples))"
proof -
  obtain p50 p95 where p95: "percentile (map sm_duration_ms samples) (95 / 100) = Some p95"
    and r: "r = \<lparr>gr_requests = length samples, gr_errors = length (filter (\<lambda>s. \<not> sm_valid s) samples),
              gr_error_rate = (if samples = [] then 1
                else of_nat (length (filter (\<lambda>s. \<not> sm_valid s) samples)) / of_nat (length samples)),
              gr_p50_ms = round3 p50, gr_p95_ms = round3 p95,
              gr_max_ms = round3 (max_default (map sm_duration_ms samples))\<rparr>"
    using assms by (auto simp: summarize_def Let_def split: option.splits)
  show "samples \<noteq> [] \<Longrightarrow>
      of_nat (length (filter (\<lambda>s. \<not> sm_valid s) samples)) = gr_error_rate r * of_nat (length samples)"
    using r by simp
  have "of_nat (length samples) * (95 / 100)
      \<le> (of_nat (length (filter (\<lambda>s. sm_duration_ms s \<le> p95) samples)) :: rat)"
    using percentile_count [OF p95] by (simp add: filter_map comp_def)
  also have "length (filter (\<lambda>s. sm_duration_ms s \<le> p95) samples)
      \<le> length (filter (\<lambda>s. sm_duration_ms s \<le> gr_p95_ms r + 1 / 2000) samples)"
    using round3_near [of p95] r by (intro length_filter_mono) simp
  finally show "of_nat (length samples) * (95 / 100 :: rat)
      \<le> of_nat (length (filter (\<lambda>s. sm_duration_ms s \<le> gr_p95_ms r + 1 / 2000) samples))"
    by simp
qed

lemma one_duration: "sm_duration_ms (one expected r) = snd r"
  by (auto simp: one_def split: prod.split option.split)

text \<open>The errors are within the rate, and at least 95 in 100 requests are fast enough.\<close>

definition scenario_holds :: "gate_args \<Rightarrow> int \<Rightarrow> exchange_result list \<Rightarrow> bool" where
  "scenario_holds a expected rs \<longleftrightarrow>
     of_nat (length (filter (\<lambda>r. fst r \<noteq> Some expected) rs)) \<le> ga_max_error_rate a * of_nat (length rs) \<and>
     of_nat (length rs) * (95 / 100 :: rat)
       \<le> of_nat (length (filter (\<lambda>r. snd r \<le> ga_max_p95_ms a + 1 / 2000) rs))"

lemma invalid_one: "(\<not> sm_valid (one expected r)) = (fst r \<noteq> Some expected)"
  by (auto simp: one_def split: prod.split option.split)

lemma run_scenario_holds:
  assumes "run_scenario expected rs = Some r" "within_limits a r"
  shows "scenario_holds a expected rs"
proof -
  let ?ss = "map (one expected) rs"
  have s: "summarize ?ss = Some r" using assms(1) by (simp add: run_scenario_def)
  have lim: "gr_error_rate r \<le> ga_max_error_rate a" "gr_p95_ms r \<le> ga_max_p95_ms a"
    using assms(2) by (simp_all add: within_limits_def)
  have "of_nat (length (filter (\<lambda>s. \<not> sm_valid s) ?ss)) \<le> ga_max_error_rate a * of_nat (length ?ss)"
  proof (cases "rs = []")
    case False
    then have "of_nat (length (filter (\<lambda>s. \<not> sm_valid s) ?ss)) = gr_error_rate r * of_nat (length ?ss)"
      using summarize_facts(1) [OF s] by simp
    then show ?thesis using lim(1) by (simp add: mult_right_mono)
  qed simp
  moreover have "length (filter (\<lambda>r. snd r \<le> gr_p95_ms r' + 1 / 2000) rs)
      \<le> length (filter (\<lambda>r. snd r \<le> ga_max_p95_ms a + 1 / 2000) rs)" if "gr_p95_ms r' \<le> ga_max_p95_ms a" for r'
    using that by (intro length_filter_mono) linarith
  with lim(2) have "of_nat (length (filter (\<lambda>s. sm_duration_ms s \<le> gr_p95_ms r + 1 / 2000) ?ss))
      \<le> (of_nat (length (filter (\<lambda>r. snd r \<le> ga_max_p95_ms a + 1 / 2000) rs)) :: rat)"
    by (simp add: filter_map comp_def one_duration)
  ultimately show ?thesis
    using summarize_facts(2) [OF s]
    by (simp add: scenario_holds_def filter_map comp_def one_duration invalid_one)
qed

text \<open>
  A deployment that passes the gate answered both scenarios within the error rate, answered at least
  95 in 100 of the requests of each within the limit (to the half microsecond the report rounds away),
  and runs the required release.
\<close>

theorem performance_gate_sound:
  assumes "gate_main a d = Exit 0"
  shows "scenario_holds a 200 (dp_health d) \<and> scenario_holds a 401 (dp_rejections d)
    \<and> release_ok a (release_of (dp_live d))"
proof -
  obtain h r where "run_scenario 200 (dp_health d) = Some h" "run_scenario 401 (dp_rejections d) = Some r"
    and "within_limits a h" "within_limits a r" "release_ok a (release_of (dp_live d))"
    using assms by (auto simp: gate_main_def qualify_def split: if_splits option.splits)
  then show ?thesis using run_scenario_holds by blast
qed

definition healthy_deployment :: deployment where
  "healthy_deployment = \<lparr>dp_live = (200, Some ''abc''), dp_health = [(Some 200, 12), (Some 200, 480)],
     dp_rejections = [(Some 401, 7), (Some 401, 9)]\<rparr>"

definition small_args :: gate_args where
  "small_args = default_args\<lparr>ga_requests := 2, ga_concurrency := 2, ga_require_release := Some ''abc''\<rparr>"

lemma healthy_deployment_passes: "gate_main small_args healthy_deployment = Exit 0"
  by code_simp

theorem performance_gate_sound_witness:
  "gate_main small_args healthy_deployment = Exit 0 \<and> scenario_holds small_args 200 (dp_health healthy_deployment)
    \<and> scenario_holds small_args 401 (dp_rejections healthy_deployment)
    \<and> release_ok small_args (release_of (dp_live healthy_deployment))"
  using healthy_deployment_passes performance_gate_sound [OF healthy_deployment_passes] by blast

end
