(* ===== verification/AgentAudit.thy ===== *)
theory AgentAudit
  imports AgentRuntime Json
begin

text \<open>
  The durable audit trail of agents (\<^verbatim>\<open>application/agent_audit.py\<close>) with its table
  \<^verbatim>\<open>agent_audit_events\<close> (\<^verbatim>\<open>domains/governance/models.py\<close>): construction of a trail, recording
  of an event with its redacted payload, and reading a run back.  A trail numbers its events itself under
  a lock, so that recording is one step; any number of trails, of one process or of several, record into
  the same table.  The primary key, the event id, the clock, who is a member and whether the database
  answers come with each step.
\<close>

section \<open>The table\<close>

record agent_audit_event =
  av_id :: int
  av_event_id :: string
  av_run_id :: string
  av_sequence :: nat
  av_organization_id :: identity
  av_user_id :: identity
  av_actor_context :: string
  av_event_type :: string
  av_schema_version :: string
  av_outcome :: "string option"
  av_reason_code :: "string option"
  av_payload_json :: string
  av_created_at :: microseconds

record audit_env =
  ae_row_id :: int
  ae_event_id :: string
  ae_now :: microseconds
  ae_organizations :: "identity list"
  ae_members :: "(identity \<times> identity) list"
  ae_commits :: bool

definition short :: "nat \<Rightarrow> string option \<Rightarrow> bool" where
  "short n v = (case v of None \<Rightarrow> True | Some s \<Rightarrow> length s \<le> n)"

definition event_fits :: "agent_audit_event \<Rightarrow> bool" where
  "event_fits e \<longleftrightarrow> length (av_event_id e) \<le> 64 \<and> length (av_run_id e) \<le> 64
     \<and> length (av_actor_context e) \<le> 128 \<and> length (av_event_type e) \<le> 64 \<and> length (av_schema_version e) \<le> 16
     \<and> short 64 (av_outcome e) \<and> short 64 (av_reason_code e)"

text \<open>The constraints of the table, against the rows already there.\<close>

definition event_accepted :: "audit_env \<Rightarrow> agent_audit_event \<Rightarrow> agent_audit_event list \<Rightarrow> bool" where
  "event_accepted env e events \<longleftrightarrow> ae_commits env
     \<and> av_id e \<notin> av_id ` set events \<and> av_event_id e \<notin> av_event_id ` set events
     \<and> (av_run_id e, av_sequence e) \<notin> (\<lambda>r. (av_run_id r, av_sequence r)) ` set events
     \<and> 0 < av_sequence e \<and> av_organization_id e \<in> set (ae_organizations env)
     \<and> (av_user_id e, av_organization_id e) \<in> set (ae_members env) \<and> event_fits e"

section \<open>A trail\<close>

record audit_trail =
  at_run_id :: string
  at_organization_id :: identity
  at_user_id :: identity
  at_actor_context :: string
  at_sequence :: nat

datatype audit_failure = AgentAuditUnavailable string | AuditIdentityError

definition new_audit_trail ::
    "string \<Rightarrow> identity \<Rightarrow> identity \<Rightarrow> string \<Rightarrow> audit_failure + audit_trail" where
  "new_audit_trail run_id organization_id user_id actor_context =
     (if \<not> audit_identity_ok run_id organization_id user_id actor_context then Inl AuditIdentityError
      else Inr \<lparr>at_run_id = run_id, at_organization_id = organization_id, at_user_id = user_id,
                at_actor_context = machine_value actor_context ''actor'', at_sequence = 0\<rparr>)"

fun event_value :: "event_type \<Rightarrow> string" where
  "event_value RUN_STARTED = ''run.started''"
| "event_value PLANNER_DECISION = ''planner.decision''"
| "event_value AUTHORIZATION_DECISION = ''authorization.decision''"
| "event_value BUDGET_DECISION = ''budget.decision''"
| "event_value TOOL_SELECTED = ''tool.selected''"
| "event_value TOOL_EXECUTION_STARTED = ''tool.execution.started''"
| "event_value TOOL_EXECUTION_COMPLETED = ''tool.execution.completed''"
| "event_value TOOL_EXECUTION_FAILED = ''tool.execution.failed''"
| "event_value OBSERVATION_RECEIVED = ''observation.received''"
| "event_value RUN_TERMINATED = ''run.terminated''"

definition SCHEMA_VERSION :: string where "SCHEMA_VERSION = ''f6-07-v1''"

record audit_request =
  aq_event_type :: event_type
  aq_outcome :: "string option"
  aq_reason_code :: "string option"
  aq_payload :: "(string \<times> json) list option"

text \<open>\<^verbatim>\<open>json.dumps(_sanitize(payload or {}), sort_keys=True, separators=(",", ":"))\<close>.\<close>

definition encoded_payload :: "(rat \<Rightarrow> string) \<Rightarrow> audit_request \<Rightarrow> string" where
  "encoded_payload frepr q = json_compact frepr
     (sanitize [] 0 (JObj (case aq_payload q of None \<Rightarrow> [] | Some fs \<Rightarrow> fs)))"

definition audit_event ::
    "(rat \<Rightarrow> string) \<Rightarrow> nat \<Rightarrow> audit_trail \<Rightarrow> audit_env \<Rightarrow> audit_request \<Rightarrow> agent_audit_event" where
  "audit_event frepr n t env q =
     \<lparr>av_id = ae_row_id env, av_event_id = ae_event_id env, av_run_id = at_run_id t, av_sequence = n,
      av_organization_id = at_organization_id t, av_user_id = at_user_id t,
      av_actor_context = at_actor_context t, av_event_type = event_value (aq_event_type q),
      av_schema_version = SCHEMA_VERSION, av_outcome = machine_option ''outcome'' (aq_outcome q),
      av_reason_code = machine_option ''reason'' (aq_reason_code q),
      av_payload_json = encoded_payload frepr q, av_created_at = ae_now env\<rparr>"

definition record_event ::
    "(rat \<Rightarrow> string) \<Rightarrow> audit_env \<Rightarrow> audit_request \<Rightarrow> audit_trail \<Rightarrow> agent_audit_event list
     \<Rightarrow> (audit_failure + unit) \<times> audit_trail \<times> agent_audit_event list" where
  "record_event frepr env q t events =
     (if 8192 < length (encoded_payload frepr q)
      then (Inl (AgentAuditUnavailable ''agent audit payload exceeds limit''), t, events)
      else let n = at_sequence t + 1; e = audit_event frepr n t env q in
        if \<not> event_accepted env e events
        then (Inl (AgentAuditUnavailable ''agent audit event could not be persisted''), t, events)
        else (Inr (), t\<lparr>at_sequence := n\<rparr>, events @ [e]))"

definition read_run :: "audit_trail \<Rightarrow> agent_audit_event list \<Rightarrow> agent_audit_event list" where
  "read_run t events = sort_key av_sequence
     (filter (\<lambda>e. av_run_id e = at_run_id t \<and> av_organization_id e = at_organization_id t) events)"

section \<open>Many trails on one table\<close>

text \<open>Step \<open>(i, env, q)\<close>: the \<open>i\<close>-th trail records \<open>q\<close>.\<close>

type_synonym trail_step = "nat \<times> audit_env \<times> audit_request"

definition trail_step ::
    "(rat \<Rightarrow> string) \<Rightarrow> trail_step \<Rightarrow> audit_trail list \<times> agent_audit_event list
     \<Rightarrow> (audit_failure + unit) \<times> audit_trail list \<times> agent_audit_event list" where
  "trail_step frepr = (\<lambda>(i, env, q) (ts, events).
     (case record_event frepr env q (ts ! i) events of (r, t, events') \<Rightarrow> (r, ts[i := t], events')))"

text \<open>What the \<open>i\<close>-th trail has recorded, and the rows that have to stand for it.\<close>

definition written :: "nat \<Rightarrow> trail_step list \<Rightarrow> (audit_failure + unit) list \<Rightarrow> (audit_env \<times> audit_request) list" where
  "written i steps rs = map (\<lambda>(s, r). snd s) (filter (\<lambda>(s, r). fst s = i \<and> r = Inr ()) (zip steps rs))"

fun numbered ::
    "(rat \<Rightarrow> string) \<Rightarrow> nat \<Rightarrow> audit_trail \<Rightarrow> (audit_env \<times> audit_request) list \<Rightarrow> agent_audit_event list" where
  "numbered frepr n t [] = []"
| "numbered frepr n t ((env, q) # xs) = audit_event frepr n t env q # numbered frepr (Suc n) t xs"

definition run_rows :: "string \<Rightarrow> agent_audit_event list \<Rightarrow> agent_audit_event list" where
  "run_rows run events = filter (\<lambda>e. av_run_id e = run) events"

text \<open>The rows of every run are numbered from one without a gap.\<close>

definition gapless :: "agent_audit_event list \<Rightarrow> bool" where
  "gapless events \<longleftrightarrow> (\<forall>run. map av_sequence (run_rows run events) = [1..<Suc (length (run_rows run events))])"

section \<open>Lemmas\<close>

lemma run_results_snoc:
  "run_results exec (cs @ [c]) s = (case run_results exec cs s of (rs, t) \<Rightarrow>
     (case exec c t of (r, u) \<Rightarrow> (rs @ [r], u)))"
  by (induction cs arbitrary: s) (simp_all split: prod.splits)

lemma length_run_results: "length (fst (run_results exec cs s)) = length cs"
  by (induction cs arbitrary: s) (simp_all split: prod.splits, metis fst_conv)

lemma written_snoc:
  "length rs = length steps \<Longrightarrow>
   written i (steps @ [s]) (rs @ [r]) = written i steps rs @ (if fst s = i \<and> r = Inr () then [snd s] else [])"
  by (simp add: written_def)

lemma numbered_append:
  "numbered frepr n t (xs @ ys) = numbered frepr n t xs @ numbered frepr (n + length xs) t ys"
  by (induction frepr n t xs rule: numbered.induct) simp_all

lemma length_numbered [simp]: "length (numbered frepr n t xs) = length xs"
  by (induction frepr n t xs rule: numbered.induct) simp_all

lemma numbered_rows:
  "e \<in> set (numbered frepr n t xs) \<Longrightarrow> av_run_id e = at_run_id t \<and> av_organization_id e = at_organization_id t"
  by (induction frepr n t xs rule: numbered.induct) (auto simp: audit_event_def)

lemma numbered_sequences: "map av_sequence (numbered frepr n t xs) = [n..<n + length xs]"
  by (induction frepr n t xs rule: numbered.induct) (simp_all add: audit_event_def upt_rec)

lemma numbered_sorted: "sort_key av_sequence (numbered frepr n t xs) = numbered frepr n t xs"
  by (rule sort_key_id_if_sorted) (simp only: numbered_sequences sorted_upt)

lemma numbered_identity:
  "audit_event frepr n (t\<lparr>at_sequence := k\<rparr>) env q = audit_event frepr n t env q"
  by (simp add: audit_event_def)

lemma run_rows_append [simp]: "run_rows run (events @ [e]) = run_rows run events @ (if av_run_id e = run then [e] else [])"
  by (simp add: run_rows_def)

text \<open>A gapless table takes the next number of a run and no other.\<close>

lemma gapless_next:
  assumes "gapless events" and "event_accepted env e events" and "av_sequence e \<le> Suc (length (run_rows (av_run_id e) events))"
  shows "av_sequence e = Suc (length (run_rows (av_run_id e) events))"
proof (rule ccontr)
  let ?rows = "run_rows (av_run_id e) events"
  assume "av_sequence e \<noteq> Suc (length ?rows)"
  with assms(2,3) have "av_sequence e \<in> set [1..<Suc (length ?rows)]"
    by (auto simp: event_accepted_def)
  then have "av_sequence e \<in> set (map av_sequence ?rows)"
    using assms(1) unfolding gapless_def by metis
  then obtain r where "r \<in> set events" "av_run_id r = av_run_id e" "av_sequence r = av_sequence e"
    by (auto simp: run_rows_def)
  then have "(av_run_id e, av_sequence e) \<in> (\<lambda>r. (av_run_id r, av_sequence r)) ` set events"
    by (metis (mono_tags, lifting) image_eqI)
  with assms(2) show False by (simp add: event_accepted_def)
qed

lemma gapless_append:
  assumes "gapless events" and "av_sequence e = Suc (length (run_rows (av_run_id e) events))"
  shows "gapless (events @ [e])"
  using assms by (simp add: gapless_def)

text \<open>
  The trails \<open>ts\<close> grown out of \<open>ts0\<close>: each has recorded what \<open>w\<close> says, its rows are all the rows of
  its run, and of two trails with one run identity at most one has recorded anything.
\<close>

definition trail_of :: "(rat \<Rightarrow> string) \<Rightarrow> audit_trail \<Rightarrow> (audit_env \<times> audit_request) list \<Rightarrow> audit_trail
    \<Rightarrow> agent_audit_event list \<Rightarrow> bool" where
  "trail_of frepr t0 xs t events \<longleftrightarrow> t = t0\<lparr>at_sequence := length xs\<rparr>
     \<and> (xs \<noteq> [] \<longrightarrow> run_rows (at_run_id t0) events = numbered frepr 1 t0 xs)"

definition trails_of :: "(rat \<Rightarrow> string) \<Rightarrow> audit_trail list \<Rightarrow> (nat \<Rightarrow> (audit_env \<times> audit_request) list)
    \<Rightarrow> audit_trail list \<Rightarrow> agent_audit_event list \<Rightarrow> bool" where
  "trails_of frepr ts0 w ts events \<longleftrightarrow> gapless events \<and> length ts = length ts0
     \<and> (\<forall>i<length ts0. trail_of frepr (ts0 ! i) (w i) (ts ! i) events)
     \<and> (\<forall>i<length ts0. \<forall>j<length ts0. i \<noteq> j \<and> at_run_id (ts0 ! i) = at_run_id (ts0 ! j) \<longrightarrow> w i = [] \<or> w j = [])"

lemma record_event_cases:
  assumes "record_event frepr env q t events = (r, t', events')"
  obtains "r \<noteq> Inr ()" "t' = t" "events' = events"
  | "r = Inr ()" "t' = t\<lparr>at_sequence := Suc (at_sequence t)\<rparr>"
    "event_accepted env (audit_event frepr (Suc (at_sequence t)) t env q) events"
    "events' = events @ [audit_event frepr (Suc (at_sequence t)) t env q]"
proof (cases "r = Inr ()")
  case True
  with assms show thesis
    by (intro that(2)) (auto simp: record_event_def Let_def split: if_split_asm)
next
  case False
  with assms show thesis
    by (intro that(1)) (auto simp: record_event_def Let_def split: if_split_asm)
qed

lemma rows_of_trail:
  assumes "trail_of frepr t0 xs t events" and "gapless events"
    and "event_accepted env (audit_event frepr (Suc (length xs)) t0 env q) events"
  shows "run_rows (at_run_id t0) events = numbered frepr 1 t0 xs"
proof (cases "xs = []")
  case True
  then have "av_sequence (audit_event frepr 1 t0 env q)
      = Suc (length (run_rows (av_run_id (audit_event frepr 1 t0 env q)) events))"
    using gapless_next [OF assms(2), of env "audit_event frepr 1 t0 env q"] assms(3) by (simp add: audit_event_def)
  then show ?thesis using True by (simp add: audit_event_def)
qed (use assms(1) in \<open>simp add: trail_of_def\<close>)

lemma trails_step:
  assumes inv: "trails_of frepr ts0 w ts events" and i: "i < length ts0"
    and acc: "event_accepted env (audit_event frepr (Suc (length (w i))) (ts0 ! i) env q) events"
  shows "trails_of frepr ts0 (w(i := w i @ [(env, q)])) (ts[i := (ts0 ! i)\<lparr>at_sequence := Suc (length (w i))\<rparr>])
      (events @ [audit_event frepr (Suc (length (w i))) (ts0 ! i) env q])"
proof -
  let ?t = "ts0 ! i" and ?e = "audit_event frepr (Suc (length (w i))) (ts0 ! i) env q"
  have run: "av_run_id ?e = at_run_id ?t" and num: "av_sequence ?e = Suc (length (w i))"
    by (simp_all add: audit_event_def)
  have rows: "run_rows (at_run_id ?t) events = numbered frepr 1 ?t (w i)"
    using inv i acc by (intro rows_of_trail [of frepr ?t _ "ts ! i"]) (simp_all add: trails_of_def)
  have "gapless (events @ [?e])"
    using inv rows run num by (intro gapless_append) (simp_all add: trails_of_def)
  moreover have alone: "w j = []" if "j < length ts0" "j \<noteq> i" "at_run_id (ts0 ! j) = at_run_id ?t" for j
  proof (rule ccontr)
    assume j: "w j \<noteq> []"
    then have "run_rows (at_run_id ?t) events = numbered frepr 1 (ts0 ! j) (w j)"
      using inv that(1,3) unfolding trails_of_def trail_of_def by metis
    with rows have "length (w i) = length (w j)" by (metis length_numbered)
    moreover have "w i = []" using inv i that j unfolding trails_of_def by blast
    ultimately show False using j by simp
  qed
  moreover have "trail_of frepr (ts0 ! j) ((w(i := w i @ [(env, q)])) j)
      (ts[i := ?t\<lparr>at_sequence := Suc (length (w i))\<rparr>] ! j) (events @ [?e])" if "j < length ts0" for j
    using inv rows run alone [OF that] that
    by (cases "j = i") (auto simp: trails_of_def trail_of_def numbered_append)
  ultimately show ?thesis using inv by (auto simp: trails_of_def)
qed

lemma trails_run:
  assumes "gapless events0" and "\<forall>t\<in>set ts0. at_sequence t = 0" and "\<forall>s\<in>set steps. fst s < length ts0"
    and "run_results (trail_step frepr) steps (ts0, events0) = (rs, ts, events)"
  shows "trails_of frepr ts0 (\<lambda>i. written i steps rs) ts events"
  using assms(3,4)
proof (induction steps arbitrary: rs ts events rule: rev_induct)
  case Nil
  then show ?case using assms(1,2) by (auto simp: trails_of_def trail_of_def written_def)
next
  case (snoc s steps)
  obtain rs1 ts1 ev1 where run: "run_results (trail_step frepr) steps (ts0, events0) = (rs1, ts1, ev1)"
    by (metis prod_cases3)
  obtain i env q where s: "s = (i, env, q)" by (metis prod_cases3)
  obtain r t' where r: "record_event frepr env q (ts1 ! i) ev1 = (r, t', events)" "rs = rs1 @ [r]" "ts = ts1[i := t']"
    using snoc.prems(2) run s by (auto simp: run_results_snoc trail_step_def split: prod.splits)
  have IH: "trails_of frepr ts0 (\<lambda>i. written i steps rs1) ts1 ev1" using snoc.IH [OF _ run] snoc.prems(1) by simp
  have i: "i < length ts0" using snoc.prems(1) s by simp
  have len: "length rs1 = length steps" using length_run_results [of "trail_step frepr" steps "(ts0, events0)"] run by simp
  have t: "ts1 ! i = (ts0 ! i)\<lparr>at_sequence := length (written i steps rs1)\<rparr>"
    using IH i by (simp add: trails_of_def trail_of_def)
  show ?case
  proof (rule record_event_cases [OF r(1)])
    assume "r \<noteq> Inr ()" "t' = ts1 ! i" "events = ev1"
    with IH r len show ?thesis by (simp add: written_snoc)
  next
    assume ok: "r = Inr ()" "t' = (ts1 ! i)\<lparr>at_sequence := Suc (at_sequence (ts1 ! i))\<rparr>"
      "event_accepted env (audit_event frepr (Suc (at_sequence (ts1 ! i))) (ts1 ! i) env q) ev1"
      "events = ev1 @ [audit_event frepr (Suc (at_sequence (ts1 ! i))) (ts1 ! i) env q]"
    have "(\<lambda>j. written j (steps @ [s]) rs) = (\<lambda>j. written j steps rs1)(i := written i steps rs1 @ [(env, q)])"
      using r(2) ok(1) s len by (auto simp: written_snoc)
    then show ?thesis
      using trails_step [OF IH i, of env q] ok r(3) t by (simp add: numbered_identity)
  qed
qed

section \<open>Reading a run back\<close>

text \<open>C40: Whatever a run has recorded is read back whole and in order, and nothing else: however any number of
  trails record into a table, with whatever failures, a trail that recorded anything reads exactly its
  own events, numbered from one, these are all the rows of its run in any organization, and no other
  trail with the same run identity has recorded anything.
\<close>

theorem agent_runs_read_back:
  assumes "gapless events0" and "\<forall>t\<in>set ts0. at_sequence t = 0" and "\<forall>s\<in>set steps. fst s < length ts0"
    and "run_results (trail_step frepr) steps (ts0, events0) = (rs, ts, events)"
    and "i < length ts0" and "written i steps rs \<noteq> []"
  shows "read_run (ts ! i) events = numbered frepr 1 (ts0 ! i) (written i steps rs)
    \<and> filter (\<lambda>e. av_run_id e = at_run_id (ts0 ! i)) events = read_run (ts ! i) events
    \<and> map av_sequence (read_run (ts ! i) events) = [1..<Suc (length (written i steps rs))]
    \<and> (\<forall>j<length ts0. j \<noteq> i \<and> at_run_id (ts0 ! j) = at_run_id (ts0 ! i) \<longrightarrow> written j steps rs = [])"
proof -
  let ?w = "written i steps rs" and ?t = "ts0 ! i"
  have inv: "trails_of frepr ts0 (\<lambda>i. written i steps rs) ts events"
    by (rule trails_run [OF assms(1-4)])
  have t: "ts ! i = ?t\<lparr>at_sequence := length ?w\<rparr>"
    and rows: "filter (\<lambda>e. av_run_id e = at_run_id ?t) events = numbered frepr 1 ?t ?w"
    using inv assms(5,6) by (simp_all add: trails_of_def trail_of_def run_rows_def)
  have "filter (\<lambda>e. av_run_id e = at_run_id ?t \<and> av_organization_id e = at_organization_id ?t) events
      = filter (\<lambda>e. av_organization_id e = at_organization_id ?t) (numbered frepr 1 ?t ?w)"
    unfolding rows [symmetric] by (simp add: conj_commute)
  also have "\<dots> = numbered frepr 1 ?t ?w"
    using numbered_rows by (auto simp: filter_id_conv)
  finally have "read_run (ts ! i) events = numbered frepr 1 ?t ?w"
    by (simp add: read_run_def t numbered_sorted)
  then show ?thesis
    using inv assms(5,6) rows numbered_sequences [of frepr 1 ?t ?w] unfolding trails_of_def by auto
qed

definition sample_trail :: "identity \<Rightarrow> audit_trail" where
  "sample_trail org = \<lparr>at_run_id = ''run-1'', at_organization_id = org, at_user_id = 1,
     at_actor_context = ''user:1'', at_sequence = 0\<rparr>"

definition sample_steps :: "trail_step list" where
  "sample_steps = map (\<lambda>(i, k, commits). (i,
       \<lparr>ae_row_id = k, ae_event_id = str_int k, ae_now = k, ae_organizations = [1, 2],
        ae_members = [(1, 1), (1, 2)], ae_commits = commits\<rparr>,
       \<lparr>aq_event_type = RUN_STARTED, aq_outcome = None, aq_reason_code = None, aq_payload = None\<rparr>))
     [(0, 1, True), (1, 2, True), (0, 3, False), (0, 4, True)]"

lemma sample_audit:
  "fst (run_results (trail_step (\<lambda>q. [])) sample_steps ([sample_trail 1, sample_trail 2], []))
     = [Inr (), Inl (AgentAuditUnavailable ''agent audit event could not be persisted''),
        Inl (AgentAuditUnavailable ''agent audit event could not be persisted''), Inr ()]"
  by code_simp

theorem agent_runs_read_back_witness:
  "map av_id (read_run (sample_trail 1)
     (snd (snd (run_results (trail_step (\<lambda>q. [])) sample_steps ([sample_trail 1, sample_trail 2], []))))) = [1, 4]"
proof -
  obtain rs ts events where run:
    "run_results (trail_step (\<lambda>q. [])) sample_steps ([sample_trail 1, sample_trail 2], []) = (rs, ts, events)"
    by (metis prod_cases3)
  then have rs: "rs = [Inr (), Inl (AgentAuditUnavailable ''agent audit event could not be persisted''),
      Inl (AgentAuditUnavailable ''agent audit event could not be persisted''), Inr ()]"
    using sample_audit by simp
  have w: "map (\<lambda>x. ae_row_id (fst x)) (written 0 sample_steps rs) = [1, 4]"
    unfolding rs written_def sample_steps_def by simp
  have "read_run (ts ! 0) events = numbered (\<lambda>q. []) 1 ([sample_trail 1, sample_trail 2] ! 0) (written 0 sample_steps rs)"
    using w agent_runs_read_back [OF _ _ _ run, of 0]
    by (auto simp: gapless_def run_rows_def sample_trail_def sample_steps_def)
  moreover have "read_run (ts ! 0) events = read_run (sample_trail 1) events"
    using trails_run [OF _ _ _ run]
    by (simp add: read_run_def trails_of_def trail_of_def gapless_def run_rows_def sample_trail_def sample_steps_def
        All_less_Suc)
  moreover have "map av_id (numbered (\<lambda>q. []) n t xs) = map (\<lambda>x. ae_row_id (fst x)) xs" for n t xs
    by (induction "\<lambda>q :: rat. [] :: char list" n t xs rule: numbered.induct) (simp_all add: audit_event_def)
  ultimately show ?thesis using run w by simp
qed

end
